(* ===== verification/Py.thy ===== *)
theory Py
  imports Complex_Main "HOL-Library.AList"
begin

text \<open>
  The prelude: the part of Python that the edge agent's code rests on. Dynamic (JSON) values with
  truthiness, \<open>str\<close>, \<open>float\<close>, dictionary access and membership tests; exceptions as values; statement
  sequences in which the first \<open>raise\<close> wins; text functions (\<open>lower\<close>, \<open>strip\<close>, decimal printing); and
  the generic lemmas the component theories share.

  Conventions of the whole development. A Python text is a \<open>string\<close>, a list of 8-bit characters; the
  operator texts of the source that are not ASCII are written as English texts between angle brackets,
  one such text per text of the source. A finite float is a real number: the rounding of binary floating
  point is not modelled, NaN and the infinities are. \<open>str\<close> of a float, a list or a dictionary is one fixed
  text per type that starts as Python's text does; the code only compares such a text with keywords,
  tests it for emptiness, or shows it to an operator. Every reading of a clock, every fresh UUID and
  every answer of a device is an argument.
\<close>

section \<open>Collections of rules\<close>

named_theorems py_simps \<open>computation rules for Python values\<close>

section \<open>Python values\<close>

datatype pyfloat = Fin real | PosInf | NegInf | NaN

datatype pyval =
    PNone
  | PBool bool
  | PInt int
  | PFloat pyfloat
  | PStr string
  | PList "pyval list"
  | PDict "(string \<times> pyval) list"

type_synonym pydict = "(string \<times> pyval) list"

datatype pyexc =
    ProtocolError string string pyval
  | ValueError
  | TypeError
  | AttributeError
  | KeyError
  | IndexError
  | OverflowError
  | RuntimeError string
  | SelfHealingPolicyError string
  | IntegrityError string
  | InterfaceError
  | UnboundLocalError
  | MapConstraintError string string
  | TaskStateError string
  | PatrolLoopError string
  | DockingDispatchError string string
  | PermissionDenied string
  | OperationalError string
  | DoesNotExist
  | ValidationError
  | DatabaseError
  | MultipleObjectsReturned

type_synonym 'a pyres = "pyexc + 'a"

text \<open>\<open>str(exc)\<close>; the texts of Python's own exceptions are only shown to an operator.\<close>

fun exc_text :: "pyexc \<Rightarrow> string" where
  "exc_text (ProtocolError code message data) = message"
| "exc_text (RuntimeError message) = message"
| "exc_text (MapConstraintError code message) = message"
| "exc_text (TaskStateError message) = message"
| "exc_text (PatrolLoopError message) = message"
| "exc_text (PermissionDenied message) = message"
| "exc_text (DockingDispatchError code message) = message"
| "exc_text (OperationalError message) = message"
| "exc_text _ = ''<error>''"

abbreviation protocol_error :: "string \<Rightarrow> string \<Rightarrow> pyexc" where
  "protocol_error code message \<equiv> ProtocolError code message PNone"

text \<open>The clock of one call: its successive readings of \<open>time.monotonic\<close>.\<close>

type_synonym clock = "nat \<Rightarrow> real"

section \<open>Statements that may raise\<close>

definition raise_if :: "bool \<Rightarrow> pyexc \<Rightarrow> unit pyres" where
  "raise_if c e = (if c then Inl e else Inr ())"

fun seqE :: "unit pyres list \<Rightarrow> unit pyres" where
  "seqE [] = Inr ()"
| "seqE (s # ss) = (case s of Inl e \<Rightarrow> Inl e | Inr _ \<Rightarrow> seqE ss)"

definition bindE :: "'a pyres \<Rightarrow> ('a \<Rightarrow> 'b pyres) \<Rightarrow> 'b pyres" where
  "bindE m f = (case m of Inl e \<Rightarrow> Inl e | Inr a \<Rightarrow> f a)"

text \<open>A loop \<open>for index, item in enumerate(items)\<close> whose body may raise.\<close>

fun for_each :: "nat \<Rightarrow> (nat \<Rightarrow> 'a \<Rightarrow> unit pyres) \<Rightarrow> 'a list \<Rightarrow> unit pyres" where
  "for_each i body [] = Inr ()"
| "for_each i body (x # xs) = (case body i x of Inl e \<Rightarrow> Inl e | Inr _ \<Rightarrow> for_each (Suc i) body xs)"

lemma raise_if_ok [simp]: "raise_if c e = Inr u \<longleftrightarrow> \<not> c"
  by (simp add: raise_if_def)

lemma raise_if_err [simp]: "raise_if c e = Inl e' \<longleftrightarrow> c \<and> e' = e"
  by (auto simp: raise_if_def)

lemma seqE_ok: "seqE ss = Inr u \<longleftrightarrow> (\<forall>s \<in> set ss. s = Inr ())"
  by (induction ss) (auto split: sum.splits)

lemma seqE_append: "seqE (xs @ ys) = (case seqE xs of Inl e \<Rightarrow> Inl e | Inr _ \<Rightarrow> seqE ys)"
  by (induction xs) (auto split: sum.splits)

lemma bindE_ok [simp]: "bindE m f = Inr b \<longleftrightarrow> (\<exists>a. m = Inr a \<and> f a = Inr b)"
  by (auto simp: bindE_def split: sum.splits)

lemma bindE_Inr [simp]: "bindE (Inr a) f = f a"
  by (simp add: bindE_def)

lemma bindE_Inl [simp]: "bindE (Inl e) f = Inl e"
  by (simp add: bindE_def)

lemma bindE_err: "bindE m f = Inl x \<longleftrightarrow> m = Inl x \<or> (\<exists>a. m = Inr a \<and> f a = Inl x)"
  by (auto simp: bindE_def split: sum.splits)

lemma if_Inr_err: "(if c then Inr a else m) = Inl x \<longleftrightarrow> \<not> c \<and> m = Inl x"
  by simp

lemma for_each_ok:
  "for_each k body xs = Inr u \<longleftrightarrow> (\<forall>i < length xs. body (k + i) (xs ! i) = Inr ())"
proof (induction xs arbitrary: k)
  case Nil
  then show ?case by simp
next
  case (Cons x xs)
  show ?case
    using Cons.IH [of "Suc k"] by (cases "body k x") (auto simp: All_less_Suc2)
qed

declare seqE.simps [simp del] for_each.simps [simp del]

section \<open>Truth, defaults, dictionaries\<close>

fun truthy :: "pyval \<Rightarrow> bool" where
  "truthy PNone = False"
| "truthy (PBool b) = b"
| "truthy (PInt n) = (n \<noteq> 0)"
| "truthy (PFloat f) = (f \<noteq> Fin 0)"
| "truthy (PStr s) = (s \<noteq> [])"
| "truthy (PList xs) = (xs \<noteq> [])"
| "truthy (PDict d) = (d \<noteq> [])"

definition py_or :: "pyval \<Rightarrow> pyval \<Rightarrow> pyval" where
  "py_or a b = (if truthy a then a else b)"

text \<open>\<open>d.get(k)\<close>, \<open>d.get(k, default)\<close> and \<open>k in d\<close> for a dictionary.\<close>

definition dget :: "pydict \<Rightarrow> string \<Rightarrow> pyval" where
  "dget d k = (case map_of d k of None \<Rightarrow> PNone | Some v \<Rightarrow> v)"

definition dget_def_val :: "pydict \<Rightarrow> string \<Rightarrow> pyval \<Rightarrow> pyval" where
  "dget_def_val d k dflt = (case map_of d k of None \<Rightarrow> dflt | Some v \<Rightarrow> v)"

definition has_key :: "pydict \<Rightarrow> string \<Rightarrow> bool" where
  "has_key d k = (map_of d k \<noteq> None)"

text \<open>\<open>v.get(k)\<close> where \<open>v\<close> may be any value: only a dictionary has the method.\<close>

fun py_get :: "pyval \<Rightarrow> string \<Rightarrow> pyval pyres" where
  "py_get (PDict d) k = Inr (dget d k)"
| "py_get _ k = Inl AttributeError"

text \<open>\<open>d[k]\<close>.\<close>

definition dsub :: "pydict \<Rightarrow> string \<Rightarrow> pyval pyres" where
  "dsub d k = (case map_of d k of None \<Rightarrow> Inl KeyError | Some v \<Rightarrow> Inr v)"

text \<open>\<open>v or {}\<close> as a dictionary to call \<open>get\<close> on; the error is that of \<open>get\<close> on a truthy non-dictionary.\<close>

fun as_dict :: "pyval \<Rightarrow> pydict pyres" where
  "as_dict (PDict d) = Inr d"
| "as_dict v = (if truthy v then Inl AttributeError else Inr [])"

fun is_dict :: "pyval \<Rightarrow> bool" where
  "is_dict (PDict _) = True"
| "is_dict _ = False"

fun is_list :: "pyval \<Rightarrow> bool" where
  "is_list (PList _) = True"
| "is_list _ = False"

fun is_bool :: "pyval \<Rightarrow> bool" where
  "is_bool (PBool _) = True"
| "is_bool _ = False"

fun is_str :: "pyval \<Rightarrow> bool" where
  "is_str (PStr _) = True"
| "is_str _ = False"

text \<open>\<open>isinstance(v, (int, float))\<close> and not \<open>isinstance(v, bool)\<close>: a boolean is an \<open>int\<close> in Python.\<close>

fun is_number :: "pyval \<Rightarrow> bool" where
  "is_number (PInt _) = True"
| "is_number (PFloat _) = True"
| "is_number _ = False"

text \<open>\<open>v is True\<close>.\<close>

definition is_true :: "pyval \<Rightarrow> bool" where
  "is_true v = (v = PBool True)"

text \<open>\<open>v == n\<close> for an integer \<open>n\<close>: booleans and floats compare as numbers.\<close>

fun py_eq_int :: "pyval \<Rightarrow> int \<Rightarrow> bool" where
  "py_eq_int (PInt m) n = (m = n)"
| "py_eq_int (PBool b) n = (n = (if b then 1 else 0))"
| "py_eq_int (PFloat (Fin x)) n = (x = of_int n)"
| "py_eq_int _ n = False"

text \<open>\<open>v in {s1, s2, ...}\<close> for a set of texts: a list or a dictionary is not hashable.\<close>

fun in_strs :: "pyval \<Rightarrow> string list \<Rightarrow> bool pyres" where
  "in_strs (PStr s) S = Inr (s \<in> set S)"
| "in_strs (PList _) S = Inl TypeError"
| "in_strs (PDict _) S = Inl TypeError"
| "in_strs _ S = Inr False"

lemma dsub_ok: "dsub d k = Inr v \<longleftrightarrow> has_key d k \<and> dget d k = v"
  by (auto simp: dsub_def has_key_def dget_def split: option.splits)

lemma dsub_Cons [simp]: "dsub ((k', v) # d) k = (if k = k' then Inr v else dsub d k)"
  by (simp add: dsub_def)

lemma as_dict_ok: "as_dict v = Inr d \<longleftrightarrow> v = PDict d \<or> \<not> truthy v \<and> \<not> is_dict v \<and> d = []"
  by (cases v) auto

lemma py_get_ok: "py_get v k = Inr w \<longleftrightarrow> (\<exists>d. v = PDict d \<and> dget d k = w)"
  by (cases v) auto

lemma dget_Nil [simp]: "dget [] k = PNone"
  by (simp add: dget_def)

lemma dget_Cons [simp]: "dget ((k', v) # d) k = (if k = k' then v else dget d k)"
  by (simp add: dget_def)

lemma has_key_Nil [simp]: "has_key [] k = False"
  by (simp add: has_key_def)

lemma has_key_Cons [simp]: "has_key ((k', v) # d) k = (k = k' \<or> has_key d k)"
  by (simp add: has_key_def)

lemma dget_def_val_Nil [simp]: "dget_def_val [] k v = v"
  by (simp add: dget_def_val_def)

lemma dget_def_val_Cons [simp]:
  "dget_def_val ((k', w) # d) k v = (if k = k' then w else dget_def_val d k v)"
  by (simp add: dget_def_val_def)

lemma py_or_truthy [simp]: "truthy a \<Longrightarrow> py_or a b = a"
  by (simp add: py_or_def)

lemma py_or_falsy [simp]: "\<not> truthy a \<Longrightarrow> py_or a b = b"
  by (simp add: py_or_def)

lemma is_number_not_bool: "is_number v \<Longrightarrow> \<not> is_bool v"
  by (cases v) auto

end
