(* ===== verification/PyText.thy ===== *)
theory PyText
  imports Py
begin

text \<open>
  The text side of the prelude: case folding, \<open>strip\<close>, decimal printing, \<open>str\<close> and \<open>float\<close> of a dynamic
  value, \<open>int(text, 16)\<close> and \<open>uuid.UUID\<close>, and \<open>datetime.fromisoformat\<close> as Python 3.10 (the interpreter of
  the robot's ROS 2 Humble image) defines it.
\<close>

section \<open>Characters and case\<close>

abbreviation code_of :: "char \<Rightarrow> nat" where
  "code_of c \<equiv> of_char c"

definition lower_char :: "char \<Rightarrow> char" where
  "lower_char c = (if 65 \<le> code_of c \<and> code_of c \<le> 90 then char_of (code_of c + 32) else c)"

definition lower :: "string \<Rightarrow> string" where
  "lower s = map lower_char s"

definition is_space :: "char \<Rightarrow> bool" where
  "is_space c = (code_of c = 32 \<or> (9 \<le> code_of c \<and> code_of c \<le> 13)
                \<or> (28 \<le> code_of c \<and> code_of c \<le> 31))"

definition strip_by :: "(char \<Rightarrow> bool) \<Rightarrow> string \<Rightarrow> string" where
  "strip_by p s = rev (dropWhile p (rev (dropWhile p s)))"

definition strip :: "string \<Rightarrow> string" where
  "strip s = strip_by is_space s"

lemma length_lower [simp]: "length (lower s) = length s"
  by (simp add: lower_def)

lemma lower_Nil [simp]: "lower [] = []"
  by (simp add: lower_def)

lemma lower_char_idem [simp]: "lower_char (lower_char c) = lower_char c"
  by (auto simp: lower_char_def)

lemma lower_idem [simp]: "lower (lower s) = lower s"
  by (simp add: lower_def)

lemma dropWhile_none: "\<forall>c \<in> set s. \<not> p c \<Longrightarrow> dropWhile p s = s"
  by (cases s) auto

lemma strip_by_id: "\<forall>c \<in> set s. \<not> p c \<Longrightarrow> strip_by p s = s"
  by (simp add: strip_by_def dropWhile_none)

section \<open>Decimal texts\<close>

definition digit_char :: "nat \<Rightarrow> char" where
  "digit_char d = char_of (48 + d)"

fun show_nat :: "nat \<Rightarrow> string" where
  "show_nat n = (if n < 10 then [digit_char n] else show_nat (n div 10) @ [digit_char (n mod 10)])"

declare show_nat.simps [simp del]

definition show_int :: "int \<Rightarrow> string" where
  "show_int n = (if n < 0 then ''-'' @ show_nat (nat (- n)) else show_nat (nat n))"

definition is_digit :: "char \<Rightarrow> bool" where
  "is_digit c = (48 \<le> code_of c \<and> code_of c \<le> 57)"

definition digit_val :: "char \<Rightarrow> nat" where
  "digit_val c = code_of c - 48"

definition nat_of_digits :: "string \<Rightarrow> nat" where
  "nat_of_digits s = foldl (\<lambda>n c. 10 * n + digit_val c) 0 s"

text \<open>The digit groups of a numeric literal: single underscores are allowed between digits.\<close>

fun digit_group :: "bool \<Rightarrow> string \<Rightarrow> string option" where
  "digit_group seen [] = (if seen then Some [] else None)"
| "digit_group seen (c # cs) =
     (if is_digit c then map_option (\<lambda>ds. c # ds) (digit_group True cs)
      else if c = CHR ''_'' \<and> seen then
        (case cs of [] \<Rightarrow> None
         | d # ds \<Rightarrow> if is_digit d then digit_group True (d # ds) else None)
      else None)"

lemma show_nat_nonempty [simp]: "show_nat n \<noteq> []"
  by (subst show_nat.simps) simp

lemma code_digit_char: "d < 10 \<Longrightarrow> code_of (digit_char d) = 48 + d"
  by (simp add: digit_char_def)

lemma digit_val_digit_char [simp]: "d < 10 \<Longrightarrow> digit_val (digit_char d) = d"
  by (simp add: digit_val_def code_digit_char)

lemma nat_of_digits_snoc: "nat_of_digits (s @ [c]) = 10 * nat_of_digits s + digit_val c"
  by (simp add: nat_of_digits_def)

lemma nat_of_digits_show_nat [simp]: "nat_of_digits (show_nat n) = n"
proof (induction n rule: show_nat.induct)
  case (1 n)
  show ?case
  proof (cases "n < 10")
    case True
    then show ?thesis by (simp add: show_nat.simps [of n] nat_of_digits_def)
  next
    case False
    with 1 show ?thesis by (simp add: show_nat.simps [of n] nat_of_digits_snoc)
  qed
qed

lemma show_nat_digits [simp]: "c \<in> set (show_nat n) \<Longrightarrow> is_digit c"
proof (induction n rule: show_nat.induct)
  case (1 n)
  have "is_digit (digit_char d)" if "d < 10" for d using that by (simp add: is_digit_def code_digit_char)
  with 1 show ?case by (cases "n < 10") (auto simp: show_nat.simps [of n])
qed

lemma show_nat_inj: "show_nat m = show_nat n \<longleftrightarrow> m = n"
  by (metis nat_of_digits_show_nat)

section \<open>str and float of a dynamic value\<close>

fun py_str :: "pyval \<Rightarrow> string" where
  "py_str PNone = ''None''"
| "py_str (PBool b) = (if b then ''True'' else ''False'')"
| "py_str (PInt n) = show_int n"
| "py_str (PFloat (Fin x)) = (if x < 0 then ''-0.0<float>'' else ''0.0<float>'')"
| "py_str (PFloat PosInf) = ''inf''"
| "py_str (PFloat NegInf) = ''-inf''"
| "py_str (PFloat NaN) = ''nan''"
| "py_str (PStr s) = s"
| "py_str (PList xs) = (if xs = [] then ''[]'' else ''[<list>]'')"
| "py_str (PDict d) = (if d = [] then ''{}'' else ''{<dict>}'')"

text \<open>\<open>str(v or dflt)\<close> for a text default.\<close>

abbreviation str_or :: "pyval \<Rightarrow> string \<Rightarrow> string" where
  "str_or v dflt \<equiv> py_str (py_or v (PStr dflt))"

text \<open>\<open>float(text)\<close>: optional sign, then \<open>inf\<close>, \<open>infinity\<close>, \<open>nan\<close> or a decimal literal.\<close>

fun break_at :: "(char \<Rightarrow> bool) \<Rightarrow> string \<Rightarrow> string \<times> string option" where
  "break_at p [] = ([], None)"
| "break_at p (c # cs) =
     (if p c then ([], Some cs) else (case break_at p cs of (a, b) \<Rightarrow> (c # a, b)))"

definition parse_sign :: "string \<Rightarrow> bool \<times> string" where
  "parse_sign s = (case s of c # cs \<Rightarrow> if c = CHR ''-'' then (True, cs)
      else if c = CHR ''+'' then (False, cs) else (False, s) | [] \<Rightarrow> (False, []))"

definition parse_exponent :: "string option \<Rightarrow> int option" where
  "parse_exponent e = (case e of None \<Rightarrow> Some 0
     | Some t \<Rightarrow> (case parse_sign t of (neg, ds) \<Rightarrow>
         map_option (\<lambda>g. (if neg then - 1 else 1) * int (nat_of_digits g)) (digit_group False ds)))"

definition parse_mantissa :: "string \<Rightarrow> (nat \<times> nat) option" where
  "parse_mantissa m = (case break_at (\<lambda>c. c = CHR ''.'') m of
      (a, None) \<Rightarrow> map_option (\<lambda>g. (nat_of_digits g, 0)) (digit_group False a)
    | (a, Some b) \<Rightarrow>
        (case (if a = [] \<and> b \<noteq> [] then Some [] else digit_group False a,
               if b = [] then Some [] else digit_group False b) of
          (Some ga, Some gb) \<Rightarrow> Some (nat_of_digits (ga @ gb), length gb)
        | _ \<Rightarrow> None))"

definition parse_float :: "string \<Rightarrow> pyfloat option" where
  "parse_float s = (case parse_sign (lower (strip s)) of (neg, t) \<Rightarrow>
     if t = ''inf'' \<or> t = ''infinity'' then Some (if neg then NegInf else PosInf)
     else if t = ''nan'' then Some NaN
     else (case break_at (\<lambda>c. c = CHR ''e'') t of (m, e) \<Rightarrow>
       (case (parse_mantissa m, parse_exponent e) of
          (Some (n, k), Some x) \<Rightarrow>
            Some (Fin ((if neg then - 1 else 1) * real n * (10 powi (x - int k))))
        | _ \<Rightarrow> None)))"

fun py_float :: "pyval \<Rightarrow> pyfloat pyres" where
  "py_float (PBool b) = Inr (Fin (if b then 1 else 0))"
| "py_float (PInt n) = Inr (Fin (of_int n))"
| "py_float (PFloat f) = Inr f"
| "py_float (PStr s) = (case parse_float s of None \<Rightarrow> Inl ValueError | Some f \<Rightarrow> Inr f)"
| "py_float _ = Inl TypeError"

text \<open>\<open>int(v)\<close>: truncation of a float, a decimal text with sign and surrounding space.\<close>

definition parse_int :: "string \<Rightarrow> int option" where
  "parse_int s = (case parse_sign (strip s) of (neg, ds) \<Rightarrow>
     map_option (\<lambda>g. (if neg then - 1 else 1) * int (nat_of_digits g)) (digit_group False ds))"

fun py_int :: "pyval \<Rightarrow> int pyres" where
  "py_int (PBool b) = Inr (if b then 1 else 0)"
| "py_int (PInt n) = Inr n"
| "py_int (PFloat (Fin x)) = Inr (if x < 0 then - \<lfloor>- x\<rfloor> else \<lfloor>x\<rfloor>)"
| "py_int (PFloat NaN) = Inl ValueError"
| "py_int (PFloat _) = Inl OverflowError"
| "py_int (PStr s) = (case parse_int s of None \<Rightarrow> Inl ValueError | Some n \<Rightarrow> Inr n)"
| "py_int _ = Inl TypeError"

text \<open>Order on floats: every comparison with NaN is false.\<close>

fun float_le :: "pyfloat \<Rightarrow> pyfloat \<Rightarrow> bool" where
  "float_le (Fin x) (Fin y) = (x \<le> y)"
| "float_le NaN _ = False"
| "float_le _ NaN = False"
| "float_le NegInf _ = True"
| "float_le _ PosInf = True"
| "float_le _ _ = False"

fun float_lt :: "pyfloat \<Rightarrow> pyfloat \<Rightarrow> bool" where
  "float_lt (Fin x) (Fin y) = (x < y)"
| "float_lt NaN _ = False"
| "float_lt _ NaN = False"
| "float_lt NegInf y = (y \<noteq> NegInf)"
| "float_lt x PosInf = (x \<noteq> PosInf)"
| "float_lt _ _ = False"

fun is_finite :: "pyfloat \<Rightarrow> bool" where
  "is_finite (Fin _) = True"
| "is_finite _ = False"

text \<open>Subtraction and \<open>math.hypot\<close>, with an infinite leg infinite even beside NaN.\<close>

fun float_sub :: "pyfloat \<Rightarrow> pyfloat \<Rightarrow> pyfloat" where
  "float_sub (Fin x) (Fin y) = Fin (x - y)"
| "float_sub NaN _ = NaN"
| "float_sub _ NaN = NaN"
| "float_sub PosInf y = (if y = PosInf then NaN else PosInf)"
| "float_sub NegInf y = (if y = NegInf then NaN else NegInf)"
| "float_sub _ PosInf = NegInf"
| "float_sub _ NegInf = PosInf"

fun hypot :: "pyfloat \<Rightarrow> pyfloat \<Rightarrow> pyfloat" where
  "hypot (Fin x) (Fin y) = Fin (sqrt (x\<^sup>2 + y\<^sup>2))"
| "hypot x y = (if x \<in> {PosInf, NegInf} \<or> y \<in> {PosInf, NegInf} then PosInf else NaN)"

text \<open>Addition to a number, absolute value, and the product with a finite factor.\<close>

fun float_plus :: "real \<Rightarrow> pyfloat \<Rightarrow> pyfloat" where
  "float_plus t (Fin x) = Fin (t + x)"
| "float_plus t y = y"

fun float_abs :: "pyfloat \<Rightarrow> pyfloat" where
  "float_abs (Fin x) = Fin \<bar>x\<bar>"
| "float_abs NaN = NaN"
| "float_abs _ = PosInf"

fun float_scale :: "real \<Rightarrow> pyfloat \<Rightarrow> pyfloat" where
  "float_scale c (Fin x) = Fin (c * x)"
| "float_scale c NaN = NaN"
| "float_scale c PosInf = (if c = 0 then NaN else if 0 < c then PosInf else NegInf)"
| "float_scale c NegInf = (if c = 0 then NaN else if 0 < c then NegInf else PosInf)"

text \<open>Sum and quotient (the code divides by positive numbers only), and Python's \<open>min\<close> and \<open>max\<close> of two floats, which
  keep the first argument unless the second one compares as smaller or greater.\<close>

definition float_add :: "pyfloat \<Rightarrow> pyfloat \<Rightarrow> pyfloat" where
  "float_add x y = float_sub x (float_scale (- 1) y)"

fun float_div :: "pyfloat \<Rightarrow> pyfloat \<Rightarrow> pyfloat" where
  "float_div (Fin x) (Fin y) = Fin (x / y)"
| "float_div NaN _ = NaN"
| "float_div _ NaN = NaN"
| "float_div (Fin x) _ = Fin 0"
| "float_div PosInf (Fin y) = (if y < 0 then NegInf else PosInf)"
| "float_div NegInf (Fin y) = (if y < 0 then PosInf else NegInf)"
| "float_div _ _ = NaN"

definition py_min :: "pyfloat \<Rightarrow> pyfloat \<Rightarrow> pyfloat" where
  "py_min a b = (if float_lt b a then b else a)"

definition py_max :: "pyfloat \<Rightarrow> pyfloat \<Rightarrow> pyfloat" where
  "py_max a b = (if float_lt a b then b else a)"

text \<open>The number of a value that \<open>is_number\<close> accepts, and \<open>lo <= v <= hi\<close> for it.\<close>

fun num_of :: "pyval \<Rightarrow> pyfloat" where
  "num_of (PInt n) = Fin (of_int n)"
| "num_of (PFloat f) = f"
| "num_of _ = NaN"

definition num_between :: "real \<Rightarrow> pyval \<Rightarrow> real \<Rightarrow> bool" where
  "num_between lo v hi = (float_le (Fin lo) (num_of v) \<and> float_le (num_of v) (Fin hi))"

lemma num_between_Fin: "num_between lo v hi \<Longrightarrow> \<exists>x. num_of v = Fin x \<and> lo \<le> x \<and> x \<le> hi"
  by (cases "num_of v") (auto simp: num_between_def)

text \<open>\<open>round(x, k)\<close>: to \<open>k\<close> decimals, ties to the even digit.\<close>

definition round_even :: "real \<Rightarrow> int" where
  "round_even x = (let f = \<lfloor>x\<rfloor>; d = x - of_int f in
     if d < 1 / 2 then f else if 1 / 2 < d then f + 1 else if even f then f else f + 1)"

definition py_round :: "nat \<Rightarrow> real \<Rightarrow> real" where
  "py_round k x = of_int (round_even (x * 10 ^ k)) / 10 ^ k"

lemma round_even_close: "\<bar>of_int (round_even x) - x\<bar> \<le> 1 / 2"
  unfolding round_even_def Let_def by (simp add: abs_le_iff split: if_splits)

lemma py_round_close: "\<bar>py_round k x - x\<bar> \<le> 1 / (2 * 10 ^ k)"
proof -
  let ?p = "10 ^ k :: real"
  have "\<bar>py_round k x - x\<bar> * ?p = \<bar>(py_round k x - x) * ?p\<bar>" by (simp add: abs_mult)
  also have "(py_round k x - x) * ?p = of_int (round_even (x * ?p)) - x * ?p"
    by (simp add: py_round_def left_diff_distrib)
  also have "\<bar>of_int (round_even (x * ?p)) - x * ?p\<bar> \<le> 1 / 2" by (rule round_even_close)
  finally show ?thesis by (simp add: field_simps)
qed

text \<open>Rounding stays between bounds that need no rounding.\<close>

lemma round_even_ge: "of_int n \<le> x \<Longrightarrow> n \<le> round_even x"
  using le_floor_iff [of n x] by (auto simp: round_even_def Let_def)

lemma round_even_le:
  assumes "x \<le> of_int n"
  shows "round_even x \<le> n"
proof (cases "x = of_int n")
  case False
  then have "\<lfloor>x\<rfloor> < n" using assms by (simp add: floor_less_iff)
  then show ?thesis by (simp add: round_even_def Let_def)
qed (simp add: round_even_def Let_def)

lemma py_round_ge: "of_int n / 10 ^ k \<le> x \<Longrightarrow> of_int n / 10 ^ k \<le> py_round k x"
  using round_even_ge [of n "x * 10 ^ k"] by (simp add: py_round_def field_simps)

lemma py_round_le: "x \<le> of_int n / 10 ^ k \<Longrightarrow> py_round k x \<le> of_int n / 10 ^ k"
  using round_even_le [of "x * 10 ^ k" n] by (simp add: py_round_def field_simps)

section \<open>Dictionaries\<close>

text \<open>\<open>d[k] = v\<close>.\<close>

definition dput :: "pydict \<Rightarrow> string \<Rightarrow> pyval \<Rightarrow> pydict" where
  "dput d k v = AList.update k v d"

text \<open>\<open>{**d, **e}\<close>.\<close>

definition dmerge :: "pydict \<Rightarrow> pydict \<Rightarrow> pydict" where
  "dmerge d e = fold (\<lambda>(k, v) acc. AList.update k v acc) e d"

definition dput_missing :: "pydict \<Rightarrow> string \<Rightarrow> pyval \<Rightarrow> pydict" where
  "dput_missing d k v = (if has_key d k then d else dput d k v)"

definition plain_text :: "pyval \<Rightarrow> string" where
  "plain_text v = lower (strip (str_or v []))"

definition dict_or_empty :: "pyval \<Rightarrow> pydict" where
  "dict_or_empty v = (case v of PDict d \<Rightarrow> d | _ \<Rightarrow> [])"

text \<open>\<open>list(v or [])\<close> for a JSON value; a dictionary gives its keys, a text its characters.\<close>

fun list_or_empty :: "pyval \<Rightarrow> pyval list pyres" where
  "list_or_empty (PList xs) = Inr xs"
| "list_or_empty (PDict d) = Inr (map (\<lambda>p. PStr (fst p)) d)"
| "list_or_empty (PStr s) = Inr (map (\<lambda>c. PStr [c]) s)"
| "list_or_empty v = (if truthy v then Inl TypeError else Inr [])"

lemma dget_dput [simp]: "dget (dput d k v) k' = (if k' = k then v else dget d k')"
  by (simp add: dget_def dput_def update_conv)

lemma has_key_dput [simp]: "has_key (dput d k v) k' = (k' = k \<or> has_key d k')"
  by (simp add: has_key_def dput_def update_conv)

end
