(* ===== verification/PyStd.thy ===== *)
theory PyStd
  imports PyText
begin

text \<open>
  Two pieces of the Python standard library that the message protocol relies on, written out because
  their corner cases decide what a command may carry: \<open>uuid.UUID(text)\<close> with its canonical printing, and
  \<open>datetime.fromisoformat\<close> (Python 3.10) with the order on aware timestamps. The main fact is that a UUID
  read and printed once is a fixed point of reading and printing.
\<close>

section \<open>UUID texts\<close>

fun remove_sub :: "string \<Rightarrow> string \<Rightarrow> string" where
  "remove_sub p [] = []"
| "remove_sub p (c # cs) =
     (if p \<noteq> [] \<and> take (length p) (c # cs) = p then remove_sub p (drop (length p - 1) cs)
      else c # remove_sub p cs)"

definition hex_val :: "char \<Rightarrow> int option" where
  "hex_val c = (if is_digit c then Some (of_char c - 48)
     else if 97 \<le> code_of c \<and> code_of c \<le> 102 then Some (of_char c - 87)
     else if 65 \<le> code_of c \<and> code_of c \<le> 70 then Some (of_char c - 55)
     else None)"

definition hex_char :: "int \<Rightarrow> char" where
  "hex_char d = (if d < 10 then char_of (48 + d) else char_of (87 + d))"

text \<open>Hexadecimal digits with single underscores between them, read from the left.\<close>

fun hex_group :: "bool \<Rightarrow> int \<Rightarrow> string \<Rightarrow> int option" where
  "hex_group seen n [] = (if seen then Some n else None)"
| "hex_group seen n (c # cs) =
     (case hex_val c of
        Some d \<Rightarrow> hex_group True (16 * n + d) cs
      | None \<Rightarrow>
          if c = CHR ''_'' \<and> seen then
            (case cs of [] \<Rightarrow> None
             | d # ds \<Rightarrow> if hex_val d = None then None else hex_group True n (d # ds))
          else None)"

text \<open>\<open>int(text, 16)\<close>: surrounding space, a sign and a \<open>0x\<close> prefix are accepted.\<close>

definition drop_hex_prefix :: "string \<Rightarrow> string" where
  "drop_hex_prefix s =
     (case s of c # x # cs \<Rightarrow>
        if c = CHR ''0'' \<and> (x = CHR ''x'' \<or> x = CHR ''X'') then
          (case cs of u # ds \<Rightarrow> if u = CHR ''_'' then ds else cs | [] \<Rightarrow> [])
        else s
      | _ \<Rightarrow> s)"

definition hex_int :: "string \<Rightarrow> int option" where
  "hex_int s = (case parse_sign (strip s) of (neg, t) \<Rightarrow>
     map_option (\<lambda>n. if neg then - n else n) (hex_group False 0 (drop_hex_prefix t)))"

definition uuid_of_text :: "string \<Rightarrow> int option" where
  "uuid_of_text s =
     (let h = remove_sub ''uuid:'' (remove_sub ''urn:'' s);
          h' = remove_sub ''-'' (strip_by (\<lambda>c. c = CHR ''{'' \<or> c = CHR ''}'') h)
      in if length h' \<noteq> 32 then None
         else (case hex_int h' of
                 Some n \<Rightarrow> if 0 \<le> n \<and> n < 2 ^ 128 then Some n else None
               | None \<Rightarrow> None))"

fun hex_fixed :: "nat \<Rightarrow> int \<Rightarrow> string" where
  "hex_fixed 0 n = []"
| "hex_fixed (Suc k) n = hex_fixed k (n div 16) @ [hex_char (n mod 16)]"

definition uuid_to_text :: "int \<Rightarrow> string" where
  "uuid_to_text n = (let h = hex_fixed 32 n in
     take 8 h @ ''-'' @ take 4 (drop 8 h) @ ''-'' @ take 4 (drop 12 h) @ ''-''
       @ take 4 (drop 16 h) @ ''-'' @ drop 20 h)"

subsection \<open>Printing and reading a UUID is the identity\<close>

definition lower_hex :: "char \<Rightarrow> bool" where
  "lower_hex c = (is_digit c \<or> (97 \<le> code_of c \<and> code_of c \<le> 102))"

lemma of_hex_char:
  "0 \<le> d \<Longrightarrow> d < 16 \<Longrightarrow> (of_char (hex_char d) :: int) = (if d < 10 then 48 + d else 87 + d)"
  by (simp add: hex_char_def)

lemma code_hex_char:
  "0 \<le> d \<Longrightarrow> d < 16 \<Longrightarrow> code_of (hex_char d) = (if d < 10 then 48 + nat d else 87 + nat d)"
proof -
  assume d: "0 \<le> d" "d < 16"
  have "int (code_of (hex_char d)) = of_char (hex_char d)" by (rule of_nat_of_char)
  with d show ?thesis by (auto simp: of_hex_char)
qed

lemma hex_val_hex_char [simp]: "0 \<le> d \<Longrightarrow> d < 16 \<Longrightarrow> hex_val (hex_char d) = Some d"
  by (auto simp: hex_val_def is_digit_def code_hex_char of_hex_char)

lemma lower_hex_hex_char: "0 \<le> d \<Longrightarrow> d < 16 \<Longrightarrow> lower_hex (hex_char d)"
  by (auto simp: lower_hex_def is_digit_def code_hex_char)

lemma length_hex_fixed [simp]: "length (hex_fixed k n) = k"
  by (induction k arbitrary: n) auto

lemma hex_fixed_lower: "c \<in> set (hex_fixed k n) \<Longrightarrow> lower_hex c"
  by (induction k arbitrary: n) (auto simp: lower_hex_hex_char)

lemma hex_group_append:
  "\<forall>c \<in> set s. lower_hex c \<Longrightarrow>
     hex_group b n (s @ t) = hex_group (b \<or> s \<noteq> []) (foldl (\<lambda>n c. 16 * n + the (hex_val c)) n s) t"
proof (induction s arbitrary: b n)
  case Nil
  then show ?case by simp
next
  case (Cons c s)
  from Cons.prems have "hex_val c \<noteq> None" by (auto simp: lower_hex_def hex_val_def)
  with Cons show ?case by (auto split: option.splits)
qed

lemma foldl_hex_fixed:
  "foldl (\<lambda>n c. 16 * n + the (hex_val c)) m (hex_fixed k n) = m * 16 ^ k + n mod 16 ^ k"
proof (induction k arbitrary: n m)
  case 0
  then show ?case by simp
next
  case (Suc k)
  have "n mod 16 ^ Suc k = 16 * (n div 16 mod 16 ^ k) + n mod 16"
    by (simp add: zmod_zmult2_eq)
  with Suc show ?case by (simp add: algebra_simps)
qed

lemma lower_hex_codes:
  assumes "lower_hex c"
  shows "c \<noteq> CHR ''-''" "c \<noteq> CHR ''+''" "c \<noteq> CHR ''x''" "c \<noteq> CHR ''X''" "c \<noteq> CHR ''u''"
    "c \<noteq> CHR ''{''" "c \<noteq> CHR ''}''" "\<not> is_space c"
  using assms by (auto simp: lower_hex_def is_digit_def is_space_def)

lemma remove_sub_id: "p \<noteq> [] \<Longrightarrow> hd p \<notin> set s \<Longrightarrow> remove_sub p s = s"
proof (induction s)
  case (Cons c s)
  then show ?case by (cases p) auto
qed simp

lemma remove_dash: "remove_sub ''-'' s = filter (\<lambda>c. c \<noteq> CHR ''-'') s"
  by (induction s) auto

lemma strip_lower_hex: "\<forall>c \<in> set s. lower_hex c \<Longrightarrow> strip s = s"
  unfolding strip_def by (rule strip_by_id) (blast dest: lower_hex_codes(8))

lemma parse_sign_lower_hex: "\<forall>c \<in> set s. lower_hex c \<Longrightarrow> parse_sign s = (False, s)"
  using lower_hex_codes(1,2) by (cases s) (auto simp: parse_sign_def)

lemma drop_hex_prefix_lower_hex: "\<forall>c \<in> set s. lower_hex c \<Longrightarrow> drop_hex_prefix s = s"
  using lower_hex_codes(3,4) by (cases s rule: remdups_adj.cases) (auto simp: drop_hex_prefix_def)

lemma hex_int_hex_fixed:
  assumes "0 \<le> n" "n < 16 ^ k" "0 < k"
  shows "hex_int (hex_fixed k n) = Some n"
proof -
  let ?h = "hex_fixed k n"
  have low: "\<forall>c \<in> set ?h. lower_hex c" by (auto intro: hex_fixed_lower)
  have ne: "?h \<noteq> []" using assms(3) by (metis length_hex_fixed less_numeral_extra(3) list.size(3))
  have "hex_group False 0 (?h @ []) = Some n"
    unfolding hex_group_append [OF low] foldl_hex_fixed using assms(1,2) ne by simp
  then show ?thesis
    by (simp add: hex_int_def strip_lower_hex [OF low] parse_sign_lower_hex [OF low]
        drop_hex_prefix_lower_hex [OF low])
qed

lemma uuid_to_text_chars: "c \<in> set (uuid_to_text n) \<Longrightarrow> lower_hex c \<or> c = CHR ''-''"
  by (auto simp: uuid_to_text_def Let_def dest!: in_set_takeD in_set_dropD intro: hex_fixed_lower)

lemma split_8_4_4_4:
  "take 8 h @ take 4 (drop 8 h) @ take 4 (drop 12 h) @ take 4 (drop 16 h) @ drop 20 h = h"
proof -
  have step: "take k (drop m h) @ drop (k + m) h = drop m h" for k m
    by (metis append_take_drop_id drop_drop)
  show ?thesis
    using step [of 4 16] step [of 4 12] step [of 4 8] step [of 8 0] by simp
qed

lemma filter_uuid_to_text: "filter (\<lambda>c. c \<noteq> CHR ''-'') (uuid_to_text n) = hex_fixed 32 n"
proof -
  let ?h = "hex_fixed 32 n"
  let ?F = "filter (\<lambda>c. c \<noteq> CHR ''-'')"
  have keep: "?F ?h = ?h"
    by (rule filter_True) (blast dest: hex_fixed_lower lower_hex_codes(1))
  have "?F (uuid_to_text n)
      = ?F (take 8 ?h @ take 4 (drop 8 ?h) @ take 4 (drop 12 ?h) @ take 4 (drop 16 ?h) @ drop 20 ?h)"
    by (simp only: uuid_to_text_def Let_def filter_append) simp
  then show ?thesis by (simp only: split_8_4_4_4 keep)
qed

lemma uuid_round_trip: "0 \<le> n \<Longrightarrow> n < 2 ^ 128 \<Longrightarrow> uuid_of_text (uuid_to_text n) = Some n"
proof -
  assume n: "0 \<le> n" "n < 2 ^ 128"
  let ?t = "uuid_to_text n"
  have no_u: "CHR ''u'' \<notin> set ?t"
    using uuid_to_text_chars lower_hex_codes(5) by fastforce
  have br: "\<forall>c \<in> set ?t. \<not> (c = CHR ''{'' \<or> c = CHR ''}'')"
    using uuid_to_text_chars lower_hex_codes(6,7) by fastforce
  have "n < 16 ^ 32" using n by simp
  with n(1) have "hex_int (hex_fixed 32 n) = Some n" by (rule hex_int_hex_fixed) simp
  with n show ?thesis
    by (simp add: uuid_of_text_def Let_def remove_sub_id no_u strip_by_id [OF br] remove_dash
        filter_uuid_to_text del: hex_fixed.simps)
qed

lemma uuid_of_text_bound: "uuid_of_text s = Some n \<Longrightarrow> 0 \<le> n \<and> n < 2 ^ 128"
  by (auto simp: uuid_of_text_def Let_def split: if_splits option.splits)

section \<open>Timestamps\<close>

text \<open>
  A timestamp is its wall-clock microseconds since the start of year 1 and, when it is aware, the
  offset of its zone in microseconds. Aware timestamps are ordered by the instant they denote.
\<close>

record datetime =
  dt_wall :: int
  dt_offset :: "int option"

definition dt_instant :: "datetime \<Rightarrow> int" where
  "dt_instant t = dt_wall t - (case dt_offset t of None \<Rightarrow> 0 | Some off \<Rightarrow> off)"

definition leap_year :: "int \<Rightarrow> bool" where
  "leap_year y = (y mod 4 = 0 \<and> (y mod 100 \<noteq> 0 \<or> y mod 400 = 0))"

definition days_in_month :: "int \<Rightarrow> int \<Rightarrow> int" where
  "days_in_month y m = (if m = 2 then (if leap_year y then 29 else 28)
     else if m \<in> {4, 6, 9, 11} then 30 else 31)"

definition date_ordinal :: "int \<Rightarrow> int \<Rightarrow> int \<Rightarrow> int" where
  "date_ordinal y m d =
     (y - 1) * 365 + (y - 1) div 4 - (y - 1) div 100 + (y - 1) div 400
       + sum_list (map (days_in_month y) [1..m - 1]) + d"

definition digits_value :: "string \<Rightarrow> int option" where
  "digits_value s = (if s \<noteq> [] \<and> list_all is_digit s
     then Some (foldl (\<lambda>n c. 10 * n + (of_char c - 48)) 0 s) else None)"

definition iso_date :: "string \<Rightarrow> (int \<times> int \<times> int) option" where
  "iso_date s =
     (if length s = 10 \<and> s ! 4 = CHR ''-'' \<and> s ! 7 = CHR ''-'' then
        (case (digits_value (take 4 s), digits_value (take 2 (drop 5 s)), digits_value (drop 8 s)) of
           (Some y, Some m, Some d) \<Rightarrow>
             if 1 \<le> y \<and> 1 \<le> m \<and> m \<le> 12 \<and> 1 \<le> d \<and> d \<le> days_in_month y m
             then Some (y, m, d) else None
         | _ \<Rightarrow> None)
      else None)"

text \<open>The components \<open>HH[:MM[:SS[.fff[fff]]]]\<close>, as hours, minutes, seconds and microseconds.\<close>

definition iso_fraction :: "string \<Rightarrow> int option" where
  "iso_fraction s =
     (if s = [] then Some 0
      else if hd s = CHR ''.'' \<and> length (tl s) = 3 then map_option (\<lambda>n. n * 1000) (digits_value (tl s))
      else if hd s = CHR ''.'' \<and> length (tl s) = 6 then digits_value (tl s)
      else None)"

definition iso_clock :: "string \<Rightarrow> (int \<times> int \<times> int \<times> int) option" where
  "iso_clock s =
     (case digits_value (take 2 s) of
        Some h \<Rightarrow>
          if length s < 2 then None
          else if length s = 2 then Some (h, 0, 0, 0)
          else if s ! 2 \<noteq> CHR '':'' \<or> length s < 5 then None
          else (case digits_value (take 2 (drop 3 s)) of
            Some m \<Rightarrow>
              if length s = 5 then Some (h, m, 0, 0)
              else if s ! 5 \<noteq> CHR '':'' \<or> length s < 8 then None
              else (case (digits_value (take 2 (drop 6 s)), iso_fraction (drop 8 s)) of
                (Some x, Some us) \<Rightarrow> Some (h, m, x, us)
              | _ \<Rightarrow> None)
          | None \<Rightarrow> None)
      | None \<Rightarrow> None)"

definition clock_us :: "int \<times> int \<times> int \<times> int \<Rightarrow> int" where
  "clock_us c = (case c of (h, m, x, us) \<Rightarrow> ((h * 60 + m) * 60 + x) * 1000000 + us)"

definition iso_offset :: "char \<Rightarrow> string \<Rightarrow> int option" where
  "iso_offset sg s =
     (if length s \<in> {5, 8, 15} then
        (case iso_clock s of
           Some c \<Rightarrow> if clock_us c < 86400000000
                     then Some (if sg = CHR ''-'' then - clock_us c else clock_us c) else None
         | None \<Rightarrow> None)
      else None)"

definition iso_time :: "string \<Rightarrow> (int \<times> int option) option" where
  "iso_time s =
     (let sg = (if CHR ''-'' \<in> set s then CHR ''-'' else CHR ''+'') in
      case break_at (\<lambda>c. c = sg) s of (t, z) \<Rightarrow>
        (case iso_clock t of
           Some (h, m, x, us) \<Rightarrow>
             if h < 24 \<and> m < 60 \<and> x < 60 then
               (case z of None \<Rightarrow> Some (clock_us (h, m, x, us), None)
                | Some zs \<Rightarrow> map_option (\<lambda>off. (clock_us (h, m, x, us), Some off)) (iso_offset sg zs))
             else None
         | None \<Rightarrow> None))"

definition fromisoformat :: "string \<Rightarrow> datetime option" where
  "fromisoformat s =
     (case iso_date (take 10 s) of
        None \<Rightarrow> None
      | Some (y, m, d) \<Rightarrow>
          (case (if length s \<le> 11 then Some (0, None) else iso_time (drop 11 s)) of
             None \<Rightarrow> None
           | Some (us, off) \<Rightarrow>
               Some \<lparr>dt_wall = date_ordinal y m d * 86400000000 + us, dt_offset = off\<rparr>))"

text \<open>\<open>text.replace("Z", "+00:00")\<close>.\<close>

definition replace_Z :: "string \<Rightarrow> string" where
  "replace_Z s = concat (map (\<lambda>c. if c = CHR ''Z'' then ''+00:00'' else [c]) s)"

end
