(* ===== verification/Protocol.thy ===== *)
theory Protocol
  imports PyStd
begin

text \<open>
  The message protocol of the edge agent (\<open>edge-agent/roamerx_edge/protocol.py\<close>): the command
  vocabularies, the envelope of a message, decoding with every check of \<open>decode_message\<close> and
  \<open>validate_command\<close> in the order of the source, and the builders of acknowledgements, results and
  progress messages. A check is a statement that may raise; the first one that raises decides.
  The lemmas show what an admitted message carries.
\<close>

section \<open>Vocabularies\<close>

definition PROTOCOL_VERSION :: string where
  "PROTOCOL_VERSION = ''1.0''"

definition TASK_COMMAND_TYPES :: "string list" where
  "TASK_COMMAND_TYPES = [''task.start'', ''task.pause'', ''task.resume'', ''task.resume_forward'',
     ''task.cancel'', ''task.force_exit'', ''task.recover.v1'']"

definition MAPPING_COMMAND_TYPES :: "string list" where
  "MAPPING_COMMAND_TYPES = [''mapping.start'', ''mapping.save'', ''mapping.cancel'', ''mapping.status'',
     ''mapping.scene_semantics'', ''mapping.origin_start'', ''mapping.origin_cancel'',
     ''mapping.origin_extract_global'', ''mapping.slam_start'', ''mapping.begin'']"

definition NAV_COMMAND_TYPES :: "string list" where
  "NAV_COMMAND_TYPES = [''nav.status'', ''nav.start'', ''nav.restart'', ''nav.recover'', ''nav.stop'',
     ''nav.initial_pose'', ''nav.relocalize'', ''nav.single_goal'']"

definition MAP_COMMAND_TYPES :: "string list" where
  "MAP_COMMAND_TYPES = [''map.activate'', ''map.optimize'', ''map.boundary_apply'']"

definition DIAGNOSTICS_COMMAND_TYPES :: "string list" where
  "DIAGNOSTICS_COMMAND_TYPES = [''diagnostics.log_config'', ''diagnostics.nav_rosbag_stop'']"

definition OTHER_COMMAND_TYPES :: "string list" where
  "OTHER_COMMAND_TYPES = [''sensor.restart'', ''charge.start'', ''charge.stop'',
     ''motion.start'', ''motion.stop'', ''audio.volume'']"

definition TELEOP_COMMAND_TYPES :: "string list" where
  "TELEOP_COMMAND_TYPES = [''teleop.takeover_enter'', ''teleop.takeover_exit'', ''teleop.stand_up'',
     ''teleop.lie_down'', ''teleop.shake_hand'', ''teleop.two_leg_stand'', ''teleop.speed_micro'',
     ''teleop.speed_slow'', ''teleop.speed_normal'', ''teleop.speed_fast'', ''teleop.move_forward'',
     ''teleop.move_backward'', ''teleop.move_left'', ''teleop.move_right'', ''teleop.turn_left'',
     ''teleop.turn_right'', ''teleop.move_velocity'', ''teleop.move_stop'', ''teleop.passive'',
     ''teleop.skill'', ''teleop.skill_list'', ''teleop.skill_status'', ''teleop.skill_cancel'',
     ''teleop.person_follow_start'', ''teleop.person_follow_stop'', ''teleop.person_follow_status'']"

definition COMMAND_TYPES :: "string list" where
  "COMMAND_TYPES = TASK_COMMAND_TYPES @ MAPPING_COMMAND_TYPES @ NAV_COMMAND_TYPES @ MAP_COMMAND_TYPES
     @ DIAGNOSTICS_COMMAND_TYPES @ OTHER_COMMAND_TYPES @ TELEOP_COMMAND_TYPES"

section \<open>Envelope, timestamps, identifiers\<close>

abbreviation invalid :: "string \<Rightarrow> pyexc" where
  "invalid message \<equiv> protocol_error ''INVALID_MESSAGE'' message"

definition parse_time :: "pyval \<Rightarrow> datetime pyres" where
  "parse_time v =
     (case fromisoformat (replace_Z (py_str v)) of
        None \<Rightarrow> Inl (invalid (''invalid timestamp: '' @ py_str v))
      | Some t \<Rightarrow> if dt_offset t = None then Inl (invalid ''timestamp must include timezone'') else Inr t)"

definition parse_uuid :: "pyval \<Rightarrow> string \<Rightarrow> string pyres" where
  "parse_uuid v field =
     (case uuid_of_text (py_str v) of
        None \<Rightarrow> Inl (invalid (field @ '' must be UUID''))
      | Some n \<Rightarrow> Inr (uuid_to_text n))"

record message_envelope =
  env_protocol_version :: string
  env_message_id :: string
  env_message_type :: string
  env_robot_id :: string
  env_session_id :: string
  env_sent_at :: datetime
  env_trace_id :: string
  env_sequence :: pyval
  env_payload :: pydict
  env_raw :: pydict

text \<open>A checked value that is then dropped, and a check under a condition.\<close>

definition discard :: "'a pyres \<Rightarrow> unit pyres" where
  "discard m = (case m of Inl e \<Rightarrow> Inl e | Inr _ \<Rightarrow> Inr ())"

definition on_cond :: "bool \<Rightarrow> unit pyres \<Rightarrow> unit pyres" where
  "on_cond c s = (if c then s else Inr ())"

text \<open>\<open>key not in data or data[key] is None\<close> for a value that came out of \<open>json.loads\<close>.\<close>

definition is_substring :: "string \<Rightarrow> string \<Rightarrow> bool" where
  "is_substring k s = list_ex (\<lambda>i. take (length k) (drop i s) = k) [0..<Suc (length s)]"

fun lacks_key :: "pyval \<Rightarrow> string \<Rightarrow> bool pyres" where
  "lacks_key (PDict d) k = Inr (\<not> has_key d k \<or> dget d k = PNone)"
| "lacks_key (PList xs) k = (if PStr k \<in> set xs then Inl TypeError else Inr True)"
| "lacks_key (PStr s) k = (if is_substring k s then Inl TypeError else Inr True)"
| "lacks_key _ k = Inl TypeError"

definition require_key :: "pyval \<Rightarrow> string \<Rightarrow> string \<Rightarrow> unit pyres" where
  "require_key v what k = bindE (lacks_key v k) (\<lambda>b. raise_if b (invalid (what @ k)))"

definition require_in :: "pyval \<Rightarrow> string list \<Rightarrow> pyexc \<Rightarrow> unit pyres" where
  "require_in v S e = bindE (in_strs v S) (\<lambda>b. raise_if (\<not> b) e)"

section \<open>Validation of task.start\<close>

abbreviation lowered :: "pydict \<Rightarrow> string \<Rightarrow> string" where
  "lowered w k \<equiv> lower (py_str (dget w k))"

text \<open>An optional field of a waypoint whose lower-cased text has to be one of some keywords.\<close>

definition keyword_field :: "pydict \<Rightarrow> string \<Rightarrow> string list \<Rightarrow> string \<Rightarrow> unit pyres" where
  "keyword_field w k S message = raise_if (has_key w k \<and> lowered w k \<notin> set S) (invalid message)"

definition global_controllers :: "string list" where
  "global_controllers = [''theta_star'', ''navfn'', ''smac_hybrid'']"

definition validate_waypoint_basic :: "nat \<Rightarrow> pydict \<Rightarrow> unit pyres" where
  "validate_waypoint_basic index w = seqE
     (raise_if (\<not> py_eq_int (dget w ''sequence'') (int index)) (invalid ''waypoint sequence must be contiguous'')
      # map (\<lambda>f. raise_if (\<not> is_number (dget w f)) (invalid (''waypoint '' @ f @ '' must be numeric'')))
          [''x'', ''y'', ''yaw'']
      @ map (\<lambda>f. raise_if (has_key w f \<and> \<not> is_bool (dget w f)) (invalid (''waypoint '' @ f @ '' must be boolean'')))
          [''avoidance_to_next'', ''require_yaw'', ''detour_enabled'', ''collision_slowdown_enabled'',
           ''collision_stop_enabled'', ''force_localization_correction''])"

definition validate_arrival :: "pydict \<Rightarrow> unit pyres" where
  "validate_arrival w =
     (let policy = lower (str_or (dget w ''arrival_policy'') ''stop_and_confirm'') in seqE
       [keyword_field w ''arrival_policy'' [''pass_through'', ''stop_and_confirm'', ''precision'', ''dock'']
          ''waypoint arrival_policy is invalid'',
        keyword_field w ''arrival_micro_adjust_mode'' [''cmd_vel'', ''nav2_goal'']
          ''waypoint arrival_micro_adjust_mode is invalid'',
        raise_if (has_key w ''arrival_micro_adjust_mode''
            \<and> lowered w ''arrival_micro_adjust_mode'' = ''nav2_goal'' \<and> policy \<in> {''pass_through'', ''dock''})
          (invalid ''nav2_goal is not allowed for pass_through or dock'')])"

definition validate_waypoint_options :: "pydict \<Rightarrow> unit pyres" where
  "validate_waypoint_options w = seqE
     [keyword_field w ''localization_anchor_preference'' [''ndt'', ''rtk'', ''balanced'']
        ''waypoint localization_anchor_preference is invalid'',
      raise_if (has_key w ''rtk_primary_allowed'' \<and> \<not> is_bool (dget w ''rtk_primary_allowed''))
        (invalid ''waypoint rtk_primary_allowed must be boolean''),
      keyword_field w ''speech_mode'' [''blocking'', ''non_blocking'', ''disabled'']
        ''waypoint speech_mode is invalid'',
      keyword_field w ''local_controller'' [''mppi'', ''rpp'', ''ilqr'']
        ''waypoint local_controller must be mppi, rpp or ilqr'',
      keyword_field w ''navigation_speed_level'' [''micro'', ''low'', ''medium'', ''high'']
        ''waypoint navigation_speed_level must be micro, low, medium or high'',
      keyword_field w ''global_controller'' global_controllers
        ''waypoint global_controller must be theta_star, navfn or smac_hybrid'',
      raise_if (has_key w ''dwell_seconds'' \<and>
          (\<not> is_number (dget w ''dwell_seconds'') \<or> \<not> num_between 0 (dget w ''dwell_seconds'') 3600))
        (invalid ''waypoint dwell_seconds must be between 0 and 3600'')]"

definition validate_waypoint :: "nat \<Rightarrow> pyval \<Rightarrow> unit pyres" where
  "validate_waypoint index wp =
     (case wp of
        PDict w \<Rightarrow> seqE [validate_waypoint_basic index w, validate_arrival w, validate_waypoint_options w]
      | _ \<Rightarrow> Inl AttributeError)"

text \<open>The recording options of \<open>task.start\<close>.\<close>

definition validate_recording :: "pydict \<Rightarrow> unit pyres" where
  "validate_recording cmd =
     (let record = dget cmd ''record_rosbag'';
          cont = dget_def_val cmd ''continuous_rosbag'' (PBool False) in seqE
       [raise_if (record \<noteq> PNone \<and> \<not> is_bool record) (invalid ''task.start record_rosbag must be boolean''),
        raise_if (\<not> is_bool cont) (invalid ''task.start continuous_rosbag must be boolean''),
        on_cond (truthy cont) (seqE
          [raise_if (\<not> truthy record) (invalid ''continuous_rosbag requires record_rosbag''),
           discard (parse_uuid (dget cmd ''loop_session_id'') ''loop_session_id'')])])"

definition validate_task_start :: "pydict \<Rightarrow> unit pyres" where
  "validate_task_start cmd =
     (case dget cmd ''route_snapshot'' of
        PDict route \<Rightarrow>
          (case dget route ''waypoints'' of
             PList (wp # wps) \<Rightarrow> seqE
               [for_each 0 validate_waypoint (wp # wps),
                raise_if (lower (str_or (dget route ''global_controller'') ''theta_star'')
                    \<notin> set global_controllers)
                  (invalid ''route global_controller must be theta_star, navfn or smac_hybrid''),
                validate_recording cmd]
           | _ \<Rightarrow> Inl (invalid ''task.start requires waypoints''))
      | _ \<Rightarrow> Inl (invalid ''task.start requires waypoints''))"

section \<open>Validation of the other commands\<close>

definition validate_mapping_start :: "string \<Rightarrow> pydict \<Rightarrow> unit pyres" where
  "validate_mapping_start mt cmd =
     (let name = dget cmd ''map_name''; record = dget cmd ''record_rosbag'';
          mtype = dget cmd ''mapping_type''; scope = dget cmd ''scene_scope'' in seqE
       [raise_if (name \<noteq> PNone \<and> \<not> is_str name) (invalid (mt @ '' map_name must be string'')),
        raise_if (record \<noteq> PNone \<and> \<not> is_bool record) (invalid ''mapping.start record_rosbag must be boolean''),
        on_cond (mtype \<noteq> PNone) (require_in mtype [''indoor'', ''outdoor'']
          (invalid (mt @ '' mapping_type must be indoor or outdoor''))),
        on_cond (scope \<noteq> PNone) (require_in scope [''indoor'', ''transition'', ''outdoor'']
          (invalid (mt @ '' scene_scope must be indoor, transition, or outdoor'')))])"

definition supplied_fields :: "pydict \<Rightarrow> string list" where
  "supplied_fields cmd = filter (\<lambda>f. dget cmd f \<noteq> PNone) [''x'', ''y'', ''yaw'']"

definition validate_pose_seed :: "string \<Rightarrow> string \<Rightarrow> string list \<Rightarrow> pydict \<Rightarrow> unit pyres" where
  "validate_pose_seed mt dflt sources cmd =
     (let supplied = supplied_fields cmd; seed = strip (str_or (dget cmd ''seed_source'') dflt) in seqE
       ([raise_if (supplied = [] \<and> seed \<notin> set sources)
           (invalid (mt @ '' requires x, y and yaw or a supported seed_source'')),
         raise_if (supplied \<noteq> [] \<and> length supplied \<noteq> 3) (invalid (mt @ '' requires x, y and yaw together''))]
        @ map (\<lambda>f. raise_if (\<not> is_number (dget cmd f)) (invalid (mt @ '' '' @ f @ '' must be numeric''))) supplied))"

definition validate_initial_pose :: "pydict \<Rightarrow> unit pyres" where
  "validate_initial_pose cmd =
     validate_pose_seed ''nav.initial_pose'' [] [''mapping_start'', ''last_trusted'', ''rtk''] cmd"

definition validate_single_goal :: "pydict \<Rightarrow> unit pyres" where
  "validate_single_goal cmd = seqE
     (map (\<lambda>f. raise_if (\<not> is_number (dget cmd f)) (invalid (''nav.single_goal '' @ f @ '' must be numeric'')))
        [''x'', ''y'', ''yaw'']
      @ [raise_if (lower (str_or (dget cmd ''global_controller'') ''theta_star'') \<notin> set global_controllers)
           (invalid ''nav.single_goal global_controller must be theta_star, navfn or smac_hybrid'')])"

definition validate_relocalize_waypoint :: "nat \<Rightarrow> pyval \<Rightarrow> unit pyres" where
  "validate_relocalize_waypoint index wp =
     (case wp of
        PDict w \<Rightarrow> seqE (map (\<lambda>f. raise_if (\<not> is_number (dget w f))
            (invalid (''nav.relocalize waypoint '' @ show_nat index @ '' '' @ f @ '' must be numeric'')))
          [''x'', ''y'', ''yaw''])
      | _ \<Rightarrow> Inl (invalid (''nav.relocalize waypoint '' @ show_nat index @ '' must be an object'')))"

definition validate_relocalize :: "pydict \<Rightarrow> unit pyres" where
  "validate_relocalize cmd = seqE
     [validate_pose_seed ''nav.relocalize'' ''last_trusted''
        [''mapping_start'', ''last_trusted'', ''global'', ''progressive'', ''quick_then_global''] cmd,
      on_cond (strip (str_or (dget cmd ''seed_source'') ''last_trusted'') = ''progressive'')
        (case py_or (dget cmd ''waypoints'') (PList []) of
           PList wps \<Rightarrow> for_each 0 validate_relocalize_waypoint wps
         | _ \<Rightarrow> Inl (invalid ''nav.relocalize waypoints must be a list''))]"

definition validate_map_activate :: "pydict \<Rightarrow> unit pyres" where
  "validate_map_activate cmd = seqE (map (\<lambda>f.
     raise_if (strip (py_str (dget_def_val cmd f (PStr []))) = []) (invalid (''map.activate requires '' @ f)))
     [''map_id'', ''map_version''])"

definition validate_map_optimize :: "pydict \<Rightarrow> unit pyres" where
  "validate_map_optimize cmd =
     (let selected = dget cmd ''selected_candidates'' in seqE
       [raise_if (strip (py_str (py_or (py_or (dget cmd ''source_map_id'') (dget cmd ''map_id'')) (PStr []))) = [])
          (invalid ''map.optimize requires source_map_id''),
        raise_if (\<not> is_list selected \<or> \<not> truthy selected) (invalid ''map.optimize requires selected_candidates'')])"

text \<open>\<open>not isinstance(v, int) or v <= 0\<close>: a boolean is an integer here.\<close>

fun positive_int :: "pyval \<Rightarrow> bool" where
  "positive_int (PInt n) = (0 < n)"
| "positive_int (PBool b) = b"
| "positive_int _ = False"

definition validate_boundary_apply :: "pydict \<Rightarrow> unit pyres" where
  "validate_boundary_apply cmd =
     (case dget cmd ''boundary'' of
        PDict b \<Rightarrow> seqE
          [raise_if (strip (str_or (dget cmd ''map_id'') []) = [])
             (invalid ''map.boundary_apply requires map_id and boundary''),
           raise_if (\<not> positive_int (dget b ''revision''))
             (invalid ''map.boundary_apply revision must be positive''),
           (case dget b ''outer_polygon'' of
              PList ps \<Rightarrow> raise_if (length ps < 3) (invalid ''map.boundary_apply requires an outer polygon'')
            | _ \<Rightarrow> Inl (invalid ''map.boundary_apply requires an outer polygon''))]
      | _ \<Rightarrow> Inl (invalid ''map.boundary_apply requires map_id and boundary''))"

definition validate_log_config :: "pydict \<Rightarrow> unit pyres" where
  "validate_log_config cmd =
     (let en = dget cmd ''enabled''; modules = dget cmd ''modules''; hz = dget cmd ''sample_hz'' in seqE
       [raise_if (\<not> is_bool en) (invalid ''diagnostics.log_config enabled must be boolean''),
        on_cond (truthy en) (seqE
          [raise_if (\<not> is_list modules \<or> \<not> truthy modules)
             (invalid ''diagnostics.log_config modules must be a list''),
           raise_if (\<not> is_number hz \<or> \<not> num_between (1 / 10) hz 5)
             (invalid ''diagnostics.log_config sample_hz must be between 0.1 and 5'')])])"

definition validate_sensor_restart :: "pydict \<Rightarrow> unit pyres" where
  "validate_sensor_restart cmd =
     raise_if (lower (strip (str_or (dget cmd ''sensor'') [])) \<notin> {''lidar'', ''imu'', ''lidar_imu'', ''rtk''})
       (invalid ''sensor.restart requires lidar_imu or rtk'')"

definition validate_audio_volume :: "pydict \<Rightarrow> unit pyres" where
  "validate_audio_volume cmd =
     (let volume = dget cmd ''volume'' in seqE
       [raise_if (str_or (dget cmd ''target'') [] \<notin> {''speaker_3588'', ''speaker_nx''})
          (invalid ''audio.volume requires a valid target''),
        raise_if (\<not> is_number volume \<or> \<not> num_between 0 volume 100)
          (invalid ''audio.volume must be between 0 and 100'')])"

section \<open>validate_command and decode_message\<close>

definition command_of :: "pydict \<Rightarrow> pydict" where
  "command_of payload = (case dget payload ''command'' of PDict c \<Rightarrow> c | _ \<Rightarrow> [])"

definition validate_command_header :: "message_envelope \<Rightarrow> unit pyres" where
  "validate_command_header env =
     (let payload = env_payload env in seqE
       (map (require_key (PDict payload) ''missing command field: '')
          [''command_id'', ''issued_at'', ''expires_at'', ''command'']
        @ [discard (parse_uuid (dget payload ''command_id'') ''command_id''),
           on_cond (env_message_type env \<in> set TASK_COMMAND_TYPES) (seqE
             [raise_if (\<not> truthy (dget payload ''task_execution_id''))
                (invalid ''missing command field: task_execution_id''),
              discard (parse_uuid (dget payload ''task_execution_id'') ''task_execution_id'')]),
           bindE (parse_time (dget payload ''issued_at'')) (\<lambda>issued.
             bindE (parse_time (dget payload ''expires_at'')) (\<lambda>expires.
               raise_if (dt_instant expires \<le> dt_instant issued)
                 (invalid ''expires_at must be after issued_at''))),
           raise_if (\<not> is_dict (dget payload ''command'')) (invalid ''command must be object'')]))"

definition validate_command :: "message_envelope \<Rightarrow> unit pyres" where
  "validate_command env =
     (let mt = env_message_type env; cmd = command_of (env_payload env) in seqE
       [validate_command_header env,
        on_cond (mt = ''task.start'') (validate_task_start cmd),
        on_cond (mt = ''diagnostics.nav_rosbag_stop'')
          (discard (parse_uuid (dget cmd ''loop_session_id'') ''loop_session_id'')),
        on_cond (mt \<in> {''mapping.start'', ''mapping.origin_start'', ''mapping.slam_start''})
          (validate_mapping_start mt cmd),
        on_cond (mt = ''nav.initial_pose'') (validate_initial_pose cmd),
        on_cond (mt = ''nav.single_goal'') (validate_single_goal cmd),
        on_cond (mt = ''nav.relocalize'') (validate_relocalize cmd),
        on_cond (mt = ''map.activate'') (validate_map_activate cmd),
        on_cond (mt = ''map.optimize'') (validate_map_optimize cmd),
        on_cond (mt = ''map.boundary_apply'') (validate_boundary_apply cmd),
        on_cond (mt = ''diagnostics.log_config'') (validate_log_config cmd),
        on_cond (mt = ''sensor.restart'') (validate_sensor_restart cmd),
        on_cond (mt = ''audio.volume'') (validate_audio_volume cmd)])"

definition envelope_checks :: "pydict \<Rightarrow> unit pyres" where
  "envelope_checks data = seqE
     [raise_if (dget data ''protocol_version'' \<noteq> PStr PROTOCOL_VERSION)
        (protocol_error ''UNSUPPORTED_PROTOCOL_VERSION'' (py_str (dget data ''protocol_version''))),
      require_in (dget data ''message_type'') (COMMAND_TYPES @ [''sync.response'', ''trajectory.ack''])
        (invalid (''unsupported message_type: '' @ py_str (dget data ''message_type''))),
      raise_if (\<not> is_dict (dget data ''payload'')) (invalid ''payload must be object'')]"

definition build_message_envelope :: "pydict \<Rightarrow> message_envelope pyres" where
  "build_message_envelope data =
     bindE (parse_uuid (dget data ''message_id'') ''message_id'') (\<lambda>mid.
     bindE (parse_time (dget data ''sent_at'')) (\<lambda>sent.
     bindE (parse_uuid (dget data ''trace_id'') ''trace_id'') (\<lambda>tid.
       Inr \<lparr>env_protocol_version = py_str (dget data ''protocol_version''), env_message_id = mid,
            env_message_type = py_str (dget data ''message_type''),
            env_robot_id = py_str (dget data ''robot_id''), env_session_id = py_str (dget data ''session_id''),
            env_sent_at = sent, env_trace_id = tid, env_sequence = dget data ''sequence'',
            env_payload = (case dget data ''payload'' of PDict p \<Rightarrow> p | _ \<Rightarrow> []), env_raw = data\<rparr>)))"

definition required_fields :: "string list" where
  "required_fields = [''protocol_version'', ''message_id'', ''message_type'', ''robot_id'', ''session_id'',
     ''sent_at'', ''trace_id'', ''payload'']"

definition decode_value :: "pyval \<Rightarrow> message_envelope pyres" where
  "decode_value v =
     bindE (seqE (map (require_key v ''missing required field: '') required_fields)) (\<lambda>_.
       (case v of
          PDict data \<Rightarrow>
            bindE (envelope_checks data) (\<lambda>_.
            bindE (build_message_envelope data) (\<lambda>env.
            bindE (on_cond (env_message_type env \<in> set COMMAND_TYPES) (validate_command env)) (\<lambda>_. Inr env)))
        | _ \<Rightarrow> Inl TypeError))"

text \<open>
  What arrives: text (or the bytes of it), or an object that is already decoded. The JSON reader is a
  parameter of the decoder: \<open>None\<close> is its \<open>JSONDecodeError\<close>.
\<close>

datatype raw_message = RawText string | RawObject pyval

definition decode_message :: "(string \<Rightarrow> pyval option) \<Rightarrow> raw_message \<Rightarrow> message_envelope pyres" where
  "decode_message json_loads raw =
     (case raw of
        RawText s \<Rightarrow> (case json_loads s of None \<Rightarrow> Inl (invalid ''invalid JSON'') | Some v \<Rightarrow> decode_value v)
      | RawObject v \<Rightarrow> if is_dict v then decode_value v else Inl (invalid ''message must be JSON object''))"

section \<open>Building messages\<close>

text \<open>The fresh values one builder call draws: two UUIDs, the sending time and the time in the body.\<close>

record fresh_values =
  fr_message_id :: string
  fr_trace_id :: string
  fr_sent_at :: string
  fr_body_at :: string

definition none_if_empty :: "string \<Rightarrow> pyval" where
  "none_if_empty s = (if s = [] then PNone else PStr s)"

definition build_envelope ::
  "fresh_values \<Rightarrow> string \<Rightarrow> string \<Rightarrow> string \<Rightarrow> string \<Rightarrow> int option \<Rightarrow> pydict \<Rightarrow> pydict" where
  "build_envelope fr message_type robot_id session_id trace_id sequence payload =
     [(''protocol_version'', PStr PROTOCOL_VERSION),
      (''message_id'', PStr (fr_message_id fr)),
      (''message_type'', PStr message_type),
      (''robot_id'', PStr robot_id),
      (''session_id'', PStr session_id),
      (''sent_at'', PStr (fr_sent_at fr)),
      (''trace_id'', PStr (if trace_id = [] then fr_trace_id fr else trace_id)),
      (''payload'', PDict payload)]
     @ (case sequence of None \<Rightarrow> [] | Some n \<Rightarrow> [(''sequence'', PInt n)])"

text \<open>\<open>payload["command_id"]\<close> of the command that is answered: a missing key raises.\<close>

definition reply ::
  "fresh_values \<Rightarrow> message_envelope \<Rightarrow> string \<Rightarrow> pydict \<Rightarrow> pydict pyres" where
  "reply fr env message_type body =
     (if has_key (env_payload env) ''command_id'' then
        Inr (build_envelope fr message_type (env_robot_id env) (env_session_id env) (env_trace_id env) None
          ([(''command_id'', dget (env_payload env) ''command_id''),
            (''task_execution_id'', dget (env_payload env) ''task_execution_id'')] @ body))
      else Inl KeyError)"

definition build_ack ::
  "fresh_values \<Rightarrow> message_envelope \<Rightarrow> bool \<Rightarrow> int \<Rightarrow> string \<Rightarrow> string \<Rightarrow> bool \<Rightarrow> pydict pyres" where
  "build_ack fr env accepted edge_state_version code message duplicate =
     reply fr env ''command.ack''
       [(''ack'', PStr (if accepted then ''accepted'' else ''rejected'')),
        (''acknowledged_at'', PStr (fr_body_at fr)),
        (''reason_code'', none_if_empty code),
        (''reason_message'', none_if_empty message),
        (''duplicate'', PBool duplicate),
        (''edge_state_version'', PInt edge_state_version)]"

definition build_result ::
  "fresh_values \<Rightarrow> message_envelope \<Rightarrow> string \<Rightarrow> pydict \<Rightarrow> string \<Rightarrow> string \<Rightarrow> string \<Rightarrow> pydict pyres" where
  "build_result fr env status result started_at error_code error_message =
     reply fr env ''command.result''
       [(''status'', PStr status),
        (''started_at'', PStr started_at),
        (''finished_at'', PStr (fr_body_at fr)),
        (''error_code'', none_if_empty error_code),
        (''error_message'', none_if_empty error_message),
        (''result'', PDict result)]"

definition build_progress ::
  "fresh_values \<Rightarrow> message_envelope \<Rightarrow> pydict \<Rightarrow> string \<Rightarrow> pydict pyres" where
  "build_progress fr env result started_at =
     reply fr env ''command.progress''
       [(''status'', PStr ''executing''),
        (''started_at'', PStr started_at),
        (''result'', PDict result)]"

section \<open>What an admitted message carries\<close>

lemma on_cond_ok [simp]: "on_cond c s = Inr u \<longleftrightarrow> (c \<longrightarrow> s = Inr u)"
  by (simp add: on_cond_def)

lemma discard_ok [simp]: "discard m = Inr u \<longleftrightarrow> (\<exists>a. m = Inr a)"
  by (auto simp: discard_def split: sum.splits)

lemma require_key_dict [simp]:
  "require_key (PDict d) what k = Inr u \<longleftrightarrow> has_key d k \<and> dget d k \<noteq> PNone"
  by (simp add: require_key_def)

lemma require_in_ok:
  "require_in v S e = Inr u \<longleftrightarrow> (\<exists>s. v = PStr s \<and> s \<in> set S)"
  by (cases v) (auto simp: require_in_def)

definition canonical_uuid :: "string \<Rightarrow> bool" where
  "canonical_uuid s = (map_option uuid_to_text (uuid_of_text s) = Some s)"

lemma parse_uuid_canonical: "parse_uuid v field = Inr s \<Longrightarrow> canonical_uuid s"
  by (auto simp: parse_uuid_def canonical_uuid_def uuid_round_trip dest: uuid_of_text_bound
      split: option.splits)

lemma parse_uuid_canonical_id: "canonical_uuid s \<Longrightarrow> parse_uuid (PStr s) field = Inr s"
  by (auto simp: parse_uuid_def canonical_uuid_def)

lemma parse_time_aware: "parse_time v = Inr t \<Longrightarrow> \<exists>off. dt_offset t = Some off"
  by (auto simp: parse_time_def split: option.splits if_splits)

lemma decode_value_cases:
  assumes "decode_value v = Inr env"
  obtains data where "v = PDict data"
    "seqE (map (require_key (PDict data) ''missing required field: '') required_fields) = Inr ()"
    "envelope_checks data = Inr ()" "build_message_envelope data = Inr env"
    "env_message_type env \<in> set COMMAND_TYPES \<Longrightarrow> validate_command env = Inr ()"
  using assms by (cases v) (auto simp: decode_value_def split: if_splits)

lemma decode_message_value: "decode_message jl raw = Inr env \<Longrightarrow> \<exists>v. decode_value v = Inr env"
  by (auto simp: decode_message_def split: raw_message.splits option.splits if_splits)

lemma decode_value_envelope:
  assumes "decode_value v = Inr env"
  shows "env_protocol_version env = PROTOCOL_VERSION"
    and "env_message_type env \<in> set (COMMAND_TYPES @ [''sync.response'', ''trajectory.ack''])"
    and "canonical_uuid (env_message_id env)" and "canonical_uuid (env_trace_id env)"
    and "\<exists>off. dt_offset (env_sent_at env) = Some off"
proof -
  from assms obtain data where d: "envelope_checks data = Inr ()" "build_message_envelope data = Inr env"
    by (rule decode_value_cases)
  from d(1) have v: "dget data ''protocol_version'' = PStr PROTOCOL_VERSION"
    and mt: "\<exists>s. dget data ''message_type'' = PStr s
       \<and> s \<in> set (COMMAND_TYPES @ [''sync.response'', ''trajectory.ack''])"
    by (simp_all add: envelope_checks_def seqE_ok require_in_ok)
  from d(2) obtain mid sent tid where
    ids: "parse_uuid (dget data ''message_id'') ''message_id'' = Inr mid"
      "parse_time (dget data ''sent_at'') = Inr sent"
      "parse_uuid (dget data ''trace_id'') ''trace_id'' = Inr tid"
    and env: "env_message_id env = mid" "env_sent_at env = sent" "env_trace_id env = tid"
      "env_protocol_version env = py_str (dget data ''protocol_version'')"
      "env_message_type env = py_str (dget data ''message_type'')"
    by (auto simp: build_message_envelope_def)
  show "env_protocol_version env = PROTOCOL_VERSION" using v env by simp
  show "env_message_type env \<in> set (COMMAND_TYPES @ [''sync.response'', ''trajectory.ack''])"
    using mt env by auto
  show "canonical_uuid (env_message_id env)" "canonical_uuid (env_trace_id env)"
    using ids env by (auto intro: parse_uuid_canonical)
  show "\<exists>off. dt_offset (env_sent_at env) = Some off"
    using ids env by (auto intro: parse_time_aware)
qed

lemma decode_message_command:
  assumes "decode_message jl raw = Inr env" "env_message_type env \<in> set COMMAND_TYPES"
  shows "validate_command env = Inr ()"
proof -
  from assms(1) obtain v where "decode_value v = Inr env" by (blast dest: decode_message_value)
  then show ?thesis using assms(2) by (blast elim: decode_value_cases)
qed

lemma validate_command_headerD:
  assumes "validate_command env = Inr ()"
  shows "has_key (env_payload env) ''command_id''"
    and "\<exists>i. parse_uuid (dget (env_payload env) ''command_id'') ''command_id'' = Inr i"
    and "\<exists>cmd. dget (env_payload env) ''command'' = PDict cmd"
    and "\<exists>issued expires. parse_time (dget (env_payload env) ''issued_at'') = Inr issued
       \<and> parse_time (dget (env_payload env) ''expires_at'') = Inr expires
       \<and> dt_instant issued < dt_instant expires"
    and "env_message_type env \<in> set TASK_COMMAND_TYPES \<Longrightarrow>
       \<exists>i. parse_uuid (dget (env_payload env) ''task_execution_id'') ''task_execution_id'' = Inr i"
proof -
  from assms have h: "validate_command_header env = Inr ()"
    by (simp add: validate_command_def seqE_ok Let_def)
  then show "has_key (env_payload env) ''command_id''"
    and "\<exists>i. parse_uuid (dget (env_payload env) ''command_id'') ''command_id'' = Inr i"
    by (simp_all add: validate_command_header_def seqE_ok Let_def)
  from h have "is_dict (dget (env_payload env) ''command'')"
    by (simp add: validate_command_header_def seqE_ok Let_def)
  then show "\<exists>cmd. dget (env_payload env) ''command'' = PDict cmd"
    by (cases "dget (env_payload env) ''command''") auto
  from h show "\<exists>issued expires. parse_time (dget (env_payload env) ''issued_at'') = Inr issued
       \<and> parse_time (dget (env_payload env) ''expires_at'') = Inr expires
       \<and> dt_instant issued < dt_instant expires"
    by (fastforce simp: validate_command_header_def seqE_ok Let_def)
  from h show "env_message_type env \<in> set TASK_COMMAND_TYPES \<Longrightarrow>
       \<exists>i. parse_uuid (dget (env_payload env) ''task_execution_id'') ''task_execution_id'' = Inr i"
    by (simp add: validate_command_header_def seqE_ok Let_def)
qed

subsection \<open>Routes\<close>

text \<open>What the executor may rely on for the waypoint at a position of an admitted route.\<close>

definition waypoint_ok :: "nat \<Rightarrow> pyval \<Rightarrow> bool" where
  "waypoint_ok i wp =
     (case wp of
        PDict w \<Rightarrow> py_eq_int (dget w ''sequence'') (int i)
          \<and> list_all (\<lambda>f. is_number (dget w f)) [''x'', ''y'', ''yaw'']
          \<and> (has_key w ''dwell_seconds'' \<longrightarrow> num_between 0 (dget w ''dwell_seconds'') 3600)
          \<and> \<not> (has_key w ''arrival_micro_adjust_mode'' \<and> lowered w ''arrival_micro_adjust_mode'' = ''nav2_goal''
               \<and> lower (str_or (dget w ''arrival_policy'') ''stop_and_confirm'') \<in> {''pass_through'', ''dock''})
      | _ \<Rightarrow> False)"

lemma validate_waypoint_sound: "validate_waypoint i wp = Inr () \<Longrightarrow> waypoint_ok i wp"
  by (cases wp) (auto simp: validate_waypoint_def waypoint_ok_def seqE_ok validate_waypoint_basic_def
      validate_arrival_def validate_waypoint_options_def Let_def)

lemma validate_task_start_sound:
  assumes "validate_task_start cmd = Inr ()"
  shows "\<exists>route wps. dget cmd ''route_snapshot'' = PDict route \<and> dget route ''waypoints'' = PList wps
    \<and> wps \<noteq> [] \<and> (\<forall>i < length wps. waypoint_ok i (wps ! i))"
proof -
  from assms obtain route wp wps where r: "dget cmd ''route_snapshot'' = PDict route"
      "dget route ''waypoints'' = PList (wp # wps)"
    and all: "for_each 0 validate_waypoint (wp # wps) = Inr ()"
    by (auto simp: validate_task_start_def seqE_ok simp del: for_each.simps split: pyval.splits list.splits)
  from all have "\<forall>i < length (wp # wps). waypoint_ok i ((wp # wps) ! i)"
    unfolding for_each_ok by (auto intro: validate_waypoint_sound)
  with r show ?thesis by blast
qed

subsection \<open>Answers\<close>

lemma reply_fields:
  assumes "has_key (env_payload env) ''command_id''" "env_trace_id env \<noteq> []"
  shows "reply fr env mt body = Inr (build_envelope fr mt (env_robot_id env) (env_session_id env)
      (env_trace_id env) None ([(''command_id'', dget (env_payload env) ''command_id''),
            (''task_execution_id'', dget (env_payload env) ''task_execution_id'')] @ body))"
  using assms by (simp add: reply_def)

lemma canonical_uuid_nonempty: "canonical_uuid s \<Longrightarrow> s \<noteq> []"
  by (auto simp: canonical_uuid_def uuid_to_text_def Let_def)

lemma parse_uuid_of_canonical [simp]: "canonical_uuid s \<Longrightarrow> parse_uuid (PStr s) f = Inr s"
  by (rule parse_uuid_canonical_id)

section \<open>A sample command\<close>

text \<open>A complete \<open>task.start\<close> with two waypoints, and the same message without its route.\<close>

definition sample_waypoint :: "int \<Rightarrow> int \<Rightarrow> pyval" where
  "sample_waypoint i x = PDict [(''sequence'', PInt i), (''x'', PInt x), (''y'', PInt 2),
     (''yaw'', PInt 0), (''arrival_policy'', PStr ''Precision''), (''dwell_seconds'', PInt 30)]"

definition sample_start :: pydict where
  "sample_start =
     [(''protocol_version'', PStr ''1.0''),
      (''message_id'', PStr ''AAAAAAAA-bbbb-4ccc-8ddd-0123456789ab''),
      (''message_type'', PStr ''task.start''),
      (''robot_id'', PStr ''robot-7''), (''session_id'', PStr ''s-1''),
      (''sent_at'', PStr ''2026-03-01T08:00:00.000Z''),
      (''trace_id'', PStr ''11111111222243338444555555555555''),
      (''payload'', PDict
        [(''command_id'', PStr ''22222222-2222-4222-8222-222222222222''),
         (''task_execution_id'', PStr ''33333333-3333-4333-8333-333333333333''),
         (''issued_at'', PStr ''2026-03-01T08:00:00+00:00''),
         (''expires_at'', PStr ''2026-03-01T16:00:30+08:00''),
         (''command'', PDict [(''route_snapshot'',
            PDict [(''waypoints'', PList [sample_waypoint 0 1, sample_waypoint 1 5])])])])]"

definition sample_env :: message_envelope where
  "sample_env = (case decode_message (\<lambda>_. None) (RawObject (PDict sample_start)) of
     Inr env \<Rightarrow> env
   | Inl _ \<Rightarrow> \<lparr>env_protocol_version = [], env_message_id = [], env_message_type = [], env_robot_id = [],
       env_session_id = [], env_sent_at = \<lparr>dt_wall = 0, dt_offset = None\<rparr>, env_trace_id = [],
       env_sequence = PNone, env_payload = [], env_raw = []\<rparr>)"

lemma sample_decodes: "decode_message (\<lambda>_. None) (RawObject (PDict sample_start)) = Inr sample_env"
  by code_simp

lemma sample_env_type: "env_message_type sample_env = ''task.start''"
  by code_simp

section \<open>Properties\<close>

text \<open>C1. Decoding is sound. Whatever JSON reader is used, a message that \<open>decode_message\<close> returns speaks
  protocol version 1.0, has a known message type, carries a message id and a trace id in canonical UUID
  spelling and a timestamp with a zone; and if it is a command, its payload holds a parsable command id, a
  command object and a validity window whose end is strictly after its start, and a task command names
  its execution by a UUID.\<close>

theorem decode_message_sound:
  assumes "decode_message jl raw = Inr env"
  shows "env_protocol_version env = PROTOCOL_VERSION
    \<and> env_message_type env \<in> set (COMMAND_TYPES @ [''sync.response'', ''trajectory.ack''])
    \<and> canonical_uuid (env_message_id env) \<and> canonical_uuid (env_trace_id env)
    \<and> (\<exists>off. dt_offset (env_sent_at env) = Some off)
    \<and> (env_message_type env \<in> set COMMAND_TYPES \<longrightarrow>
        (\<exists>i. parse_uuid (dget (env_payload env) ''command_id'') ''command_id'' = Inr i)
        \<and> (\<exists>cmd. dget (env_payload env) ''command'' = PDict cmd)
        \<and> (\<exists>issued expires. parse_time (dget (env_payload env) ''issued_at'') = Inr issued
             \<and> parse_time (dget (env_payload env) ''expires_at'') = Inr expires
             \<and> dt_instant issued < dt_instant expires))
    \<and> (env_message_type env \<in> set TASK_COMMAND_TYPES \<longrightarrow>
        (\<exists>i. parse_uuid (dget (env_payload env) ''task_execution_id'') ''task_execution_id'' = Inr i))"
proof -
  obtain v where v: "decode_value v = Inr env" using assms by (blast dest: decode_message_value)
  have task: "env_message_type env \<in> set TASK_COMMAND_TYPES \<Longrightarrow> env_message_type env \<in> set COMMAND_TYPES"
    by (simp add: COMMAND_TYPES_def)
  have "env_message_type env \<in> set COMMAND_TYPES \<Longrightarrow> validate_command env = Inr ()"
    by (rule decode_message_command [OF assms])
  note header = validate_command_headerD [OF this]
  show ?thesis
    using decode_value_envelope [OF v] header(2-5) task by (intro conjI impI) blast+
qed

theorem decode_message_sound_witness:
  "env_protocol_version sample_env = ''1.0'' \<and> env_trace_id sample_env = ''11111111-2222-4333-8444-555555555555''
    \<and> canonical_uuid (env_message_id sample_env)
    \<and> (\<exists>i. parse_uuid (dget (env_payload sample_env) ''task_execution_id'') ''task_execution_id'' = Inr i)"
proof -
  have "env_trace_id sample_env = ''11111111-2222-4333-8444-555555555555''" by code_simp
  moreover have "env_message_type sample_env \<in> set TASK_COMMAND_TYPES" by code_simp
  ultimately show ?thesis
    using decode_message_sound [OF sample_decodes] by (simp add: PROTOCOL_VERSION_def)
qed

text \<open>C2. Admitted routes are executable. A decoded \<open>task.start\<close> has a route object with a non-empty list of
  waypoints; the waypoint at position \<open>i\<close> is an object whose sequence number equals \<open>i\<close>, whose x, y and yaw
  are numbers, whose dwell time (if any) is in 0..3600 seconds, and that never combines the \<open>nav2_goal\<close>
  micro adjustment with a pass-through or docking arrival.\<close>

theorem decoded_task_start_route:
  assumes "decode_message jl raw = Inr env" "env_message_type env = ''task.start''"
  shows "\<exists>route wps. dget (command_of (env_payload env)) ''route_snapshot'' = PDict route
    \<and> dget route ''waypoints'' = PList wps \<and> wps \<noteq> [] \<and> (\<forall>i < length wps. waypoint_ok i (wps ! i))"
proof -
  have "env_message_type env \<in> set COMMAND_TYPES"
    using assms(2) by (simp add: COMMAND_TYPES_def TASK_COMMAND_TYPES_def)
  from decode_message_command [OF assms(1) this]
  have "validate_task_start (command_of (env_payload env)) = Inr ()"
    using assms(2) by (simp add: validate_command_def seqE_ok Let_def)
  then show ?thesis by (rule validate_task_start_sound)
qed

theorem decoded_task_start_route_witness:
  "\<exists>route wps. dget (command_of (env_payload sample_env)) ''route_snapshot'' = PDict route
    \<and> dget route ''waypoints'' = PList wps \<and> wps \<noteq> [] \<and> (\<forall>i < length wps. waypoint_ok i (wps ! i))"
  by (rule decoded_task_start_route [OF sample_decodes sample_env_type])

text \<open>Every decoded command can be acknowledged, and the acknowledgement correlates with it: building it
  never raises, it is addressed to the same robot and session under the same trace id, and its payload repeats
  the command id and the execution id of the command as they were received, with the verdict.\<close>

theorem ack_correlates:
  assumes "decode_message jl raw = Inr env" "env_message_type env \<in> set COMMAND_TYPES"
  shows "\<exists>ack body. build_ack fr env accepted version code message dup = Inr ack
    \<and> dget ack ''message_type'' = PStr ''command.ack''
    \<and> dget ack ''robot_id'' = PStr (env_robot_id env) \<and> dget ack ''session_id'' = PStr (env_session_id env)
    \<and> dget ack ''trace_id'' = PStr (env_trace_id env)
    \<and> dget ack ''payload'' = PDict body
    \<and> dget body ''command_id'' = dget (env_payload env) ''command_id''
    \<and> dget body ''task_execution_id'' = dget (env_payload env) ''task_execution_id''
    \<and> dget body ''ack'' = PStr (if accepted then ''accepted'' else ''rejected'')"
proof -
  obtain v where v: "decode_value v = Inr env" using assms(1) by (blast dest: decode_message_value)
  have "env_trace_id env \<noteq> []"
    using decode_value_envelope(4) [OF v] by (rule canonical_uuid_nonempty)
  moreover have "has_key (env_payload env) ''command_id''"
    using decode_message_command [OF assms] by (rule validate_command_headerD(1))
  ultimately show ?thesis
    by (simp add: build_ack_def reply_fields build_envelope_def)
qed

theorem ack_correlates_witness:
  "\<exists>ack body. build_ack \<lparr>fr_message_id = ''m'', fr_trace_id = ''t'', fr_sent_at = ''now'', fr_body_at = ''now''\<rparr>
      sample_env False 3 ''BUSY'' ''task running'' False = Inr ack
    \<and> dget ack ''payload'' = PDict body
    \<and> dget body ''command_id'' = PStr ''22222222-2222-4222-8222-222222222222''
    \<and> dget body ''ack'' = PStr ''rejected''"
proof -
  have "env_message_type sample_env \<in> set COMMAND_TYPES" by code_simp
  moreover have "dget (env_payload sample_env) ''command_id'' = PStr ''22222222-2222-4222-8222-222222222222''"
    by code_simp
  ultimately show ?thesis
    using ack_correlates [OF sample_decodes, of "\<lparr>fr_message_id = ''m'', fr_trace_id = ''t'',
      fr_sent_at = ''now'', fr_body_at = ''now''\<rparr>" False 3 "''BUSY''" "''task running''" False] by fastforce
qed

text \<open>C32. Building and decoding are inverse. An envelope built with canonical UUIDs, a zoned timestamp and a
  message type the decoder knows is decoded to an envelope with exactly the robot, session, trace id, sequence
  number and payload it was built from; only the checks of a command's own body can still refuse it.\<close>

theorem build_decode_round_trip:
  fixes robot session :: string and seq :: "int option" and payload :: pydict
  assumes "canonical_uuid (fr_message_id fr)" "canonical_uuid trace" "parse_time (PStr (fr_sent_at fr)) = Inr sent"
    and "mt \<in> set (COMMAND_TYPES @ [''sync.response'', ''trajectory.ack''])"
  defines "data \<equiv> build_envelope fr mt robot session trace seq payload"
  defines "env \<equiv> \<lparr>env_protocol_version = PROTOCOL_VERSION, env_message_id = fr_message_id fr,
      env_message_type = mt, env_robot_id = robot, env_session_id = session, env_sent_at = sent,
      env_trace_id = trace, env_sequence = (case seq of None \<Rightarrow> PNone | Some n \<Rightarrow> PInt n),
      env_payload = payload, env_raw = data\<rparr>"
  shows "decode_message jl (RawObject (PDict data)) =
    (if mt \<in> set COMMAND_TYPES then bindE (validate_command env) (\<lambda>_. Inr env) else Inr env)"
proof -
  have keys: "seqE (map (require_key (PDict data) ''missing required field: '') required_fields) = Inr ()"
    by (simp add: seqE_ok required_fields_def data_def build_envelope_def)
  have checks: "envelope_checks data = Inr ()"
    using assms(4) by (simp add: envelope_checks_def seqE_ok require_in_ok data_def build_envelope_def)
  have "build_message_envelope data = Inr env"
    using assms(1-3) canonical_uuid_nonempty [OF assms(2)]
    by (simp add: build_message_envelope_def env_def data_def build_envelope_def split: option.splits)
  moreover have "env_message_type env = mt" by (simp add: env_def)
  ultimately show ?thesis
    using keys checks by (simp add: decode_message_def decode_value_def on_cond_def)
qed

theorem build_decode_round_trip_witness:
  "\<exists>env. decode_message (\<lambda>_. None) (RawObject (PDict
      (build_envelope \<lparr>fr_message_id = ''22222222-2222-4222-8222-222222222222'', fr_trace_id = [],
          fr_sent_at = ''2026-03-01T08:00:00.000Z'', fr_body_at = []\<rparr>
        ''sync.response'' ''r'' ''s'' ''33333333-3333-4333-8333-333333333333'' (Some 4) [(''ok'', PBool True)])))
    = Inr env \<and> env_sequence env = PInt 4 \<and> env_payload env = [(''ok'', PBool True)]"
proof -
  let ?fr = "\<lparr>fr_message_id = ''22222222-2222-4222-8222-222222222222'', fr_trace_id = [],
          fr_sent_at = ''2026-03-01T08:00:00.000Z'', fr_body_at = []\<rparr>"
  have ids: "canonical_uuid (fr_message_id ?fr)" "canonical_uuid ''33333333-3333-4333-8333-333333333333''"
    by code_simp+
  have time: "\<exists>t. parse_time (PStr (fr_sent_at ?fr)) = Inr t"
    by (rule exI [of _ "\<lparr>dt_wall = 63908035200000000, dt_offset = Some 0\<rparr>"]) code_simp
  have mt: "''sync.response'' \<in> set (COMMAND_TYPES @ [''sync.response'', ''trajectory.ack''])"
    "''sync.response'' \<notin> set COMMAND_TYPES" by code_simp+
  from time obtain t where t: "parse_time (PStr (fr_sent_at ?fr)) = Inr t" by blast
  show ?thesis
    using build_decode_round_trip [OF ids t mt(1), of "\<lambda>_. None" "''r''" "''s''" "Some 4" "[(''ok'', PBool True)]"]
      mt(2) by simp
qed

end
