(* ===== verification/Arbiter.thy ===== *)
theory Arbiter
  imports PyText
begin

text \<open>
  Single-owner arbitration of recovery actions (\<open>edge-agent/roamerx_edge/recovery_arbiter.py\<close>): the lease,
  the finite budget and the arbiter's operations. The methods hold the arbiter's lock for their whole body,
  so a run of concurrent callers is a sequence of operations. The interface \<open>stamped_slot\<close> states what
  the arbiter promises of its lease slot; its consequences are proved once and interpreted on the arbiter.
\<close>

section \<open>Lease and budget\<close>

record recovery_lease =
  ls_owner :: string
  ls_generation :: int
  ls_reason :: string
  ls_started_at :: real

record recovery_budget =
  bg_max_attempts :: int
  bg_max_duration_seconds :: real
  bg_max_distance_m :: real
  bg_attempts :: int
  bg_started_at :: "real option"
  bg_distance_m :: real

definition new_budget :: recovery_budget where
  "new_budget = \<lparr>bg_max_attempts = 10, bg_max_duration_seconds = 180, bg_max_distance_m = 12 / 10,
     bg_attempts = 0, bg_started_at = None, bg_distance_m = 0\<rparr>"

definition begin_episode :: "real \<Rightarrow> recovery_budget \<Rightarrow> recovery_budget" where
  "begin_episode now b = (if bg_started_at b = None then b\<lparr>bg_started_at := Some now\<rparr> else b)"

definition record_attempt :: "real \<Rightarrow> real \<Rightarrow> recovery_budget \<Rightarrow> recovery_budget" where
  "record_attempt now distance b =
     (let b' = begin_episode now b in
      b'\<lparr>bg_attempts := bg_attempts b' + 1, bg_distance_m := bg_distance_m b' + max 0 distance\<rparr>)"

definition exhausted :: "real \<Rightarrow> recovery_budget \<Rightarrow> bool" where
  "exhausted now b =
     (if bg_attempts b \<ge> bg_max_attempts b then True
      else if (case bg_started_at b of None \<Rightarrow> False | Some t \<Rightarrow> now - t \<ge> bg_max_duration_seconds b) then True
      else bg_distance_m b \<ge> bg_max_distance_m b)"

definition budget_reset :: "recovery_budget \<Rightarrow> recovery_budget" where
  "budget_reset b = b\<lparr>bg_attempts := 0, bg_started_at := None, bg_distance_m := 0\<rparr>"

record budget_view =
  bv_attempts :: int
  bv_max_attempts :: int
  bv_distance_m :: real
  bv_max_distance_m :: real
  bv_elapsed_seconds :: "real option"
  bv_max_duration_seconds :: real
  bv_exhausted :: bool

definition budget_snapshot :: "clock \<Rightarrow> recovery_budget \<Rightarrow> budget_view" where
  "budget_snapshot clk b =
     \<lparr>bv_attempts = bg_attempts b, bv_max_attempts = bg_max_attempts b,
      bv_distance_m = py_round 3 (bg_distance_m b), bv_max_distance_m = bg_max_distance_m b,
      bv_elapsed_seconds = map_option (\<lambda>t. py_round 2 (clk 0 - t)) (bg_started_at b),
      bv_max_duration_seconds = bg_max_duration_seconds b, bv_exhausted = exhausted (clk 1) b\<rparr>"

section \<open>The arbiter\<close>

record recovery_arbiter =
  ab_generation :: int
  ab_lease :: "recovery_lease option"
  ab_budget :: recovery_budget

definition new_arbiter :: recovery_arbiter where
  "new_arbiter = \<lparr>ab_generation = 0, ab_lease = None, ab_budget = new_budget\<rparr>"

definition acquire ::
  "clock \<Rightarrow> string \<Rightarrow> string \<Rightarrow> real \<Rightarrow> recovery_arbiter \<Rightarrow> recovery_arbiter \<times> recovery_lease option" where
  "acquire clk owner reason distance a =
     (if ab_lease a \<noteq> None then (a, None)
      else if exhausted (clk 0) (ab_budget a) then (a, None)
      else let b = record_attempt (clk 1) distance (ab_budget a);
               g = ab_generation a + 1;
               l = \<lparr>ls_owner = owner, ls_generation = g, ls_reason = reason, ls_started_at = clk 2\<rparr>
           in (\<lparr>ab_generation = g, ab_lease = Some l, ab_budget = b\<rparr>, Some l))"

definition release :: "recovery_lease option \<Rightarrow> recovery_arbiter \<Rightarrow> recovery_arbiter \<times> bool" where
  "release lease a =
     (case lease of
        None \<Rightarrow> (a, False)
      | Some l \<Rightarrow> if ab_lease a \<noteq> Some l then (a, False) else (a\<lparr>ab_lease := None\<rparr>, True))"

definition release_generation :: "string \<Rightarrow> int \<Rightarrow> recovery_arbiter \<Rightarrow> recovery_arbiter \<times> bool" where
  "release_generation owner generation a =
     (case ab_lease a of
        None \<Rightarrow> (a, False)
      | Some l \<Rightarrow> if ls_owner l \<noteq> owner \<or> ls_generation l \<noteq> generation then (a, False)
                  else (a\<lparr>ab_lease := None\<rparr>, True))"

definition force_release :: "recovery_arbiter \<Rightarrow> recovery_arbiter" where
  "force_release a = a\<lparr>ab_lease := None\<rparr>"

definition budget_exhausted :: "real \<Rightarrow> recovery_arbiter \<Rightarrow> bool" where
  "budget_exhausted now a = exhausted now (ab_budget a)"

definition reset_budget :: "recovery_arbiter \<Rightarrow> recovery_arbiter" where
  "reset_budget a = a\<lparr>ab_budget := budget_reset (ab_budget a)\<rparr>"

record arbiter_view =
  av_owner :: string
  av_recovery_generation :: int
  av_reason :: string
  av_started_at :: "real option"
  av_budget :: budget_view

definition arbiter_snapshot :: "clock \<Rightarrow> recovery_arbiter \<Rightarrow> arbiter_view" where
  "arbiter_snapshot clk a =
     (case ab_lease a of
        Some l \<Rightarrow> \<lparr>av_owner = ls_owner l, av_recovery_generation = ls_generation l, av_reason = ls_reason l,
          av_started_at = Some (ls_started_at l), av_budget = budget_snapshot clk (ab_budget a)\<rparr>
      | None \<Rightarrow> \<lparr>av_owner = ''NONE'', av_recovery_generation = ab_generation a, av_reason = [],
          av_started_at = None, av_budget = budget_snapshot clk (ab_budget a)\<rparr>)"

text \<open>One call of a client, and a run of calls. The lock makes every interleaving such a sequence.\<close>

datatype arbiter_call =
    Acquire clock string string real
  | Release "recovery_lease option"
  | ReleaseGeneration string int
  | ForceRelease
  | ResetBudget

fun arbiter_step :: "arbiter_call \<Rightarrow> recovery_arbiter \<Rightarrow> recovery_arbiter" where
  "arbiter_step (Acquire clk owner reason d) a = fst (acquire clk owner reason d a)"
| "arbiter_step (Release l) a = fst (release l a)"
| "arbiter_step (ReleaseGeneration owner g) a = fst (release_generation owner g a)"
| "arbiter_step ForceRelease a = force_release a"
| "arbiter_step ResetBudget a = reset_budget a"

definition arbiter_run :: "arbiter_call list \<Rightarrow> recovery_arbiter \<Rightarrow> recovery_arbiter" where
  "arbiter_run cs a = fold arbiter_step cs a"

section \<open>Slots whose occupants are stamped\<close>

text \<open>The occupants that a run puts into a slot, in order.\<close>

fun placed :: "('s \<Rightarrow> 'l option) \<Rightarrow> ('c \<Rightarrow> 's \<Rightarrow> 's) \<Rightarrow> 's \<Rightarrow> 'c list \<Rightarrow> 'l list" where
  "placed slot step s [] = []"
| "placed slot step s (c # cs) =
     (case (slot s, slot (step c s)) of (None, Some l) \<Rightarrow> [l] | _ \<Rightarrow> []) @ placed slot step (step c s) cs"

text \<open>
  The contract: a step keeps the slot, empties it, or fills an empty slot with an occupant whose stamp is
  the next value of a counter that nothing else moves.
\<close>

locale stamped_slot =
  fixes slot :: "'s \<Rightarrow> 'l option" and stamp :: "'l \<Rightarrow> int" and counter :: "'s \<Rightarrow> int"
    and step :: "'c \<Rightarrow> 's \<Rightarrow> 's"
  assumes step_law:
    "(slot (step c s) = slot s \<or> slot (step c s) = None) \<and> counter (step c s) = counter s
     \<or> slot s = None \<and> (\<exists>l. slot (step c s) = Some l \<and> stamp l = counter s + 1)
        \<and> counter (step c s) = counter s + 1"
begin

lemma placed_Cons_cases:
  obtains (same) "placed slot step s (c # cs) = placed slot step (step c s) cs"
      "counter (step c s) = counter s" "slot (step c s) = slot s \<or> slot (step c s) = None"
    | (fill) l where "placed slot step s (c # cs) = l # placed slot step (step c s) cs"
      "slot (step c s) = Some l" "stamp l = counter s + 1" "counter (step c s) = counter s + 1"
  using step_law [of c s] by (cases "slot s"; cases "slot (step c s)") auto

lemma placed_bounds:
  "l \<in> set (placed slot step s cs) \<Longrightarrow> counter s < stamp l \<and> stamp l \<le> counter (fold step cs s)"
  and counter_mono: "counter s \<le> counter (fold step cs s)"
proof (induction cs arbitrary: s)
  case (Cons c cs)
  { case 1 show ?case
      by (rule placed_Cons_cases [of s c cs]) (use 1 Cons.IH [of "step c s"] in auto) }
  { case 2 show ?case
      by (rule placed_Cons_cases [of s c cs]) (use Cons.IH(2) [of "step c s"] in auto) }
qed auto

lemma placed_increasing: "sorted_wrt (<) (map stamp (placed slot step s cs))"
proof (induction cs arbitrary: s)
  case (Cons c cs)
  show ?case
  proof (rule placed_Cons_cases [of s c cs])
    fix l
    assume eq: "placed slot step s (c # cs) = l # placed slot step (step c s) cs"
      and st: "stamp l = counter s + 1" "counter (step c s) = counter s + 1"
    have "stamp l < stamp l'" if "l' \<in> set (placed slot step (step c s) cs)" for l'
      using placed_bounds [OF that] st by simp
    then show ?thesis unfolding eq using Cons.IH by auto
  qed (use Cons.IH in simp)
qed simp

lemma placed_distinct: "distinct (map stamp (placed slot step s cs))"
  using placed_increasing [of s cs] by (simp add: strict_sorted_iff)

lemma occupant_placed:
  "slot (fold step cs s) = Some l \<Longrightarrow> slot s = Some l \<or> l \<in> set (placed slot step s cs)"
proof (induction cs arbitrary: s)
  case (Cons c cs)
  then have IH: "slot (step c s) = Some l \<or> l \<in> set (placed slot step (step c s) cs)" by simp
  show ?case
    by (rule placed_Cons_cases [of s c cs]) (use IH in auto)
qed simp

lemma stale_stamp:
  assumes "slot s = None" "l \<in> set (placed slot step s cs)" "slot (fold step cs s) = Some l'" "l' \<noteq> l"
  shows "stamp l' \<noteq> stamp l"
proof -
  have "l' \<in> set (placed slot step s cs)" using occupant_placed [OF assms(3)] assms(1) by simp
  with assms(2,4) placed_distinct [of s cs] show ?thesis by (auto simp: distinct_map inj_on_def)
qed

end

lemma acquire_cases:
  obtains (refused) "acquire clk owner reason d a = (a, None)"
      "ab_lease a \<noteq> None \<or> exhausted (clk 0) (ab_budget a)"
    | (granted) l where "acquire clk owner reason d a =
        (\<lparr>ab_generation = ab_generation a + 1, ab_lease = Some l,
          ab_budget = record_attempt (clk 1) d (ab_budget a)\<rparr>, Some l)"
      "ab_lease a = None" "\<not> exhausted (clk 0) (ab_budget a)" "ls_generation l = ab_generation a + 1"
      "ls_owner l = owner"
proof (cases "ab_lease a \<noteq> None \<or> exhausted (clk 0) (ab_budget a)")
  case True
  then show ?thesis by (intro refused) (auto simp: acquire_def)
next
  case False
  then show ?thesis by (intro granted) (auto simp: acquire_def Let_def)
qed

interpretation arb: stamped_slot ab_lease ls_generation ab_generation arbiter_step
proof
  fix c and s :: recovery_arbiter
  show "(ab_lease (arbiter_step c s) = ab_lease s \<or> ab_lease (arbiter_step c s) = None)
      \<and> ab_generation (arbiter_step c s) = ab_generation s
     \<or> ab_lease s = None \<and> (\<exists>l. ab_lease (arbiter_step c s) = Some l \<and> ls_generation l = ab_generation s + 1)
        \<and> ab_generation (arbiter_step c s) = ab_generation s + 1"
  proof (cases c)
    case (Acquire clk owner reason d)
    then show ?thesis by (cases rule: acquire_cases [of clk owner reason d s]) auto
  qed (auto simp: release_def release_generation_def force_release_def reset_budget_def
      split: option.splits)
qed

section \<open>The budget\<close>

text \<open>What the finite budget means: the attempts are counted and never pass the limit, and the distance is
  a sum of non-negative amounts.\<close>

definition budget_ok :: "recovery_budget \<Rightarrow> bool" where
  "budget_ok b = (0 \<le> bg_attempts b \<and> bg_attempts b \<le> max 0 (bg_max_attempts b) \<and> 0 \<le> bg_distance_m b
     \<and> (0 < bg_attempts b \<longrightarrow> bg_started_at b \<noteq> None))"

lemmas budget_defs = record_attempt_def begin_episode_def exhausted_def budget_reset_def budget_ok_def Let_def

lemma record_attempt_ok:
  "budget_ok b \<Longrightarrow> \<not> exhausted now b \<Longrightarrow> budget_ok (record_attempt now' d b)"
  by (auto simp: budget_defs split: if_splits)

lemma record_attempt_frame [simp]:
  "bg_max_attempts (record_attempt now d b) = bg_max_attempts b"
  "bg_max_duration_seconds (record_attempt now d b) = bg_max_duration_seconds b"
  "bg_max_distance_m (record_attempt now d b) = bg_max_distance_m b"
  "bg_attempts (record_attempt now d b) = bg_attempts b + 1"
  by (simp_all add: budget_defs)

lemma reset_ok: "budget_ok b \<Longrightarrow> budget_ok (budget_reset b)"
  by (simp add: budget_defs)

lemma step_budget_ok: "budget_ok (ab_budget a) \<Longrightarrow> budget_ok (ab_budget (arbiter_step c a))"
proof (cases c)
  case (Acquire clk owner reason d)
  assume "budget_ok (ab_budget a)"
  then show ?thesis using Acquire
    by (cases rule: acquire_cases [of clk owner reason d a]) (auto intro: record_attempt_ok)
qed (auto simp: release_def release_generation_def force_release_def reset_budget_def reset_ok
      split: option.splits)

lemma step_limits:
  "bg_max_attempts (ab_budget (arbiter_step c a)) = bg_max_attempts (ab_budget a)"
proof (cases c)
  case (Acquire clk owner reason d)
  then show ?thesis by (cases rule: acquire_cases [of clk owner reason d a]) auto
qed (auto simp: release_def release_generation_def force_release_def reset_budget_def budget_reset_def
      split: option.splits)

lemma run_budget_ok:
  "budget_ok (ab_budget a) \<Longrightarrow> budget_ok (ab_budget (fold arbiter_step cs a))"
  "bg_max_attempts (ab_budget (fold arbiter_step cs a)) = bg_max_attempts (ab_budget a)"
  by (induction cs arbitrary: a) (auto simp: step_budget_ok step_limits)

lemma new_budget_ok: "budget_ok new_budget"
  by (simp add: budget_ok_def new_budget_def)

lemma placed_counts_attempts:
  "ResetBudget \<notin> set cs \<Longrightarrow>
     int (length (placed ab_lease arbiter_step a cs))
       = bg_attempts (ab_budget (fold arbiter_step cs a)) - bg_attempts (ab_budget a)"
proof (induction cs arbitrary: a)
  case (Cons c cs)
  then have IH: "int (length (placed ab_lease arbiter_step (arbiter_step c a) cs))
      = bg_attempts (ab_budget (fold arbiter_step cs (arbiter_step c a))) - bg_attempts (ab_budget (arbiter_step c a))"
    by simp
  have "int (length (placed ab_lease arbiter_step a (c # cs))) =
      int (length (placed ab_lease arbiter_step (arbiter_step c a) cs))
        + (bg_attempts (ab_budget (arbiter_step c a)) - bg_attempts (ab_budget a))"
  proof (cases c)
    case (Acquire clk owner reason d)
    then show ?thesis by (cases rule: acquire_cases [of clk owner reason d a]) (auto split: option.splits)
  qed (use Cons.prems in \<open>auto simp: release_def release_generation_def force_release_def split: option.splits\<close>)
  with IH show ?case by simp
qed simp

lemma exhausted_stays:
  assumes "exhausted now b" "now \<le> now'"
  shows "exhausted now' b"
  using assms by (auto simp: exhausted_def split: option.splits if_splits)

text \<open>The calls of a run that all read the clock at or after an instant.\<close>

fun reads_after :: "real \<Rightarrow> arbiter_call \<Rightarrow> bool" where
  "reads_after t (Acquire clk _ _ _) = (t \<le> clk 0)"
| "reads_after t _ = True"

lemma exhausted_step:
  assumes "exhausted now (ab_budget a)" "c \<noteq> ResetBudget" "reads_after now c"
  shows "ab_budget (arbiter_step c a) = ab_budget a"
    and "ab_lease (arbiter_step c a) = ab_lease a \<or> ab_lease (arbiter_step c a) = None"
proof -
  have "ab_budget (arbiter_step c a) = ab_budget a
    \<and> (ab_lease (arbiter_step c a) = ab_lease a \<or> ab_lease (arbiter_step c a) = None)"
  proof (cases c)
    case (Acquire clk owner reason d)
    with assms have "exhausted (clk 0) (ab_budget a)" by (auto intro: exhausted_stays)
    then show ?thesis using Acquire by (cases rule: acquire_cases [of clk owner reason d a]) auto
  qed (use assms(2) in \<open>auto simp: release_def release_generation_def force_release_def
      split: option.splits\<close>)
  then show "ab_budget (arbiter_step c a) = ab_budget a"
    and "ab_lease (arbiter_step c a) = ab_lease a \<or> ab_lease (arbiter_step c a) = None" by auto
qed

lemma exhausted_run:
  "exhausted now (ab_budget a) \<Longrightarrow> ResetBudget \<notin> set cs \<Longrightarrow> list_all (reads_after now) cs \<Longrightarrow>
     placed ab_lease arbiter_step a cs = [] \<and> ab_budget (fold arbiter_step cs a) = ab_budget a"
proof (induction cs arbitrary: a)
  case (Cons c cs)
  have c: "c \<noteq> ResetBudget" "reads_after now c"
    using Cons.prems by auto
  note step = exhausted_step [OF Cons.prems(1) c]
  from Cons.IH [of "arbiter_step c a"] Cons.prems step show ?case by (auto split: option.splits)
qed simp

section \<open>Properties\<close>

text \<open>C28. A stale reply cannot free a newer recovery action. In every run of calls on a fresh arbiter, the leases
  handed out have strictly increasing generations, and a lease that was handed out and is no longer the held
  one can release nothing: neither \<open>release\<close> with the lease nor \<open>release_generation\<close> with its owner and
  generation changes the arbiter, and both report failure.\<close>

theorem stale_lease_powerless:
  "sorted_wrt (<) (map ls_generation (placed ab_lease arbiter_step new_arbiter cs))
   \<and> (let a = arbiter_run cs new_arbiter in
       \<forall>l \<in> set (placed ab_lease arbiter_step new_arbiter cs). ab_lease a \<noteq> Some l \<longrightarrow>
          release (Some l) a = (a, False)
          \<and> release_generation (ls_owner l) (ls_generation l) a = (a, False))"
proof (unfold Let_def, intro conjI ballI impI)
  let ?a = "arbiter_run cs new_arbiter"
  show "sorted_wrt (<) (map ls_generation (placed ab_lease arbiter_step new_arbiter cs))"
    by (rule arb.placed_increasing)
  fix l
  assume l: "l \<in> set (placed ab_lease arbiter_step new_arbiter cs)" "ab_lease ?a \<noteq> Some l"
  then show "release (Some l) ?a = (?a, False)" by (simp add: release_def)
  have "ab_lease new_arbiter = None" by (simp add: new_arbiter_def)
  with l have "ls_generation l' \<noteq> ls_generation l" if "ab_lease ?a = Some l'" for l'
    using that arb.stale_stamp [of new_arbiter l cs l'] by (auto simp: arbiter_run_def)
  then show "release_generation (ls_owner l) (ls_generation l) ?a = (?a, False)"
    by (auto simp: release_generation_def split: option.splits)
qed

theorem stale_lease_powerless_witness:
  "let clk = (\<lambda>i. real i); cs = [Acquire clk ''bt'' ''blocked'' 0, ForceRelease, Acquire clk ''edge'' ''drift'' 0];
       old = \<lparr>ls_owner = ''bt'', ls_generation = 1, ls_reason = ''blocked'', ls_started_at = 2\<rparr>;
       a = arbiter_run cs new_arbiter
   in ab_lease a \<noteq> Some old \<and> ab_lease a \<noteq> None \<and> release (Some old) a = (a, False)
      \<and> release_generation ''bt'' 1 a = (a, False)"
proof -
  let ?clk = "\<lambda>i. real i"
  let ?cs = "[Acquire ?clk ''bt'' ''blocked'' 0, ForceRelease, Acquire ?clk ''edge'' ''drift'' 0]"
  let ?old = "\<lparr>ls_owner = ''bt'', ls_generation = 1, ls_reason = ''blocked'', ls_started_at = 2\<rparr> :: recovery_lease"
  have "?old \<in> set (placed ab_lease arbiter_step new_arbiter ?cs)"
    and "ab_lease (arbiter_run ?cs new_arbiter) \<noteq> Some ?old" "ab_lease (arbiter_run ?cs new_arbiter) \<noteq> None"
    by (simp_all add: arbiter_run_def new_arbiter_def new_budget_def acquire_def force_release_def budget_defs)
  then show ?thesis
    using stale_lease_powerless [of ?cs] by (auto simp: Let_def)
qed

text \<open>C33. The budget is finite and forces a hold. In every run on a fresh arbiter without \<open>reset_budget\<close> at most
  ten leases are granted; and once the budget is exhausted, whatever calls follow at later clock readings (again
  without a reset), no further lease is granted.\<close>

theorem recovery_budget_bounds_grants:
  assumes "ResetBudget \<notin> set cs"
  shows "length (placed ab_lease arbiter_step new_arbiter cs) \<le> 10
    \<and> (budget_exhausted now (arbiter_run cs new_arbiter) \<and> ResetBudget \<notin> set ds \<and> list_all (reads_after now) ds
       \<longrightarrow> placed ab_lease arbiter_step new_arbiter (cs @ ds) = placed ab_lease arbiter_step new_arbiter cs)"
proof (intro conjI impI)
  have "int (length (placed ab_lease arbiter_step new_arbiter cs)) \<le> 10"
    using placed_counts_attempts [OF assms, of new_arbiter] run_budget_ok [where a = new_arbiter and cs = cs] new_budget_ok
    by (simp add: new_arbiter_def budget_ok_def new_budget_def)
  then show "length (placed ab_lease arbiter_step new_arbiter cs) \<le> 10" by simp
next
  have app: "placed ab_lease arbiter_step a (cs @ ds)
      = placed ab_lease arbiter_step a cs @ placed ab_lease arbiter_step (fold arbiter_step cs a) ds" for a
    by (induction cs arbitrary: a) auto
  assume "budget_exhausted now (arbiter_run cs new_arbiter) \<and> ResetBudget \<notin> set ds \<and> list_all (reads_after now) ds"
  then show "placed ab_lease arbiter_step new_arbiter (cs @ ds) = placed ab_lease arbiter_step new_arbiter cs"
    using exhausted_run [of now "fold arbiter_step cs new_arbiter" ds]
    by (simp add: app budget_exhausted_def arbiter_run_def)
qed

theorem recovery_budget_bounds_grants_witness:
  "let cs = [Acquire (\<lambda>i. 100) ''bt'' ''blocked'' 2, ForceRelease]; ds = [Acquire (\<lambda>i. 101) ''bt'' ''again'' 0]
   in length (placed ab_lease arbiter_step new_arbiter (cs @ ds)) = 1
      \<and> placed ab_lease arbiter_step new_arbiter (cs @ ds) = placed ab_lease arbiter_step new_arbiter cs"
proof -
  let ?cs = "[Acquire (\<lambda>i. 100) ''bt'' ''blocked'' 2, ForceRelease]"
  let ?ds = "[Acquire (\<lambda>i. 101) ''bt'' ''again'' 0]"
  have "budget_exhausted 100 (arbiter_run ?cs new_arbiter)"
    by (simp add: budget_exhausted_def arbiter_run_def new_arbiter_def new_budget_def acquire_def
        force_release_def budget_defs)
  then have "placed ab_lease arbiter_step new_arbiter (?cs @ ?ds) = placed ab_lease arbiter_step new_arbiter ?cs"
    using recovery_budget_bounds_grants [of ?cs 100 ?ds] by simp
  moreover have "length (placed ab_lease arbiter_step new_arbiter ?cs) = 1"
    by (simp add: new_arbiter_def new_budget_def acquire_def force_release_def budget_defs)
  ultimately show ?thesis by (simp add: Let_def)
qed

end
