(* ===== verification/Safety.thy ===== *)
theory Safety
  imports Protocol
begin

text \<open>
  Admission of motion: \<open>edge-agent/roamerx_edge/safety_policy.py\<close> (task start, navigation admission, manual
  assist, pause, resume and cancel, and the wait for a stable localization) and the choice of a
  relocalization seed in \<open>localization_recovery.py\<close>. The state is updated by other threads while the wait loop
  runs, so the loop reads it through an observation argument: the state and the clock at each round.
\<close>

section \<open>State and configuration\<close>

record safety_config =
  sc_localization_stable_seconds :: real
  sc_low_battery_percent :: int

record safety_state =
  ss_localization_status :: string
  ss_localization_normal_since :: real
  ss_nav_ready :: bool
  ss_emergency_stop :: bool
  ss_control_mode :: string
  ss_power_available :: bool
  ss_battery_percent :: "int option"
  ss_current_map_id :: string
  ss_current_map_version :: string
  ss_current_map_local_state :: string
  ss_current_map_error :: string

section \<open>Waiting for a stable localization\<close>

text \<open>What round \<open>k\<close> of the loop sees: the clock in the loop condition, the state, the clock afterwards.\<close>

record wait_round =
  wr_now :: real
  wr_status :: string
  wr_since :: real
  wr_now2 :: real

definition wait_exit :: "real \<Rightarrow> real \<Rightarrow> wait_round \<Rightarrow> bool" where
  "wait_exit required deadline r =
     (\<not> wr_now r < deadline \<or> wr_status r \<noteq> ''normal'' \<or> wr_since r \<le> 0
      \<or> required - (wr_now2 r - wr_since r) \<le> 0)"

text \<open>The loop returns the number of the round in which it stops; it sleeps before every later round.\<close>

partial_function (option) wait_loop :: "real \<Rightarrow> real \<Rightarrow> (nat \<Rightarrow> wait_round) \<Rightarrow> nat \<Rightarrow> nat option" where
  "wait_loop required deadline obs k =
     (if wait_exit required deadline (obs k) then Some k else wait_loop required deadline obs (Suc k))"

definition wait_until_localization_stable ::
  "safety_config \<Rightarrow> safety_state \<Rightarrow> clock \<Rightarrow> (nat \<Rightarrow> wait_round) \<Rightarrow> nat option" where
  "wait_until_localization_stable cfg st clk obs =
     (let required = sc_localization_stable_seconds cfg; started = ss_localization_normal_since st;
          remaining = required - (clk 0 - started) in
      if required \<le> 0 \<or> ss_localization_status st \<noteq> ''normal'' then Some 0
      else if started \<le> 0 then Some 0
      else if remaining \<le> 0 then Some 0
      else wait_loop required (clk 1 + remaining) obs 0)"

section \<open>Admission checks\<close>

definition low_battery :: "safety_config \<Rightarrow> safety_state \<Rightarrow> bool" where
  "low_battery cfg st = (ss_power_available st
     \<and> (case ss_battery_percent st of None \<Rightarrow> False | Some b \<Rightarrow> b < sc_low_battery_percent cfg))"

definition battery_text :: "safety_state \<Rightarrow> string" where
  "battery_text st = ''battery='' @ (case ss_battery_percent st of None \<Rightarrow> ''None'' | Some b \<Rightarrow> show_int b)"

definition not_stable :: pyexc where
  "not_stable = protocol_error ''LOCALIZATION_NOT_STABLE'' ''<normal for less than the required time>''"

text \<open>The comprehension over the submaps of a map set: every item has to be an object.\<close>

fun iterate_items :: "pyval \<Rightarrow> unit pyres" where
  "iterate_items (PList items) = raise_if (\<not> list_all is_dict items) AttributeError"
| "iterate_items (PDict d) = raise_if (d \<noteq> []) AttributeError"
| "iterate_items (PStr s) = raise_if (s \<noteq> []) AttributeError"
| "iterate_items v = raise_if (truthy v) TypeError"

definition check_map :: "safety_state \<Rightarrow> pyval \<Rightarrow> pyval \<Rightarrow> unit pyres" where
  "check_map st required_map map_set =
     (if truthy map_set then bindE (py_get map_set ''submaps'') iterate_items
      else bindE (as_dict required_map) (\<lambda>m.
        raise_if (dget m ''map_id'' \<noteq> PStr (ss_current_map_id st)
            \<or> dget m ''map_version'' \<noteq> PStr (ss_current_map_version st))
          (protocol_error ''MAP_VERSION_MISMATCH'' ''current map does not match task'')))"

definition check_task_map :: "safety_state \<Rightarrow> pydict \<Rightarrow> unit pyres" where
  "check_task_map st payload =
     bindE (dsub payload ''command'') (\<lambda>cmd.
     bindE (py_get cmd ''map'') (\<lambda>required_map.
     bindE (py_get cmd ''route_snapshot'') (\<lambda>route.
     bindE (as_dict route) (\<lambda>r.
     bindE (raise_if (ss_current_map_local_state st \<notin> {''applied'', []})
         (protocol_error ''MAP_LOCAL_MISMATCH''
           (if ss_current_map_error st \<noteq> [] then ss_current_map_error st else ss_current_map_local_state st)))
       (\<lambda>_. check_map st required_map (dget r ''map_set''))))))"

definition docking_enabled :: "pydict \<Rightarrow> bool pyres" where
  "docking_enabled payload =
     bindE (dsub payload ''command'') (\<lambda>cmd. bindE (py_get cmd ''docking'') (\<lambda>d.
       bindE (as_dict d) (\<lambda>docking. Inr (truthy (dget docking ''enabled'')))))"

definition smart_initialize :: "pydict \<Rightarrow> bool pyres" where
  "smart_initialize payload =
     bindE (as_dict (dget payload ''command'')) (\<lambda>cmd.
       Inr (truthy (dget_def_val cmd ''smart_initialize'' (PBool True))))"

definition validate_start ::
  "safety_config \<Rightarrow> safety_state \<Rightarrow> real \<Rightarrow> pydict \<Rightarrow> bool \<Rightarrow> bool \<Rightarrow> bool \<Rightarrow> bool \<Rightarrow> unit pyres" where
  "validate_start cfg st now payload has_active_task allow_manual require_localization require_nav = seqE
     [raise_if has_active_task (protocol_error ''ROBOT_BUSY'' ''another motion task is active''),
      bindE (smart_initialize payload) (\<lambda>smart.
        raise_if (require_localization \<and> ss_localization_status st \<noteq> ''normal'' \<and> \<not> smart)
          (protocol_error ''LOCALIZATION_NOT_READY'' (ss_localization_status st))),
      raise_if (require_localization
          \<and> now - ss_localization_normal_since st < sc_localization_stable_seconds cfg) not_stable,
      raise_if (require_nav \<and> \<not> ss_nav_ready st)
        (protocol_error ''NAV_STACK_NOT_READY'' ''FollowWaypoints action server is unavailable''),
      raise_if (ss_emergency_stop st) (protocol_error ''EMERGENCY_STOP_ACTIVE'' ''emergency stop is active''),
      raise_if (ss_control_mode st = ''manual_takeover'' \<and> \<not> allow_manual)
        (protocol_error ''MANUAL_TAKEOVER_ACTIVE'' ''manual takeover is active''),
      on_cond (low_battery cfg st) (bindE (docking_enabled payload) (\<lambda>dock.
        raise_if (\<not> dock) (protocol_error ''LOW_BATTERY'' (battery_text st)))),
      check_task_map st payload]"

definition validate_navigation_admission :: "safety_config \<Rightarrow> safety_state \<Rightarrow> real \<Rightarrow> unit pyres" where
  "validate_navigation_admission cfg st now = seqE
     [raise_if (ss_localization_status st \<noteq> ''normal'')
        (protocol_error ''LOCALIZATION_NOT_READY'' (ss_localization_status st)),
      raise_if (now - ss_localization_normal_since st < sc_localization_stable_seconds cfg) not_stable,
      raise_if (\<not> ss_nav_ready st)
        (protocol_error ''NAV_STACK_NOT_READY'' ''FollowWaypoints action server is unavailable''),
      raise_if (ss_emergency_stop st) (protocol_error ''EMERGENCY_STOP_ACTIVE'' ''emergency stop is active'')]"

definition validate_manual_assist :: "safety_config \<Rightarrow> safety_state \<Rightarrow> unit pyres" where
  "validate_manual_assist cfg st = seqE
     [raise_if (ss_emergency_stop st) (protocol_error ''EMERGENCY_STOP_ACTIVE'' ''emergency stop is active''),
      raise_if (ss_control_mode st = ''manual_takeover'')
        (protocol_error ''MANUAL_TAKEOVER_ACTIVE'' ''manual takeover is active''),
      raise_if (low_battery cfg st) (protocol_error ''LOW_BATTERY'' (battery_text st))]"

definition active_states :: "string list" where
  "active_states = [''accepted'', ''running'', ''pausing'', ''paused'', ''resuming'', ''interrupted'']"

definition validate_pause :: "string \<Rightarrow> unit pyres" where
  "validate_pause s = raise_if (s \<notin> set active_states)
     (protocol_error ''INVALID_TASK_STATE'' (''cannot pause from '' @ s))"

definition validate_resume :: "string \<Rightarrow> unit pyres" where
  "validate_resume s = raise_if (s \<notin> set active_states)
     (protocol_error ''INVALID_TASK_STATE'' (''cannot resume from '' @ s))"

definition validate_cancel :: "string \<Rightarrow> unit pyres" where
  "validate_cancel s = raise_if (s \<notin> {''running'', ''paused'', ''pausing'', ''resuming'', ''interrupted'',
       ''completed'', ''failed'', ''cancelled'', ''timed_out'', ''rejected''})
     (protocol_error ''INVALID_TASK_STATE'' (''cannot cancel from '' @ s))"

section \<open>The relocalization seed\<close>

record pose =
  po_x :: real
  po_y :: real
  po_z :: real
  po_yaw :: real

definition pose_dict_from_latest :: "pose option \<Rightarrow> pydict option" where
  "pose_dict_from_latest latest = map_option (\<lambda>p.
     [(''x'', PFloat (Fin (po_x p))), (''y'', PFloat (Fin (po_y p))),
      (''z'', PFloat (Fin (po_z p))), (''yaw'', PFloat (Fin (po_yaw p)))]) latest"

definition coord :: "pydict \<Rightarrow> string \<Rightarrow> pyfloat pyres" where
  "coord d k = bindE (dsub d k) py_float"

definition planar_distance_m :: "pydict \<Rightarrow> pydict \<Rightarrow> pyfloat pyres" where
  "planar_distance_m l r =
     bindE (coord l ''x'') (\<lambda>lx. bindE (coord r ''x'') (\<lambda>rx.
     bindE (coord l ''y'') (\<lambda>ly. bindE (coord r ''y'') (\<lambda>ry.
       Inr (hypot (float_sub lx rx) (float_sub ly ry))))))"

definition has_xy :: "pydict \<Rightarrow> bool" where
  "has_xy d = (dget d ''x'' \<noteq> PNone \<and> dget d ''y'' \<noteq> PNone)"

definition seed_is_plausible :: "pydict \<Rightarrow> pydict option \<Rightarrow> real \<Rightarrow> bool pyres" where
  "seed_is_plausible seed anchor max_drift =
     (case anchor of
        None \<Rightarrow> Inr True
      | Some a \<Rightarrow>
          if seed = [] \<or> a = [] then Inr True
          else if \<not> has_xy seed then Inr True
          else if \<not> has_xy a then Inr True
          else bindE (planar_distance_m seed a) (\<lambda>drift. Inr (float_le drift (Fin max_drift))))"

definition with_source :: "pydict \<Rightarrow> string \<Rightarrow> pydict" where
  "with_source d source = (if has_key d ''source'' then d else d @ [(''source'', PStr source)])"

text \<open>\<open>any(planar_distance_m(seed, existing) < 0.05 for existing in candidates if it has x and y)\<close>.\<close>

fun near_existing :: "pydict \<Rightarrow> pydict list \<Rightarrow> bool pyres" where
  "near_existing seed [] = Inr False"
| "near_existing seed (e # es) =
     (if has_xy e then bindE (planar_distance_m seed e) (\<lambda>d.
        if float_lt d (Fin (5 / 100)) then Inr True else near_existing seed es)
      else near_existing seed es)"

text \<open>\<open>if trusted and seed_is_plausible(trusted, anchor)\<close>.\<close>

definition plausible_trusted :: "pydict option \<Rightarrow> pydict option \<Rightarrow> real \<Rightarrow> bool pyres" where
  "plausible_trusted trusted anchor max_drift =
     (case trusted of None \<Rightarrow> Inr False
      | Some t \<Rightarrow> if t = [] then Inr False else seed_is_plausible t anchor max_drift)"

definition waypoint_seed :: "pydict \<Rightarrow> pydict pyres" where
  "waypoint_seed w =
     bindE (coord w ''x'') (\<lambda>x. bindE (coord w ''y'') (\<lambda>y.
     bindE (py_float (py_or (dget_def_val w ''z'' (PInt 0)) (PInt 0))) (\<lambda>z.
     bindE (py_float (py_or (dget_def_val w ''yaw'' (PInt 0)) (PInt 0))) (\<lambda>yaw.
       Inr ([(''x'', PFloat x), (''y'', PFloat y), (''z'', PFloat z), (''yaw'', PFloat yaw),
             (''source'', PStr ''current_waypoint'')]
            @ (if dget w ''waypoint_index'' = PNone then []
               else [(''waypoint_index'', dget w ''waypoint_index'')]))))))"

definition add_waypoint_seed :: "pydict option \<Rightarrow> pydict option \<Rightarrow> real \<Rightarrow> pydict list \<Rightarrow> pydict list pyres" where
  "add_waypoint_seed waypoint anchor max_drift candidates =
     (case waypoint of
        None \<Rightarrow> Inr candidates
      | Some w \<Rightarrow>
          if has_xy w then
            bindE (waypoint_seed w) (\<lambda>seed. bindE (seed_is_plausible seed anchor max_drift) (\<lambda>ok.
              Inr (if ok then candidates @ [seed] else candidates)))
          else Inr candidates)"

definition select_recovery_seed ::
  "pose option \<Rightarrow> pydict option \<Rightarrow> pydict option \<Rightarrow> pydict option \<Rightarrow> real \<Rightarrow> pydict option pyres" where
  "select_recovery_seed latest memory_trusted disk_trusted waypoint max_drift =
     (let anchor = map_option (\<lambda>a. a @ [(''source'', PStr ''latest_pose'')]) (pose_dict_from_latest latest);
          c0 = (case anchor of None \<Rightarrow> [] | Some a \<Rightarrow> [a]) in
      bindE (plausible_trusted memory_trusted anchor max_drift) (\<lambda>mem_ok.
      let c1 = (if mem_ok then c0 @ [with_source (the memory_trusted) ''last_trusted''] else c0) in
      bindE (plausible_trusted disk_trusted anchor max_drift) (\<lambda>disk_ok.
      bindE (if disk_ok then
               (let seed = with_source (the disk_trusted) ''last_trusted_persisted'' in
                bindE (near_existing seed c1) (\<lambda>near. Inr (if near then c1 else c1 @ [seed])))
             else Inr c1) (\<lambda>c2.
      bindE (add_waypoint_seed waypoint anchor max_drift c2) (\<lambda>c3.
        Inr (case c3 of [] \<Rightarrow> None | c # _ \<Rightarrow> Some c))))))"

section \<open>Lemmas\<close>

lemma wait_loop_progress:
  assumes "0 < eps" "\<And>k. wr_now (obs (Suc k)) \<ge> wr_now (obs k) + eps"
  shows "\<exists>n. wait_loop required deadline obs k = Some n \<and> k \<le> n \<and> wait_exit required deadline (obs n)"
proof -
  have late: "wr_now (obs (k + m)) \<ge> wr_now (obs k) + real m * eps" for m
  proof (induction m)
    case (Suc m)
    then show ?case using assms(2) [of "k + m"] by (simp add: algebra_simps)
  qed simp
  have "wait_exit required deadline (obs n) \<Longrightarrow> k \<le> n \<Longrightarrow>
      \<exists>n. wait_loop required deadline obs k = Some n \<and> k \<le> n \<and> wait_exit required deadline (obs n)" for n k
  proof (induction "n - k" arbitrary: k)
    case 0
    then have "k = n" by simp
    with 0 show ?case by (subst wait_loop.simps) simp
  next
    case (Suc d)
    show ?case
    proof (cases "wait_exit required deadline (obs k)")
      case True
      then show ?thesis by (subst wait_loop.simps) simp
    next
      case False
      have "\<exists>n. wait_loop required deadline obs (Suc k) = Some n \<and> Suc k \<le> n
          \<and> wait_exit required deadline (obs n)"
        using Suc.hyps(2) Suc.prems(1) by (intro Suc.hyps(1)) auto
      with False show ?thesis by (subst wait_loop.simps) auto
    qed
  qed
  moreover obtain m where "deadline - wr_now (obs k) \<le> real m * eps"
    using reals_Archimedean3 [OF assms(1)] less_imp_le by metis
  then have "wait_exit required deadline (obs (k + m))"
    using late [of m] by (simp add: wait_exit_def)
  ultimately show ?thesis by (meson le_add1)
qed

lemma check_task_map_ok:
  "check_task_map st payload = Inr () \<Longrightarrow> ss_current_map_local_state st \<in> {''applied'', []}
    \<and> (\<exists>cmd route. dget payload ''command'' = PDict cmd \<and> as_dict (dget cmd ''route_snapshot'') = Inr route
       \<and> (truthy (dget route ''map_set'')
          \<or> (\<exists>m. dget cmd ''map'' = PDict m \<and> dget m ''map_id'' = PStr (ss_current_map_id st)
               \<and> dget m ''map_version'' = PStr (ss_current_map_version st))))"
  by (auto simp: check_task_map_def check_map_def py_get_ok dsub_ok as_dict_ok split: if_splits)

lemma seed_is_plausible_no_anchor [simp]: "seed_is_plausible s None m = Inr True"
  by (simp add: seed_is_plausible_def)

lemma plausible_trusted_no_anchor:
  "plausible_trusted t None m = Inr (t \<noteq> None \<and> t \<noteq> Some [])"
  by (simp add: plausible_trusted_def split: option.splits)

lemma add_waypoint_first:
  "add_waypoint_seed w a m (c # cs) = Inr r \<Longrightarrow> \<exists>ds. r = c # ds"
  by (auto simp: add_waypoint_seed_def split: option.splits if_splits)

lemma select_anchor:
  assumes "map_option (\<lambda>a. a @ [(''source'', PStr ''latest_pose'')]) (pose_dict_from_latest latest) = Some a"
    and "select_recovery_seed latest mem disk wp drift = Inr r"
  shows "r = Some a"
proof -
  from assms obtain c2 c3 where c2: "\<exists>ds. c2 = a # ds" "add_waypoint_seed wp (Some a) drift c2 = Inr c3"
      "r = (case c3 of [] \<Rightarrow> None | c # _ \<Rightarrow> Some c)"
    unfolding select_recovery_seed_def assms(1) Let_def
    by (auto split: if_splits simp del: not_None_eq)
  then show ?thesis by (auto dest!: add_waypoint_first)
qed

lemma select_live:
  assumes "select_recovery_seed (Some p) mem disk wp drift = Inr r"
  shows "r = Some [(''x'', PFloat (Fin (po_x p))), (''y'', PFloat (Fin (po_y p))), (''z'', PFloat (Fin (po_z p))),
        (''yaw'', PFloat (Fin (po_yaw p))), (''source'', PStr ''latest_pose'')]"
  by (rule select_anchor [OF _ assms]) (simp add: pose_dict_from_latest_def)

lemma select_memory:
  "mem \<noteq> None \<Longrightarrow> mem \<noteq> Some [] \<Longrightarrow> select_recovery_seed None mem disk wp drift = Inr r \<Longrightarrow>
     r = Some (with_source (the mem) ''last_trusted'')"
  by (auto simp: select_recovery_seed_def pose_dict_from_latest_def Let_def plausible_trusted_no_anchor
      split: if_splits dest!: add_waypoint_first)

lemma select_disk:
  "mem \<in> {None, Some []} \<Longrightarrow> disk \<noteq> None \<Longrightarrow> disk \<noteq> Some [] \<Longrightarrow>
     select_recovery_seed None mem disk wp drift = Inr r \<Longrightarrow>
     r = Some (with_source (the disk) ''last_trusted_persisted'')"
  by (auto simp: select_recovery_seed_def pose_dict_from_latest_def Let_def plausible_trusted_no_anchor
      split: if_splits dest!: add_waypoint_first)

lemma select_waypoint:
  "mem \<in> {None, Some []} \<Longrightarrow> disk \<in> {None, Some []} \<Longrightarrow> select_recovery_seed None mem disk wp drift =
     (case wp of None \<Rightarrow> Inr None
      | Some w \<Rightarrow> if has_xy w then bindE (waypoint_seed w) (\<lambda>s. Inr (Some s)) else Inr None)"
  by (auto simp: select_recovery_seed_def pose_dict_from_latest_def Let_def plausible_trusted_no_anchor
      add_waypoint_seed_def bindE_def split: option.splits sum.splits)

section \<open>Properties\<close>

text \<open>C15. A task is admitted only when it is safe to move: no other task is active, the emergency stop is clear,
  manual takeover is not active (unless the caller may release it), the battery is not low or the task docks,
  navigation is ready and localization has been normal long enough (where the caller requires them), the map on
  the robot is applied, and the task names the active map or a map set.\<close>

theorem task_start_admission_safe:
  assumes "validate_start cfg st now payload has_active allow_manual req_loc req_nav = Inr ()"
  shows "\<not> has_active \<and> \<not> ss_emergency_stop st
    \<and> (ss_control_mode st = ''manual_takeover'' \<longrightarrow> allow_manual)
    \<and> (low_battery cfg st \<longrightarrow> docking_enabled payload = Inr True)
    \<and> (req_nav \<longrightarrow> ss_nav_ready st)
    \<and> (req_loc \<longrightarrow> sc_localization_stable_seconds cfg \<le> now - ss_localization_normal_since st
         \<and> (ss_localization_status st = ''normal'' \<or> smart_initialize payload = Inr True))
    \<and> ss_current_map_local_state st \<in> {''applied'', []}
    \<and> (\<exists>cmd route. dget payload ''command'' = PDict cmd \<and> as_dict (dget cmd ''route_snapshot'') = Inr route
       \<and> (truthy (dget route ''map_set'')
          \<or> (\<exists>m. dget cmd ''map'' = PDict m \<and> dget m ''map_id'' = PStr (ss_current_map_id st)
               \<and> dget m ''map_version'' = PStr (ss_current_map_version st))))"
proof -
  from assms have checks: "\<not> has_active" "\<not> ss_emergency_stop st"
    "ss_control_mode st = ''manual_takeover'' \<longrightarrow> allow_manual" "req_nav \<longrightarrow> ss_nav_ready st"
    "req_loc \<longrightarrow> sc_localization_stable_seconds cfg \<le> now - ss_localization_normal_since st"
    "low_battery cfg st \<longrightarrow> docking_enabled payload = Inr True"
    "req_loc \<longrightarrow> ss_localization_status st = ''normal'' \<or> smart_initialize payload = Inr True"
    by (auto simp: validate_start_def seqE_ok)
  from assms have "check_task_map st payload = Inr ()" by (simp add: validate_start_def seqE_ok)
  from check_task_map_ok [OF this] checks show ?thesis by blast
qed

definition sample_state :: safety_state where
  "sample_state = \<lparr>ss_localization_status = ''normal'', ss_localization_normal_since = 10, ss_nav_ready = True,
     ss_emergency_stop = False, ss_control_mode = ''auto'', ss_power_available = True,
     ss_battery_percent = Some 12, ss_current_map_id = ''m1'', ss_current_map_version = ''v3'',
     ss_current_map_local_state = ''applied'', ss_current_map_error = []\<rparr>"

definition sample_payload :: pydict where
  "sample_payload = [(''command'', PDict [(''docking'', PDict [(''enabled'', PBool True)]),
     (''map'', PDict [(''map_id'', PStr ''m1''), (''map_version'', PStr ''v3'')])])]"

theorem task_start_admission_safe_witness:
  "let cfg = \<lparr>sc_localization_stable_seconds = 3, sc_low_battery_percent = 20\<rparr> in
   validate_start cfg sample_state 20 sample_payload False False True True = Inr ()
   \<and> low_battery cfg sample_state \<and> docking_enabled sample_payload = Inr True"
proof -
  let ?cfg = "\<lparr>sc_localization_stable_seconds = 3, sc_low_battery_percent = 20\<rparr> :: safety_config"
  have ok: "validate_start ?cfg sample_state 20 sample_payload False False True True = Inr ()"
    by code_simp
  have "low_battery ?cfg sample_state" by code_simp
  with ok task_start_admission_safe [OF ok] show ?thesis by (simp add: Let_def)
qed

text \<open>C34. The wait before a task start returns. If every round of the loop takes at least some positive time,
  \<open>wait_until_localization_stable\<close> returns, for every behaviour of the localization meanwhile, and the round in
  which the loop stops (if it was entered) saw the deadline passed, localization lost, or a normal window of the
  required length.\<close>

theorem localization_wait_returns:
  assumes "0 < eps" "\<And>k. wr_now (obs (Suc k)) \<ge> wr_now (obs k) + eps"
  shows "\<exists>n. wait_until_localization_stable cfg st clk obs = Some n
    \<and> (n \<noteq> 0 \<longrightarrow> wait_exit (sc_localization_stable_seconds cfg)
         (clk 1 + (sc_localization_stable_seconds cfg - (clk 0 - ss_localization_normal_since st))) (obs n))"
proof -
  have "\<exists>n. wait_loop required deadline obs 0 = Some n \<and> 0 \<le> n \<and> wait_exit required deadline (obs n)"
    for required deadline using assms by (rule wait_loop_progress)
  then show ?thesis by (auto simp: wait_until_localization_stable_def Let_def)
qed

theorem localization_wait_returns_witness:
  "\<exists>n. wait_until_localization_stable \<lparr>sc_localization_stable_seconds = 3, sc_low_battery_percent = 20\<rparr>
     sample_state (\<lambda>_. 11) (\<lambda>k. \<lparr>wr_now = 11 + real k / 5, wr_status = ''normal'', wr_since = 10, wr_now2 = 11 + real k / 5\<rparr>)
     = Some n"
  using localization_wait_returns [of "1 / 5"
      "\<lambda>k. \<lparr>wr_now = 11 + real k / 5, wr_status = ''normal'', wr_since = 10, wr_now2 = 11 + real k / 5\<rparr>"
      "\<lparr>sc_localization_stable_seconds = 3, sc_low_battery_percent = 20\<rparr>" sample_state "\<lambda>_. 11"]
  by (auto simp: field_simps)

text \<open>The seed that is chosen. With a live pose the result, if there is one, is the live pose: trusted or
  waypoint seeds are only looked at. Without a live pose no seed is rejected for drift: the in-memory trusted
  pose wins, then the persisted one, then a waypoint that has coordinates.\<close>

theorem recovery_seed_choice:
  "(select_recovery_seed (Some p) mem disk wp drift = Inr r \<longrightarrow>
      r = Some [(''x'', PFloat (Fin (po_x p))), (''y'', PFloat (Fin (po_y p))), (''z'', PFloat (Fin (po_z p))),
        (''yaw'', PFloat (Fin (po_yaw p))), (''source'', PStr ''latest_pose'')])
   \<and> (mem \<noteq> None \<and> mem \<noteq> Some [] \<and> select_recovery_seed None mem disk wp drift = Inr r \<longrightarrow>
      r = Some (with_source (the mem) ''last_trusted''))
   \<and> (mem \<in> {None, Some []} \<and> disk \<noteq> None \<and> disk \<noteq> Some [] \<and> select_recovery_seed None mem disk wp drift = Inr r \<longrightarrow>
      r = Some (with_source (the disk) ''last_trusted_persisted''))
   \<and> (mem \<in> {None, Some []} \<and> disk \<in> {None, Some []} \<longrightarrow> select_recovery_seed None mem disk wp drift =
      (case wp of None \<Rightarrow> Inr None
       | Some w \<Rightarrow> if has_xy w then bindE (waypoint_seed w) (\<lambda>s. Inr (Some s)) else Inr None))"
  using select_live [of p mem disk wp drift r] select_memory [of mem disk wp drift r]
    select_disk [of mem disk wp drift r] select_waypoint [of mem disk wp drift] by blast

theorem recovery_seed_choice_witness:
  "select_recovery_seed None None (Some [(''x'', PInt 3), (''y'', PInt 4)]) None 15
     = Inr (Some [(''x'', PInt 3), (''y'', PInt 4), (''source'', PStr ''last_trusted_persisted'')])"
proof -
  obtain r where r: "select_recovery_seed None None (Some [(''x'', PInt 3), (''y'', PInt 4)]) None 15 = Inr r"
    by (simp add: select_recovery_seed_def plausible_trusted_def seed_is_plausible_def add_waypoint_seed_def
        pose_dict_from_latest_def Let_def)
  with recovery_seed_choice [of "\<lparr>po_x = 0, po_y = 0, po_z = 0, po_yaw = 0\<rparr>" None
      "Some [(''x'', PInt 3), (''y'', PInt 4)]" None 15 r]
  show ?thesis by (simp add: with_source_def)
qed

end
