(* ===== verification/Store.thy ===== *)
theory Store
  imports PyText "HOL-Library.Multiset"
begin

text \<open>
  The edge agent's durable store (\<open>edge-agent/roamerx_edge/local_store.py\<close>), first part: processed commands, the
  task context, the outbox, trajectory sequence numbers, metadata and trusted poses. A table is the list
  of its rows in row id order or a map from its primary key; a JSON column holds the value it encodes; the
  text \<open>CURRENT_TIMESTAMP\<close> is an argument in seconds. Every method is one transaction under the store's
  lock, so it is one function on the store.
\<close>

section \<open>Tables\<close>

record processed_row =
  pc_ack :: pyval
  pc_result :: "pyval option"

record task_context =
  tc_task_execution_id :: string
  tc_state :: string
  tc_state_version :: int
  tc_route_snapshot :: pyval
  tc_current_waypoint_index :: int
  tc_start_command_id :: "string option"
  tc_record_rosbag :: bool
  tc_loop_execution :: bool
  tc_loop_session_id :: string
  tc_continuous_rosbag :: bool
  tc_post_arrival_waypoint_index :: "int option"
  tc_post_arrival_stage :: string
  tc_arrival_side_effects_started :: bool
  tc_arrival_coarse_fallback_accepted :: bool
  tc_arrival_reapproach_waypoint_index :: "int option"
  tc_arrival_reapproach_attempts :: int
  tc_arrival_micro_adjust_total_m :: real
  tc_arrival_micro_adjust_steps :: int
  tc_arrival_micro_adjust_started_at :: "real option"

record outbox_row =
  ob_id :: int
  ob_topic :: string
  ob_qos :: int
  ob_retain :: bool
  ob_message_type :: string
  ob_dedupe_key :: "string option"
  ob_payload :: pydict

record local_store =
  st_trajectory_limit :: int
  st_system_log_limit :: int
  st_retention_days :: int
  st_processed :: "string \<Rightarrow> processed_row option"
  st_contexts :: "(task_context \<times> int) list"
  st_outbox :: "outbox_row list"
  st_next_id :: int
  st_sequence :: "string \<Rightarrow> int option"
  st_metadata :: "string \<Rightarrow> pyval option"

section \<open>Opening\<close>

text \<open>\<open>DELETE ... WHERE message_type = mt AND id NOT IN (the limit newest of that type)\<close>.\<close>

definition prune_type :: "string \<Rightarrow> int \<Rightarrow> outbox_row list \<Rightarrow> outbox_row list" where
  "prune_type mt limit rows =
     (let newest = take (nat limit) (rev (sort_key ob_id (filter (\<lambda>r. ob_message_type r = mt) rows)))
      in filter (\<lambda>r. ob_message_type r = mt \<longrightarrow> ob_id r \<in> set (map ob_id newest)) rows)"

definition prune_trajectory_outbox :: "local_store \<Rightarrow> local_store" where
  "prune_trajectory_outbox s = s\<lparr>st_outbox := prune_type ''trajectory.batch'' (st_trajectory_limit s) (st_outbox s)\<rparr>"

definition prune_system_log_outbox :: "local_store \<Rightarrow> local_store" where
  "prune_system_log_outbox s = s\<lparr>st_outbox := prune_type ''system.log.batch'' (st_system_log_limit s) (st_outbox s)\<rparr>"

text \<open>The constructor on the tables that are already in the file: the limits are at least one.\<close>

definition open_store :: "int \<Rightarrow> int \<Rightarrow> int \<Rightarrow> local_store \<Rightarrow> local_store" where
  "open_store trajectory_limit system_log_limit retention_days s =
     prune_trajectory_outbox (s\<lparr>st_trajectory_limit := max 1 trajectory_limit,
       st_system_log_limit := max 1 system_log_limit, st_retention_days := max 1 retention_days\<rparr>)"

definition empty_store :: local_store where
  "empty_store = \<lparr>st_trajectory_limit = 720, st_system_log_limit = 500, st_retention_days = 180,
     st_processed = (\<lambda>_. None), st_contexts = [], st_outbox = [], st_next_id = 1,
     st_sequence = (\<lambda>_. None), st_metadata = (\<lambda>_. None)\<rparr>"

section \<open>Processed commands\<close>

definition get_processed_command :: "string \<Rightarrow> local_store \<Rightarrow> (pyval \<times> pyval option) option" where
  "get_processed_command cid s = map_option (\<lambda>r. (pc_ack r, pc_result r)) (st_processed s cid)"

definition save_command_ack :: "string \<Rightarrow> pyval \<Rightarrow> local_store \<Rightarrow> local_store" where
  "save_command_ack cid ack s = s\<lparr>st_processed := (st_processed s)(cid \<mapsto>
     (case st_processed s cid of
        None \<Rightarrow> \<lparr>pc_ack = ack, pc_result = None\<rparr>
      | Some r \<Rightarrow> r\<lparr>pc_ack := ack\<rparr>))\<rparr>"

definition save_command_result :: "string \<Rightarrow> pyval \<Rightarrow> local_store \<Rightarrow> local_store" where
  "save_command_result cid result s = s\<lparr>st_processed := (st_processed s)(cid \<mapsto>
     (case st_processed s cid of
        None \<Rightarrow> \<lparr>pc_ack = PNone, pc_result = Some result\<rparr>
      | Some r \<Rightarrow> r\<lparr>pc_result := Some result\<rparr>))\<rparr>"

section \<open>Task context\<close>

text \<open>The clamps the code applies to the three counters of the arrival stage before it stores them.\<close>

definition context_row :: "task_context \<Rightarrow> task_context" where
  "context_row c = c\<lparr>tc_arrival_reapproach_attempts := max 0 (tc_arrival_reapproach_attempts c),
     tc_arrival_micro_adjust_total_m := max 0 (tc_arrival_micro_adjust_total_m c),
     tc_arrival_micro_adjust_steps := max 0 (tc_arrival_micro_adjust_steps c)\<rparr>"

text \<open>Insert, or update the row with the same primary key in place.\<close>

fun upsert_context :: "task_context \<Rightarrow> int \<Rightarrow> (task_context \<times> int) list \<Rightarrow> (task_context \<times> int) list" where
  "upsert_context c now [] = [(c, now)]"
| "upsert_context c now (r # rs) =
     (if tc_task_execution_id (fst r) = tc_task_execution_id c then (c, now) # rs
      else r # upsert_context c now rs)"

definition save_task_context :: "int \<Rightarrow> task_context \<Rightarrow> local_store \<Rightarrow> local_store" where
  "save_task_context now c s = s\<lparr>st_contexts := upsert_context (context_row c) now (st_contexts s)\<rparr>"

definition terminal_states :: "string list" where
  "terminal_states = [''completed'', ''failed'', ''cancelled'', ''timed_out'', ''rejected'']"

text \<open>\<open>ORDER BY updated_at DESC LIMIT 1\<close>: the first row with the greatest time.\<close>

fun latest_row :: "(task_context \<times> int) list \<Rightarrow> (task_context \<times> int) option" where
  "latest_row [] = None"
| "latest_row (r # rs) =
     (case latest_row rs of None \<Rightarrow> Some r | Some r' \<Rightarrow> if snd r < snd r' then Some r' else Some r)"

definition load_active_task_context :: "local_store \<Rightarrow> task_context option" where
  "load_active_task_context s =
     map_option fst (latest_row (filter (\<lambda>r. tc_state (fst r) \<notin> set terminal_states) (st_contexts s)))"

definition clear_task_context :: "int \<Rightarrow> string \<Rightarrow> string \<Rightarrow> local_store \<Rightarrow> local_store" where
  "clear_task_context now tid final_state s = s\<lparr>st_contexts := map (\<lambda>r.
     if tc_task_execution_id (fst r) = tid then ((fst r)\<lparr>tc_state := final_state\<rparr>, now) else r) (st_contexts s)\<rparr>"

section \<open>Outbox\<close>

definition key_pending :: "string option \<Rightarrow> outbox_row list \<Rightarrow> bool" where
  "key_pending key rows = (key \<noteq> None \<and> list_ex (\<lambda>r. ob_dedupe_key r = key) rows)"

text \<open>\<open>INSERT OR IGNORE\<close>: a row whose dedupe key is pending already is not inserted.\<close>

definition insert_row ::
  "string \<Rightarrow> string \<Rightarrow> pydict \<Rightarrow> int \<Rightarrow> bool \<Rightarrow> string option \<Rightarrow> local_store \<Rightarrow> local_store" where
  "insert_row topic mt payload qos retain key s =
     (if key_pending key (st_outbox s) then s
      else s\<lparr>st_outbox := st_outbox s @ [\<lparr>ob_id = st_next_id s, ob_topic = topic, ob_qos = qos, ob_retain = retain,
               ob_message_type = mt, ob_dedupe_key = key, ob_payload = payload\<rparr>],
             st_next_id := st_next_id s + 1\<rparr>)"

text \<open>What a \<open>TEXT\<close> column makes of a bound value; \<open>None\<close> is \<open>NULL\<close>, which \<open>INSERT OR IGNORE\<close> drops
  where the column is \<open>NOT NULL\<close>.\<close>

fun column_text :: "pyval \<Rightarrow> string option pyres" where
  "column_text PNone = Inr None"
| "column_text (PStr s) = Inr (Some s)"
| "column_text (PBool b) = Inr (Some (if b then ''1'' else ''0''))"
| "column_text (PList _) = Inl InterfaceError"
| "column_text (PDict _) = Inl InterfaceError"
| "column_text v = Inr (Some (py_str v))"

definition enqueue_outbox ::
  "string \<Rightarrow> pydict \<Rightarrow> int \<Rightarrow> bool \<Rightarrow> string option \<Rightarrow> local_store \<Rightarrow> local_store pyres" where
  "enqueue_outbox topic payload qos retain key s =
     bindE (dsub payload ''message_type'') (\<lambda>v.
     bindE (column_text v) (\<lambda>column.
       let s' = (case column of None \<Rightarrow> s | Some mt \<Rightarrow> insert_row topic mt payload qos retain key s) in
       Inr (if v = PStr ''trajectory.batch'' then prune_trajectory_outbox s'
            else if v = PStr ''system.log.batch'' then prune_system_log_outbox s'
            else s')))"

definition list_pending_outbox :: "int \<Rightarrow> local_store \<Rightarrow> outbox_row list" where
  "list_pending_outbox limit s =
     (let rows = sort_key ob_id (st_outbox s);
          others = filter (\<lambda>r. ob_message_type r \<noteq> ''trajectory.batch'') rows;
          batches = filter (\<lambda>r. ob_message_type r = ''trajectory.batch'') rows
      in if limit < 0 then others @ batches else take (nat limit) (others @ batches))"

definition ack_outbox :: "int option \<Rightarrow> string option \<Rightarrow> local_store \<Rightarrow> local_store" where
  "ack_outbox row_id key s =
     (case row_id of
        Some i \<Rightarrow> s\<lparr>st_outbox := filter (\<lambda>r. ob_id r \<noteq> i) (st_outbox s)\<rparr>
      | None \<Rightarrow> (case key of
          Some k \<Rightarrow> s\<lparr>st_outbox := filter (\<lambda>r. ob_dedupe_key r \<noteq> Some k) (st_outbox s)\<rparr>
        | None \<Rightarrow> s))"

definition outbox_count :: "local_store \<Rightarrow> int" where
  "outbox_count s = int (length (st_outbox s))"

section \<open>Metadata, trusted poses, sequence numbers\<close>

definition set_metadata :: "string \<Rightarrow> pyval \<Rightarrow> local_store \<Rightarrow> local_store" where
  "set_metadata key v s = s\<lparr>st_metadata := (st_metadata s)(key \<mapsto> v)\<rparr>"

definition get_metadata :: "string \<Rightarrow> local_store \<Rightarrow> pyval" where
  "get_metadata key s = (case st_metadata s key of None \<Rightarrow> PNone | Some v \<Rightarrow> v)"

definition trusted_pose_key :: "string \<Rightarrow> string \<Rightarrow> string" where
  "trusted_pose_key map_id map_version = ''trusted_pose:'' @ map_id @ '':'' @ map_version"

definition save_last_trusted_pose :: "string \<Rightarrow> string \<Rightarrow> pydict \<Rightarrow> local_store \<Rightarrow> local_store" where
  "save_last_trusted_pose map_id map_version pose s =
     (if map_id = [] then s else set_metadata (trusted_pose_key map_id map_version) (PDict pose) s)"

definition load_last_trusted_pose :: "string \<Rightarrow> string \<Rightarrow> local_store \<Rightarrow> pydict option" where
  "load_last_trusted_pose map_id map_version s =
     (if map_id = [] then None
      else case get_metadata (trusted_pose_key map_id map_version) s of PDict d \<Rightarrow> Some d | _ \<Rightarrow> None)"

definition clear_last_trusted_pose :: "string \<Rightarrow> string \<Rightarrow> local_store \<Rightarrow> local_store" where
  "clear_last_trusted_pose map_id map_version s =
     (if map_id = [] then s
      else s\<lparr>st_metadata := (st_metadata s)(trusted_pose_key map_id map_version := None)\<rparr>)"

definition next_trajectory_seq :: "string \<Rightarrow> local_store \<Rightarrow> local_store \<times> int" where
  "next_trajectory_seq tid s =
     (let v = (case st_sequence s tid of None \<Rightarrow> 0 | Some n \<Rightarrow> n)
      in (s\<lparr>st_sequence := (st_sequence s)(tid \<mapsto> v + 1)\<rparr>, v))"

text \<open>A run of requests for sequence numbers, with the numbers handed out.\<close>

fun issue_seqs :: "string list \<Rightarrow> local_store \<Rightarrow> (string \<times> int) list" where
  "issue_seqs [] s = []"
| "issue_seqs (tid # tids) s =
     (case next_trajectory_seq tid s of (s', v) \<Rightarrow> (tid, v) # issue_seqs tids s')"

section \<open>The outbox invariant\<close>

definition type_rows :: "string \<Rightarrow> outbox_row list \<Rightarrow> outbox_row list" where
  "type_rows mt rows = filter (\<lambda>r. ob_message_type r = mt) rows"

definition outbox_ok :: "local_store \<Rightarrow> bool" where
  "outbox_ok s =
     (sorted_wrt (<) (map ob_id (st_outbox s))
      \<and> list_all (\<lambda>r. ob_id r < st_next_id s) (st_outbox s)
      \<and> distinct (map ob_dedupe_key (filter (\<lambda>r. ob_dedupe_key r \<noteq> None) (st_outbox s)))
      \<and> int (length (type_rows ''trajectory.batch'' (st_outbox s))) \<le> st_trajectory_limit s
      \<and> int (length (type_rows ''system.log.batch'' (st_outbox s))) \<le> st_system_log_limit s
      \<and> 1 \<le> st_trajectory_limit s \<and> 1 \<le> st_system_log_limit s)"

lemma sorted_ids_sort_key: "sorted_wrt (<) (map ob_id rows) \<Longrightarrow> sort_key ob_id rows = rows"
  by (simp add: sort_key_id_if_sorted strict_sorted_iff)

lemma sorted_ids_filter: "sorted_wrt (<) (map ob_id rows) \<Longrightarrow> sorted_wrt (<) (map ob_id (filter P rows))"
  by (simp add: sorted_wrt_map sorted_wrt_filter)

lemma filter_keep_last:
  assumes "distinct (map f xs)"
  shows "filter (\<lambda>x. f x \<in> f ` set (drop k xs)) xs = drop k xs"
proof -
  have "set (map f (take k xs)) \<inter> set (map f (drop k xs)) = {}"
    using assms by (metis append_take_drop_id distinct_append map_append)
  then have "filter (\<lambda>x. f x \<in> f ` set (drop k xs)) (take k xs) = []"
    by (auto simp: filter_empty_conv)
  moreover have "filter (\<lambda>x. f x \<in> f ` set (drop k xs)) (drop k xs) = drop k xs"
    by (simp add: filter_id_conv)
  ultimately show ?thesis by (metis append_take_drop_id filter_append append_Nil)
qed

lemma distinct_map_filter_conj:
  "distinct (map f (filter Q xs)) \<Longrightarrow> distinct (map f (filter (\<lambda>x. P x \<and> Q x) xs))"
  by (induction xs) (auto split: if_splits)

text \<open>Pruning keeps exactly the newest rows of its type and every row of another type.\<close>

lemma prune_type_rows:
  assumes "sorted_wrt (<) (map ob_id rows)"
  shows "type_rows mt (prune_type mt limit rows)
      = drop (length (type_rows mt rows) - nat limit) (type_rows mt rows)"
    and "mt' \<noteq> mt \<Longrightarrow> type_rows mt' (prune_type mt limit rows) = type_rows mt' rows"
proof -
  let ?T = "type_rows mt rows"
  let ?k = "length ?T - nat limit"
  have srt: "sorted_wrt (<) (map ob_id ?T)"
    using assms by (simp add: type_rows_def sorted_ids_filter)
  then have "distinct (map ob_id ?T)" by (simp add: strict_sorted_iff)
  note keep = filter_keep_last [OF this, of ?k]
  have newest: "set (map ob_id (take (nat limit) (rev (sort_key ob_id ?T)))) = ob_id ` set (drop ?k ?T)"
    by (simp add: sorted_ids_sort_key [OF srt] take_rev)
  have "prune_type mt limit rows = filter (\<lambda>r. ob_message_type r = mt \<longrightarrow> ob_id r \<in> ob_id ` set (drop ?k ?T)) rows"
    unfolding prune_type_def Let_def type_rows_def [symmetric] newest ..
  note pruned = this
  show "mt' \<noteq> mt \<Longrightarrow> type_rows mt' (prune_type mt limit rows) = type_rows mt' rows"
    unfolding pruned type_rows_def filter_filter by (rule filter_cong) auto
  have "type_rows mt (prune_type mt limit rows) = filter (\<lambda>r. ob_id r \<in> ob_id ` set (drop ?k ?T)) ?T"
    unfolding pruned type_rows_def filter_filter by (rule filter_cong) auto
  then show "type_rows mt (prune_type mt limit rows) = drop ?k ?T" unfolding keep .
qed

lemma prune_type_bound:
  "sorted_wrt (<) (map ob_id rows) \<Longrightarrow> 0 \<le> limit \<Longrightarrow> int (length (type_rows mt (prune_type mt limit rows))) \<le> limit"
  by (simp add: prune_type_rows)

lemma prune_type_filter: "\<exists>P. prune_type mt limit rows = filter P rows"
  by (auto simp: prune_type_def Let_def)

lemma prune_type_noop:
  assumes "sorted_wrt (<) (map ob_id rows)" "int (length (type_rows mt rows)) \<le> limit"
  shows "prune_type mt limit rows = rows"
proof -
  have "sorted_wrt (<) (map ob_id (type_rows mt rows))"
    using assms(1) by (simp add: type_rows_def sorted_ids_filter)
  with assms(2) have "set (take (nat limit) (rev (sort_key ob_id (type_rows mt rows)))) = set (type_rows mt rows)"
    by (simp add: sorted_ids_sort_key)
  then show ?thesis
    by (auto simp: prune_type_def Let_def type_rows_def [symmetric] filter_id_conv)
       (auto simp: type_rows_def)
qed

text \<open>Dropping rows keeps the invariant.\<close>

lemma outbox_ok_filter:
  assumes "outbox_ok s"
  shows "outbox_ok (s\<lparr>st_outbox := filter P (st_outbox s)\<rparr>)"
proof -
  have len: "length (type_rows mt (filter P rows)) \<le> length (type_rows mt rows)" for mt rows
    by (induction rows) (auto simp: type_rows_def)
  from assms show ?thesis
    using len [of "''trajectory.batch''" "st_outbox s"] len [of "''system.log.batch''" "st_outbox s"]
    by (auto simp: outbox_ok_def sorted_ids_filter list_all_iff distinct_map_filter_conj)
qed

text \<open>An insertion adds at most one row, with a fresh id.\<close>

lemma insert_row_cases:
  obtains (ignored) "key_pending key (st_outbox s)" "insert_row topic mt payload qos retain key s = s"
    | (added) "\<not> key_pending key (st_outbox s)" "insert_row topic mt payload qos retain key s =
        s\<lparr>st_outbox := st_outbox s @ [\<lparr>ob_id = st_next_id s, ob_topic = topic, ob_qos = qos, ob_retain = retain,
               ob_message_type = mt, ob_dedupe_key = key, ob_payload = payload\<rparr>], st_next_id := st_next_id s + 1\<rparr>"
  by (cases "key_pending key (st_outbox s)") (auto simp: insert_row_def)

text \<open>The invariant without the two bounds, which an insertion may pass before the pruning.\<close>

definition rows_ok :: "local_store \<Rightarrow> bool" where
  "rows_ok s =
     (sorted_wrt (<) (map ob_id (st_outbox s)) \<and> list_all (\<lambda>r. ob_id r < st_next_id s) (st_outbox s)
      \<and> distinct (map ob_dedupe_key (filter (\<lambda>r. ob_dedupe_key r \<noteq> None) (st_outbox s))))"

lemma insert_row_ok:
  assumes "rows_ok s"
  shows "rows_ok (insert_row topic mt payload qos retain key s)"
proof (cases rule: insert_row_cases [of key s topic mt payload qos retain])
  case added
  have "key = None \<or> key \<notin> ob_dedupe_key ` set (st_outbox s)"
    using added(1) by (auto simp: key_pending_def list_ex_iff)
  moreover have "list_all (\<lambda>r. ob_id r < st_next_id s + 1) (st_outbox s)"
    using assms by (auto simp: rows_ok_def list_all_iff)
  ultimately show ?thesis
    using assms unfolding added(2) by (auto simp: rows_ok_def sorted_wrt_append list_all_iff)
qed (use assms in simp)

lemma rows_ok_prune: "rows_ok s \<Longrightarrow> rows_ok (s\<lparr>st_outbox := filter P (st_outbox s)\<rparr>)"
proof -
  assume "rows_ok s"
  then show ?thesis by (auto simp: rows_ok_def sorted_ids_filter list_all_iff distinct_map_filter_conj)
qed

lemma outbox_ok_rows:
  "outbox_ok s \<longleftrightarrow> rows_ok s
     \<and> int (length (type_rows ''trajectory.batch'' (st_outbox s))) \<le> st_trajectory_limit s
     \<and> int (length (type_rows ''system.log.batch'' (st_outbox s))) \<le> st_system_log_limit s
     \<and> 1 \<le> st_trajectory_limit s \<and> 1 \<le> st_system_log_limit s"
  by (auto simp: outbox_ok_def rows_ok_def)

lemma insert_row_types:
  "mt' \<noteq> mt \<Longrightarrow> type_rows mt' (st_outbox (insert_row topic mt payload qos retain key s)) = type_rows mt' (st_outbox s)"
  by (cases rule: insert_row_cases [of key s topic mt payload qos retain]) (auto simp: type_rows_def)

lemma insert_row_limits [simp]:
  "st_trajectory_limit (insert_row topic mt payload qos retain key s) = st_trajectory_limit s"
  "st_system_log_limit (insert_row topic mt payload qos retain key s) = st_system_log_limit s"
  by (auto simp: insert_row_def)

lemmas prune_defs = prune_trajectory_outbox_def prune_system_log_outbox_def

lemma rows_ok_sorted: "rows_ok s \<Longrightarrow> sorted_wrt (<) (map ob_id (st_outbox s))"
  by (simp add: rows_ok_def)

lemma rows_ok_prune_type: "rows_ok s \<Longrightarrow> rows_ok (s\<lparr>st_outbox := prune_type mt limit (st_outbox s)\<rparr>)"
  using prune_type_filter [of mt limit "st_outbox s"] by (auto intro: rows_ok_prune)

text \<open>The message type decides which bound is enforced.\<close>

definition bounded_insert :: "string \<Rightarrow> local_store \<Rightarrow> local_store" where
  "bounded_insert mt s = (if mt = ''trajectory.batch'' then prune_trajectory_outbox s
     else if mt = ''system.log.batch'' then prune_system_log_outbox s else s)"

lemma bounded_insert_ok:
  assumes "outbox_ok s"
  shows "outbox_ok (bounded_insert mt (insert_row topic mt payload qos retain key s))"
proof -
  let ?s = "insert_row topic mt payload qos retain key s"
  have r: "rows_ok ?s" and s: "rows_ok s" using assms by (auto simp: outbox_ok_rows intro: insert_row_ok)
  note srt = rows_ok_sorted [OF r]
  consider "mt = ''trajectory.batch''" | "mt = ''system.log.batch''"
    | "mt \<noteq> ''trajectory.batch''" "mt \<noteq> ''system.log.batch''" by blast
  then show ?thesis
  proof cases
    case 1
    then show ?thesis using assms r prune_type_bound [OF srt] prune_type_rows(2) [OF srt] insert_row_types
      by (simp add: outbox_ok_rows bounded_insert_def prune_defs rows_ok_prune_type)
  next
    case 2
    then show ?thesis using assms r prune_type_bound [OF srt] prune_type_rows(2) [OF srt] insert_row_types
      by (simp add: outbox_ok_rows bounded_insert_def prune_defs rows_ok_prune_type)
  next
    case 3
    then show ?thesis using assms r by (simp add: outbox_ok_rows bounded_insert_def insert_row_types)
  qed
qed

lemma column_text_number:
  assumes "column_text v = Inr (Some mt)" "\<not> is_str v"
  shows "mt \<noteq> ''trajectory.batch'' \<and> mt \<noteq> ''system.log.batch''"
proof (cases v)
  case (PInt n)
  then have "set mt \<subseteq> insert (CHR ''-'') (Collect is_digit)" using assms by (auto simp: show_int_def split: if_splits)
  then show ?thesis by (auto simp: is_digit_def)
next
  case (PFloat f)
  then show ?thesis using assms by (cases f) (auto split: if_splits)
qed (use assms in \<open>auto split: if_splits\<close>)

lemma enqueue_outbox_shape:
  assumes "enqueue_outbox topic payload qos retain key s = Inr s'"
  shows "s' = s \<or> (\<exists>mt. s' = bounded_insert mt (insert_row topic mt payload qos retain key s)
    \<and> (is_str (dget payload ''message_type'') \<longrightarrow> dget payload ''message_type'' = PStr mt))"
proof -
  obtain v column where v: "dget payload ''message_type'' = v" "column_text v = Inr column"
    and s': "s' = (let s' = (case column of None \<Rightarrow> s | Some mt \<Rightarrow> insert_row topic mt payload qos retain key s) in
       if v = PStr ''trajectory.batch'' then prune_trajectory_outbox s'
       else if v = PStr ''system.log.batch'' then prune_system_log_outbox s' else s')"
    using assms by (auto simp: enqueue_outbox_def dsub_ok Let_def)
  show ?thesis
  proof (cases "column")
    case None
    then have "\<not> is_str v" using v(2) by (cases v) auto
    then show ?thesis using s' None by auto
  next
    case (Some mt)
    show ?thesis
    proof (cases "is_str v")
      case True
      then have "v = PStr mt" using v(2) Some by (cases v) auto
      then show ?thesis using s' Some v(1) by (auto simp: bounded_insert_def Let_def)
    next
      case False
      then have "v \<noteq> PStr x" for x by auto
      moreover have "mt \<noteq> ''trajectory.batch''" "mt \<noteq> ''system.log.batch''"
        using column_text_number [OF _ False, of mt] v(2) Some by simp_all
      ultimately have "s' = bounded_insert mt (insert_row topic mt payload qos retain key s)"
        using s' Some by (simp add: bounded_insert_def)
      with False v(1) show ?thesis by blast
    qed
  qed
qed

lemma enqueue_text:
  "dget payload ''message_type'' = PStr mt \<Longrightarrow>
     enqueue_outbox topic payload qos retain key s = Inr (bounded_insert mt (insert_row topic mt payload qos retain key s))"
  by (auto simp: enqueue_outbox_def dsub_def dget_def bounded_insert_def split: option.splits)

text \<open>A call on the outbox, and a run of calls. A call that raises is rolled back.\<close>

datatype outbox_call =
    Enqueue string pydict int bool "string option"
  | AckRow int
  | AckKey string

fun outbox_step :: "outbox_call \<Rightarrow> local_store \<Rightarrow> local_store" where
  "outbox_step (Enqueue topic payload qos retain key) s =
     (case enqueue_outbox topic payload qos retain key s of Inl _ \<Rightarrow> s | Inr s' \<Rightarrow> s')"
| "outbox_step (AckRow i) s = ack_outbox (Some i) None s"
| "outbox_step (AckKey k) s = ack_outbox None (Some k) s"

text \<open>A call that removes a row: it names its id or its dedupe key.\<close>

fun names_row :: "outbox_row \<Rightarrow> outbox_call \<Rightarrow> bool" where
  "names_row r (AckRow i) = (ob_id r = i)"
| "names_row r (AckKey k) = (ob_dedupe_key r = Some k)"
| "names_row r _ = False"

definition bounded_types :: "string list" where
  "bounded_types = [''trajectory.batch'', ''system.log.batch'']"

lemma outbox_step_ok: "outbox_ok s \<Longrightarrow> outbox_ok (outbox_step c s)"
proof (cases c)
  case (Enqueue topic payload qos retain key)
  assume ok: "outbox_ok s"
  show ?thesis
  proof (cases "enqueue_outbox topic payload qos retain key s")
    case (Inr s')
    with Enqueue enqueue_outbox_shape [OF Inr] ok show ?thesis by (auto intro: bounded_insert_ok)
  qed (use Enqueue ok in simp)
qed (auto simp: ack_outbox_def outbox_ok_filter)

lemma outbox_run_ok: "outbox_ok s \<Longrightarrow> outbox_ok (fold outbox_step cs s)"
  by (induction cs arbitrary: s) (auto simp: outbox_step_ok)

lemma empty_store_ok: "outbox_ok empty_store"
  by (simp add: outbox_ok_def empty_store_def type_rows_def)

lemma prune_type_other:
  "r \<in> set rows \<Longrightarrow> ob_message_type r \<noteq> mt \<Longrightarrow> r \<in> set (prune_type mt limit rows)"
  by (simp add: prune_type_def Let_def)

lemma bounded_insert_keeps:
  assumes "r \<in> set (st_outbox s)" "ob_message_type r \<notin> set bounded_types"
  shows "r \<in> set (st_outbox (bounded_insert mt (insert_row topic mt payload qos retain key s)))"
proof -
  have "r \<in> set (st_outbox (insert_row topic mt payload qos retain key s))"
    using assms(1) by (simp add: insert_row_def)
  with assms(2) show ?thesis
    by (auto simp: bounded_insert_def bounded_types_def prune_defs prune_type_other)
qed

text \<open>The new row of an insertion survives the pruning: it is the newest and every limit is at least one.\<close>

lemma prune_type_newest:
  assumes "sorted_wrt (<) (map ob_id (rows @ [r]))" "1 \<le> limit"
  shows "r \<in> set (prune_type mt limit (rows @ [r]))"
proof (cases "ob_message_type r = mt")
  case True
  have "type_rows mt (prune_type mt limit (rows @ [r])) =
      drop (length (type_rows mt rows) + 1 - nat limit) (type_rows mt rows) @ [r]"
    using prune_type_rows(1) [OF assms(1), of mt limit] True assms(2)
    by (simp add: type_rows_def)
  then have "r \<in> set (type_rows mt (prune_type mt limit (rows @ [r])))" by simp
  then show ?thesis by (simp add: type_rows_def)
qed (simp add: prune_type_other)

lemma bounded_insert_pending:
  assumes "outbox_ok s"
  shows "key_pending key (st_outbox s) \<and> bounded_insert mt (insert_row topic mt payload qos retain key s) = s
    \<or> (\<exists>r \<in> set (st_outbox (bounded_insert mt (insert_row topic mt payload qos retain key s))).
         ob_dedupe_key r = key \<and> ob_payload r = payload \<and> ob_topic r = topic \<and> ob_qos r = qos)"
proof (cases rule: insert_row_cases [of key s topic mt payload qos retain])
  case ignored
  have "bounded_insert mt s = s"
    using assms by (auto simp: bounded_insert_def prune_defs outbox_ok_def prune_type_noop)
  with ignored show ?thesis by simp
next
  case added
  let ?r = "\<lparr>ob_id = st_next_id s, ob_topic = topic, ob_qos = qos, ob_retain = retain,
               ob_message_type = mt, ob_dedupe_key = key, ob_payload = payload\<rparr>"
  have "rows_ok (insert_row topic mt payload qos retain key s)"
    using assms by (auto simp: outbox_ok_rows intro: insert_row_ok)
  then have "sorted_wrt (<) (map ob_id (st_outbox s @ [?r]))"
    unfolding added(2) by (simp add: rows_ok_def)
  then have "?r \<in> set (st_outbox (bounded_insert mt (insert_row topic mt payload qos retain key s)))"
    unfolding added(2) using assms
    by (simp add: bounded_insert_def prune_defs outbox_ok_def prune_type_newest)
  then show ?thesis by (intro disjI2 bexI [of _ ?r]) simp_all
qed

section \<open>The interface of the outbox\<close>

text \<open>
  What the publishers rely on: putting a message with a text type succeeds and makes it pending (unless its key
  is pending), a message of an unbounded type stays pending across any call that does not name it, and an
  acknowledgement removes exactly the rows with its key.
\<close>

locale durable_outbox =
  fixes ok :: "'s \<Rightarrow> bool" and rows :: "'s \<Rightarrow> outbox_row list"
    and put :: "string \<Rightarrow> pydict \<Rightarrow> int \<Rightarrow> bool \<Rightarrow> string option \<Rightarrow> 's \<Rightarrow> 's pyres"
    and step :: "outbox_call \<Rightarrow> 's \<Rightarrow> 's"
  assumes step_ok: "ok s \<Longrightarrow> ok (step c s)"
    and put_step: "put topic payload qos retain key s = Inr s' \<Longrightarrow> step (Enqueue topic payload qos retain key) s = s'"
    and put_text: "dget payload ''message_type'' = PStr mt \<Longrightarrow> \<exists>s'. put topic payload qos retain key s = Inr s'"
    and put_pending: "ok s \<Longrightarrow> dget payload ''message_type'' = PStr mt \<Longrightarrow> put topic payload qos retain key s = Inr s' \<Longrightarrow>
      key_pending key (rows s) \<and> s' = s
      \<or> (\<exists>r \<in> set (rows s'). ob_dedupe_key r = key \<and> ob_payload r = payload \<and> ob_topic r = topic \<and> ob_qos r = qos)"
    and step_keeps: "r \<in> set (rows s) \<Longrightarrow> ob_message_type r \<notin> set bounded_types \<Longrightarrow> \<not> names_row r c \<Longrightarrow>
      r \<in> set (rows (step c s))"
begin

lemma run_keeps:
  "r \<in> set (rows s) \<Longrightarrow> ob_message_type r \<notin> set bounded_types \<Longrightarrow> list_all (\<lambda>c. \<not> names_row r c) cs \<Longrightarrow>
     r \<in> set (rows (fold step cs s))"
  by (induction cs arbitrary: s) (auto simp: step_keeps)

lemma run_ok: "ok s \<Longrightarrow> ok (fold step cs s)"
  by (induction cs arbitrary: s) (auto simp: step_ok)

lemma put_ok: "ok s \<Longrightarrow> put topic payload qos retain key s = Inr s' \<Longrightarrow> ok s'"
  using step_ok [of s "Enqueue topic payload qos retain key"] put_step by fastforce

lemma put_again:
  assumes "ok s" "dget payload ''message_type'' = PStr mt" "put topic payload qos retain (Some k) s = Inr s'"
  shows "\<exists>s''. put topic payload qos retain (Some k) s' = Inr s'' \<and> key_pending (Some k) (rows s'')"
proof -
  have pend: "key_pending (Some k) (rows s')"
    using put_pending [OF assms] by (auto simp: key_pending_def list_ex_iff)
  obtain s'' where s'': "put topic payload qos retain (Some k) s' = Inr s''" using put_text [OF assms(2)] by blast
  from put_pending [OF put_ok [OF assms(1,3)] assms(2) s''] pend s''
  show ?thesis by (auto simp: key_pending_def list_ex_iff)
qed

end

interpretation outbox: durable_outbox outbox_ok st_outbox enqueue_outbox outbox_step
proof
  show "outbox_ok s \<Longrightarrow> outbox_ok (outbox_step c s)" for s c by (rule outbox_step_ok)
  show "enqueue_outbox topic payload qos retain key s = Inr s' \<Longrightarrow>
      outbox_step (Enqueue topic payload qos retain key) s = s'" for topic payload qos retain key s s' by simp
  show "\<exists>s'. enqueue_outbox topic payload qos retain key s = Inr s'"
    if "dget payload ''message_type'' = PStr mt" for payload mt topic qos retain key s
    using enqueue_text [OF that] by blast
  show "key_pending key (st_outbox s) \<and> s' = s
      \<or> (\<exists>r \<in> set (st_outbox s'). ob_dedupe_key r = key \<and> ob_payload r = payload \<and> ob_topic r = topic \<and> ob_qos r = qos)"
    if "outbox_ok s" "dget payload ''message_type'' = PStr mt" "enqueue_outbox topic payload qos retain key s = Inr s'"
    for s payload mt topic qos retain key s'
    using bounded_insert_pending [OF that(1), of key mt topic payload qos retain] that(3)
    unfolding enqueue_text [OF that(2)] by auto
  show "r \<in> set (st_outbox (outbox_step c s))"
    if r: "r \<in> set (st_outbox s)" "ob_message_type r \<notin> set bounded_types" "\<not> names_row r c" for r s c
  proof (cases c)
    case (Enqueue topic payload qos retain key)
    show ?thesis
    proof (cases "enqueue_outbox topic payload qos retain key s")
      case (Inr s')
      from enqueue_outbox_shape [OF Inr] Inr Enqueue show ?thesis using r bounded_insert_keeps by auto
    qed (use Enqueue r in simp)
  qed (use r in \<open>auto simp: ack_outbox_def\<close>)
qed

lemma open_store_ok: "outbox_ok (open_store a b c empty_store)"
  by (simp add: open_store_def prune_defs empty_store_def outbox_ok_def prune_type_def type_rows_def
      le_max_iff_disj)

lemma latest_row_newest:
  assumes "(c, now) \<in> set rs" "\<And>r. r \<in> set rs \<Longrightarrow> r = (c, now) \<or> snd r < now"
  shows "latest_row rs = Some (c, now)"
  using assms
proof (induction rs)
  case (Cons r rs)
  have mem: "latest_row rs = Some r' \<Longrightarrow> r' \<in> set rs" for r' rs
    by (induction rs arbitrary: r') (auto split: option.splits if_splits)
  show ?case
  proof (cases "(c, now) \<in> set rs")
    case True
    then have "latest_row rs = Some (c, now)" using Cons by simp
    then show ?thesis using Cons.prems(2) [of r] by auto
  next
    case False
    then have r: "r = (c, now)" using Cons.prems(1) by auto
    have "snd r' < now" if "latest_row rs = Some r'" for r'
      using mem [OF that] Cons.prems(2) [of r'] False by auto
    with r show ?thesis by (fastforce split: option.splits)
  qed
qed simp

lemma upsert_context_set:
  "(c, now) \<in> set (upsert_context c now rs)"
  "r \<in> set (upsert_context c now rs) \<Longrightarrow> r = (c, now) \<or> r \<in> set rs"
  by (induction rs) (auto split: if_splits)

lemma issue_seqs_values:
  "map snd (filter (\<lambda>p. fst p = tid) (issue_seqs tids s)) =
     (let v = (case st_sequence s tid of None \<Rightarrow> 0 | Some n \<Rightarrow> n)
      in map (\<lambda>i. v + int i) [0..<count_list tids tid])"
proof (induction tids arbitrary: s)
  case (Cons t tids)
  have shift: "map (\<lambda>i. v + int i) [0..<Suc n] = v # map (\<lambda>i. v + 1 + int i) [0..<n]" for v n
    by (simp add: upt_conv_Cons map_Suc_upt [symmetric] del: upt_Suc)
  show ?case
    using Cons.IH [of "fst (next_trajectory_seq t s)"] shift
    by (auto simp: next_trajectory_seq_def Let_def simp del: upt_Suc)
qed simp

section \<open>Properties\<close>

text \<open>C20. The outbox stays well formed. After any run of enqueue and acknowledge calls on a freshly opened store,
  row ids are strictly increasing and below the next id, no two pending rows share a dedupe key, and the
  trajectory batches and the log batches each stay within their configured limit.\<close>

theorem outbox_invariant: "outbox_ok (fold outbox_step cs (open_store trajectory_limit log_limit days empty_store))"
  by (rule outbox.run_ok [OF open_store_ok])

text \<open>No accepted message is lost. A pending message that is neither a trajectory batch nor a log batch stays in
  the outbox, whatever calls follow, until a call acknowledges its row id or its dedupe key.\<close>

theorem outbox_pending_until_acked:
  assumes "r \<in> set (st_outbox s)" "ob_message_type r \<notin> set bounded_types" "list_all (\<lambda>c. \<not> names_row r c) cs"
  shows "r \<in> set (st_outbox (fold outbox_step cs s))"
  using assms by (rule outbox.run_keeps)

definition sample_box :: local_store where
  "sample_box = fold outbox_step [Enqueue ''t'' [(''message_type'', PStr ''command.result'')] 1 False (Some ''k'')] empty_store"

theorem outbox_pending_until_acked_witness:
  "\<exists>r \<in> set (st_outbox (fold outbox_step
      [AckKey ''other'', Enqueue ''u'' [(''message_type'', PStr ''trajectory.batch'')] 1 False None] sample_box)).
    ob_dedupe_key r = Some ''k''"
proof -
  let ?r = "\<lparr>ob_id = 1, ob_topic = ''t'', ob_qos = 1, ob_retain = False, ob_message_type = ''command.result'',
    ob_dedupe_key = Some ''k'', ob_payload = [(''message_type'', PStr ''command.result'')]\<rparr> :: outbox_row"
  have "?r \<in> set (st_outbox sample_box)"
    by (simp add: sample_box_def empty_store_def enqueue_outbox_def insert_row_def key_pending_def)
  then have "?r \<in> set (st_outbox (fold outbox_step
      [AckKey ''other'', Enqueue ''u'' [(''message_type'', PStr ''trajectory.batch'')] 1 False None] sample_box))"
    by (rule outbox_pending_until_acked) (simp_all add: bounded_types_def)
  then show ?thesis by (rule rev_bexI) simp
qed

text \<open>The order of replay. Listing the outbox returns pending rows only, all of them when the limit allows,
  every other message before any trajectory batch, and each of the two groups in the order of insertion.\<close>

theorem list_pending_order:
  assumes "outbox_ok s"
  defines "others \<equiv> filter (\<lambda>r. ob_message_type r \<noteq> ''trajectory.batch'') (st_outbox s)"
    and "batches \<equiv> filter (\<lambda>r. ob_message_type r = ''trajectory.batch'') (st_outbox s)"
  shows "mset (others @ batches) = mset (st_outbox s)
    \<and> sorted_wrt (<) (map ob_id others) \<and> sorted_wrt (<) (map ob_id batches)
    \<and> list_pending_outbox limit s = (if limit < 0 then others @ batches else take (nat limit) (others @ batches))"
proof -
  have srt: "sorted_wrt (<) (map ob_id (st_outbox s))" using assms(1) by (simp add: outbox_ok_def)
  have "mset (filter (\<lambda>x. \<not> P x) xs @ filter P xs) = mset xs" for P and xs :: "outbox_row list"
    by (induction xs) auto
  then have "mset (others @ batches) = mset (st_outbox s)" unfolding assms(2,3) .
  then show ?thesis
    using sorted_ids_filter [OF srt] sorted_ids_sort_key [OF srt] unfolding assms(2,3)
    by (simp add: list_pending_outbox_def Let_def)
qed

theorem list_pending_order_witness:
  "map ob_dedupe_key (list_pending_outbox 100 sample_box) = [Some ''k'']"
proof -
  have "outbox_ok sample_box"
    unfolding sample_box_def by (rule outbox_run_ok [OF empty_store_ok])
  note order = list_pending_order [OF this, of 100]
  have "st_outbox sample_box = [\<lparr>ob_id = 1, ob_topic = ''t'', ob_qos = 1, ob_retain = False,
      ob_message_type = ''command.result'', ob_dedupe_key = Some ''k'',
      ob_payload = [(''message_type'', PStr ''command.result'')]\<rparr>]"
    by (simp add: sample_box_def empty_store_def enqueue_outbox_def insert_row_def key_pending_def)
  with order show ?thesis by simp
qed

text \<open>Duplicate commands find their answers. After the acknowledgement and the result of a command are stored,
  in either order, looking the command up returns both; the entries of other commands are unchanged.\<close>

theorem processed_command_round_trip:
  "get_processed_command cid (save_command_result cid result (save_command_ack cid ack s)) = Some (ack, Some result)
   \<and> get_processed_command cid (save_command_ack cid ack (save_command_result cid result s)) = Some (ack, Some result)
   \<and> (cid' \<noteq> cid \<longrightarrow>
       get_processed_command cid' (save_command_result cid result (save_command_ack cid ack s))
         = get_processed_command cid' s)"
  by (auto simp: get_processed_command_def save_command_result_def save_command_ack_def split: option.splits)

theorem processed_command_round_trip_witness:
  "get_processed_command ''b'' (save_command_result ''a'' (PInt 1) (save_command_ack ''a'' (PInt 2) empty_store)) = None"
  using processed_command_round_trip [of "''a''" "PInt 1" "PInt 2" empty_store "''b''"]
  by (simp add: get_processed_command_def empty_store_def)

text \<open>A task survives a restart. A context that is saved in a non-terminal state, later than every other active
  context, is what \<open>load_active_task_context\<close> returns (with its arrival counters clamped at zero); after
  \<open>clear_task_context\<close> to a terminal state no active context has that execution id.\<close>

theorem task_context_round_trip:
  assumes "tc_state c \<notin> set terminal_states"
    and "\<And>r. r \<in> set (st_contexts s) \<Longrightarrow> tc_state (fst r) \<notin> set terminal_states \<Longrightarrow> snd r < now"
  shows "load_active_task_context (save_task_context now c s) = Some (context_row c)
    \<and> (final \<in> set terminal_states \<longrightarrow>
       (case load_active_task_context (clear_task_context later tid final s) of
          None \<Rightarrow> True | Some c' \<Rightarrow> tc_task_execution_id c' \<noteq> tid))"
proof -
  let ?rs = "filter (\<lambda>r. tc_state (fst r) \<notin> set terminal_states) (upsert_context (context_row c) now (st_contexts s))"
  have "(context_row c, now) \<in> set ?rs"
    using assms(1) upsert_context_set(1) [of "context_row c" now] by (simp add: context_row_def)
  moreover have "r = (context_row c, now) \<or> snd r < now" if "r \<in> set ?rs" for r
    using that upsert_context_set(2) [of r "context_row c" now "st_contexts s"] assms(2) [of r] by auto
  ultimately have "latest_row ?rs = Some (context_row c, now)" by (rule latest_row_newest)
  then have load: "load_active_task_context (save_task_context now c s) = Some (context_row c)"
    by (simp add: load_active_task_context_def save_task_context_def)
  have mem: "latest_row rs = Some r \<Longrightarrow> r \<in> set rs" for r and rs :: "(task_context \<times> int) list"
    by (induction rs arbitrary: r) (auto split: option.splits if_splits)
  have "final \<in> set terminal_states \<longrightarrow> (case load_active_task_context (clear_task_context later tid final s) of
          None \<Rightarrow> True | Some c' \<Rightarrow> tc_task_execution_id c' \<noteq> tid)"
    by (auto simp: load_active_task_context_def clear_task_context_def split: option.splits if_splits dest!: mem)
  with load show ?thesis by blast
qed

definition sample_context :: task_context where
  "sample_context = \<lparr>tc_task_execution_id = ''e1'', tc_state = ''running'', tc_state_version = 3,
     tc_route_snapshot = PDict [], tc_current_waypoint_index = 2, tc_start_command_id = Some ''c1'',
     tc_record_rosbag = True, tc_loop_execution = False, tc_loop_session_id = [], tc_continuous_rosbag = False,
     tc_post_arrival_waypoint_index = None, tc_post_arrival_stage = [], tc_arrival_side_effects_started = False,
     tc_arrival_coarse_fallback_accepted = False, tc_arrival_reapproach_waypoint_index = None,
     tc_arrival_reapproach_attempts = 1, tc_arrival_micro_adjust_total_m = 0, tc_arrival_micro_adjust_steps = 0,
     tc_arrival_micro_adjust_started_at = None\<rparr>"

theorem task_context_round_trip_witness:
  "load_active_task_context (save_task_context 10 sample_context empty_store) = Some sample_context"
proof -
  have "context_row sample_context = sample_context" by (simp add: context_row_def sample_context_def)
  moreover have "tc_state sample_context \<notin> set terminal_states"
    by (simp add: sample_context_def terminal_states_def)
  ultimately show ?thesis
    using task_context_round_trip [of sample_context empty_store 10] by (simp add: empty_store_def)
qed

text \<open>Trajectory sequence numbers have no gap and no repetition. In any interleaving of requests for several
  executions, the numbers handed out for one execution are consecutive, starting at its stored counter (0 for a
  new execution).\<close>

theorem trajectory_seq_consecutive:
  "map snd (filter (\<lambda>p. fst p = tid) (issue_seqs tids s)) =
     (let v = (case st_sequence s tid of None \<Rightarrow> 0 | Some n \<Rightarrow> n)
      in map (\<lambda>i. v + int i) [0..<count_list tids tid])"
  by (rule issue_seqs_values)

end
