(* ===== verification/HealStore.thy ===== *)
theory HealStore
  imports Py "HOL-Library.Multiset"
begin

text \<open>
  The edge agent's durable store, second part (\<open>edge-agent/roamerx_edge/local_store.py\<close>): the self-healing
  episodes, their actions and the daily summary. Closing the records an exited process left open, pruning
  old episodes into the summary, and the statistics over both. Times are seconds since the epoch; the
  foreign key from actions to episodes is enforced by the database and raises.
\<close>

section \<open>Tables\<close>

record episode_row =
  ep_id :: string
  ep_fault_label :: string
  ep_scene_mode :: string
  ep_task_execution_id :: string
  ep_map_id :: string
  ep_evidence :: pydict
  ep_success :: "bool option"
  ep_terminal_level :: "int option"
  ep_terminal_action :: string
  ep_duration :: "real option"
  ep_reason :: string
  ep_started_at :: int
  ep_finished_at :: "int option"

record action_row =
  ac_id :: string
  ac_episode_id :: string
  ac_level :: int
  ac_action_type :: string
  ac_success :: "bool option"
  ac_reason :: string
  ac_duration :: "real option"
  ac_started_at :: int
  ac_finished_at :: "int option"

record summary_row =
  sm_date :: int
  sm_category :: string
  sm_label :: string
  sm_total :: int
  sm_succeeded :: int
  sm_duration :: real

record heal_store =
  hs_episodes :: "episode_row list"
  hs_actions :: "action_row list"
  hs_summary :: "summary_row list"

definition empty_heal_store :: heal_store where
  "empty_heal_store = \<lparr>hs_episodes = [], hs_actions = [], hs_summary = []\<rparr>"

section \<open>Episodes and actions\<close>

definition start_self_heal_episode ::
  "int \<Rightarrow> string \<Rightarrow> string \<Rightarrow> string \<Rightarrow> string \<Rightarrow> string \<Rightarrow> pydict \<Rightarrow> heal_store \<Rightarrow> heal_store" where
  "start_self_heal_episode now eid fault scene tid map_id evidence h =
     (if eid \<in> set (map ep_id (hs_episodes h)) then h
      else h\<lparr>hs_episodes := hs_episodes h @
        [\<lparr>ep_id = eid, ep_fault_label = fault, ep_scene_mode = scene, ep_task_execution_id = tid,
          ep_map_id = map_id, ep_evidence = evidence, ep_success = None, ep_terminal_level = None,
          ep_terminal_action = [], ep_duration = None, ep_reason = [], ep_started_at = now,
          ep_finished_at = None\<rparr>]\<rparr>)"

definition finish_self_heal_episode ::
  "int \<Rightarrow> string \<Rightarrow> bool \<Rightarrow> int \<Rightarrow> string \<Rightarrow> real \<Rightarrow> string \<Rightarrow> heal_store \<Rightarrow> heal_store" where
  "finish_self_heal_episode now eid success level action duration reason h =
     h\<lparr>hs_episodes := map (\<lambda>e. if ep_id e = eid
        then e\<lparr>ep_success := Some success, ep_terminal_level := Some level, ep_terminal_action := action,
               ep_duration := Some (max 0 duration), ep_reason := reason, ep_finished_at := Some now\<rparr>
        else e) (hs_episodes h)\<rparr>"

text \<open>\<open>INSERT OR IGNORE\<close> ignores a known action id, but not a violated foreign key.\<close>

definition start_self_heal_action ::
  "int \<Rightarrow> string \<Rightarrow> string \<Rightarrow> int \<Rightarrow> string \<Rightarrow> heal_store \<Rightarrow> heal_store pyres" where
  "start_self_heal_action now aid eid level action h =
     (if aid \<in> set (map ac_id (hs_actions h)) then Inr h
      else if eid \<notin> set (map ep_id (hs_episodes h)) then Inl (IntegrityError ''FOREIGN KEY constraint failed'')
      else Inr (h\<lparr>hs_actions := hs_actions h @
        [\<lparr>ac_id = aid, ac_episode_id = eid, ac_level = level, ac_action_type = action, ac_success = None,
          ac_reason = [], ac_duration = None, ac_started_at = now, ac_finished_at = None\<rparr>]\<rparr>))"

definition finish_self_heal_action ::
  "int \<Rightarrow> string \<Rightarrow> bool \<Rightarrow> string \<Rightarrow> real option \<Rightarrow> heal_store \<Rightarrow> heal_store" where
  "finish_self_heal_action now aid success reason duration h =
     h\<lparr>hs_actions := map (\<lambda>a. if ac_id a = aid
        then a\<lparr>ac_success := Some success, ac_reason := reason,
               ac_duration := (case duration of None \<Rightarrow> ac_duration a | Some d \<Rightarrow> Some (max 0 d)),
               ac_finished_at := Some now\<rparr>
        else a) (hs_actions h)\<rparr>"

section \<open>Reconciliation after a restart\<close>

definition elapsed_since :: "int \<Rightarrow> int \<Rightarrow> real" where
  "elapsed_since now started = max 0 (of_int (now - started))"

definition close_action :: "int \<Rightarrow> string \<Rightarrow> action_row \<Rightarrow> action_row" where
  "close_action now reason a =
     (if ac_finished_at a = None
      then a\<lparr>ac_success := Some False, ac_reason := reason,
             ac_duration := Some (elapsed_since now (ac_started_at a)), ac_finished_at := Some now\<rparr>
      else a)"

text \<open>The newest action of an episode: the one with the greatest row id.\<close>

definition last_action :: "string \<Rightarrow> action_row list \<Rightarrow> action_row option" where
  "last_action eid actions =
     (case filter (\<lambda>a. ac_episode_id a = eid) actions of [] \<Rightarrow> None | as \<Rightarrow> Some (last as))"

definition close_episode :: "int \<Rightarrow> string \<Rightarrow> action_row list \<Rightarrow> episode_row \<Rightarrow> episode_row" where
  "close_episode now reason actions e =
     (if ep_finished_at e = None
      then e\<lparr>ep_success := Some False,
             ep_terminal_level := (case last_action (ep_id e) actions of
                 Some a \<Rightarrow> Some (ac_level a)
               | None \<Rightarrow> (case ep_terminal_level e of Some l \<Rightarrow> Some l | None \<Rightarrow> Some 0)),
             ep_terminal_action := (case last_action (ep_id e) actions of
                 Some a \<Rightarrow> ac_action_type a | None \<Rightarrow> ep_terminal_action e),
             ep_duration := Some (elapsed_since now (ep_started_at e)),
             ep_reason := reason, ep_finished_at := Some now\<rparr>
      else e)"

definition reconcile_unfinished_self_healing ::
  "int \<Rightarrow> string \<Rightarrow> heal_store \<Rightarrow> heal_store \<times> int \<times> int" where
  "reconcile_unfinished_self_healing now reason h =
     (let actions = map (close_action now reason) (hs_actions h);
          episodes = map (close_episode now reason actions) (hs_episodes h)
      in (h\<lparr>hs_actions := actions, hs_episodes := episodes\<rparr>,
          int (length (filter (\<lambda>e. ep_finished_at e = None) (hs_episodes h))),
          int (length (filter (\<lambda>a. ac_finished_at a = None) (hs_actions h)))))"

section \<open>Retention\<close>

definition day_of :: "int \<Rightarrow> int" where
  "day_of t = t div 86400"

text \<open>An episode that is finished and started before \<open>datetime('now', '-N days')\<close>.\<close>

definition expired_episode :: "int \<Rightarrow> int \<Rightarrow> episode_row \<Rightarrow> bool" where
  "expired_episode now days e = (ep_finished_at e \<noteq> None \<and> ep_started_at e < now - days * 86400)"

definition count_true :: "bool option list \<Rightarrow> int" where
  "count_true bs = int (length (filter (\<lambda>b. b = Some True) bs))"

definition sum_durations :: "real option list \<Rightarrow> real" where
  "sum_durations ds = sum_list (map (\<lambda>d. case d of None \<Rightarrow> 0 | Some x \<Rightarrow> x) ds)"

text \<open>\<open>GROUP BY date, label\<close> with the three aggregates; a row is its date, label, success and duration.\<close>

type_synonym detail = "int \<times> string \<times> bool option \<times> real option"

definition detail_key :: "detail \<Rightarrow> int \<times> string" where
  "detail_key d = (fst d, fst (snd d))"

definition group_of :: "string \<Rightarrow> detail list \<Rightarrow> int \<times> string \<Rightarrow> summary_row" where
  "group_of category ds key =
     (let g = filter (\<lambda>d. detail_key d = key) ds in
      \<lparr>sm_date = fst key, sm_category = category, sm_label = snd key, sm_total = int (length g),
       sm_succeeded = count_true (map (\<lambda>d. fst (snd (snd d))) g),
       sm_duration = sum_durations (map (\<lambda>d. snd (snd (snd d))) g)\<rparr>)"

definition group_details :: "string \<Rightarrow> detail list \<Rightarrow> summary_row list" where
  "group_details category ds = map (group_of category ds) (remdups (map detail_key ds))"

definition same_summary :: "summary_row \<Rightarrow> summary_row \<Rightarrow> bool" where
  "same_summary a b = (sm_date a = sm_date b \<and> sm_category a = sm_category b \<and> sm_label a = sm_label b)"

text \<open>\<open>INSERT ... ON CONFLICT DO UPDATE\<close>: an existing row takes the sums.\<close>

definition merge_summary :: "summary_row \<Rightarrow> summary_row \<Rightarrow> summary_row" where
  "merge_summary x r = x\<lparr>sm_total := sm_total x + sm_total r, sm_succeeded := sm_succeeded x + sm_succeeded r,
     sm_duration := sm_duration x + sm_duration r\<rparr>"

fun upsert_summary :: "summary_row \<Rightarrow> summary_row list \<Rightarrow> summary_row list" where
  "upsert_summary r [] = [r]"
| "upsert_summary r (x # xs) =
     (if same_summary x r then merge_summary x r # xs
      else x # upsert_summary r xs)"

definition episode_detail :: "episode_row \<Rightarrow> detail" where
  "episode_detail e = (day_of (ep_started_at e), ep_fault_label e, ep_success e, ep_duration e)"

definition action_detail :: "action_row \<Rightarrow> detail" where
  "action_detail a = (day_of (ac_started_at a), ac_action_type a, ac_success a, ac_duration a)"

definition retention_days :: "int \<Rightarrow> int option \<Rightarrow> int" where
  "retention_days configured requested = max 1 (case requested of None \<Rightarrow> configured | Some d \<Rightarrow> d)"

definition foreign_key_violations :: "heal_store \<Rightarrow> int" where
  "foreign_key_violations h =
     int (length (filter (\<lambda>a. ac_episode_id a \<notin> set (map ep_id (hs_episodes h))) (hs_actions h)))"

definition prune_self_healing ::
  "int \<Rightarrow> int \<Rightarrow> int option \<Rightarrow> heal_store \<Rightarrow> (heal_store \<times> int \<times> int \<times> int) pyres" where
  "prune_self_healing now configured requested h =
     (let days = retention_days configured requested;
          old = filter (expired_episode now days) (hs_episodes h);
          old_actions = filter (\<lambda>a. ac_episode_id a \<in> set (map ep_id old)) (hs_actions h);
          s1 = fold upsert_summary (group_details ''fault'' (map episode_detail old)) (hs_summary h);
          s2 = fold upsert_summary (group_details ''action'' (map action_detail old_actions)) s1;
          h' = \<lparr>hs_episodes = filter (\<lambda>e. \<not> expired_episode now days e) (hs_episodes h),
                hs_actions = filter (\<lambda>a. ac_episode_id a \<notin> set (map ep_id old)) (hs_actions h),
                hs_summary = s2\<rparr>
      in if foreign_key_violations h' \<noteq> 0
         then Inl (IntegrityError ''self-healing retention left foreign-key violations'')
         else Inr (h', int (length old), int (length old_actions), days))"

section \<open>Statistics\<close>

record stat_row =
  sr_label :: string
  sr_total :: int
  sr_succeeded :: int
  sr_average :: "real option"

text \<open>The details of finished rows, and the summary rows of a category with a label.\<close>

definition finished_faults :: "heal_store \<Rightarrow> detail list" where
  "finished_faults h = map episode_detail (filter (\<lambda>e. ep_finished_at e \<noteq> None) (hs_episodes h))"

definition finished_actions :: "heal_store \<Rightarrow> detail list" where
  "finished_actions h = map action_detail (filter (\<lambda>a. ac_finished_at a \<noteq> None) (hs_actions h))"

definition labelled :: "string \<Rightarrow> detail list \<Rightarrow> detail list" where
  "labelled label ds = filter (\<lambda>d. fst (snd d) = label) ds"

definition summary_of :: "string \<Rightarrow> string \<Rightarrow> heal_store \<Rightarrow> summary_row list" where
  "summary_of category label h =
     filter (\<lambda>r. sm_category r = category \<and> sm_label r = label) (hs_summary h)"

definition stat_total :: "detail list \<Rightarrow> string \<Rightarrow> string \<Rightarrow> heal_store \<Rightarrow> int" where
  "stat_total ds category label h =
     int (length (labelled label ds)) + sum_list (map sm_total (summary_of category label h))"

definition stat_succeeded :: "detail list \<Rightarrow> string \<Rightarrow> string \<Rightarrow> heal_store \<Rightarrow> int" where
  "stat_succeeded ds category label h =
     count_true (map (\<lambda>d. fst (snd (snd d))) (labelled label ds))
       + sum_list (map sm_succeeded (summary_of category label h))"

definition stat_duration :: "detail list \<Rightarrow> string \<Rightarrow> string \<Rightarrow> heal_store \<Rightarrow> real" where
  "stat_duration ds category label h =
     sum_durations (map (\<lambda>d. snd (snd (snd d))) (labelled label ds))
       + sum_list (map sm_duration (summary_of category label h))"

definition stat_of :: "detail list \<Rightarrow> string \<Rightarrow> heal_store \<Rightarrow> string \<Rightarrow> stat_row" where
  "stat_of ds category h label =
     (let total = stat_total ds category label h in
      \<lparr>sr_label = label, sr_total = total, sr_succeeded = stat_succeeded ds category label h,
       sr_average = (if total = 0 then None else Some (stat_duration ds category label h / of_int total))\<rparr>)"

definition stat_labels :: "detail list \<Rightarrow> string \<Rightarrow> heal_store \<Rightarrow> string list" where
  "stat_labels ds category h = remdups (map (\<lambda>d. fst (snd d)) ds
     @ map sm_label (filter (\<lambda>r. sm_category r = category) (hs_summary h)))"

text \<open>\<open>ORDER BY total DESC, label\<close>.\<close>

fun text_less :: "string \<Rightarrow> string \<Rightarrow> bool" where
  "text_less _ [] = False"
| "text_less [] (_ # _) = True"
| "text_less (a # as) (b # bs) =
     (if a = b then text_less as bs else (of_char a :: int) < of_char b)"

fun insert_stat :: "stat_row \<Rightarrow> stat_row list \<Rightarrow> stat_row list" where
  "insert_stat r [] = [r]"
| "insert_stat r (x # xs) =
     (if sr_total x > sr_total r \<or> (sr_total x = sr_total r \<and> text_less (sr_label x) (sr_label r))
      then x # insert_stat r xs else r # x # xs)"

definition stat_rows :: "detail list \<Rightarrow> string \<Rightarrow> heal_store \<Rightarrow> stat_row list" where
  "stat_rows ds category h = foldr insert_stat (map (stat_of ds category h) (stat_labels ds category h)) []"

definition self_heal_statistics :: "heal_store \<Rightarrow> stat_row list \<times> stat_row list" where
  "self_heal_statistics h =
     (stat_rows (finished_faults h) ''fault'' h, stat_rows (finished_actions h) ''action'' h)"

section \<open>Measures that aggregation keeps\<close>

lemma sum_list_indicator:
  fixes x :: "'a::comm_monoid_add"
  shows "distinct ks \<Longrightarrow> sum_list (map (\<lambda>k. if k = a then x else 0) ks) = (if a \<in> set ks then x else 0)"
  by (induction ks) auto

text \<open>Summing group by group is summing over all rows.\<close>

lemma sum_list_groups:
  fixes w :: "'d \<Rightarrow> 'a::comm_monoid_add"
  assumes "distinct ks" "key ` set ds \<subseteq> set ks"
  shows "sum_list (map (\<lambda>k. if Q k then sum_list (map w (filter (\<lambda>d. key d = k) ds)) else 0) ks)
    = sum_list (map w (filter (\<lambda>d. Q (key d)) ds))"
  using assms(2)
proof (induction ds)
  case (Cons d ds)
  have "(if Q k then sum_list (map w (filter (\<lambda>d. key d = k) (d # ds))) else 0)
      = (if k = key d then (if Q (key d) then w d else 0) else 0)
        + (if Q k then sum_list (map w (filter (\<lambda>d. key d = k) ds)) else 0)" for k by auto
  then have "sum_list (map (\<lambda>k. if Q k then sum_list (map w (filter (\<lambda>d. key d = k) (d # ds))) else 0) ks)
      = sum_list (map (\<lambda>k. if k = key d then (if Q (key d) then w d else 0) else 0) ks)
        + sum_list (map (\<lambda>k. if Q k then sum_list (map w (filter (\<lambda>d. key d = k) ds)) else 0) ks)"
    by (simp only: sum_list_addf)
  with Cons assms(1) show ?case by (simp add: sum_list_indicator)
qed (simp cong: if_cong)

text \<open>
  A quantity that is read off a summary row by \<open>g\<close> and off a detail row by \<open>w\<close>: merging adds it up, and a
  group carries the sum over its rows. The total over details and summary is then kept when details
  are folded into the summary.
\<close>

locale additive_measure =
  fixes g :: "summary_row \<Rightarrow> 'a::comm_monoid_add" and w :: "detail \<Rightarrow> 'a"
  assumes merge: "g (merge_summary x r) = g x + g r"
    and group: "g (group_of c ds k) = sum_list (map w (filter (\<lambda>d. detail_key d = k) ds))"
begin

lemma upsert_sum:
  "sum_list (map g (filter (\<lambda>x. sm_category x = c \<and> sm_label x = l) (upsert_summary r xs)))
   = sum_list (map g (filter (\<lambda>x. sm_category x = c \<and> sm_label x = l) xs))
     + (if sm_category r = c \<and> sm_label r = l then g r else 0)"
proof (induction xs)
  case (Cons x xs)
  have "sm_category (merge_summary x r) = sm_category x" "sm_label (merge_summary x r) = sm_label x"
    by (simp_all add: merge_summary_def)
  then show ?case using Cons.IH by (auto simp: same_summary_def merge add_ac)
qed simp

lemma fold_sum:
  "sum_list (map g (filter (\<lambda>x. sm_category x = c \<and> sm_label x = l) (fold upsert_summary rs xs)))
   = sum_list (map g (filter (\<lambda>x. sm_category x = c \<and> sm_label x = l) xs))
     + sum_list (map g (filter (\<lambda>x. sm_category x = c \<and> sm_label x = l) rs))"
  by (induction rs arbitrary: xs) (simp_all add: upsert_sum add_ac)

lemma group_sum:
  "sum_list (map g (filter (\<lambda>x. sm_category x = c \<and> sm_label x = l) (group_details c' ds)))
   = (if c' = c then sum_list (map w (labelled l ds)) else 0)"
proof -
  have "sum_list (map g (filter (\<lambda>x. sm_category x = c \<and> sm_label x = l) (map (group_of c' ds) ks)))
      = sum_list (map (\<lambda>k. if c' = c \<and> snd k = l then g (group_of c' ds k) else 0) ks)" for ks
    by (induction ks) (auto simp: group_of_def Let_def)
  then show ?thesis
    using sum_list_groups [of "remdups (map detail_key ds)" detail_key ds "\<lambda>k. snd k = l" w]
    by (simp add: group_details_def group labelled_def detail_key_def cong: if_cong)
qed

text \<open>The total of a label in the details that stay and the summary they left.\<close>

lemma fold_details:
  "sum_list (map w (labelled l kept))
     + sum_list (map g (filter (\<lambda>x. sm_category x = c \<and> sm_label x = l)
         (fold upsert_summary (group_details c' ds) xs)))
   = sum_list (map w (labelled l kept)) + (if c' = c then sum_list (map w (labelled l ds)) else 0)
     + sum_list (map g (filter (\<lambda>x. sm_category x = c \<and> sm_label x = l) xs))"
  by (simp add: fold_sum group_sum add_ac)

end

lemma count_true_sum: "count_true (map f ds) = sum_list (map (\<lambda>d. if f d = Some True then 1 else 0) ds)"
  by (induction ds) (auto simp: count_true_def)

lemma length_sum: "int (length ds) = sum_list (map (\<lambda>_. 1) ds)"
  by (induction ds) auto

interpretation totals: additive_measure sm_total "\<lambda>_. 1"
  by unfold_locales (simp_all add: merge_summary_def group_of_def Let_def length_sum)

interpretation successes: additive_measure sm_succeeded "\<lambda>d. if fst (snd (snd d)) = Some True then 1 else 0"
  by unfold_locales (simp_all add: merge_summary_def group_of_def Let_def count_true_sum)

interpretation durations: additive_measure sm_duration "\<lambda>d. case snd (snd (snd d)) of None \<Rightarrow> 0 | Some x \<Rightarrow> x"
  by unfold_locales (simp_all add: merge_summary_def group_of_def Let_def sum_durations_def comp_def)

text \<open>A list split by a predicate carries the sum of its parts.\<close>

lemma sum_list_split:
  fixes w :: "'d \<Rightarrow> 'a::comm_monoid_add"
  shows "sum_list (map w (filter P xs)) = sum_list (map w (filter (\<lambda>x. P x \<and> \<not> R x) xs))
    + sum_list (map w (filter (\<lambda>x. P x \<and> R x) xs))"
  by (induction xs) (auto simp: add_ac)

section \<open>Well-formed stores\<close>

definition heal_ok :: "heal_store \<Rightarrow> bool" where
  "heal_ok h = (distinct (map ep_id (hs_episodes h)) \<and> distinct (map ac_id (hs_actions h))
     \<and> foreign_key_violations h = 0)"

lemma fk_iff: "foreign_key_violations h = 0 \<longleftrightarrow> ac_episode_id ` set (hs_actions h) \<subseteq> ep_id ` set (hs_episodes h)"
  by (auto simp: foreign_key_violations_def filter_empty_conv)

text \<open>Pruning never trips over the foreign key it checks, and the result in closed form.\<close>

lemma prune_result:
  fixes now configured :: int and requested :: "int option"
  assumes "heal_ok h"
  defines "days \<equiv> retention_days configured requested"
  defines "old \<equiv> filter (expired_episode now days) (hs_episodes h)"
  defines "old_actions \<equiv> filter (\<lambda>a. ac_episode_id a \<in> ep_id ` set old) (hs_actions h)"
  defines "h' \<equiv> \<lparr>hs_episodes = filter (\<lambda>e. \<not> expired_episode now days e) (hs_episodes h),
      hs_actions = filter (\<lambda>a. ac_episode_id a \<notin> ep_id ` set old) (hs_actions h),
      hs_summary = fold upsert_summary (group_details ''action'' (map action_detail old_actions))
        (fold upsert_summary (group_details ''fault'' (map episode_detail old)) (hs_summary h))\<rparr>"
  shows "prune_self_healing now configured requested h
      = Inr (h', int (length old), int (length old_actions), days)"
    and "heal_ok h'"
proof -
  have fk: "foreign_key_violations h' = 0"
  proof -
    have "ac_episode_id a \<in> ep_id ` {e \<in> set (hs_episodes h). \<not> expired_episode now days e}"
      if a: "a \<in> set (hs_actions h)" "ac_episode_id a \<notin> ep_id ` set old" for a
    proof -
      obtain e where "e \<in> set (hs_episodes h)" "ep_id e = ac_episode_id a"
        using assms(1) a(1) by (auto simp: heal_ok_def fk_iff)
      with a(2) show ?thesis by (force simp: old_def)
    qed
    then show ?thesis unfolding fk_iff h'_def by auto
  qed
  then show "prune_self_healing now configured requested h
      = Inr (h', int (length old), int (length old_actions), days)"
    by (simp add: prune_self_healing_def Let_def h'_def old_def old_actions_def days_def)
  show "heal_ok h'"
    using assms(1) fk by (auto simp: heal_ok_def h'_def intro: distinct_map_filter)
qed

section \<open>Statistics across pruning\<close>

lemma stat_sums:
  "stat_total ds c l h = sum_list (map (\<lambda>_. 1) (labelled l ds)) + sum_list (map sm_total (summary_of c l h))"
  "stat_succeeded ds c l h = sum_list (map (\<lambda>d. if fst (snd (snd d)) = Some True then 1 else 0) (labelled l ds))
     + sum_list (map sm_succeeded (summary_of c l h))"
  "stat_duration ds c l h = sum_list (map (\<lambda>d. case snd (snd (snd d)) of None \<Rightarrow> 0 | Some x \<Rightarrow> x) (labelled l ds))
     + sum_list (map sm_duration (summary_of c l h))"
  by (simp_all add: stat_total_def stat_succeeded_def stat_duration_def length_sum count_true_sum
      sum_durations_def comp_def)

lemma set_insert_stat: "set (insert_stat r xs) = insert r (set xs)"
  by (induction xs) auto

lemma set_stat_rows: "set (stat_rows ds c h) = stat_of ds c h ` set (stat_labels ds c h)"
proof -
  have "set (foldr insert_stat rs []) = set rs" for rs by (induction rs) (simp_all add: set_insert_stat)
  then show ?thesis by (simp add: stat_rows_def)
qed

definition cat_label :: "summary_row \<Rightarrow> string \<times> string" where
  "cat_label r = (sm_category r, sm_label r)"

lemma cat_label_upsert: "cat_label ` set (upsert_summary r xs) = insert (cat_label r) (cat_label ` set xs)"
  by (induction xs) (auto simp: cat_label_def same_summary_def merge_summary_def)

lemma cat_label_fold: "cat_label ` set (fold upsert_summary rs xs) = cat_label ` set rs \<union> cat_label ` set xs"
  by (induction rs arbitrary: xs) (auto simp: cat_label_upsert)

lemma cat_label_groups: "cat_label ` set (group_details c ds) = (\<lambda>d. (c, fst (snd d))) ` set ds"
  by (force simp: group_details_def group_of_def cat_label_def detail_key_def Let_def)

lemma set_stat_labels:
  "set (stat_labels ds c h) = (\<lambda>d. fst (snd d)) ` set ds \<union> {l. (c, l) \<in> cat_label ` set (hs_summary h)}"
  by (auto simp: stat_labels_def cat_label_def)

text \<open>Folding some details of a category into the summary, with other categories folded around it.\<close>

lemma stat_rows_folded:
  assumes split: "\<And>l. mset (labelled l ds) = mset (labelled l kept) + mset (labelled l folded)"
    and other: "c1 = c \<and> c2 \<noteq> c \<and> ds1 = folded \<or> c2 = c \<and> c1 \<noteq> c \<and> ds2 = folded"
    and h': "hs_summary h' = fold upsert_summary (group_details c2 ds2) (fold upsert_summary (group_details c1 ds1) (hs_summary h))"
  shows "set (stat_rows kept c h') = set (stat_rows ds c h)"
proof -
  have parts: "sum_list (map w (labelled l ds)) = sum_list (map w (labelled l kept)) + sum_list (map w (labelled l folded))"
    for w :: "detail \<Rightarrow> 'a::comm_monoid_add" and l
    using arg_cong [OF split [of l], of "\<lambda>m. sum_mset (image_mset w m)"] by (simp flip: sum_mset_sum_list)
  have set_ds: "set ds = set kept \<union> set folded"
  proof -
    have "set (labelled l ds) = set (labelled l kept) \<union> set (labelled l folded)" for l
      using arg_cong [OF split [of l], of set_mset] by simp
    moreover have "d \<in> set (labelled (fst (snd d)) xs) \<longleftrightarrow> d \<in> set xs" for d xs
      by (simp add: labelled_def)
    ultimately show ?thesis by (intro set_eqI) (metis Un_iff)
  qed
  have "stat_total kept c l h' = stat_total ds c l h" "stat_succeeded kept c l h' = stat_succeeded ds c l h"
    "stat_duration kept c l h' = stat_duration ds c l h" for l
    using other by (auto simp: stat_sums summary_of_def h' totals.fold_sum totals.group_sum parts
        successes.fold_sum successes.group_sum durations.fold_sum durations.group_sum)
  then have stat: "stat_of kept c h' l = stat_of ds c h l" for l by (simp add: stat_of_def cong: if_cong)
  have "set (stat_labels kept c h') = set (stat_labels ds c h)"
    using other unfolding set_stat_labels h' cat_label_fold cat_label_groups set_ds by auto
  then show ?thesis by (simp add: set_stat_rows stat)
qed

lemma mset_split: "mset (filter P xs) = mset (filter (\<lambda>x. P x \<and> \<not> R x) xs) + mset (filter (\<lambda>x. P x \<and> R x) xs)"
  by (induction xs) auto

lemma labelled_map:
  "mset (labelled l (map f (filter P xs))) =
     mset (labelled l (map f (filter (\<lambda>x. P x \<and> \<not> R x) xs))) + mset (labelled l (map f (filter (\<lambda>x. P x \<and> R x) xs)))"
  by (induction xs) (auto simp: labelled_def)

section \<open>Properties\<close>

text \<open>Retention keeps the books. On a well-formed store (unique ids, no dangling action) pruning never raises,
  leaves a well-formed store, and the fault statistics (label, total, successes, average duration) are the same
  rows before and after; the action statistics are the same too when every action of a pruned
  episode was finished.\<close>

theorem retention_keeps_statistics:
  assumes "heal_ok h"
  shows "\<exists>h' episodes actions days. prune_self_healing now configured requested h = Inr (h', episodes, actions, days)
    \<and> heal_ok h'
    \<and> set (fst (self_heal_statistics h')) = set (fst (self_heal_statistics h))
    \<and> ((\<forall>a \<in> set (hs_actions h). \<forall>e \<in> set (hs_episodes h). ac_episode_id a = ep_id e
          \<and> expired_episode now (retention_days configured requested) e \<longrightarrow> ac_finished_at a \<noteq> None)
       \<longrightarrow> set (snd (self_heal_statistics h')) = set (snd (self_heal_statistics h)))"
proof -
  let ?d = "retention_days configured requested"
  let ?old = "filter (expired_episode now ?d) (hs_episodes h)"
  let ?gone = "\<lambda>a. ac_episode_id a \<in> ep_id ` set ?old"
  note result = prune_result [OF assms, of now configured requested]
  let ?h = "\<lparr>hs_episodes = filter (\<lambda>e. \<not> expired_episode now ?d e) (hs_episodes h),
      hs_actions = filter (\<lambda>a. \<not> ?gone a) (hs_actions h),
      hs_summary = fold upsert_summary (group_details ''action'' (map action_detail (filter ?gone (hs_actions h))))
        (fold upsert_summary (group_details ''fault'' (map episode_detail ?old)) (hs_summary h))\<rparr> :: heal_store"
  have old: "?old = filter (\<lambda>e. ep_finished_at e \<noteq> None \<and> expired_episode now ?d e) (hs_episodes h)"
    by (auto simp: expired_episode_def intro: filter_cong)
  have kept: "finished_faults ?h = map episode_detail
      (filter (\<lambda>e. ep_finished_at e \<noteq> None \<and> \<not> expired_episode now ?d e) (hs_episodes h))"
    by (simp add: finished_faults_def conj_commute)
  have faults: "set (fst (self_heal_statistics ?h)) = set (fst (self_heal_statistics h))"
    unfolding self_heal_statistics_def fst_conv
  proof (rule stat_rows_folded [where folded = "map episode_detail ?old"])
    show "mset (labelled l (finished_faults h))
        = mset (labelled l (finished_faults ?h)) + mset (labelled l (map episode_detail ?old))" for l
      using labelled_map [of l episode_detail "\<lambda>e. ep_finished_at e \<noteq> None" "hs_episodes h" "expired_episode now ?d"]
      by (simp only: kept old [symmetric] finished_faults_def [of h])
  qed auto
  have actions: "set (snd (self_heal_statistics ?h)) = set (snd (self_heal_statistics h))"
    if fin: "\<forall>a \<in> set (hs_actions h). \<forall>e \<in> set (hs_episodes h). ac_episode_id a = ep_id e
          \<and> expired_episode now ?d e \<longrightarrow> ac_finished_at a \<noteq> None"
    unfolding self_heal_statistics_def snd_conv
  proof (rule stat_rows_folded [where folded = "map action_detail (filter ?gone (hs_actions h))"])
    have gone: "filter ?gone (hs_actions h) = filter (\<lambda>a. ac_finished_at a \<noteq> None \<and> ?gone a) (hs_actions h)"
      using fin by (intro filter_cong) auto
    have keep: "finished_actions ?h = map action_detail
        (filter (\<lambda>a. ac_finished_at a \<noteq> None \<and> \<not> ?gone a) (hs_actions h))"
      by (simp add: finished_actions_def conj_commute)
    show "mset (labelled l (finished_actions h))
        = mset (labelled l (finished_actions ?h)) + mset (labelled l (map action_detail (filter ?gone (hs_actions h))))" for l
      using labelled_map [of l action_detail "\<lambda>a. ac_finished_at a \<noteq> None" "hs_actions h" ?gone]
      by (simp only: keep gone [symmetric] finished_actions_def [of h])
  qed auto
  show ?thesis using result faults actions by blast
qed

definition sample_heal :: heal_store where
  "sample_heal = \<lparr>hs_episodes = [\<lparr>ep_id = ''e'', ep_fault_label = ''nav_stuck'', ep_scene_mode = ''indoor'',
       ep_task_execution_id = [], ep_map_id = [], ep_evidence = [], ep_success = Some True,
       ep_terminal_level = Some 1, ep_terminal_action = ''local_replan'', ep_duration = Some 4, ep_reason = [],
       ep_started_at = 100, ep_finished_at = Some 104\<rparr>],
     hs_actions = [\<lparr>ac_id = ''a'', ac_episode_id = ''e'', ac_level = 1, ac_action_type = ''local_replan'',
       ac_success = None, ac_reason = [], ac_duration = None, ac_started_at = 101, ac_finished_at = None\<rparr>],
     hs_summary = []\<rparr>"

theorem retention_keeps_statistics_witness:
  "\<exists>h' episodes actions days. prune_self_healing 100000000 180 None sample_heal = Inr (h', episodes, actions, days)
    \<and> hs_episodes h' = [] \<and> set (fst (self_heal_statistics h')) = set (fst (self_heal_statistics sample_heal))"
proof -
  have "heal_ok sample_heal" by (simp add: heal_ok_def sample_heal_def foreign_key_violations_def)
  from retention_keeps_statistics [OF this, of 100000000 180 None] show ?thesis
    by (auto simp: prune_self_healing_def sample_heal_def expired_episode_def retention_days_def Let_def
        split: if_splits)
qed

text \<open>The condition on actions is needed: an episode that is finished while one of its actions is still open loses
  that action to the summary, and the statistics then count an action they did not count before.\<close>

theorem retention_counts_open_actions:
  "snd (self_heal_statistics sample_heal) = []
   \<and> (case prune_self_healing 100000000 180 None sample_heal of
        Inl _ \<Rightarrow> False
      | Inr (h', _) \<Rightarrow> map sr_total (snd (self_heal_statistics h')) = [1])"
  by code_simp

text \<open>A restart closes everything. After \<open>reconcile_unfinished_self_healing\<close> no episode and no action is open, rows
  that were finished are untouched, and the two counts it reports are the numbers of rows it closed.\<close>

theorem reconcile_closes_all:
  "case reconcile_unfinished_self_healing now reason h of (h', episodes, actions) \<Rightarrow>
     (\<forall>e \<in> set (hs_episodes h'). ep_finished_at e \<noteq> None) \<and> (\<forall>a \<in> set (hs_actions h'). ac_finished_at a \<noteq> None)
     \<and> filter (\<lambda>e. ep_finished_at e \<noteq> None) (hs_episodes h) = map fst (filter (\<lambda>p. fst p = snd p) (zip (hs_episodes h) (hs_episodes h')))
     \<and> episodes = int (length (hs_episodes h)) - int (length (filter (\<lambda>e. ep_finished_at e \<noteq> None) (hs_episodes h)))
     \<and> actions = int (length (hs_actions h)) - int (length (filter (\<lambda>a. ac_finished_at a \<noteq> None) (hs_actions h)))"
proof -
  have len: "int (length (filter (\<lambda>x. f x = None) xs)) = int (length xs) - int (length (filter (\<lambda>x. f x \<noteq> None) xs))"
    for f :: "'b \<Rightarrow> int option" and xs by (induction xs) auto
  have same: "e = close_episode now reason as e \<longleftrightarrow> ep_finished_at e \<noteq> None" for e as
    by (auto simp: close_episode_def dest: arg_cong [of _ _ ep_finished_at])
  have zip: "map fst (filter (\<lambda>p. fst p = snd p) (zip es (map (close_episode now reason as) es)))
      = filter (\<lambda>e. ep_finished_at e \<noteq> None) es" for es as
    by (induction es) (auto simp: same)
  show ?thesis
    by (auto simp: reconcile_unfinished_self_healing_def Let_def zip len close_episode_def close_action_def)
qed

theorem reconcile_closes_all_witness:
  "case reconcile_unfinished_self_healing 500 ''interrupted_by_restart'' sample_heal of (h', episodes, actions) \<Rightarrow>
     episodes = 0 \<and> actions = 1 \<and> (\<forall>a \<in> set (hs_actions h'). ac_finished_at a \<noteq> None)"
  using reconcile_closes_all [where now = 500 and reason = "''interrupted_by_restart''" and h = sample_heal]
  by (auto simp: sample_heal_def)

end
