(* ===== verification/SelfHealing.thy ===== *)
theory SelfHealing
  imports PyText HealStore
begin

text \<open>
  Scene-aware diagnosis and level tracking of navigation self healing
  (\<open>edge-agent/roamerx_edge/self_healing.py\<close>): the pure decision matrix of \<open>FaultDiagnoser\<close> and the stateful
  \<open>SelfHealingCoordinator\<close>, which owns one episode at a time and writes its lifecycle to the store of theory
  \<open>HealStore\<close>. A method that raises after it has changed something returns the changed state with
  the exception. Fresh UUIDs, the database time and the clock readings are arguments.
\<close>

section \<open>Faults, diagnoses, episodes\<close>

definition LOCALIZATION_FAULTS :: "string list" where
  "LOCALIZATION_FAULTS = [''localization_lost'', ''ndt_degraded'', ''rtk_transient_loss'', ''sensor_stale'']"

record fault_diagnosis =
  fd_episode_id :: string
  fd_fault_label :: string
  fd_scene_mode :: string
  fd_level :: int
  fd_action_type :: string
  fd_forbid_spin :: bool
  fd_wait_for_rtk :: bool
  fd_use_lio_hold :: bool
  fd_search_laser :: bool
  fd_recovered :: bool
  fd_reason :: string

record healing_episode =
  he_episode_id :: string
  he_fault_label :: string
  he_scene_mode :: string
  he_started_wall_time :: real
  he_started_monotonic :: real
  he_evidence :: pydict
  he_current_level :: int
  he_action_type :: string
  he_active_action_id :: string
  he_rtk_stable_samples :: int
  he_allowed_actions :: "string list"
  he_finished :: bool

section \<open>Reading the evidence\<close>

definition normalize_scene_mode :: "pyval \<Rightarrow> string pyres" where
  "normalize_scene_mode route_snapshot =
     bindE (as_dict route_snapshot) (\<lambda>route.
     bindE (as_dict (dget route ''map'')) (\<lambda>map_info.
       let scene = lower (py_str (py_or (py_or (dget map_info ''scene_scope'') (dget route ''scene_scope''))
             (PStr ''indoor'')))
       in Inr (if scene \<in> {''indoor'', ''outdoor'', ''transition''} then scene else ''indoor'')))"

definition finite_score :: "pyval \<Rightarrow> real option" where
  "finite_score v = (case py_float v of Inr (Fin x) \<Rightarrow> Some x | _ \<Rightarrow> None)"

fun localization_status_is_normal :: "pyval \<Rightarrow> bool pyres" where
  "localization_status_is_normal (PBool _) = Inr False"
| "localization_status_is_normal (PInt n) = Inr (n = 3)"
| "localization_status_is_normal (PFloat (Fin x)) = Inr (3 \<le> x \<and> x < 4)"
| "localization_status_is_normal (PFloat NaN) = Inl ValueError"
| "localization_status_is_normal (PFloat _) = Inl OverflowError"
| "localization_status_is_normal v = Inr (lower (strip (str_or v [])) \<in> {''3'', ''normal'', ''localized''})"

definition rtk_fixed :: "pydict \<Rightarrow> bool" where
  "rtk_fixed decision = (is_true (dget decision ''rtk_good_for_navigation'')
     \<or> (is_true (dget decision ''rtk_usable'') \<and> lower (str_or (dget decision ''rtk_quality'') []) = ''fixed''))"

definition ndt_is_healthy :: "real \<Rightarrow> pydict \<Rightarrow> bool" where
  "ndt_is_healthy failure_score decision =
     (if is_bool (dget decision ''ndt_healthy'') then is_true (dget decision ''ndt_healthy'')
      else (case finite_score (dget decision ''ndt_score'') of None \<Rightarrow> False | Some x \<Rightarrow> x < failure_score))"

definition rtk_float_within_ukf_gate :: "pydict \<Rightarrow> bool" where
  "rtk_float_within_ukf_gate decision =
     (if is_true (dget decision ''rtk_float_usable_for_ukf'') then True
      else let drift = dget decision ''rtk_drift'';
               drift_xy = (case drift of PDict d \<Rightarrow> finite_score (dget d ''xy_m'') | _ \<Rightarrow> None);
               raw = (case drift of PDict d \<Rightarrow> dget d ''ukf_float_max_residual_m''
                      | _ \<Rightarrow> dget decision ''ukf_float_max_residual_m'');
               threshold = (if raw = PNone then Fin (4 / 10)
                            else case py_float raw of Inr f \<Rightarrow> f | Inl _ \<Rightarrow> Fin (4 / 10))
           in is_true (dget decision ''rtk_usable'')
              \<and> lower (str_or (dget decision ''rtk_quality'') []) = ''float''
              \<and> (case drift_xy of None \<Rightarrow> False | Some x \<Rightarrow> float_le (Fin x) threshold))"

text \<open>The evidence that is persisted: scalars and shortened texts, one level deep.\<close>

fun scalar_field :: "string \<times> pyval \<Rightarrow> (string \<times> pyval) list" where
  "scalar_field (k, PStr s) = [(k, PStr (take 256 s))]"
| "scalar_field (k, PList _) = []"
| "scalar_field (k, PDict _) = []"
| "scalar_field (k, v) = [(k, v)]"

fun scalar_fields :: "pyval \<Rightarrow> pydict" where
  "scalar_fields (PDict d) = concat (map scalar_field d)"
| "scalar_fields _ = []"

definition nested_fields :: "pydict \<Rightarrow> pydict \<Rightarrow> pydict" where
  "nested_fields decision base = fold (\<lambda>k c.
     let nested = scalar_fields (dget decision k) in
     if nested = [] then c else AList.update k (PDict nested) c)
     [''rtk_drift'', ''ndt_drift'', ''one_shot_correction''] base"

definition compact_obstacle :: "pydict \<Rightarrow> pydict pyres" where
  "compact_obstacle source =
     bindE (as_dict (dget source ''obstacle'')) (\<lambda>obstacle.
       let fields = scalar_fields (dget source ''obstacle'') in
       Inr (case dget obstacle ''global_plan'' of
              PDict plan \<Rightarrow> AList.update ''global_plan_point_count''
                  (PInt (case dget plan ''points'' of PList ps \<Rightarrow> int (length ps) | _ \<Rightarrow> 0))
                  (AList.update ''global_plan_updated'' (PBool (is_true (dget plan ''updated''))) fields)
            | _ \<Rightarrow> fields))"

definition compact_self_healing_evidence :: "pydict \<Rightarrow> pydict pyres" where
  "compact_self_healing_evidence source =
     (let decision = dget source ''localization_decision'';
          fields = scalar_fields decision;
          compact_decision = (case decision of PDict d \<Rightarrow> nested_fields d fields | _ \<Rightarrow> fields) in
      bindE (compact_obstacle source) (\<lambda>obstacle.
        Inr (AList.update ''obstacle'' (PDict obstacle)
          (AList.update ''localization_decision'' (PDict compact_decision) (scalar_fields (PDict source))))))"

section \<open>The decision matrix\<close>

definition fault_aliases :: "string \<Rightarrow> string" where
  "fault_aliases f = (if f = ''navigation_failed'' \<or> f = ''navigation_failure'' then ''nav_action_failed''
     else if f = ''obstacle_stuck'' then ''nav_stuck'' else f)"

definition supported_faults :: "string list" where
  "supported_faults = LOCALIZATION_FAULTS @ [''nav_stuck'', ''nav_action_failed'', ''collision_stop'']"

definition normalize_fault :: "real \<Rightarrow> string \<Rightarrow> pydict \<Rightarrow> string \<Rightarrow> string pyres" where
  "normalize_fault failure_score requested_raw evidence scene_mode =
     (let requested = lower (strip (if requested_raw = [] then ''nav_action_failed'' else requested_raw)) in
      bindE (as_dict (dget evidence ''localization_decision'')) (\<lambda>decision.
      bindE (as_dict (dget evidence ''obstacle'')) (\<lambda>obstacle.
      let status = dget evidence ''localization_status''; fixed = rtk_fixed decision;
          lio = is_true (dget decision ''lio_healthy'') in
      if is_true (dget obstacle ''collision_limited'') then Inr ''collision_stop''
      else if is_true (dget obstacle ''stale'') \<or> is_true (dget evidence ''sensor_stale'') then Inr ''sensor_stale''
      else bindE (if status = PNone then Inr True else localization_status_is_normal status) (\<lambda>normal.
        if \<not> normal \<and> \<not> (fixed \<or> lio) then Inr ''localization_lost''
        else if take 3 requested = ''ndt'' \<and> \<not> ndt_is_healthy failure_score decision then Inr ''ndt_degraded''
        else if scene_mode \<in> {''outdoor'', ''transition''} \<and> \<not> fixed \<and> lio
            \<and> requested \<in> {''localization_lost'', ''ndt_degraded'', ''nav_action_failed'', ''navigation_failed''}
          then Inr ''rtk_transient_loss''
        else Inr (if fault_aliases requested \<in> set supported_faults then fault_aliases requested
                  else ''nav_action_failed'')))))"

definition fault_recovered :: "string \<Rightarrow> bool \<Rightarrow> bool \<Rightarrow> bool \<Rightarrow> bool \<Rightarrow> bool \<Rightarrow> bool \<Rightarrow> int \<Rightarrow> int \<Rightarrow> bool" where
  "fault_recovered fault fixed ndt lio normal progress limited samples required =
     (if fault = ''rtk_transient_loss'' then fixed \<and> samples \<ge> max 1 required
      else if fault = ''ndt_degraded'' then normal \<and> (fixed \<or> ndt)
      else if fault \<in> set LOCALIZATION_FAULTS then normal \<and> (fixed \<or> ndt \<or> lio)
      else if fault \<in> {''nav_stuck'', ''nav_action_failed''} then progress \<and> \<not> limited
      else if fault = ''collision_stop'' then \<not> limited
      else False)"

definition choose_action :: "string \<Rightarrow> int \<Rightarrow> bool \<Rightarrow> bool \<Rightarrow> bool \<Rightarrow> string \<times> string" where
  "choose_action fault level recovered hold forbid_spin =
     (if recovered then (''exit_recovery'', ''health_condition_recovered'')
      else if level = 0 then
        (if fault = ''rtk_transient_loss'' then (''smart_rtk_wait'', ''outdoor_rtk_wait_without_motion'')
         else (''observe_and_clear'', ''level_0_observation''))
      else if level = 1 then
        (if hold then (''set_ukf_lio_hold'', ''absolute_sources_poor_lio_healthy'')
         else (if fault \<in> set LOCALIZATION_FAULTS then ''local_relocalize'' else ''local_replan'', ''level_1_low_cost''))
      else if level = 2 then
        (if fault \<in> set LOCALIZATION_FAULTS then
           (if fault = ''rtk_transient_loss'' then ''continue_lio_hold''
            else if forbid_spin then ''search_laser_feature'' else ''adaptive_spin'')
         else ''bounded_reverse_or_bypass'', ''level_2_bounded_motion'')
      else (if fault \<in> set LOCALIZATION_FAULTS then ''global_relocalize'' else ''safe_hold'', ''level_3_final_recovery''))"

definition assemble_diagnosis :: "string \<Rightarrow> string \<Rightarrow> string \<Rightarrow> int \<Rightarrow> bool \<Rightarrow> bool \<Rightarrow> fault_diagnosis" where
  "assemble_diagnosis episode_id fault scene level recovered hold =
     (let forbid_spin = (scene \<in> {''outdoor'', ''transition''} \<or> fault = ''rtk_transient_loss'');
          act = choose_action fault level recovered hold forbid_spin in
      \<lparr>fd_episode_id = episode_id, fd_fault_label = fault, fd_scene_mode = scene, fd_level = level,
       fd_action_type = fst act, fd_forbid_spin = forbid_spin,
       fd_wait_for_rtk = (fault = ''rtk_transient_loss'' \<and> level = 0 \<and> \<not> recovered),
       fd_use_lio_hold = (hold \<and> level \<ge> 1 \<and> \<not> recovered),
       fd_search_laser = (fault \<in> set LOCALIZATION_FAULTS \<and> fault \<noteq> ''rtk_transient_loss'' \<and> level = 2 \<and> \<not> recovered),
       fd_recovered = recovered, fd_reason = snd act\<rparr>)"

definition diagnose_fault ::
  "real \<Rightarrow> string \<Rightarrow> string \<Rightarrow> pyval \<Rightarrow> pydict \<Rightarrow> int \<Rightarrow> int \<Rightarrow> int \<Rightarrow> fault_diagnosis pyres" where
  "diagnose_fault failure_score episode_id requested_fault route_snapshot evidence level_raw samples required =
     bindE (normalize_scene_mode route_snapshot) (\<lambda>scene.
     bindE (normalize_fault failure_score requested_fault evidence scene) (\<lambda>fault.
     bindE (as_dict (dget evidence ''localization_decision'')) (\<lambda>decision.
     bindE (localization_status_is_normal (dget evidence ''localization_status'')) (\<lambda>normal.
     bindE (as_dict (dget evidence ''obstacle'')) (\<lambda>obstacle.
       let ndt = ndt_is_healthy failure_score decision;
           lio = is_true (dget decision ''lio_healthy'');
           fixed = rtk_fixed decision;
           gate = rtk_float_within_ukf_gate decision;
           progress = is_true (dget evidence ''navigation_progress'');
           limited = is_true (dget obstacle ''collision_limited'');
           recovered = fault_recovered fault fixed ndt lio normal progress limited samples required;
           hold = (fault \<in> set LOCALIZATION_FAULTS \<and> (\<not> fixed \<and> \<not> gate \<and> \<not> ndt) \<and> lio)
       in Inr (assemble_diagnosis episode_id fault scene (min 3 (max 0 level_raw)) recovered hold))))))"

section \<open>The coordinator\<close>

text \<open>\<open>co_callback\<close> tells whether an event callback is installed; \<open>co_events\<close> is what it has received.\<close>

record coordinator =
  co_store :: heal_store
  co_ndt_failure_score :: real
  co_rtk_required_samples :: int
  co_episode :: "healing_episode option"
  co_last_diagnosis :: "fault_diagnosis option"
  co_action_started :: "string \<Rightarrow> real option"
  co_callback :: bool
  co_events :: "(string \<times> pydict) list"

definition new_coordinator :: "heal_store \<Rightarrow> bool \<Rightarrow> real \<Rightarrow> int \<Rightarrow> coordinator" where
  "new_coordinator store callback failure_score required =
     \<lparr>co_store = store, co_ndt_failure_score = failure_score, co_rtk_required_samples = max 1 required,
      co_episode = None, co_last_diagnosis = None, co_action_started = (\<lambda>_. None),
      co_callback = callback, co_events = []\<rparr>"

definition allowed_actions :: "fault_diagnosis \<Rightarrow> string list" where
  "allowed_actions d =
     (if fd_recovered d then []
      else if fd_level d \<le> 1 then [fd_action_type d]
      else if fd_level d = 2 \<and> fd_fault_label d \<in> set LOCALIZATION_FAULTS then
        (if fd_fault_label d = ''rtk_transient_loss'' then []
         else [''search_laser_feature''] @ (if fd_forbid_spin d then [] else [''adaptive_spin'']))
      else if fd_level d = 2 then
        [''bounded_reverse'', ''bounded_bypass'', ''bounded_lateral_left'', ''bounded_lateral_right'']
      else [fd_action_type d])"

definition emit :: "string \<Rightarrow> healing_episode \<Rightarrow> pydict \<Rightarrow> coordinator \<Rightarrow> coordinator" where
  "emit event_type e extra co =
     (if co_callback co then co\<lparr>co_events := co_events co @ [(event_type,
        [(''episode_id'', PStr (he_episode_id e)), (''fault_label'', PStr (he_fault_label e)),
         (''scene_mode'', PStr (he_scene_mode e)), (''level'', PInt (he_current_level e)),
         (''action_type'', PStr (he_action_type e))] @ extra)]\<rparr>
      else co)"

definition finish_action :: "int \<Rightarrow> real \<Rightarrow> string \<Rightarrow> bool \<Rightarrow> string \<Rightarrow> coordinator \<Rightarrow> coordinator" where
  "finish_action now tick action_id success reason co =
     (let aid = (if action_id = [] then (case co_episode co of None \<Rightarrow> [] | Some e \<Rightarrow> he_active_action_id e)
                 else action_id) in
      if aid = [] then co
      else
        let duration = map_option (\<lambda>t. max 0 (tick - t)) (co_action_started co aid);
            co1 = co\<lparr>co_action_started := (co_action_started co)(aid := None),
                     co_store := finish_self_heal_action now aid success reason duration (co_store co)\<rparr>
        in (case co_episode co1 of
              None \<Rightarrow> co1
            | Some e \<Rightarrow>
                let co2 = emit ''self_healing.action_finished'' e
                      [(''action_id'', PStr aid), (''success'', PBool success), (''reason'', PStr reason)] co1
                in if he_active_action_id e = aid then co2\<lparr>co_episode := Some (e\<lparr>he_active_action_id := []\<rparr>)\<rparr>
                   else co2))"

definition complete :: "int \<Rightarrow> clock \<Rightarrow> bool \<Rightarrow> string \<Rightarrow> coordinator \<Rightarrow> coordinator" where
  "complete now clk success reason co =
     (case co_episode co of
        None \<Rightarrow> co
      | Some e0 \<Rightarrow>
          if he_finished e0 then co
          else
            let co1 = (if he_active_action_id e0 = [] then co
                       else finish_action now (clk 0) (he_active_action_id e0) success (''episode_completed:'' @ reason) co);
                e = (case co_episode co1 of Some e1 \<Rightarrow> e1 | None \<Rightarrow> e0)\<lparr>he_finished := True\<rparr>;
                elapsed = max 0 (clk 1 - he_started_monotonic e);
                co2 = co1\<lparr>co_episode := Some e,
                  co_store := finish_self_heal_episode now (he_episode_id e) success (he_current_level e)
                    (he_action_type e) elapsed reason (co_store co1)\<rparr>
            in emit ''self_healing.completed'' e
                 [(''success'', PBool success), (''duration_seconds'', PFloat (Fin (py_round 3 elapsed))),
                  (''reason'', PStr reason)] co2)"

definition open_episode ::
  "int \<Rightarrow> string \<Rightarrow> real \<Rightarrow> real \<Rightarrow> string \<Rightarrow> pyval \<Rightarrow> pydict \<Rightarrow> coordinator \<Rightarrow> coordinator pyres" where
  "open_episode now fresh wall tick requested_fault route_snapshot evidence co =
     bindE (normalize_scene_mode route_snapshot) (\<lambda>scene.
     bindE (normalize_fault (co_ndt_failure_score co) requested_fault evidence scene) (\<lambda>fault.
     bindE (compact_self_healing_evidence evidence) (\<lambda>digest.
       let e = \<lparr>he_episode_id = fresh, he_fault_label = fault, he_scene_mode = scene,
              he_started_wall_time = wall, he_started_monotonic = tick, he_evidence = digest,
              he_current_level = 0, he_action_type = [], he_active_action_id = [], he_rtk_stable_samples = 0,
              he_allowed_actions = [], he_finished = False\<rparr>
       in Inr (emit ''self_healing.started'' e [(''evidence'', PDict digest)]
            (co\<lparr>co_episode := Some e,
               co_store := start_self_heal_episode now fresh fault scene
                 (str_or (dget evidence ''task_execution_id'') []) (str_or (dget evidence ''map_id'') [])
                 digest (co_store co)\<rparr>)))))"

text \<open>The part of \<open>diagnose\<close> after the episode is known: every assignment before a raise stays.\<close>

definition diagnose_episode ::
  "int \<Rightarrow> clock \<Rightarrow> int option \<Rightarrow> pyval \<Rightarrow> pydict \<Rightarrow> healing_episode \<Rightarrow> coordinator \<Rightarrow> coordinator \<times> fault_diagnosis pyres" where
  "diagnose_episode now clk level route_snapshot evidence e0 co =
     (let e1 = (case level of None \<Rightarrow> e0 | Some l \<Rightarrow> e0\<lparr>he_current_level := max (he_current_level e0) l\<rparr>) in
      case compact_self_healing_evidence evidence of
        Inl x \<Rightarrow> (co\<lparr>co_episode := Some e1\<rparr>, Inl x)
      | Inr digest \<Rightarrow>
          let e2 = e1\<lparr>he_evidence := digest\<rparr> in
          (case as_dict (dget evidence ''localization_decision'') of
             Inl x \<Rightarrow> (co\<lparr>co_episode := Some e2\<rparr>, Inl x)
           | Inr decision \<Rightarrow>
               let e3 = e2\<lparr>he_rtk_stable_samples := (if rtk_fixed decision then he_rtk_stable_samples e2 + 1 else 0)\<rparr> in
               (case diagnose_fault (co_ndt_failure_score co) (he_episode_id e3) (he_fault_label e3) route_snapshot
                       evidence (he_current_level e3) (he_rtk_stable_samples e3) (co_rtk_required_samples co) of
                  Inl x \<Rightarrow> (co\<lparr>co_episode := Some e3\<rparr>, Inl x)
                | Inr d \<Rightarrow>
                    let e4 = e3\<lparr>he_fault_label := fd_fault_label d, he_scene_mode := fd_scene_mode d,
                               he_action_type := fd_action_type d, he_allowed_actions := allowed_actions d\<rparr>;
                        co1 = co\<lparr>co_episode := Some e4, co_last_diagnosis := Some d\<rparr>
                    in (if fd_recovered d then complete now clk True (fd_reason d) co1 else co1, Inr d))))"

definition diagnose ::
  "int \<Rightarrow> string \<Rightarrow> real \<Rightarrow> clock \<Rightarrow> string \<Rightarrow> pyval \<Rightarrow> pydict \<Rightarrow> string \<Rightarrow> int option \<Rightarrow> coordinator
     \<Rightarrow> coordinator \<times> fault_diagnosis pyres" where
  "diagnose now fresh wall clk requested_fault route_snapshot evidence episode_id level co =
     (let requested = (case level of None \<Rightarrow> 0 | Some l \<Rightarrow> l) in
      if requested < 0 \<or> requested > 3 then
        (co, Inl (SelfHealingPolicyError ''recovery level must be between 0 and 3''))
      else case co_episode co of
        Some e \<Rightarrow>
          if he_finished e \<and> episode_id \<noteq> [] then
            (case co_last_diagnosis co of
               Some d \<Rightarrow> if he_episode_id e = episode_id then (co, Inr d)
                 else (co, Inl (SelfHealingPolicyError ''stale or unknown self-healing episode''))
             | None \<Rightarrow> (co, Inl (SelfHealingPolicyError ''stale or unknown self-healing episode'')))
          else if \<not> he_finished e \<and> episode_id \<noteq> [] \<and> he_episode_id e \<noteq> episode_id then
            (co, Inl (SelfHealingPolicyError ''self-healing episode does not match the active episode''))
          else if he_finished e then
            (if requested \<noteq> 0 then (co, Inl (SelfHealingPolicyError ''a new self-healing episode must start at level 0''))
             else (case open_episode now fresh wall (clk 2) requested_fault route_snapshot evidence co of
                     Inl x \<Rightarrow> (co, Inl x)
                   | Inr co1 \<Rightarrow> diagnose_episode now clk level route_snapshot evidence (the (co_episode co1)) co1))
          else if requested > he_current_level e + 1 then
            (co, Inl (SelfHealingPolicyError (''recovery level jump rejected: current='' @ show_int (he_current_level e)
               @ '' requested='' @ show_int requested)))
          else diagnose_episode now clk level route_snapshot evidence e co
      | None \<Rightarrow>
          (if requested \<noteq> 0 then (co, Inl (SelfHealingPolicyError ''a new self-healing episode must start at level 0''))
           else (case open_episode now fresh wall (clk 2) requested_fault route_snapshot evidence co of
                   Inl x \<Rightarrow> (co, Inl x)
                 | Inr co1 \<Rightarrow> diagnose_episode now clk level route_snapshot evidence (the (co_episode co1)) co1)))"

definition join_comma :: "string list \<Rightarrow> string" where
  "join_comma xs = (case xs of [] \<Rightarrow> [] | y # ys \<Rightarrow> y @ concat (map (\<lambda>z. '','' @ z) ys))"

definition or_else :: "string \<Rightarrow> string \<Rightarrow> string" where
  "or_else s dflt = (if s = [] then dflt else s)"

definition authorize_action :: "string \<Rightarrow> int \<Rightarrow> string \<Rightarrow> coordinator \<Rightarrow> bool \<times> string" where
  "authorize_action episode_id level action_type co =
     (case co_episode co of
        None \<Rightarrow> (False, ''self-healing episode is not active'')
      | Some e \<Rightarrow>
          if he_finished e then (False, ''self-healing episode is not active'')
          else if episode_id = [] \<or> he_episode_id e \<noteq> episode_id then
            (False, ''self-healing episode does not match the active episode'')
          else if level \<noteq> he_current_level e then
            (False, ''action level does not match current level: current='' @ show_int (he_current_level e)
               @ '' requested='' @ show_int level)
          else if strip action_type \<notin> set (he_allowed_actions e) then
            (False, ''action '' @ or_else (strip action_type) ''<empty>'' @ '' is not allowed; allowed=''
               @ or_else (join_comma (he_allowed_actions e)) ''<none>'')
          else (True, ''action authorized by current diagnosis''))"

definition begin_action ::
  "int \<Rightarrow> string \<Rightarrow> real \<Rightarrow> int \<Rightarrow> string \<Rightarrow> coordinator \<Rightarrow> coordinator \<times> string pyres" where
  "begin_action now fresh tick level action_type co =
     (case co_episode co of
        None \<Rightarrow> (co, Inr [])
      | Some e0 \<Rightarrow>
          if he_finished e0 then (co, Inr [])
          else
            let e = e0\<lparr>he_current_level := min 3 (max (he_current_level e0) level), he_action_type := action_type,
                       he_active_action_id := fresh\<rparr>;
                co1 = co\<lparr>co_episode := Some e, co_action_started := (co_action_started co)(fresh \<mapsto> tick)\<rparr>
            in (case start_self_heal_action now fresh (he_episode_id e) (he_current_level e) action_type (co_store co1) of
                  Inl x \<Rightarrow> (co1, Inl x)
                | Inr store \<Rightarrow>
                    (emit ''self_healing.action_started'' e [(''action_id'', PStr fresh)] (co1\<lparr>co_store := store\<rparr>),
                     Inr fresh)))"

definition advance :: "coordinator \<Rightarrow> coordinator \<times> int" where
  "advance co =
     (case co_episode co of
        None \<Rightarrow> (co, 0)
      | Some e \<Rightarrow>
          if he_finished e then (co, 0)
          else let e' = e\<lparr>he_current_level := min 3 (he_current_level e + 1)\<rparr>
               in (co\<lparr>co_episode := Some e'\<rparr>, he_current_level e'))"

definition coordinator_snapshot :: "coordinator \<Rightarrow> pydict" where
  "coordinator_snapshot co =
     (case co_episode co of
        None \<Rightarrow> []
      | Some e \<Rightarrow>
          [(''episode_id'', PStr (he_episode_id e)), (''fault_label'', PStr (he_fault_label e)),
           (''scene_mode'', PStr (he_scene_mode e)), (''level'', PInt (he_current_level e)),
           (''action_type'', PStr (he_action_type e)), (''action_id'', PStr (he_active_action_id e)),
           (''allowed_actions'', PList (map PStr (he_allowed_actions e))), (''finished'', PBool (he_finished e))])"

section \<open>Steps and reachable states\<close>

definition fresh_id :: "string \<Rightarrow> coordinator \<Rightarrow> bool" where
  "fresh_id f co = (f \<noteq> [] \<and> f \<notin> ep_id ` set (hs_episodes (co_store co)) \<and> f \<notin> ac_id ` set (hs_actions (co_store co)))"

inductive healing_step :: "coordinator \<Rightarrow> coordinator \<Rightarrow> bool" where
  step_diagnose: "fresh_id fresh co \<Longrightarrow>
     healing_step co (fst (diagnose now fresh wall clk fault route evidence episode_id level co))"
| step_begin: "fresh_id fresh co \<Longrightarrow> healing_step co (fst (begin_action now fresh tick level action co))"
| step_finish: "healing_step co (finish_action now tick action_id success reason co)"
| step_advance: "healing_step co (fst (advance co))"
| step_complete: "healing_step co (complete now clk success reason co)"

inductive healing_reach :: "coordinator \<Rightarrow> bool" where
  reach_init: "healing_reach (new_coordinator empty_heal_store callback failure_score required)"
| reach_step: "healing_reach co \<Longrightarrow> healing_step co co' \<Longrightarrow> healing_reach co'"

section \<open>The decision matrix\<close>

lemma scene_mode_cases:
  "normalize_scene_mode r = Inr s \<Longrightarrow> s \<in> {''indoor'', ''outdoor'', ''transition''}"
  by (auto simp: normalize_scene_mode_def Let_def split: if_splits)

lemma diagnose_fault_cases:
  assumes "diagnose_fault sc eid rf route ev lv samples req = Inr d"
  obtains fault scene recovered hold where "d = assemble_diagnosis eid fault scene (min 3 (max 0 lv)) recovered hold"
    "scene \<in> {''indoor'', ''outdoor'', ''transition''}" "hold \<longrightarrow> fault \<in> set LOCALIZATION_FAULTS"
  using assms unfolding diagnose_fault_def Let_def bindE_ok by (blast dest: scene_mode_cases)

lemma choose_action_spin:
  "fst (choose_action fault level recovered hold forbid) = ''adaptive_spin'' \<Longrightarrow> level = 2 \<and> \<not> forbid \<and> \<not> recovered"
  by (auto simp: choose_action_def split: if_splits)

lemma choose_action_levels:
  "\<not> recovered \<Longrightarrow> fst (choose_action fault 0 recovered hold forbid) \<in> {''smart_rtk_wait'', ''observe_and_clear''}"
  "recovered \<Longrightarrow> fst (choose_action fault level recovered hold forbid) = ''exit_recovery''"
  "\<not> recovered \<Longrightarrow> fault \<notin> set LOCALIZATION_FAULTS \<Longrightarrow> fst (choose_action fault 3 recovered hold forbid) = ''safe_hold''"
  by (simp_all add: choose_action_def)

lemma assemble_frame [simp]:
  "fd_level (assemble_diagnosis eid fault scene level recovered hold) = level"
  "fd_fault_label (assemble_diagnosis eid fault scene level recovered hold) = fault"
  "fd_scene_mode (assemble_diagnosis eid fault scene level recovered hold) = scene"
  "fd_recovered (assemble_diagnosis eid fault scene level recovered hold) = recovered"
  "fd_use_lio_hold (assemble_diagnosis eid fault scene level recovered hold) = (hold \<and> level \<ge> 1 \<and> \<not> recovered)"
  "fd_action_type (assemble_diagnosis eid fault scene level recovered hold) = fst (choose_action fault level recovered hold
     (scene \<in> {''outdoor'', ''transition''} \<or> fault = ''rtk_transient_loss''))"
  by (simp_all add: assemble_diagnosis_def Let_def)

lemma allowed_spin:
  assumes "scene \<in> {''indoor'', ''outdoor'', ''transition''}"
    and "''adaptive_spin'' \<in> set (allowed_actions (assemble_diagnosis eid fault scene level recovered hold))"
  shows "scene = ''indoor'' \<and> fault \<in> set LOCALIZATION_FAULTS \<and> fault \<noteq> ''rtk_transient_loss'' \<and> level = 2"
proof -
  let ?d = "assemble_diagnosis eid fault scene level recovered hold"
  have "fd_action_type ?d = ''adaptive_spin'' \<Longrightarrow> level = 2"
    by (auto simp: assemble_diagnosis_def Let_def dest: choose_action_spin)
  then show ?thesis
    using assms by (auto simp: allowed_actions_def assemble_diagnosis_def Let_def split: if_splits)
qed

section \<open>The invariant\<close>

definition episode_ok :: "healing_episode \<Rightarrow> bool" where
  "episode_ok e = (0 \<le> he_current_level e \<and> he_current_level e \<le> 3 \<and> he_episode_id e \<noteq> []
     \<and> (''adaptive_spin'' \<in> set (he_allowed_actions e) \<longrightarrow> he_scene_mode e = ''indoor''
          \<and> he_fault_label e \<in> set LOCALIZATION_FAULTS \<and> he_fault_label e \<noteq> ''rtk_transient_loss''))"

text \<open>An episode row is open exactly when it is the row of the coordinator's unfinished episode.\<close>

definition rows_match :: "healing_episode option \<Rightarrow> heal_store \<Rightarrow> bool" where
  "rows_match oe h =
     (case oe of
        None \<Rightarrow> \<forall>r \<in> set (hs_episodes h). ep_finished_at r \<noteq> None
      | Some e \<Rightarrow> he_episode_id e \<in> ep_id ` set (hs_episodes h)
          \<and> (\<forall>r \<in> set (hs_episodes h). ep_finished_at r = None \<longleftrightarrow> ep_id r = he_episode_id e \<and> \<not> he_finished e))"

definition co_ok :: "coordinator \<Rightarrow> bool" where
  "co_ok co = (heal_ok (co_store co) \<and> rows_match (co_episode co) (co_store co)
     \<and> (case co_episode co of None \<Rightarrow> True | Some e \<Rightarrow> episode_ok e))"

lemma emit_frame [simp]:
  "co_store (emit t e x co) = co_store co" "co_episode (emit t e x co) = co_episode co"
  "co_last_diagnosis (emit t e x co) = co_last_diagnosis co"
  "co_ndt_failure_score (emit t e x co) = co_ndt_failure_score co"
  "co_rtk_required_samples (emit t e x co) = co_rtk_required_samples co"
  by (simp_all add: emit_def)

lemma co_ok_emit [simp]: "co_ok (emit t e x co) = co_ok co"
  by (simp add: co_ok_def)

lemma store_finish_action:
  "hs_episodes (finish_self_heal_action now aid success reason dur h) = hs_episodes h"
  "map ac_id (hs_actions (finish_self_heal_action now aid success reason dur h)) = map ac_id (hs_actions h)"
  "map ac_episode_id (hs_actions (finish_self_heal_action now aid success reason dur h)) = map ac_episode_id (hs_actions h)"
  by (simp_all add: finish_self_heal_action_def comp_def if_distrib cong: if_cong)

lemma fk_maps:
  "foreign_key_violations h = 0 \<longleftrightarrow> set (map ac_episode_id (hs_actions h)) \<subseteq> set (map ep_id (hs_episodes h))"
  by (simp add: fk_iff)

lemma heal_ok_finish_action: "heal_ok h \<Longrightarrow> heal_ok (finish_self_heal_action now aid success reason dur h)"
  by (simp only: heal_ok_def fk_maps store_finish_action)

lemma store_finish_episode:
  "map ep_id (hs_episodes (finish_self_heal_episode now eid success level action dur reason h)) = map ep_id (hs_episodes h)"
  "hs_actions (finish_self_heal_episode now eid success level action dur reason h) = hs_actions h"
  by (simp_all add: finish_self_heal_episode_def comp_def if_distrib cong: if_cong)

lemma heal_ok_finish_episode:
  "heal_ok h \<Longrightarrow> heal_ok (finish_self_heal_episode now eid success level action dur reason h)"
  by (simp only: heal_ok_def fk_maps store_finish_episode)

lemma finish_episode_rows:
  "r \<in> set (hs_episodes (finish_self_heal_episode now eid success level action dur reason h)) \<Longrightarrow>
     \<exists>r0 \<in> set (hs_episodes h). ep_id r = ep_id r0
       \<and> ep_finished_at r = (if ep_id r0 = eid then Some now else ep_finished_at r0)"
  by (auto simp: finish_self_heal_episode_def)

lemma finish_episode_row:
  assumes "r \<in> set (hs_episodes h)" "ep_id r = eid"
  shows "\<exists>r' \<in> set (hs_episodes (finish_self_heal_episode now eid success level action dur reason h)).
    ep_id r' = eid \<and> ep_success r' = Some success \<and> ep_terminal_level r' = Some level \<and> ep_reason r' = reason"
proof -
  let ?f = "\<lambda>e. if ep_id e = eid
        then e\<lparr>ep_success := Some success, ep_terminal_level := Some level, ep_terminal_action := action,
               ep_duration := Some (max 0 dur), ep_reason := reason, ep_finished_at := Some now\<rparr> else e"
  have "?f r \<in> set (hs_episodes (finish_self_heal_episode now eid success level action dur reason h))"
    using assms(1) by (simp add: finish_self_heal_episode_def)
  then show ?thesis using assms(2) by (intro bexI [of _ "?f r"]) simp_all
qed

lemma rows_match_finish_episode:
  assumes "rows_match (Some e) h"
  shows "rows_match (Some (e\<lparr>he_finished := True\<rparr>))
    (finish_self_heal_episode now (he_episode_id e) success level action dur reason h)"
proof -
  have "he_episode_id e \<in> ep_id ` set (hs_episodes (finish_self_heal_episode now (he_episode_id e) success level action dur reason h))"
    using assms arg_cong [OF store_finish_episode(1), of set] by (auto simp: rows_match_def simp flip: set_map)
  moreover have "ep_finished_at r \<noteq> None"
    if "r \<in> set (hs_episodes (finish_self_heal_episode now (he_episode_id e) success level action dur reason h))" for r
    using finish_episode_rows [OF that] assms by (auto simp: rows_match_def)
  ultimately show ?thesis by (auto simp: rows_match_def)
qed

lemma rows_match_cong:
  "he_episode_id e' = he_episode_id e \<Longrightarrow> he_finished e' = he_finished e \<Longrightarrow> hs_episodes h' = hs_episodes h \<Longrightarrow>
     rows_match (Some e) h \<Longrightarrow> rows_match (Some e') h'"
  by (simp add: rows_match_def)

lemma finish_action_ok:
  assumes "co_ok co"
  shows "co_ok (finish_action now tick aid success reason co)"
    and "map_option (\<lambda>e. e\<lparr>he_active_action_id := []\<rparr>) (co_episode (finish_action now tick aid success reason co))
      = map_option (\<lambda>e. e\<lparr>he_active_action_id := []\<rparr>) (co_episode co)"
  using assms
  by (auto simp: finish_action_def Let_def co_ok_def heal_ok_finish_action episode_ok_def rows_match_def
      store_finish_action(1) split: option.splits)

lemma finish_action_episode:
  assumes "co_ok co" "co_episode co = Some e"
  shows "\<exists>aid'. co_episode (finish_action now tick aid success reason co) = Some (e\<lparr>he_active_action_id := aid'\<rparr>)"
  using assms(2) by (auto simp: finish_action_def Let_def intro: exI [of _ "he_active_action_id e"])

lemma episode_ok_frame [simp]:
  "episode_ok (e\<lparr>he_active_action_id := x\<rparr>) = episode_ok e" "episode_ok (e\<lparr>he_finished := b\<rparr>) = episode_ok e"
  "episode_ok (e\<lparr>he_evidence := ev\<rparr>) = episode_ok e" "episode_ok (e\<lparr>he_rtk_stable_samples := n\<rparr>) = episode_ok e"
  by (simp_all add: episode_ok_def)

lemma close_ok:
  assumes "co_ok co" "co_episode co = Some e"
  shows "co_ok (co\<lparr>co_episode := Some (e\<lparr>he_finished := True\<rparr>),
    co_store := finish_self_heal_episode now (he_episode_id e) success level action dur reason (co_store co)\<rparr>)"
  using assms by (simp add: co_ok_def heal_ok_finish_episode rows_match_finish_episode)

lemma complete_unfold:
  assumes "co_ok co" "co_episode co = Some e" "\<not> he_finished e"
  obtains co1 aid elapsed where "co_ok co1" "co_episode co1 = Some (e\<lparr>he_active_action_id := aid\<rparr>)"
    "hs_episodes (co_store co1) = hs_episodes (co_store co)"
    "complete now clk success reason co = emit ''self_healing.completed'' (e\<lparr>he_active_action_id := aid, he_finished := True\<rparr>)
       [(''success'', PBool success), (''duration_seconds'', PFloat (Fin (py_round 3 elapsed))), (''reason'', PStr reason)]
       (co1\<lparr>co_episode := Some (e\<lparr>he_active_action_id := aid, he_finished := True\<rparr>),
          co_store := finish_self_heal_episode now (he_episode_id e) success (he_current_level e) (he_action_type e)
            elapsed reason (co_store co1)\<rparr>)"
proof -
  let ?fin = "finish_action now (clk 0) (he_active_action_id e) success (''episode_completed:'' @ reason) co"
  obtain aid where aid: "co_episode ?fin = Some (e\<lparr>he_active_action_id := aid\<rparr>)"
    using finish_action_episode [OF assms(1,2)] by blast
  have eps: "hs_episodes (co_store ?fin) = hs_episodes (co_store co)"
    by (auto simp: finish_action_def Let_def store_finish_action(1) split: option.splits)
  show ?thesis
  proof (cases "he_active_action_id e = []")
    case True
    have id: "e\<lparr>he_active_action_id := []\<rparr> = e" using True by simp
    show ?thesis
      using that [of co "[]" "max 0 (clk 1 - he_started_monotonic e)"] assms True
      by (simp add: complete_def Let_def id)
  next
    case False
    show ?thesis
      using that [of ?fin aid "max 0 (clk 1 - he_started_monotonic e)"] finish_action_ok(1) [OF assms(1)] aid eps assms False
      by (simp add: complete_def Let_def)
  qed
qed

lemma complete_ok:
  assumes "co_ok co"
  shows "co_ok (complete now clk success reason co)"
proof (cases "co_episode co")
  case None
  then show ?thesis using assms by (simp add: complete_def)
next
  case (Some e)
  show ?thesis
  proof (cases "he_finished e")
    case True
    then show ?thesis using assms Some by (simp add: complete_def)
  next
    case False
    show ?thesis
    proof (rule complete_unfold [OF assms Some False, of now clk success reason])
      fix co1 aid elapsed
      assume co1: "co_ok co1" "co_episode co1 = Some (e\<lparr>he_active_action_id := aid\<rparr>)"
        and eq: "complete now clk success reason co = emit ''self_healing.completed'' (e\<lparr>he_active_action_id := aid, he_finished := True\<rparr>)
       [(''success'', PBool success), (''duration_seconds'', PFloat (Fin (py_round 3 elapsed))), (''reason'', PStr reason)]
       (co1\<lparr>co_episode := Some (e\<lparr>he_active_action_id := aid, he_finished := True\<rparr>),
          co_store := finish_self_heal_episode now (he_episode_id e) success (he_current_level e) (he_action_type e)
            elapsed reason (co_store co1)\<rparr>)"
      from close_ok [OF co1] show ?thesis unfolding eq by simp
    qed
  qed
qed

lemma set_episode_ok:
  "co_ok co \<Longrightarrow> co_episode co = Some e \<Longrightarrow> episode_ok e' \<Longrightarrow> he_episode_id e' = he_episode_id e \<Longrightarrow>
     he_finished e' = he_finished e \<Longrightarrow> co_ok (co\<lparr>co_episode := Some e'\<rparr>)"
  by (auto simp: co_ok_def intro: rows_match_cong)

lemma co_ok_last [simp]: "co_ok (co\<lparr>co_last_diagnosis := d\<rparr>) = co_ok co"
  by (simp add: co_ok_def)

lemma start_episode_ok:
  assumes "co_ok co" "fresh_id fresh co" "\<And>e. co_episode co = Some e \<Longrightarrow> he_finished e"
    and e: "episode_ok e" "he_episode_id e = fresh" "\<not> he_finished e"
  shows "co_ok (co\<lparr>co_episode := Some e,
    co_store := start_self_heal_episode now fresh fault scene tid mid ev (co_store co)\<rparr>)"
proof -
  have closed: "\<forall>r \<in> set (hs_episodes (co_store co)). ep_finished_at r \<noteq> None"
    using assms(1,3) by (auto simp: co_ok_def rows_match_def split: option.splits)
  have new: "fresh \<notin> ep_id ` set (hs_episodes (co_store co))" using assms(2) by (simp add: fresh_id_def)
  then obtain r where r: "ep_id r = fresh" "ep_finished_at r = None"
    "start_self_heal_episode now fresh fault scene tid mid ev (co_store co)
       = (co_store co)\<lparr>hs_episodes := hs_episodes (co_store co) @ [r]\<rparr>"
    using that [of "\<lparr>ep_id = fresh, ep_fault_label = fault, ep_scene_mode = scene, ep_task_execution_id = tid,
      ep_map_id = mid, ep_evidence = ev, ep_success = None, ep_terminal_level = None, ep_terminal_action = [],
      ep_duration = None, ep_reason = [], ep_started_at = now, ep_finished_at = None\<rparr>"]
    by (simp add: start_self_heal_episode_def)
  have "heal_ok (co_store co)" using assms(1) by (simp add: co_ok_def)
  then have "heal_ok ((co_store co)\<lparr>hs_episodes := hs_episodes (co_store co) @ [r]\<rparr>)"
    using new r(1) by (auto simp: heal_ok_def fk_iff)
  moreover have "ep_id x \<noteq> fresh" if "x \<in> set (hs_episodes (co_store co))" for x using that new by auto
  then have "rows_match (Some e) ((co_store co)\<lparr>hs_episodes := hs_episodes (co_store co) @ [r]\<rparr>)"
    using closed r(1,2) e(2,3) by (simp add: rows_match_def)
  ultimately show ?thesis using e(1) by (simp add: co_ok_def r(3))
qed

lemma open_episode_ok:
  assumes "open_episode now fresh wall tick rf route ev co = Inr co1" "co_ok co" "fresh_id fresh co"
    and "\<And>e. co_episode co = Some e \<Longrightarrow> he_finished e"
  shows "co_ok co1 \<and> (\<exists>e. co_episode co1 = Some e \<and> \<not> he_finished e \<and> he_current_level e = 0 \<and> he_episode_id e = fresh)"
proof -
  obtain fault scene digest where eq: "co1 = emit ''self_healing.started''
        \<lparr>he_episode_id = fresh, he_fault_label = fault, he_scene_mode = scene,
              he_started_wall_time = wall, he_started_monotonic = tick, he_evidence = digest,
              he_current_level = 0, he_action_type = [], he_active_action_id = [], he_rtk_stable_samples = 0,
              he_allowed_actions = [], he_finished = False\<rparr> [(''evidence'', PDict digest)]
        (co\<lparr>co_episode := Some \<lparr>he_episode_id = fresh, he_fault_label = fault, he_scene_mode = scene,
              he_started_wall_time = wall, he_started_monotonic = tick, he_evidence = digest,
              he_current_level = 0, he_action_type = [], he_active_action_id = [], he_rtk_stable_samples = 0,
              he_allowed_actions = [], he_finished = False\<rparr>,
            co_store := start_self_heal_episode now fresh fault scene
                 (str_or (dget ev ''task_execution_id'') []) (str_or (dget ev ''map_id'') []) digest (co_store co)\<rparr>)"
    using assms(1) unfolding open_episode_def Let_def by auto
  have "fresh \<noteq> []" using assms(3) by (simp add: fresh_id_def)
  then show ?thesis
    unfolding eq by (simp add: start_episode_ok [OF assms(2-4)] episode_ok_def)
qed

lemma diagnosed_episode_ok:
  assumes "episode_ok e" "diagnose_fault sc eid rf route ev lv samples req = Inr d"
  shows "episode_ok (e\<lparr>he_fault_label := fd_fault_label d, he_scene_mode := fd_scene_mode d,
     he_action_type := fd_action_type d, he_allowed_actions := allowed_actions d\<rparr>)"
proof -
  from assms(2) obtain fault scene recovered hold where d:
    "d = assemble_diagnosis eid fault scene (min 3 (max 0 lv)) recovered hold"
    "scene \<in> {''indoor'', ''outdoor'', ''transition''}"
    by (rule diagnose_fault_cases)
  have "fd_fault_label d = fault" "fd_scene_mode d = scene" by (simp_all add: d(1) assemble_diagnosis_def Let_def)
  with assms(1) allowed_spin [OF d(2), of eid fault] show ?thesis unfolding d(1) episode_ok_def by auto
qed

lemma level_ok:
  "episode_ok e \<Longrightarrow> l \<le> 3 \<Longrightarrow> episode_ok (e\<lparr>he_current_level := max (he_current_level e) l\<rparr>)"
  by (auto simp: episode_ok_def)

lemma diagnose_episode_ok:
  assumes "co_ok co" "co_episode co = Some e" "\<And>l. level = Some l \<Longrightarrow> l \<le> 3"
  shows "co_ok (fst (diagnose_episode now clk level route ev e co))"
proof -
  define e1 where "e1 = (case level of None \<Rightarrow> e | Some l \<Rightarrow> e\<lparr>he_current_level := max (he_current_level e) l\<rparr>)"
  have "episode_ok e" using assms(1,2) by (simp add: co_ok_def)
  then have e1: "episode_ok e1" "he_episode_id e1 = he_episode_id e" "he_finished e1 = he_finished e"
    using assms(3) by (auto simp: e1_def level_ok split: option.splits)
  note upd = set_episode_ok [OF assms(1,2)]
  show ?thesis
  proof (cases "compact_self_healing_evidence ev")
    case (Inl x)
    then show ?thesis using upd [of e1] e1 by (simp add: diagnose_episode_def e1_def [symmetric])
  next
    case digest: (Inr digest)
    let ?e2 = "e1\<lparr>he_evidence := digest\<rparr>"
    show ?thesis
    proof (cases "as_dict (dget ev ''localization_decision'')")
      case (Inl x)
      then show ?thesis using upd [of ?e2] e1 digest by (simp add: diagnose_episode_def e1_def [symmetric])
    next
      case dec: (Inr decision)
      let ?e3 = "?e2\<lparr>he_rtk_stable_samples := (if rtk_fixed decision then he_rtk_stable_samples ?e2 + 1 else 0)\<rparr>"
      show ?thesis
      proof (cases "diagnose_fault (co_ndt_failure_score co) (he_episode_id ?e3) (he_fault_label ?e3) route ev
            (he_current_level ?e3) (he_rtk_stable_samples ?e3) (co_rtk_required_samples co)")
        case (Inl x)
        then show ?thesis using upd [of ?e3] e1 digest dec
          by (simp add: diagnose_episode_def e1_def [symmetric] Let_def)
      next
        case (Inr d)
        let ?e4 = "?e3\<lparr>he_fault_label := fd_fault_label d, he_scene_mode := fd_scene_mode d,
                               he_action_type := fd_action_type d, he_allowed_actions := allowed_actions d\<rparr>"
        have "episode_ok ?e4" by (rule diagnosed_episode_ok [OF _ Inr]) (simp add: e1)
        then have "co_ok (co\<lparr>co_episode := Some ?e4\<rparr>)" using upd [of ?e4] e1 by simp
        then have "co_ok (co\<lparr>co_episode := Some ?e4, co_last_diagnosis := Some d\<rparr>)" by simp
        then show ?thesis using digest dec Inr
          by (simp add: diagnose_episode_def e1_def [symmetric] Let_def complete_ok)
      qed
    qed
  qed
qed

lemma diagnose_new_ok:
  assumes "co_ok co" "fresh_id fresh co" "\<And>e. co_episode co = Some e \<Longrightarrow> he_finished e"
    and "\<And>l. level = Some l \<Longrightarrow> l \<le> 3" "open_episode now fresh wall tick rf route ev co = Inr co1"
  shows "co_ok (fst (diagnose_episode now clk level route ev (the (co_episode co1)) co1))"
  using open_episode_ok [OF assms(5,1,2,3)] assms(4) by (auto intro: diagnose_episode_ok)

lemma diagnose_ok:
  assumes "co_ok co" "fresh_id fresh co"
  shows "co_ok (fst (diagnose now fresh wall clk rf route ev eid level co))"
proof (cases "case level of None \<Rightarrow> True | Some l \<Rightarrow> 0 \<le> l \<and> l \<le> 3")
  case False
  then show ?thesis using assms(1) by (auto simp: diagnose_def split: option.splits)
next
  case True
  then have lv: "l \<le> 3" if "level = Some l" for l using that by simp
  have new: "co_ok (fst (diagnose_episode now clk level route ev (the (co_episode co1)) co1))"
    if "\<And>e. co_episode co = Some e \<Longrightarrow> he_finished e" "open_episode now fresh wall (clk 2) rf route ev co = Inr co1" for co1
    using diagnose_new_ok [OF assms that(1) lv that(2)] by simp
  show ?thesis
  proof (cases "co_episode co")
    case None
    then show ?thesis using assms(1) new by (auto simp: diagnose_def Let_def split: option.splits sum.splits)
  next
    case (Some e)
    show ?thesis
    proof (cases "he_finished e")
      case True
      then show ?thesis
        using assms(1) Some new by (auto simp: diagnose_def Let_def split: option.splits sum.splits)
    next
      case False
      then show ?thesis
        using assms(1) Some diagnose_episode_ok [OF assms(1) Some lv]
        by (auto simp: diagnose_def Let_def split: option.splits)
    qed
  qed
qed

lemma begin_action_ok:
  assumes "co_ok co" "fresh_id fresh co"
  shows "co_ok (fst (begin_action now fresh tick level action co))"
proof (cases "co_episode co")
  case None
  then show ?thesis using assms by (simp add: begin_action_def)
next
  case (Some e)
  show ?thesis
  proof (cases "he_finished e")
    case True
    then show ?thesis using assms Some by (simp add: begin_action_def)
  next
    case False
    let ?e = "e\<lparr>he_current_level := min 3 (max (he_current_level e) level), he_action_type := action,
                       he_active_action_id := fresh\<rparr>"
    have "episode_ok ?e" "he_episode_id e \<in> ep_id ` set (hs_episodes (co_store co))"
      using assms(1) Some by (auto simp: co_ok_def episode_ok_def rows_match_def)
    moreover have "fresh \<notin> ac_id ` set (hs_actions (co_store co))" using assms(2) by (simp add: fresh_id_def)
    ultimately show ?thesis
      using assms(1) Some False
      by (auto simp: begin_action_def Let_def start_self_heal_action_def co_ok_def heal_ok_def fk_iff rows_match_def)
  qed
qed

lemma begin_action_succeeds:
  assumes "co_ok co" "co_episode co = Some e" "\<not> he_finished e"
  shows "snd (begin_action now fresh tick level action co) = Inr fresh"
  using assms by (auto simp: begin_action_def Let_def start_self_heal_action_def co_ok_def rows_match_def)

lemma advance_ok: "co_ok co \<Longrightarrow> co_ok (fst (advance co))"
  by (auto simp: advance_def Let_def co_ok_def episode_ok_def rows_match_def split: option.splits)

lemma step_ok: "healing_step co co' \<Longrightarrow> co_ok co \<Longrightarrow> co_ok co'"
  by (induction rule: healing_step.induct)
     (simp_all add: diagnose_ok begin_action_ok finish_action_ok(1) advance_ok complete_ok)

lemma reach_ok: "healing_reach co \<Longrightarrow> co_ok co"
proof (induction rule: healing_reach.induct)
  case (reach_init callback failure_score required)
  then show ?case
    by (simp add: co_ok_def new_coordinator_def empty_heal_store_def heal_ok_def foreign_key_violations_def rows_match_def)
qed (simp add: step_ok)

section \<open>Levels\<close>

lemma complete_level:
  assumes "co_ok co" "co_episode co = Some e"
  shows "\<exists>e'. co_episode (complete now clk success reason co) = Some e' \<and> he_current_level e' = he_current_level e
    \<and> he_episode_id e' = he_episode_id e"
proof (cases "he_finished e")
  case True
  then show ?thesis using assms by (simp add: complete_def)
next
  case False
  show ?thesis by (rule complete_unfold [OF assms False, of now clk success reason]) simp
qed

lemma diagnose_episode_level:
  assumes "co_ok co" "co_episode co = Some e" "\<And>l. level = Some l \<Longrightarrow> l \<le> 3"
    and "diagnose_episode now clk level route ev e co = (co', Inr d)"
  shows "\<exists>e'. co_episode co' = Some e' \<and> he_episode_id e' = he_episode_id e
    \<and> he_current_level e' = (case level of None \<Rightarrow> he_current_level e | Some l \<Rightarrow> max (he_current_level e) l)"
proof -
  define e1 where "e1 = (case level of None \<Rightarrow> e | Some l \<Rightarrow> e\<lparr>he_current_level := max (he_current_level e) l\<rparr>)"
  have "episode_ok e" using assms(1,2) by (simp add: co_ok_def)
  then have e1: "episode_ok e1" "he_episode_id e1 = he_episode_id e" "he_finished e1 = he_finished e"
    "he_current_level e1 = (case level of None \<Rightarrow> he_current_level e | Some l \<Rightarrow> max (he_current_level e) l)"
    using assms(3) by (auto simp: e1_def level_ok split: option.splits)
  obtain digest n where d: "diagnose_fault (co_ndt_failure_score co) (he_episode_id e1) (he_fault_label e1) route ev
      (he_current_level e1) n (co_rtk_required_samples co) = Inr d"
    and co': "co' = (let co1 = co\<lparr>co_episode := Some (e1\<lparr>he_evidence := digest, he_rtk_stable_samples := n,
        he_fault_label := fd_fault_label d, he_scene_mode := fd_scene_mode d, he_action_type := fd_action_type d,
        he_allowed_actions := allowed_actions d\<rparr>), co_last_diagnosis := Some d\<rparr>
      in if fd_recovered d then complete now clk True (fd_reason d) co1 else co1)"
    using assms(4) by (auto simp: diagnose_episode_def e1_def [symmetric] Let_def split: sum.splits)
  let ?e4 = "e1\<lparr>he_evidence := digest, he_rtk_stable_samples := n, he_fault_label := fd_fault_label d,
    he_scene_mode := fd_scene_mode d, he_action_type := fd_action_type d, he_allowed_actions := allowed_actions d\<rparr>"
  have "episode_ok (e1\<lparr>he_evidence := digest, he_rtk_stable_samples := n\<rparr>)" using e1 by simp
  from diagnosed_episode_ok [OF this d] have "episode_ok ?e4" by simp
  then have "co_ok (co\<lparr>co_episode := Some ?e4\<rparr>)"
    using set_episode_ok [OF assms(1,2), of ?e4] e1 by simp
  then have "co_ok (co\<lparr>co_episode := Some ?e4, co_last_diagnosis := Some d\<rparr>)" by simp
  from complete_level [OF this, of ?e4 now clk True "fd_reason d"] e1 show ?thesis
    unfolding co' Let_def by (cases "fd_recovered d") auto
qed

text \<open>The diagnosis itself never raises a policy error, so a policy error is one of the guards.\<close>

lemma no_policy_error:
  "compact_self_healing_evidence ev \<noteq> Inl (SelfHealingPolicyError m)"
  "as_dict v \<noteq> Inl (SelfHealingPolicyError m)"
  "normalize_scene_mode route \<noteq> Inl (SelfHealingPolicyError m)"
  "localization_status_is_normal v \<noteq> Inl (SelfHealingPolicyError m)"
  "normalize_fault sc rf ev scene \<noteq> Inl (SelfHealingPolicyError m)"
  "diagnose_fault sc eid rf route ev lv samples req \<noteq> Inl (SelfHealingPolicyError m)"
proof -
  have dict: "as_dict v \<noteq> Inl (SelfHealingPolicyError m)" for v by (cases v) auto
  have status: "localization_status_is_normal v \<noteq> Inl (SelfHealingPolicyError m)" for v
    by (cases v rule: localization_status_is_normal.cases) auto
  note errs = bindE_err if_Inr_err sum.distinct Let_def simp_thms ex_simps
  have scene: "normalize_scene_mode r \<noteq> Inl (SelfHealingPolicyError m)" for r
    unfolding normalize_scene_mode_def errs using dict by blast
  have fault: "normalize_fault sc rf ev scene \<noteq> Inl (SelfHealingPolicyError m)" for sc rf ev scene
    unfolding normalize_fault_def errs using dict status by blast
  show "compact_self_healing_evidence ev \<noteq> Inl (SelfHealingPolicyError m)"
    unfolding compact_self_healing_evidence_def compact_obstacle_def errs using dict by blast
  show "diagnose_fault sc eid rf route ev lv samples req \<noteq> Inl (SelfHealingPolicyError m)"
    unfolding diagnose_fault_def errs using dict status scene fault by blast
  show "as_dict v \<noteq> Inl (SelfHealingPolicyError m)" by (rule dict)
  show "normalize_scene_mode route \<noteq> Inl (SelfHealingPolicyError m)" by (rule scene)
  show "localization_status_is_normal v \<noteq> Inl (SelfHealingPolicyError m)" by (rule status)
  show "normalize_fault sc rf ev scene \<noteq> Inl (SelfHealingPolicyError m)" by (rule fault)
qed

section \<open>Properties\<close>

text \<open>C21. Only authorised recovery moves the robot. In every reachable state, an action is authorised only for the
  episode that is active, at its current level, from the list the latest diagnosis allows; the open rows of the
  store are then exactly the row of that episode; and turning on the spot is only ever authorised indoors,
  for a localization fault that is not a transient RTK loss.\<close>

theorem authorized_action_policy:
  assumes "healing_reach co" "authorize_action eid level action co = (True, why)"
  shows "\<exists>e. co_episode co = Some e \<and> \<not> he_finished e \<and> he_episode_id e = eid \<and> he_current_level e = level
    \<and> 0 \<le> level \<and> level \<le> 3 \<and> strip action \<in> set (he_allowed_actions e)
    \<and> (\<forall>r \<in> set (hs_episodes (co_store co)). ep_finished_at r = None \<longleftrightarrow> ep_id r = eid)
    \<and> (strip action = ''adaptive_spin'' \<longrightarrow> he_scene_mode e = ''indoor''
         \<and> he_fault_label e \<in> set LOCALIZATION_FAULTS \<and> he_fault_label e \<noteq> ''rtk_transient_loss'')"
proof -
  have ok: "co_ok co" using assms(1) by (rule reach_ok)
  from assms(2) obtain e where e: "co_episode co = Some e" "\<not> he_finished e" "he_episode_id e = eid"
    "he_current_level e = level" "strip action \<in> set (he_allowed_actions e)"
    by (auto simp: authorize_action_def split: option.splits if_splits)
  have "episode_ok e" "rows_match (Some e) (co_store co)" using ok e(1) by (simp_all add: co_ok_def)
  then have "\<forall>r \<in> set (hs_episodes (co_store co)). ep_finished_at r = None \<longleftrightarrow> ep_id r = eid"
    "0 \<le> level \<and> level \<le> 3" "''adaptive_spin'' \<in> set (he_allowed_actions e) \<longrightarrow> he_scene_mode e = ''indoor''
          \<and> he_fault_label e \<in> set LOCALIZATION_FAULTS \<and> he_fault_label e \<noteq> ''rtk_transient_loss''"
    using e(2-4) by (simp_all add: episode_ok_def rows_match_def)
  with e show ?thesis by (cases "strip action = ''adaptive_spin''") (intro exI [of _ e], simp)+
qed

definition sample_co :: coordinator where
  "sample_co = fst (diagnose 1000 ''ep-1'' 0 (\<lambda>_. 5) ''nav_stuck'' PNone [] [] None
     (new_coordinator empty_heal_store True (4 / 10) 3))"

lemma sample_co_reach: "healing_reach sample_co"
  unfolding sample_co_def
  by (rule reach_step [OF reach_init step_diagnose])
     (simp add: fresh_id_def new_coordinator_def empty_heal_store_def)

lemma sample_co_authorizes:
  "authorize_action ''ep-1'' 0 '' observe_and_clear'' sample_co = (True, ''action authorized by current diagnosis'')"
  by code_simp

lemma sample_co_episode:
  "\<exists>e. co_episode sample_co = Some e \<and> \<not> he_finished e \<and> he_episode_id e = ''ep-1'' \<and> he_current_level e = 0"
proof -
  have "co_episode sample_co \<noteq> None" "\<not> he_finished (the (co_episode sample_co))"
    "he_episode_id (the (co_episode sample_co)) = ''ep-1''" "he_current_level (the (co_episode sample_co)) = 0"
    by code_simp+
  then show ?thesis by auto
qed

theorem authorized_action_policy_witness:
  "\<exists>e. co_episode sample_co = Some e \<and> he_current_level e = 0 \<and> ''observe_and_clear'' \<in> set (he_allowed_actions e)"
proof -
  have "strip '' observe_and_clear'' = ''observe_and_clear''" by code_simp
  then show ?thesis
    using authorized_action_policy [OF sample_co_reach sample_co_authorizes] by auto
qed

text \<open>Levels are climbed one at a time. A diagnosis that succeeds on an active episode keeps the episode and raises
  its level by at most one and never lowers it; on no active episode it starts a new one at level 0;
  and a request refused by policy (a level out of range, a skipped level, a stale or foreign episode, a new
  episode above level 0) changes nothing at all.\<close>

theorem recovery_level_discipline:
  assumes "healing_reach co" "fresh_id fresh co"
    and "diagnose now fresh wall clk fault route evidence eid level co = (co', res)"
  shows "(case res of
      Inr d \<Rightarrow>
        (case co_episode co of
           Some e \<Rightarrow> (\<not> he_finished e \<longrightarrow> (\<exists>e'. co_episode co' = Some e' \<and> he_episode_id e' = he_episode_id e
              \<and> he_current_level e \<le> he_current_level e' \<and> he_current_level e' \<le> he_current_level e + 1))
             \<and> (he_finished e \<longrightarrow> co' = co \<or> (\<exists>e'. co_episode co' = Some e' \<and> he_episode_id e' = fresh \<and> he_current_level e' = 0))
         | None \<Rightarrow> \<exists>e'. co_episode co' = Some e' \<and> he_episode_id e' = fresh \<and> he_current_level e' = 0)
    | Inl (SelfHealingPolicyError m) \<Rightarrow> co' = co
    | Inl _ \<Rightarrow> True)"
proof -
  have ok: "co_ok co" using assms(1) by (rule reach_ok)
  have new: "\<exists>e'. co_episode co' = Some e' \<and> he_episode_id e' = fresh \<and> he_current_level e' = 0"
    if "\<And>e. co_episode co = Some e \<Longrightarrow> he_finished e" "open_episode now fresh wall (clk 2) fault route evidence co = Inr co1"
      "diagnose_episode now clk level route evidence (the (co_episode co1)) co1 = (co', Inr d)" "level = None \<or> level = Some 0"
    for co1 d
  proof -
    from open_episode_ok [OF that(2) ok assms(2) that(1)] obtain e1 where
      e1: "co_ok co1" "co_episode co1 = Some e1" "he_current_level e1 = 0" "he_episode_id e1 = fresh" by blast
    have "diagnose_episode now clk level route evidence e1 co1 = (co', Inr d)" using that(3) e1(2) by simp
    from diagnose_episode_level [OF e1(1,2) _ this] that(4) e1(3,4) show ?thesis by auto
  qed
  have old: "\<exists>e'. co_episode co' = Some e' \<and> he_episode_id e' = he_episode_id e
      \<and> he_current_level e' = (case level of None \<Rightarrow> he_current_level e | Some l \<Rightarrow> max (he_current_level e) l)"
    if "co_episode co = Some e" "diagnose_episode now clk level route evidence e co = (co', Inr d)"
      "\<And>l. level = Some l \<Longrightarrow> l \<le> 3" for e d
    by (rule diagnose_episode_level [OF ok that(1,3,2)])
  have policy: "diagnose_episode now clk level route evidence e c \<noteq> (c', Inl (SelfHealingPolicyError m))"
    "open_episode now fresh wall (clk 2) fault route evidence co \<noteq> Inl (SelfHealingPolicyError m)" for e c c' m
    using no_policy_error
    by (auto simp: diagnose_episode_def Let_def split: sum.splits)
       (auto simp: open_episode_def Let_def bindE_err)
  let ?P = "\<lambda>x. (case x of SelfHealingPolicyError m \<Rightarrow> co' = co | _ \<Rightarrow> True)"
  have other: "?P x" if "\<And>m. x = SelfHealingPolicyError m \<Longrightarrow> co' = co" for x using that by (cases x) auto
  let ?req = "case level of None \<Rightarrow> 0 | Some l \<Rightarrow> l"
  note d = assms(3) [unfolded diagnose_def Let_def]
  show ?thesis
  proof (cases res)
    case (Inl x)
    have "co' = co" if "x = SelfHealingPolicyError m" for m
      using d policy Inl that by (auto split: if_splits option.splits sum.splits)
    from other [OF this] Inl show ?thesis by simp
  next
    case (Inr dg)
    have lv: "0 \<le> ?req" "?req \<le> 3" using d Inr by (auto split: if_splits)
    then have lv3: "l \<le> 3" if "level = Some l" for l using that by simp
    show ?thesis
    proof (cases "co_episode co")
      case None
      then obtain co1 where "open_episode now fresh wall (clk 2) fault route evidence co = Inr co1" "?req = 0"
        "diagnose_episode now clk level route evidence (the (co_episode co1)) co1 = (co', Inr dg)"
        using d Inr lv by (auto split: if_splits sum.splits)
      with new [of co1 dg] None Inr show ?thesis by (auto split: option.splits)
    next
      case (Some e)
      show ?thesis
      proof (cases "he_finished e")
        case True
        then have "co' = co \<or> (\<exists>co1. open_episode now fresh wall (clk 2) fault route evidence co = Inr co1 \<and> ?req = 0
          \<and> diagnose_episode now clk level route evidence (the (co_episode co1)) co1 = (co', Inr dg))"
          using d Inr Some lv by (auto split: if_splits sum.splits option.splits)
        with new [of _ dg] True Some Inr show ?thesis by (auto split: option.splits)
      next
        case False
        then have "diagnose_episode now clk level route evidence e co = (co', Inr dg)" "?req \<le> he_current_level e + 1"
          using d Inr Some lv by (auto split: if_splits)
        with old [OF Some _ lv3, of dg] False Some Inr show ?thesis by (auto split: option.splits)
      qed
    qed
  qed
qed

theorem recovery_level_discipline_witness:
  "\<exists>m. diagnose 1001 ''ep-2'' 0 (\<lambda>_. 6) ''nav_stuck'' PNone [] ''ep-1'' (Some 2) sample_co
     = (sample_co, Inl (SelfHealingPolicyError m))"
proof -
  have fresh: "fresh_id ''ep-2'' sample_co" by (simp add: fresh_id_def) code_simp
  let ?d = "diagnose 1001 ''ep-2'' 0 (\<lambda>_. 6) ''nav_stuck'' PNone [] ''ep-1'' (Some 2) sample_co"
  have m: "snd ?d = Inl (SelfHealingPolicyError ''recovery level jump rejected: current=0 requested=2'')"
    by code_simp
  have "?d = (fst ?d, snd ?d)" by simp
  from recovery_level_discipline [OF sample_co_reach fresh this] m show ?thesis
    by (simp add: prod_eq_iff)
qed

lemma begin_action_row:
  assumes "co_ok co" "fresh_id fresh co" "co_episode co = Some e" "\<not> he_finished e"
  shows "\<exists>a. hs_actions (co_store (fst (begin_action now fresh tick level action co))) = hs_actions (co_store co) @ [a]
    \<and> ac_id a = fresh \<and> ac_episode_id a = he_episode_id e \<and> ac_level a = min 3 (max (he_current_level e) level)
    \<and> ac_action_type a = action \<and> ac_started_at a = now \<and> ac_finished_at a = None"
proof -
  have "fresh \<notin> ac_id ` set (hs_actions (co_store co))" "he_episode_id e \<in> ep_id ` set (hs_episodes (co_store co))"
    using assms by (simp_all add: fresh_id_def co_ok_def rows_match_def)
  then show ?thesis using assms(3,4) by (simp add: begin_action_def Let_def start_self_heal_action_def)
qed

lemma complete_row:
  assumes "co_ok co" "co_episode co = Some e" "\<not> he_finished e"
  shows "\<exists>r \<in> set (hs_episodes (co_store (complete now clk success reason co))). ep_id r = he_episode_id e
    \<and> ep_success r = Some success \<and> ep_terminal_level r = Some (he_current_level e) \<and> ep_reason r = reason"
proof -
  have "he_episode_id e \<in> ep_id ` set (hs_episodes (co_store co))"
    using assms(1,2) by (simp add: co_ok_def rows_match_def)
  then obtain r where r: "r \<in> set (hs_episodes (co_store co))" "ep_id r = he_episode_id e"
    by (metis imageE)
  show ?thesis
  proof (rule complete_unfold [OF assms, of now clk success reason])
    fix co1 aid elapsed
    assume "hs_episodes (co_store co1) = hs_episodes (co_store co)"
      and eq: "complete now clk success reason co = emit ''self_healing.completed'' (e\<lparr>he_active_action_id := aid, he_finished := True\<rparr>)
       [(''success'', PBool success), (''duration_seconds'', PFloat (Fin (py_round 3 elapsed))), (''reason'', PStr reason)]
       (co1\<lparr>co_episode := Some (e\<lparr>he_active_action_id := aid, he_finished := True\<rparr>),
          co_store := finish_self_heal_episode now (he_episode_id e) success (he_current_level e) (he_action_type e)
            elapsed reason (co_store co1)\<rparr>)"
    with r have "r \<in> set (hs_episodes (co_store co1))" by simp
    from finish_episode_row [OF this r(2)] show ?thesis unfolding eq by simp
  qed
qed

text \<open>The episode that is active: the one the coordinator holds, unless it is finished.\<close>

definition active_episode :: "coordinator \<Rightarrow> healing_episode option" where
  "active_episode co = (case co_episode co of None \<Rightarrow> None | Some e \<Rightarrow> if he_finished e then None else Some e)"

lemma active_episode_iff: "active_episode co = Some e \<longleftrightarrow> co_episode co = Some e \<and> \<not> he_finished e"
  by (auto simp: active_episode_def split: option.splits)

lemma open_rows_active:
  assumes "co_ok co"
  shows "{ep_id r | r. r \<in> set (hs_episodes (co_store co)) \<and> ep_finished_at r = None}
    = he_episode_id ` set_option (active_episode co)"
proof (cases "active_episode co")
  case None
  then show ?thesis using assms
    by (auto simp: active_episode_def co_ok_def rows_match_def split: option.splits if_splits)
next
  case (Some e)
  then have "rows_match (Some e) (co_store co)" "\<not> he_finished e"
    using assms by (auto simp: active_episode_iff co_ok_def)
  then have "he_episode_id e \<in> ep_id ` set (hs_episodes (co_store co))"
    "\<And>r. r \<in> set (hs_episodes (co_store co)) \<Longrightarrow> ep_finished_at r = None \<longleftrightarrow> ep_id r = he_episode_id e"
    by (auto simp: rows_match_def)
  then show ?thesis unfolding Some by auto
qed

lemma complete_inactive:
  assumes "co_ok co"
  shows "active_episode (complete now clk success reason co) = None"
proof (cases "active_episode co")
  case None
  then show ?thesis by (auto simp: active_episode_def complete_def split: option.splits if_splits)
next
  case (Some e)
  then have e: "co_episode co = Some e" "\<not> he_finished e" by (simp_all add: active_episode_iff)
  show ?thesis
    by (rule complete_unfold [OF assms e, of now clk success reason]) (simp add: active_episode_def)
qed

text \<open>C35. The store is the record of what happened. In every reachable state the open episode rows are those of the active
  episode: none when no episode is active, and otherwise its row and no other. From a reachable state, an action begun under a
  new identifier on the active episode never fails and appends exactly one action row, open, of that episode, at the level
  climbed to; completing the episode leaves no episode active and therefore no row open, and the row of the episode then records
  the outcome: success flag, terminal level and reason.\<close>

theorem episode_lifecycle_persisted:
  assumes "healing_reach co"
  shows "{ep_id r | r. r \<in> set (hs_episodes (co_store co)) \<and> ep_finished_at r = None}
      = he_episode_id ` set_option (active_episode co)
    \<and> (\<forall>e. active_episode co = Some e \<longrightarrow>
         (\<forall>now fresh tick level action. fresh_id fresh co \<longrightarrow>
            (let (co', answer) = begin_action now fresh tick level action co in answer = Inr fresh
               \<and> (\<exists>a. hs_actions (co_store co') = hs_actions (co_store co) @ [a] \<and> ac_id a = fresh
                    \<and> ac_episode_id a = he_episode_id e \<and> ac_level a = min 3 (max (he_current_level e) level)
                    \<and> ac_action_type a = action \<and> ac_started_at a = now \<and> ac_finished_at a = None)))
       \<and> (\<forall>now clk success reason. let co' = complete now clk success reason co in
            active_episode co' = None \<and> (\<forall>r \<in> set (hs_episodes (co_store co')). ep_finished_at r \<noteq> None)
            \<and> (\<exists>r \<in> set (hs_episodes (co_store co')). ep_id r = he_episode_id e \<and> ep_success r = Some success
                 \<and> ep_terminal_level r = Some (he_current_level e) \<and> ep_reason r = reason)))"
proof -
  have ok: "co_ok co" using assms by (rule reach_ok)
  have closed: "\<forall>r \<in> set (hs_episodes (co_store (complete now clk success reason co))). ep_finished_at r \<noteq> None"
    for now clk success reason
    using open_rows_active [OF complete_ok [OF ok], of now clk success reason]
    unfolding complete_inactive [OF ok] by auto
  show ?thesis
    by (intro conjI allI impI open_rows_active [OF ok])
       (auto simp: active_episode_iff [of co] split_beta Let_def complete_inactive [OF ok] closed
          simp del: not_None_eq intro: begin_action_succeeds [OF ok] begin_action_row [OF ok] complete_row [OF ok])
qed

theorem episode_lifecycle_persisted_witness:
  "{ep_id r | r. r \<in> set (hs_episodes (co_store sample_co)) \<and> ep_finished_at r = None} = {''ep-1''}
   \<and> snd (begin_action 1001 ''ac-1'' 6 1 ''clear_costmap'' sample_co) = Inr ''ac-1''
   \<and> (\<exists>r \<in> set (hs_episodes (co_store (complete 1005 (\<lambda>_. 9) True ''done'' sample_co))).
        ep_id r = ''ep-1'' \<and> ep_success r = Some True \<and> ep_terminal_level r = Some 0)"
proof -
  obtain e where e: "active_episode sample_co = Some e" "he_episode_id e = ''ep-1''" "he_current_level e = 0"
    using sample_co_episode by (auto simp: active_episode_iff)
  have fresh: "fresh_id ''ac-1'' sample_co" by (simp add: fresh_id_def) code_simp
  note all = episode_lifecycle_persisted [OF sample_co_reach]
  note act = all [THEN conjunct2, rule_format, OF e(1)]
  note start = act [THEN conjunct1, rule_format, OF fresh]
  show ?thesis
    using all [THEN conjunct1] e start [where now = 1001 and tick = 6 and level = 1 and action = "''clear_costmap''"]
      act [THEN conjunct2, rule_format, where now = 1005 and clk = "\<lambda>_. 9" and success = True and reason = "''done''"]
    by (simp add: Let_def split_beta) blast
qed

text \<open>The decision matrix is safe by construction. In every diagnosis: level 0 only observes or waits, without motion;
  a recovered fault allows no action and asks to leave recovery; a hold of the LIO fusion is ordered only for a
  localization fault above level 0; waiting for RTK happens only at level 0; a turn on the spot is chosen only
  indoors at level 2; and at the last level a fault outside localization ends in a safe hold.\<close>

theorem decision_matrix_safe:
  assumes "diagnose_fault score eid fault route evidence level samples required = Inr d"
  shows "0 \<le> fd_level d \<and> fd_level d \<le> 3
    \<and> (fd_level d = 0 \<and> \<not> fd_recovered d \<longrightarrow> fd_action_type d \<in> {''smart_rtk_wait'', ''observe_and_clear''}
         \<and> allowed_actions d = [fd_action_type d])
    \<and> (fd_recovered d \<longrightarrow> fd_action_type d = ''exit_recovery'' \<and> allowed_actions d = [])
    \<and> (fd_use_lio_hold d \<longrightarrow> fd_fault_label d \<in> set LOCALIZATION_FAULTS \<and> 1 \<le> fd_level d \<and> \<not> fd_recovered d)
    \<and> (fd_action_type d = ''adaptive_spin'' \<longrightarrow> fd_scene_mode d = ''indoor'' \<and> fd_level d = 2)
    \<and> (fd_level d = 3 \<and> \<not> fd_recovered d \<and> fd_fault_label d \<notin> set LOCALIZATION_FAULTS \<longrightarrow> fd_action_type d = ''safe_hold'')"
proof -
  from assms obtain flt scene recovered hold where d:
    "d = assemble_diagnosis eid flt scene (min 3 (max 0 level)) recovered hold"
    "scene \<in> {''indoor'', ''outdoor'', ''transition''}" "hold \<longrightarrow> flt \<in> set LOCALIZATION_FAULTS"
    by (rule diagnose_fault_cases)
  define lv where "lv = min 3 (max 0 level)"
  have lv: "0 \<le> lv \<and> lv \<le> 3" by (simp add: lv_def)
  let ?forbid = "scene \<in> {''outdoor'', ''transition''} \<or> flt = ''rtk_transient_loss''"
  let ?d = "assemble_diagnosis eid flt scene lv recovered hold"
  have dd: "d = ?d" by (simp add: d(1) lv_def)
  have spin: "fst (choose_action flt lv recovered hold ?forbid) = ''adaptive_spin'' \<Longrightarrow> lv = 2 \<and> scene = ''indoor''"
    using choose_action_spin [of flt lv recovered hold ?forbid] d(2) by auto
  have level0: "lv = 0 \<Longrightarrow> \<not> recovered \<Longrightarrow> allowed_actions ?d = [fd_action_type ?d]"
    and over: "recovered \<Longrightarrow> allowed_actions ?d = []"
    by (simp_all add: allowed_actions_def)
  have acts: "lv = 0 \<Longrightarrow> \<not> recovered \<Longrightarrow> fd_action_type ?d \<in> {''smart_rtk_wait'', ''observe_and_clear''}"
    "recovered \<Longrightarrow> fd_action_type ?d = ''exit_recovery''"
    "lv = 3 \<Longrightarrow> \<not> recovered \<Longrightarrow> flt \<notin> set LOCALIZATION_FAULTS \<Longrightarrow> fd_action_type ?d = ''safe_hold''"
    "fd_action_type ?d = ''adaptive_spin'' \<Longrightarrow> lv = 2 \<and> scene = ''indoor''"
    using choose_action_levels(1,3) [where recovered = recovered and fault = flt and hold = hold and forbid = ?forbid]
      choose_action_levels(2) [of recovered flt lv hold ?forbid] spin
    by (simp_all only: assemble_frame) simp_all
  show ?thesis
    unfolding dd assemble_frame(1-5) using lv acts level0 over d(3) by blast
qed

theorem decision_matrix_safe_witness:
  "\<exists>d. diagnose_fault (4 / 10) ''e'' ''nav_stuck'' PNone [(''localization_status'', PInt 3)] 3 0 3 = Inr d
     \<and> fd_action_type d = ''safe_hold''"
proof -
  let ?r = "diagnose_fault (4 / 10) ''e'' ''nav_stuck'' PNone [(''localization_status'', PInt 3)] 3 0 3"
  have "isl ?r = False" by code_simp
  then obtain d where d: "?r = Inr d" by (cases ?r) auto
  have "fd_level (projr ?r) = 3 \<and> \<not> fd_recovered (projr ?r) \<and> fd_fault_label (projr ?r) \<notin> set LOCALIZATION_FAULTS"
    by code_simp
  with decision_matrix_safe [OF d] d show ?thesis by simp
qed

end
