(* ===== verification/Trajectory.thy ===== *)
theory Trajectory
  imports Protocol Store
begin

text \<open>
  The trajectory buffer (\<open>edge-agent/roamerx_edge/trajectory_buffer.py\<close>): poses of the running task are
  numbered by the store, collected, and flushed to the outbox as one batch per execution and map. The buffer
  calls the store of theory \<open>Store\<close>. A history variable keeps the batches that were handed to the outbox,
  so that losing or reordering a point is visible. Fresh UUIDs and clock readings are arguments.
\<close>

section \<open>State\<close>

record pose_snapshot =
  ps_sampled_at :: string
  ps_x :: real
  ps_y :: real
  ps_yaw :: real
  ps_speed_mps :: real
  ps_localization_status :: string

record traj_point =
  tp_seq :: int
  tp_pose :: pose_snapshot
  tp_keyframe :: "pydict option"

record traj_batch =
  bt_execution_id :: string
  bt_map_id :: string
  bt_map_version :: string
  bt_points :: "traj_point list"

record traj_buffer =
  tb_robot_id :: string
  tb_session_id :: string
  tb_batch_size :: int
  tb_flush_seconds :: real
  tb_points :: "traj_point list"
  tb_execution_id :: "string option"
  tb_map_id :: string
  tb_map_version :: string
  tb_last_flush :: real
  tb_store :: local_store
  tb_queued :: "traj_batch list"

definition new_buffer :: "string \<Rightarrow> string \<Rightarrow> local_store \<Rightarrow> int \<Rightarrow> real \<Rightarrow> real \<Rightarrow> traj_buffer" where
  "new_buffer robot session store batch_size flush_seconds now =
     \<lparr>tb_robot_id = robot, tb_session_id = session, tb_batch_size = batch_size, tb_flush_seconds = flush_seconds,
      tb_points = [], tb_execution_id = None, tb_map_id = [], tb_map_version = [], tb_last_flush = now,
      tb_store = store, tb_queued = []\<rparr>"

text \<open>The dictionary of a point, and the envelope of a batch.\<close>

definition point_value :: "traj_point \<Rightarrow> pyval" where
  "point_value p = PDict ([(''seq'', PInt (tp_seq p)), (''sampled_at'', PStr (ps_sampled_at (tp_pose p))),
     (''x'', PFloat (Fin (ps_x (tp_pose p)))), (''y'', PFloat (Fin (ps_y (tp_pose p)))),
     (''yaw'', PFloat (Fin (ps_yaw (tp_pose p)))), (''speed_mps'', PFloat (Fin (ps_speed_mps (tp_pose p)))),
     (''localization_status'', PStr (ps_localization_status (tp_pose p)))]
     @ (case tp_keyframe p of None \<Rightarrow> [] | Some k \<Rightarrow> [(''keyframe'', PDict k)]))"

definition batch_message :: "fresh_values \<Rightarrow> string \<Rightarrow> string \<Rightarrow> string \<Rightarrow> traj_batch \<Rightarrow> pydict" where
  "batch_message fr robot session batch_id b =
     build_envelope fr ''trajectory.batch'' robot session [] None
       [(''task_execution_id'', PStr (bt_execution_id b)), (''map_id'', PStr (bt_map_id b)),
        (''map_version'', PStr (bt_map_version b)), (''frame_id'', PStr ''map''), (''batch_id'', PStr batch_id),
        (''first_seq'', PInt (tp_seq (hd (bt_points b)))), (''last_seq'', PInt (tp_seq (last (bt_points b)))),
        (''points'', PList (map point_value (bt_points b)))]"

definition trajectory_topic :: "string \<Rightarrow> string" where
  "trajectory_topic robot = ''robots/'' @ robot @ ''/telemetry/trajectory''"

section \<open>Operations\<close>

text \<open>One flush uses a batch UUID, the values of the envelope and a clock reading.\<close>

record flush_inputs =
  fi_batch_id :: string
  fi_fresh :: fresh_values
  fi_now :: real

definition flush_locked :: "flush_inputs \<Rightarrow> traj_buffer \<Rightarrow> traj_buffer \<times> pydict option pyres" where
  "flush_locked fi tb =
     (if tb_points tb = [] then (tb, Inr None)
      else case tb_execution_id tb of
        None \<Rightarrow> (tb, Inr None)
      | Some execution \<Rightarrow>
          if execution = [] then (tb, Inr None)
          else
            let b = \<lparr>bt_execution_id = execution, bt_map_id = tb_map_id tb, bt_map_version = tb_map_version tb,
                      bt_points = tb_points tb\<rparr>;
                tb1 = tb\<lparr>tb_points := [], tb_execution_id := None, tb_map_id := [], tb_map_version := [],
                         tb_last_flush := fi_now fi\<rparr>;
                msg = batch_message (fi_fresh fi) (tb_robot_id tb) (tb_session_id tb) (fi_batch_id fi) b
            in (case enqueue_outbox (trajectory_topic (tb_robot_id tb)) msg 1 False (Some (fi_batch_id fi)) (tb_store tb) of
                  Inl x \<Rightarrow> (tb1, Inl x)
                | Inr s \<Rightarrow> (tb1\<lparr>tb_store := s, tb_queued := tb_queued tb @ [b]\<rparr>, Inr (Some msg))))"

text \<open>\<open>sample\<close>: the first flush inputs serve a change of execution or map, the second the size or time limit.\<close>

definition append_point :: "string \<Rightarrow> string \<Rightarrow> string \<Rightarrow> pose_snapshot \<Rightarrow> pydict option \<Rightarrow> traj_buffer \<Rightarrow> traj_buffer" where
  "append_point execution map_id map_version pose keyframe tb =
     (case next_trajectory_seq execution (tb_store tb) of (s, seq) \<Rightarrow>
        tb\<lparr>tb_execution_id := Some execution, tb_map_id := map_id, tb_map_version := map_version, tb_store := s,
           tb_points := tb_points tb @ [\<lparr>tp_seq = seq, tp_pose = pose, tp_keyframe = keyframe\<rparr>]\<rparr>)"

definition sample ::
  "flush_inputs \<Rightarrow> flush_inputs \<Rightarrow> real \<Rightarrow> string \<Rightarrow> string \<Rightarrow> string \<Rightarrow> pose_snapshot \<Rightarrow> pydict option
     \<Rightarrow> traj_buffer \<Rightarrow> traj_buffer \<times> pydict option pyres" where
  "sample fi1 fi2 now execution map_id map_version pose keyframe tb =
     (let changed = (tb_points tb \<noteq> [] \<and> (tb_execution_id tb \<noteq> Some execution \<or> tb_map_id tb \<noteq> map_id
            \<or> tb_map_version tb \<noteq> map_version));
          first = (if changed then flush_locked fi1 tb else (tb, Inr None)) in
      case snd first of
        Inl x \<Rightarrow> (fst first, Inl x)
      | Inr _ \<Rightarrow>
          let tb2 = append_point execution map_id map_version pose keyframe (fst first)
          in if int (length (tb_points tb2)) \<ge> tb_batch_size tb2 \<or> now - tb_last_flush tb2 \<ge> tb_flush_seconds tb2
             then flush_locked fi2 tb2 else (tb2, Inr None))"

definition flush :: "flush_inputs \<Rightarrow> string \<Rightarrow> string \<Rightarrow> string \<Rightarrow> traj_buffer \<Rightarrow> traj_buffer \<times> pydict option pyres" where
  "flush fi execution map_id map_version tb =
     flush_locked fi (if tb_points tb \<noteq> [] \<and> tb_execution_id tb = None
       then tb\<lparr>tb_execution_id := Some execution, tb_map_id := map_id, tb_map_version := map_version\<rparr> else tb)"

definition flush_active :: "flush_inputs \<Rightarrow> traj_buffer \<Rightarrow> traj_buffer \<times> pydict option pyres" where
  "flush_active fi tb = flush_locked fi tb"

text \<open>The reply of the center: accepted or duplicate batches and permanently invalid ones leave the outbox.\<close>

definition handle_ack :: "pydict \<Rightarrow> local_store \<Rightarrow> local_store pyres" where
  "handle_ack payload s =
     (let batch_id = dget payload ''batch_id'' in
      if \<not> truthy batch_id then Inr s
      else if truthy (dget payload ''accepted'') \<or> truthy (dget payload ''duplicate'')
        then Inr (ack_outbox None (Some (py_str batch_id)) s)
      else bindE (in_strs (dget payload ''reason_code'') [''INVALID_MESSAGE'', ''UNKNOWN_TASK_EXECUTION'']) (\<lambda>permanent.
        Inr (if permanent then ack_outbox None (Some (py_str batch_id)) s else s)))"

section \<open>Runs\<close>

datatype buffer_call =
    Sample flush_inputs flush_inputs real string string string pose_snapshot "pydict option"
  | Flush flush_inputs string string string
  | FlushActive flush_inputs

fun buffer_step :: "buffer_call \<Rightarrow> traj_buffer \<Rightarrow> traj_buffer" where
  "buffer_step (Sample fi1 fi2 now execution map_id map_version pose keyframe) tb =
     fst (sample fi1 fi2 now execution map_id map_version pose keyframe tb)"
| "buffer_step (Flush fi execution map_id map_version) tb = fst (flush fi execution map_id map_version tb)"
| "buffer_step (FlushActive fi) tb = fst (flush_active fi tb)"

text \<open>A task execution id is a UUID text, hence not empty.\<close>

fun call_ok :: "buffer_call \<Rightarrow> bool" where
  "call_ok (Sample _ _ _ execution _ _ _ _) = (execution \<noteq> [])"
| "call_ok (Flush _ execution _ _) = (execution \<noteq> [])"
| "call_ok (FlushActive _) = True"

fun call_pose :: "buffer_call \<Rightarrow> pose_snapshot list" where
  "call_pose (Sample _ _ _ _ _ _ pose _) = [pose]"
| "call_pose _ = []"

text \<open>Every point the buffer has seen, in order: those handed over and those still collected.\<close>

definition all_points :: "traj_buffer \<Rightarrow> traj_point list" where
  "all_points tb = concat (map bt_points (tb_queued tb)) @ tb_points tb"

section \<open>The invariant\<close>

text \<open>Consecutive numbers.\<close>

definition consecutive :: "int list \<Rightarrow> bool" where
  "consecutive ns = (\<forall>i < length ns. ns ! i = hd ns + int i)"

definition batch_ok :: "traj_batch \<Rightarrow> bool" where
  "batch_ok b = (bt_points b \<noteq> [] \<and> bt_execution_id b \<noteq> [] \<and> consecutive (map tp_seq (bt_points b)))"

definition next_seq :: "string \<Rightarrow> local_store \<Rightarrow> int" where
  "next_seq execution s = (case st_sequence s execution of None \<Rightarrow> 0 | Some n \<Rightarrow> n)"

definition buffer_ok :: "traj_buffer \<Rightarrow> bool" where
  "buffer_ok tb =
     (list_all batch_ok (tb_queued tb) \<and> outbox_ok (tb_store tb)
      \<and> (tb_points tb \<noteq> [] \<longrightarrow> (\<exists>execution. tb_execution_id tb = Some execution \<and> execution \<noteq> []
            \<and> consecutive (map tp_seq (tb_points tb)) \<and> tp_seq (last (tb_points tb)) + 1 = next_seq execution (tb_store tb))))"

lemma consecutive_snoc:
  assumes "consecutive ns" "ns \<noteq> []" "n = last ns + 1"
  shows "consecutive (ns @ [n])"
proof -
  have "last ns = hd ns + int (length ns - 1)"
    using assms(1,2) by (simp add: consecutive_def last_conv_nth)
  moreover have "0 < length ns" using assms(2) by simp
  ultimately show ?thesis
    using assms by (auto simp: consecutive_def nth_append less_Suc_eq of_nat_diff)
qed

lemma consecutive_single [simp]: "consecutive [n]"
  by (simp add: consecutive_def)

lemma batch_message_type [simp]:
  "dget (batch_message fr robot session bid b) ''message_type'' = PStr ''trajectory.batch''"
  by (simp add: batch_message_def build_envelope_def)

lemma enqueue_sequence:
  "enqueue_outbox topic payload qos retain key s = Inr s' \<Longrightarrow> st_sequence s' = st_sequence s"
  by (auto simp: bounded_insert_def prune_defs insert_row_def dest!: enqueue_outbox_shape)

lemma next_seq_enqueue:
  "enqueue_outbox topic payload qos retain key s = Inr s' \<Longrightarrow> next_seq e s' = next_seq e s"
  by (simp add: next_seq_def enqueue_sequence)

lemma flush_locked_cases:
  obtains (keep) "flush_locked fi tb = (tb, Inr None)" "tb_points tb = [] \<or> tb_execution_id tb = None \<or> tb_execution_id tb = Some []"
    | (queue) s execution where "tb_points tb \<noteq> []" "tb_execution_id tb = Some execution" "execution \<noteq> []"
      "enqueue_outbox (trajectory_topic (tb_robot_id tb)) (batch_message (fi_fresh fi) (tb_robot_id tb) (tb_session_id tb)
         (fi_batch_id fi) \<lparr>bt_execution_id = execution, bt_map_id = tb_map_id tb, bt_map_version = tb_map_version tb,
           bt_points = tb_points tb\<rparr>) 1 False (Some (fi_batch_id fi)) (tb_store tb) = Inr s"
      "flush_locked fi tb = (tb\<lparr>tb_points := [], tb_execution_id := None, tb_map_id := [], tb_map_version := [],
         tb_last_flush := fi_now fi, tb_store := s, tb_queued := tb_queued tb @ [\<lparr>bt_execution_id = execution,
           bt_map_id = tb_map_id tb, bt_map_version = tb_map_version tb, bt_points = tb_points tb\<rparr>]\<rparr>,
         Inr (Some (batch_message (fi_fresh fi) (tb_robot_id tb) (tb_session_id tb) (fi_batch_id fi)
           \<lparr>bt_execution_id = execution, bt_map_id = tb_map_id tb, bt_map_version = tb_map_version tb,
             bt_points = tb_points tb\<rparr>)))"
proof (cases "tb_points tb = [] \<or> tb_execution_id tb = None \<or> tb_execution_id tb = Some []")
  case True
  then show ?thesis by (intro keep) (auto simp: flush_locked_def)
next
  case False
  then obtain execution where e: "tb_execution_id tb = Some execution" "execution \<noteq> []" by auto
  let ?b = "\<lparr>bt_execution_id = execution, bt_map_id = tb_map_id tb, bt_map_version = tb_map_version tb,
           bt_points = tb_points tb\<rparr>"
  obtain s where "enqueue_outbox (trajectory_topic (tb_robot_id tb)) (batch_message (fi_fresh fi) (tb_robot_id tb)
      (tb_session_id tb) (fi_batch_id fi) ?b) 1 False (Some (fi_batch_id fi)) (tb_store tb) = Inr s"
    using outbox.put_text [OF batch_message_type] by blast
  with False e show ?thesis by (intro queue) (auto simp: flush_locked_def Let_def)
qed

lemma flush_locked_ok: "buffer_ok tb \<Longrightarrow> buffer_ok (fst (flush_locked fi tb))"
proof (cases rule: flush_locked_cases [of fi tb])
  case (queue s execution)
  assume ok: "buffer_ok tb"
  have "outbox_ok s" using outbox.put_ok [OF _ queue(4)] ok by (simp add: buffer_ok_def)
  with ok queue show ?thesis by (auto simp: buffer_ok_def batch_ok_def)
qed simp

lemma flush_locked_points: "all_points (fst (flush_locked fi tb)) = all_points tb"
  by (cases rule: flush_locked_cases [of fi tb]) (auto simp: all_points_def)

lemma flush_locked_fine: "\<exists>m. snd (flush_locked fi tb) = Inr m"
  by (cases rule: flush_locked_cases [of fi tb]) auto

text \<open>After a flush of a buffer whose points carry an execution nothing is collected.\<close>

lemma flush_locked_empties: "buffer_ok tb \<Longrightarrow> tb_points (fst (flush_locked fi tb)) = []"
  by (cases rule: flush_locked_cases [of fi tb]) (auto simp: buffer_ok_def)

lemma append_point_ok:
  assumes "buffer_ok tb" "execution \<noteq> []" "tb_points tb \<noteq> [] \<Longrightarrow> tb_execution_id tb = Some execution"
  shows "buffer_ok (append_point execution map_id map_version pose keyframe tb)"
proof -
  have ok: "outbox_ok (s\<lparr>st_sequence := f\<rparr>) = outbox_ok s" for s :: local_store and f by (simp add: outbox_ok_def)
  show ?thesis
  proof (cases "tb_points tb = []")
    case True
    then show ?thesis using assms(1,2)
      by (simp add: buffer_ok_def append_point_def next_trajectory_seq_def next_seq_def Let_def ok)
  next
    case False
    then have "consecutive (map tp_seq (tb_points tb) @ [next_seq execution (tb_store tb)])"
      using assms by (intro consecutive_snoc) (auto simp: buffer_ok_def last_map)
    then show ?thesis using assms False
      by (simp add: buffer_ok_def append_point_def next_trajectory_seq_def next_seq_def Let_def ok)
  qed
qed

lemma append_point_all:
  "\<exists>p. all_points (append_point execution map_id map_version pose keyframe tb) = all_points tb @ [p] \<and> tp_pose p = pose"
  by (simp add: append_point_def all_points_def next_trajectory_seq_def Let_def)

text \<open>A sample is an optional flush, an appended point, and an optional flush.\<close>

lemma sample_shape:
  assumes "buffer_ok tb"
  obtains tb1 where "buffer_ok tb1" "all_points tb1 = all_points tb" "tb_points tb1 \<noteq> [] \<Longrightarrow> tb_execution_id tb1 = Some execution"
    "fst (sample fi1 fi2 now execution map_id map_version pose keyframe tb)
       \<in> {append_point execution map_id map_version pose keyframe tb1,
          fst (flush_locked fi2 (append_point execution map_id map_version pose keyframe tb1))}"
proof -
  let ?changed = "tb_points tb \<noteq> [] \<and> (tb_execution_id tb \<noteq> Some execution \<or> tb_map_id tb \<noteq> map_id
            \<or> tb_map_version tb \<noteq> map_version)"
  let ?tb1 = "if ?changed then fst (flush_locked fi1 tb) else tb"
  obtain m where m: "snd (flush_locked fi1 tb) = Inr m" using flush_locked_fine by blast
  show ?thesis
  proof (rule that [of ?tb1])
    show "buffer_ok ?tb1" using assms by (simp add: flush_locked_ok)
    show "all_points ?tb1 = all_points tb" by (simp add: flush_locked_points)
    show "tb_execution_id ?tb1 = Some execution" if "tb_points ?tb1 \<noteq> []"
      using that flush_locked_empties [OF assms] by (auto split: if_splits)
    show "fst (sample fi1 fi2 now execution map_id map_version pose keyframe tb)
       \<in> {append_point execution map_id map_version pose keyframe ?tb1,
          fst (flush_locked fi2 (append_point execution map_id map_version pose keyframe ?tb1))}"
      using m by (auto simp: sample_def Let_def)
  qed
qed

lemma buffer_step_ok:
  assumes "buffer_ok tb" "call_ok c"
  shows "buffer_ok (buffer_step c tb) \<and> map tp_pose (all_points (buffer_step c tb)) = map tp_pose (all_points tb) @ call_pose c"
proof (cases c)
  case (Sample fi1 fi2 now execution map_id map_version pose keyframe)
  show ?thesis
  proof (rule sample_shape [OF assms(1), of execution fi1 fi2 now map_id map_version pose keyframe])
    fix tb1
    let ?a = "append_point execution map_id map_version pose keyframe tb1"
    assume tb1: "buffer_ok tb1" "all_points tb1 = all_points tb" "tb_points tb1 \<noteq> [] \<Longrightarrow> tb_execution_id tb1 = Some execution"
      and r: "fst (sample fi1 fi2 now execution map_id map_version pose keyframe tb) \<in> {?a, fst (flush_locked fi2 ?a)}"
    have "buffer_ok ?a" using append_point_ok [OF tb1(1) _ tb1(3)] assms(2) Sample by simp
    moreover have "map tp_pose (all_points ?a) = map tp_pose (all_points tb) @ [pose]"
      using append_point_all [of execution map_id map_version pose keyframe tb1] tb1(2) by auto
    ultimately show ?thesis using r Sample by (auto simp: flush_locked_ok flush_locked_points)
  qed
next
  case (Flush fi execution map_id map_version)
  have "tb_points tb \<noteq> [] \<Longrightarrow> tb_execution_id tb \<noteq> None" using assms(1) by (auto simp: buffer_ok_def)
  then have "flush fi execution map_id map_version tb = flush_locked fi tb" by (auto simp: flush_def)
  then show ?thesis using Flush assms(1) by (simp add: flush_locked_ok flush_locked_points)
next
  case (FlushActive fi)
  then show ?thesis using assms(1) by (simp add: flush_active_def flush_locked_ok flush_locked_points)
qed

lemma buffer_run_ok:
  "buffer_ok tb \<Longrightarrow> list_all call_ok cs \<Longrightarrow> buffer_ok (fold buffer_step cs tb)
     \<and> map tp_pose (all_points (fold buffer_step cs tb)) = map tp_pose (all_points tb) @ concat (map call_pose cs)"
  by (induction cs arbitrary: tb) (simp_all add: buffer_step_ok)

lemma new_buffer_ok: "outbox_ok store \<Longrightarrow> buffer_ok (new_buffer robot session store batch_size flush_seconds now)"
  by (simp add: buffer_ok_def new_buffer_def)

section \<open>Properties\<close>

text \<open>C36. No trajectory point is lost, repeated or reordered. For any run of samples and flushes on a new buffer, the
  points of the batches handed to the outbox followed by the points still collected are exactly the sampled
  poses in sampling order; every batch is non-empty, names one execution, and numbers its points consecutively; and
  the store's outbox stays well formed.\<close>

theorem trajectory_points_conserved:
  fixes robot session :: string and batch_size :: int and flush_seconds now :: real
  assumes "outbox_ok store" "list_all call_ok cs"
  defines "tb \<equiv> fold buffer_step cs (new_buffer robot session store batch_size flush_seconds now)"
  shows "map tp_pose (concat (map bt_points (tb_queued tb)) @ tb_points tb) = concat (map call_pose cs)
    \<and> (\<forall>b \<in> set (tb_queued tb). bt_points b \<noteq> [] \<and> bt_execution_id b \<noteq> [] \<and> consecutive (map tp_seq (bt_points b)))
    \<and> outbox_ok (tb_store tb)"
proof -
  have "buffer_ok tb \<and> map tp_pose (all_points tb) = concat (map call_pose cs)"
    using buffer_run_ok [OF new_buffer_ok [OF assms(1)] assms(2), of robot session batch_size flush_seconds now]
    unfolding tb_def by (simp add: all_points_def new_buffer_def)
  then show ?thesis by (auto simp: buffer_ok_def all_points_def list_all_iff batch_ok_def)
qed

definition sample_pose :: "real \<Rightarrow> pose_snapshot" where
  "sample_pose x = \<lparr>ps_sampled_at = ''t'', ps_x = x, ps_y = 0, ps_yaw = 0, ps_speed_mps = 1, ps_localization_status = ''normal''\<rparr>"

definition sample_inputs :: "string \<Rightarrow> flush_inputs" where
  "sample_inputs bid = \<lparr>fi_batch_id = bid,
     fi_fresh = \<lparr>fr_message_id = ''m'', fr_trace_id = ''t'', fr_sent_at = ''s'', fr_body_at = ''b''\<rparr>, fi_now = 0\<rparr>"

theorem trajectory_points_conserved_witness:
  "let cs = [Sample (sample_inputs ''b1'') (sample_inputs ''b2'') 1 ''e1'' ''m'' ''v'' (sample_pose 1) None,
             Sample (sample_inputs ''b3'') (sample_inputs ''b4'') 2 ''e2'' ''m'' ''v'' (sample_pose 2) None];
       tb = fold buffer_step cs (new_buffer ''r'' ''s'' empty_store 20 5 0)
   in map tp_pose (concat (map bt_points (tb_queued tb)) @ tb_points tb) = [sample_pose 1, sample_pose 2]"
  using trajectory_points_conserved [OF empty_store_ok,
      of "[Sample (sample_inputs ''b1'') (sample_inputs ''b2'') 1 ''e1'' ''m'' ''v'' (sample_pose 1) None,
           Sample (sample_inputs ''b3'') (sample_inputs ''b4'') 2 ''e2'' ''m'' ''v'' (sample_pose 2) None]"
      "''r''" "''s''" 20 5 0]
  by (simp add: Let_def del: buffer_step.simps fold_simps)

text \<open>A batch leaves the outbox only on a final verdict of the center. An acknowledgement that names no batch, or that
  neither accepts it, nor calls it a duplicate, nor gives one of the two permanent reasons, leaves the store as it
  is; otherwise exactly the rows with that batch id are removed and nothing else changes.\<close>

theorem trajectory_ack_policy:
  assumes "handle_ack payload s = Inr s'"
  shows "s' = (if truthy (dget payload ''batch_id'')
      \<and> (truthy (dget payload ''accepted'') \<or> truthy (dget payload ''duplicate'')
         \<or> dget payload ''reason_code'' \<in> {PStr ''INVALID_MESSAGE'', PStr ''UNKNOWN_TASK_EXECUTION''})
    then s\<lparr>st_outbox := filter (\<lambda>r. ob_dedupe_key r \<noteq> Some (py_str (dget payload ''batch_id''))) (st_outbox s)\<rparr> else s)"
proof -
  have perm: "in_strs v [''INVALID_MESSAGE'', ''UNKNOWN_TASK_EXECUTION''] = Inr b \<Longrightarrow>
      b \<longleftrightarrow> v \<in> {PStr ''INVALID_MESSAGE'', PStr ''UNKNOWN_TASK_EXECUTION''}" for v b
    by (cases v) auto
  show ?thesis
    using assms perm [of "dget payload ''reason_code''"]
    by (auto simp: handle_ack_def Let_def ack_outbox_def split: if_splits)
qed

theorem trajectory_ack_policy_witness:
  "handle_ack [(''batch_id'', PStr ''b1''), (''accepted'', PBool False), (''reason_code'', PStr ''DB_LOCKED'')] empty_store
     = Inr empty_store"
proof -
  let ?p = "[(''batch_id'', PStr ''b1''), (''accepted'', PBool False), (''reason_code'', PStr ''DB_LOCKED'')]"
  obtain s where s: "handle_ack ?p empty_store = Inr s" by (simp add: handle_ack_def)
  from trajectory_ack_policy [OF s] s show ?thesis by simp
qed

end
