(* ===== verification/Mqtt.thy ===== *)
theory Mqtt
  imports Protocol Store
begin

text \<open>
  Publishing to the center (\<open>edge-agent/roamerx_edge/mqtt_client.py\<close>): the typed publishers, \<open>publish\<close> with its
  fall-back to the durable outbox, and the replay of the outbox after a reconnect. The MQTT library is a parameter:
  each call of its \<open>publish\<close> has an outcome, the return code and what \<open>is_published\<close> says after the wait. The
  client keeps a history of the messages the library took over (\<open>mq_sent\<close>).
\<close>

section \<open>State\<close>

record publish_outcome =
  pu_rc_success :: bool
  pu_is_published :: bool

record sent_message =
  sn_topic :: string
  sn_payload :: pydict
  sn_qos :: int
  sn_retain :: bool

record mqtt_client =
  mq_robot_id :: string
  mq_session_id :: string
  mq_replay_batch_size :: int
  mq_sequence :: int
  mq_connected :: bool
  mq_store :: local_store
  mq_sent :: "sent_message list"

definition mqtt_topic :: "mqtt_client \<Rightarrow> string \<Rightarrow> string" where
  "mqtt_topic c suffix = ''robots/'' @ mq_robot_id c @ ''/'' @ suffix"

definition next_sequence :: "mqtt_client \<Rightarrow> mqtt_client \<times> int" where
  "next_sequence c = (c\<lparr>mq_sequence := mq_sequence c + 1\<rparr>, mq_sequence c + 1)"

definition on_connect :: "int \<Rightarrow> mqtt_client \<Rightarrow> mqtt_client \<times> string list" where
  "on_connect reason_code c =
     (if reason_code \<noteq> 0 then (c, [])
      else (c\<lparr>mq_connected := True\<rparr>, [mqtt_topic c ''commands'', mqtt_topic c ''sync/state'']))"

definition on_disconnect :: "mqtt_client \<Rightarrow> mqtt_client" where
  "on_disconnect c = c\<lparr>mq_connected := False\<rparr>"

section \<open>publish\<close>

text \<open>\<open>payload.get("payload", {}).get("batch_id")\<close> as a column of the outbox.\<close>

definition dedupe_key_of :: "pydict \<Rightarrow> string option pyres" where
  "dedupe_key_of payload =
     bindE (py_get (dget_def_val payload ''payload'' (PDict [])) ''batch_id'') column_text"

definition store_message :: "string \<Rightarrow> pydict \<Rightarrow> int \<Rightarrow> bool \<Rightarrow> string option \<Rightarrow> mqtt_client \<Rightarrow> mqtt_client pyres" where
  "store_message topic payload qos retain key c =
     bindE (enqueue_outbox topic payload qos retain key (mq_store c)) (\<lambda>s. Inr (c\<lparr>mq_store := s\<rparr>))"

definition publish ::
  "publish_outcome \<Rightarrow> string \<Rightarrow> pydict \<Rightarrow> int \<Rightarrow> bool \<Rightarrow> bool \<Rightarrow> mqtt_client \<Rightarrow> mqtt_client pyres" where
  "publish out topic payload qos retain wait c =
     (if \<not> mq_connected c then
        (if qos = 0 then Inr c
         else bindE (dedupe_key_of payload) (\<lambda>key. store_message topic payload qos retain key c))
      else if \<not> pu_rc_success out then store_message topic payload qos retain None c
      else
        let c1 = c\<lparr>mq_sent := mq_sent c @ [\<lparr>sn_topic = topic, sn_payload = payload, sn_qos = qos, sn_retain = retain\<rparr>]\<rparr>
        in if \<not> wait \<or> qos < 1 then Inr c1
           else if \<not> pu_is_published out then store_message topic payload qos retain None c1
           else Inr c1)"

section \<open>Typed publishers\<close>

definition numbered ::
  "fresh_values \<Rightarrow> publish_outcome \<Rightarrow> string \<Rightarrow> string \<Rightarrow> string \<Rightarrow> pydict \<Rightarrow> int \<Rightarrow> bool \<Rightarrow> mqtt_client \<Rightarrow> mqtt_client pyres" where
  "numbered fr out suffix message_type trace payload qos retain c =
     (case next_sequence c of (c1, n) \<Rightarrow>
        publish out (mqtt_topic c1 suffix)
          (build_envelope fr message_type (mq_robot_id c1) (mq_session_id c1) trace (Some n) payload) qos retain False c1)"

definition publish_presence :: "fresh_values \<Rightarrow> publish_outcome \<Rightarrow> string \<Rightarrow> pydict \<Rightarrow> bool \<Rightarrow> mqtt_client \<Rightarrow> mqtt_client pyres" where
  "publish_presence fr out message_type payload retain c = numbered fr out ''presence'' message_type [] payload 1 retain c"

definition publish_status :: "fresh_values \<Rightarrow> publish_outcome \<Rightarrow> pydict \<Rightarrow> mqtt_client \<Rightarrow> mqtt_client pyres" where
  "publish_status fr out payload c = numbered fr out ''telemetry/status'' ''telemetry.status'' [] payload 0 True c"

definition publish_task_event ::
  "fresh_values \<Rightarrow> publish_outcome \<Rightarrow> string \<Rightarrow> pydict \<Rightarrow> string \<Rightarrow> mqtt_client \<Rightarrow> mqtt_client pyres" where
  "publish_task_event fr out event_type payload trace c = numbered fr out ''events/task'' event_type trace payload 1 False c"

definition publish_alert :: "fresh_values \<Rightarrow> publish_outcome \<Rightarrow> pydict \<Rightarrow> string \<Rightarrow> mqtt_client \<Rightarrow> mqtt_client pyres" where
  "publish_alert fr out payload trace c = numbered fr out ''events/alert'' ''alert.event'' trace payload 1 False c"

text \<open>Log entries: everything but \<open>DEBUG\<close> reliably, then the debug entries, at most a hundred of each.\<close>

definition is_debug :: "pydict \<Rightarrow> bool" where
  "is_debug item = (dget item ''level'' = PStr ''DEBUG'')"

definition publish_log_batch ::
  "fresh_values \<Rightarrow> publish_outcome \<Rightarrow> pydict list \<Rightarrow> int \<Rightarrow> mqtt_client \<Rightarrow> mqtt_client pyres" where
  "publish_log_batch fr out batch qos c =
     (if batch = [] then Inr c
      else numbered fr out ''events/system-log'' ''system.log.batch'' []
        [(''entries'', PList (map PDict (take 100 batch)))] qos False c)"

definition publish_system_logs ::
  "fresh_values \<Rightarrow> fresh_values \<Rightarrow> publish_outcome \<Rightarrow> publish_outcome \<Rightarrow> pydict list \<Rightarrow> mqtt_client \<Rightarrow> mqtt_client pyres" where
  "publish_system_logs fr1 fr2 out1 out2 entries c =
     (if entries = [] then Inr c
      else bindE (publish_log_batch fr1 out1 (filter (\<lambda>i. \<not> is_debug i) entries) 1 c)
        (publish_log_batch fr2 out2 (filter is_debug entries) 0))"

definition command_topic :: "mqtt_client \<Rightarrow> string \<Rightarrow> string \<Rightarrow> string" where
  "command_topic c command_id leaf = mqtt_topic c (''commands/'' @ command_id @ ''/'' @ leaf)"

definition publish_ack :: "publish_outcome \<Rightarrow> string \<Rightarrow> pydict \<Rightarrow> mqtt_client \<Rightarrow> mqtt_client pyres" where
  "publish_ack out command_id payload c = publish out (command_topic c command_id ''ack'') payload 1 False True c"

definition publish_result :: "publish_outcome \<Rightarrow> string \<Rightarrow> pydict \<Rightarrow> mqtt_client \<Rightarrow> mqtt_client pyres" where
  "publish_result out command_id payload c = publish out (command_topic c command_id ''result'') payload 1 False False c"

definition publish_progress :: "publish_outcome \<Rightarrow> string \<Rightarrow> pydict \<Rightarrow> mqtt_client \<Rightarrow> mqtt_client pyres" where
  "publish_progress out command_id payload c = publish out (command_topic c command_id ''progress'') payload 1 False False c"

section \<open>Replay\<close>

text \<open>\<open>row["payload"]["message_type"]\<close> of a stored row: the column it was inserted with is required to be there.\<close>

fun replay_rows :: "(nat \<Rightarrow> publish_outcome) \<Rightarrow> nat \<Rightarrow> outbox_row list \<Rightarrow> mqtt_client \<Rightarrow> mqtt_client pyres" where
  "replay_rows net i [] c = Inr c"
| "replay_rows net i (row # rows) c =
     (if pu_rc_success (net i) then
        (let c1 = c\<lparr>mq_sent := mq_sent c @ [\<lparr>sn_topic = ob_topic row, sn_payload = ob_payload row, sn_qos = ob_qos row,
                     sn_retain = ob_retain row\<rparr>]\<rparr> in
         bindE (dsub (ob_payload row) ''message_type'') (\<lambda>mt.
           replay_rows net (Suc i) rows
             (if mt \<noteq> PStr ''trajectory.batch'' then c1\<lparr>mq_store := ack_outbox (Some (ob_id row)) None (mq_store c1)\<rparr> else c1)))
      else replay_rows net (Suc i) rows c)"

definition replay_outbox :: "(nat \<Rightarrow> publish_outcome) \<Rightarrow> mqtt_client \<Rightarrow> (mqtt_client \<times> int) pyres" where
  "replay_outbox net c =
     (if \<not> mq_connected c then Inr (c, 0)
      else let rows = list_pending_outbox (max 1 (mq_replay_batch_size c)) (mq_store c)
           in bindE (replay_rows net 0 rows c) (\<lambda>c'. Inr (c', int (length rows))))"

section \<open>Lemmas\<close>

text \<open>A message is safe when the library took it over or the outbox holds it, or holds its dedupe key.\<close>

definition pending_in :: "string \<Rightarrow> pydict \<Rightarrow> int \<Rightarrow> local_store \<Rightarrow> bool" where
  "pending_in topic payload qos s =
     list_ex (\<lambda>r. ob_topic r = topic \<and> ob_payload r = payload \<and> ob_qos r = qos) (st_outbox s)"

definition handed_over :: "string \<Rightarrow> pydict \<Rightarrow> int \<Rightarrow> mqtt_client \<Rightarrow> bool" where
  "handed_over topic payload qos c =
     (mq_sent c \<noteq> [] \<and> sn_topic (last (mq_sent c)) = topic \<and> sn_payload (last (mq_sent c)) = payload
      \<and> sn_qos (last (mq_sent c)) = qos)"

lemma store_message_pending:
  assumes "outbox_ok (mq_store c)" "dget payload ''message_type'' = PStr mt"
  shows "\<exists>c'. store_message topic payload qos retain key c = Inr c' \<and> mq_sent c' = mq_sent c \<and> outbox_ok (mq_store c')
    \<and> (key_pending key (st_outbox (mq_store c)) \<and> mq_store c' = mq_store c \<or> pending_in topic payload qos (mq_store c'))"
proof -
  obtain s where s: "enqueue_outbox topic payload qos retain key (mq_store c) = Inr s"
    using outbox.put_text [OF assms(2)] by blast
  from outbox.put_pending [OF assms s] outbox.put_ok [OF assms(1) s] s show ?thesis
    by (auto simp: store_message_def pending_in_def list_ex_iff)
qed

text \<open>The rows a replay acknowledges: the library took the message over and it is not a trajectory batch.\<close>

fun replay_acks :: "(nat \<Rightarrow> publish_outcome) \<Rightarrow> nat \<Rightarrow> outbox_row list \<Rightarrow> int list" where
  "replay_acks net i [] = []"
| "replay_acks net i (row # rows) =
     (if pu_rc_success (net i) \<and> dget (ob_payload row) ''message_type'' \<noteq> PStr ''trajectory.batch'' then [ob_id row] else [])
     @ replay_acks net (Suc i) rows"

fun replay_sent :: "(nat \<Rightarrow> publish_outcome) \<Rightarrow> nat \<Rightarrow> outbox_row list \<Rightarrow> pydict list" where
  "replay_sent net i [] = []"
| "replay_sent net i (row # rows) =
     (if pu_rc_success (net i) then [ob_payload row] else []) @ replay_sent net (Suc i) rows"

lemma replay_rows_result:
  "\<forall>r \<in> set rows. has_key (ob_payload r) ''message_type'' \<Longrightarrow>
   \<exists>c'. replay_rows net i rows c = Inr c'
     \<and> st_outbox (mq_store c') = filter (\<lambda>r. ob_id r \<notin> set (replay_acks net i rows)) (st_outbox (mq_store c))
     \<and> map sn_payload (mq_sent c') = map sn_payload (mq_sent c) @ replay_sent net i rows"
proof (induction rows arbitrary: i c)
  case (Cons row rows)
  have "dsub (ob_payload row) ''message_type'' = Inr (dget (ob_payload row) ''message_type'')"
    using Cons.prems by (simp add: dsub_ok)
  note mt = this
  let ?c1 = "c\<lparr>mq_sent := mq_sent c @ [\<lparr>sn_topic = ob_topic row, sn_payload = ob_payload row, sn_qos = ob_qos row,
                     sn_retain = ob_retain row\<rparr>]\<rparr>"
  let ?ack = "dget (ob_payload row) ''message_type'' \<noteq> PStr ''trajectory.batch''"
  let ?c2 = "if pu_rc_success (net i) then (if ?ack
      then ?c1\<lparr>mq_store := ack_outbox (Some (ob_id row)) None (mq_store ?c1)\<rparr> else ?c1) else c"
  have "\<forall>r \<in> set rows. has_key (ob_payload r) ''message_type''" using Cons.prems by simp
  from Cons.IH [OF this, of "Suc i" ?c2] obtain c' where c': "replay_rows net (Suc i) rows ?c2 = Inr c'"
    "st_outbox (mq_store c') = filter (\<lambda>r. ob_id r \<notin> set (replay_acks net (Suc i) rows)) (st_outbox (mq_store ?c2))"
    "map sn_payload (mq_sent c') = map sn_payload (mq_sent ?c2) @ replay_sent net (Suc i) rows" by blast
  have "replay_rows net i (row # rows) c = Inr c'" using c'(1) mt by (simp add: Let_def split: if_splits)
  with c'(2,3) show ?case by (intro exI [of _ c']) (auto simp: ack_outbox_def split: if_splits)
qed simp

section \<open>Properties\<close>

text \<open>C29. A reliable message is never dropped. Publishing a message of quality of service 1 or more, with a text type
  and an object as payload, does not raise, keeps the outbox well formed, and afterwards the MQTT library has taken the
  message over, or the outbox holds it, or (while disconnected) the outbox already holds a message with its
  batch id.\<close>

theorem reliable_publish_not_lost:
  assumes "outbox_ok (mq_store c)" "1 \<le> qos" "dget payload ''message_type'' = PStr mt"
    and "dget payload ''payload'' = PDict body" "dget body ''batch_id'' = PNone \<or> is_str (dget body ''batch_id'')"
  shows "\<exists>c'. publish out topic payload qos retain wait c = Inr c' \<and> outbox_ok (mq_store c')
    \<and> (handed_over topic payload qos c' \<and> (wait \<longrightarrow> pu_is_published out \<or> pending_in topic payload qos (mq_store c'))
       \<or> pending_in topic payload qos (mq_store c')
       \<or> (\<exists>k. dget body ''batch_id'' = PStr k \<and> key_pending (Some k) (st_outbox (mq_store c'))))"
proof -
  have p: "dget_def_val payload ''payload'' (PDict []) = PDict body"
    using assms(4) by (auto simp: dget_def_val_def dget_def split: option.splits)
  obtain key where key: "dedupe_key_of payload = Inr key" "\<And>k. key = Some k \<Longrightarrow> dget body ''batch_id'' = PStr k"
    using assms(5) p by (cases "dget body ''batch_id''") (auto simp: dedupe_key_of_def)
  note put = store_message_pending [OF _ assms(3), of _ topic qos retain]
  let ?c1 = "c\<lparr>mq_sent := mq_sent c @ [\<lparr>sn_topic = topic, sn_payload = payload, sn_qos = qos, sn_retain = retain\<rparr>]\<rparr>"
  have handed: "handed_over topic payload qos ?c1" by (simp add: handed_over_def)
  have none: "\<not> key_pending None rows" for rows by (simp add: key_pending_def)
  show ?thesis
  proof (cases "mq_connected c")
    case False
    then show ?thesis
      using put [of c key] assms(1,2) key by (fastforce simp: publish_def key_pending_def)
  next
    case True
    then show ?thesis
      using put [of c None] put [of ?c1 None] assms(1,2) handed none by (fastforce simp: publish_def Let_def handed_over_def)
  qed
qed

theorem reliable_publish_not_lost_witness:
  "\<exists>c'. publish \<lparr>pu_rc_success = True, pu_is_published = False\<rparr> ''t'' [(''message_type'', PStr ''command.ack''), (''payload'', PDict [])]
      1 False True \<lparr>mq_robot_id = ''r'', mq_session_id = ''s'', mq_replay_batch_size = 20, mq_sequence = 0,
        mq_connected = True, mq_store = empty_store, mq_sent = []\<rparr> = Inr c'
    \<and> outbox_ok (mq_store c')"
  using reliable_publish_not_lost [of "\<lparr>mq_robot_id = ''r'', mq_session_id = ''s'', mq_replay_batch_size = 20,
      mq_sequence = 0, mq_connected = True, mq_store = empty_store, mq_sent = []\<rparr>" 1
      "[(''message_type'', PStr ''command.ack''), (''payload'', PDict [])]" "''command.ack''" "[]"
      "\<lparr>pu_rc_success = True, pu_is_published = False\<rparr>" "''t''" False True]
  by (auto simp: empty_store_ok)

text \<open>Replay neither loses nor drops. On a well-formed outbox whose rows carry a message type, a replay does not
  raise, sends at most the configured number of pending rows in listing order, and removes exactly those rows that the
  library took over and that are not trajectory batches; trajectory batches wait for the center's own
  acknowledgement.\<close>

theorem replay_keeps_unacknowledged:
  assumes "outbox_ok (mq_store c)" "\<forall>r \<in> set (st_outbox (mq_store c)). has_key (ob_payload r) ''message_type''"
  defines "rows \<equiv> (if mq_connected c then list_pending_outbox (max 1 (mq_replay_batch_size c)) (mq_store c) else [])"
  shows "\<exists>c'. replay_outbox net c = Inr (c', int (length rows)) \<and> int (length rows) \<le> max 1 (mq_replay_batch_size c)
    \<and> map sn_payload (mq_sent c') = map sn_payload (mq_sent c) @ replay_sent net 0 rows
    \<and> st_outbox (mq_store c') = filter (\<lambda>r. ob_id r \<notin> set (replay_acks net 0 rows)) (st_outbox (mq_store c))
    \<and> (\<forall>r \<in> set (st_outbox (mq_store c)). dget (ob_payload r) ''message_type'' = PStr ''trajectory.batch''
         \<longrightarrow> r \<in> set (st_outbox (mq_store c')))"
proof -
  have sub: "set rows \<subseteq> set (st_outbox (mq_store c))"
    by (auto simp: rows_def list_pending_outbox_def Let_def dest: in_set_takeD split: if_splits)
  have len: "int (length rows) \<le> max 1 (mq_replay_batch_size c)"
    by (auto simp: rows_def list_pending_outbox_def Let_def)
  obtain c' where c': "replay_rows net 0 rows c = Inr c'"
    "st_outbox (mq_store c') = filter (\<lambda>r. ob_id r \<notin> set (replay_acks net 0 rows)) (st_outbox (mq_store c))"
    "map sn_payload (mq_sent c') = map sn_payload (mq_sent c) @ replay_sent net 0 rows"
    using replay_rows_result [of rows net 0 c] sub assms(2) by blast
  have "\<exists>row \<in> set rows. ob_id row = k \<and> dget (ob_payload row) ''message_type'' \<noteq> PStr ''trajectory.batch''"
    if "k \<in> set (replay_acks net i rows)" for k i and rows :: "outbox_row list"
    using that by (induction rows arbitrary: i) (auto split: if_splits)
  then have acked: "\<exists>row \<in> set (st_outbox (mq_store c)). ob_id row = k
      \<and> dget (ob_payload row) ''message_type'' \<noteq> PStr ''trajectory.batch''" if "k \<in> set (replay_acks net 0 rows)" for k
    using that sub by blast
  have inj: "inj_on ob_id (set (st_outbox (mq_store c)))"
    using assms(1) by (simp add: outbox_ok_def strict_sorted_iff distinct_map)
  have traj: "r \<in> set (st_outbox (mq_store c'))"
    if "r \<in> set (st_outbox (mq_store c))" "dget (ob_payload r) ''message_type'' = PStr ''trajectory.batch''" for r
    using that acked inj_onD [OF inj] unfolding c'(2) by fastforce
  have "replay_outbox net c = Inr (c', int (length rows))"
    using c'(1) by (auto simp: replay_outbox_def rows_def Let_def)
  with c' len traj show ?thesis by blast
qed

theorem replay_keeps_unacknowledged_witness:
  "\<exists>c'. replay_outbox (\<lambda>_. \<lparr>pu_rc_success = True, pu_is_published = True\<rparr>)
      \<lparr>mq_robot_id = ''r'', mq_session_id = ''s'', mq_replay_batch_size = 20, mq_sequence = 0,
       mq_connected = True, mq_store = sample_box, mq_sent = []\<rparr> = Inr (c', 1) \<and> st_outbox (mq_store c') = []"
proof -
  have ok: "outbox_ok sample_box" unfolding sample_box_def by (rule outbox_run_ok [OF empty_store_ok])
  have rows: "st_outbox sample_box = [\<lparr>ob_id = 1, ob_topic = ''t'', ob_qos = 1, ob_retain = False,
      ob_message_type = ''command.result'', ob_dedupe_key = Some ''k'',
      ob_payload = [(''message_type'', PStr ''command.result'')]\<rparr>]"
    by (simp add: sample_box_def empty_store_def enqueue_outbox_def insert_row_def key_pending_def)
  show ?thesis
    using replay_keeps_unacknowledged [of "\<lparr>mq_robot_id = ''r'', mq_session_id = ''s'', mq_replay_batch_size = 20,
      mq_sequence = 0, mq_connected = True, mq_store = sample_box, mq_sent = []\<rparr>"
      "\<lambda>_. \<lparr>pu_rc_success = True, pu_is_published = True\<rparr>"] ok
    by (simp add: rows list_pending_outbox_def) blast
qed

end
