(* ===== verification/MotionSearch.thy ===== *)
theory MotionSearch
  imports PyText
begin

text \<open>
  The safety-gated motion search of relocalization (\<open>edge-agent/roamerx_edge/relocalization_motion_search.py\<close>): a state
  machine that rotates, then moves a short distance, confirms standstill and lets a verifier judge the pose. The
  callbacks are parameters: their answers are arguments of the transitions, and calls of \<open>stop_motion\<close> are counted.
\<close>

section \<open>State\<close>

datatype search_state = IDLE | SAFETY_CHECK | ROTATE | SHORT_MOVE | STOP_CONFIRM | VERIFY | ACCEPTED | FAILED_STOP

record search_config =
  sg_enabled :: bool
  sg_rotate_steps_deg :: "real list"
  sg_move_distances_m :: "real list"
  sg_stop_speed_mps :: real
  sg_stop_yaw_rate_rps :: real

definition default_search_config :: search_config where
  "default_search_config = \<lparr>sg_enabled = False, sg_rotate_steps_deg = [0, 45, - 45, 90, - 90, 135, - 135, 180],
     sg_move_distances_m = [3 / 10, 6 / 10, 1], sg_stop_speed_mps = 3 / 100, sg_stop_yaw_rate_rps = 3 / 100\<rparr>"

record search_context =
  sx_state :: search_state
  sx_phase :: string
  sx_candidate_index :: int
  sx_attempts :: "pydict list"
  sx_failure_reason :: "string option"
  sx_stops :: nat

definition new_context :: "search_state \<Rightarrow> nat \<Rightarrow> search_context" where
  "new_context st stops = \<lparr>sx_state = st, sx_phase = ''rotate'', sx_candidate_index = 0, sx_attempts = [],
     sx_failure_reason = None, sx_stops = stops\<rparr>"

section \<open>Transitions\<close>

definition search_fail :: "string \<Rightarrow> search_context \<Rightarrow> search_context" where
  "search_fail reason x = x\<lparr>sx_stops := Suc (sx_stops x), sx_failure_reason := Some reason, sx_state := FAILED_STOP\<rparr>"

definition search_start :: "search_config \<Rightarrow> bool \<times> string \<Rightarrow> search_context \<Rightarrow> search_context pyres" where
  "search_start cfg safety x =
     (if \<not> sg_enabled cfg then Inl (RuntimeError ''motion search is disabled'')
      else let x1 = new_context SAFETY_CHECK (sx_stops x)
           in Inr (if \<not> fst safety then search_fail (snd safety) x1 else x1\<lparr>sx_state := ROTATE\<rparr>))"

fun float_abs :: "pyfloat \<Rightarrow> pyfloat" where
  "float_abs (Fin x) = Fin \<bar>x\<bar>"
| "float_abs NegInf = PosInf"
| "float_abs f = f"

definition submit_stop_sample :: "search_config \<Rightarrow> pyfloat \<Rightarrow> pyfloat \<Rightarrow> search_context \<Rightarrow> search_context" where
  "submit_stop_sample cfg speed yaw_rate x =
     (if sx_state x \<notin> {ROTATE, SHORT_MOVE, STOP_CONFIRM} then x
      else if float_lt (Fin (sg_stop_speed_mps cfg)) (float_abs speed)
           \<or> float_lt (Fin (sg_stop_yaw_rate_rps cfg)) (float_abs yaw_rate)
        then x\<lparr>sx_state := STOP_CONFIRM\<rparr>
      else x\<lparr>sx_state := VERIFY\<rparr>)"

definition next_candidate :: "search_config \<Rightarrow> search_context \<Rightarrow> search_context" where
  "next_candidate cfg x0 =
     (let x = x0\<lparr>sx_candidate_index := sx_candidate_index x0 + 1\<rparr> in
      if sx_phase x = ''rotate'' \<and> sx_candidate_index x < int (length (sg_rotate_steps_deg cfg))
        then x\<lparr>sx_state := ROTATE\<rparr>
      else
        let y = (if sx_phase x = ''rotate'' then x\<lparr>sx_phase := ''short_move'', sx_candidate_index := 0\<rparr> else x)
        in if sx_candidate_index y < int (length (sg_move_distances_m cfg)) then y\<lparr>sx_state := SHORT_MOVE\<rparr>
           else search_fail ''all_motion_search_candidates_rejected'' y)"

text \<open>The verifier's answer may be \<open>None\<close>; the candidate is added when the answer does not carry one.\<close>

definition verify_result :: "pydict \<Rightarrow> pydict option \<Rightarrow> pydict" where
  "verify_result candidate answer =
     (let r = (case answer of None \<Rightarrow> [] | Some d \<Rightarrow> d)
      in if has_key r ''candidate'' then r else r @ [(''candidate'', PDict candidate)])"

definition search_verify :: "search_config \<Rightarrow> pydict \<Rightarrow> pydict option \<Rightarrow> search_context \<Rightarrow> search_context" where
  "search_verify cfg candidate answer x =
     (if sx_state x \<noteq> VERIFY then x
      else let r = verify_result candidate answer; y = x\<lparr>sx_attempts := sx_attempts x @ [r]\<rparr>
           in if truthy (dget r ''accepted'') then y\<lparr>sx_state := ACCEPTED\<rparr> else next_candidate cfg y)"

section \<open>Runs of one search\<close>

inductive search_step :: "search_config \<Rightarrow> search_context \<Rightarrow> search_context \<Rightarrow> bool" for cfg where
  sample_step: "search_step cfg x (submit_stop_sample cfg speed yaw_rate x)"
| verify_step: "search_step cfg x (search_verify cfg candidate answer x)"
| fail_step: "search_step cfg x (search_fail reason x)"

inductive search_run :: "search_config \<Rightarrow> search_context \<Rightarrow> bool" for cfg where
  run_start: "search_start cfg safety x0 = Inr x \<Longrightarrow> search_run cfg x"
| run_step: "search_run cfg x \<Longrightarrow> search_step cfg x y \<Longrightarrow> search_run cfg y"

inductive_cases search_stepE: "search_step cfg x y"

text \<open>The number of candidates a search tries at most: every rotation (at least the first), then every move.\<close>

definition candidate_limit :: "search_config \<Rightarrow> int" where
  "candidate_limit cfg = max 1 (int (length (sg_rotate_steps_deg cfg))) + int (length (sg_move_distances_m cfg))"

text \<open>The candidates that are still to be tried, the current one included.\<close>

definition candidates_left :: "search_config \<Rightarrow> search_context \<Rightarrow> int" where
  "candidates_left cfg x =
     (if sx_state x \<in> {ACCEPTED, FAILED_STOP} then 0
      else if sx_phase x = ''rotate''
        then max 1 (int (length (sg_rotate_steps_deg cfg)) - sx_candidate_index x) + int (length (sg_move_distances_m cfg))
      else int (length (sg_move_distances_m cfg)) - sx_candidate_index x)"

definition search_ok :: "search_config \<Rightarrow> search_context \<Rightarrow> bool" where
  "search_ok cfg x =
     (int (length (sx_attempts x)) + candidates_left cfg x \<le> candidate_limit cfg
      \<and> sx_phase x \<in> {''rotate'', ''short_move''} \<and> 0 \<le> sx_candidate_index x
      \<and> (sx_phase x = ''rotate'' \<longrightarrow> sx_candidate_index x \<le> max 0 (int (length (sg_rotate_steps_deg cfg)) - 1)
           \<or> sx_state x = FAILED_STOP)
      \<and> (sx_phase x = ''short_move'' \<and> sx_state x \<noteq> FAILED_STOP \<longrightarrow>
           sx_candidate_index x < int (length (sg_move_distances_m cfg)))
      \<and> (sx_state x = FAILED_STOP \<longrightarrow> sx_failure_reason x \<noteq> None \<and> 0 < sx_stops x)
      \<and> (sx_state x = ACCEPTED \<longrightarrow> sx_attempts x \<noteq> [] \<and> truthy (dget (last (sx_attempts x)) ''accepted'')))"

lemma left_nonneg: "search_ok cfg x \<Longrightarrow> 0 \<le> candidates_left cfg x"
  by (auto simp: search_ok_def candidates_left_def)

lemma fail_ok:
  assumes "search_ok cfg x"
  shows "search_ok cfg (search_fail reason x)"
proof -
  have "candidates_left cfg (search_fail reason x) = 0" by (simp add: candidates_left_def search_fail_def)
  with assms left_nonneg [OF assms] show ?thesis
    unfolding search_ok_def by (simp add: search_fail_def)
qed

lemma set_state_ok:
  assumes "search_ok cfg x" "sx_state x \<notin> {ACCEPTED, FAILED_STOP}" "st \<notin> {ACCEPTED, FAILED_STOP}"
  shows "search_ok cfg (x\<lparr>sx_state := st\<rparr>)"
proof -
  have "candidates_left cfg (x\<lparr>sx_state := st\<rparr>) = candidates_left cfg x"
    using assms(2,3) by (simp add: candidates_left_def)
  with assms show ?thesis unfolding search_ok_def by simp
qed

lemma sample_ok:
  assumes "search_ok cfg x"
  shows "search_ok cfg (submit_stop_sample cfg speed yaw x)"
proof (cases "sx_state x \<in> {ROTATE, SHORT_MOVE, STOP_CONFIRM}")
  case True
  then have active: "sx_state x \<notin> {ACCEPTED, FAILED_STOP}" by auto
  have "search_ok cfg (x\<lparr>sx_state := STOP_CONFIRM\<rparr>)" "search_ok cfg (x\<lparr>sx_state := VERIFY\<rparr>)"
    by (rule set_state_ok [OF assms active], simp)+
  then show ?thesis using assms unfolding submit_stop_sample_def by simp
qed (simp add: submit_stop_sample_def assms)

lemma next_candidate_ok:
  assumes "search_ok cfg x" "sx_state x = VERIFY"
  shows "search_ok cfg (next_candidate cfg (x\<lparr>sx_attempts := sx_attempts x @ [r]\<rparr>))"
  using assms
  by (auto simp: search_ok_def next_candidate_def candidates_left_def search_fail_def Let_def split: if_splits)

lemma verify_ok: "search_ok cfg x \<Longrightarrow> search_ok cfg (search_verify cfg candidate answer x)"
proof (cases "sx_state x = VERIFY")
  case True
  assume ok: "search_ok cfg x"
  have "candidates_left cfg x \<ge> 1" using ok True by (auto simp: search_ok_def candidates_left_def)
  then show ?thesis
    using ok True next_candidate_ok [OF ok True]
    by (auto simp: search_verify_def Let_def) (auto simp: search_ok_def candidates_left_def)
qed (simp add: search_verify_def)

lemma start_ok: "search_start cfg safety x0 = Inr x \<Longrightarrow> search_ok cfg x"
  by (auto simp: search_start_def search_ok_def candidates_left_def candidate_limit_def new_context_def
      search_fail_def Let_def split: if_splits)

lemma search_run_ok: "search_run cfg x \<Longrightarrow> search_ok cfg x"
  by (induction rule: search_run.induct) (auto elim!: search_stepE simp: start_ok sample_ok verify_ok fail_ok)

section \<open>Properties\<close>

text \<open>The motion search is bounded and ends safely. In every run of a search, started only when it is enabled, the
  verifier is asked at most once per rotation step and move distance; a search that failed has commanded a stop and
  names its reason; and a search is accepted only on an answer of the verifier that accepts.\<close>

theorem motion_search_bounded:
  assumes "search_run cfg x"
  shows "int (length (sx_attempts x)) \<le> candidate_limit cfg
    \<and> (sx_state x = FAILED_STOP \<longrightarrow> sx_failure_reason x \<noteq> None \<and> 0 < sx_stops x)
    \<and> (sx_state x = ACCEPTED \<longrightarrow> sx_attempts x \<noteq> [] \<and> truthy (dget (last (sx_attempts x)) ''accepted''))"
proof -
  have ok: "search_ok cfg x" using assms by (rule search_run_ok)
  then have "0 \<le> candidates_left cfg x" by (auto simp: search_ok_def candidates_left_def)
  with ok show ?thesis by (auto simp: search_ok_def)
qed

definition sample_search :: search_config where
  "sample_search = default_search_config\<lparr>sg_enabled := True\<rparr>"

theorem motion_search_bounded_witness:
  "\<exists>x. search_run sample_search x \<and> sx_state x = ACCEPTED \<and> int (length (sx_attempts x)) \<le> 11"
proof -
  let ?x0 = "new_context IDLE 0"
  let ?x1 = "(new_context SAFETY_CHECK 0)\<lparr>sx_state := ROTATE\<rparr>"
  let ?x2 = "submit_stop_sample sample_search (Fin 0) (Fin 0) ?x1"
  let ?x3 = "search_verify sample_search [] (Some [(''accepted'', PBool True)]) ?x2"
  have "search_start sample_search (True, []) ?x0 = Inr ?x1"
    by (simp add: search_start_def sample_search_def default_search_config_def new_context_def)
  then have "search_run sample_search ?x1" by (rule run_start)
  from run_step [OF run_step [OF this sample_step] verify_step]
  have run: "search_run sample_search ?x3" .
  have "sx_state ?x3 = ACCEPTED"
    by (simp add: submit_stop_sample_def search_verify_def verify_result_def sample_search_def default_search_config_def
        new_context_def)
  moreover have "candidate_limit sample_search = 11"
    by (simp add: candidate_limit_def sample_search_def default_search_config_def)
  ultimately show ?thesis using run motion_search_bounded [OF run] by auto
qed

text \<open>Progress of the search: from a state in which the verifier is to be asked, every answer that does not accept
  strictly decreases the number of candidates that are left, so the search cannot cycle.\<close>

theorem motion_search_progress:
  assumes "search_run cfg x" "sx_state x = VERIFY"
  shows "candidates_left cfg (search_verify cfg candidate answer x) < candidates_left cfg x
    \<and> sx_state (search_verify cfg candidate answer x) \<in> {ACCEPTED, ROTATE, SHORT_MOVE, FAILED_STOP}"
proof -
  have ok: "search_ok cfg x" using assms(1) by (rule search_run_ok)
  have "1 \<le> candidates_left cfg x" using ok assms(2) by (auto simp: search_ok_def candidates_left_def)
  then show ?thesis
    using ok assms(2)
    by (auto simp: search_verify_def next_candidate_def search_fail_def candidates_left_def search_ok_def Let_def)
qed

theorem motion_search_progress_witness:
  "\<exists>x. search_run sample_search x \<and> candidates_left sample_search (search_verify sample_search [] None x)
     < candidates_left sample_search x"
proof -
  let ?x1 = "(new_context SAFETY_CHECK 0)\<lparr>sx_state := ROTATE\<rparr>"
  let ?x2 = "submit_stop_sample sample_search (Fin 0) (Fin 0) ?x1"
  have "search_start sample_search (True, []) (new_context IDLE 0) = Inr ?x1"
    by (simp add: search_start_def sample_search_def default_search_config_def new_context_def)
  then have "search_run sample_search ?x1" by (rule run_start)
  from run_step [OF this sample_step] have run: "search_run sample_search ?x2" .
  moreover have "sx_state ?x2 = VERIFY"
    by (simp add: submit_stop_sample_def sample_search_def default_search_config_def new_context_def)
  ultimately show ?thesis using motion_search_progress [OF run] by blast
qed

end
