(* ===== verification/Boundary.thy ===== *)
theory Boundary
  imports PyText
begin

text \<open>
  The navigation boundary (\<open>edge-agent/roamerx_edge/navigation_boundary.py\<close>): the point-in-polygon and distance
  computations, applying a boundary, admission of goals and routes, and the runtime watchdog. Coordinates are real
  numbers; a polygon is a list of points; the persisted metadata entry is a field of the state; writing the keepout mask
  is outside the model and its outcome is an argument. The watchdog's regions are sets: their listing order in the
  events is not fixed by the code.
\<close>

section \<open>Geometry\<close>

type_synonym point = "real \<times> real"

definition crosses :: "real \<Rightarrow> real \<Rightarrow> point \<Rightarrow> point \<Rightarrow> bool" where
  "crosses x y cur prev =
     (let xi = fst cur; yi = snd cur; xj = fst prev; yj = snd prev in
      ((yi > y) \<noteq> (yj > y))
      \<and> x < (xj - xi) * (y - yi) / (if yj - yi = 0 then 1 / 10 ^ 12 else yj - yi) + xi)"

text \<open>The loop over the vertices with the previous vertex carried along.\<close>

fun crossing_loop :: "real \<Rightarrow> real \<Rightarrow> point \<Rightarrow> point list \<Rightarrow> bool \<Rightarrow> bool" where
  "crossing_loop x y prev [] inside = inside"
| "crossing_loop x y prev (cur # ps) inside =
     crossing_loop x y cur ps (if crosses x y cur prev then \<not> inside else inside)"

definition point_in_polygon :: "real \<Rightarrow> real \<Rightarrow> point list \<Rightarrow> bool" where
  "point_in_polygon x y polygon =
     (if length polygon < 3 then False else crossing_loop x y (last polygon) polygon False)"

definition point_to_segment_distance :: "real \<Rightarrow> real \<Rightarrow> point \<Rightarrow> point \<Rightarrow> real" where
  "point_to_segment_distance x y a b =
     (let dx = fst b - fst a; dy = snd b - snd a; length_squared = dx * dx + dy * dy in
      if length_squared \<le> 1 / 10 ^ 18 then sqrt ((x - fst a)\<^sup>2 + (y - snd a)\<^sup>2)
      else let ratio = max 0 (min 1 (((x - fst a) * dx + (y - snd a) * dy) / length_squared))
           in sqrt ((x - (fst a + ratio * dx))\<^sup>2 + (y - (snd a + ratio * dy))\<^sup>2))"

definition edge_distances :: "real \<Rightarrow> real \<Rightarrow> point list \<Rightarrow> real list" where
  "edge_distances x y polygon =
     map (\<lambda>i. point_to_segment_distance x y (polygon ! i) (polygon ! ((i + 1) mod length polygon))) [0..<length polygon]"

definition distance_to_polygon :: "real \<Rightarrow> real \<Rightarrow> point list \<Rightarrow> pyfloat" where
  "distance_to_polygon x y polygon =
     (if length polygon < 2 then PosInf else Fin (Min (set (edge_distances x y polygon))))"

section \<open>State\<close>

record zone =
  zn_key :: string
  zn_name :: string
  zn_zone_type :: string
  zn_polygon :: "point list"
  zn_warning_distance_m :: real
  zn_speed_limit_mps :: "real option"

record boundary =
  bd_map_id :: string
  bd_map_version :: string
  bd_revision :: int
  bd_outer_polygon :: "point list"
  bd_safety_margin_m :: real
  bd_zones :: "zone list"

text \<open>\<open>bm_last_speed\<close> is \<open>None\<close> after \<open>retry_speed_application\<close>: a fresh object that equals no speed.\<close>

record boundary_manager =
  bm_active :: "boundary option"
  bm_saved :: "boundary option"
  bm_last_region_keys :: "string set"
  bm_last_warning_near_keys :: "string set"
  bm_last_violation :: string
  bm_last_speed :: "real option option"

record boundary_command =
  bc_map_id :: string
  bc_map_version :: string
  bc_revision :: int
  bc_outer_polygon :: "pyfloat list list"
  bc_safety_margin_m :: real
  bc_zones :: "(zone \<times> bool) list"

section \<open>Applying\<close>

fun finite_point :: "pyfloat list \<Rightarrow> point option" where
  "finite_point [Fin x, Fin y] = Some (x, y)"
| "finite_point _ = None"

definition boundary_invalid :: "string \<Rightarrow> pyexc" where
  "boundary_invalid text = protocol_error ''BOUNDARY_INVALID'' text"

definition build_boundary :: "boundary_command \<Rightarrow> boundary pyres" where
  "build_boundary cmd =
     (if bc_map_id cmd = [] \<or> bc_revision cmd \<le> 0 \<or> length (bc_outer_polygon cmd) < 3
        then Inl (boundary_invalid ''<boundary lacks map, revision or outer polygon>'')
      else if list_ex (\<lambda>p. finite_point p = None) (bc_outer_polygon cmd)
        then Inl (boundary_invalid ''<invalid boundary coordinates>'')
      else Inr \<lparr>bd_map_id = bc_map_id cmd, bd_map_version = bc_map_version cmd, bd_revision = bc_revision cmd,
        bd_outer_polygon = map (the \<circ> finite_point) (bc_outer_polygon cmd), bd_safety_margin_m = bc_safety_margin_m cmd,
        bd_zones = map fst (filter snd (bc_zones cmd))\<rparr>)"

text \<open>The mask is written after the active boundary is replaced and before it is persisted.\<close>

definition apply_boundary ::
  "bool pyres \<Rightarrow> boundary_command \<Rightarrow> boundary_manager \<Rightarrow> boundary_manager \<times> (string \<times> int \<times> int \<times> string) pyres" where
  "apply_boundary mask_result cmd m =
     (case build_boundary cmd of
        Inl x \<Rightarrow> (m, Inl x)
      | Inr b \<Rightarrow>
          (case mask_result of
             Inl x \<Rightarrow> (m\<lparr>bm_active := Some b\<rparr>, Inl x)
           | Inr written \<Rightarrow>
               (m\<lparr>bm_active := Some b, bm_saved := Some b\<rparr>,
                Inr (bd_map_id b, bd_revision b, int (length (bd_zones b)),
                     if written then ''nav2_keepout_filter_and_edge_watchdog'' else ''edge_admission_and_runtime_watchdog''))))"

definition active_map_id :: "boundary_manager \<Rightarrow> string" where
  "active_map_id m = (case bm_active m of None \<Rightarrow> [] | Some b \<Rightarrow> bd_map_id b)"

definition activate_map :: "string \<Rightarrow> boundary_manager \<Rightarrow> boundary_manager \<times> bool" where
  "activate_map map_id m =
     (if active_map_id m = map_id then (m, False)
      else (\<lparr>bm_active = None, bm_saved = None, bm_last_region_keys = {}, bm_last_warning_near_keys = {},
             bm_last_violation = [], bm_last_speed = Some None\<rparr>, True))"

section \<open>Admission\<close>

definition no_expectation :: "pyval \<Rightarrow> bool" where
  "no_expectation v = (v = PNone \<or> py_eq_int v 0 \<or> v = PStr ''0'' \<or> v = PStr [])"

definition active_revision :: "boundary_manager \<Rightarrow> int" where
  "active_revision m = (case bm_active m of None \<Rightarrow> 0 | Some b \<Rightarrow> bd_revision b)"

definition revision_mismatch :: pyexc where
  "revision_mismatch = protocol_error ''BOUNDARY_REVISION_MISMATCH'' ''<boundary revision differs>''"

definition validate_expected :: "string \<Rightarrow> pyval \<Rightarrow> boundary_manager \<Rightarrow> unit pyres" where
  "validate_expected map_id expected m =
     (if no_expectation expected then Inr ()
      else if active_map_id m \<noteq> map_id then Inl revision_mismatch
      else bindE (py_int expected) (\<lambda>e. raise_if (active_revision m \<noteq> e) revision_mismatch))"

definition in_forbidden :: "real \<Rightarrow> real \<Rightarrow> real \<Rightarrow> zone \<Rightarrow> bool" where
  "in_forbidden margin x y z = (zn_zone_type z = ''forbidden''
     \<and> (point_in_polygon x y (zn_polygon z) \<or> float_lt (distance_to_polygon x y (zn_polygon z)) (Fin margin)))"

definition outside_outer :: "real \<Rightarrow> real \<Rightarrow> real \<Rightarrow> point list \<Rightarrow> bool" where
  "outside_outer margin x y outer =
     (\<not> point_in_polygon x y outer \<or> float_lt (distance_to_polygon x y outer) (Fin margin))"

definition validate_in :: "real \<Rightarrow> real \<Rightarrow> boundary \<Rightarrow> unit pyres" where
  "validate_in x y b =
     (let margin = max 0 (bd_safety_margin_m b) in seqE
       [raise_if (bd_outer_polygon b \<noteq> [] \<and> outside_outer margin x y (bd_outer_polygon b))
          (protocol_error ''GOAL_OUTSIDE_NAVIGATION_BOUNDARY'' ''<goal outside the drivable boundary>''),
        for_each 0 (\<lambda>_ z. raise_if (in_forbidden margin x y z)
          (protocol_error ''GOAL_IN_FORBIDDEN_ZONE'' (''<goal in forbidden zone> '' @ zn_name z))) (bd_zones b)])"

definition validate_point :: "string \<Rightarrow> real \<Rightarrow> real \<Rightarrow> pyval \<Rightarrow> boundary_manager \<Rightarrow> unit pyres" where
  "validate_point map_id x y expected m =
     bindE (validate_expected map_id expected m) (\<lambda>_.
       (if active_map_id m \<noteq> map_id then Inr ()
        else (case bm_active m of None \<Rightarrow> Inr () | Some b \<Rightarrow> validate_in x y b)))"

text \<open>The points that are checked on a leg besides its end points: at most every five centimetres.\<close>

definition leg_samples :: "point \<Rightarrow> point \<Rightarrow> int" where
  "leg_samples a b = min 2000 (max 1 \<lceil>sqrt ((fst b - fst a)\<^sup>2 + (snd b - snd a)\<^sup>2) / (5 / 100)\<rceil>)"

definition leg_point :: "point \<Rightarrow> point \<Rightarrow> real \<Rightarrow> point" where
  "leg_point a b t = (fst a + t * (fst b - fst a), snd a + t * (snd b - snd a))"

definition leg_points :: "point \<Rightarrow> point \<Rightarrow> point list" where
  "leg_points a b =
     (let n = leg_samples a b in map (\<lambda>i. leg_point a b (of_int i / of_int n)) [1..n - 1])"

definition validate_points :: "string \<Rightarrow> pyval \<Rightarrow> boundary_manager \<Rightarrow> point list \<Rightarrow> unit pyres" where
  "validate_points map_id expected m ps = for_each 0 (\<lambda>_ p. validate_point map_id (fst p) (snd p) expected m) ps"

definition validate_route :: "string \<Rightarrow> pyval \<Rightarrow> point list \<Rightarrow> boundary_manager \<Rightarrow> unit pyres" where
  "validate_route map_id expected waypoints m = seqE
     [validate_expected map_id expected m,
      validate_points map_id expected m waypoints,
      for_each 0 (\<lambda>_ leg. validate_points map_id expected m (leg_points (fst leg) (snd leg)))
        (zip waypoints (tl waypoints))]"

section \<open>The watchdog\<close>

record observation =
  oz_violation :: string
  oz_violation_changed :: bool
  oz_speed_limit :: "real option"
  oz_speed_changed :: bool
  oz_entered :: "string set"
  oz_exited :: "string set"
  oz_approaching :: "string set"
  oz_approach_cleared :: "string set"

definition quiet :: observation where
  "quiet = \<lparr>oz_violation = [], oz_violation_changed = False, oz_speed_limit = None, oz_speed_changed = False,
     oz_entered = {}, oz_exited = {}, oz_approaching = {}, oz_approach_cleared = {}\<rparr>"

definition zones_inside :: "real \<Rightarrow> real \<Rightarrow> boundary \<Rightarrow> zone list" where
  "zones_inside x y b = filter (\<lambda>z. point_in_polygon x y (zn_polygon z)) (bd_zones b)"

definition near_warning :: "real \<Rightarrow> real \<Rightarrow> zone \<Rightarrow> bool" where
  "near_warning x y z = (zn_zone_type z = ''warning'' \<and> \<not> point_in_polygon x y (zn_polygon z)
     \<and> float_le (distance_to_polygon x y (zn_polygon z)) (Fin (max 0 (zn_warning_distance_m z))))"

definition forbidden_text :: "zone \<Rightarrow> string" where
  "forbidden_text z = ''forbidden:'' @ zn_key z"

text \<open>The loops: the last forbidden zone the pose is inside decides; otherwise the first one within the margin.\<close>

definition violation_of :: "real \<Rightarrow> real \<Rightarrow> boundary \<Rightarrow> string" where
  "violation_of x y b =
     (let margin = max 0 (bd_safety_margin_m b);
          outer = (if outside_outer margin x y (bd_outer_polygon b) then ''outside_boundary'' else []);
          inside = filter (\<lambda>z. zn_zone_type z = ''forbidden'') (zones_inside x y b);
          v = (if inside = [] then outer else forbidden_text (last inside)) in
      if v \<noteq> [] then v
      else case filter (\<lambda>z. zn_zone_type z = ''forbidden''
             \<and> float_lt (distance_to_polygon x y (zn_polygon z)) (Fin margin)) (bd_zones b) of
             [] \<Rightarrow> [] | z # _ \<Rightarrow> forbidden_text z)"

definition speed_limit_of :: "real \<Rightarrow> real \<Rightarrow> boundary \<Rightarrow> real option" where
  "speed_limit_of x y b =
     (case concat (map (\<lambda>z. case zn_speed_limit_mps z of None \<Rightarrow> [] | Some v \<Rightarrow> [v])
             (filter (\<lambda>z. zn_zone_type z = ''restricted'') (zones_inside x y b))) of
        [] \<Rightarrow> None | v # vs \<Rightarrow> Some (fold min vs v))"

definition observe_pose :: "string \<Rightarrow> real \<Rightarrow> real \<Rightarrow> boundary_manager \<Rightarrow> boundary_manager \<times> observation" where
  "observe_pose map_id x y m =
     (case bm_active m of
        None \<Rightarrow> (m, quiet)
      | Some b \<Rightarrow>
          if bd_map_id b \<noteq> map_id then (m, quiet)
          else
            let regions = zn_key ` set (zones_inside x y b);
                near = zn_key ` set (filter (near_warning x y) (bd_zones b));
                v = violation_of x y b; speed = speed_limit_of x y b
            in (m\<lparr>bm_last_region_keys := regions, bm_last_warning_near_keys := near, bm_last_violation := v,
                  bm_last_speed := Some speed\<rparr>,
                \<lparr>oz_violation = v, oz_violation_changed = (v \<noteq> bm_last_violation m), oz_speed_limit = speed,
                 oz_speed_changed = (Some speed \<noteq> bm_last_speed m),
                 oz_entered = regions - bm_last_region_keys m, oz_exited = bm_last_region_keys m - regions,
                 oz_approaching = near - bm_last_warning_near_keys m,
                 oz_approach_cleared = bm_last_warning_near_keys m - near - regions\<rparr>))"

definition retry_speed_application :: "boundary_manager \<Rightarrow> boundary_manager" where
  "retry_speed_application m = m\<lparr>bm_last_speed := None\<rparr>"

definition retry_violation_stop :: "boundary_manager \<Rightarrow> boundary_manager" where
  "retry_violation_stop m = m\<lparr>bm_last_violation := []\<rparr>"

section \<open>Lemmas\<close>

text \<open>A point that the active boundary admits.\<close>

definition admissible :: "boundary \<Rightarrow> point \<Rightarrow> bool" where
  "admissible b p =
     (let margin = max 0 (bd_safety_margin_m b) in
      (bd_outer_polygon b \<noteq> [] \<longrightarrow> point_in_polygon (fst p) (snd p) (bd_outer_polygon b)
         \<and> float_le (Fin margin) (distance_to_polygon (fst p) (snd p) (bd_outer_polygon b)))
      \<and> (\<forall>z \<in> set (bd_zones b). zn_zone_type z = ''forbidden'' \<longrightarrow>
           \<not> point_in_polygon (fst p) (snd p) (zn_polygon z)
           \<and> float_le (Fin margin) (distance_to_polygon (fst p) (snd p) (zn_polygon z))))"

lemma distance_not_lt:
  "float_lt (distance_to_polygon x y ps) (Fin m) \<longleftrightarrow> \<not> float_le (Fin m) (distance_to_polygon x y ps)"
  by (auto simp: distance_to_polygon_def)

lemma for_each_all: "for_each k (\<lambda>_. body) xs = Inr u \<longleftrightarrow> (\<forall>x \<in> set xs. body x = Inr ())"
  by (cases u) (simp add: for_each_ok all_set_conv_all_nth)

lemma validate_in_ok: "validate_in x y b = Inr () \<longleftrightarrow> admissible b (x, y)"
  unfolding validate_in_def admissible_def Let_def seqE_ok
  by (auto simp: for_each_all in_forbidden_def outside_outer_def distance_not_lt)

lemma validate_points_ok:
  assumes "validate_points map_id expected m ps = Inr ()" "bm_active m = Some b" "bd_map_id b = map_id" "p \<in> set ps"
  shows "admissible b p"
proof -
  have "validate_point map_id (fst p) (snd p) expected m = Inr ()"
    using assms(1,4) by (simp add: validate_points_def for_each_all)
  then show ?thesis
    using assms(2,3) by (simp add: validate_point_def active_map_id_def validate_in_ok)
qed

text \<open>Distances of points, and the distance to an edge as a function that changes no faster than the point moves.\<close>

definition gap :: "point \<Rightarrow> point \<Rightarrow> real" where
  "gap p q = sqrt ((fst p - fst q)\<^sup>2 + (snd p - snd q)\<^sup>2)"

lemma gap_commute: "gap p q = gap q p"
  by (simp add: gap_def power2_commute)

lemma gap_triangle: "gap p r \<le> gap p q + gap q r"
  using real_sqrt_sum_squares_triangle_ineq [of "fst p - fst q" "fst q - fst r" "snd p - snd q" "snd q - snd r"]
  by (simp add: gap_def)

text \<open>The foot of the perpendicular, cut off at the end points, is the nearest point of the segment.\<close>

lemma clamped_foot:
  fixes c d :: real
  assumes "0 < d" "0 \<le> r" "r \<le> 1"
  defines "s \<equiv> max 0 (min 1 (c / d))"
  shows "s * s * d - 2 * s * c \<le> r * r * d - 2 * r * c"
proof -
  have *: "0 \<le> (r - max 0 (min 1 e)) * (r + max 0 (min 1 e) - 2 * e)" for e
  proof -
    consider "e \<le> 0" | "1 \<le> e" | "0 < e" "e < 1" by linarith
    then show ?thesis
    proof cases
      case 1 then show ?thesis using assms(2) by simp
    next
      case 2 then show ?thesis using assms(3) by (simp add: mult_nonpos_nonpos)
    qed simp
  qed
  have "0 \<le> (r - s) * (r + s - 2 * (c / d))" unfolding s_def by (rule *)
  then have "0 \<le> d * ((r - s) * (r + s - 2 * (c / d)))" using assms(1) by simp
  moreover have "d * ((r - s) * (r + s - 2 * (c / d))) = (r * r * d - 2 * r * c) - (s * s * d - 2 * s * c)"
    using assms(1) by (simp add: field_simps)
  ultimately show ?thesis by simp
qed

lemma segment_distance_le:
  assumes "0 \<le> r" "r \<le> 1" "1 / 10 ^ 18 < (fst b - fst a)\<^sup>2 + (snd b - snd a)\<^sup>2"
  shows "point_to_segment_distance x y a b \<le> gap (x, y) (fst a + r * (fst b - fst a), snd a + r * (snd b - snd a))"
proof -
  define dx dy where "dx = fst b - fst a" and "dy = snd b - snd a"
  define c d where "c = (x - fst a) * dx + (y - snd a) * dy" and "d = dx * dx + dy * dy"
  let ?s = "max 0 (min 1 (c / d))"
  have d: "1 / 10 ^ 18 < d" using assms(3) by (simp add: d_def dx_def dy_def power2_eq_square)
  then have "0 < d" by (rule less_trans [rotated]) simp
  from clamped_foot [OF this assms(1,2), of c]
  have le: "?s * ?s * d - 2 * ?s * c \<le> r * r * d - 2 * r * c" .
  have sq: "(x - (fst a + t * dx))\<^sup>2 + (y - (snd a + t * dy))\<^sup>2
      = (x - fst a)\<^sup>2 + (y - snd a)\<^sup>2 + (t * t * d - 2 * t * c)" for t
    by (simp add: c_def d_def power2_eq_square algebra_simps)
  have "point_to_segment_distance x y a b = sqrt ((x - (fst a + ?s * dx))\<^sup>2 + (y - (snd a + ?s * dy))\<^sup>2)"
    using d by (simp add: point_to_segment_distance_def Let_def c_def d_def dx_def dy_def)
  also have "\<dots> \<le> sqrt ((x - (fst a + r * dx))\<^sup>2 + (y - (snd a + r * dy))\<^sup>2)"
    using le by (simp only: sq real_sqrt_le_iff add_left_mono)
  finally show ?thesis by (simp add: gap_def dx_def dy_def)
qed

lemma segment_distance_attained:
  obtains f where "point_to_segment_distance x y a b = gap (x, y) f"
    "\<And>x' y'. point_to_segment_distance x' y' a b \<le> gap (x', y') f"
proof (cases "(fst b - fst a) * (fst b - fst a) + (snd b - snd a) * (snd b - snd a) \<le> 1 / 10 ^ 18")
  case True
  then show ?thesis using that [of a] by (simp add: point_to_segment_distance_def Let_def gap_def)
next
  case False
  let ?r = "max 0 (min 1 (((x - fst a) * (fst b - fst a) + (y - snd a) * (snd b - snd a))
    / ((fst b - fst a) * (fst b - fst a) + (snd b - snd a) * (snd b - snd a))))"
  from False have big: "1 / 10 ^ 18 < (fst b - fst a)\<^sup>2 + (snd b - snd a)\<^sup>2" by (simp add: power2_eq_square)
  show ?thesis
  proof (rule that [of "(fst a + ?r * (fst b - fst a), snd a + ?r * (snd b - snd a))"])
    show "point_to_segment_distance x y a b = gap (x, y) (fst a + ?r * (fst b - fst a), snd a + ?r * (snd b - snd a))"
      using False by (simp add: point_to_segment_distance_def Let_def gap_def)
  qed (rule segment_distance_le [OF _ _ big], simp_all)
qed

lemma segment_distance_lipschitz:
  "point_to_segment_distance (fst p) (snd p) a b \<le> point_to_segment_distance (fst q) (snd q) a b + gap p q"
proof -
  obtain f where f: "point_to_segment_distance (fst q) (snd q) a b = gap q f"
    "\<And>x' y'. point_to_segment_distance x' y' a b \<le> gap (x', y') f"
    using segment_distance_attained [of "fst q" "snd q" a b] by auto
  have "point_to_segment_distance (fst p) (snd p) a b \<le> gap p f" using f(2) [of "fst p" "snd p"] by simp
  also have "\<dots> \<le> gap p q + gap q f" by (rule gap_triangle)
  finally show ?thesis using f(1) by simp
qed

text \<open>A polygon edge that is at least a distance away from an admitted point.\<close>

lemma edge_clearance:
  assumes "float_le (Fin m) (distance_to_polygon (fst q) (snd q) ps)" "i < length ps" "2 \<le> length ps"
  shows "m - gap q p \<le> point_to_segment_distance (fst p) (snd p) (ps ! i) (ps ! ((i + 1) mod length ps))"
proof -
  let ?d = "\<lambda>p. point_to_segment_distance (fst p) (snd p) (ps ! i) (ps ! ((i + 1) mod length ps))"
  have "m \<le> Min (set (edge_distances (fst q) (snd q) ps))"
    using assms(1,3) by (simp add: distance_to_polygon_def)
  also have "\<dots> \<le> ?d q" using assms(2) by (intro Min_le) (auto simp: edge_distances_def)
  also have "\<dots> \<le> ?d p + gap q p" by (rule segment_distance_lipschitz)
  finally show ?thesis by simp
qed

lemma leg_point_distance: "gap (leg_point a b s) (leg_point a b t) = \<bar>s - t\<bar> * gap a b"
proof -
  have "(fst (leg_point a b s) - fst (leg_point a b t))\<^sup>2 + (snd (leg_point a b s) - snd (leg_point a b t))\<^sup>2
      = (s - t)\<^sup>2 * ((fst b - fst a)\<^sup>2 + (snd b - snd a)\<^sup>2)"
    by (simp add: leg_point_def power2_eq_square algebra_simps)
  then show ?thesis by (simp add: gap_def real_sqrt_mult power2_commute [of "fst a"] power2_commute [of "snd a"])
qed

text \<open>A leg of at most a hundred metres is cut into steps of at most five centimetres.\<close>

lemma leg_step:
  assumes "gap a b \<le> 100"
  shows "1 \<le> leg_samples a b" "gap a b / of_int (leg_samples a b) \<le> 5 / 100"
proof -
  let ?n = "leg_samples a b" and ?c = "\<lceil>gap a b / (5 / 100)\<rceil>"
  have n: "?n = min 2000 (max 1 ?c)" by (simp add: leg_samples_def gap_def power2_commute)
  show pos: "1 \<le> ?n" by (simp add: n)
  have "?c \<le> 2000" using assms by (simp add: ceiling_le_iff)
  then have "?c \<le> ?n" by (simp add: n)
  then have "of_int ?c \<le> (of_int ?n :: real)" by (simp only: of_int_le_iff)
  with le_of_int_ceiling [of "gap a b / (5 / 100)"] have "gap a b / (5 / 100) \<le> of_int ?n" by linarith
  then show "gap a b / of_int ?n \<le> 5 / 100" using pos by (simp add: field_simps)
qed

text \<open>The nearest sample of a parameter in the unit interval is at most half a step away.\<close>

lemma nearest_sample:
  fixes t :: real
  assumes "1 \<le> n" "0 \<le> t" "t \<le> 1"
  shows "\<exists>i. 0 \<le> i \<and> i \<le> n \<and> \<bar>t - of_int i / of_int n\<bar> \<le> 1 / (2 * of_int n)"
proof -
  let ?i = "round (t * of_int n)"
  have n: "(0::real) < of_int n" using assms(1) by simp
  have near: "\<bar>of_int ?i - t * of_int n\<bar> \<le> 1 / 2" by (rule of_int_round_abs_le)
  have lo: "0 \<le> t * of_int n" and hi: "t * of_int n \<le> of_int n"
    using assms n by auto
  have "0 \<le> ?i" using round_mono [OF lo] by simp
  moreover have "?i \<le> n" using round_mono [OF hi] by simp
  moreover have "\<bar>t - of_int ?i / of_int n\<bar> = \<bar>t * of_int n - of_int ?i\<bar> / of_int n"
  proof -
    have "t - of_int ?i / of_int n = (t * of_int n - of_int ?i) / of_int n" using n by (simp add: field_simps)
    then show ?thesis using n by (simp only: abs_divide abs_of_pos)
  qed
  then have "\<bar>t - of_int ?i / of_int n\<bar> \<le> 1 / (2 * of_int n)"
    using near n by (simp add: field_simps abs_minus_commute)
  ultimately show ?thesis by blast
qed

lemma leg_point_near_checked:
  assumes "gap a b \<le> 100" "0 \<le> t" "t \<le> 1" "admissible bd a" "admissible bd b"
    "\<forall>p \<in> set (leg_points a b). admissible bd p"
  shows "\<exists>q. admissible bd q \<and> gap q (leg_point a b t) \<le> 1 / 40"
proof -
  let ?n = "leg_samples a b"
  note step = leg_step [OF assms(1)]
  obtain i where i: "0 \<le> i" "i \<le> ?n" "\<bar>t - of_int i / of_int ?n\<bar> \<le> 1 / (2 * of_int ?n)"
    using nearest_sample [OF step(1) assms(2,3)] by blast
  let ?q = "leg_point a b (of_int i / of_int ?n)"
  have "admissible bd ?q"
  proof -
    consider "i = 0" | "i = ?n" | "1 \<le> i" "i \<le> ?n - 1" using i by linarith
    then show ?thesis
    proof cases
      case 1 then show ?thesis using assms(4) by (simp add: leg_point_def)
    next
      case 2 then show ?thesis using assms(5) step(1) by (simp add: leg_point_def)
    next
      case 3 then show ?thesis using assms(6) by (auto simp: leg_points_def Let_def)
    qed
  qed
  moreover have "gap ?q (leg_point a b t) \<le> 1 / (2 * of_int ?n) * gap a b"
    unfolding leg_point_distance using i(3)
    by (intro mult_right_mono) (simp_all add: abs_minus_commute gap_def)
  moreover have "1 / (2 * of_int ?n) * gap a b \<le> 1 / 40" using step by (simp add: field_simps)
  ultimately show ?thesis by (meson order_trans)
qed

lemma validate_route_ok:
  assumes "validate_route map_id expected ws m = Inr ()" "bm_active m = Some b" "bd_map_id b = map_id"
  shows "p \<in> set ws \<Longrightarrow> admissible b p"
    "Suc i < length ws \<Longrightarrow> q \<in> set (leg_points (ws ! i) (ws ! Suc i)) \<Longrightarrow> admissible b q"
proof -
  have pts: "validate_points map_id expected m ws = Inr ()"
    and legs: "\<forall>leg \<in> set (zip ws (tl ws)). validate_points map_id expected m (leg_points (fst leg) (snd leg)) = Inr ()"
    using assms(1) by (auto simp: validate_route_def seqE_ok for_each_all)
  show "p \<in> set ws \<Longrightarrow> admissible b p" by (rule validate_points_ok [OF pts assms(2,3)])
  assume i: "Suc i < length ws" and q: "q \<in> set (leg_points (ws ! i) (ws ! Suc i))"
  have "(ws ! i, ws ! Suc i) \<in> set (zip ws (tl ws))"
    using i by (auto simp: set_zip nth_tl intro!: exI [of _ i])
  with legs have "validate_points map_id expected m (leg_points (ws ! i) (ws ! Suc i)) = Inr ()" by fastforce
  then show "admissible b q" using q by (rule validate_points_ok [OF _ assms(2,3)])
qed

section \<open>Properties\<close>

text \<open>At least \<open>d\<close> metres from every edge of a polygon.\<close>

definition clear_of :: "real \<Rightarrow> point \<Rightarrow> point list \<Rightarrow> bool" where
  "clear_of d p ps = (\<forall>k < length ps. d \<le> point_to_segment_distance (fst p) (snd p) (ps ! k) (ps ! ((k + 1) mod length ps)))"

lemma admissible_clear:
  assumes "admissible b q" "gap q p \<le> e"
  shows "2 \<le> length (bd_outer_polygon b) \<Longrightarrow> clear_of (max 0 (bd_safety_margin_m b) - e) p (bd_outer_polygon b)"
    "z \<in> set (bd_zones b) \<Longrightarrow> zn_zone_type z = ''forbidden'' \<Longrightarrow> 2 \<le> length (zn_polygon z)
       \<Longrightarrow> clear_of (max 0 (bd_safety_margin_m b) - e) p (zn_polygon z)"
proof -
  have lift: "clear_of (m - e) p ps" if "float_le (Fin m) (distance_to_polygon (fst q) (snd q) ps)" "2 \<le> length ps" for m ps
    using edge_clearance [OF that(1) _ that(2), of _ p] assms(2) by (fastforce simp: clear_of_def)
  show "clear_of (max 0 (bd_safety_margin_m b) - e) p (bd_outer_polygon b)" if "2 \<le> length (bd_outer_polygon b)"
    using assms(1) that by (intro lift) (auto simp: admissible_def Let_def)
  show "clear_of (max 0 (bd_safety_margin_m b) - e) p (zn_polygon z)"
    if "z \<in> set (bd_zones b)" "zn_zone_type z = ''forbidden''" "2 \<le> length (zn_polygon z)"
    using assms(1) that by (intro lift) (auto simp: admissible_def Let_def)
qed

text \<open>C22. Route admission. When \<open>validate_route\<close> accepts a route on the map of the active boundary, every waypoint is
  inside the outer polygon and outside every forbidden zone, at least the safety margin from their edges; and on every
  leg of at most a hundred metres every point of the straight line, not only the sampled ones, keeps the safety margin
  less 2.5 cm from the edges of the outer polygon and of every forbidden zone.\<close>

theorem route_keeps_clearance:
  assumes "validate_route map_id expected ws m = Inr ()" "bm_active m = Some b" "bd_map_id b = map_id"
  shows "(\<forall>p \<in> set ws. admissible b p) \<and>
    (\<forall>i (t::real). Suc i < length ws \<and> gap (ws ! i) (ws ! Suc i) \<le> 100 \<and> 0 \<le> t \<and> t \<le> 1 \<longrightarrow>
      (let p = leg_point (ws ! i) (ws ! Suc i) t; d = max 0 (bd_safety_margin_m b) - 1 / 40 in
       (2 \<le> length (bd_outer_polygon b) \<longrightarrow> clear_of d p (bd_outer_polygon b)) \<and>
       (\<forall>z \<in> set (bd_zones b). zn_zone_type z = ''forbidden'' \<and> 2 \<le> length (zn_polygon z)
          \<longrightarrow> clear_of d p (zn_polygon z))))"
proof (intro conjI allI impI)
  note ok = validate_route_ok [OF assms]
  show "\<forall>p \<in> set ws. admissible b p" using ok(1) by blast
  fix i and t :: real
  assume a: "Suc i < length ws \<and> gap (ws ! i) (ws ! Suc i) \<le> 100 \<and> 0 \<le> t \<and> t \<le> 1"
  then have "\<exists>q. admissible b q \<and> gap q (leg_point (ws ! i) (ws ! Suc i) t) \<le> 1 / 40"
    using ok(1) [of "ws ! i"] ok(1) [of "ws ! Suc i"] ok(2) [of i]
    by (intro leg_point_near_checked) auto
  then obtain q where "admissible b q" "gap q (leg_point (ws ! i) (ws ! Suc i) t) \<le> 1 / 40" by blast
  from admissible_clear [OF this]
  show "let p = leg_point (ws ! i) (ws ! Suc i) t; d = max 0 (bd_safety_margin_m b) - 1 / 40 in
       (2 \<le> length (bd_outer_polygon b) \<longrightarrow> clear_of d p (bd_outer_polygon b)) \<and>
       (\<forall>z \<in> set (bd_zones b). zn_zone_type z = ''forbidden'' \<and> 2 \<le> length (zn_polygon z)
          \<longrightarrow> clear_of d p (zn_polygon z))"
    by (simp add: Let_def)
qed

text \<open>A ten-metre square with a margin of half a metre, and a short route in its middle.\<close>

definition square_boundary :: boundary where
  "square_boundary = \<lparr>bd_map_id = ''m1'', bd_map_version = ''v1'', bd_revision = 3,
     bd_outer_polygon = [(0, 0), (10, 0), (10, 10), (0, 10)], bd_safety_margin_m = 1 / 2, bd_zones = []\<rparr>"

definition square_manager :: boundary_manager where
  "square_manager = \<lparr>bm_active = Some square_boundary, bm_saved = Some square_boundary, bm_last_region_keys = {},
     bm_last_warning_near_keys = {}, bm_last_violation = [], bm_last_speed = Some None\<rparr>"

lemma square_point:
  assumes "4 \<le> x" "x \<le> 5" "4 \<le> y" "y \<le> 5"
  shows "validate_in x y square_boundary = Inr ()"
proof -
  have "point_in_polygon x y (bd_outer_polygon square_boundary)"
    using assms by (simp add: square_boundary_def point_in_polygon_def crosses_def Let_def)
  moreover have "1 / 2 \<le> Min (set (edge_distances x y (bd_outer_polygon square_boundary)))"
    using assms by (simp add: square_boundary_def edge_distances_def point_to_segment_distance_def Let_def
      upt_rec max_def min_def real_le_rsqrt field_simps)
  ultimately show ?thesis
    by (simp add: validate_in_def square_boundary_def Let_def seqE_ok outside_outer_def distance_to_polygon_def for_each_all)
qed

lemma square_route: "validate_route ''m1'' (PInt 3) [(4, 4), (5, 4)] square_manager = Inr ()"
proof -
  have pt: "validate_point ''m1'' x y (PInt 3) square_manager = Inr ()" if "4 \<le> x" "x \<le> 5" "y = 4" for x y
    using square_point [of x y] that
    by (simp add: validate_point_def validate_expected_def no_expectation_def active_map_id_def active_revision_def
      square_manager_def) (simp add: square_boundary_def)
  have "validate_points ''m1'' (PInt 3) square_manager (leg_points (4, 4) (5, 4)) = Inr ()"
    unfolding validate_points_def for_each_all
    by (auto simp: leg_points_def leg_point_def Let_def leg_samples_def intro!: pt)
  then show ?thesis
    using pt [of 4 4] pt [of 5 4]
    by (simp add: validate_route_def seqE_ok for_each_all validate_points_def validate_expected_def no_expectation_def
      active_map_id_def active_revision_def square_manager_def) (simp add: square_boundary_def)
qed

theorem route_keeps_clearance_witness:
  "validate_route ''m1'' (PInt 3) [(4, 4), (5, 4)] square_manager = Inr ()
     \<and> clear_of (19 / 40) (9 / 2, 4) (bd_outer_polygon square_boundary)"
proof -
  have a: "bm_active square_manager = Some square_boundary" "bd_map_id square_boundary = ''m1''"
    by (simp_all add: square_manager_def square_boundary_def)
  from route_keeps_clearance [OF square_route a, THEN conjunct2, THEN spec [of _ 0], THEN spec [of _ "1 / 2"]] square_route
  show ?thesis by (simp add: square_boundary_def Let_def leg_point_def gap_def)
qed

section \<open>The watchdog agrees with the admission\<close>

lemma filter_nil_forbidden: "filter P xs = [] \<longleftrightarrow> (\<forall>x \<in> set xs. \<not> P x)"
  by (simp add: filter_empty_conv)

lemma violation_empty:
  assumes "bd_outer_polygon b \<noteq> []"
  shows "violation_of x y b = [] \<longleftrightarrow> admissible b (x, y)"
proof -
  let ?m = "max 0 (bd_safety_margin_m b)"
  let ?near = "filter (\<lambda>z. zn_zone_type z = ''forbidden''
    \<and> float_lt (distance_to_polygon x y (zn_polygon z)) (Fin ?m)) (bd_zones b)"
  let ?in = "filter (\<lambda>z. zn_zone_type z = ''forbidden'') (zones_inside x y b)"
  have "violation_of x y b = [] \<longleftrightarrow> \<not> outside_outer ?m x y (bd_outer_polygon b) \<and> ?in = [] \<and> ?near = []"
    by (simp add: violation_of_def Let_def forbidden_text_def split: list.split)
  also have "\<dots> \<longleftrightarrow> admissible b (x, y)"
    using assms by (auto simp: admissible_def Let_def outside_outer_def distance_not_lt filter_nil_forbidden zones_inside_def)
  finally show ?thesis .
qed

lemma fold_min_spec: "fold min vs (v::real) \<in> insert v (set vs) \<and> (\<forall>w \<in> insert v (set vs). fold min vs v \<le> w)"
proof (induction vs arbitrary: v)
  case (Cons w vs)
  from Cons.IH [of "min w v"] show ?case by (auto simp: min_def split: if_splits)
qed simp

text \<open>The limits of the restricted zones a position is inside.\<close>

definition limits_at :: "real \<Rightarrow> real \<Rightarrow> boundary \<Rightarrow> real set" where
  "limits_at x y b = {v. \<exists>z \<in> set (bd_zones b). zn_zone_type z = ''restricted'' \<and> point_in_polygon x y (zn_polygon z)
     \<and> zn_speed_limit_mps z = Some v}"

lemma speed_limit_spec:
  "case speed_limit_of x y b of None \<Rightarrow> limits_at x y b = {} | Some v \<Rightarrow> v \<in> limits_at x y b \<and> (\<forall>w \<in> limits_at x y b. v \<le> w)"
proof -
  define vs where "vs = concat (map (\<lambda>z. case zn_speed_limit_mps z of None \<Rightarrow> [] | Some v \<Rightarrow> [v])
    (filter (\<lambda>z. zn_zone_type z = ''restricted'') (zones_inside x y b)))"
  have "set vs = limits_at x y b"
    by (force simp: vs_def limits_at_def zones_inside_def split: option.splits)
  moreover have "speed_limit_of x y b = (case vs of [] \<Rightarrow> None | v # vs \<Rightarrow> Some (fold min vs v))"
    by (simp add: speed_limit_of_def vs_def)
  ultimately show ?thesis using fold_min_spec by (cases vs) (force split: option.splits)+
qed

text \<open>C37. The runtime watchdog. On the map of an active boundary a pose is reported as a violation exactly when the
  admission check would refuse it as a goal; the speed limit is the smallest limit of the restricted zones around the
  pose, or none; observing the same pose again reports no event and no change and keeps the state; and after a failed
  stop (\<open>retry_violation_stop\<close>) or a failed speed change (\<open>retry_speed_application\<close>) the next observation of the same
  pose reports the change again, so that the command is repeated.\<close>

theorem watchdog_matches_admission:
  assumes "bm_active m = Some b" "bd_map_id b = map_id" "bd_outer_polygon b \<noteq> []"
  shows "let (m1, o1) = observe_pose map_id x y m; (m2, o2) = observe_pose map_id x y m1 in
    (oz_violation o1 = [] \<longleftrightarrow> validate_point map_id x y PNone m = Inr ()) \<and>
    (case oz_speed_limit o1 of None \<Rightarrow> limits_at x y b = {}
       | Some v \<Rightarrow> v \<in> limits_at x y b \<and> (\<forall>w \<in> limits_at x y b. v \<le> w)) \<and>
    m2 = m1 \<and> oz_violation o2 = oz_violation o1 \<and> \<not> oz_violation_changed o2 \<and> \<not> oz_speed_changed o2
      \<and> oz_entered o2 = {} \<and> oz_exited o2 = {} \<and> oz_approaching o2 = {} \<and> oz_approach_cleared o2 = {} \<and>
    (oz_violation o1 \<noteq> [] \<longrightarrow> oz_violation_changed (snd (observe_pose map_id x y (retry_violation_stop m1)))) \<and>
    oz_speed_changed (snd (observe_pose map_id x y (retry_speed_application m1)))"
proof -
  have "validate_point map_id x y PNone m = Inr () \<longleftrightarrow> violation_of x y b = []"
    using assms by (simp add: validate_point_def validate_expected_def no_expectation_def active_map_id_def
      validate_in_ok violation_empty)
  then show ?thesis
    using assms speed_limit_spec [of x y b]
    by (simp add: observe_pose_def Let_def retry_violation_stop_def retry_speed_application_def)
qed

theorem watchdog_matches_admission_witness:
  "oz_violation (snd (observe_pose ''m1'' (9 / 2) (9 / 2) square_manager)) = []
     \<and> oz_speed_limit (snd (observe_pose ''m1'' (9 / 2) (9 / 2) square_manager)) = None"
proof -
  have "validate_point ''m1'' (9 / 2) (9 / 2) PNone square_manager = Inr ()"
    using square_point [of "9 / 2" "9 / 2"]
    by (simp add: validate_point_def validate_expected_def no_expectation_def active_map_id_def square_manager_def)
  moreover have "bm_active square_manager = Some square_boundary" "bd_map_id square_boundary = ''m1''"
      "bd_outer_polygon square_boundary \<noteq> []" "limits_at (9 / 2) (9 / 2) square_boundary = {}"
    by (simp_all add: square_manager_def square_boundary_def limits_at_def)
  ultimately show ?thesis
    using watchdog_matches_admission [of square_manager square_boundary "''m1''" "9 / 2" "9 / 2"]
    by (simp add: Let_def case_prod_unfold split: option.splits)
qed

end
