(* ===== verification/MapSet.thy ===== *)
theory MapSet
  imports PyText "HOL-Library.Sublist"
begin

text \<open>
  Map sets (\<open>edge-agent/roamerx_edge/map_set_coordinator.py\<close>): cutting a route into segments of one submap each, and
  switching the robot to a segment's submap. A waypoint and a submap are records of the keys the code reads. The
  navigation stack and the map activation are outside the model: a stack is the outcome of each of its calls (\<open>None\<close> for
  a method the deployment does not have), and the calls that are made are listed in their order.
\<close>

section \<open>Data\<close>

record submap_bounds =
  sb_min_x :: real
  sb_max_x :: real
  sb_min_y :: real
  sb_max_y :: real

record submap =
  sm_submap_id :: string
  sm_map_id :: string
  sm_map_version :: string
  sm_local_map_dir :: string
  sm_metadata_bounds :: "submap_bounds option"
  sm_bounds :: "submap_bounds option"

record set_waypoint =
  sw_submap_id :: string
  sw_x :: real
  sw_y :: real

record route_segment =
  rs_submap_id :: string
  rs_start_index :: nat
  rs_end_index :: nat
  rs_waypoints :: "set_waypoint list"
  rs_submap :: submap

record map_set_coordinator =
  mc_current_submap_id :: string
  mc_next_submap_id :: string
  mc_switch_state :: string
  mc_failure_reason :: string

definition new_set_coordinator :: map_set_coordinator where
  "new_set_coordinator = \<lparr>mc_current_submap_id = [], mc_next_submap_id = [], mc_switch_state = ''idle'', mc_failure_reason = []\<rparr>"

section \<open>Segments\<close>

definition in_bounds :: "real \<Rightarrow> real \<Rightarrow> submap_bounds \<Rightarrow> bool" where
  "in_bounds x y bd = (sb_min_x bd \<le> x \<and> x \<le> sb_max_x bd \<and> sb_min_y bd \<le> y \<and> y \<le> sb_max_y bd)"

definition effective_bounds :: "submap \<Rightarrow> submap_bounds option" where
  "effective_bounds s = (case sm_metadata_bounds s of Some bd \<Rightarrow> Some bd | None \<Rightarrow> sm_bounds s)"

fun submap_for_point :: "set_waypoint \<Rightarrow> submap list \<Rightarrow> string option" where
  "submap_for_point wp [] = None"
| "submap_for_point wp (s # ss) =
     (case effective_bounds s of
        Some bd \<Rightarrow> if in_bounds (sw_x wp) (sw_y wp) bd then Some (sm_submap_id s) else submap_for_point wp ss
      | None \<Rightarrow> submap_for_point wp ss)"

text \<open>The dictionary of the submaps by id: a later submap replaces an earlier one with the same id.\<close>

definition by_id :: "submap list \<Rightarrow> string \<Rightarrow> submap option" where
  "by_id submaps = map_of (rev (map (\<lambda>s. (sm_submap_id s, s)) submaps))"

definition assignment :: "submap list \<Rightarrow> set_waypoint \<Rightarrow> string" where
  "assignment submaps wp =
     (if sw_submap_id wp \<noteq> [] then sw_submap_id wp
      else case submap_for_point wp submaps of None \<Rightarrow> [] | Some sid \<Rightarrow> sid)"

definition out_of_bounds :: "nat \<Rightarrow> pyexc" where
  "out_of_bounds index = protocol_error ''MAP_SET_ROUTE_OUT_OF_BOUNDS''
     (''waypoint '' @ show_nat index @ '' is outside every submap'')"

fun assign_all :: "submap list \<Rightarrow> nat \<Rightarrow> set_waypoint list \<Rightarrow> string list pyres" where
  "assign_all submaps index [] = Inr []"
| "assign_all submaps index (wp # wps) =
     (let sid = assignment submaps wp in
      if sid = [] \<or> by_id submaps sid = None then Inl (out_of_bounds index)
      else bindE (assign_all submaps (Suc index) wps) (\<lambda>sids. Inr (sid # sids)))"

text \<open>One round of the loop over the indices \<open>1, \<dots>, len(assignments)\<close> with the start of the open segment.\<close>

definition cut_step ::
  "submap list \<Rightarrow> set_waypoint list \<Rightarrow> string list \<Rightarrow> nat \<Rightarrow> nat \<times> route_segment list \<Rightarrow> nat \<times> route_segment list" where
  "cut_step submaps wps sids index st =
     (let start = fst st; segments = snd st in
      if index = length sids \<or> sids ! index \<noteq> sids ! start then
        (index, segments @ [\<lparr>rs_submap_id = sids ! start, rs_start_index = start, rs_end_index = index,
           rs_waypoints = take (index - start) (drop start wps), rs_submap = the (by_id submaps (sids ! start))\<rparr>])
      else st)"

definition build_segments :: "submap list \<Rightarrow> set_waypoint list \<Rightarrow> route_segment list pyres" where
  "build_segments submaps wps =
     (if submaps = [] then Inr []
      else bindE (assign_all submaps 0 wps)
        (\<lambda>sids. Inr (snd (fold (cut_step submaps wps sids) [1..<Suc (length sids)] (0, [])))))"

section \<open>Switching\<close>

datatype stack_call =
    DeactivateExecution
  | ActivateMap string string string string
  | ReloadMap string string
  | ReloadBoundaryFilter
  | SwitchMap
  | Prepare
  | ActivateExecution

text \<open>\<open>st_activate\<close> gives the active \<open>map.pcd\<close> and \<open>map.yaml\<close>, empty when missing.\<close>

record nav_stack =
  st_deactivate_execution :: "unit pyres option"
  st_activate :: "(string \<times> string) pyres"
  st_reload_map_if_running :: "unit pyres option"
  st_reload_boundary_filter :: "unit pyres option"
  st_switch_map :: "unit pyres"
  st_prepare :: "unit pyres option"
  st_activate_execution :: "unit pyres option"

text \<open>A call that is made when the method exists, and the calls of a block up to the first that raises.\<close>

definition call_if :: "stack_call \<Rightarrow> unit pyres option \<Rightarrow> (stack_call \<times> unit pyres) list" where
  "call_if c r = (case r of None \<Rightarrow> [] | Some out \<Rightarrow> [(c, out)])"

fun run_calls :: "(stack_call \<times> unit pyres) list \<Rightarrow> stack_call list \<times> unit pyres" where
  "run_calls [] = ([], Inr ())"
| "run_calls ((c, out) # cs) =
     (case out of Inl x \<Rightarrow> ([c], Inl x) | Inr _ \<Rightarrow> (case run_calls cs of (done_calls, r) \<Rightarrow> (c # done_calls, r)))"

definition drop_value :: "'a pyres \<Rightarrow> unit pyres" where
  "drop_value r = (case r of Inl x \<Rightarrow> Inl x | Inr _ \<Rightarrow> Inr ())"

definition active_files :: "nav_stack \<Rightarrow> string \<times> string" where
  "active_files st = (case st_activate st of Inl _ \<Rightarrow> ([], []) | Inr f \<Rightarrow> f)"

definition reload_calls :: "nav_stack \<Rightarrow> (stack_call \<times> unit pyres) list" where
  "reload_calls st =
     (case st_reload_map_if_running st of
        Some out \<Rightarrow> if fst (active_files st) \<noteq> [] \<and> snd (active_files st) \<noteq> []
          then (ReloadMap (fst (active_files st)) (snd (active_files st)), out)
               # call_if ReloadBoundaryFilter (st_reload_boundary_filter st)
          else [(SwitchMap, st_switch_map st)]
      | None \<Rightarrow> [(SwitchMap, st_switch_map st)])"

definition switch_calls :: "nav_stack \<Rightarrow> route_segment \<Rightarrow> (stack_call \<times> unit pyres) list" where
  "switch_calls st seg =
     call_if DeactivateExecution (st_deactivate_execution st)
     @ [(ActivateMap (sm_map_id (rs_submap seg)) (sm_map_version (rs_submap seg)) (rs_submap_id seg)
           (sm_local_map_dir (rs_submap seg)), drop_value (st_activate st))]
     @ reload_calls st
     @ call_if Prepare (st_prepare st)"

definition activate ::
  "nav_stack \<Rightarrow> route_segment \<Rightarrow> map_set_coordinator \<Rightarrow> map_set_coordinator \<times> stack_call list \<times> map_set_coordinator pyres" where
  "activate st seg c =
     (let c1 = c\<lparr>mc_switch_state := ''switching'', mc_next_submap_id := rs_submap_id seg\<rparr> in
      if sm_local_map_dir (rs_submap seg) = [] then
        (c1, [], Inl (protocol_error ''MAP_SET_SOURCE_MISSING'' (''submap '' @ rs_submap_id seg @ '' has no local map directory'')))
      else
        (case run_calls (switch_calls st seg) of
           (calls, Inl x) \<Rightarrow> (c1\<lparr>mc_switch_state := ''failed'', mc_failure_reason := exc_text x\<rparr>, calls, Inl x)
         | (calls, Inr _) \<Rightarrow>
             let c2 = \<lparr>mc_current_submap_id = rs_submap_id seg, mc_next_submap_id = [], mc_switch_state = ''ready'',
                       mc_failure_reason = []\<rparr>
             in (c2, calls, Inr c2)))"

definition activate_execution :: "nav_stack \<Rightarrow> stack_call list \<times> unit pyres" where
  "activate_execution st = run_calls (call_if ActivateExecution (st_activate_execution st))"

section \<open>The cut is a partition\<close>

lemma assign_all_ok:
  "assign_all submaps k wps = Inr sids \<longleftrightarrow>
     sids = map (assignment submaps) wps \<and> (\<forall>wp \<in> set wps. assignment submaps wp \<noteq> [] \<and> by_id submaps (assignment submaps wp) \<noteq> None)"
  by (induction wps arbitrary: k sids) (auto simp: Let_def)

text \<open>A segment as a run of one submap; a chain of maximal runs that covers the waypoints below \<open>n\<close>.\<close>

definition one_run :: "string list \<Rightarrow> nat \<Rightarrow> nat \<Rightarrow> string \<Rightarrow> bool" where
  "one_run sids i j sid = (\<forall>k. i \<le> k \<and> k < j \<longrightarrow> sids ! k = sid)"

definition good_segment :: "submap list \<Rightarrow> set_waypoint list \<Rightarrow> string list \<Rightarrow> route_segment \<Rightarrow> bool" where
  "good_segment submaps wps sids seg =
     (rs_start_index seg < rs_end_index seg \<and> rs_end_index seg \<le> length sids
      \<and> rs_waypoints seg = take (rs_end_index seg - rs_start_index seg) (drop (rs_start_index seg) wps)
      \<and> one_run sids (rs_start_index seg) (rs_end_index seg) (rs_submap_id seg)
      \<and> by_id submaps (rs_submap_id seg) = Some (rs_submap seg))"

definition follows :: "route_segment \<Rightarrow> route_segment \<Rightarrow> bool" where
  "follows a b = (rs_end_index a = rs_start_index b \<and> rs_submap_id a \<noteq> rs_submap_id b)"

definition is_cut :: "submap list \<Rightarrow> set_waypoint list \<Rightarrow> string list \<Rightarrow> nat \<Rightarrow> route_segment list \<Rightarrow> bool" where
  "is_cut submaps wps sids n segs =
     (concat (map rs_waypoints segs) = take n wps
      \<and> (\<forall>seg \<in> set segs. good_segment submaps wps sids seg)
      \<and> successively follows segs
      \<and> (segs \<noteq> [] \<longrightarrow> rs_start_index (hd segs) = 0)
      \<and> (if segs = [] then n = 0
         else rs_end_index (last segs) = n \<and> (n < length sids \<longrightarrow> rs_submap_id (last segs) \<noteq> sids ! n)))"

lemma is_cut_snoc:
  assumes cut: "is_cut submaps wps sids start segs"
    and good: "good_segment submaps wps sids seg" "rs_start_index seg = start" "rs_submap_id seg = sids ! start"
    and stop: "rs_end_index seg < length sids \<longrightarrow> rs_submap_id seg \<noteq> sids ! rs_end_index seg"
  shows "is_cut submaps wps sids (rs_end_index seg) (segs @ [seg])"
proof -
  have lt: "start < rs_end_index seg" "start < length sids" using good by (auto simp: good_segment_def)
  have "take start wps @ rs_waypoints seg = take (rs_end_index seg) wps"
    using good lt by (simp add: good_segment_def flip: take_add)
  moreover have "segs \<noteq> [] \<longrightarrow> follows (last segs) seg"
    using cut good(2,3) lt by (simp add: is_cut_def follows_def)
  moreover have "segs = [] \<longrightarrow> start = 0" using cut by (simp add: is_cut_def)
  moreover have "rs_start_index (hd (segs @ [seg])) = 0"
    using cut good(2) by (cases segs) (simp_all add: is_cut_def)
  ultimately show ?thesis
    using cut good(1) stop by (simp add: is_cut_def successively_append_iff del: hd_append2) blast
qed

text \<open>The state of the loop after the indices \<open>1, \<dots>, k\<close>.\<close>

definition cut_state :: "submap list \<Rightarrow> set_waypoint list \<Rightarrow> string list \<Rightarrow> nat \<Rightarrow> nat \<times> route_segment list \<Rightarrow> bool" where
  "cut_state submaps wps sids k st =
     (is_cut submaps wps sids (fst st) (snd st) \<and> fst st \<le> k \<and> (k = length sids \<and> 0 < k \<longrightarrow> fst st = k)
      \<and> one_run sids (fst st) (min (Suc k) (length sids)) (sids ! fst st))"

lemma cut_step_state:
  assumes st: "cut_state submaps wps sids k st" and k: "Suc k \<le> length sids"
    and known: "\<forall>sid \<in> set sids. by_id submaps sid \<noteq> None"
  shows "cut_state submaps wps sids (Suc k) (cut_step submaps wps sids (Suc k) st)"
proof -
  obtain start segs where s: "st = (start, segs)" by fastforce
  have cut: "is_cut submaps wps sids start segs" and le: "start \<le> k" and run: "one_run sids start (Suc k) (sids ! start)"
    using st k by (simp_all add: s cut_state_def min_def split: if_splits)
  show ?thesis
  proof (cases "Suc k = length sids \<or> sids ! Suc k \<noteq> sids ! start")
    case True
    define seg where "seg = \<lparr>rs_submap_id = sids ! start, rs_start_index = start, rs_end_index = Suc k,
      rs_waypoints = take (Suc k - start) (drop start wps), rs_submap = the (by_id submaps (sids ! start))\<rparr>"
    have "good_segment submaps wps sids seg"
      using le k run known by (simp add: good_segment_def seg_def nth_mem)
    then have "is_cut submaps wps sids (rs_end_index seg) (segs @ [seg])"
      using True by (intro is_cut_snoc [OF cut]) (auto simp: seg_def)
    moreover have "one_run sids (Suc k) (min (Suc (Suc k)) (length sids)) (sids ! Suc k)"
      by (auto simp: one_run_def less_Suc_eq)
    moreover have "cut_step submaps wps sids (Suc k) st = (Suc k, segs @ [seg])"
      using True by (auto simp: s cut_step_def Let_def seg_def)
    ultimately show ?thesis by (simp add: cut_state_def) (simp add: seg_def)
  next
    case False
    then have "one_run sids start (Suc (Suc k)) (sids ! start)"
      using run unfolding one_run_def by (metis less_SucE)
    moreover have "cut_step submaps wps sids (Suc k) st = (start, segs)"
      using False by (simp add: s cut_step_def Let_def)
    ultimately show ?thesis using cut le k False by (simp add: cut_state_def min_def)
  qed
qed

lemma cut_loop_state:
  assumes "\<forall>sid \<in> set sids. by_id submaps sid \<noteq> None" "k \<le> length sids"
  shows "cut_state submaps wps sids k (fold (cut_step submaps wps sids) [1..<Suc k] (0, []))"
  using assms(2)
proof (induction k)
  case 0
  show ?case by (auto simp: cut_state_def is_cut_def one_run_def)
next
  case (Suc k)
  then show ?case using cut_step_state [OF _ _ assms(1)] by simp
qed

lemma build_segments_cut:
  assumes "build_segments submaps wps = Inr segs" "submaps \<noteq> []"
  shows "is_cut submaps wps (map (assignment submaps) wps) (length wps) segs"
proof -
  let ?sids = "map (assignment submaps) wps"
  from assms have known: "\<forall>sid \<in> set ?sids. by_id submaps sid \<noteq> None"
    and segs: "segs = snd (fold (cut_step submaps wps ?sids) [1..<Suc (length ?sids)] (0, []))"
    by (auto simp: build_segments_def assign_all_ok simp del: upt_Suc)
  from cut_loop_state [OF known order_refl, of wps, folded segs]
  show ?thesis unfolding segs by (cases "wps = []") (auto simp: cut_state_def)
qed

lemma assign_all_err:
  "assign_all submaps k wps = Inl x \<longleftrightarrow>
     (\<exists>i < length wps. (assignment submaps (wps ! i) = [] \<or> by_id submaps (assignment submaps (wps ! i)) = None)
        \<and> x = out_of_bounds (k + i)
        \<and> (\<forall>j < i. assignment submaps (wps ! j) \<noteq> [] \<and> by_id submaps (assignment submaps (wps ! j)) \<noteq> None))"
proof (induction wps arbitrary: k)
  case (Cons wp wps)
  show ?case
    by (cases "assignment submaps wp = [] \<or> by_id submaps (assignment submaps wp) = None")
      (auto simp: Let_def bindE_err Cons.IH [of "Suc k"] Ex_less_Suc2 All_less_Suc2)
qed simp

section \<open>Properties\<close>

text \<open>C30. A route is cut into segments without loss. When the route has a map set, the waypoints of the segments put
  together are the route, in order; the segments are non-empty and contiguous, the first starts at index 0 and the last
  ends at the end of the route; every waypoint of a segment is assigned to the segment's submap, which is the one of
  the map set with that id; and neighbouring segments have different submaps, so that no switch is superfluous. The
  cut fails exactly when some waypoint has no known submap, and names the first one.\<close>

theorem segments_partition_route:
  assumes "submaps \<noteq> []"
  shows "case build_segments submaps wps of
      Inr segs \<Rightarrow> concat (map rs_waypoints segs) = wps \<and> successively follows segs
        \<and> (wps \<noteq> [] \<longrightarrow> segs \<noteq> [] \<and> rs_start_index (hd segs) = 0 \<and> rs_end_index (last segs) = length wps)
        \<and> (\<forall>seg \<in> set segs. rs_waypoints seg \<noteq> [] \<and> by_id submaps (rs_submap_id seg) = Some (rs_submap seg)
             \<and> (\<forall>i. rs_start_index seg \<le> i \<and> i < rs_end_index seg \<longrightarrow> assignment submaps (wps ! i) = rs_submap_id seg))
    | Inl x \<Rightarrow> \<exists>i < length wps. x = out_of_bounds i
        \<and> (assignment submaps (wps ! i) = [] \<or> by_id submaps (assignment submaps (wps ! i)) = None)
        \<and> (\<forall>j < i. by_id submaps (assignment submaps (wps ! j)) \<noteq> None)"
proof (cases "build_segments submaps wps")
  case (Inl x)
  then have "assign_all submaps 0 wps = Inl x" using assms by (simp add: build_segments_def bindE_err)
  then show ?thesis using Inl by (auto simp: assign_all_err)
next
  case (Inr segs)
  note cut = build_segments_cut [OF Inr assms]
  have seg: "rs_waypoints seg \<noteq> [] \<and> by_id submaps (rs_submap_id seg) = Some (rs_submap seg)
      \<and> (\<forall>i. rs_start_index seg \<le> i \<and> i < rs_end_index seg \<longrightarrow> assignment submaps (wps ! i) = rs_submap_id seg)"
    if "seg \<in> set segs" for seg
  proof -
    have "good_segment submaps wps (map (assignment submaps) wps) seg" using cut that by (simp add: is_cut_def)
    then show ?thesis by (auto simp: good_segment_def one_run_def)
  qed
  from cut have "concat (map rs_waypoints segs) = wps" "successively follows segs"
    "wps \<noteq> [] \<longrightarrow> segs \<noteq> [] \<and> rs_start_index (hd segs) = 0 \<and> rs_end_index (last segs) = length wps"
    by (cases "segs = []"; simp add: is_cut_def)+
  with seg show ?thesis by (simp add: Inr)
qed

definition example_submap :: "string \<Rightarrow> real \<Rightarrow> submap" where
  "example_submap sid x0 = \<lparr>sm_submap_id = sid, sm_map_id = ''m'', sm_map_version = ''1'', sm_local_map_dir = ''/maps'',
     sm_metadata_bounds = None, sm_bounds = Some \<lparr>sb_min_x = x0, sb_max_x = x0 + 10, sb_min_y = 0, sb_max_y = 10\<rparr>\<rparr>"

definition example_waypoint :: "real \<Rightarrow> set_waypoint" where
  "example_waypoint x = \<lparr>sw_submap_id = [], sw_x = x, sw_y = 1\<rparr>"

theorem segments_partition_route_witness:
  "\<exists>segs. build_segments [example_submap ''a'' 0, example_submap ''b'' 10] (map example_waypoint [1, 2, 15, 3]) = Inr segs
     \<and> map rs_submap_id segs = [''a'', ''b'', ''a'']
     \<and> concat (map rs_waypoints segs) = map example_waypoint [1, 2, 15, 3]"
proof -
  let ?s = "[example_submap ''a'' 0, example_submap ''b'' 10]" and ?w = "map example_waypoint [1, 2, 15, 3]"
  obtain segs where s: "build_segments ?s ?w = Inr segs" "map rs_submap_id segs = [''a'', ''b'', ''a'']"
    by (simp add: build_segments_def Let_def assignment_def example_waypoint_def example_submap_def effective_bounds_def
      in_bounds_def by_id_def cut_step_def upt_rec numeral_2_eq_2)
  then show ?thesis using segments_partition_route [of ?s ?w] by simp
qed

lemma run_calls_ok: "run_calls cs = (calls, Inr u) \<Longrightarrow> calls = map fst cs \<and> (\<forall>c \<in> set cs. snd c = Inr ())"
proof (induction cs arbitrary: calls)
  case (Cons c cs)
  then show ?case by (cases c) (auto split: sum.splits prod.splits)
qed simp

lemma run_calls_prefix: "run_calls cs = (calls, r) \<Longrightarrow> prefix calls (map fst cs)"
proof (induction cs arbitrary: calls)
  case (Cons c cs)
  then show ?case by (cases c) (auto split: sum.splits prod.splits)
qed simp

lemma run_calls_raised: "run_calls cs = (calls, Inl x) \<Longrightarrow> \<exists>c \<in> set cs. snd c = Inl x"
proof (induction cs arbitrary: calls)
  case (Cons c cs)
  then show ?case by (cases c) (auto split: sum.splits prod.splits)
qed simp

text \<open>Up to the map activation the calls are fixed; what follows runs on its result.\<close>

lemma run_calls_append:
  "run_calls (xs @ ys) = (case run_calls xs of (calls, Inl x) \<Rightarrow> (calls, Inl x)
     | (calls, Inr _) \<Rightarrow> (case run_calls ys of (rest, r) \<Rightarrow> (calls @ rest, r)))"
proof (induction xs)
  case (Cons c cs)
  then show ?case by (cases c) (auto split: sum.splits prod.splits)
qed (auto split: prod.splits)

lemma reload_after_activation:
  assumes "run_calls (switch_calls st seg) = (calls, r)" "ReloadMap pcd yaml \<in> set calls"
  shows "st_activate st = Inr (pcd, yaml)"
proof (cases "st_activate st")
  case (Inl x)
  let ?pre = "call_if DeactivateExecution (st_deactivate_execution st)"
  let ?act = "ActivateMap (sm_map_id (rs_submap seg)) (sm_map_version (rs_submap seg)) (rs_submap_id seg)
    (sm_local_map_dir (rs_submap seg))"
  have "ReloadMap pcd yaml \<notin> set (fst (run_calls (switch_calls st seg)))"
    by (auto simp: switch_calls_def run_calls_append call_if_def drop_value_def Inl split: option.splits sum.splits prod.splits)
  with assms show ?thesis by simp
next
  case (Inr f)
  have "ReloadMap pcd yaml \<in> set (map fst (switch_calls st seg))"
    using run_calls_prefix [OF assms(1)] assms(2) set_mono_prefix by blast
  then show ?thesis
    by (auto simp: switch_calls_def call_if_def reload_calls_def active_files_def Inr split: option.splits if_splits)
qed

text \<open>C38. Switching to a segment's submap. On success the coordinator reports the new submap as current and ready, and
  every call of the switch was made, in order. On failure the error is passed on, the current submap is the old one and
  the coordinator is not ready. A switch never enables the execution group; where the stack can disable it, that call
  comes first; and a map is only reloaded with the files that the activation returned.\<close>

theorem submap_switch_safe:
  "case activate st seg c of (c', calls, r) \<Rightarrow>
     (\<forall>c''. r = Inr c'' \<longrightarrow> c'' = c' \<and> mc_current_submap_id c' = rs_submap_id seg \<and> mc_switch_state c' = ''ready''
        \<and> mc_next_submap_id c' = [] \<and> calls = map fst (switch_calls st seg))
     \<and> (\<forall>x. r = Inl x \<longrightarrow> mc_current_submap_id c' = mc_current_submap_id c \<and> mc_next_submap_id c' = rs_submap_id seg
          \<and> (if sm_local_map_dir (rs_submap seg) = [] then mc_switch_state c' = ''switching'' \<and> calls = []
             else mc_switch_state c' = ''failed'' \<and> mc_failure_reason c' = exc_text x \<and> (\<exists>call \<in> set (switch_calls st seg). snd call = Inl x)))
     \<and> ActivateExecution \<notin> set calls
     \<and> (st_deactivate_execution st \<noteq> None \<and> calls \<noteq> [] \<longrightarrow> hd calls = DeactivateExecution)
     \<and> (\<forall>pcd yaml. ReloadMap pcd yaml \<in> set calls \<longrightarrow> st_activate st = Inr (pcd, yaml))"
proof -
  obtain calls r where run: "run_calls (switch_calls st seg) = (calls, r)" by fastforce
  have pre: "prefix calls (map fst (switch_calls st seg))" by (rule run_calls_prefix [OF run])
  have "ActivateExecution \<notin> set (map fst (switch_calls st seg))"
    by (auto simp: switch_calls_def call_if_def reload_calls_def split: option.splits)
  then have noexec: "ActivateExecution \<notin> set calls" using set_mono_prefix [OF pre] by blast
  have first: "hd calls = DeactivateExecution" if "st_deactivate_execution st \<noteq> None" "calls \<noteq> []"
  proof -
    have "\<exists>cs. map fst (switch_calls st seg) = DeactivateExecution # cs"
      using that(1) by (auto simp: switch_calls_def call_if_def split: option.splits)
    with pre that(2) show ?thesis by (cases calls) auto
  qed
  have reload: "\<forall>pcd yaml. ReloadMap pcd yaml \<in> set calls \<longrightarrow> st_activate st = Inr (pcd, yaml)"
    using reload_after_activation [OF run] by blast
  show ?thesis
  proof (cases "sm_local_map_dir (rs_submap seg) = []")
    case True
    then show ?thesis by (simp add: activate_def Let_def)
  next
    case False
    show ?thesis
    proof (cases r)
      case (Inl x)
      with run False noexec first reload run_calls_raised [of "switch_calls st seg" calls x]
      show ?thesis by (simp add: activate_def Let_def)
    next
      case (Inr u)
      with run False noexec first reload run_calls_ok [of "switch_calls st seg" calls u]
      show ?thesis by (simp add: activate_def Let_def)
    qed
  qed
qed

definition example_stack :: nav_stack where
  "example_stack = \<lparr>st_deactivate_execution = Some (Inr ()), st_activate = Inr (''a.pcd'', ''a.yaml''),
     st_reload_map_if_running = Some (Inr ()), st_reload_boundary_filter = Some (Inl (RuntimeError ''filter'')),
     st_switch_map = Inr (), st_prepare = Some (Inr ()), st_activate_execution = Some (Inr ())\<rparr>"

definition example_segment :: route_segment where
  "example_segment = \<lparr>rs_submap_id = ''b'', rs_start_index = 0, rs_end_index = 1, rs_waypoints = [example_waypoint 15],
     rs_submap = example_submap ''b'' 10\<rparr>"

theorem submap_switch_safe_witness:
  "mc_switch_state (fst (activate example_stack example_segment new_set_coordinator)) = ''failed''
     \<and> mc_current_submap_id (fst (activate example_stack example_segment new_set_coordinator)) = []
     \<and> fst (snd (activate example_stack example_segment new_set_coordinator))
         = [DeactivateExecution, ActivateMap ''m'' ''1'' ''b'' ''/maps'', ReloadMap ''a.pcd'' ''a.yaml'', ReloadBoundaryFilter]"
  using submap_switch_safe [where st = example_stack and seg = example_segment and c = new_set_coordinator]
  by (simp add: activate_def Let_def example_stack_def example_segment_def example_submap_def new_set_coordinator_def
    switch_calls_def call_if_def reload_calls_def active_files_def drop_value_def)

end
