(* ===== verification/SkillCatalog.thy ===== *)
theory SkillCatalog
  imports PyText
begin

text \<open>
  The catalog of the preset remote-control skills (\<open>PRESET_SKILLS\<close> of
  \<open>edge-agent/roamerx_edge/teleop_skill_executor.py\<close>), one definition per entry, in the order of the source. The steps
  are the dictionaries that the executor interprets.
\<close>

record preset =
  pr_name :: string
  pr_description :: string
  pr_category :: string
  pr_requires_live_pose :: bool
  pr_obstacle_protection :: string
  pr_steps :: "pydict list"

definition prone_forward_5s :: preset where
  "prone_forward_5s = \<lparr>pr_name = ''prone_forward_5s'', pr_description = ''<crawl forward 5 s>'', pr_category = ''timed_motion'',
     pr_requires_live_pose = False, pr_obstacle_protection = ''none'',
     pr_steps = [[(''kind'', PStr ''action''), (''action'', PStr ''lie_down'')],
       [(''kind'', PStr ''velocity''), (''vx'', PFloat (Fin (35 / 100))), (''duration_seconds'', PFloat (Fin (5)))]]\<rparr>"

definition prone_backward_5s :: preset where
  "prone_backward_5s = \<lparr>pr_name = ''prone_backward_5s'', pr_description = ''<crawl backward 5 s>'', pr_category = ''timed_motion'',
     pr_requires_live_pose = False, pr_obstacle_protection = ''none'',
     pr_steps = [[(''kind'', PStr ''action''), (''action'', PStr ''lie_down'')],
       [(''kind'', PStr ''velocity''), (''vx'', PFloat (Fin (- (35 / 100)))), (''duration_seconds'', PFloat (Fin (5)))]]\<rparr>"

definition micro_reverse_5s :: preset where
  "micro_reverse_5s = \<lparr>pr_name = ''micro_reverse_5s'', pr_description = ''<micro-speed reverse 5 s>'', pr_category = ''timed_motion'',
     pr_requires_live_pose = False, pr_obstacle_protection = ''none'',
     pr_steps = [[(''kind'', PStr ''speed''), (''level'', PStr ''micro'')],
       [(''kind'', PStr ''velocity''), (''vx'', PFloat (Fin (- (35 / 100)))), (''duration_seconds'', PFloat (Fin (5)))]]\<rparr>"

definition micro_forward_5s :: preset where
  "micro_forward_5s = \<lparr>pr_name = ''micro_forward_5s'', pr_description = ''<micro-speed forward 5 s>'', pr_category = ''timed_motion'',
     pr_requires_live_pose = False, pr_obstacle_protection = ''none'',
     pr_steps = [[(''kind'', PStr ''speed''), (''level'', PStr ''micro'')],
       [(''kind'', PStr ''velocity''), (''vx'', PFloat (Fin (35 / 100))), (''duration_seconds'', PFloat (Fin (5)))]]\<rparr>"

definition prone_forward_5m :: preset where
  "prone_forward_5m = \<lparr>pr_name = ''prone_forward_5m'', pr_description = ''<crawl forward 5 m>'', pr_category = ''distance_motion'',
     pr_requires_live_pose = True, pr_obstacle_protection = ''none'',
     pr_steps = [[(''kind'', PStr ''action''), (''action'', PStr ''lie_down'')],
       [(''kind'', PStr ''distance''), (''axis'', PStr ''forward''), (''distance_m'', PFloat (Fin (5))), (''speed_mps'', PFloat (Fin (35 / 100)))]]\<rparr>"

definition prone_backward_5m :: preset where
  "prone_backward_5m = \<lparr>pr_name = ''prone_backward_5m'', pr_description = ''<crawl backward 5 m>'', pr_category = ''distance_motion'',
     pr_requires_live_pose = True, pr_obstacle_protection = ''none'',
     pr_steps = [[(''kind'', PStr ''action''), (''action'', PStr ''lie_down'')],
       [(''kind'', PStr ''distance''), (''axis'', PStr ''backward''), (''distance_m'', PFloat (Fin (5))), (''speed_mps'', PFloat (Fin (35 / 100)))]]\<rparr>"

definition micro_forward_5m :: preset where
  "micro_forward_5m = \<lparr>pr_name = ''micro_forward_5m'', pr_description = ''<micro-speed forward 5 m>'', pr_category = ''distance_motion'',
     pr_requires_live_pose = True, pr_obstacle_protection = ''none'',
     pr_steps = [[(''kind'', PStr ''speed''), (''level'', PStr ''micro'')],
       [(''kind'', PStr ''distance''), (''axis'', PStr ''forward''), (''distance_m'', PFloat (Fin (5))), (''speed_mps'', PFloat (Fin (35 / 100)))]]\<rparr>"

definition micro_reverse_5m :: preset where
  "micro_reverse_5m = \<lparr>pr_name = ''micro_reverse_5m'', pr_description = ''<micro-speed reverse 5 m>'', pr_category = ''distance_motion'',
     pr_requires_live_pose = True, pr_obstacle_protection = ''none'',
     pr_steps = [[(''kind'', PStr ''speed''), (''level'', PStr ''micro'')],
       [(''kind'', PStr ''distance''), (''axis'', PStr ''backward''), (''distance_m'', PFloat (Fin (5))), (''speed_mps'', PFloat (Fin (35 / 100)))]]\<rparr>"

definition turn_left_full_circle :: preset where
  "turn_left_full_circle = \<lparr>pr_name = ''turn_left_full_circle'', pr_description = ''<full turn left>'', pr_category = ''turn'',
     pr_requires_live_pose = True, pr_obstacle_protection = ''none'',
     pr_steps = [[(''kind'', PStr ''turn''), (''angle_rad'', PFloat (Fin (2 * pi))), (''yaw_rate'', PFloat (Fin (45 / 100)))]]\<rparr>"

definition turn_right_full_circle :: preset where
  "turn_right_full_circle = \<lparr>pr_name = ''turn_right_full_circle'', pr_description = ''<full turn right>'', pr_category = ''turn'',
     pr_requires_live_pose = True, pr_obstacle_protection = ''none'',
     pr_steps = [[(''kind'', PStr ''turn''), (''angle_rad'', PFloat (Fin (- (2 * pi)))), (''yaw_rate'', PFloat (Fin (45 / 100)))]]\<rparr>"

definition left_two_steps_then_avoid_forward :: preset where
  "left_two_steps_then_avoid_forward = \<lparr>pr_name = ''left_two_steps_then_avoid_forward'', pr_description = ''<two steps left, then forward with avoidance>'', pr_category = ''front_avoidance'',
     pr_requires_live_pose = True, pr_obstacle_protection = ''front_only'',
     pr_steps = [[(''kind'', PStr ''distance''), (''axis'', PStr ''left''), (''distance_m'', PFloat (Fin (4 / 10))), (''speed_mps'', PFloat (Fin (35 / 100)))],
       [(''kind'', PStr ''avoid_forward''), (''duration_seconds'', PFloat (Fin (3))), (''speed_mps'', PFloat (Fin (35 / 100)))]]\<rparr>"

definition right_two_steps_then_avoid_forward :: preset where
  "right_two_steps_then_avoid_forward = \<lparr>pr_name = ''right_two_steps_then_avoid_forward'', pr_description = ''<two steps right, then forward with avoidance>'', pr_category = ''front_avoidance'',
     pr_requires_live_pose = True, pr_obstacle_protection = ''front_only'',
     pr_steps = [[(''kind'', PStr ''distance''), (''axis'', PStr ''right''), (''distance_m'', PFloat (Fin (4 / 10))), (''speed_mps'', PFloat (Fin (35 / 100)))],
       [(''kind'', PStr ''avoid_forward''), (''duration_seconds'', PFloat (Fin (3))), (''speed_mps'', PFloat (Fin (35 / 100)))]]\<rparr>"

definition turn_left_and_forward_detour :: preset where
  "turn_left_and_forward_detour = \<lparr>pr_name = ''turn_left_and_forward_detour'', pr_description = ''<turn left and forward detour>'', pr_category = ''detour'',
     pr_requires_live_pose = True, pr_obstacle_protection = ''none'',
     pr_steps = [[(''kind'', PStr ''turn''), (''angle_rad'', PFloat (Fin (pi / 2))), (''yaw_rate'', PFloat (Fin (45 / 100)))],
       [(''kind'', PStr ''distance''), (''axis'', PStr ''forward''), (''distance_m'', PFloat (Fin (8 / 10))), (''speed_mps'', PFloat (Fin (4 / 10)))],
       [(''kind'', PStr ''turn''), (''angle_rad'', PFloat (Fin (- (pi / 2)))), (''yaw_rate'', PFloat (Fin (45 / 100)))],
       [(''kind'', PStr ''distance''), (''axis'', PStr ''forward''), (''distance_m'', PFloat (Fin (1))), (''speed_mps'', PFloat (Fin (4 / 10)))]]\<rparr>"

definition turn_right_and_forward_detour :: preset where
  "turn_right_and_forward_detour = \<lparr>pr_name = ''turn_right_and_forward_detour'', pr_description = ''<turn right and forward detour>'', pr_category = ''detour'',
     pr_requires_live_pose = True, pr_obstacle_protection = ''none'',
     pr_steps = [[(''kind'', PStr ''turn''), (''angle_rad'', PFloat (Fin (- (pi / 2)))), (''yaw_rate'', PFloat (Fin (45 / 100)))],
       [(''kind'', PStr ''distance''), (''axis'', PStr ''forward''), (''distance_m'', PFloat (Fin (8 / 10))), (''speed_mps'', PFloat (Fin (4 / 10)))],
       [(''kind'', PStr ''turn''), (''angle_rad'', PFloat (Fin (pi / 2))), (''yaw_rate'', PFloat (Fin (45 / 100)))],
       [(''kind'', PStr ''distance''), (''axis'', PStr ''forward''), (''distance_m'', PFloat (Fin (1))), (''speed_mps'', PFloat (Fin (4 / 10)))]]\<rparr>"

definition turn_left_and_backward_detour :: preset where
  "turn_left_and_backward_detour = \<lparr>pr_name = ''turn_left_and_backward_detour'', pr_description = ''<turn left and backward detour (no rear avoidance)>'', pr_category = ''detour'',
     pr_requires_live_pose = True, pr_obstacle_protection = ''none'',
     pr_steps = [[(''kind'', PStr ''turn''), (''angle_rad'', PFloat (Fin (pi / 2))), (''yaw_rate'', PFloat (Fin (45 / 100)))],
       [(''kind'', PStr ''distance''), (''axis'', PStr ''backward''), (''distance_m'', PFloat (Fin (8 / 10))), (''speed_mps'', PFloat (Fin (4 / 10)))],
       [(''kind'', PStr ''turn''), (''angle_rad'', PFloat (Fin (- (pi / 2)))), (''yaw_rate'', PFloat (Fin (45 / 100)))],
       [(''kind'', PStr ''distance''), (''axis'', PStr ''backward''), (''distance_m'', PFloat (Fin (1))), (''speed_mps'', PFloat (Fin (4 / 10)))]]\<rparr>"

definition turn_right_and_backward_detour :: preset where
  "turn_right_and_backward_detour = \<lparr>pr_name = ''turn_right_and_backward_detour'', pr_description = ''<turn right and backward detour (no rear avoidance)>'', pr_category = ''detour'',
     pr_requires_live_pose = True, pr_obstacle_protection = ''none'',
     pr_steps = [[(''kind'', PStr ''turn''), (''angle_rad'', PFloat (Fin (- (pi / 2)))), (''yaw_rate'', PFloat (Fin (45 / 100)))],
       [(''kind'', PStr ''distance''), (''axis'', PStr ''backward''), (''distance_m'', PFloat (Fin (8 / 10))), (''speed_mps'', PFloat (Fin (4 / 10)))],
       [(''kind'', PStr ''turn''), (''angle_rad'', PFloat (Fin (pi / 2))), (''yaw_rate'', PFloat (Fin (45 / 100)))],
       [(''kind'', PStr ''distance''), (''axis'', PStr ''backward''), (''distance_m'', PFloat (Fin (1))), (''speed_mps'', PFloat (Fin (4 / 10)))]]\<rparr>"


definition PRESET_SKILLS :: "preset list" where
  "PRESET_SKILLS = [prone_forward_5s, prone_backward_5s, micro_reverse_5s, micro_forward_5s,
     prone_forward_5m, prone_backward_5m, micro_forward_5m, micro_reverse_5m,
     turn_left_full_circle, turn_right_full_circle, left_two_steps_then_avoid_forward, right_two_steps_then_avoid_forward,
     turn_left_and_forward_detour, turn_right_and_forward_detour, turn_left_and_backward_detour, turn_right_and_backward_detour]"

text \<open>\<open>list_presets\<close>: the catalog without the steps.\<close>

definition list_presets :: "(string \<times> string \<times> string \<times> bool \<times> string) list" where
  "list_presets = map (\<lambda>p. (pr_name p, pr_description p, pr_category p, pr_requires_live_pose p, pr_obstacle_protection p))
     PRESET_SKILLS"

fun find_preset :: "string \<Rightarrow> preset list \<Rightarrow> preset option" where
  "find_preset n [] = None"
| "find_preset n (p # ps) = (if pr_name p = n then Some p else find_preset n ps)"

lemmas preset_defs = prone_forward_5s_def prone_backward_5s_def micro_reverse_5s_def micro_forward_5s_def
  prone_forward_5m_def prone_backward_5m_def micro_forward_5m_def micro_reverse_5m_def
  turn_left_full_circle_def turn_right_full_circle_def
  left_two_steps_then_avoid_forward_def right_two_steps_then_avoid_forward_def
  turn_left_and_forward_detour_def turn_right_and_forward_detour_def
  turn_left_and_backward_detour_def turn_right_and_backward_detour_def

lemma find_preset_in: "find_preset n ps = Some p \<Longrightarrow> p \<in> set ps \<and> pr_name p = n"
  by (induction ps) (auto split: if_splits)

lemma preset_names: "map pr_name PRESET_SKILLS =
   [''prone_forward_5s'', ''prone_backward_5s'', ''micro_reverse_5s'', ''micro_forward_5s'', ''prone_forward_5m'',
    ''prone_backward_5m'', ''micro_forward_5m'', ''micro_reverse_5m'', ''turn_left_full_circle'', ''turn_right_full_circle'',
    ''left_two_steps_then_avoid_forward'', ''right_two_steps_then_avoid_forward'', ''turn_left_and_forward_detour'',
    ''turn_right_and_forward_detour'', ''turn_left_and_backward_detour'', ''turn_right_and_backward_detour'']"
  by (simp add: PRESET_SKILLS_def preset_defs)

lemma preset_names_distinct: "distinct (map pr_name PRESET_SKILLS)"
  unfolding preset_names by code_simp

lemma find_preset_distinct: "distinct (map pr_name ps) \<Longrightarrow> p \<in> set ps \<Longrightarrow> find_preset (pr_name p) ps = Some p"
  by (induction ps) auto

lemma find_preset_self: "p \<in> set PRESET_SKILLS \<Longrightarrow> find_preset (pr_name p) PRESET_SKILLS = Some p"
  by (rule find_preset_distinct [OF preset_names_distinct])

lemma preset_name_plain:
  assumes "p \<in> set PRESET_SKILLS"
  shows "strip (pr_name p) = pr_name p" "pr_name p \<noteq> []"
proof -
  have "list_all (\<lambda>n. n \<noteq> [] \<and> list_all (\<lambda>c. \<not> is_space c) n) (map pr_name PRESET_SKILLS)"
    unfolding preset_names by code_simp
  with assms have "pr_name p \<noteq> [] \<and> (\<forall>c \<in> set (pr_name p). \<not> is_space c)" by (simp add: list_all_iff)
  then show "strip (pr_name p) = pr_name p" "pr_name p \<noteq> []" by (simp_all add: strip_def strip_by_id)
qed

end
