(* ===== verification/TeleopSkill.thy ===== *)
theory TeleopSkill
  imports SkillCatalog
begin

text \<open>
  Composable remote-control skills (\<open>edge-agent/roamerx_edge/teleop_skill_executor.py\<close>): planning, the interpreter of
  the steps with its control loops, the thread that runs a skill, and the executor that admits one skill at a time.

  A skill runs against a world: the successive answers of the clock, the cancel event, the localization pose, the
  obstacle monitor and the motion commands. Every reading uses the next index, so that anything may change between two
  readings. The motion commands are listed in the order in which they are sent. A control loop has fuel, one unit per
  round; \<open>None\<close> is a loop that is still running when the fuel is used up.
\<close>

section \<open>The world\<close>

record skill_pose =
  sp_x :: real
  sp_y :: real
  sp_yaw :: real

record skill_world =
  wd_monotonic :: "nat \<Rightarrow> real"
  wd_cancelled :: "nat \<Rightarrow> bool"
  wd_pose :: "nat \<Rightarrow> skill_pose option"
  wd_obstacle :: "nat \<Rightarrow> pyval"
  wd_fails :: "nat \<Rightarrow> pyexc option"

datatype motion =
    Velocity pyfloat pyfloat pyfloat
  | TeleopAction string

abbreviation stop_motion :: motion where
  "stop_motion \<equiv> Velocity (Fin 0) (Fin 0) (Fin 0)"

record skill_exec =
  sx_index :: nat
  sx_motions :: "motion list"
  sx_completed :: nat
  sx_status :: string
  sx_error :: string
  sx_reports :: "(string \<times> string) list"

type_synonym 'a skill = "skill_world \<Rightarrow> skill_exec \<Rightarrow> 'a pyres option \<times> skill_exec"

definition returnS :: "'a \<Rightarrow> 'a skill" where
  "returnS a w s = (Some (Inr a), s)"

definition raiseS :: "pyexc \<Rightarrow> 'a skill" where
  "raiseS x w s = (Some (Inl x), s)"

definition liftS :: "'a pyres \<Rightarrow> 'a skill" where
  "liftS r w s = (Some r, s)"

definition bindS :: "'a skill \<Rightarrow> ('a \<Rightarrow> 'b skill) \<Rightarrow> 'b skill" where
  "bindS m f w s =
     (case m w s of
        (None, s') \<Rightarrow> (None, s')
      | (Some (Inl x), s') \<Rightarrow> (Some (Inl x), s')
      | (Some (Inr a), s') \<Rightarrow> f a w s')"

definition out_of_fuel :: "'a skill" where
  "out_of_fuel w s = (None, s)"

definition tick :: "skill_exec \<Rightarrow> skill_exec" where
  "tick s = s\<lparr>sx_index := Suc (sx_index s)\<rparr>"

definition monotonic :: "real skill" where
  "monotonic w s = (Some (Inr (wd_monotonic w (sx_index s))), tick s)"

definition latest_pose :: "skill_pose option skill" where
  "latest_pose w s = (Some (Inr (wd_pose w (sx_index s))), tick s)"

definition front_obstacle :: "pyval skill" where
  "front_obstacle w s = (Some (Inr (wd_obstacle w (sx_index s))), tick s)"

definition send :: "motion \<Rightarrow> unit skill" where
  "send c w s =
     (Some (case wd_fails w (sx_index s) of None \<Rightarrow> Inr () | Some x \<Rightarrow> Inl x),
      (tick s)\<lparr>sx_motions := sx_motions s @ [c]\<rparr>)"

definition check_cancelled :: "unit skill" where
  "check_cancelled w s =
     (Some (if wd_cancelled w (sx_index s) then Inl (protocol_error ''SKILL_CANCELLED'' ''skill was cancelled'') else Inr ()), tick s)"

section \<open>The control loops\<close>

definition step_invalid :: "string \<Rightarrow> pyexc" where
  "step_invalid text = protocol_error ''SKILL_STEP_INVALID'' text"

definition pose_unavailable :: "string \<Rightarrow> pyexc" where
  "pose_unavailable text = protocol_error ''SKILL_POSE_UNAVAILABLE'' text"

fun drive_loop :: "nat \<Rightarrow> motion \<Rightarrow> pyfloat \<Rightarrow> unit skill" where
  "drive_loop 0 c deadline = out_of_fuel"
| "drive_loop (Suc n) c deadline =
     bindS monotonic (\<lambda>t.
       if float_lt (Fin t) deadline
       then bindS check_cancelled (\<lambda>_. bindS (send c) (\<lambda>_. drive_loop n c deadline))
       else returnS ())"

definition drive_for :: "nat \<Rightarrow> pyfloat \<Rightarrow> pyfloat \<Rightarrow> pyfloat \<Rightarrow> pyfloat \<Rightarrow> unit skill" where
  "drive_for fuel vx vy yaw_rate duration =
     (if float_le duration (Fin 0) then raiseS (step_invalid ''duration_seconds must be positive'')
      else bindS monotonic (\<lambda>t. drive_loop fuel (Velocity vx vy yaw_rate) (float_plus t duration)))"

definition tau :: real where
  "tau = 2 * pi"

definition fmod :: "real \<Rightarrow> real \<Rightarrow> real" where
  "fmod a b = a - b * of_int \<lfloor>a / b\<rfloor>"

definition yaw_delta :: "real \<Rightarrow> real \<Rightarrow> real" where
  "yaw_delta yaw previous = fmod (yaw - previous + pi) tau - pi"

fun turn_loop :: "nat \<Rightarrow> pyfloat \<Rightarrow> motion \<Rightarrow> real \<Rightarrow> real \<Rightarrow> unit skill" where
  "turn_loop 0 angle c previous accumulated = out_of_fuel"
| "turn_loop (Suc n) angle c previous accumulated =
     (if float_lt (Fin \<bar>accumulated\<bar>) (float_abs angle) then
        bindS check_cancelled (\<lambda>_. bindS latest_pose (\<lambda>p.
          case p of
            None \<Rightarrow> raiseS (pose_unavailable ''localization pose disappeared during turn'')
          | Some q \<Rightarrow> bindS (send c) (\<lambda>_.
              turn_loop n angle c (sp_yaw q) (accumulated + yaw_delta (sp_yaw q) previous))))
      else returnS ())"

definition turn_by_angle :: "nat \<Rightarrow> pyfloat \<Rightarrow> pyfloat \<Rightarrow> unit skill" where
  "turn_by_angle fuel angle yaw_rate =
     bindS latest_pose (\<lambda>p.
       case p of
         None \<Rightarrow> raiseS (pose_unavailable ''turn angle requires a current localization pose'')
       | Some q \<Rightarrow>
           if angle = Fin 0 \<or> yaw_rate = Fin 0 then raiseS (step_invalid ''angle_rad and yaw_rate must be non-zero'')
           else turn_loop fuel angle
                  (Velocity (Fin 0) (Fin 0) (float_scale (if float_lt (Fin 0) angle then 1 else - 1) (float_abs yaw_rate)))
                  (sp_yaw q) 0)"

fun distance_loop :: "nat \<Rightarrow> motion \<Rightarrow> real \<Rightarrow> real \<Rightarrow> pyfloat \<Rightarrow> unit skill" where
  "distance_loop 0 c start_x start_y distance = out_of_fuel"
| "distance_loop (Suc n) c start_x start_y distance =
     bindS check_cancelled (\<lambda>_. bindS latest_pose (\<lambda>p.
       case p of
         None \<Rightarrow> raiseS (pose_unavailable ''localization pose disappeared during distance step'')
       | Some q \<Rightarrow>
           if float_le distance (hypot (Fin (sp_x q - start_x)) (Fin (sp_y q - start_y))) then returnS ()
           else bindS (send c) (\<lambda>_. distance_loop n c start_x start_y distance)))"

definition axis_vector :: "string \<Rightarrow> (real \<times> real) option" where
  "axis_vector axis =
     (if axis = ''forward'' then Some (1, 0) else if axis = ''backward'' then Some (- 1, 0)
      else if axis = ''left'' then Some (0, 1) else if axis = ''right'' then Some (0, - 1) else None)"

definition drive_distance :: "nat \<Rightarrow> string \<Rightarrow> pyfloat \<Rightarrow> pyfloat \<Rightarrow> unit skill" where
  "drive_distance fuel axis distance speed =
     bindS latest_pose (\<lambda>p.
       case p of
         None \<Rightarrow> raiseS (pose_unavailable ''distance movement requires a current localization pose'')
       | Some q \<Rightarrow>
           (case axis_vector axis of
              None \<Rightarrow> raiseS (step_invalid ''distance step has invalid axis, distance_m or speed_mps'')
            | Some v \<Rightarrow>
                if float_le distance (Fin 0) \<or> float_le speed (Fin 0)
                then raiseS (step_invalid ''distance step has invalid axis, distance_m or speed_mps'')
                else distance_loop fuel (Velocity (float_scale (fst v) speed) (float_scale (snd v) speed) (Fin 0))
                       (sp_x q) (sp_y q) distance))"

definition avoid_obstacle :: "nat \<Rightarrow> unit skill" where
  "avoid_obstacle fuel =
     bindS front_obstacle (\<lambda>d.
       if d = PNone then returnS ()
       else bindS (liftS (py_float d)) (\<lambda>f.
         if float_le f (Fin (8 / 10))
         then bindS (send stop_motion) (\<lambda>_. turn_by_angle fuel (Fin (pi / 2)) (Fin (45 / 100)))
         else returnS ()))"

fun avoid_loop :: "nat \<Rightarrow> nat \<Rightarrow> motion \<Rightarrow> pyfloat \<Rightarrow> unit skill" where
  "avoid_loop 0 fuel c deadline = out_of_fuel"
| "avoid_loop (Suc n) fuel c deadline =
     bindS monotonic (\<lambda>t.
       if float_lt (Fin t) deadline
       then bindS check_cancelled (\<lambda>_. bindS (avoid_obstacle fuel) (\<lambda>_. bindS (send c) (\<lambda>_. avoid_loop n fuel c deadline)))
       else returnS ())"

definition avoid_forward :: "nat \<Rightarrow> pyfloat \<Rightarrow> pyfloat \<Rightarrow> unit skill" where
  "avoid_forward fuel duration speed =
     (if float_le duration (Fin 0) \<or> float_le speed (Fin 0)
      then raiseS (step_invalid ''avoid_forward requires positive duration_seconds and speed_mps'')
      else bindS monotonic (\<lambda>t. avoid_loop fuel fuel (Velocity speed (Fin 0) (Fin 0)) (float_plus t duration)))"

section \<open>Steps\<close>

definition speed_action :: "string \<Rightarrow> string option" where
  "speed_action level =
     (if level = ''micro'' then Some ''speed_micro'' else if level = ''low'' then Some ''speed_slow''
      else if level = ''medium'' then Some ''speed_normal'' else if level = ''high'' then Some ''speed_fast'' else None)"

text \<open>\<open>float(step.get(key, default))\<close>.\<close>

definition num_arg :: "pydict \<Rightarrow> string \<Rightarrow> real \<Rightarrow> pyfloat skill" where
  "num_arg step key dflt = liftS (py_float (dget_def_val step key (PFloat (Fin dflt))))"

definition run_step :: "nat \<Rightarrow> pydict \<Rightarrow> unit skill" where
  "run_step fuel step =
     (let kind = py_str (dget step ''kind'') in
      if kind = ''action'' then
        (let action = str_or (dget step ''action'') [] in
         if action \<notin> {''stand_up'', ''lie_down'', ''passive''} then raiseS (step_invalid (''unsupported action '' @ action))
         else send (TeleopAction action))
      else if kind = ''speed'' then
        (let level = str_or (dget step ''level'') [] in
         case speed_action level of
           None \<Rightarrow> raiseS (step_invalid (''unsupported speed level '' @ level))
         | Some a \<Rightarrow> send (TeleopAction a))
      else if kind = ''velocity'' then
        bindS (num_arg step ''vx'' 0) (\<lambda>vx. bindS (num_arg step ''vy'' 0) (\<lambda>vy. bindS (num_arg step ''yaw_rate'' 0) (\<lambda>r.
          bindS (num_arg step ''duration_seconds'' 0) (\<lambda>d. drive_for fuel vx vy r d))))
      else if kind = ''turn'' then
        bindS (num_arg step ''angle_rad'' 0) (\<lambda>a. bindS (num_arg step ''yaw_rate'' (45 / 100)) (\<lambda>r. turn_by_angle fuel a r))
      else if kind = ''distance'' then
        bindS (num_arg step ''distance_m'' 0) (\<lambda>d. bindS (num_arg step ''speed_mps'' (35 / 100)) (\<lambda>v.
          drive_distance fuel (str_or (dget step ''axis'') []) d v))
      else if kind = ''avoid_forward'' then
        bindS (num_arg step ''duration_seconds'' 0) (\<lambda>d. bindS (num_arg step ''speed_mps'' (35 / 100)) (\<lambda>v.
          avoid_forward fuel d v))
      else raiseS (step_invalid (''unsupported step kind '' @ kind)))"

definition set_completed :: "nat \<Rightarrow> unit skill" where
  "set_completed index w s = (Some (Inr ()), s\<lparr>sx_completed := index\<rparr>)"

fun run_steps :: "nat \<Rightarrow> nat \<Rightarrow> pydict list \<Rightarrow> unit skill" where
  "run_steps fuel index [] = returnS ()"
| "run_steps fuel index (step # steps) =
     bindS check_cancelled (\<lambda>_. bindS (run_step fuel step) (\<lambda>_. bindS (set_completed index) (\<lambda>_.
       run_steps fuel (Suc index) steps)))"

section \<open>The thread of a skill\<close>

text \<open>\<open>completed(...)\<close>: the callback that reports the outcome; it may raise.\<close>

definition report :: "string \<Rightarrow> string \<Rightarrow> unit skill" where
  "report status code w s =
     (Some (case wd_fails w (sx_index s) of None \<Rightarrow> Inr () | Some x \<Rightarrow> Inl x),
      (tick s)\<lparr>sx_reports := sx_reports s @ [(status, code)]\<rparr>)"

definition with_status :: "string \<Rightarrow> string \<Rightarrow> unit skill" where
  "with_status status error w s = (Some (Inr ()), s\<lparr>sx_status := status, sx_error := error\<rparr>)"

text \<open>The handlers of the \<open>try\<close> statement.\<close>

definition on_failure :: "pyexc \<Rightarrow> unit skill" where
  "on_failure x =
     (case x of
        ProtocolError code text _ \<Rightarrow>
          let status = (if code = ''SKILL_CANCELLED'' then ''cancelled'' else ''failed'') in
          bindS (with_status status text) (\<lambda>_. report status code)
      | _ \<Rightarrow> bindS (with_status ''failed'' ''<exception>'') (\<lambda>_. report ''failed'' ''SKILL_EXECUTION_FAILED''))"

definition skill_body :: "nat \<Rightarrow> pydict list \<Rightarrow> unit skill" where
  "skill_body fuel steps =
     bindS (run_steps fuel 1 steps) (\<lambda>_. bindS (with_status ''succeeded'' []) (\<lambda>_. report ''succeeded'' []))"

text \<open>The result of \<open>run_skill\<close>: whether the active slot was reached for release, i.e. the last stop did not raise.\<close>

definition run_skill :: "nat \<Rightarrow> pydict list \<Rightarrow> unit skill" where
  "run_skill fuel steps w s =
     (case skill_body fuel steps w s of
        (None, s1) \<Rightarrow> (None, s1)
      | (Some r, s1) \<Rightarrow>
          send stop_motion w (case r of Inr _ \<Rightarrow> s1 | Inl x \<Rightarrow> snd (on_failure x w s1)))"

section \<open>Planning\<close>

definition steps_invalid :: "string \<Rightarrow> pyexc" where
  "steps_invalid text = protocol_error ''SKILL_STEPS_INVALID'' text"

fun normalized_steps :: "nat \<Rightarrow> pyval list \<Rightarrow> pydict list pyres" where
  "normalized_steps index [] = Inr []"
| "normalized_steps index (step # steps) =
     (case step of
        PDict d \<Rightarrow>
          if truthy (dget d ''kind'') then bindE (normalized_steps (Suc index) steps) (\<lambda>ds. Inr (d # ds))
          else Inl (steps_invalid (''step '' @ show_nat index @ '' has no kind''))
      | _ \<Rightarrow> Inl (steps_invalid (''step '' @ show_nat index @ '' has no kind'')))"

definition normalize_plan :: "pydict \<Rightarrow> (string \<times> pydict list) pyres" where
  "normalize_plan command =
     (let preset_name = strip (str_or (dget command ''preset'') []) in
      if preset_name \<noteq> [] then
        (case find_preset preset_name PRESET_SKILLS of
           None \<Rightarrow> Inl (protocol_error ''SKILL_PRESET_UNKNOWN'' (''unknown preset '' @ preset_name))
         | Some p \<Rightarrow> Inr (pr_description p, pr_steps p))
      else
        (case dget command ''steps'' of
           PList steps \<Rightarrow>
             if steps = [] then Inl (steps_invalid ''provide a preset or a non-empty steps array'')
             else if length steps > 32 then Inl (steps_invalid ''at most 32 steps are supported'')
             else bindE (normalized_steps 0 steps)
               (\<lambda>ds. Inr (str_or (dget command ''description'') ''<combined actions>'', ds))
         | _ \<Rightarrow> Inl (steps_invalid ''provide a preset or a non-empty steps array'')))"

section \<open>The executor\<close>

record skill_run =
  rn_description :: string
  rn_status :: string
  rn_total_steps :: nat
  rn_cancel_event :: bool

record skill_executor =
  ex_runs :: "string \<Rightarrow> skill_run option"
  ex_active_id :: "string option"

definition new_executor :: skill_executor where
  "new_executor = \<lparr>ex_runs = (\<lambda>_. None), ex_active_id = None\<rparr>"

definition busy_with :: "skill_executor \<Rightarrow> string option" where
  "busy_with ex =
     (case ex_active_id ex of
        None \<Rightarrow> None
      | Some a \<Rightarrow> if a = [] then None
          else (case ex_runs ex a of None \<Rightarrow> None | Some r \<Rightarrow> if rn_status r = ''running'' then Some a else None))"

definition start_skill :: "string \<Rightarrow> pydict \<Rightarrow> skill_executor \<Rightarrow> skill_executor \<times> (skill_run \<times> pydict list) pyres" where
  "start_skill command_id command ex =
     (case normalize_plan command of
        Inl x \<Rightarrow> (ex, Inl x)
      | Inr plan \<Rightarrow>
          (case busy_with ex of
             Some a \<Rightarrow> (ex, Inl (protocol_error ''SKILL_BUSY'' (''skill '' @ a @ '' is still running'')))
           | None \<Rightarrow>
               let run = \<lparr>rn_description = fst plan, rn_status = ''running'', rn_total_steps = length (snd plan),
                          rn_cancel_event = False\<rparr>
               in (\<lparr>ex_runs = (ex_runs ex)(command_id \<mapsto> run), ex_active_id = Some command_id\<rparr>, Inr (run, snd plan))))"

definition not_found :: "string \<Rightarrow> pyexc" where
  "not_found command_id = protocol_error ''SKILL_NOT_FOUND'' (''no skill run for command '' @ command_id)"

definition skill_status :: "string \<Rightarrow> skill_executor \<Rightarrow> skill_run pyres" where
  "skill_status command_id ex = (case ex_runs ex command_id of None \<Rightarrow> Inl (not_found command_id) | Some r \<Rightarrow> Inr r)"

definition cancel_skill :: "string \<Rightarrow> skill_executor \<Rightarrow> skill_executor \<times> skill_run pyres" where
  "cancel_skill command_id ex =
     (case ex_runs ex command_id of
        None \<Rightarrow> (ex, Inl (not_found command_id))
      | Some r \<Rightarrow> let r' = r\<lparr>rn_cancel_event := True\<rparr> in (ex\<lparr>ex_runs := (ex_runs ex)(command_id \<mapsto> r')\<rparr>, Inr r'))"

text \<open>The two writes of the thread: its final status, and then, after the last stop, the release of the slot.\<close>

definition set_status :: "string \<Rightarrow> string \<Rightarrow> skill_executor \<Rightarrow> skill_executor" where
  "set_status command_id status ex =
     (case ex_runs ex command_id of None \<Rightarrow> ex
      | Some r \<Rightarrow> ex\<lparr>ex_runs := (ex_runs ex)(command_id \<mapsto> r\<lparr>rn_status := status\<rparr>)\<rparr>)"

definition release_active :: "string \<Rightarrow> skill_executor \<Rightarrow> skill_executor" where
  "release_active command_id ex = (if ex_active_id ex = Some command_id then ex\<lparr>ex_active_id := None\<rparr> else ex)"

section \<open>What a skill does to its execution\<close>

named_theorems skill_rules \<open>composition rules for skills\<close>

text \<open>A skill that only reads and sends motions of a kind; a skill that comes to an end in a world.\<close>

definition motions_of :: "(motion \<Rightarrow> bool) \<Rightarrow> 'a skill \<Rightarrow> bool" where
  "motions_of P m = (\<forall>w s. let s' = snd (m w s) in
     (\<exists>new. sx_motions s' = sx_motions s @ new \<and> (\<forall>c \<in> set new. P c))
     \<and> sx_completed s' = sx_completed s \<and> sx_status s' = sx_status s \<and> sx_error s' = sx_error s \<and> sx_reports s' = sx_reports s)"

definition ends_in :: "skill_world \<Rightarrow> 'a skill \<Rightarrow> bool" where
  "ends_in w m = (\<forall>s. fst (m w s) \<noteq> None \<and> sx_index s \<le> sx_index (snd (m w s)))"

lemma motions_of_bind [skill_rules]:
  assumes "motions_of P m" "\<And>a. motions_of P (f a)"
  shows "motions_of P (bindS m f)"
  unfolding motions_of_def
proof (intro allI)
  fix w s
  obtain o1 s1 where m: "m w s = (o1, s1)" by fastforce
  from assms(1) [unfolded motions_of_def, rule_format, of w s] m obtain n1 where
    n1: "sx_motions s1 = sx_motions s @ n1" "\<forall>c \<in> set n1. P c" "sx_completed s1 = sx_completed s"
      "sx_status s1 = sx_status s" "sx_error s1 = sx_error s" "sx_reports s1 = sx_reports s"
    by (auto simp: Let_def)
  show "let s' = snd (bindS m f w s) in
     (\<exists>new. sx_motions s' = sx_motions s @ new \<and> (\<forall>c \<in> set new. P c))
     \<and> sx_completed s' = sx_completed s \<and> sx_status s' = sx_status s \<and> sx_error s' = sx_error s \<and> sx_reports s' = sx_reports s"
  proof (cases "\<exists>a. o1 = Some (Inr a)")
    case True
    then obtain a where a: "o1 = Some (Inr a)" by blast
    from assms(2) [of a, unfolded motions_of_def, rule_format, of w s1] obtain n2 where
      "sx_motions (snd (f a w s1)) = sx_motions s1 @ n2" "\<forall>c \<in> set n2. P c"
      "sx_completed (snd (f a w s1)) = sx_completed s1" "sx_status (snd (f a w s1)) = sx_status s1"
      "sx_error (snd (f a w s1)) = sx_error s1" "sx_reports (snd (f a w s1)) = sx_reports s1"
      by (auto simp: Let_def)
    with n1 show ?thesis by (simp add: bindS_def m a Let_def ball_Un)
  next
    case False
    then have "snd (bindS m f w s) = s1" by (auto simp: bindS_def m split: option.splits sum.splits)
    with n1 show ?thesis by (auto simp: Let_def)
  qed
qed

lemma motions_of_prim [skill_rules]:
  "motions_of P (returnS a)" "motions_of P (raiseS x)" "motions_of P (liftS r)" "motions_of P out_of_fuel"
  "motions_of P monotonic" "motions_of P latest_pose" "motions_of P front_obstacle" "motions_of P check_cancelled"
  by (simp_all add: motions_of_def returnS_def raiseS_def liftS_def out_of_fuel_def monotonic_def latest_pose_def
    front_obstacle_def check_cancelled_def tick_def)

lemma motions_of_send [skill_rules]: "P c \<Longrightarrow> motions_of P (send c)"
  by (simp add: motions_of_def send_def tick_def)

lemma motions_of_if [skill_rules]: "(b \<Longrightarrow> motions_of P m) \<Longrightarrow> (\<not> b \<Longrightarrow> motions_of P m') \<Longrightarrow> motions_of P (if b then m else m')"
  by simp

lemma motions_of_option [skill_rules]:
  "(p = None \<Longrightarrow> motions_of P m) \<Longrightarrow> (\<And>q. p = Some q \<Longrightarrow> motions_of P (f q)) \<Longrightarrow>
     motions_of P (case p of None \<Rightarrow> m | Some q \<Rightarrow> f q)"
  by (cases p) simp_all

lemma ends_bind [skill_rules]: "ends_in w m \<Longrightarrow> (\<And>a. ends_in w (f a)) \<Longrightarrow> ends_in w (bindS m f)"
  unfolding ends_in_def bindS_def
  by (auto split: prod.splits option.splits sum.splits) (metis fst_conv option.distinct(1) order_trans snd_conv)+

lemma ends_prim [skill_rules]:
  "ends_in w (returnS a)" "ends_in w (raiseS x)" "ends_in w (liftS r)" "ends_in w monotonic" "ends_in w latest_pose"
  "ends_in w front_obstacle" "ends_in w check_cancelled" "ends_in w (send c)" "ends_in w (report st code)"
  "ends_in w (with_status st e)" "ends_in w (set_completed i)"
  by (simp_all add: ends_in_def returnS_def raiseS_def liftS_def monotonic_def latest_pose_def front_obstacle_def
    check_cancelled_def tick_def send_def report_def with_status_def set_completed_def)

lemma ends_if [skill_rules]: "(b \<Longrightarrow> ends_in w m) \<Longrightarrow> (\<not> b \<Longrightarrow> ends_in w m') \<Longrightarrow> ends_in w (if b then m else m')"
  by simp

lemma ends_option [skill_rules]:
  "(p = None \<Longrightarrow> ends_in w m) \<Longrightarrow> (\<And>q. p = Some q \<Longrightarrow> ends_in w (f q)) \<Longrightarrow> ends_in w (case p of None \<Rightarrow> m | Some q \<Rightarrow> f q)"
  by (cases p) simp_all

section \<open>Motions\<close>

lemma motions_of_drive: "P c \<Longrightarrow> motions_of P (drive_loop n c deadline)"
  by (induction n) (simp_all add: skill_rules)

lemma motions_of_turn: "P c \<Longrightarrow> motions_of P (turn_loop n angle c previous acc)"
  by (induction n arbitrary: previous acc) (auto intro!: skill_rules)

lemma motions_of_distance: "P c \<Longrightarrow> motions_of P (distance_loop n c x y d)"
  by (induction n) (auto intro!: skill_rules)

lemma motions_of_turn_by_angle:
  "P (Velocity (Fin 0) (Fin 0) (float_scale (if float_lt (Fin 0) angle then 1 else - 1) (float_abs r))) \<Longrightarrow>
     motions_of P (turn_by_angle fuel angle r)"
  by (auto simp: turn_by_angle_def intro!: skill_rules motions_of_turn)

lemma motions_of_avoid:
  assumes "P c" "P stop_motion" "P (Velocity (Fin 0) (Fin 0) (Fin (45 / 100)))"
  shows "motions_of P (avoid_loop n fuel c deadline)"
proof -
  have "motions_of P (turn_by_angle fuel (Fin (pi / 2)) (Fin (45 / 100)))"
    using assms(3) pi_gt_zero by (intro motions_of_turn_by_angle) simp
  then have "motions_of P (avoid_obstacle fuel)"
    using assms(2) by (auto simp: avoid_obstacle_def intro!: skill_rules)
  then show ?thesis using assms(1) by (induction n) (auto intro!: skill_rules)
qed

section \<open>Termination\<close>

definition cancelled_from :: "skill_world \<Rightarrow> nat \<Rightarrow> bool" where
  "cancelled_from w N = (\<forall>k \<ge> N. wd_cancelled w k)"

text \<open>One round of a loop: the check raises once the event is set; every reading moves the index.\<close>

definition loop_ends :: "skill_world \<Rightarrow> nat \<Rightarrow> nat \<Rightarrow> 'a skill \<Rightarrow> bool" where
  "loop_ends w N n m = (\<forall>s. 0 < n \<and> N < sx_index s + n \<longrightarrow> fst (m w s) \<noteq> None \<and> sx_index s \<le> sx_index (snd (m w s)))"

lemma loop_ends_enough: "loop_ends w N n m \<Longrightarrow> N < n \<Longrightarrow> ends_in w m"
  by (simp add: loop_ends_def ends_in_def)

lemma loop_ends_check:
  assumes "cancelled_from w N" "loop_ends w N n m"
  shows "loop_ends w N (Suc n) (bindS check_cancelled (\<lambda>_. m))"
  unfolding loop_ends_def
proof (intro allI impI)
  fix s :: skill_exec
  assume s: "0 < Suc n \<and> N < sx_index s + Suc n"
  show "fst (bindS check_cancelled (\<lambda>_. m) w s) \<noteq> None \<and> sx_index s \<le> sx_index (snd (bindS check_cancelled (\<lambda>_. m) w s))"
  proof (cases "wd_cancelled w (sx_index s)")
    case True
    then show ?thesis by (simp add: bindS_def check_cancelled_def tick_def)
  next
    case False
    then have "sx_index s < N" using assms(1) by (auto simp: cancelled_from_def not_le [symmetric])
    with s have "fst (m w (tick s)) \<noteq> None \<and> Suc (sx_index s) \<le> sx_index (snd (m w (tick s)))"
      using assms(2) [unfolded loop_ends_def, rule_format, of "tick s"] by (simp add: tick_def)
    with False show ?thesis by (simp add: bindS_def check_cancelled_def)
  qed
qed

lemma loop_ends_bind: "ends_in w m \<Longrightarrow> (\<And>a. loop_ends w N n (f a)) \<Longrightarrow> loop_ends w N n (bindS m f)"
  unfolding ends_in_def loop_ends_def bindS_def
  by (auto split: prod.splits option.splits sum.splits)
    (metis add_le_mono1 fst_conv option.distinct(1) order_less_le_trans order_trans snd_conv)+

lemma ends_loop: "ends_in w m \<Longrightarrow> loop_ends w N n m"
  by (simp add: ends_in_def loop_ends_def)

lemma loop_ends_zero: "loop_ends w N 0 m"
  by (simp add: loop_ends_def)

lemma loop_ends_if: "(b \<Longrightarrow> loop_ends w N n m) \<Longrightarrow> (\<not> b \<Longrightarrow> loop_ends w N n m') \<Longrightarrow> loop_ends w N n (if b then m else m')"
  by simp

lemma loop_ends_option:
  "(p = None \<Longrightarrow> loop_ends w N n m) \<Longrightarrow> (\<And>q. p = Some q \<Longrightarrow> loop_ends w N n (f q)) \<Longrightarrow>
     loop_ends w N n (case p of None \<Rightarrow> m | Some q \<Rightarrow> f q)"
  by (cases p) simp_all

lemmas loop_rules = loop_ends_check loop_ends_if loop_ends_option

lemma drive_loop_ends: "cancelled_from w N \<Longrightarrow> loop_ends w N n (drive_loop n c deadline)"
  by (induction n) (auto intro!: loop_rules loop_ends_zero loop_ends_bind [OF ends_prim(4)] loop_ends_bind [OF ends_prim(8)]
    ends_loop [OF ends_prim(1)])

lemma turn_loop_ends: "cancelled_from w N \<Longrightarrow> loop_ends w N n (turn_loop n angle c previous acc)"
  by (induction n arbitrary: previous acc) (auto intro!: loop_rules loop_ends_zero loop_ends_bind [OF ends_prim(5)]
    loop_ends_bind [OF ends_prim(8)] ends_loop [OF ends_prim(1)] ends_loop [OF ends_prim(2)])

lemma distance_loop_ends: "cancelled_from w N \<Longrightarrow> loop_ends w N n (distance_loop n c x y d)"
  by (induction n) (auto intro!: loop_rules loop_ends_zero loop_ends_bind [OF ends_prim(5)]
    loop_ends_bind [OF ends_prim(8)] ends_loop [OF ends_prim(1)] ends_loop [OF ends_prim(2)])

lemma turn_by_angle_ends: "cancelled_from w N \<Longrightarrow> N < fuel \<Longrightarrow> ends_in w (turn_by_angle fuel angle r)"
  by (auto simp: turn_by_angle_def intro!: skill_rules loop_ends_enough [OF turn_loop_ends])

lemma avoid_loop_ends:
  assumes "cancelled_from w N" "N < fuel"
  shows "loop_ends w N n (avoid_loop n fuel c deadline)"
proof -
  have "ends_in w (avoid_obstacle fuel)"
    using turn_by_angle_ends [OF assms] by (auto simp: avoid_obstacle_def intro!: skill_rules)
  then show ?thesis
    using assms(1) by (induction n) (auto intro!: loop_rules loop_ends_zero loop_ends_bind [OF ends_prim(4)]
      loop_ends_bind [OF ends_prim(8)] ends_loop [OF ends_prim(1)] intro: loop_ends_bind)
qed

lemma run_step_ends:
  assumes "cancelled_from w N" "N < fuel"
  shows "ends_in w (run_step fuel step)"
  unfolding run_step_def Let_def num_arg_def drive_for_def drive_distance_def avoid_forward_def
  using assms
  by (auto intro!: skill_rules loop_ends_enough [OF drive_loop_ends] loop_ends_enough [OF distance_loop_ends]
    loop_ends_enough [OF avoid_loop_ends] turn_by_angle_ends)

lemma run_steps_ends: "cancelled_from w N \<Longrightarrow> N < fuel \<Longrightarrow> ends_in w (run_steps fuel index steps)"
  by (induction steps arbitrary: index) (auto intro!: skill_rules run_step_ends)

lemma skill_body_ends: "cancelled_from w N \<Longrightarrow> N < fuel \<Longrightarrow> ends_in w (skill_body fuel steps)"
  by (auto simp: skill_body_def intro!: skill_rules run_steps_ends)

section \<open>The outcome of a skill\<close>

lemma bindS_ok: "bindS m f w s = (Some (Inr b), s') \<longleftrightarrow> (\<exists>a s1. m w s = (Some (Inr a), s1) \<and> f a w s1 = (Some (Inr b), s'))"
  by (auto simp: bindS_def split: prod.splits option.splits sum.splits)

lemma bindS_err:
  "bindS m f w s = (Some (Inl x), s') \<longleftrightarrow>
     m w s = (Some (Inl x), s') \<or> (\<exists>a s1. m w s = (Some (Inr a), s1) \<and> f a w s1 = (Some (Inl x), s'))"
  by (auto simp: bindS_def split: prod.splits option.splits sum.splits)

lemma motions_of_any: "motions_of (\<lambda>_. True) (run_step fuel step)"
  unfolding run_step_def Let_def num_arg_def drive_for_def drive_distance_def avoid_forward_def
  by (auto intro!: skill_rules motions_of_drive motions_of_distance motions_of_avoid motions_of_turn_by_angle)

text \<open>While the steps run, neither the status nor the reports change, and the counter follows the finished steps.\<close>

lemma run_steps_frame:
  "run_steps fuel index steps w s = (r, s') \<Longrightarrow> sx_reports s' = sx_reports s
     \<and> (r = Some (Inr u) \<and> steps \<noteq> [] \<longrightarrow> sx_completed s' + 1 = index + length steps)"
proof (induction steps arbitrary: index s r s')
  case Nil
  then show ?case by (auto simp: returnS_def)
next
  case (Cons step steps)
  obtain r1 s1 where c: "check_cancelled w s = (r1, s1)" "sx_reports s1 = sx_reports s"
    by (simp add: check_cancelled_def tick_def)
  obtain r2 s2 where d: "run_step fuel step w s1 = (r2, s2)" by fastforce
  with motions_of_any [of fuel step, unfolded motions_of_def, rule_format, of w s1]
  have d2: "sx_reports s2 = sx_reports s1" by (simp add: Let_def)
  let ?s3 = "s2\<lparr>sx_completed := index\<rparr>"
  obtain r4 s4 where e: "run_steps fuel (Suc index) steps w ?s3 = (r4, s4)" by fastforce
  from Cons.IH [OF e] have ih: "sx_reports s4 = sx_reports s2"
    "r4 = Some (Inr u) \<and> steps \<noteq> [] \<longrightarrow> sx_completed s4 + 1 = Suc index + length steps" by simp_all
  have nil: "steps = [] \<longrightarrow> sx_completed s4 = index" using e by (auto simp: returnS_def)
  show ?case
    using Cons.prems c d d2 e ih nil
    by (cases "steps = []") (auto simp: bindS_def set_completed_def split: option.splits sum.splits)
qed

lemma on_failure_ends: "ends_in w (on_failure x)"
  by (cases x) (auto simp: on_failure_def Let_def intro!: skill_rules)

lemma on_failure_result:
  "\<exists>s'. on_failure x w s = (Some r, s') \<and> sx_status s' \<in> {''failed'', ''cancelled''}
     \<and> sx_reports s' = sx_reports s @ [(sx_status s', case x of ProtocolError code _ _ \<Rightarrow> code | _ \<Rightarrow> ''SKILL_EXECUTION_FAILED'')]"
  if "fst (on_failure x w s) = Some r"
  using that by (auto simp: on_failure_def bindS_def with_status_def report_def tick_def Let_def split: pyexc.splits)

lemma skill_body_result:
  assumes "skill_body fuel steps w s = (Some r, s1)"
  shows "\<exists>new. sx_reports s1 = sx_reports s @ new" and
    "r = Inr u \<Longrightarrow> sx_status s1 = ''succeeded'' \<and> sx_reports s1 = sx_reports s @ [(''succeeded'', [])]
       \<and> (steps \<noteq> [] \<longrightarrow> sx_completed s1 = length steps)"
proof -
  obtain r0 s0 where run: "run_steps fuel 1 steps w s = (r0, s0)" by fastforce
  note frame = run_steps_frame [OF run, of "()"]
  show "\<exists>new. sx_reports s1 = sx_reports s @ new"
    using assms run frame
    by (auto simp: skill_body_def bindS_def with_status_def report_def tick_def split: option.splits sum.splits)
  show "sx_status s1 = ''succeeded'' \<and> sx_reports s1 = sx_reports s @ [(''succeeded'', [])]
       \<and> (steps \<noteq> [] \<longrightarrow> sx_completed s1 = length steps)" if "r = Inr u"
    using assms run frame that
    by (auto simp: skill_body_def bindS_def with_status_def report_def tick_def split: option.splits sum.splits)
qed

text \<open>C25. A skill ends with the robot stopped. Whenever the thread of a skill ends, whatever the world answered, the
  last motion command is the zero velocity, the status is one of the three final ones, the outcome reported last is that
  status, and success is only reported when every step was completed. And the thread does end: once the cancel event
  is set for good (from the reading \<open>N\<close> on), more than \<open>N\<close> rounds of fuel per loop are enough, also for steps whose goal
  is never reached.\<close>

theorem skill_ends_stopped:
  "(case run_skill fuel steps w s of
      (None, _) \<Rightarrow> \<not> (cancelled_from w N \<and> N < fuel)
    | (Some _, s') \<Rightarrow> (\<exists>before. sx_motions s' = before @ [stop_motion])
        \<and> sx_status s' \<in> {''succeeded'', ''failed'', ''cancelled''}
        \<and> (\<exists>new code. sx_reports s' = sx_reports s @ new @ [(sx_status s', code)])
        \<and> (sx_status s' = ''succeeded'' \<and> steps \<noteq> [] \<longrightarrow> sx_completed s' = length steps))"
proof -
  obtain o1 s1 where body: "skill_body fuel steps w s = (o1, s1)" by fastforce
  show ?thesis
  proof (cases o1)
    case None
    have "\<not> ends_in w (skill_body fuel steps)"
      using body None by (auto simp: ends_in_def intro!: exI [of _ s])
    with body None skill_body_ends show ?thesis by (auto simp: run_skill_def)
  next
    case (Some r)
    show ?thesis
    proof (cases r)
      case (Inr u)
      with skill_body_result [OF body [unfolded Some]] body Some show ?thesis
        by (simp add: run_skill_def send_def tick_def)
    next
      case (Inl x)
      obtain new where new: "sx_reports s1 = sx_reports s @ new" using skill_body_result(1) [OF body [unfolded Some]] by blast
      obtain r2 s2 where f: "on_failure x w s1 = (Some r2, s2)"
        using on_failure_ends [of w x] by (cases "on_failure x w s1") (fastforce simp: ends_in_def dest: spec [of _ s1])
      with on_failure_result [of x w s1 r2] new
      have "sx_status s2 \<in> {''failed'', ''cancelled''}" "\<exists>new code. sx_reports s2 = sx_reports s @ new @ [(sx_status s2, code)]"
        by auto
      with body Some Inl f show ?thesis by (auto simp: run_skill_def send_def tick_def)
    qed
  qed
qed

text \<open>A world that never reaches its goal and is cancelled from the third reading on.\<close>

definition still_world :: skill_world where
  "still_world = \<lparr>wd_monotonic = (\<lambda>_. 0), wd_cancelled = (\<lambda>k. 3 \<le> k), wd_pose = (\<lambda>_. Some \<lparr>sp_x = 0, sp_y = 0, sp_yaw = 0\<rparr>),
     wd_obstacle = (\<lambda>_. PNone), wd_fails = (\<lambda>_. None)\<rparr>"

definition new_exec :: skill_exec where
  "new_exec = \<lparr>sx_index = 0, sx_motions = [], sx_completed = 0, sx_status = ''running'', sx_error = [], sx_reports = []\<rparr>"

theorem skill_ends_stopped_witness:
  "\<exists>r s'. run_skill 4 (pr_steps micro_forward_5s) still_world new_exec = (Some r, s') \<and> last (sx_motions s') = stop_motion"
proof -
  have "cancelled_from still_world 3" by (simp add: cancelled_from_def still_world_def)
  with skill_ends_stopped [where fuel = 4 and steps = "pr_steps micro_forward_5s" and w = still_world and s = new_exec and N = 3] show ?thesis
    by (auto split: prod.splits option.splits)
qed

section \<open>Presets\<close>

definition slow :: "motion \<Rightarrow> bool" where
  "slow c = (case c of
      Velocity vx vy r \<Rightarrow> (\<exists>x y z. vx = Fin x \<and> vy = Fin y \<and> r = Fin z \<and> \<bar>x\<bar> \<le> 4 / 10 \<and> \<bar>y\<bar> \<le> 4 / 10 \<and> \<bar>z\<bar> \<le> 45 / 100)
    | TeleopAction a \<Rightarrow> a \<in> {''lie_down'', ''speed_micro''})"

lemma bindS_lift [simp]: "bindS (liftS (Inr a)) f = f a"
  by (rule ext)+ (simp add: bindS_def liftS_def)

lemma slow_simps [simp]:
  "slow (Velocity (Fin x) (Fin y) (Fin z)) = (\<bar>x\<bar> \<le> 4 / 10 \<and> \<bar>y\<bar> \<le> 4 / 10 \<and> \<bar>z\<bar> \<le> 45 / 100)"
  "slow (TeleopAction a) = (a \<in> {''lie_down'', ''speed_micro''})"
  by (simp_all add: slow_def)

lemma slow_velocity: "\<bar>vx\<bar> \<le> 4 / 10 \<Longrightarrow> motions_of slow (drive_for fuel (Fin vx) (Fin 0) (Fin 0) d)"
  by (auto simp: drive_for_def intro!: skill_rules motions_of_drive)

lemma slow_turn: "\<bar>r\<bar> \<le> 45 / 100 \<Longrightarrow> motions_of slow (turn_by_angle fuel a (Fin r))"
  by (rule motions_of_turn_by_angle) simp

lemma slow_distance: "\<bar>v\<bar> \<le> 4 / 10 \<Longrightarrow> motions_of slow (drive_distance fuel axis d (Fin v))"
  by (auto simp: drive_distance_def axis_vector_def intro!: skill_rules motions_of_distance split: if_splits)

lemma slow_avoid: "\<bar>v\<bar> \<le> 4 / 10 \<Longrightarrow> motions_of slow (avoid_forward fuel d (Fin v))"
  by (auto simp: avoid_forward_def intro!: skill_rules motions_of_avoid)

lemma preset_steps_slow:
  assumes "p \<in> set PRESET_SKILLS" "step \<in> set (pr_steps p)"
  shows "motions_of slow (run_step fuel step)"
  using assms
  by (auto simp: PRESET_SKILLS_def preset_defs run_step_def num_arg_def speed_action_def
    intro!: slow_velocity slow_turn slow_distance slow_avoid motions_of_send)

lemma run_steps_motions:
  assumes "\<And>step. step \<in> set steps \<Longrightarrow> motions_of P (run_step fuel step)"
  shows "\<exists>new. sx_motions (snd (run_steps fuel index steps w s)) = sx_motions s @ new \<and> (\<forall>c \<in> set new. P c)"
  using assms
proof (induction steps arbitrary: index s)
  case Nil
  then show ?case by (simp add: returnS_def)
next
  case (Cons step steps)
  obtain r2 s2 where d: "run_step fuel step w (tick s) = (r2, s2)" by fastforce
  from Cons.prems [of step] have "motions_of P (run_step fuel step)" by simp
  from this [unfolded motions_of_def, rule_format, of w "tick s"] d obtain n1 where
    n1: "sx_motions s2 = sx_motions s @ n1" "\<forall>c \<in> set n1. P c" by (auto simp: Let_def tick_def)
  from Cons.IH [of "Suc index" "s2\<lparr>sx_completed := index\<rparr>"] Cons.prems obtain n2 where
    n2: "sx_motions (snd (run_steps fuel (Suc index) steps w (s2\<lparr>sx_completed := index\<rparr>))) = sx_motions s2 @ n2"
      "\<forall>c \<in> set n2. P c" by auto
  consider "wd_cancelled w (sx_index s)" | "\<not> wd_cancelled w (sx_index s)" "\<exists>u. r2 = Some (Inr u)"
    | "\<not> wd_cancelled w (sx_index s)" "\<nexists>u. r2 = Some (Inr u)" by blast
  then show ?case
  proof cases
    case 1
    then show ?thesis by (simp add: bindS_def check_cancelled_def tick_def)
  next
    case 2
    then show ?thesis using d n1 n2
      by (intro exI [of _ "n1 @ n2"]) (auto simp: bindS_def check_cancelled_def set_completed_def)
  next
    case 3
    then show ?thesis using d n1
      by (intro exI [of _ n1]) (auto simp: bindS_def check_cancelled_def split: option.splits sum.splits)
  qed
qed

lemma report_keeps_motions [simp]: "sx_motions (snd (report st code w s)) = sx_motions s"
  by (simp add: report_def tick_def)

lemma on_failure_keeps_motions [simp]: "sx_motions (snd (on_failure x w s)) = sx_motions s"
  by (auto simp: on_failure_def bindS_def with_status_def Let_def split: pyexc.splits)

lemma skill_body_motions: "sx_motions (snd (skill_body fuel steps w s)) = sx_motions (snd (run_steps fuel 1 steps w s))"
  by (auto simp: skill_body_def bindS_def with_status_def split: prod.splits option.splits sum.splits)

lemma plan_of_preset:
  assumes "p \<in> set PRESET_SKILLS"
  shows "normalize_plan [(''preset'', PStr (pr_name p))] = Inr (pr_description p, pr_steps p)"
  using find_preset_self [OF assms] preset_name_plain [OF assms] by (simp add: normalize_plan_def Let_def)

text \<open>Every preset of the catalog moves slowly. A command that names a preset is planned as that entry of the
  catalog, and in every world and up to every point of its run each motion command it sends is at most 0.4 m/s forward
  or sideways and 0.45 rad/s in turn, or lying down, or the choice of the micro speed; this includes the turns of the
  obstacle avoidance.\<close>

theorem preset_skills_slow:
  assumes "p \<in> set PRESET_SKILLS"
  shows "normalize_plan [(''preset'', PStr (pr_name p))] = Inr (pr_description p, pr_steps p)
    \<and> (\<exists>new. sx_motions (snd (run_skill fuel (pr_steps p) w s)) = sx_motions s @ new \<and> (\<forall>c \<in> set new. slow c))"
proof
  show "normalize_plan [(''preset'', PStr (pr_name p))] = Inr (pr_description p, pr_steps p)"
    using assms by (rule plan_of_preset)
  obtain o1 s1 where body: "skill_body fuel (pr_steps p) w s = (o1, s1)" by fastforce
  obtain new where new: "sx_motions s1 = sx_motions s @ new" "\<forall>c \<in> set new. slow c"
    using run_steps_motions [of "pr_steps p" slow fuel 1 w s] preset_steps_slow [OF assms]
      skill_body_motions [of fuel "pr_steps p" w s] body by auto
  show "\<exists>new. sx_motions (snd (run_skill fuel (pr_steps p) w s)) = sx_motions s @ new \<and> (\<forall>c \<in> set new. slow c)"
  proof (cases o1)
    case None
    then show ?thesis using body new by (simp add: run_skill_def)
  next
    case (Some r)
    then show ?thesis using body new
      by (intro exI [of _ "new @ [stop_motion]"]) (auto simp: run_skill_def send_def tick_def split: sum.splits)
  qed
qed

theorem preset_skills_slow_witness:
  "\<exists>new. sx_motions (snd (run_skill 4 (pr_steps prone_backward_5m) still_world new_exec)) = new \<and> (\<forall>c \<in> set new. slow c)"
proof -
  have "prone_backward_5m \<in> set PRESET_SKILLS" by (simp add: PRESET_SKILLS_def)
  from preset_skills_slow [OF this, of 4 still_world new_exec] show ?thesis by (auto simp: new_exec_def)
qed

section \<open>One skill at a time\<close>

text \<open>Command identifiers are not empty and never used twice (the agent refuses a command it has processed before).\<close>

inductive skill_step :: "skill_executor \<Rightarrow> skill_executor \<Rightarrow> bool" where
  start: "command_id \<noteq> [] \<Longrightarrow> ex_runs ex command_id = None \<Longrightarrow> skill_step ex (fst (start_skill command_id command ex))"
| cancel: "skill_step ex (fst (cancel_skill command_id ex))"
| finish: "status \<in> {''succeeded'', ''failed'', ''cancelled''} \<Longrightarrow> skill_step ex (set_status command_id status ex)"
| release: "ex_runs ex command_id = Some r \<Longrightarrow> rn_status r \<noteq> ''running'' \<Longrightarrow> skill_step ex (release_active command_id ex)"

inductive skill_reachable :: "skill_executor \<Rightarrow> bool" where
  new: "skill_reachable new_executor"
| step: "skill_reachable ex \<Longrightarrow> skill_step ex ex' \<Longrightarrow> skill_reachable ex'"

inductive_cases skill_stepE: "skill_step ex ex'"

definition executor_ok :: "skill_executor \<Rightarrow> bool" where
  "executor_ok ex = (\<forall>cid r. ex_runs ex cid = Some r \<longrightarrow> cid \<noteq> [] \<and> 1 \<le> rn_total_steps r \<and> rn_total_steps r \<le> 32
     \<and> (rn_status r = ''running'' \<longrightarrow> ex_active_id ex = Some cid))"

lemma normalized_steps_length: "normalized_steps i steps = Inr ds \<Longrightarrow> length ds = length steps"
  by (induction steps arbitrary: i ds) (auto split: pyval.splits if_splits)

lemma preset_length: "p \<in> set PRESET_SKILLS \<Longrightarrow> 1 \<le> length (pr_steps p) \<and> length (pr_steps p) \<le> 32"
  by (auto simp: PRESET_SKILLS_def preset_defs)

lemma plan_length: "normalize_plan command = Inr plan \<Longrightarrow> 1 \<le> length (snd plan) \<and> length (snd plan) \<le> 32"
proof -
  assume plan: "normalize_plan command = Inr plan"
  show ?thesis
  proof (cases "strip (str_or (dget command ''preset'') []) = []")
    case True
    with plan obtain steps ds where "steps \<noteq> []" "length steps \<le> 32" "normalized_steps 0 steps = Inr ds" "snd plan = ds"
      by (auto simp: normalize_plan_def Let_def split: pyval.splits if_splits)
    then show ?thesis using normalized_steps_length [of 0 steps ds] by (simp add: Suc_le_eq)
  next
    case False
    with plan obtain p where "find_preset (strip (str_or (dget command ''preset'') [])) PRESET_SKILLS = Some p" "snd plan = pr_steps p"
      by (auto simp: normalize_plan_def Let_def split: option.splits)
    then show ?thesis using find_preset_in preset_length by metis
  qed
qed

lemma running_busy:
  "executor_ok ex \<Longrightarrow> ex_runs ex c = Some r \<Longrightarrow> rn_status r = ''running'' \<Longrightarrow> busy_with ex = Some c"
  by (simp add: executor_ok_def busy_with_def)

lemma start_keeps_ok:
  assumes ok: "executor_ok ex" and cid: "command_id \<noteq> []"
  shows "executor_ok (fst (start_skill command_id command ex))"
proof (cases "\<exists>plan. normalize_plan command = Inr plan \<and> busy_with ex = None")
  case True
  then obtain plan where plan: "normalize_plan command = Inr plan" "busy_with ex = None" by blast
  have "rn_status r \<noteq> ''running''" if "ex_runs ex c = Some r" for c r
    using running_busy [OF ok that] plan(2) by auto
  with ok cid plan plan_length [OF plan(1)] show ?thesis
    by (simp add: start_skill_def executor_ok_def Let_def)
next
  case False
  then have "fst (start_skill command_id command ex) = ex" by (auto simp: start_skill_def split: sum.splits option.splits)
  with ok show ?thesis by simp
qed

text \<open>One skill at a time. In every reachable state of the executor at most one run has the status \<open>running\<close>, and it
  is the active one, so that \<open>start\<close> refuses a second skill until the first one has a final status; every run has between
  1 and 32 steps. A refused start changes nothing.\<close>

theorem one_skill_at_a_time:
  assumes "skill_reachable ex"
  shows "(\<forall>c1 c2 r1 r2. ex_runs ex c1 = Some r1 \<and> ex_runs ex c2 = Some r2 \<and> rn_status r1 = ''running''
      \<and> rn_status r2 = ''running'' \<longrightarrow> c1 = c2 \<and> busy_with ex = Some c1)
    \<and> (\<forall>c r. ex_runs ex c = Some r \<longrightarrow> 1 \<le> rn_total_steps r \<and> rn_total_steps r \<le> 32)
    \<and> (\<forall>c command x. snd (start_skill c command ex) = Inl x \<longrightarrow> fst (start_skill c command ex) = ex)"
proof -
  have "executor_ok ex"
    using assms
  proof (induction rule: skill_reachable.induct)
    case new
    show ?case by (simp add: executor_ok_def new_executor_def)
  next
    case (step ex ex')
    from step(2,3) show ?case
    proof (cases rule: skill_step.cases)
      case (start command_id command)
      then show ?thesis using start_keeps_ok step.IH by simp
    next
      case (release command_id r)
      then show ?thesis using step.IH by (force simp: executor_ok_def release_active_def)
    qed (auto simp: executor_ok_def cancel_skill_def set_status_def Let_def split: option.splits)
  qed
  note ok = this
  have "c1 = c2 \<and> busy_with ex = Some c1" if "ex_runs ex c1 = Some r1" "ex_runs ex c2 = Some r2"
      "rn_status r1 = ''running''" "rn_status r2 = ''running''" for c1 c2 r1 r2
    using running_busy [OF ok that(1,3)] running_busy [OF ok that(2,4)] by simp
  moreover have "fst (start_skill c command ex) = ex" if "snd (start_skill c command ex) = Inl x" for c command x
    using that by (auto simp: start_skill_def Let_def split: sum.splits option.splits)
  moreover have "1 \<le> rn_total_steps r \<and> rn_total_steps r \<le> 32" if "ex_runs ex c = Some r" for c r
    using ok that by (simp add: executor_ok_def)
  ultimately show ?thesis by blast
qed

theorem one_skill_at_a_time_witness:
  "let ex = fst (start_skill ''c1'' [(''preset'', PStr ''micro_forward_5s'')] new_executor) in
   busy_with ex = Some ''c1'' \<and> fst (start_skill ''c2'' [(''preset'', PStr ''micro_reverse_5s'')] ex) = ex"
proof -
  let ?ex = "fst (start_skill ''c1'' [(''preset'', PStr ''micro_forward_5s'')] new_executor)"
  have "skill_reachable ?ex"
    by (rule skill_reachable.step [OF skill_reachable.new skill_step.start]) (simp_all add: new_executor_def)
  note one = one_skill_at_a_time [OF this]
  have plan: "normalize_plan [(''preset'', PStr ''micro_forward_5s'')] = Inr (pr_description micro_forward_5s, pr_steps micro_forward_5s)"
    "normalize_plan [(''preset'', PStr ''micro_reverse_5s'')] = Inr (pr_description micro_reverse_5s, pr_steps micro_reverse_5s)"
    using plan_of_preset [of micro_forward_5s] plan_of_preset [of micro_reverse_5s]
    by (simp_all add: PRESET_SKILLS_def) (simp_all add: preset_defs)
  have c1: "ex_runs ?ex ''c1'' = Some \<lparr>rn_description = pr_description micro_forward_5s, rn_status = ''running'',
      rn_total_steps = length (pr_steps micro_forward_5s), rn_cancel_event = False\<rparr>"
    by (simp add: start_skill_def plan busy_with_def new_executor_def Let_def)
  have b: "busy_with ?ex = Some ''c1''"
    by (rule one [THEN conjunct1, rule_format, THEN conjunct2, OF conjI [OF c1 conjI [OF c1]]]) simp
  then have "\<exists>x. snd (start_skill ''c2'' [(''preset'', PStr ''micro_reverse_5s'')] ?ex) = Inl x"
    by (simp add: start_skill_def [of "''c2''"] plan)
  then obtain x where "snd (start_skill ''c2'' [(''preset'', PStr ''micro_reverse_5s'')] ?ex) = Inl x" ..
  from one [THEN conjunct2, THEN conjunct2, rule_format, OF this] b show ?thesis unfolding Let_def by (rule conjI [rotated])
qed

end
