(* ===== verification/PersonFollow.thy ===== *)
theory PersonFollow
  imports PyText
begin

text \<open>
  Visual person following (\<open>edge-agent/roamerx_edge/person_follow_controller.py\<close>): the velocity law, the choice of the
  target in the detector's snapshot, the control loop of the thread, and \<open>start\<close> and \<open>stop\<close>. Round \<open>i\<close> of the loop takes
  the answers of the world at \<open>i\<close>: the stop event, the snapshot file (\<open>None\<close> when it cannot be read or parsed), the clock,
  the obstacle monitor, the motion command, and whether the controller still shows this session as running. The loop has
  fuel, one unit per round.
\<close>

section \<open>State and world\<close>

record follow_run =
  fr_track_id :: string
  fr_status :: string
  fr_reason :: string
  fr_updates :: nat

record follow_controller =
  fc_run :: follow_run
  fc_stop_event :: bool

definition new_follow :: follow_controller where
  "new_follow = \<lparr>fc_run = \<lparr>fr_track_id = [], fr_status = ''idle'', fr_reason = [], fr_updates = 0\<rparr>, fc_stop_event = False\<rparr>"

record follow_config =
  cf_detection_stale_seconds :: real
  cf_obstacle_stop_distance_m :: real

record follow_world =
  fw_stop :: "nat \<Rightarrow> bool"
  fw_snapshot :: "nat \<Rightarrow> pyval option"
  fw_monotonic :: "nat \<Rightarrow> real"
  fw_obstacle :: "nat \<Rightarrow> pyval"
  fw_fails :: "nat \<Rightarrow> pyexc option"
  fw_running :: "nat \<Rightarrow> bool"

text \<open>The velocity command: forward, sideways, turn.\<close>

type_synonym velocity = "pyfloat \<times> pyfloat \<times> pyfloat"

abbreviation halt :: velocity where
  "halt \<equiv> (Fin 0, Fin 0, Fin 0)"

section \<open>Perception\<close>

definition detection_unavailable :: "string \<Rightarrow> pyexc" where
  "detection_unavailable text = protocol_error ''PERSON_DETECTION_UNAVAILABLE'' text"

text \<open>\<open>isinstance(v, (float, int))\<close>: a boolean is an integer.\<close>

definition is_float_or_int :: "pyval \<Rightarrow> bool" where
  "is_float_or_int v = (is_number v \<or> is_bool v)"

definition load_snapshot :: "pyval option \<Rightarrow> pydict pyres" where
  "load_snapshot file =
     (case file of
        None \<Rightarrow> Inl (detection_unavailable ''local person detection snapshot is unavailable'')
      | Some (PDict d) \<Rightarrow>
          if is_float_or_int (dget d ''captured_monotonic'') then Inr d
          else Inl (detection_unavailable ''local person detection snapshot is invalid'')
      | Some _ \<Rightarrow> Inl (detection_unavailable ''local person detection snapshot is invalid''))"

definition snapshot_age :: "real \<Rightarrow> pydict \<Rightarrow> pyfloat pyres" where
  "snapshot_age now payload =
     bindE (py_float (dget payload ''captured_monotonic'')) (\<lambda>c. Inr (py_max (Fin 0) (float_sub (Fin now) c)))"

text \<open>The items of \<open>payload.get("detections") or []\<close>; what is not a list fails in the loop over it.\<close>

fun detections :: "pyval \<Rightarrow> pyval list pyres" where
  "detections (PList xs) = Inr xs"
| "detections v = (if \<not> truthy v then Inr [] else case v of PStr _ \<Rightarrow> Inl AttributeError | PDict _ \<Rightarrow> Inl AttributeError
     | _ \<Rightarrow> Inl TypeError)"

fun find_target :: "string \<Rightarrow> pyval list \<Rightarrow> pydict option pyres" where
  "find_target track_id [] = Inr None"
| "find_target track_id (item # items) =
     (case item of
        PDict d \<Rightarrow>
          if str_or (dget d ''track_id'') [] = track_id \<and> lower (str_or (dget d ''label'') ''person'') = ''person''
          then Inr (Some d) else find_target track_id items
      | _ \<Rightarrow> Inl AttributeError)"

definition target_unavailable :: pyexc where
  "target_unavailable = protocol_error ''PERSON_TARGET_UNAVAILABLE'' ''selected person is not available in the latest local frame''"

definition target_from_snapshot ::
  "follow_config \<Rightarrow> string \<Rightarrow> pyval option \<Rightarrow> real \<Rightarrow> (pydict \<times> pyfloat \<times> pyfloat) pyres" where
  "target_from_snapshot cfg track_id file now =
     bindE (load_snapshot file) (\<lambda>payload. bindE (snapshot_age now payload) (\<lambda>age.
       if float_lt (Fin (cf_detection_stale_seconds cfg)) age
       then Inl (protocol_error ''PERSON_DETECTION_STALE'' ''local person detections are stale'')
       else bindE (py_float (py_or (dget payload ''frame_width'') (PInt 0))) (\<lambda>fw.
         bindE (py_float (py_or (dget payload ''frame_height'') (PInt 0))) (\<lambda>fh.
           bindE (detections (dget payload ''detections'')) (\<lambda>items. bindE (find_target track_id items) (\<lambda>target.
             case target of
               None \<Rightarrow> Inl target_unavailable
             | Some d \<Rightarrow> if d = [] \<or> float_le fw (Fin 0) \<or> float_le fh (Fin 0) then Inl target_unavailable
                 else Inr (d, fw, fh)))))))"

definition perception_status :: "pyval option \<Rightarrow> real \<Rightarrow> (pyfloat \<times> int) pyres + string" where
  "perception_status file now =
     (case load_snapshot file of
        Inl (ProtocolError code _ _) \<Rightarrow> Inr code
      | Inl x \<Rightarrow> Inl (Inl x)
      | Inr payload \<Rightarrow> Inl (bindE (snapshot_age now payload) (\<lambda>age.
          bindE (detections (dget payload ''detections'')) (\<lambda>xs. Inr (age, int (length xs))))))"

section \<open>The velocity law\<close>

definition forward_speed :: "pyfloat \<Rightarrow> pyfloat" where
  "forward_speed height_ratio =
     (if float_lt height_ratio (Fin (40 / 100))
        then py_min (Fin (16 / 100)) (float_scale (7 / 10) (float_sub (Fin (40 / 100)) height_ratio))
      else if float_lt (Fin (62 / 100)) height_ratio
        then py_max (Fin (- (8 / 100))) (float_scale (1 / 2) (float_sub (Fin (62 / 100)) height_ratio))
      else Fin 0)"

definition turn_rate :: "pyfloat \<Rightarrow> pyfloat" where
  "turn_rate center_error =
     (if float_lt (float_abs center_error) (Fin (7 / 100)) then Fin 0
      else py_max (Fin (- (28 / 100))) (py_min (Fin (28 / 100)) (float_scale (- (75 / 100)) center_error)))"

fun round3 :: "pyfloat \<Rightarrow> pyfloat" where
  "round3 (Fin x) = Fin (py_round 3 x)"
| "round3 v = v"

text \<open>\<open>float(box.get(key, 0))\<close> for \<open>box = target.get("bbox") or {}\<close>.\<close>

definition box_arg :: "pydict \<Rightarrow> string \<Rightarrow> pyfloat pyres" where
  "box_arg box key = py_float (dget_def_val box key (PInt 0))"

definition follow_velocity :: "pydict \<Rightarrow> pyfloat \<Rightarrow> pyfloat \<Rightarrow> velocity pyres" where
  "follow_velocity target frame_width frame_height =
     bindE (as_dict (dget target ''bbox'')) (\<lambda>box. bindE (box_arg box ''x'') (\<lambda>x. bindE (box_arg box ''width'') (\<lambda>width.
       bindE (box_arg box ''height'') (\<lambda>height.
         let center_error = float_sub (float_div (float_add x (float_scale (1 / 2) width)) frame_width) (Fin (1 / 2));
             vx = forward_speed (float_div height frame_height);
             vx' = (if float_lt (Fin (32 / 100)) (float_abs center_error) then Fin 0 else vx)
         in Inr (round3 vx', Fin 0, round3 (turn_rate center_error))))))"

section \<open>The control loop\<close>

definition obstacle_check :: "follow_config \<Rightarrow> pyval \<Rightarrow> unit pyres" where
  "obstacle_check cfg distance =
     (if distance = PNone then Inr ()
      else bindE (py_float distance) (\<lambda>d. raise_if (float_le d (Fin (cf_obstacle_stop_distance_m cfg)))
        (protocol_error ''PERSON_FOLLOW_OBSTACLE'' ''front obstacle is too close'')))"

definition follow_command :: "follow_config \<Rightarrow> string \<Rightarrow> follow_world \<Rightarrow> nat \<Rightarrow> velocity pyres" where
  "follow_command cfg track_id w i =
     bindE (target_from_snapshot cfg track_id (fw_snapshot w i) (fw_monotonic w i)) (\<lambda>t.
       bindE (obstacle_check cfg (fw_obstacle w i)) (\<lambda>_. follow_velocity (fst t) (fst (snd t)) (snd (snd t))))"

definition terminal_reason :: "pyexc \<Rightarrow> string" where
  "terminal_reason x = (case x of ProtocolError code _ _ \<Rightarrow> code | _ \<Rightarrow> ''PERSON_FOLLOW_INTERNAL_ERROR'')"

text \<open>The loop gives the terminal reason and the velocity commands with the round that sent them.\<close>

fun follow_rounds ::
  "nat \<Rightarrow> follow_config \<Rightarrow> string \<Rightarrow> follow_world \<Rightarrow> nat \<Rightarrow> (nat \<times> velocity) list \<Rightarrow> string option \<times> (nat \<times> velocity) list" where
  "follow_rounds 0 cfg track_id w i sent = (None, sent)"
| "follow_rounds (Suc n) cfg track_id w i sent =
     (if fw_stop w i then (Some ''operator_stop'', sent)
      else (case follow_command cfg track_id w i of
          Inl x \<Rightarrow> (Some (terminal_reason x), sent)
        | Inr v \<Rightarrow>
            (case fw_fails w i of
               Some x \<Rightarrow> (Some (terminal_reason x), sent @ [(i, v)])
             | None \<Rightarrow> follow_rounds n cfg track_id w (Suc i) (sent @ [(i, v)]))))"

text \<open>The updates that are counted: one for each command after which the session is still shown as running.\<close>

definition counted_updates :: "follow_world \<Rightarrow> (nat \<times> velocity) list \<Rightarrow> nat" where
  "counted_updates w sent = length (filter (\<lambda>p. fw_fails w (fst p) = None \<and> fw_running w (fst p)) sent)"

text \<open>The thread: the loop, the final stop, and the status when the session is still the controller's.\<close>

definition run_loop ::
  "nat \<Rightarrow> follow_config \<Rightarrow> string \<Rightarrow> follow_world \<Rightarrow> (velocity list \<times> string) option" where
  "run_loop fuel cfg track_id w =
     (case follow_rounds fuel cfg track_id w 0 [] of
        (None, sent) \<Rightarrow> None
      | (Some reason, sent) \<Rightarrow> Some (map snd sent @ [halt], reason))"

definition finish_follow :: "string \<Rightarrow> string \<Rightarrow> follow_controller \<Rightarrow> follow_controller" where
  "finish_follow track_id reason c =
     (if fr_track_id (fc_run c) = track_id \<and> fr_status (fc_run c) = ''running''
      then c\<lparr>fc_run := (fc_run c)\<lparr>fr_status := ''stopped'', fr_reason := reason\<rparr>\<rparr> else c)"

section \<open>Start and stop\<close>

definition start_follow ::
  "follow_config \<Rightarrow> pyval \<Rightarrow> pyval option \<Rightarrow> real \<Rightarrow> follow_controller \<Rightarrow> follow_controller \<times> follow_run pyres" where
  "start_follow cfg track file now c =
     (let track_id = strip (str_or track []) in
      if track_id = [] then (c, Inl (protocol_error ''PERSON_TRACK_REQUIRED'' ''track_id is required''))
      else if fr_status (fc_run c) = ''running''
        then (c, Inl (protocol_error ''PERSON_FOLLOW_BUSY'' (''already following '' @ fr_track_id (fc_run c))))
      else (case target_from_snapshot cfg track_id file now of
          Inl x \<Rightarrow> (c, Inl x)
        | Inr _ \<Rightarrow>
            let run = \<lparr>fr_track_id = track_id, fr_status = ''running'', fr_reason = ''<local visual following started>'',
                       fr_updates = 0\<rparr>
            in (\<lparr>fc_run = run, fc_stop_event = False\<rparr>, Inr run)))"

text \<open>\<open>stop\<close> sets the event and sends the zero velocity whether or not a session is running.\<close>

definition stop_follow :: "string \<Rightarrow> follow_controller \<Rightarrow> follow_controller \<times> velocity" where
  "stop_follow reason c =
     (\<lparr>fc_run = (if fr_status (fc_run c) = ''running''
                 then (fc_run c)\<lparr>fr_status := ''stopped'', fr_reason := reason\<rparr> else fc_run c),
       fc_stop_event = True\<rparr>, halt)"

section \<open>The velocity is bounded\<close>

fun fin_between :: "real \<Rightarrow> real \<Rightarrow> pyfloat \<Rightarrow> bool" where
  "fin_between a b (Fin v) = (a \<le> v \<and> v \<le> b)"
| "fin_between a b _ = False"

lemma fin_betweenD: "fin_between a b f \<Longrightarrow> \<exists>v. f = Fin v \<and> a \<le> v \<and> v \<le> b"
  by (cases f) auto

lemma forward_speed_between: "fin_between (- (8 / 100)) (16 / 100) (forward_speed h)"
  by (cases h) (auto simp: forward_speed_def py_min_def py_max_def)

lemma turn_rate_between: "fin_between (- (28 / 100)) (28 / 100) (turn_rate e)"
  by (cases e) (auto simp: turn_rate_def py_min_def py_max_def)

lemmas forward_speed_bounds = fin_betweenD [OF forward_speed_between]
lemmas turn_rate_bounds = fin_betweenD [OF turn_rate_between]

lemma round3_bounds: "of_int a / 1000 \<le> v \<Longrightarrow> v \<le> of_int b / 1000 \<Longrightarrow>
    of_int a / 1000 \<le> py_round 3 v \<and> py_round 3 v \<le> of_int b / 1000"
  using py_round_ge [of a 3 v] py_round_le [of v b 3] by simp

definition bounded_velocity :: "velocity \<Rightarrow> bool" where
  "bounded_velocity v = (\<exists>vx r. v = (Fin vx, Fin 0, Fin r) \<and> - (8 / 100) \<le> vx \<and> vx \<le> 16 / 100 \<and> \<bar>r\<bar> \<le> 28 / 100)"

lemma follow_velocity_bounded: "follow_velocity target fw fh = Inr v \<Longrightarrow> bounded_velocity v"
proof -
  assume "follow_velocity target fw fh = Inr v"
  then obtain e h where v: "v = (round3 (if float_lt (Fin (32 / 100)) (float_abs e) then Fin 0 else forward_speed h), Fin 0, round3 (turn_rate e))"
    by (auto simp: follow_velocity_def Let_def)
  obtain vx r where b: "forward_speed h = Fin vx" "- (8 / 100) \<le> vx" "vx \<le> 16 / 100"
    "turn_rate e = Fin r" "- (28 / 100) \<le> r" "r \<le> 28 / 100"
    using forward_speed_bounds [of h] turn_rate_bounds [of e] by blast
  with round3_bounds [of "- 80" vx 160] round3_bounds [of "- 80" 0 160] round3_bounds [of "- 280" r 280] show ?thesis
    by (auto simp: v bounded_velocity_def)
qed

section \<open>Properties of a session\<close>

lemma follow_rounds_sent:
  "follow_rounds n cfg track_id w i sent = (r, sent') \<Longrightarrow>
     \<exists>new. sent' = sent @ new \<and> (\<forall>(k, v) \<in> set new. \<not> fw_stop w k \<and> follow_command cfg track_id w k = Inr v)"
proof (induction n arbitrary: i sent)
  case (Suc n)
  show ?case
  proof (cases "follow_command cfg track_id w i")
    case (Inl x)
    with Suc.prems show ?thesis by (auto split: if_splits)
  next
    case (Inr v)
    show ?thesis
    proof (cases "fw_stop w i \<or> fw_fails w i \<noteq> None")
      case True
      with Suc.prems Inr show ?thesis by (auto split: if_splits)
    next
      case False
      with Suc.prems Inr have "follow_rounds n cfg track_id w (Suc i) (sent @ [(i, v)]) = (r, sent')" by simp
      from Suc.IH [OF this] False Inr show ?thesis by fastforce
    qed
  qed
qed simp

lemma follow_rounds_running:
  "follow_rounds n cfg track_id w i sent = (None, sent') \<Longrightarrow> k < n \<Longrightarrow> \<not> fw_stop w (i + k)"
proof (induction n arbitrary: i k sent)
  case (Suc n)
  then have "\<not> fw_stop w i" by (auto split: if_splits)
  moreover obtain v where "follow_rounds n cfg track_id w (Suc i) (sent @ [(i, v)]) = (None, sent')"
    using Suc.prems(1) by (auto split: if_splits sum.splits option.splits)
  ultimately show ?case using Suc.IH [of "Suc i" _ "k - 1"] Suc.prems(2) by (cases k) auto
qed simp

text \<open>What a snapshot that is followed shows: it was captured at most the stale limit before \<open>now\<close>, in a positive frame, with the
  chosen person in it. The age of a capture time that is no finite number is not limited: NaN and positive infinity pass, because
  \<open>max(0.0, ...)\<close> gives zero for them.\<close>

definition shows_target :: "follow_config \<Rightarrow> string \<Rightarrow> pyval option \<Rightarrow> real \<Rightarrow> bool" where
  "shows_target cfg track_id file now =
     (\<exists>d c fw fh items p. file = Some (PDict d)
        \<and> py_float (dget d ''captured_monotonic'') = Inr c
        \<and> (case c of Fin x \<Rightarrow> now - x \<le> cf_detection_stale_seconds cfg | _ \<Rightarrow> c \<noteq> NegInf)
        \<and> py_float (py_or (dget d ''frame_width'') (PInt 0)) = Inr fw \<and> \<not> float_le fw (Fin 0)
        \<and> py_float (py_or (dget d ''frame_height'') (PInt 0)) = Inr fh \<and> \<not> float_le fh (Fin 0)
        \<and> detections (dget d ''detections'') = Inr items \<and> PDict p \<in> set items
        \<and> str_or (dget p ''track_id'') [] = track_id \<and> lower (str_or (dget p ''label'') ''person'') = ''person'')"

lemma find_target_ok:
  "find_target track_id items = Inr (Some p) \<Longrightarrow> PDict p \<in> set items \<and> str_or (dget p ''track_id'') [] = track_id
     \<and> lower (str_or (dget p ''label'') ''person'') = ''person''"
  by (induction items) (auto split: pyval.split_asm if_split_asm)

lemma target_shown:
  assumes "target_from_snapshot cfg track_id file now = Inr t"
  shows "shows_target cfg track_id file now"
proof -
  from assms obtain d c fw fh items p where d: "load_snapshot file = Inr d" "py_float (dget d ''captured_monotonic'') = Inr c"
    and age: "\<not> float_lt (Fin (cf_detection_stale_seconds cfg)) (py_max (Fin 0) (float_sub (Fin now) c))"
    and frame: "py_float (py_or (dget d ''frame_width'') (PInt 0)) = Inr fw" "\<not> float_le fw (Fin 0)"
      "py_float (py_or (dget d ''frame_height'') (PInt 0)) = Inr fh" "\<not> float_le fh (Fin 0)"
    and target: "detections (dget d ''detections'') = Inr items" "find_target track_id items = Inr (Some p)"
    by (auto simp: target_from_snapshot_def snapshot_age_def split: if_split_asm option.split_asm)
  have "file = Some (PDict d)" using d(1) by (auto simp: load_snapshot_def split: option.split_asm pyval.split_asm if_split_asm)
  moreover have "case c of Fin x \<Rightarrow> now - x \<le> cf_detection_stale_seconds cfg | _ \<Rightarrow> c \<noteq> NegInf"
    using age by (cases c) (auto simp: py_max_def split: if_split_asm)
  ultimately show ?thesis
    unfolding shows_target_def using d(2) frame target(1) find_target_ok [OF target(2)] by blast
qed

lemma follow_command_ok:
  assumes "follow_command cfg track_id w k = Inr v"
  shows "bounded_velocity v \<and> shows_target cfg track_id (fw_snapshot w k) (fw_monotonic w k)
    \<and> (fw_obstacle w k = PNone \<or> (\<exists>d. py_float (fw_obstacle w k) = Inr d \<and> \<not> float_le d (Fin (cf_obstacle_stop_distance_m cfg))))"
  using assms by (auto simp: follow_command_def obstacle_check_def dest: follow_velocity_bounded target_shown split: if_splits)

text \<open>C24. Following is bounded and fails closed. Every velocity command of a session is at most 0.16 m/s forward, 0.08 m/s
  backward and 0.28 rad/s in turn, for every detector output, NaN and infinities included; it is sent only in a round in
  which the stop event is clear, the snapshot is not older than the stale limit and shows the chosen person, and no obstacle
  is within the stop distance (a missing or NaN distance does not stop, and a capture time that is NaN or positive infinity
  counts as fresh); and the session ends with the zero velocity. The session lasts only while the stop event is clear: a set
  event within the first \<open>fuel\<close> rounds ends it.\<close>

theorem follow_fails_closed:
  "case run_loop fuel cfg track_id w of
     None \<Rightarrow> \<forall>k < fuel. \<not> fw_stop w k
   | Some (motions, reason) \<Rightarrow> \<exists>sent. motions = map snd sent @ [halt]
       \<and> (\<forall>(k, v) \<in> set sent. bounded_velocity v \<and> \<not> fw_stop w k
            \<and> shows_target cfg track_id (fw_snapshot w k) (fw_monotonic w k)
            \<and> (fw_obstacle w k = PNone
               \<or> (\<exists>d. py_float (fw_obstacle w k) = Inr d \<and> \<not> float_le d (Fin (cf_obstacle_stop_distance_m cfg)))))"
proof -
  obtain r sent where rounds: "follow_rounds fuel cfg track_id w 0 [] = (r, sent)" by fastforce
  show ?thesis
  proof (cases r)
    case None
    then show ?thesis using rounds follow_rounds_running [of fuel cfg track_id w 0 "[]" sent] by (simp add: run_loop_def)
  next
    case (Some reason)
    have sent: "\<forall>(k, v) \<in> set sent. \<not> fw_stop w k \<and> follow_command cfg track_id w k = Inr v"
      using follow_rounds_sent [OF rounds] by auto
    have "run_loop fuel cfg track_id w = Some (map snd sent @ [halt], reason)" using rounds Some by (simp add: run_loop_def)
    moreover have "\<forall>(k, v) \<in> set sent. bounded_velocity v \<and> \<not> fw_stop w k
            \<and> shows_target cfg track_id (fw_snapshot w k) (fw_monotonic w k)
            \<and> (fw_obstacle w k = PNone
               \<or> (\<exists>d. py_float (fw_obstacle w k) = Inr d \<and> \<not> float_le d (Fin (cf_obstacle_stop_distance_m cfg))))"
    proof (rule ballI, clarify)
      fix k v
      assume "(k, v) \<in> set sent"
      with sent have "\<not> fw_stop w k" "follow_command cfg track_id w k = Inr v" by auto
      with follow_command_ok [OF this(2)] show "bounded_velocity v \<and> \<not> fw_stop w k
            \<and> shows_target cfg track_id (fw_snapshot w k) (fw_monotonic w k)
            \<and> (fw_obstacle w k = PNone
               \<or> (\<exists>d. py_float (fw_obstacle w k) = Inr d \<and> \<not> float_le d (Fin (cf_obstacle_stop_distance_m cfg))))"
        by simp
    qed
    ultimately show ?thesis by auto
  qed
qed

definition example_snapshot :: pyval where
  "example_snapshot = PDict [(''captured_monotonic'', PFloat (Fin 10)), (''frame_width'', PInt 640), (''frame_height'', PInt 480),
     (''detections'', PList [PDict [(''track_id'', PStr ''7''), (''bbox'', PDict [(''x'', PInt 300), (''width'', PInt 40), (''height'', PInt 96)])]])]"

definition example_follow_world :: follow_world where
  "example_follow_world = \<lparr>fw_stop = (\<lambda>_. False), fw_snapshot = (\<lambda>i. if i = 0 then Some example_snapshot else None),
     fw_monotonic = (\<lambda>_. 10), fw_obstacle = (\<lambda>_. PNone), fw_fails = (\<lambda>_. None), fw_running = (\<lambda>_. True)\<rparr>"

definition example_follow_config :: follow_config where
  "example_follow_config = \<lparr>cf_detection_stale_seconds = 1, cf_obstacle_stop_distance_m = 8 / 10\<rparr>"

theorem follow_fails_closed_witness:
  "\<exists>v. run_loop 2 example_follow_config ''7'' example_follow_world = Some ([v, halt], ''PERSON_DETECTION_UNAVAILABLE'')
     \<and> bounded_velocity v"
proof -
  have "\<exists>v. run_loop 2 example_follow_config ''7'' example_follow_world = Some ([v, halt], ''PERSON_DETECTION_UNAVAILABLE'')"
    by (simp add: numeral_2_eq_2 run_loop_def follow_command_def example_follow_world_def example_follow_config_def
      example_snapshot_def target_from_snapshot_def load_snapshot_def is_float_or_int_def snapshot_age_def py_max_def
      obstacle_check_def follow_velocity_def box_arg_def Let_def detection_unavailable_def terminal_reason_def lower_def lower_char_def)
  then obtain v where v: "run_loop 2 example_follow_config ''7'' example_follow_world = Some ([v, halt], ''PERSON_DETECTION_UNAVAILABLE'')" ..
  from follow_fails_closed [where fuel = 2 and cfg = example_follow_config and track_id = "''7''" and w = example_follow_world, unfolded v]
  show ?thesis using v by (auto simp: append_eq_Cons_conv Cons_eq_append_conv)
qed

end
