(* ===== verification/NavProfiles.thy ===== *)
theory NavProfiles
  imports PyText
begin

text \<open>
  Speed tiers and planner selectors (\<open>edge-agent/roamerx_edge/navigation_speed.py\<close> and \<open>navigation_controllers.py\<close>). The
  three normalisers share one contract, the locale \<open>normaliser\<close>: whatever value a route carries, the result is one of the
  supported names, and supported names are kept.
\<close>

section \<open>Speed tiers\<close>

definition NAVIGATION_SPEED_LEVELS :: "string list" where
  "NAVIGATION_SPEED_LEVELS = [''micro'', ''low'', ''medium'', ''high'']"

record speed_profile =
  sp_level :: string
  sp_vx_mps :: real
  sp_vy_mps :: real
  sp_wz_rps :: real

definition REMOTE_SPEED_PROFILES :: "(string \<times> speed_profile) list" where
  "REMOTE_SPEED_PROFILES =
     [(''micro'', \<lparr>sp_level = ''micro'', sp_vx_mps = 105 / 100, sp_vy_mps = 7875 / 10000, sp_wz_rps = 18375 / 10000\<rparr>),
      (''low'', \<lparr>sp_level = ''low'', sp_vx_mps = 150 / 100, sp_vy_mps = 1125 / 1000, sp_wz_rps = 2625 / 1000\<rparr>),
      (''medium'', \<lparr>sp_level = ''medium'', sp_vx_mps = 210 / 100, sp_vy_mps = 1575 / 1000, sp_wz_rps = 3675 / 1000\<rparr>),
      (''high'', \<lparr>sp_level = ''high'', sp_vx_mps = 3, sp_vy_mps = 225 / 100, sp_wz_rps = 525 / 100\<rparr>)]"

definition NAVIGATION_SPEED_PROFILES :: "(string \<times> speed_profile) list" where
  "NAVIGATION_SPEED_PROFILES =
     (''micro'', \<lparr>sp_level = ''micro'', sp_vx_mps = 30 / 100, sp_vy_mps = 225 / 1000, sp_wz_rps = 525 / 1000\<rparr>)
     # filter (\<lambda>p. fst p \<noteq> ''micro'') REMOTE_SPEED_PROFILES"

definition normalize_navigation_speed_level :: "pyval \<Rightarrow> string" where
  "normalize_navigation_speed_level v =
     (let n = lower (strip (str_or v ''micro'')) in if n \<in> set NAVIGATION_SPEED_LEVELS then n else ''micro'')"

text \<open>The configured value of an axis, or the fallback when it is not a positive finite number. The configuration is
  the list of its attributes.\<close>

definition axis_value :: "pydict \<Rightarrow> string \<Rightarrow> string \<Rightarrow> real \<Rightarrow> real" where
  "axis_value config axis level fallback =
     (let suffix = (if axis = ''turn'' then ''rps'' else ''mps'');
          raw = dget_def_val config (''navigation_'' @ axis @ ''_'' @ level @ ''_'' @ suffix) (PFloat (Fin fallback)) in
      case py_float raw of
        Inr (Fin x) \<Rightarrow> if 0 < x then x else fallback
      | _ \<Rightarrow> fallback)"

definition navigation_speed_profile :: "pyval \<Rightarrow> pydict option \<Rightarrow> speed_profile pyres" where
  "navigation_speed_profile level config =
     (let n = normalize_navigation_speed_level level in
      case map_of NAVIGATION_SPEED_PROFILES n of
        None \<Rightarrow> Inl KeyError
      | Some fallback \<Rightarrow>
          (case config of
             None \<Rightarrow> Inr fallback
           | Some c \<Rightarrow> Inr \<lparr>sp_level = n, sp_vx_mps = axis_value c ''speed'' n (sp_vx_mps fallback),
               sp_vy_mps = axis_value c ''lateral'' n (sp_vy_mps fallback),
               sp_wz_rps = axis_value c ''turn'' n (sp_wz_rps fallback)\<rparr>))"

section \<open>Planner selectors\<close>

definition LOCAL_CONTROLLERS :: "string list" where
  "LOCAL_CONTROLLERS = [''ilqr'', ''mppi'', ''rpp'']"

definition GLOBAL_CONTROLLERS :: "string list" where
  "GLOBAL_CONTROLLERS = [''navfn'', ''smac_hybrid'', ''theta_star'']"

definition LOCAL_CONTROLLER_PLUGIN_IDS :: "(string \<times> string) list" where
  "LOCAL_CONTROLLER_PLUGIN_IDS = [(''mppi'', ''FollowPath''), (''rpp'', ''RPP''), (''ilqr'', ''ILQR'')]"

definition GLOBAL_CONTROLLER_PLUGIN_IDS :: "(string \<times> string) list" where
  "GLOBAL_CONTROLLER_PLUGIN_IDS = [(''theta_star'', ''ThetaStar''), (''navfn'', ''NavFn''), (''smac_hybrid'', ''SmacHybrid'')]"

definition SUPPORTED_NAVIGATION_COMBOS :: "(string \<times> string) list" where
  "SUPPORTED_NAVIGATION_COMBOS = List.product GLOBAL_CONTROLLERS LOCAL_CONTROLLERS"

definition normalize_local_controller :: "pyval \<Rightarrow> string" where
  "normalize_local_controller v =
     (let n = lower (strip (str_or v ''mppi'')) in if n \<in> set LOCAL_CONTROLLERS then n else ''mppi'')"

definition normalize_global_controller :: "pyval \<Rightarrow> string" where
  "normalize_global_controller v =
     (let n = lower (strip (str_or v ''theta_star'')) in if n \<in> set GLOBAL_CONTROLLERS then n else ''theta_star'')"

definition plugin_lookup :: "(string \<times> string) list \<Rightarrow> string \<Rightarrow> string pyres" where
  "plugin_lookup ids n = (case map_of ids n of None \<Rightarrow> Inl KeyError | Some p \<Rightarrow> Inr p)"

definition local_controller_plugin_id :: "pyval \<Rightarrow> string pyres" where
  "local_controller_plugin_id v = plugin_lookup LOCAL_CONTROLLER_PLUGIN_IDS (normalize_local_controller v)"

definition global_controller_plugin_id :: "pyval \<Rightarrow> string pyres" where
  "global_controller_plugin_id v = plugin_lookup GLOBAL_CONTROLLER_PLUGIN_IDS (normalize_global_controller v)"

record capabilities =
  cp_global_controllers :: "string list"
  cp_local_controllers :: "string list"
  cp_global_plugin_ids :: "(string \<times> string) list"
  cp_local_plugin_ids :: "(string \<times> string) list"
  cp_supported_combos :: "(string \<times> string) list"

definition navigation_capabilities :: capabilities where
  "navigation_capabilities = \<lparr>cp_global_controllers = GLOBAL_CONTROLLERS, cp_local_controllers = LOCAL_CONTROLLERS,
     cp_global_plugin_ids = GLOBAL_CONTROLLER_PLUGIN_IDS, cp_local_plugin_ids = LOCAL_CONTROLLER_PLUGIN_IDS,
     cp_supported_combos = SUPPORTED_NAVIGATION_COMBOS\<rparr>"

section \<open>The contract of a normaliser\<close>

locale normaliser =
  fixes norm :: "pyval \<Rightarrow> string" and supported :: "string set" and fallback :: string
  assumes norm_supported: "norm v \<in> supported"
    and norm_keeps: "s \<in> supported \<Longrightarrow> norm (PStr s) = s"
    and norm_missing: "\<not> truthy v \<Longrightarrow> norm v = fallback"
begin

lemma norm_idem: "norm (PStr (norm v)) = norm v"
  by (rule norm_keeps [OF norm_supported])

lemma norm_range: "range norm = supported"
  using norm_supported norm_keeps by (auto intro: image_eqI sym)

lemma fallback_supported: "fallback \<in> supported"
  using norm_missing [of PNone] norm_supported [of PNone] by simp

text \<open>A table with a row for every supported name can be read at every normalised name.\<close>

lemma lookup_total: "fst ` set table = supported \<Longrightarrow> \<exists>row. map_of table (norm v) = Some row \<and> (norm v, row) \<in> set table"
  using norm_supported [of v] by (metis map_of_SomeD map_of_eq_None_iff not_None_eq)

end

text \<open>A plain lower-case name survives \<open>str(v or default).strip().lower()\<close>.\<close>

definition plain_name :: "string \<Rightarrow> bool" where
  "plain_name s = (s \<noteq> [] \<and> list_all (\<lambda>c. \<not> is_space c \<and> lower_char c = c) s)"

lemma plain_name_kept: "plain_name s \<Longrightarrow> lower (strip (str_or (PStr s) d)) = s"
  by (simp add: plain_name_def strip_def strip_by_id lower_def list_all_iff map_idI)

lemma falsy_default: "plain_name d \<Longrightarrow> \<not> truthy v \<Longrightarrow> lower (strip (str_or v d)) = d"
  using plain_name_kept [of d d] by (auto simp: plain_name_def)

lemma speed_names_plain: "list_all plain_name NAVIGATION_SPEED_LEVELS"
  by code_simp

lemma controller_names_plain: "list_all plain_name LOCAL_CONTROLLERS" "list_all plain_name GLOBAL_CONTROLLERS"
  by code_simp+

interpretation speed: normaliser normalize_navigation_speed_level "set NAVIGATION_SPEED_LEVELS" "''micro''"
proof
  have micro: "plain_name ''micro''" "''micro'' \<in> set NAVIGATION_SPEED_LEVELS"
    using speed_names_plain by (simp_all add: NAVIGATION_SPEED_LEVELS_def)
  show "normalize_navigation_speed_level v \<in> set NAVIGATION_SPEED_LEVELS" for v
    using micro(2) by (simp add: normalize_navigation_speed_level_def Let_def)
  show "normalize_navigation_speed_level (PStr s) = s" if "s \<in> set NAVIGATION_SPEED_LEVELS" for s
    using that speed_names_plain by (simp add: normalize_navigation_speed_level_def plain_name_kept list_all_iff)
  show "normalize_navigation_speed_level v = ''micro''" if "\<not> truthy v" for v
    using that micro falsy_default [of "''micro''" v] by (simp add: normalize_navigation_speed_level_def)
qed

interpretation local_ctl: normaliser normalize_local_controller "set LOCAL_CONTROLLERS" "''mppi''"
proof
  have mppi: "plain_name ''mppi''" "''mppi'' \<in> set LOCAL_CONTROLLERS"
    using controller_names_plain by (simp_all add: LOCAL_CONTROLLERS_def)
  show "normalize_local_controller v \<in> set LOCAL_CONTROLLERS" for v
    using mppi(2) by (simp add: normalize_local_controller_def Let_def)
  show "normalize_local_controller (PStr s) = s" if "s \<in> set LOCAL_CONTROLLERS" for s
    using that controller_names_plain by (simp add: normalize_local_controller_def plain_name_kept list_all_iff)
  show "normalize_local_controller v = ''mppi''" if "\<not> truthy v" for v
    using that mppi falsy_default [of "''mppi''" v] by (simp add: normalize_local_controller_def)
qed

interpretation global_ctl: normaliser normalize_global_controller "set GLOBAL_CONTROLLERS" "''theta_star''"
proof
  have ts: "plain_name ''theta_star''" "''theta_star'' \<in> set GLOBAL_CONTROLLERS"
    using controller_names_plain by (simp_all add: GLOBAL_CONTROLLERS_def)
  show "normalize_global_controller v \<in> set GLOBAL_CONTROLLERS" for v
    using ts(2) by (simp add: normalize_global_controller_def Let_def)
  show "normalize_global_controller (PStr s) = s" if "s \<in> set GLOBAL_CONTROLLERS" for s
    using that controller_names_plain by (simp add: normalize_global_controller_def plain_name_kept list_all_iff)
  show "normalize_global_controller v = ''theta_star''" if "\<not> truthy v" for v
    using that ts falsy_default [of "''theta_star''" v] by (simp add: normalize_global_controller_def)
qed

section \<open>Properties\<close>

lemma speed_rows:
  "fst ` set NAVIGATION_SPEED_PROFILES = set NAVIGATION_SPEED_LEVELS"
  "(n, row) \<in> set NAVIGATION_SPEED_PROFILES \<Longrightarrow> sp_level row = n \<and> 0 < sp_vx_mps row \<and> 0 < sp_vy_mps row \<and> 0 < sp_wz_rps row"
  by (auto simp: NAVIGATION_SPEED_PROFILES_def REMOTE_SPEED_PROFILES_def NAVIGATION_SPEED_LEVELS_def)

lemma axis_value_positive: "0 < fallback \<Longrightarrow> 0 < axis_value config axis level fallback"
  by (auto simp: axis_value_def Let_def split: sum.splits pyfloat.splits)

lemma axis_value_configured:
  assumes "map_of config (''navigation_'' @ axis @ ''_'' @ level @ ''_'' @ (if axis = ''turn'' then ''rps'' else ''mps'')) = Some raw"
    "py_float raw = Inr (Fin x)" "0 < x"
  shows "axis_value config axis level fallback = x"
  using assms by (simp add: axis_value_def Let_def dget_def_val_def)

lemma plugin_tables:
  "fst ` set LOCAL_CONTROLLER_PLUGIN_IDS = set LOCAL_CONTROLLERS"
  "fst ` set GLOBAL_CONTROLLER_PLUGIN_IDS = set GLOBAL_CONTROLLERS"
  by (auto simp: LOCAL_CONTROLLER_PLUGIN_IDS_def LOCAL_CONTROLLERS_def GLOBAL_CONTROLLER_PLUGIN_IDS_def GLOBAL_CONTROLLERS_def)

text \<open>C39. The navigation profile of a route is total and safe. For every value a route may carry as speed level or
  controller, and for every configuration, the lookups succeed (no \<open>KeyError\<close>): the profile has one of the four levels and
  positive finite speeds on all three axes, a positive configured forward speed is taken over, the plugins are registered
  ones, the chosen pair is one of the supported combinations, and normalising a normalised name changes nothing.\<close>

theorem navigation_profile_total:
  "(\<exists>p. navigation_speed_profile level config = Inr p \<and> sp_level p = normalize_navigation_speed_level level
      \<and> sp_level p \<in> set NAVIGATION_SPEED_LEVELS \<and> 0 < sp_vx_mps p \<and> 0 < sp_vy_mps p \<and> 0 < sp_wz_rps p
      \<and> (\<forall>c raw x. config = Some c \<and> map_of c (''navigation_speed_'' @ sp_level p @ ''_mps'') = Some raw
            \<and> py_float raw = Inr (Fin x) \<and> 0 < x \<longrightarrow> sp_vx_mps p = x))
   \<and> (\<exists>pl. local_controller_plugin_id lc = Inr pl \<and> (normalize_local_controller lc, pl) \<in> set LOCAL_CONTROLLER_PLUGIN_IDS)
   \<and> (\<exists>pg. global_controller_plugin_id gc = Inr pg \<and> (normalize_global_controller gc, pg) \<in> set GLOBAL_CONTROLLER_PLUGIN_IDS)
   \<and> (normalize_global_controller gc, normalize_local_controller lc) \<in> set (cp_supported_combos navigation_capabilities)
   \<and> normalize_navigation_speed_level (PStr (normalize_navigation_speed_level level)) = normalize_navigation_speed_level level"
proof (intro conjI)
  let ?n = "normalize_navigation_speed_level level"
  obtain row where row: "map_of NAVIGATION_SPEED_PROFILES ?n = Some row" "(?n, row) \<in> set NAVIGATION_SPEED_PROFILES"
    using speed.lookup_total [OF speed_rows(1)] by blast
  note ok = speed_rows(2) [OF row(2)]
  show "\<exists>p. navigation_speed_profile level config = Inr p \<and> sp_level p = ?n
      \<and> sp_level p \<in> set NAVIGATION_SPEED_LEVELS \<and> 0 < sp_vx_mps p \<and> 0 < sp_vy_mps p \<and> 0 < sp_wz_rps p
      \<and> (\<forall>c raw x. config = Some c \<and> map_of c (''navigation_speed_'' @ sp_level p @ ''_mps'') = Some raw
            \<and> py_float raw = Inr (Fin x) \<and> 0 < x \<longrightarrow> sp_vx_mps p = x)"
  proof (cases config)
    case None
    then show ?thesis using row(1) ok speed.norm_supported [of level] by (simp add: navigation_speed_profile_def)
  next
    case (Some c)
    have "axis_value c ''speed'' ?n f = x"
      if "map_of c (''navigation_speed_'' @ ?n @ ''_mps'') = Some raw" "py_float raw = Inr (Fin x)" "0 < x" for f raw x
      using that by (intro axis_value_configured [where raw = raw]) simp_all
    then show ?thesis using Some row(1) ok speed.norm_supported [of level]
      by (simp add: navigation_speed_profile_def axis_value_positive Let_def)
  qed
  show "\<exists>pl. local_controller_plugin_id lc = Inr pl \<and> (normalize_local_controller lc, pl) \<in> set LOCAL_CONTROLLER_PLUGIN_IDS"
    using local_ctl.lookup_total [OF plugin_tables(1), of lc] by (auto simp: local_controller_plugin_id_def plugin_lookup_def)
  show "\<exists>pg. global_controller_plugin_id gc = Inr pg \<and> (normalize_global_controller gc, pg) \<in> set GLOBAL_CONTROLLER_PLUGIN_IDS"
    using global_ctl.lookup_total [OF plugin_tables(2), of gc] by (auto simp: global_controller_plugin_id_def plugin_lookup_def)
  show "(normalize_global_controller gc, normalize_local_controller lc) \<in> set (cp_supported_combos navigation_capabilities)"
    using global_ctl.norm_supported local_ctl.norm_supported
    by (simp add: navigation_capabilities_def SUPPORTED_NAVIGATION_COMBOS_def)
qed (rule speed.norm_idem)

theorem navigation_profile_total_witness:
  "\<exists>p. navigation_speed_profile (PStr ''turbo'') (Some [(''navigation_speed_micro_mps'', PFloat (Fin (1 / 4)))]) = Inr p
     \<and> sp_level p = ''micro'' \<and> sp_vx_mps p = 1 / 4"
proof -
  let ?c = "[(''navigation_speed_micro_mps'', PFloat (Fin (1 / 4)))] :: pydict"
  from navigation_profile_total [of "PStr ''turbo''" "Some ?c" PNone PNone] obtain p where
    p: "navigation_speed_profile (PStr ''turbo'') (Some ?c) = Inr p" "sp_level p = normalize_navigation_speed_level (PStr ''turbo'')"
    "\<forall>c raw x. Some ?c = Some c \<and> map_of c (''navigation_speed_'' @ sp_level p @ ''_mps'') = Some raw
      \<and> py_float raw = Inr (Fin x) \<and> 0 < x \<longrightarrow> sp_vx_mps p = x" by blast
  have "normalize_navigation_speed_level (PStr ''turbo'') = ''micro''"
    by (simp add: normalize_navigation_speed_level_def NAVIGATION_SPEED_LEVELS_def strip_def strip_by_def is_space_def lower_def lower_char_def)
  with p(1,2) p(3) [rule_format, of ?c "PFloat (Fin (1 / 4))" "1 / 4"] show ?thesis by auto
qed

end
