(* ===== verification/Effect.thy ===== *)
theory Effect
  imports Py
begin

text \<open>
  Python statements with a state: the part of the prelude that the command processor and the center share. A statement is a
  function of a world (the answers of everything outside the model) and of a state; it returns or raises, and leaves a
  state. Below: the statements, how they end, which properties of the state they keep, and triples with a postcondition
  for each way to end.
\<close>

type_synonym ('w, 's, 'a) eff = "'w \<Rightarrow> 's \<Rightarrow> 'a pyres \<times> 's"

section \<open>Statements\<close>

definition returnC :: "'a \<Rightarrow> ('w, 's, 'a) eff" where
  "returnC a w s = (Inr a, s)"

definition raiseC :: "pyexc \<Rightarrow> ('w, 's, 'a) eff" where
  "raiseC x w s = (Inl x, s)"

definition liftC :: "'a pyres \<Rightarrow> ('w, 's, 'a) eff" where
  "liftC r w s = (r, s)"

definition bindC :: "('w, 's, 'a) eff \<Rightarrow> ('a \<Rightarrow> ('w, 's, 'b) eff) \<Rightarrow> ('w, 's, 'b) eff" where
  "bindC m f w s = (case m w s of (Inl x, s') \<Rightarrow> (Inl x, s') | (Inr a, s') \<Rightarrow> f a w s')"

definition thenC :: "('w, 's, 'a) eff \<Rightarrow> ('w, 's, 'b) eff \<Rightarrow> ('w, 's, 'b) eff" where
  "thenC m n = bindC m (\<lambda>_. n)"

definition whenC :: "bool \<Rightarrow> ('w, 's, unit) eff \<Rightarrow> ('w, 's, unit) eff" where
  "whenC b m = (if b then m else returnC ())"

fun seqC :: "('w, 's, unit) eff list \<Rightarrow> ('w, 's, unit) eff" where
  "seqC [] = returnC ()"
| "seqC (m # ms) = thenC m (seqC ms)"

text \<open>Statements followed by a value.\<close>

definition seq_valueC :: "('w, 's, unit) eff list \<Rightarrow> 'a \<Rightarrow> ('w, 's, 'a) eff" where
  "seq_valueC ms a = thenC (seqC ms) (returnC a)"

text \<open>\<open>try: m / except: handler\<close> and \<open>try: m / finally: f\<close>. The exception of \<open>f\<close> replaces that of \<open>m\<close>.\<close>

definition exceptC :: "('w, 's, 'a) eff \<Rightarrow> (pyexc \<Rightarrow> ('w, 's, 'a) eff) \<Rightarrow> ('w, 's, 'a) eff" where
  "exceptC m h w s = (case m w s of (Inl x, s') \<Rightarrow> h x w s' | (Inr a, s') \<Rightarrow> (Inr a, s'))"

definition finallyC :: "('w, 's, 'a) eff \<Rightarrow> ('w, 's, unit) eff \<Rightarrow> ('w, 's, 'a) eff" where
  "finallyC m f w s =
     (case m w s of (r, s') \<Rightarrow> (case f w s' of (Inl x, s'') \<Rightarrow> (Inl x, s'') | (Inr _, s'') \<Rightarrow> (r, s'')))"

section \<open>How a statement ends\<close>

named_theorems run_simps \<open>how a statement ends, from how its parts end\<close>

lemma bindC_ok [run_simps]: "bindC m f w s = (Inr b, s'') \<longleftrightarrow> (\<exists>a s'. m w s = (Inr a, s') \<and> f a w s' = (Inr b, s''))"
  by (auto simp: bindC_def split: prod.splits sum.splits)

lemma bindC_err [run_simps]:
  "bindC m f w s = (Inl x, s'') \<longleftrightarrow> m w s = (Inl x, s'') \<or> (\<exists>a s'. m w s = (Inr a, s') \<and> f a w s' = (Inl x, s''))"
  by (auto simp: bindC_def split: prod.splits sum.splits)

lemma thenC_ok [run_simps]: "thenC m n w s = (Inr b, s'') \<longleftrightarrow> (\<exists>a s'. m w s = (Inr a, s') \<and> n w s' = (Inr b, s''))"
  by (simp add: thenC_def bindC_ok)

lemma thenC_err [run_simps]:
  "thenC m n w s = (Inl x, s'') \<longleftrightarrow> m w s = (Inl x, s'') \<or> (\<exists>a s'. m w s = (Inr a, s') \<and> n w s' = (Inl x, s''))"
  by (simp add: thenC_def bindC_err)

lemma returnC_run [run_simps]: "returnC a w s = (r, s') \<longleftrightarrow> r = Inr a \<and> s' = s"
  by (auto simp: returnC_def)

lemma raiseC_run [run_simps]: "raiseC x w s = (r, s') \<longleftrightarrow> r = Inl x \<and> s' = s"
  by (auto simp: raiseC_def)

lemma liftC_run [run_simps]: "liftC v w s = (r, s') \<longleftrightarrow> r = v \<and> s' = s"
  by (auto simp: liftC_def)

lemma whenC_ok [run_simps]: "whenC b m w s = (Inr u, s') \<longleftrightarrow> (if b then m w s = (Inr u, s') else s' = s)"
  by (auto simp: whenC_def returnC_def)

section \<open>What a statement keeps\<close>

named_theorems cmd_rules \<open>composition rules for handlers\<close>

text \<open>\<open>keeps I m\<close>: whatever happens in \<open>m\<close>, a property of the state is kept; used with relations between the state
  before and after by fixing the former in \<open>I\<close>.\<close>

definition keeps :: "('s \<Rightarrow> bool) \<Rightarrow> ('w, 's, 'a) eff \<Rightarrow> bool" where
  "keeps I m = (\<forall>w s. I s \<longrightarrow> I (snd (m w s)))"

lemma keepsI: "(\<And>w s. I s \<Longrightarrow> I (snd (m w s))) \<Longrightarrow> keeps I m"
  by (simp add: keeps_def)

lemma keepsD: "keeps I m \<Longrightarrow> m w s = (r, s') \<Longrightarrow> I s \<Longrightarrow> I s'"
  unfolding keeps_def by (metis snd_conv)

lemma keeps_bind [cmd_rules]: "keeps I m \<Longrightarrow> (\<And>a. keeps I (f a)) \<Longrightarrow> keeps I (bindC m f)"
  unfolding keeps_def bindC_def by (auto split: prod.splits sum.splits) (metis snd_conv)+

lemma keeps_then [cmd_rules]: "keeps I m \<Longrightarrow> keeps I n \<Longrightarrow> keeps I (thenC m n)"
  unfolding thenC_def by (rule keeps_bind)

lemma keeps_when [cmd_rules]: "(b \<Longrightarrow> keeps I m) \<Longrightarrow> keeps I (whenC b m)"
  by (simp add: whenC_def keeps_def returnC_def)

lemma keeps_seq [cmd_rules]: "keeps I (seqC [])" "keeps I m \<Longrightarrow> keeps I (seqC ms) \<Longrightarrow> keeps I (seqC (m # ms))"
  by (simp add: keeps_def returnC_def, simp add: keeps_then)

lemma keeps_let [cmd_rules]: "keeps I (f v) \<Longrightarrow> keeps I (Let v f)"
  by simp

lemma keeps_seq_value [cmd_rules]: "keeps I (seqC ms) \<Longrightarrow> keeps I (seq_valueC ms a)"
  unfolding seq_valueC_def by (rule keeps_then) (simp_all add: keeps_def returnC_def)

lemma keeps_except [cmd_rules]: "keeps I m \<Longrightarrow> (\<And>x. keeps I (h x)) \<Longrightarrow> keeps I (exceptC m h)"
  unfolding keeps_def exceptC_def by (auto split: prod.splits sum.splits) (metis snd_conv)+

lemma keeps_finally [cmd_rules]: "keeps I m \<Longrightarrow> keeps I f \<Longrightarrow> keeps I (finallyC m f)"
  unfolding keeps_def finallyC_def by (auto split: prod.splits sum.splits) (metis snd_conv)+

lemma keeps_if [cmd_rules]: "(b \<Longrightarrow> keeps I m) \<Longrightarrow> (\<not> b \<Longrightarrow> keeps I m') \<Longrightarrow> keeps I (if b then m else m')"
  by simp

lemma keeps_option [cmd_rules]:
  "(v = None \<Longrightarrow> keeps I m) \<Longrightarrow> (\<And>a. v = Some a \<Longrightarrow> keeps I (f a)) \<Longrightarrow> keeps I (case v of None \<Rightarrow> m | Some a \<Rightarrow> f a)"
  by (cases v) simp_all

lemma keeps_sum [cmd_rules]:
  "(\<And>x. v = Inl x \<Longrightarrow> keeps I (g x)) \<Longrightarrow> (\<And>a. v = Inr a \<Longrightarrow> keeps I (f a)) \<Longrightarrow>
     keeps I (case v of Inl x \<Rightarrow> g x | Inr a \<Rightarrow> f a)"
  by (cases v) simp_all

lemma keeps_protocol_case [cmd_rules]:
  "(\<And>code message details. x = ProtocolError code message details \<Longrightarrow> keeps I (f code message details)) \<Longrightarrow>
   ((\<forall>code message details. x \<noteq> ProtocolError code message details) \<Longrightarrow> keeps I g) \<Longrightarrow>
   keeps I (case x of ProtocolError code message details \<Rightarrow> f code message details | _ \<Rightarrow> g)"
  by (cases x) auto

lemma keeps_dict_case [cmd_rules]:
  "(\<And>d. v = PDict d \<Longrightarrow> keeps I (f d)) \<Longrightarrow> ((\<forall>d. v \<noteq> PDict d) \<Longrightarrow> keeps I g) \<Longrightarrow> keeps I (case v of PDict d \<Rightarrow> f d | _ \<Rightarrow> g)"
  by (cases v) auto

lemma keeps_list_case [cmd_rules]:
  "(v = [] \<Longrightarrow> keeps I m) \<Longrightarrow> (\<And>x xs. v = x # xs \<Longrightarrow> keeps I (f x xs)) \<Longrightarrow> keeps I (case v of [] \<Rightarrow> m | x # xs \<Rightarrow> f x xs)"
  by (cases v) simp_all

lemma keeps_prod_case [cmd_rules]: "(\<And>x y. v = (x, y) \<Longrightarrow> keeps I (f x y)) \<Longrightarrow> keeps I (case v of (x, y) \<Rightarrow> f x y)"
  by (cases v) simp

lemma keeps_pure [cmd_rules]: "keeps I (returnC a)" "keeps I (raiseC x)" "keeps I (liftC r)"
  by (simp_all add: keeps_def returnC_def raiseC_def liftC_def)

section \<open>Triples\<close>

text \<open>\<open>triple w I m Q E\<close>: in the world \<open>w\<close>, from a state in \<open>I\<close>, a return ends in \<open>Q\<close> and an exception in \<open>E\<close>.\<close>

named_theorems triples \<open>rules for triples\<close>

definition triple :: "'w \<Rightarrow> ('s \<Rightarrow> bool) \<Rightarrow> ('w, 's, 'a) eff \<Rightarrow> ('a \<Rightarrow> 's \<Rightarrow> bool) \<Rightarrow> ('s \<Rightarrow> bool) \<Rightarrow> bool" where
  "triple w I m Q E = (\<forall>s. I s \<longrightarrow> (case m w s of (Inr a, s') \<Rightarrow> Q a s' | (Inl x, s') \<Rightarrow> E s'))"

lemma tripleD: "triple w I m Q E \<Longrightarrow> I s \<Longrightarrow> m w s = (Inr a, s') \<Longrightarrow> Q a s'"
  by (force simp: triple_def)

lemma tripleE: "triple w I m Q E \<Longrightarrow> I s \<Longrightarrow> m w s = (Inl x, s') \<Longrightarrow> E s'"
  by (force simp: triple_def)

lemma tripleI:
  "(\<And>s a s'. I s \<Longrightarrow> m w s = (Inr a, s') \<Longrightarrow> Q a s') \<Longrightarrow> (\<And>s x s'. I s \<Longrightarrow> m w s = (Inl x, s') \<Longrightarrow> E s') \<Longrightarrow> triple w I m Q E"
  by (auto simp: triple_def split: prod.splits sum.splits)

lemma triple_bind: "triple w I m Q E \<Longrightarrow> (\<And>a. triple w (Q a) (f a) R E) \<Longrightarrow> triple w I (bindC m f) R E"
  by (rule tripleI) (auto simp: run_simps dest: tripleD tripleE)

lemma triple_then: "triple w I m (\<lambda>_. Q) E \<Longrightarrow> triple w Q n R E \<Longrightarrow> triple w I (thenC m n) R E"
  unfolding thenC_def by (rule triple_bind)

lemma triple_conseq:
  "triple w I' m Q' E' \<Longrightarrow> (\<And>s. I s \<Longrightarrow> I' s) \<Longrightarrow> (\<And>a s. Q' a s \<Longrightarrow> Q a s) \<Longrightarrow> (\<And>s. E' s \<Longrightarrow> E s) \<Longrightarrow> triple w I m Q E"
  by (rule tripleI) (meson tripleD tripleE)+

lemma triple_assume: "(\<And>s. I' s \<Longrightarrow> I s \<and> G) \<Longrightarrow> (G \<Longrightarrow> triple w I m Q E) \<Longrightarrow> triple w I' m Q E"
  by (auto simp: triple_def)

lemma triple_vacuous: "(\<And>s. \<not> I s) \<Longrightarrow> triple w I m Q E"
  by (simp add: triple_def)

lemma triple_return: "(\<And>s. I s \<Longrightarrow> Q a s) \<Longrightarrow> triple w I (returnC a) Q E"
  by (simp add: triple_def returnC_def)

lemma triple_raise: "(\<And>s. I s \<Longrightarrow> E s) \<Longrightarrow> triple w I (raiseC x) Q E"
  by (simp add: triple_def raiseC_def)

lemma triple_except: "triple w I m Q E \<Longrightarrow> (\<And>x. triple w E (h x) Q E') \<Longrightarrow> triple w I (exceptC m h) Q E'"
  unfolding triple_def exceptC_def by (auto split: prod.splits sum.splits) (smt (verit) case_prod_conv old.sum.simps)+

lemma triple_finally:
  "triple w I m Q E \<Longrightarrow> (\<And>a. triple w (Q a) f (\<lambda>_. Q a) E') \<Longrightarrow> triple w E f (\<lambda>_. E') E' \<Longrightarrow> triple w I (finallyC m f) Q E'"
  unfolding triple_def finallyC_def
  by (auto split: prod.splits sum.splits) (metis (no_types, lifting) case_prod_conv old.sum.simps)+

lemma triple_case_option:
  "(v = None \<Longrightarrow> triple w I m Q E) \<Longrightarrow> (\<And>a. v = Some a \<Longrightarrow> triple w I (f a) Q E) \<Longrightarrow>
     triple w I (case v of None \<Rightarrow> m | Some a \<Rightarrow> f a) Q E"
  by (cases v) simp_all

lemma triple_if: "(b \<Longrightarrow> triple w I m Q E) \<Longrightarrow> (\<not> b \<Longrightarrow> triple w I m' Q E) \<Longrightarrow> triple w I (if b then m else m') Q E"
  by simp

end
