(* ===== verification/CommandMonad.thy ===== *)
theory CommandMonad
  imports Protocol Safety Store Effect
begin

text \<open>
  The setting of the command processor (\<open>edge-agent/roamerx_edge/command_processor.py\<close>). A handler is a function of a
  world and a state. The world answers the calls to the adapters, which are outside the model: \<open>wd_reply\<close> gives the value
  or the exception of the event with a given number, \<open>wd_has\<close> says which optional adapters and methods the deployment
  has (the code's \<open>callable(getattr(...))\<close>). Clocks, fresh identifiers, the task executor's context and the changes that
  other threads make to the safety state are answers of the world too. The state holds the components that are modelled
  elsewhere (local store, safety state), the locks that the handler holds, and its events in their order. \<open>cs_store\<close> holds what the
  command processor itself reads and writes. What the callees write to other tables of the same store meanwhile (the outbox, the
  task context, the trusted pose) is not followed, and no property is about those tables.
\<close>

section \<open>Events, world and state\<close>

datatype event =
    SavedAck string pyval
  | SavedResult string pyval
  | PublishedAck string pyval
  | PublishedResult string pyval
  | PublishedProgress string pyval
  | Called string "pyval list"

record task_view =
  tv_execution_id :: string
  tv_state :: string
  tv_version :: int
  tv_boundary_revision :: pyval

record cmd_world =
  wd_has :: "string \<Rightarrow> bool"
  wd_reply :: "nat \<Rightarrow> event \<Rightarrow> pyval pyres"
  wd_clock :: "nat \<Rightarrow> real"
  wd_utcnow :: "nat \<Rightarrow> int"
  wd_iso :: "nat \<Rightarrow> string"
  wd_fresh :: "nat \<Rightarrow> fresh_values"
  wd_task :: "nat \<Rightarrow> task_view option"
  wd_safety :: "nat \<Rightarrow> safety_state \<Rightarrow> safety_state"
  wd_config :: safety_config
  wd_rounds :: "nat \<Rightarrow> nat"
  wd_lock :: "nat \<Rightarrow> string \<Rightarrow> bool"

text \<open>\<open>cs_ack\<close> and \<open>cs_prepared\<close> are the local variables \<open>ack\<close> and \<open>prepared_task_start\<close> that the exception handlers of
  \<open>handle_command\<close> read; \<open>cs_prepared\<close> is \<open>None\<close> while the variable is unbound.\<close>

record cmd_state =
  cs_tick :: nat
  cs_events :: "event list"
  cs_store :: local_store
  cs_safety :: safety_state
  cs_held :: "string list"
  cs_ack :: "pyval option"
  cs_prepared :: "bool option"

type_synonym 'a cmd = "(cmd_world, cmd_state, 'a) eff"

section \<open>Statements\<close>

definition hasC :: "string \<Rightarrow> bool cmd" where
  "hasC name w s = (Inr (wd_has w name), s)"

text \<open>An event with its answer. A call of an adapter's method has the name \<open>adapter.method\<close>.\<close>

definition eventC :: "event \<Rightarrow> pyval cmd" where
  "eventC e w s = (wd_reply w (length (cs_events s)) e, s\<lparr>cs_events := cs_events s @ [e]\<rparr>)"

definition callC :: "string \<Rightarrow> pyval list \<Rightarrow> pyval cmd" where
  "callC name args = eventC (Called name args)"

definition call_opt :: "string \<Rightarrow> pyval list \<Rightarrow> unit cmd" where
  "call_opt name args = bindC (hasC name) (\<lambda>b. if b then thenC (callC name args) (returnC ()) else returnC ())"

text \<open>A call whose failure is only logged.\<close>

definition call_quietly :: "string \<Rightarrow> pyval list \<Rightarrow> unit cmd" where
  "call_quietly name args = exceptC (thenC (callC name args) (returnC ())) (\<lambda>_. returnC ())"

definition tickC :: "(nat \<Rightarrow> 'a) \<Rightarrow> 'a cmd" where
  "tickC read w s = (Inr (read (cs_tick s)), s\<lparr>cs_tick := Suc (cs_tick s)\<rparr>)"

definition clockC :: "real cmd" where
  "clockC w = tickC (wd_clock w) w"

definition utcnowC :: "int cmd" where
  "utcnowC w = tickC (wd_utcnow w) w"

definition isoC :: "string cmd" where
  "isoC w = tickC (wd_iso w) w"

definition freshC :: "fresh_values cmd" where
  "freshC w = tickC (wd_fresh w) w"

definition taskC :: "task_view option cmd" where
  "taskC w = tickC (wd_task w) w"

text \<open>The number of rounds of a loop \<open>while time.monotonic() < deadline\<close>. The readings of the clock are the world's, so
  a loop that ends can have every number of rounds.\<close>

definition roundsC :: "nat cmd" where
  "roundsC w = tickC (wd_rounds w) w"

definition safetyC :: "safety_state cmd" where
  "safetyC w s = (Inr (cs_safety s), s)"

definition configC :: "safety_config cmd" where
  "configC w s = (Inr (wd_config w), s)"

definition set_safety :: "(safety_state \<Rightarrow> safety_state) \<Rightarrow> unit cmd" where
  "set_safety f w s = (Inr (), s\<lparr>cs_safety := f (cs_safety s)\<rparr>)"

text \<open>While the handler waits, other threads go on writing the safety state.\<close>

definition telemetryC :: "unit cmd" where
  "telemetryC w s = (Inr (), s\<lparr>cs_safety := wd_safety w (cs_tick s) (cs_safety s), cs_tick := Suc (cs_tick s)\<rparr>)"

definition storeC :: "local_store cmd" where
  "storeC w s = (Inr (cs_store s), s)"

text \<open>\<open>lock.acquire(...)\<close>, whether another thread holds the lock is the world's answer, and \<open>lock.release()\<close>. With the
  body of a \<open>try\<close> and its \<open>finally\<close> between them they are \<open>with_lock\<close>; \<open>busy\<close> is what the code does without the lock.\<close>

definition acquireC :: "string \<Rightarrow> bool cmd" where
  "acquireC name w s =
     (if wd_lock w (cs_tick s) name then (Inr True, s\<lparr>cs_tick := Suc (cs_tick s), cs_held := name # cs_held s\<rparr>)
      else (Inr False, s\<lparr>cs_tick := Suc (cs_tick s)\<rparr>))"

definition releaseC :: "string \<Rightarrow> unit cmd" where
  "releaseC name w s = (Inr (), s\<lparr>cs_held := remove1 name (cs_held s)\<rparr>)"

definition with_lock :: "string \<Rightarrow> 'a cmd \<Rightarrow> 'a cmd \<Rightarrow> 'a cmd" where
  "with_lock name busy m = bindC (acquireC name) (\<lambda>got. if got then finallyC m (releaseC name) else busy)"

definition set_ack :: "pyval \<Rightarrow> unit cmd" where
  "set_ack a w s = (Inr (), s\<lparr>cs_ack := Some a\<rparr>)"

definition set_prepared :: "bool \<Rightarrow> unit cmd" where
  "set_prepared b w s = (Inr (), s\<lparr>cs_prepared := Some b\<rparr>)"

section \<open>How a handler ends\<close>

lemma hasC_run [run_simps]: "hasC name w s = (r, s') \<longleftrightarrow> r = Inr (wd_has w name) \<and> s' = s"
  by (auto simp: hasC_def)

section \<open>What a handler does to the state\<close>

lemma keeps_looks [cmd_rules]:
  "keeps I (hasC n)" "keeps I safetyC" "keeps I configC" "keeps I storeC"
  by (simp_all add: keeps_def hasC_def safetyC_def configC_def storeC_def)

text \<open>The frame of a handler that only calls adapters: the events grow by events of a kind; the store, the local variables
  of \<open>handle_command\<close> and the locks that are held are as before.\<close>

definition frame :: "(event \<Rightarrow> bool) \<Rightarrow> cmd_state \<Rightarrow> cmd_state \<Rightarrow> bool" where
  "frame P s0 s = ((\<exists>new. cs_events s = cs_events s0 @ new \<and> (\<forall>e \<in> set new. P e))
     \<and> cs_store s = cs_store s0 \<and> cs_ack s = cs_ack s0 \<and> cs_prepared s = cs_prepared s0
     \<and> cs_held s = cs_held s0)"

lemma frame_refl [simp]: "frame P s s"
  by (simp add: frame_def)

lemma frame_trans: "frame P s0 s1 \<Longrightarrow> frame P s1 s2 \<Longrightarrow> frame P s0 s2"
  unfolding frame_def by (metis (no_types, lifting) Un_iff append.assoc set_append)

lemma frameI: "(\<And>s0. keeps (frame P s0) m) \<Longrightarrow> m w s = (r, s') \<Longrightarrow> frame P s s'"
  using keepsD [where I = "frame P s" and m = m] by (metis frame_refl)

lemma frame_mono: "frame P s0 s \<Longrightarrow> (\<And>e. P e \<Longrightarrow> Q e) \<Longrightarrow> frame Q s0 s"
  unfolding frame_def by blast

lemma keeps_lock [cmd_rules]:
  assumes m: "\<And>s1. keeps (frame P s1) m" and busy: "keeps (frame P s0) busy"
  shows "keeps (frame P s0) (with_lock name busy m)"
proof (rule keepsI)
  fix w s assume s0: "frame P s0 s"
  let ?s = "s\<lparr>cs_tick := Suc (cs_tick s)\<rparr>"
  let ?h = "?s\<lparr>cs_held := name # cs_held s\<rparr>"
  have tick: "frame P s0 ?s" using s0 by (simp add: frame_def)
  obtain r s' where run: "m w ?h = (r, s')" by (cases "m w ?h")
  have "frame P ?h s'" by (rule frameI [OF m run])
  then have "frame P ?s (s'\<lparr>cs_held := remove1 name (cs_held s')\<rparr>)" by (simp add: frame_def)
  with tick have "frame P s0 (s'\<lparr>cs_held := remove1 name (cs_held s')\<rparr>)" by (rule frame_trans)
  with run tick busy show "frame P s0 (snd (with_lock name busy m w s))"
    by (simp add: with_lock_def bindC_def acquireC_def finallyC_def releaseC_def keeps_def)
qed

lemma keeps_tick: "keeps (frame P s0) (\<lambda>w. tickC (f w) w)"
  by (rule keepsI) (simp add: tickC_def frame_def)

lemma keeps_readings [cmd_rules]:
  "keeps (frame P s0) clockC" "keeps (frame P s0) utcnowC" "keeps (frame P s0) isoC" "keeps (frame P s0) freshC"
  "keeps (frame P s0) taskC" "keeps (frame P s0) roundsC"
  by (rule keepsI, simp add: roundsC_def clockC_def utcnowC_def isoC_def freshC_def taskC_def tickC_def frame_def)+

lemma keeps_writes [cmd_rules]:
  "keeps (frame P s0) (set_safety f)" "keeps (frame P s0) telemetryC"
  by (rule keepsI, simp add: set_safety_def telemetryC_def frame_def)+

lemma keeps_event [cmd_rules]: "P e \<Longrightarrow> keeps (frame P s0) (eventC e)"
  by (rule keepsI) (auto simp: eventC_def frame_def)

text \<open>Which events a handler may produce, as a policy. The calls that move the robot, activate the execution group or start
  or end a task are guarded: a policy says nothing about them in general. The rules for the parts of the command processor
  that make no guarded call are proved once, for every policy.\<close>

definition guarded_calls :: "string list" where
  "guarded_calls = [''nav_stack.activate_execution'', ''teleop.teleop_velocity'', ''teleop.manual_assist_velocity'',
     ''task.launch_prepared_task'', ''task.force_exit'']"

declare guarded_calls_def [simp]

locale event_policy =
  fixes P :: "event \<Rightarrow> bool"
  assumes plain_call: "name \<notin> set guarded_calls \<Longrightarrow> P (Called name args)"
    and progress_event: "P (PublishedProgress cid v)"
begin

declare plain_call [simp] progress_event [simp]

lemma keeps_call [cmd_rules]: "P (Called name args) \<Longrightarrow> keeps (frame P s0) (callC name args)"
  unfolding callC_def by (rule keeps_event)

lemma keeps_call_opt [cmd_rules]: "P (Called name args) \<Longrightarrow> keeps (frame P s0) (call_opt name args)"
  unfolding call_opt_def by (intro cmd_rules)

lemma keeps_call_quietly [cmd_rules]: "P (Called name args) \<Longrightarrow> keeps (frame P s0) (call_quietly name args)"
  unfolding call_quietly_def by (intro cmd_rules)

end

section \<open>Frames and triples\<close>

text \<open>The frame rule: what survives every event of a policy survives a statement of that policy.\<close>

definition stable :: "(event \<Rightarrow> bool) \<Rightarrow> (cmd_state \<Rightarrow> bool) \<Rightarrow> bool" where
  "stable P I = (\<forall>s s'. I s \<longrightarrow> frame P s s' \<longrightarrow> I s')"

lemma triple_frame:
  assumes "stable P I" "\<And>s0. keeps (frame P s0) m"
  shows "triple w I m (\<lambda>_. I) I"
  using assms(1) frameI [OF assms(2)] by (intro tripleI) (metis stable_def)+

end
