(* ===== verification/CommandLocalize.thy ===== *)
theory CommandLocalize
  imports CommandMonad
begin

text \<open>
  The parts of the command processor (\<open>edge-agent/roamerx_edge/command_processor.py\<close>) that the handlers share: progress
  messages, preparing and activating the navigation stack, the waits for FAST-LIO and for the final localization gate,
  the scope and the seeds of a relocalization, the secondary correction, and the localization that the navigation
  commands and the map activation run before they enable the execution group.

  Adapters are annotated to return dictionaries; \<open>callD\<close> is a call whose reply is used as one. Texts that are only shown to
  an operator are kept where they are ASCII in the source.
\<close>

section \<open>Dictionaries and replies\<close>

definition callD :: "string \<Rightarrow> pyval list \<Rightarrow> pydict cmd" where
  "callD name args = bindC (callC name args) (\<lambda>v. case v of PDict d \<Rightarrow> returnC d | _ \<Rightarrow> raiseC TypeError)"

text \<open>\<open>f(...) or {}\<close> on which \<open>get\<close> is called.\<close>

definition call_or_empty :: "string \<Rightarrow> pyval list \<Rightarrow> pydict cmd" where
  "call_or_empty name args = bindC (callC name args) (\<lambda>v. liftC (as_dict v))"

definition env_command :: "message_envelope \<Rightarrow> pydict pyres" where
  "env_command env = as_dict (dget (env_payload env) ''command'')"

definition cid_of :: "message_envelope \<Rightarrow> string" where
  "cid_of env = py_str (dget (env_payload env) ''command_id'')"

section \<open>Progress\<close>

definition STARTUP_STAGES :: "string list" where
  "STARTUP_STAGES = [''navigation_prepare'', ''fast_lio_readiness'', ''map_transfer'', ''localization_bootstrap'', ''last_trusted'',
     ''mapping_origin_bounded'', ''mapping_origin'', ''route_waypoints'', ''route_waypoint'', ''keyframe_global_match'',
     ''quick_initialization'', ''operator_initial_pose'', ''best_candidate_commit'', ''fast_lio_imu_handoff'',
     ''final_localization_gate'', ''navigation_execution_activate'', ''secondary_correction'', ''rtk_fixed'', ''trusted_rtk_fixed'',
     ''rtk_correction'', ''ukf_correction'', ''ndt_secondary_correction'', ''navigation_start'']"

text \<open>The label of a stage: the source's operator texts are not ASCII; a stage without one is shown with spaces.\<close>

definition phase_label :: "string \<Rightarrow> string" where
  "phase_label phase = (if phase \<in> set STARTUP_STAGES then ''<'' @ phase @ ''>''
     else map (\<lambda>c. if c = CHR ''_'' then CHR '' '' else c) phase)"

record startup_progress =
  su_phase :: string
  su_phase_label :: string
  su_status :: string
  su_localization_status :: string
  su_dispatch_status :: string

definition startup_progress_detail :: "pydict \<Rightarrow> startup_progress" where
  "startup_progress_detail result =
     (let localization = dict_or_empty (dget result ''localization_attempts'');
          phase = py_str (py_or (py_or (dget result ''selected_stage'') (dget localization ''selected_stage'')) (PStr ''localization_bootstrap''));
          nav = dict_or_empty (dget result ''navigation_start'');
          nav_status = lower (py_str (py_or (py_or (dget nav ''status'') (dget result ''state'')) (PStr ''running'')));
          at_start = (phase = ''navigation_start'');
          finished = at_start \<and> nav_status \<in> {''accepted'', ''succeeded'', ''ready''};
          failed = at_start \<and> nav_status \<in> {''failed'', ''rejected'', ''error''}
      in \<lparr>su_phase = phase, su_phase_label = phase_label phase,
          su_status = (if failed then ''failed'' else if finished then ''completed'' else ''running''),
          su_localization_status = (if at_start then ''completed'' else ''in_progress''),
          su_dispatch_status = (if failed then ''failed'' else if finished then ''completed''
             else if at_start then ''in_progress'' else ''waiting'')\<rparr>)"

text \<open>The message part with its operator texts in English.\<close>

definition startup_actions :: "startup_progress \<Rightarrow> string \<times> string" where
  "startup_actions p =
     (if su_dispatch_status p = ''completed'' then (''<first waypoint sent, Nav2 executing>'', ''<report path following and waypoint progress>'')
      else if su_dispatch_status p = ''failed'' then (''<navigation start failed>'', ''<wait for safety handling or a new start>'')
      else if su_dispatch_status p = ''in_progress'' then (su_phase_label p, ''<confirm that Nav2 accepts the first waypoint>'')
      else (''<smart localization: '' @ su_phase_label p @ ''>'', ''<apply the segment policy and send the first waypoint after the handoff>''))"

definition startup_action :: "string \<Rightarrow> string \<Rightarrow> string \<Rightarrow> pyval" where
  "startup_action key label status = PDict [(''key'', PStr key), (''label'', PStr label), (''status'', PStr status)]"

definition startup_value :: "startup_progress \<Rightarrow> pyval" where
  "startup_value p = PDict
     [(''phase'', PStr (su_phase p)), (''phase_label'', PStr (su_phase_label p)), (''status'', PStr (su_status p)),
      (''current_action'', PStr (fst (startup_actions p))), (''next_action'', PStr (snd (startup_actions p))),
      (''actions'', PList
        [startup_action ''navigation_stack_check'' ''<check the navigation stack and the safety state>'' ''completed'',
         startup_action ''route_validation'' ''<validate map, boundary and route>'' ''completed'',
         startup_action ''localization_initialization'' ''<initialize localization and confirm the main source>'' (su_localization_status p),
         startup_action ''navigation_dispatch'' ''<apply the segment policy and send the first waypoint>'' (su_dispatch_status p)])]"

text \<open>Whatever fails while a progress message is built or published is only logged.\<close>

definition emit_command_progress :: "message_envelope \<Rightarrow> string \<Rightarrow> pydict \<Rightarrow> unit cmd" where
  "emit_command_progress env started_at result = exceptC
     (bindC freshC (\<lambda>fr.
        let progress_result = (if env_message_type env = ''task.start''
              then dput result ''startup_progress'' (startup_value (startup_progress_detail result)) else result) in
        bindC (liftC (build_progress fr env progress_result started_at)) (\<lambda>msg.
          thenC (eventC (PublishedProgress (cid_of env) (PDict msg))) (returnC ()))))
     (\<lambda>_. returnC ())"

definition result_message :: "message_envelope \<Rightarrow> string \<Rightarrow> pydict \<Rightarrow> string \<Rightarrow> string \<Rightarrow> string \<Rightarrow> pydict cmd" where
  "result_message env status result started_at code text =
     bindC freshC (\<lambda>fr. liftC (build_result fr env status result started_at code text))"

definition succeeded :: "message_envelope \<Rightarrow> pydict \<Rightarrow> string \<Rightarrow> pydict cmd" where
  "succeeded env result started_at = result_message env ''succeeded'' result started_at [] []"

section \<open>The navigation stack\<close>

definition reason_arg :: "string \<Rightarrow> pyval list" where
  "reason_arg r = [PDict [(''reason'', PStr r)]]"

definition set_nav_ready :: "bool \<Rightarrow> unit cmd" where
  "set_nav_ready b = set_safety (\<lambda>st. st\<lparr>ss_nav_ready := b\<rparr>)"

text \<open>\<open>if callable(f) and not f(timeout_seconds=...)\<close> followed by the error.\<close>

definition require_prepared :: "string \<Rightarrow> string \<Rightarrow> unit cmd" where
  "require_prepared name text =
     bindC (hasC name) (\<lambda>b. if \<not> b then returnC ()
       else bindC (callC name [PFloat (Fin 45)]) (\<lambda>v. thenC telemetryC
         (if truthy v then returnC () else raiseC (protocol_error ''NAV_STACK_PREPARE_FAILED'' text))))"

definition ensure_navigation_stack_for_task :: "unit cmd" where
  "ensure_navigation_stack_for_task =
     bindC (hasC ''nav_stack'') (\<lambda>configured. if \<not> configured then returnC () else seqC
       [bindC (hasC ''nav_stack.prepare'') (\<lambda>p.
          if p then thenC (callC ''nav_stack.prepare'' (reason_arg ''task_start'')) (returnC ())
          else bindC safetyC (\<lambda>st. whenC (\<not> ss_nav_ready st)
            (thenC (callC ''nav_stack.start'' (reason_arg ''task_start'')) (returnC ())))),
        require_prepared ''navigation.wait_until_prepared'' ''navigation map/safety group did not become prepared'',
        set_nav_ready False])"

definition await_navigation_stack_ready :: "string \<Rightarrow> unit cmd" where
  "await_navigation_stack_ready text =
     bindC (hasC ''navigation.wait_until_ready'') (\<lambda>b.
       if \<not> b then raiseC (protocol_error ''NAV_STACK_NOT_READY'' text)
       else bindC (callC ''navigation.wait_until_ready'' [PFloat (Fin 45)]) (\<lambda>v. thenC telemetryC
         (if truthy v then set_nav_ready True else raiseC (protocol_error ''NAV_STACK_NOT_READY'' text))))"

definition seconds :: "real \<Rightarrow> pyval" where
  "seconds x = PFloat (Fin (py_round 3 x))"

definition activate_navigation_execution_for_task :: "pydict cmd" where
  "activate_navigation_execution_for_task =
     bindC (hasC ''nav_stack'') (\<lambda>configured. if \<not> configured then returnC []
       else bindC clockC (\<lambda>t0.
         bindC (bindC (hasC ''nav_stack.activate_execution'') (\<lambda>b.
             if b then call_or_empty ''nav_stack.activate_execution'' [] else returnC [])) (\<lambda>activation.
         bindC clockC (\<lambda>t1.
         thenC (await_navigation_stack_ready ''navigation execution group did not become ready after localization'')
           (bindC clockC (\<lambda>t2. bindC clockC (\<lambda>t3.
              returnC [(''activation'', PDict activation), (''activation_seconds'', seconds (t1 - t0)),
                       (''ready_check_seconds'', seconds (t2 - t1)), (''total_seconds'', seconds (t3 - t0))])))))))"

section \<open>Localization gates\<close>

fun fast_lio_loop :: "nat \<Rightarrow> pydict \<Rightarrow> pydict cmd" where
  "fast_lio_loop 0 latest = raiseC (ProtocolError ''FAST_LIO_NOT_READY''
     ''FAST-LIO + IMU did not provide three fresh local odometry frames while stopped'' (PDict [(''fast_lio'', PDict latest)]))"
| "fast_lio_loop (Suc n) latest =
     bindC (call_or_empty ''localization.lio_readiness'' [PFloat (Fin (1 / 2)), PInt 3]) (\<lambda>reading.
       if \<not> truthy (dget reading ''ready'') then fast_lio_loop n reading
       else bindC (hasC ''localization.is_robot_stopped'') (\<lambda>b.
         if \<not> b then returnC (dput reading ''status'' (PStr ''ready''))
         else bindC (callC ''localization.is_robot_stopped'' []) (\<lambda>stopped.
           if truthy stopped then returnC (dput reading ''status'' (PStr ''ready'')) else fast_lio_loop n reading)))"

definition not_available :: pydict where
  "not_available = [(''status'', PStr ''unavailable''), (''reason'', PStr ''adapter_compatibility'')]"

definition wait_for_command_fast_lio_readiness :: "pydict cmd" where
  "wait_for_command_fast_lio_readiness =
     bindC (hasC ''localization.lio_readiness'') (\<lambda>b. if \<not> b then returnC not_available
       else bindC roundsC (\<lambda>n. fast_lio_loop n []))"

definition wait_for_command_final_localization_gate :: "pydict cmd" where
  "wait_for_command_final_localization_gate =
     bindC (hasC ''localization.wait_for_final_localization_gate'') (\<lambda>b. if \<not> b then returnC not_available
       else bindC (call_or_empty ''localization.wait_for_final_localization_gate'' [PFloat (Fin 15), PInt 3]) (\<lambda>result.
         if truthy (dget result ''accepted'') then returnC (dput result ''status'' (PStr ''accepted''))
         else raiseC (ProtocolError ''FINAL_LOCALIZATION_GATE_FAILED''
           ''NDT correction completed but FAST-LIO final acceptance evidence is incomplete''
           (PDict [(''final_localization_gate'', PDict result)]))))"

text \<open>\<open>map_activation_adapter.mapping_start_pose()\<close>, with a protocol error turned into evidence.\<close>

definition command_mapping_origin :: "pyval cmd" where
  "command_mapping_origin =
     bindC (hasC ''map_activation'') (\<lambda>b. if \<not> b then returnC PNone
       else exceptC (callC ''map_activation.mapping_start_pose'' [])
         (\<lambda>x. case x of
            ProtocolError code text _ \<Rightarrow>
              returnC (PDict [(''unavailable_error_code'', PStr code), (''unavailable_error_message'', PStr text)])
          | _ \<Rightarrow> raiseC x))"

section \<open>Scope and seeds\<close>

definition scope_from_map :: "pydict \<Rightarrow> pydict \<Rightarrow> string \<times> string \<Rightarrow> string \<times> string" where
  "scope_from_map command active requested =
     (let command_map = strip (str_or (dget command ''map_id'') []); active_map = strip (str_or (dget active ''map_id'') []) in
      if command_map \<noteq> [] \<and> active_map \<noteq> [] \<and> command_map \<noteq> active_map then requested
      else
        let constraints = dict_or_empty (dget active ''map_constraints'');
            coordinate = plain_text (py_or (dget active ''coordinate_mode'') (dget constraints ''coordinate_mode''));
            scene = plain_text (py_or (dget active ''scene_scope'') (dget constraints ''scene_scope''))
        in (if scene \<in> {''indoor'', ''transition'', ''outdoor''} then scene else fst requested,
            if coordinate \<in> {''rtk_fixed'', ''local_only''} then coordinate else snd requested))"

definition effective_command_localization_scope :: "pydict \<Rightarrow> (string \<times> string) cmd" where
  "effective_command_localization_scope command =
     (let requested = (plain_text (dget command ''scene_scope''), plain_text (dget command ''coordinate_mode'')) in
      bindC (hasC ''map_activation.status'') (\<lambda>b. if \<not> b then returnC requested
        else exceptC (bindC (callC ''map_activation.status'' []) (\<lambda>v.
            returnC (case py_or v (PDict []) of PDict active \<Rightarrow> scope_from_map command active requested | _ \<Rightarrow> requested)))
          (\<lambda>_. returnC requested)))"

definition uses_rtk_seed :: "string \<times> string \<Rightarrow> bool" where
  "uses_rtk_seed sc = (fst sc \<in> {''outdoor'', ''transition''} \<and> snd sc = ''rtk_fixed'')"

text \<open>The seed (\<open>None\<close> when there is none) and the evidence (\<open>None\<close> when the adapter was not asked).\<close>

definition trusted_rtk_seed_for_command :: "pydict \<Rightarrow> (pydict option \<times> pydict option) cmd" where
  "trusted_rtk_seed_for_command command =
     bindC (effective_command_localization_scope command) (\<lambda>sc. if \<not> uses_rtk_seed sc then returnC (None, None)
       else bindC (hasC ''localization.trusted_rtk_search_seed'') (\<lambda>b. if \<not> b then returnC (None, None)
         else bindC (call_or_empty ''localization.trusted_rtk_search_seed'' [PFloat (Fin (8 / 10))]) (\<lambda>evidence.
           case dget evidence ''seed_pose'' of
             PDict seed \<Rightarrow> returnC (if truthy (dget evidence ''accepted'') then (Some seed, Some evidence) else (None, Some evidence))
           | _ \<Rightarrow> returnC (None, Some evidence))))"

definition has_pose :: "pydict \<Rightarrow> bool" where
  "has_pose d = (dget d ''x'' \<noteq> PNone \<and> dget d ''y'' \<noteq> PNone \<and> dget d ''yaw'' \<noteq> PNone)"

definition search_controls :: "pydict \<Rightarrow> pydict" where
  "search_controls command = map (\<lambda>k. (k, dget command k))
     (filter (\<lambda>k. dget command k \<noteq> PNone) [''wait_seconds'', ''max_attempts'', ''candidate_wait_seconds'', ''source''])"

definition resolve_localization_seed :: "pydict \<Rightarrow> pydict cmd" where
  "resolve_localization_seed command =
     (if has_pose command then returnC command
      else bindC safetyC (\<lambda>st. bindC storeC (\<lambda>store.
        let map_id = str_or (py_or (dget command ''map_id'') (PStr (ss_current_map_id st))) [];
            map_version = str_or (py_or (dget command ''map_version'') (PStr (ss_current_map_version st))) []
        in bindC (if str_or (dget command ''seed_source'') ''last_trusted'' = ''mapping_start''
             then bindC (hasC ''map_activation'') (\<lambda>b. if b then callD ''map_activation.mapping_start_pose'' [] else returnC [])
             else returnC (case load_last_trusted_pose map_id map_version store of None \<Rightarrow> [] | Some p \<Rightarrow> p)) (\<lambda>resolved.
          let seed = dmerge resolved (search_controls command) in
          if has_pose seed then returnC seed
          else raiseC (protocol_error ''RELOCALIZATION_SEED_UNAVAILABLE''
            ''no trusted pose exists for this map; select an approximate pose on the map first'')))))"

section \<open>The secondary correction\<close>

definition final_statuses :: "string list" where
  "final_statuses = [''failed'', ''cancelled'', ''rejected'']"

text \<open>\<open>decision.get("one_shot_correction")\<close> when it is about this transaction.\<close>

definition one_shot_of :: "string \<Rightarrow> pyval \<Rightarrow> pydict option" where
  "one_shot_of transaction_id decision =
     (case decision of
        PDict d \<Rightarrow> (case dget d ''one_shot_correction'' of
            PDict o1 \<Rightarrow> if str_or (dget o1 ''transaction_id'') [] = transaction_id then Some o1 else None
          | _ \<Rightarrow> None)
      | _ \<Rightarrow> None)"

definition correction_failed :: "string \<Rightarrow> pydict \<Rightarrow> pyexc" where
  "correction_failed mode payload = ProtocolError ''LOCALIZATION_SECONDARY_CORRECTION_FAILED''
     (py_str (py_or (dget payload ''reason'') (PStr (''secondary '' @ mode @ '' correction failed''))))
     (PDict [(''secondary_correction'', PDict payload)])"

text \<open>The polling loop: \<open>None\<close> when the deadline passes without a final status.\<close>

fun correction_loop :: "nat \<Rightarrow> string \<Rightarrow> string \<Rightarrow> pydict \<Rightarrow> pydict option cmd" where
  "correction_loop 0 transaction_id mode secondary = returnC None"
| "correction_loop (Suc n) transaction_id mode secondary =
     bindC (callC ''localization.localization_decision'' []) (\<lambda>decision.
       case one_shot_of transaction_id decision of
         None \<Rightarrow> correction_loop n transaction_id mode secondary
       | Some o1 \<Rightarrow>
           bindC isoC (\<lambda>now.
             let completed = dput (dmerge secondary o1) ''finished_at'' (PStr now); status = str_or (dget o1 ''status'') [] in
             if status = ''completed'' then returnC (Some completed)
             else if status \<in> set final_statuses then raiseC (correction_failed mode completed)
             else correction_loop n transaction_id mode secondary))"

definition timed_out_correction :: "pydict \<Rightarrow> string \<Rightarrow> pydict" where
  "timed_out_correction secondary now = dmerge secondary
     [(''status'', PStr ''skipped''), (''finished_at'', PStr now), (''reason'', PStr ''secondary_correction_timeout_continue_lio''),
      (''fallback_source'', PStr ''lio_imu''), (''non_blocking'', PBool True)]"

definition run_external_secondary_correction :: "message_envelope \<Rightarrow> string \<Rightarrow> string \<Rightarrow> pydict cmd" where
  "run_external_secondary_correction env mode prefix =
     bindC (hasC ''localization.control_localization_correction'') (\<lambda>b.
       if \<not> b then returnC [(''status'', PStr ''skipped''), (''reason'', PStr ''interface_unavailable''), (''mode'', PStr mode)]
       else
         let transaction_id = prefix @ '':'' @ env_message_id env @ '':secondary:'' @ mode in
         bindC (call_or_empty ''localization.control_localization_correction'' [PStr transaction_id, PStr mode, PStr ''start'']) (\<lambda>reply.
         bindC isoC (\<lambda>now.
           let secondary = dmerge reply [(''mode'', PStr mode), (''transaction_id'', PStr transaction_id), (''started_at'', PStr now)] in
           if \<not> truthy (dget secondary ''accepted'') then
             (if mode = ''ndt'' \<and> str_or (dget secondary ''status'') [] = ''unavailable''
              then bindC isoC (\<lambda>t. returnC (dmerge secondary [(''status'', PStr ''skipped''), (''finished_at'', PStr t)]))
              else raiseC (ProtocolError ''LOCALIZATION_SECONDARY_CORRECTION_REJECTED''
                (py_str (py_or (py_or (dget secondary ''message'') (dget secondary ''status'')) (PStr ''secondary correction rejected'')))
                (PDict [(''secondary_correction'', PDict secondary)])))
           else bindC (hasC ''localization.localization_decision'') (\<lambda>reader.
             if \<not> reader then raiseC (ProtocolError ''LOCALIZATION_SECONDARY_CORRECTION_UNVERIFIABLE''
               ''secondary correction was accepted but no decision reader is available''
               (PDict [(''secondary_correction'', PDict secondary)]))
             else bindC roundsC (\<lambda>n. bindC (correction_loop n transaction_id mode secondary) (\<lambda>r.
               case r of
                 Some completed \<Rightarrow> returnC completed
               | None \<Rightarrow> thenC (call_quietly ''localization.control_localization_correction''
                     [PStr transaction_id, PStr mode, PStr ''cancel''])
                   (bindC isoC (\<lambda>t. returnC (timed_out_correction secondary t)))))))))"

section \<open>The localization of a navigation command\<close>

definition first_waypoint_mode :: "pyval list \<Rightarrow> string" where
  "first_waypoint_mode wps = (case wps of PDict w # _ \<Rightarrow> plain_text (dget w ''localization_mode'') | _ \<Rightarrow> [])"

definition correction_mode :: "string \<Rightarrow> string" where
  "correction_mode raw = (if raw \<in> {''ndt'', ''rtk'', ''ukf''} then raw else ''ndt'')"

definition evidence_value :: "pydict option \<Rightarrow> pyval" where
  "evidence_value e = (case e of None \<Rightarrow> PNone | Some d \<Rightarrow> PDict d)"

definition stage :: "string \<Rightarrow> pydict \<Rightarrow> pydict" where
  "stage name extra = [(''state'', PStr ''running''), (''selected_stage'', PStr name)] @ extra"

text \<open>\<open>progress(stage)\<close>: the time stamp and the message.\<close>

definition progress_now :: "message_envelope \<Rightarrow> pydict \<Rightarrow> unit cmd" where
  "progress_now env payload = bindC isoC (\<lambda>now. emit_command_progress env now payload)"

definition localization_outcome :: "pydict \<Rightarrow> pydict \<Rightarrow> pydict \<Rightarrow> pydict option \<Rightarrow> pydict" where
  "localization_outcome ndt secondary gate evidence =
     [(''initial_ndt_commit'', PDict ndt), (''secondary_correction'', PDict secondary), (''final_localization_gate'', PDict gate),
      (''continuous_source'', PStr ''lio_imu''), (''trusted_rtk_seed'', evidence_value evidence),
      (''selected_stage'', PStr ''final_localization_gate'')]"

text \<open>After the NDT commit: the correction that the first waypoint asks for, then the final gate.\<close>

definition correct_and_gate :: "message_envelope \<Rightarrow> pydict \<Rightarrow> pyval list \<Rightarrow> pydict option \<Rightarrow> pydict \<Rightarrow> pydict cmd" where
  "correct_and_gate env command wps evidence ndt =
     (let raw_mode = lower (strip (py_str (py_or (dget command ''localization_mode'') (PStr (first_waypoint_mode wps))))) in
      if raw_mode = [] \<and> truthy (dget command ''map_activation_requires_waypoint_mode'') then
        let secondary = [(''status'', PStr ''skipped''), (''reason'', PStr ''first_waypoint_localization_mode_unavailable''),
          (''message'', PStr ''<NDT/LIO initialized, but no correction is configured for the first waypoint>''), (''mode'', PNone)] in
        thenC (progress_now env (stage ''secondary_correction''
            [(''secondary_correction'', PDict secondary), (''trusted_rtk_seed'', evidence_value evidence)]))
          (bindC wait_for_command_final_localization_gate (\<lambda>gate. returnC (localization_outcome ndt secondary gate evidence)))
      else
        let mode = correction_mode (if raw_mode = [] then ''ndt'' else raw_mode) in
        thenC (bindC (hasC ''localization.set_localization_policy'') (\<lambda>b. if \<not> b then returnC ()
            else exceptC (thenC (callC ''localization.set_localization_policy''
                  [PStr mode, PStr ''stationary'', PStr (if mode = ''ndt'' then ''ndt'' else ''balanced'')]) (returnC ()))
              (\<lambda>x. if x = TypeError then thenC (callC ''localization.set_localization_policy'' [PStr mode, PStr ''stationary'']) (returnC ())
                   else raiseC x)))
          (bindC (run_external_secondary_correction env mode ''navigation_lifecycle'') (\<lambda>secondary.
           thenC (progress_now env (stage ''secondary_correction''
              [(''secondary_correction'', PDict secondary), (''trusted_rtk_seed'', evidence_value evidence)]))
           (bindC wait_for_command_final_localization_gate (\<lambda>gate.
              thenC (progress_now env (stage ''final_localization_gate''
                [(''secondary_correction'', PDict secondary), (''final_localization_gate'', PDict gate), (''trusted_rtk_seed'', evidence_value evidence)]))
              (returnC (localization_outcome ndt secondary gate evidence)))))))"

definition route_waypoints :: "pydict \<Rightarrow> pyval list pyres" where
  "route_waypoints command =
     bindE (list_or_empty (dget command ''waypoints'')) (\<lambda>wps.
       if wps \<noteq> [] then Inr wps
       else list_or_empty (dget (dict_or_empty (dget command ''route_snapshot'')) ''waypoints''))"

definition with_scope :: "string \<times> string \<Rightarrow> pydict \<Rightarrow> pydict" where
  "with_scope sc command =
     (let c = (if fst sc \<noteq> [] then dput command ''scene_scope'' (PStr (fst sc)) else command) in
      if snd sc \<noteq> [] then dput c ''coordinate_mode'' (PStr (snd sc)) else c)"

definition skipped_rtk :: "bool \<Rightarrow> pydict" where
  "skipped_rtk uses = [(''status'', PStr ''skipped''), (''accepted'', PBool False),
     (''reason'', PStr (if uses then ''fixed_rtk_not_accepted'' else ''indoor_or_local_only''))]"

definition progressive_relocalize :: "pyval \<Rightarrow> pyval list \<Rightarrow> pydict option \<Rightarrow> pydict \<Rightarrow> real \<Rightarrow> pydict cmd" where
  "progressive_relocalize origin wps seed command dflt =
     bindC (liftC (py_float (dget_def_val command ''wait_seconds'' (PFloat (Fin dflt))))) (\<lambda>wait.
       call_or_empty ''localization.progressive_relocalize'' [origin, PList wps, evidence_value seed, PFloat wait])"

definition run_navigation_command_localization :: "message_envelope \<Rightarrow> pydict \<Rightarrow> pydict cmd" where
  "run_navigation_command_localization env command =
     bindC (hasC ''localization'') (\<lambda>b.
       if \<not> b then raiseC (protocol_error ''LOCALIZATION_UNAVAILABLE'' ''localization adapter is not configured'')
       else thenC (call_opt ''localization.stop_motion'' [])
        (bindC wait_for_command_fast_lio_readiness (\<lambda>lio.
         thenC (progress_now env (stage ''fast_lio_readiness'' [(''fast_lio_readiness'', PDict lio)]))
        (bindC command_mapping_origin (\<lambda>origin.
         bindC (liftC (route_waypoints command)) (\<lambda>wps.
         bindC (effective_command_localization_scope command) (\<lambda>sc.
         let command' = with_scope sc command in
         bindC (trusted_rtk_seed_for_command command') (\<lambda>seed.
         bindC (case snd seed of
             Some (e # es) \<Rightarrow> returnC (e # es)
           | _ \<Rightarrow> bindC (effective_command_localization_scope command') (\<lambda>sc'. returnC (skipped_rtk (uses_rtk_seed sc')))) (\<lambda>shown.
         thenC (progress_now env (stage ''trusted_rtk_fixed''
            [(''trusted_rtk_seed'', PDict shown), (''scene_scope'', dget command' ''scene_scope'')]))
        (bindC (hasC ''localization.progressive_relocalize'') (\<lambda>p.
         if \<not> p then raiseC (protocol_error ''PROGRESSIVE_RELOCALIZATION_UNAVAILABLE'' ''NDT progressive relocalization is unavailable'')
         else bindC (progressive_relocalize origin wps (fst seed) command' 180) (\<lambda>ndt.
           correct_and_gate env command' wps (snd seed) ndt))))))))))))"

section \<open>Events and frames\<close>

context event_policy
begin

lemma keeps_callD [cmd_rules]: "P (Called name args) \<Longrightarrow> keeps (frame P s0) (callD name args)"
  unfolding callD_def by (intro cmd_rules; simp)


lemma keeps_call_or_empty [cmd_rules]: "P (Called name args) \<Longrightarrow> keeps (frame P s0) (call_or_empty name args)"
  unfolding call_or_empty_def by (intro cmd_rules)


lemma keeps_emit_command_progress [cmd_rules]: "keeps (frame P s0) (emit_command_progress env started_at result)"
  unfolding emit_command_progress_def by (intro cmd_rules; simp)

lemma keeps_result_message [cmd_rules]: "keeps (frame P s0) (result_message env status result started_at code message)"
  unfolding result_message_def by (intro cmd_rules; simp)

lemma keeps_succeeded [cmd_rules]: "keeps (frame P s0) (succeeded env result started_at)"
  unfolding succeeded_def by (intro cmd_rules; simp)

lemma keeps_set_nav_ready [cmd_rules]: "keeps (frame P s0) (set_nav_ready b)"
  unfolding set_nav_ready_def by (intro cmd_rules; simp)

lemma keeps_require_prepared [cmd_rules]: "P (Called name [PFloat (Fin 45)]) \<Longrightarrow> keeps (frame P s0) (require_prepared name message)"
  unfolding require_prepared_def by (intro cmd_rules)


lemma keeps_ensure_navigation_stack_for_task [cmd_rules]: "keeps (frame P s0) (ensure_navigation_stack_for_task)"
  unfolding ensure_navigation_stack_for_task_def by (intro cmd_rules; simp)

lemma keeps_await_navigation_stack_ready [cmd_rules]: "keeps (frame P s0) (await_navigation_stack_ready message)"
  unfolding await_navigation_stack_ready_def by (intro cmd_rules; simp)

lemma keeps_activate_navigation_execution [cmd_rules]:
  "P (Called ''nav_stack.activate_execution'' []) \<Longrightarrow> keeps (frame P s0) activate_navigation_execution_for_task"
  unfolding activate_navigation_execution_for_task_def by (intro cmd_rules)


lemma keeps_fast_lio_loop [cmd_rules]: "keeps (frame P s0) (fast_lio_loop n latest)"
  by (induction n arbitrary: latest) (simp_all, (intro cmd_rules; simp)+)


lemma keeps_wait_for_command_fast_lio_readiness [cmd_rules]: "keeps (frame P s0) (wait_for_command_fast_lio_readiness)"
  unfolding wait_for_command_fast_lio_readiness_def by (intro cmd_rules; simp)

lemma keeps_wait_for_command_final_localization_gate [cmd_rules]: "keeps (frame P s0) (wait_for_command_final_localization_gate)"
  unfolding wait_for_command_final_localization_gate_def by (intro cmd_rules; simp)

lemma keeps_command_mapping_origin [cmd_rules]: "keeps (frame P s0) (command_mapping_origin)"
  unfolding command_mapping_origin_def by (intro cmd_rules; simp)

lemma keeps_effective_command_localization_scope [cmd_rules]: "keeps (frame P s0) (effective_command_localization_scope command)"
  unfolding effective_command_localization_scope_def by (intro cmd_rules; simp)

lemma keeps_trusted_rtk_seed_for_command [cmd_rules]: "keeps (frame P s0) (trusted_rtk_seed_for_command command)"
  unfolding trusted_rtk_seed_for_command_def by (intro cmd_rules; simp)

lemma keeps_resolve_localization_seed [cmd_rules]: "keeps (frame P s0) (resolve_localization_seed command)"
  unfolding resolve_localization_seed_def by (intro cmd_rules; simp)

lemma keeps_correction_loop [cmd_rules]: "keeps (frame P s0) (correction_loop n transaction_id mode secondary)"
  by (induction n) (simp_all, (intro cmd_rules; simp)+)


lemma keeps_run_external_secondary_correction [cmd_rules]: "keeps (frame P s0) (run_external_secondary_correction env mode prefix)"
  unfolding run_external_secondary_correction_def by (intro cmd_rules; simp)

lemma keeps_progress_now [cmd_rules]: "keeps (frame P s0) (progress_now env payload)"
  unfolding progress_now_def by (intro cmd_rules; simp)

lemma keeps_correct_and_gate [cmd_rules]: "keeps (frame P s0) (correct_and_gate env command wps evidence ndt)"
  unfolding correct_and_gate_def by (intro cmd_rules; simp)

lemma keeps_progressive_relocalize [cmd_rules]: "keeps (frame P s0) (progressive_relocalize origin wps seed command dflt)"
  unfolding progressive_relocalize_def by (intro cmd_rules; simp)

lemma keeps_run_navigation_command_localization [cmd_rules]: "keeps (frame P s0) (run_navigation_command_localization env command)"
  unfolding run_navigation_command_localization_def by (intro cmd_rules; simp)

end

end
