(* ===== verification/CommandExec.thy ===== *)
theory CommandExec
  imports CommandLocalize
begin

text \<open>
  The command handlers of the command processor (\<open>edge-agent/roamerx_edge/command_processor.py\<close>): teleoperation, sensors,
  charging, motion control, audio, mapping, maps, navigation and the controls of a running task, and \<open>_execute\<close>, which
  chooses among them. The navigation boundary, the task executor and the adapters are called through the world; the
  checks of the safety policy are those of \<open>Safety\<close> on the state's safety record.
\<close>

section \<open>Context\<close>

definition module_for_command :: "string \<Rightarrow> string" where
  "module_for_command t =
     (if t = ''nav.relocalize'' then ''relocalization''
      else if t = ''nav.initial_pose'' then ''localization''
      else if t = ''nav.single_goal'' then ''planner''
      else if take 4 t = ''nav.'' then ''navigation''
      else if t = ''map.boundary_apply'' then ''boundary''
      else ''system'')"

text \<open>The structured log: without one nothing happens; otherwise the context is read from the envelope, where a value
  that is not a dictionary makes \<open>get\<close> fail.\<close>

definition log_context :: "message_envelope \<Rightarrow> pydict pyres" where
  "log_context env =
     bindE (env_command env) (\<lambda>command.
     bindE (as_dict (dget command ''route_snapshot'')) (\<lambda>route.
     bindE (as_dict (dget route ''map'')) (\<lambda>route_map.
       Inr [(''trace_id'', PStr (env_trace_id env)), (''command_id'', dget (env_payload env) ''command_id''),
            (''task_execution_id'', dget (env_payload env) ''task_execution_id''),
            (''map_id'', py_or (dget command ''map_id'') (dget route_map ''map_id''))])))"

definition structured :: "string \<Rightarrow> string \<Rightarrow> string \<Rightarrow> pyval \<Rightarrow> message_envelope \<Rightarrow> unit cmd" where
  "structured level area event_code data env =
     bindC (hasC ''structured_logs'') (\<lambda>b. if \<not> b then returnC ()
       else bindC (liftC (log_context env)) (\<lambda>context.
         thenC (callC ''structured_logs.emit'' [PStr level, PStr area, PStr event_code, data, PDict context]) (returnC ())))"

definition active_task :: "task_view option \<Rightarrow> bool" where
  "active_task c = (case c of None \<Rightarrow> False | Some v \<Rightarrow> tv_state v \<notin> set terminal_states)"

definition has_active_task :: "bool cmd" where
  "has_active_task = bindC taskC (\<lambda>c. returnC (active_task c))"

definition state_version :: "int cmd" where
  "state_version = bindC taskC (\<lambda>c. returnC (case c of None \<Rightarrow> 0 | Some v \<Rightarrow> if active_task c then tv_version v else 0))"

definition unsupported :: "message_envelope \<Rightarrow> 'a cmd" where
  "unsupported env = raiseC (protocol_error ''UNSUPPORTED_COMMAND'' (env_message_type env))"

text \<open>\<open>if not self.<adapter>: raise\<close>.\<close>

definition requireC :: "string \<Rightarrow> string \<Rightarrow> string \<Rightarrow> unit cmd" where
  "requireC name code message =
     bindC (hasC name) (\<lambda>b. if b then returnC () else raiseC (protocol_error code message))"

definition require_nav_stack :: "unit cmd" where
  "require_nav_stack = requireC ''nav_stack'' ''NAVIGATION_STACK_UNAVAILABLE'' ''navigation stack adapter is not configured''"

section \<open>Teleoperation\<close>

definition control_mode :: "string \<Rightarrow> unit cmd" where
  "control_mode m = set_safety (\<lambda>st. st\<lparr>ss_control_mode := m\<rparr>)"

definition manual_assist_allowed :: "unit cmd" where
  "manual_assist_allowed = bindC configC (\<lambda>cfg. bindC safetyC (\<lambda>st. liftC (validate_manual_assist cfg st)))"

definition release_temporary_fusion_for_manual_control :: "string \<Rightarrow> unit cmd" where
  "release_temporary_fusion_for_manual_control action =
     bindC (hasC ''release_temporary_fusion'') (\<lambda>b. if b
       then call_quietly ''release_temporary_fusion'' [PStr (''manual_control_'' @ action)] else returnC ())"

definition clamp :: "real \<Rightarrow> pyfloat \<Rightarrow> pyfloat" where
  "clamp limit v = py_max (Fin (- limit)) (py_min (Fin limit) v)"

definition send_velocity :: "string \<Rightarrow> pyfloat \<Rightarrow> pyfloat \<Rightarrow> pyfloat \<Rightarrow> pydict cmd" where
  "send_velocity method vx vy yaw_rate = callD method [PFloat vx, PFloat vy, PFloat yaw_rate]"

definition manual_assist_velocity :: "pyfloat \<Rightarrow> pyfloat \<Rightarrow> pyfloat \<Rightarrow> pydict cmd" where
  "manual_assist_velocity vx vy yaw_rate =
     bindC safetyC (\<lambda>st. if ss_control_mode st \<noteq> ''manual_assist'' then send_velocity ''teleop.teleop_velocity'' vx vy yaw_rate
       else bindC has_active_task (\<lambda>active. if \<not> active
         then thenC (control_mode ''autonomous'') (send_velocity ''teleop.teleop_velocity'' vx vy yaw_rate)
         else thenC manual_assist_allowed
           (bindC (send_velocity ''teleop.manual_assist_velocity'' (clamp (1 / 10) vx) (clamp (1 / 10) vy) (clamp (1 / 4) yaw_rate)) (\<lambda>result.
              returnC (dput result ''mode'' (PStr ''manual_assist''))))))"

abbreviation zero :: pyfloat where "zero \<equiv> Fin 0"

definition release_manual_control_for_task :: "unit cmd" where
  "release_manual_control_for_task =
     bindC safetyC (\<lambda>st. let mode = ss_control_mode st in
       if mode \<notin> {''manual_assist'', ''manual_takeover''} then returnC ()
       else thenC (requireC ''localization'' ''TELEOP_UNAVAILABLE'' ''teleop adapter is not configured'')
         (thenC (if mode = ''manual_assist'' then thenC (callC ''teleop.manual_assist_velocity'' [PFloat zero, PFloat zero, PFloat zero]) (returnC ())
             else seqC [thenC (callC ''teleop.teleop_velocity'' [PFloat zero, PFloat zero, PFloat zero]) (returnC ()),
                        thenC (callC ''teleop.release_to_remote_control'' []) (returnC ())])
           (control_mode ''autonomous'')))"

definition bridge_free_actions :: "string list" where
  "bridge_free_actions = [''person_follow_status'', ''person_follow_stop'', ''skill_list'', ''skill_status'', ''skill_cancel'']"

definition velocity_actions :: "string list" where
  "velocity_actions = [''move_forward'', ''move_backward'', ''move_left'', ''move_right'', ''turn_left'', ''turn_right'',
     ''move_velocity'', ''move_stop'']"

definition follow_overrides :: "string list" where
  "follow_overrides = [''takeover_enter'', ''takeover_exit'', ''move_forward'', ''move_backward'', ''move_left'', ''move_right'',
     ''turn_left'', ''turn_right'', ''move_velocity'', ''skill'', ''shake_hand'', ''two_leg_stand'']"

text \<open>The bridge's status, or \<open>None\<close> when it was not asked.\<close>

definition bridge_status :: "string \<Rightarrow> pyval option cmd" where
  "bridge_status action =
     bindC (hasC ''teleop_control'') (\<lambda>b. if \<not> b \<or> action \<in> set bridge_free_actions then returnC None
       else bindC (callC (if action \<in> set velocity_actions then ''teleop_control.recent_ready_status'' else ''teleop_control.ensure_ready'') [])
         (\<lambda>v. returnC (if v = PNone then None else Some v)))"

definition stop_following :: "string \<Rightarrow> unit cmd" where
  "stop_following reason = bindC (hasC ''person_follow'') (\<lambda>b.
     if b then thenC (callC ''person_follow.stop'' [PStr reason]) (returnC ()) else returnC ())"

definition confirmed :: "string \<Rightarrow> string list \<Rightarrow> string list \<Rightarrow> pydict cmd" where
  "confirmed name expected retry = callD ''teleop.confirmed_remote_teleop_action''
     [PStr name, PList (map PStr expected), PList (map PStr retry)]"

definition stand_up :: "pydict cmd" where
  "stand_up = confirmed ''stand_up'' [''standing_up'', ''standing''] [''stand_up_retrying'']"

text \<open>The mode after a posture action: assisting keeps the task's authority, anything else takes the robot over, except
  that lying down ends in \<open>autonomous\<close>.\<close>

definition posture_mode :: "bool \<Rightarrow> string \<Rightarrow> pydict \<Rightarrow> pydict cmd" where
  "posture_mode assist action result =
     (if assist then seq_valueC [manual_assist_allowed, control_mode ''manual_assist''] (dput result ''mode'' (PStr ''manual_assist''))
      else if action = ''lie_down'' then seq_valueC [control_mode ''autonomous''] result
      else seq_valueC [control_mode ''manual_takeover'', release_temporary_fusion_for_manual_control action] result)"

definition require_task_for_assist :: "string \<Rightarrow> unit cmd" where
  "require_task_for_assist message = thenC (bindC has_active_task (\<lambda>active. if active then returnC ()
     else raiseC (protocol_error ''MANUAL_ASSIST_REQUIRES_ACTIVE_TASK'' message))) manual_assist_allowed"

definition takeover_enter :: "bool \<Rightarrow> pydict cmd" where
  "takeover_enter assist =
     bindC (if assist then thenC (require_task_for_assist ''manual assist requires an active navigation task'')
         (seq_valueC [control_mode ''manual_assist''] [(''mode'', PStr ''manual_assist''), (''motion_topic'', PStr ''/cmd_vel_assist''),
            (''detail'', PStr ''Nav2 remains active; assist is collision-monitored and time-bounded'')])
       else bindC stand_up (\<lambda>r. seq_valueC [control_mode ''manual_takeover''] r)) (\<lambda>result.
       seq_valueC [release_temporary_fusion_for_manual_control ''takeover_enter''] result)"

definition takeover_exit :: "pydict cmd" where
  "takeover_exit =
     bindC (bindC safetyC (\<lambda>st. if ss_control_mode st = ''manual_assist''
         then bindC (manual_assist_velocity zero zero zero) (\<lambda>r. returnC (dput r ''mode'' (PStr ''autonomous'')))
         else thenC (send_velocity ''teleop.teleop_velocity'' zero zero zero) (callD ''teleop.release_to_remote_control'' []))) (\<lambda>result.
       seq_valueC [control_mode ''autonomous''] result)"

text \<open>A directional move: one component from the command, with the source's default, the others zero.\<close>

definition move_component :: "pydict \<Rightarrow> string \<Rightarrow> real \<Rightarrow> pyfloat cmd" where
  "move_component command key dflt = liftC (py_float (dget_def_val command key (PFloat (Fin dflt))))"

definition move_action :: "string \<Rightarrow> pydict \<Rightarrow> pydict cmd" where
  "move_action action command =
     (if action = ''move_forward'' then bindC (move_component command ''vx'' (35 / 100)) (\<lambda>v. manual_assist_velocity v zero zero)
      else if action = ''move_backward'' then bindC (move_component command ''vx'' (- (35 / 100))) (\<lambda>v. manual_assist_velocity v zero zero)
      else if action = ''move_left'' then bindC (move_component command ''vy'' (1 / 4)) (\<lambda>v. manual_assist_velocity zero v zero)
      else if action = ''move_right'' then bindC (move_component command ''vy'' (- (1 / 4))) (\<lambda>v. manual_assist_velocity zero v zero)
      else if action = ''turn_left'' then bindC (move_component command ''yaw_rate'' (45 / 100)) (\<lambda>v. manual_assist_velocity zero zero v)
      else if action = ''turn_right'' then bindC (move_component command ''yaw_rate'' (- (45 / 100))) (\<lambda>v. manual_assist_velocity zero zero v)
      else bindC (move_component command ''vx'' 0) (\<lambda>vx. bindC (move_component command ''vy'' 0) (\<lambda>vy.
        bindC (move_component command ''yaw_rate'' 0) (\<lambda>yr.
          manual_assist_velocity (clamp (1 / 2) vx) (clamp (1 / 2) vy) (clamp (1 / 2) yr)))))"

definition move_stop :: "pydict cmd" where
  "move_stop = thenC (stop_following ''move_stop'') (bindC safetyC (\<lambda>st.
     if ss_control_mode st = ''manual_assist'' then manual_assist_velocity zero zero zero
     else send_velocity ''teleop.teleop_velocity'' zero zero zero))"

definition require_follow :: "unit cmd" where
  "require_follow = requireC ''person_follow'' ''PERSON_FOLLOW_UNAVAILABLE'' ''person follow controller is not configured''"

definition person_follow_start :: "pydict \<Rightarrow> pydict cmd" where
  "person_follow_start command =
     thenC require_follow (bindC has_active_task (\<lambda>active.
       if active then raiseC (protocol_error ''PERSON_FOLLOW_UNAVAILABLE'' ''cannot start person follow while a navigation task is active'')
       else bindC stand_up (\<lambda>stand.
         bindC (callC ''person_follow.start'' [PStr (str_or (dget command ''track_id'') [])]) (\<lambda>follow.
           seq_valueC [control_mode ''manual_takeover'', release_temporary_fusion_for_manual_control ''person_follow_start'']
             [(''follow'', follow), (''stand'', PDict stand)]))))"

text \<open>The skill executor exists when the localization adapter does, which \<open>execute_teleop\<close> has checked.\<close>

definition skill_query :: "string \<Rightarrow> pydict \<Rightarrow> pydict cmd" where
  "skill_query action command =
     (if action = ''skill_list'' then bindC (callC ''skill.list_presets'' []) (\<lambda>v. returnC [(''presets'', v)])
      else callD (if action = ''skill_status'' then ''skill.status'' else ''skill.cancel'') [PStr (str_or (dget command ''command_id'') [])])"

definition passive_action :: "pydict cmd" where
  "passive_action = thenC (stop_following ''passive'')
     (bindC (confirmed ''passive'' [''passive''] [''passive_failed'']) (\<lambda>r. seq_valueC [control_mode ''autonomous''] r))"

definition lie_down :: "pydict cmd" where
  "lie_down = thenC (stop_following ''lie_down'')
     (thenC (callC ''teleop.teleop_velocity'' [PFloat zero, PFloat zero, PFloat zero]) (callD ''teleop.remote_teleop_action'' [PStr ''lie_down'']))"

definition moving_actions :: "string list" where
  "moving_actions = [''move_forward'', ''move_backward'', ''move_left'', ''move_right'', ''turn_left'', ''turn_right'', ''move_velocity'']"

definition speed_actions :: "string list" where
  "speed_actions = [''speed_micro'', ''speed_slow'', ''speed_normal'', ''speed_fast'']"

text \<open>The dispatch on the action. \<open>None\<close> is the early return of an asynchronous skill.\<close>

definition teleop_action :: "message_envelope \<Rightarrow> string \<Rightarrow> pydict \<Rightarrow> bool \<Rightarrow> pydict option cmd" where
  "teleop_action env action command assist =
     (if action = ''skill'' then thenC (callC ''skill.start'' [dget (env_payload env) ''command_id'', PDict command]) (returnC None)
      else bindC
       (if action = ''takeover_enter'' then takeover_enter assist
        else if action = ''takeover_exit'' then takeover_exit
        else if action = ''stand_up'' then bindC stand_up (posture_mode assist action)
        else if action = ''lie_down'' then bindC lie_down (posture_mode assist action)
        else if action = ''shake_hand'' then bindC (confirmed ''shake_hand'' [''greeting''] []) (posture_mode assist action)
        else if action = ''two_leg_stand'' then bindC (confirmed ''two_leg_stand'' [''two_leg_standing''] []) (posture_mode assist action)
        else if action = ''move_stop'' then move_stop
        else if action = ''person_follow_start'' then person_follow_start command
        else if action = ''person_follow_stop'' then thenC require_follow (callD ''person_follow.stop'' [PStr ''operator_stop''])
        else if action = ''person_follow_status'' then thenC require_follow (callD ''person_follow.status'' [])
        else if action \<in> {''skill_list'', ''skill_status'', ''skill_cancel''} then skill_query action command
        else if action \<in> set moving_actions then move_action action command
        else if action \<in> set speed_actions then callD ''teleop.remote_teleop_action'' [PStr action]
        else if action = ''passive'' then passive_action
        else unsupported env) (\<lambda>r. returnC (Some r)))"

definition teleop_prefix_dropped :: "string \<Rightarrow> string" where
  "teleop_prefix_dropped t = (if take 7 t = ''teleop.'' then drop 7 t else t)"

definition execute_teleop :: "message_envelope \<Rightarrow> string \<Rightarrow> pydict option cmd" where
  "execute_teleop env started_at =
     thenC (requireC ''localization'' ''TELEOP_UNAVAILABLE'' ''teleop adapter is not configured'')
      (bindC (liftC (env_command env)) (\<lambda>command.
       let action = teleop_prefix_dropped (env_message_type env); assist = truthy (dget_def_val command ''assist'' (PBool False)) in
       bindC (bridge_status action) (\<lambda>bridge.
       thenC (if action \<in> set follow_overrides then stop_following ''manual_teleop_override'' else returnC ())
      (thenC (if assist then require_task_for_assist ''manual assist actions require an active navigation task'' else returnC ())
       (bindC (teleop_action env action command assist) (\<lambda>r.
          case r of
            None \<Rightarrow> returnC None
          | Some result \<Rightarrow>
              bindC (succeeded env (case bridge of None \<Rightarrow> result | Some b \<Rightarrow> dput result ''teleop_bridge'' b) started_at) (\<lambda>msg.
                returnC (Some msg))))))))"

section \<open>Sensors, charging, motion control, audio, mapping\<close>

definition env_command_or_error :: "message_envelope \<Rightarrow> pydict cmd" where
  "env_command_or_error env = liftC (env_command env)"

definition answered :: "message_envelope \<Rightarrow> string \<Rightarrow> pydict cmd \<Rightarrow> pydict option cmd" where
  "answered env started_at m = bindC m (\<lambda>result. bindC (succeeded env result started_at) (\<lambda>msg. returnC (Some msg)))"

definition execute_sensor :: "message_envelope \<Rightarrow> string \<Rightarrow> pydict option cmd" where
  "execute_sensor env started_at =
     thenC (requireC ''sensor_control'' ''SENSOR_CONTROL_UNAVAILABLE'' ''sensor control adapter is not configured'')
       (if env_message_type env \<noteq> ''sensor.restart'' then unsupported env
        else bindC (env_command_or_error env) (\<lambda>command.
          answered env started_at (callD ''sensor_control.restart'' [dget command ''sensor''])))"

definition execute_charge :: "message_envelope \<Rightarrow> string \<Rightarrow> pydict option cmd" where
  "execute_charge env started_at =
     thenC (requireC ''charge_control'' ''CHARGE_CONTROL_UNAVAILABLE'' ''charge control adapter is not configured'')
       (if env_message_type env = ''charge.start'' then answered env started_at (callD ''charge_control.start'' [])
        else if env_message_type env = ''charge.stop'' then answered env started_at (callD ''charge_control.stop'' [])
        else unsupported env)"

definition execute_motion_control :: "message_envelope \<Rightarrow> string \<Rightarrow> pydict option cmd" where
  "execute_motion_control env started_at =
     thenC (requireC ''charge_control'' ''MOTION_CONTROL_UNAVAILABLE'' ''charge control adapter is not configured'')
      (bindC has_active_task (\<lambda>active.
       if active \<and> env_message_type env = ''motion.stop''
       then raiseC (protocol_error ''TASK_ACTIVE'' ''cannot stop motion control while a navigation task is active'')
       else if env_message_type env = ''motion.start'' then answered env started_at (callD ''charge_control.start_motion_control'' [])
       else if env_message_type env = ''motion.stop'' then answered env started_at (callD ''charge_control.stop_motion_control'' [])
       else unsupported env))"

definition execute_audio :: "message_envelope \<Rightarrow> string \<Rightarrow> pydict option cmd" where
  "execute_audio env started_at =
     thenC (requireC ''audio_control'' ''AUDIO_CONTROL_UNAVAILABLE'' ''audio control adapter is not configured'')
       (if env_message_type env \<noteq> ''audio.volume'' then unsupported env
        else bindC (env_command_or_error env) (\<lambda>command.
          bindC (liftC (py_int (dget_def_val command ''volume'' (PInt 0)))) (\<lambda>volume.
            answered env started_at (callD ''audio_control.set_volume'' [PStr (str_or (dget command ''target'') []), PInt volume]))))"

text \<open>The adapter's method of a mapping command, and whether it takes the command.\<close>

definition mapping_methods :: "(string \<times> string \<times> bool) list" where
  "mapping_methods =
     [(''mapping.start'', ''start_mapping'', True), (''mapping.origin_start'', ''start_origin_lock'', True),
      (''mapping.origin_cancel'', ''cancel_origin_lock'', True), (''mapping.origin_extract_global'', ''extract_global_enu'', True),
      (''mapping.slam_start'', ''start_slam_warmup'', True), (''mapping.begin'', ''begin_mapping'', True),
      (''mapping.save'', ''save_mapping'', True), (''mapping.cancel'', ''cancel_mapping'', True), (''mapping.status'', ''status'', False),
      (''mapping.scene_semantics'', ''build_scene_semantics'', True), (''mapping.scene_semantics_status'', ''scene_semantics_status'', False)]"

definition execute_mapping :: "message_envelope \<Rightarrow> string \<Rightarrow> pydict option cmd" where
  "execute_mapping env started_at =
     thenC (requireC ''mapping'' ''MAPPING_UNAVAILABLE'' ''mapping adapter is not configured'')
      (bindC (env_command_or_error env) (\<lambda>command.
       case map_of mapping_methods (env_message_type env) of
         None \<Rightarrow> unsupported env
       | Some (method, takes) \<Rightarrow> answered env started_at (callD (''mapping.'' @ method) (if takes then [PDict command] else []))))"

section \<open>Events and frames\<close>

context event_policy
begin

lemma keeps_structured [cmd_rules]: "keeps (frame P s0) (structured level area event_code data env)"
  unfolding structured_def by (intro cmd_rules; simp)


lemma keeps_has_active_task [cmd_rules]: "keeps (frame P s0) (has_active_task)"
  unfolding has_active_task_def by (intro cmd_rules; simp)

lemma keeps_state_version [cmd_rules]: "keeps (frame P s0) (state_version)"
  unfolding state_version_def by (intro cmd_rules; simp)

lemma keeps_unsupported [cmd_rules]: "keeps (frame P s0) (unsupported env)"
  unfolding unsupported_def by (intro cmd_rules; simp)

lemma keeps_requireC [cmd_rules]: "keeps (frame P s0) (requireC name code message)"
  unfolding requireC_def by (intro cmd_rules; simp)

lemma keeps_require_nav_stack [cmd_rules]: "keeps (frame P s0) (require_nav_stack)"
  unfolding require_nav_stack_def by (intro cmd_rules; simp)

lemma keeps_control_mode [cmd_rules]: "keeps (frame P s0) (control_mode m)"
  unfolding control_mode_def by (intro cmd_rules; simp)

lemma keeps_manual_assist_allowed [cmd_rules]: "keeps (frame P s0) (manual_assist_allowed)"
  unfolding manual_assist_allowed_def by (intro cmd_rules; simp)

lemma keeps_release_temporary_fusion_for_manual_control [cmd_rules]: "keeps (frame P s0) (release_temporary_fusion_for_manual_control action)"
  unfolding release_temporary_fusion_for_manual_control_def by (intro cmd_rules; simp)

lemma keeps_bridge_status [cmd_rules]: "keeps (frame P s0) (bridge_status action)"
  unfolding bridge_status_def by (intro cmd_rules; simp)

lemma keeps_stop_following [cmd_rules]: "keeps (frame P s0) (stop_following reason)"
  unfolding stop_following_def by (intro cmd_rules; simp)

lemma keeps_confirmed [cmd_rules]: "keeps (frame P s0) (confirmed name expected retry)"
  unfolding confirmed_def by (intro cmd_rules; simp)

lemma keeps_stand_up [cmd_rules]: "keeps (frame P s0) (stand_up)"
  unfolding stand_up_def by (intro cmd_rules; simp)

lemma keeps_posture_mode [cmd_rules]: "keeps (frame P s0) (posture_mode assist action result)"
  unfolding posture_mode_def by (intro cmd_rules; simp)

lemma keeps_require_task_for_assist [cmd_rules]: "keeps (frame P s0) (require_task_for_assist message)"
  unfolding require_task_for_assist_def by (intro cmd_rules; simp)

lemma keeps_takeover_enter [cmd_rules]: "keeps (frame P s0) (takeover_enter assist)"
  unfolding takeover_enter_def by (intro cmd_rules; simp)

lemma keeps_move_component [cmd_rules]: "keeps (frame P s0) (move_component command key dflt)"
  unfolding move_component_def by (intro cmd_rules; simp)

lemma keeps_require_follow [cmd_rules]: "keeps (frame P s0) (require_follow)"
  unfolding require_follow_def by (intro cmd_rules; simp)

lemma keeps_person_follow_start [cmd_rules]: "keeps (frame P s0) (person_follow_start command)"
  unfolding person_follow_start_def by (intro cmd_rules; simp)

lemma keeps_skill_query [cmd_rules]: "keeps (frame P s0) (skill_query action command)"
  unfolding skill_query_def by (intro cmd_rules; simp)

lemma keeps_passive_action [cmd_rules]: "keeps (frame P s0) (passive_action)"
  unfolding passive_action_def by (intro cmd_rules; simp)

lemma keeps_env_command_or_error [cmd_rules]: "keeps (frame P s0) (env_command_or_error env)"
  unfolding env_command_or_error_def by (intro cmd_rules; simp)

lemma keeps_answered [cmd_rules]: "keeps (frame P s0) m \<Longrightarrow> keeps (frame P s0) (answered env started_at m)"
  unfolding answered_def by (intro cmd_rules)


lemma keeps_execute_sensor [cmd_rules]: "keeps (frame P s0) (execute_sensor env started_at)"
  unfolding execute_sensor_def by (intro cmd_rules; simp)

lemma keeps_execute_charge [cmd_rules]: "keeps (frame P s0) (execute_charge env started_at)"
  unfolding execute_charge_def by (intro cmd_rules; simp)

lemma keeps_execute_motion_control [cmd_rules]: "keeps (frame P s0) (execute_motion_control env started_at)"
  unfolding execute_motion_control_def by (intro cmd_rules; simp)

lemma keeps_execute_audio [cmd_rules]: "keeps (frame P s0) (execute_audio env started_at)"
  unfolding execute_audio_def by (intro cmd_rules; simp)

lemma mapping_call [simp]: "P (Called (''mapping.'' @ method) args)"
  by simp


lemma keeps_execute_mapping [cmd_rules]: "keeps (frame P s0) (execute_mapping env started_at)"
  unfolding execute_mapping_def by (intro cmd_rules; simp)

lemma keeps_send_velocity [cmd_rules]: "P (Called method [PFloat vx, PFloat vy, PFloat yaw_rate]) \<Longrightarrow> keeps (frame P s0) (send_velocity method vx vy yaw_rate)"
  unfolding send_velocity_def by (intro cmd_rules)


lemma keeps_manual_assist_velocity:
  assumes "P (Called ''teleop.teleop_velocity'' [PFloat vx, PFloat vy, PFloat yr])"
    and "P (Called ''teleop.manual_assist_velocity'' [PFloat (clamp (1 / 10) vx), PFloat (clamp (1 / 10) vy), PFloat (clamp (1 / 4) yr)])"
  shows "keeps (frame P s0) (manual_assist_velocity vx vy yr)"
  unfolding manual_assist_velocity_def by (intro cmd_rules assms)


end

text \<open>Policies that allow every direct velocity and every assist velocity within the assist limits.\<close>

locale drive_policy = event_policy P for P :: "event \<Rightarrow> bool" +
  assumes drive: "P (Called ''teleop.teleop_velocity'' args)"
    and assist: "P (Called ''teleop.manual_assist_velocity'' [PFloat (clamp (1 / 10) vx), PFloat (clamp (1 / 10) vy), PFloat (clamp (1 / 4) yr)])"
begin

declare drive [simp] assist [simp]

lemma assist_zero [simp]: "P (Called ''teleop.manual_assist_velocity'' [PFloat zero, PFloat zero, PFloat zero])"
  using assist [of zero zero zero] by (simp add: clamp_def py_max_def py_min_def)

lemma keeps_assist [cmd_rules]: "keeps (frame P s0) (manual_assist_velocity vx vy yr)"
  by (rule keeps_manual_assist_velocity) simp_all

lemma keeps_move_action [cmd_rules]: "keeps (frame P s0) (move_action action command)"
  unfolding move_action_def by (intro cmd_rules; simp)

lemma keeps_move_stop [cmd_rules]: "keeps (frame P s0) (move_stop)"
  unfolding move_stop_def by (intro cmd_rules; simp)

lemma keeps_takeover_exit [cmd_rules]: "keeps (frame P s0) (takeover_exit)"
  unfolding takeover_exit_def by (intro cmd_rules; simp)

lemma keeps_lie_down [cmd_rules]: "keeps (frame P s0) (lie_down)"
  unfolding lie_down_def by (intro cmd_rules; simp)

lemma keeps_teleop_action [cmd_rules]: "keeps (frame P s0) (teleop_action env action command assist)"
  unfolding teleop_action_def by (intro cmd_rules; simp)

lemma keeps_execute_teleop [cmd_rules]: "keeps (frame P s0) (execute_teleop env started_at)"
  unfolding execute_teleop_def by (intro cmd_rules; simp)

end

text \<open>Policies that limit nothing but the assist velocities.\<close>

locale call_policy = drive_policy P for P :: "event \<Rightarrow> bool" +
  assumes any_call: "name \<noteq> ''teleop.manual_assist_velocity'' \<Longrightarrow> P (Called name args)"
begin

declare any_call [simp]

end


end
