(* ===== verification/CommandNav.thy ===== *)
theory CommandNav
  imports CommandExec
begin

text \<open>
  The handlers of the command processor that change the map or the navigation stack
  (\<open>edge-agent/roamerx_edge/command_processor.py\<close>): map activation with its localization, the lifecycle commands of the
  navigation stack, the operator's localization commands with the pause and the resumption of a running task, and the
  controls of a task. \<open>execute\<close> is the dispatch over all handlers. A progress message that an adapter sends through the
  callback it was given is part of the adapter's call.
\<close>

section \<open>Maps\<close>

fun vsub :: "pyval \<Rightarrow> string \<Rightarrow> pyval pyres" where
  "vsub (PDict d) k = dsub d k"
| "vsub _ k = Inl TypeError"

definition callback :: pyval where
  "callback = PStr ''<progress>''"

definition set_progress :: "pyval \<Rightarrow> unit cmd" where
  "set_progress v = call_opt ''localization.set_attempt_progress_callback'' [v]"

definition boundary_apply :: "pydict \<Rightarrow> pydict cmd" where
  "boundary_apply command =
     bindC safetyC (\<lambda>st.
       if ss_current_map_id st \<noteq> [] \<and> ss_current_map_id st \<noteq> str_or (dget command ''map_id'') []
       then raiseC (protocol_error ''BOUNDARY_MAP_MISMATCH'' (''<boundary map '' @ py_str (dget command ''map_id'') @ '' differs from current map '' @ ss_current_map_id st @ ''>''))
       else bindC (callD ''boundary.apply'' [PDict command]) (\<lambda>result.
         bindC (hasC ''nav_stack.reload_boundary_filter'') (\<lambda>b. if \<not> b then returnC result
           else bindC (callC ''nav_stack.reload_boundary_filter'' []) (\<lambda>v. returnC (dput result ''nav2_filter_reload'' v)))))"

text \<open>The localization command of a map activation: the activated package decides the scene and the coordinates.\<close>

definition activation_scope :: "pydict \<Rightarrow> pydict \<Rightarrow> string \<times> string" where
  "activation_scope active_map command =
     (let active_scene = plain_text (dget active_map ''scene_scope''); active_coordinate = plain_text (dget active_map ''coordinate_mode'');
          requested_scene = plain_text (dget command ''scene_scope''); requested_coordinate = plain_text (dget command ''coordinate_mode'');
          scene = (if requested_scene \<in> {''outdoor'', ''transition''} \<and> active_coordinate = ''rtk_fixed'' then requested_scene else active_scene);
          coordinate = (if active_coordinate \<notin> {''rtk_fixed'', ''local_only''} then requested_coordinate else active_coordinate)
      in (if scene \<noteq> [] then scene else if requested_scene \<noteq> [] then requested_scene else ''indoor'',
          if coordinate \<noteq> [] then coordinate else if requested_coordinate \<noteq> [] then requested_coordinate else ''local_only''))"

definition activation_command :: "pydict \<Rightarrow> pydict \<Rightarrow> pydict pyres" where
  "activation_command active_map command =
     (let sc = activation_scope active_map command in
      bindE (list_or_empty (dget command ''waypoints'')) (\<lambda>wps.
        Inr (dmerge command [(''scene_scope'', PStr (fst sc)), (''coordinate_mode'', PStr (snd sc)),
          (''localization_mode'', PStr (lower (str_or (dget command ''localization_mode'') []))), (''waypoints'', PList wps)])))"

text \<open>Stopping before the reload: the execution group is deactivated, and the motion is stopped even if that fails.\<close>

definition stop_for_activation :: "unit cmd" where
  "stop_for_activation = thenC (finallyC (call_opt ''nav_stack.deactivate_execution'' []) (call_opt ''localization.stop_motion'' []))
     (set_nav_ready False)"

definition reload_active_map :: "pydict \<Rightarrow> pydict cmd" where
  "reload_active_map result =
     bindC (liftC (bindE (dsub result ''current_map'') (\<lambda>m. vsub m ''active_files''))) (\<lambda>files.
     bindC (hasC ''nav_stack.reload_map_if_running'') (\<lambda>running.
     bindC (liftC (bindE (vsub files ''map.pcd'') (\<lambda>pcd. bindE (vsub files ''map.yaml'') (\<lambda>yaml. Inr [pcd, yaml])))) (\<lambda>args.
     bindC (callD (if running then ''nav_stack.reload_map_if_running'' else ''nav_stack.reload_map'') args) (\<lambda>reload.
       let result' = dput result ''map_reload'' (PDict reload) in
       bindC (hasC ''nav_stack.reload_boundary_filter'') (\<lambda>b.
         if truthy (dget reload ''deferred'') \<or> \<not> b then returnC result'
         else bindC (callC ''nav_stack.reload_boundary_filter'' []) (\<lambda>v. returnC (dput result' ''boundary_filter_reload'' v)))))))"

text \<open>The body of the \<open>try\<close> that ends with the active execution group.\<close>

definition localize_activated_map :: "message_envelope \<Rightarrow> string \<Rightarrow> pydict \<Rightarrow> pydict \<Rightarrow> pydict cmd" where
  "localize_activated_map env started_at localization_command result =
     thenC (emit_command_progress env started_at [(''state'', PStr ''running''), (''selected_stage'', PStr ''navigation_prepare''),
        (''navigation_lifecycle'', PDict [(''status'', PStr ''preparing'')])])
      (bindC (callC ''nav_stack.prepare'' (reason_arg ''map.activate'')) (\<lambda>prepared.
       thenC (require_prepared ''localization.wait_until_prepared'' ''navigation map/safety group did not become prepared after map activation'')
      (thenC (emit_command_progress env started_at [(''state'', PStr ''running''), (''selected_stage'', PStr ''fast_lio_readiness'')])
      (bindC (run_navigation_command_localization env localization_command) (\<lambda>localization.
       thenC (emit_command_progress env started_at (dmerge localization
          [(''state'', PStr ''running''), (''selected_stage'', PStr ''navigation_execution_activate'')]))
      (thenC (requireC ''nav_stack.activate_execution'' ''NAVIGATION_EXECUTION_UNAVAILABLE''
          ''prepared navigation stack cannot activate its execution group'')
      (bindC (callC ''nav_stack.activate_execution'' []) (\<lambda>activation.
       thenC (await_navigation_stack_ready ''navigation execution group did not become ready after map activation'')
         (returnC (dmerge result [(''navigation_prepare'', prepared), (''localization'', PDict localization),
            (''execution_activation'', activation), (''localization_reset_required'', PBool False), (''navigation_allowed'', PBool True)]))))))))))"

definition undo_activation :: "pyexc \<Rightarrow> 'a cmd" where
  "undo_activation x = thenC (bindC (hasC ''nav_stack.deactivate_execution'') (\<lambda>b.
       if b then call_quietly ''nav_stack.deactivate_execution'' [] else returnC ()))
     (thenC (set_nav_ready False) (raiseC x))"

definition require_idle :: "string \<Rightarrow> unit cmd" where
  "require_idle message = bindC has_active_task (\<lambda>active.
     if active then raiseC (protocol_error ''ROBOT_BUSY'' message) else returnC ())"

definition map_activate :: "message_envelope \<Rightarrow> string \<Rightarrow> pydict \<Rightarrow> pydict cmd" where
  "map_activate env started_at command =
     thenC (require_idle ''<a task is running, the active map cannot be switched>'')
      (bindC (callD ''map_activation.activate'' [PDict command]) (\<lambda>activated.
       thenC (bindC (hasC ''boundary'') (\<lambda>b. if b
          then thenC (callC ''boundary.activate_map'' [dget command ''map_id'', dget command ''map_version'']) (returnC ()) else returnC ()))
      (thenC (requireC ''nav_stack'' ''MAP_RELOAD_UNAVAILABLE'' ''navigation stack adapter is not configured'')
      (thenC stop_for_activation
      (bindC (reload_active_map activated) (\<lambda>result.
       thenC (set_safety (\<lambda>st. st\<lparr>ss_localization_status := ''initializing'', ss_localization_normal_since := 0\<rparr>))
      (bindC (hasC ''nav_stack.prepare'') (\<lambda>p. bindC (hasC ''localization'') (\<lambda>l.
       if \<not> p \<or> \<not> l then returnC (dput result ''localization_reset_required'' (PBool True))
       else bindC (liftC (bindE (as_dict (dget result ''current_map'')) (\<lambda>m. activation_command m command))) (\<lambda>localization_command.
         thenC (set_progress callback)
           (finallyC (exceptC (localize_activated_map env started_at localization_command result) undo_activation)
             (set_progress PNone))))))))))))"

definition map_optimize :: "pydict \<Rightarrow> pydict cmd" where
  "map_optimize command =
     thenC (requireC ''mapping'' ''MAPPING_UNAVAILABLE'' ''mapping adapter is not configured'')
      (thenC (require_idle ''<a task is running, the map cannot be optimized offline>'')
       (bindC (callC ''map_activation.resolve_source_dir'' [PDict command]) (\<lambda>dir.
          callD ''mapping.optimize_historical_map'' [PDict command, dir])))"

definition execute_map :: "message_envelope \<Rightarrow> string \<Rightarrow> pydict option cmd" where
  "execute_map env started_at =
     (if env_message_type env = ''map.boundary_apply''
      then thenC (requireC ''boundary'' ''BOUNDARY_UNAVAILABLE'' ''navigation boundary manager is not configured'')
        (bindC (env_command_or_error env) (\<lambda>command. answered env started_at (boundary_apply command)))
      else thenC (requireC ''map_activation'' ''MAP_ACTIVATION_UNAVAILABLE'' ''map activation adapter is not configured'')
        (bindC (env_command_or_error env) (\<lambda>command.
           if env_message_type env = ''map.activate'' then answered env started_at (map_activate env started_at command)
           else if env_message_type env = ''map.optimize'' then answered env started_at (map_optimize command)
           else unsupported env)))"

section \<open>The navigation stack\<close>

definition single_goal :: "message_envelope \<Rightarrow> pydict \<Rightarrow> pydict cmd" where
  "single_goal env command =
     thenC (requireC ''navigation'' ''NAVIGATION_STACK_UNAVAILABLE'' ''navigation adapter is not configured'')
      (let controller = str_or (dget command ''global_controller'') ''theta_star'' in
       thenC (call_opt ''navigation.set_global_controller'' [PStr controller])
      (bindC (liftC (bindE (dsub command ''x'') py_float)) (\<lambda>x.
       bindC (liftC (bindE (dsub command ''y'') py_float)) (\<lambda>y.
       bindC (liftC (bindE (dsub command ''yaw'') py_float)) (\<lambda>yaw.
       let goal = [(''x'', PFloat x), (''y'', PFloat y), (''yaw'', PFloat yaw),
             (''require_yaw'', PBool (truthy (dget_def_val command ''require_yaw'' (PBool True)))), (''global_controller'', PStr controller)] in
       thenC (bindC (hasC ''boundary'') (\<lambda>b. if b then thenC (callC ''boundary.validate_point''
            [PStr (str_or (dget command ''map_id'') []), PFloat x, PFloat y, dget command ''boundary_revision'']) (returnC ()) else returnC ()))
      (thenC (structured ''DEBUG'' ''planner'' ''planner.single_goal_input'' (PDict goal) env)
      (bindC (callC ''navigation.send_waypoints'' [PList [PDict goal]]) (\<lambda>accepted.
       if truthy accepted then returnC [(''accepted'', PBool True), (''goal'', PDict goal)]
       else raiseC (protocol_error ''NAV_GOAL_REJECTED'' ''Nav2 rejected the single-point goal'')))))))))"

definition nav_lock :: string where
  "nav_lock = ''navigation_command_lock''"

definition not_ready_after :: "message_envelope \<Rightarrow> string" where
  "not_ready_after env = ''Nav2 did not become ready after '' @ env_message_type env"

text \<open>\<open>nav.start\<close>, \<open>nav.restart\<close> and \<open>nav.recover\<close> for an adapter without the prepare step.\<close>

definition legacy_lifecycle :: "message_envelope \<Rightarrow> pydict \<Rightarrow> pydict cmd" where
  "legacy_lifecycle env command =
     bindC (callD (''nav_stack.'' @ drop 4 (env_message_type env)) [PDict command]) (\<lambda>result.
       thenC (await_navigation_stack_ready (not_ready_after env)) (returnC result))"

definition restart_unready_localization :: "unit cmd" where
  "restart_unready_localization =
     bindC (hasC ''localization.lio_readiness'') (\<lambda>b. if \<not> b then returnC ()
       else bindC (call_or_empty ''localization.lio_readiness'' []) (\<lambda>reading.
         if truthy (dget reading ''ready'') then returnC () else call_opt ''nav_stack.restart_localization'' []))"

definition prepared_lifecycle :: "message_envelope \<Rightarrow> pydict \<Rightarrow> pydict cmd" where
  "prepared_lifecycle env command =
     thenC (if env_message_type env \<in> {''nav.restart'', ''nav.recover''} then restart_unready_localization else returnC ())
      (bindC (callC ''nav_stack.prepare'' (reason_arg (env_message_type env))) (\<lambda>stack_prepare.
       thenC (require_prepared ''localization.wait_until_prepared'' ''navigation map/safety group did not become prepared'')
      (thenC (set_nav_ready False)
      (bindC (run_navigation_command_localization env command) (\<lambda>localization.
       thenC (requireC ''nav_stack.activate_execution'' ''NAVIGATION_EXECUTION_UNAVAILABLE''
          ''prepared navigation stack cannot activate its execution group'')
      (bindC (callC ''nav_stack.activate_execution'' []) (\<lambda>activation.
       thenC (await_navigation_stack_ready (not_ready_after env))
         (returnC [(''action'', PStr (env_message_type env)), (''stack_prepare'', stack_prepare), (''localization'', PDict localization),
            (''execution_activation'', activation), (''navigation_allowed'', PBool True)]))))))))"

definition stack_lifecycle :: "message_envelope \<Rightarrow> pydict \<Rightarrow> pydict cmd" where
  "stack_lifecycle env command =
     thenC require_nav_stack
       (if env_message_type env \<in> {''nav.start'', ''nav.restart'', ''nav.recover''} then
          bindC (hasC ''nav_stack.prepare'') (\<lambda>p. bindC (hasC ''localization'') (\<lambda>l.
            if \<not> p \<or> \<not> l then legacy_lifecycle env command else prepared_lifecycle env command))
        else if env_message_type env = ''nav.stop'' then
          thenC (call_opt ''nav_stack.deactivate_execution'' [])
           (bindC (callD ''nav_stack.stop'' [PDict command]) (\<lambda>result. thenC (set_nav_ready False) (returnC result)))
        else unsupported env)"

definition nav_busy :: "'a cmd" where
  "nav_busy = raiseC (protocol_error ''NAV_COMMAND_BUSY'' ''another navigation command is still running'')"

definition start_navigation_after_localization :: "pydict cmd" where
  "start_navigation_after_localization =
     thenC require_nav_stack (with_lock nav_lock nav_busy
       (bindC (hasC ''nav_stack.prepare'') (\<lambda>p.
          bindC (if p then bindC (callD ''nav_stack.prepare'' (reason_arg ''initial_pose_bootstrap'')) (\<lambda>r.
                thenC activate_navigation_execution_for_task (returnC r))
              else bindC (callD ''nav_stack.start'' (reason_arg ''initial_pose_bootstrap'')) (\<lambda>r.
                thenC (await_navigation_stack_ready ''Nav2 did not become ready after localization initialization'') (returnC r))) (\<lambda>result.
            returnC (dput result ''ready'' (PBool True))))))"

section \<open>The operator's localization commands\<close>

definition wait_for_initial_pose_subscriber :: "real \<Rightarrow> bool cmd" where
  "wait_for_initial_pose_subscriber timeout =
     bindC (hasC ''localization.wait_for_initial_pose_subscriber'') (\<lambda>b. if \<not> b then returnC True
       else bindC (callC ''localization.wait_for_initial_pose_subscriber'' [PFloat (Fin timeout)]) (\<lambda>v. returnC (truthy v)))"

definition no_subscriber :: "string \<Rightarrow> pyval \<Rightarrow> pyexc" where
  "no_subscriber message details = ProtocolError ''LOCALIZATION_UNAVAILABLE'' message details"

definition ensure_initial_pose_subscriber :: "pydict option cmd" where
  "ensure_initial_pose_subscriber =
     bindC (wait_for_initial_pose_subscriber 1) (\<lambda>present. if present then returnC None
     else bindC (hasC ''nav_stack'') (\<lambda>configured. if \<not> configured
       then raiseC (no_subscriber ''/initialpose has no localization subscriber and the localization stack cannot be started'' PNone)
     else bindC (with_lock nav_lock
         (bindC (wait_for_initial_pose_subscriber 45) (\<lambda>b. if b then returnC None
            else raiseC (no_subscriber ''/initialpose subscriber did not appear while the navigation stack was starting'' PNone)))
         (bindC (wait_for_initial_pose_subscriber 0) (\<lambda>b. if b then returnC None
            else bindC (callD ''nav_stack.restart_localization'' []) (\<lambda>r. returnC (Some r))))) (\<lambda>bootstrap.
       case bootstrap of
         None \<Rightarrow> returnC None
       | Some r \<Rightarrow> bindC (wait_for_initial_pose_subscriber 30) (\<lambda>b. if b then returnC (Some r)
           else raiseC (no_subscriber ''localization was started but /initialpose still has no subscriber''
             (PDict [(''localization_bootstrap'', PDict r)]))))))"

text \<open>The transaction of a paused task: its execution id and the waypoint index to resume from.\<close>

definition pause_active_task_for_operator_localization :: "(string \<times> int) option cmd" where
  "pause_active_task_for_operator_localization =
     bindC taskC (\<lambda>c. case c of
         None \<Rightarrow> returnC None
       | Some v \<Rightarrow> if tv_state v \<noteq> ''running'' \<or> tv_execution_id v = [] then returnC None
           else bindC (callD ''task.pause_task'' [PStr (tv_execution_id v)]) (\<lambda>paused.
             thenC (call_opt ''nav_stack.deactivate_execution'' [])
            (thenC (set_nav_ready False)
             (bindC (liftC (py_int (dget_def_val paused ''resume_from_waypoint_index'' (PInt 0)))) (\<lambda>i.
                returnC (Some (tv_execution_id v, i)))))))"

definition resume_task_after_operator_localization :: "(string \<times> int) option \<Rightarrow> pyval cmd" where
  "resume_task_after_operator_localization transaction =
     (case transaction of
        None \<Rightarrow> returnC PNone
      | Some (eid, i) \<Rightarrow> thenC activate_navigation_execution_for_task (callC ''task.resume_task'' [PStr eid, PInt i]))"

text \<open>The search: \<open>progressive_relocalize\<close> with the trusted RTK evidence in the result when the adapter was asked for it.\<close>

definition progressive_search :: "pydict \<Rightarrow> pyval \<Rightarrow> pyval list \<Rightarrow> pydict cmd" where
  "progressive_search command origin wps =
     bindC (trusted_rtk_seed_for_command command) (\<lambda>seed.
     bindC (liftC (py_float (dget_def_val command ''wait_seconds'' (PFloat (Fin 180))))) (\<lambda>wait.
     bindC (callD ''localization.progressive_relocalize'' [origin, PList wps, evidence_value (fst seed), PFloat wait]) (\<lambda>result.
       returnC (case snd seed of None \<Rightarrow> result | Some e \<Rightarrow> dput result ''trusted_rtk_seed'' (PDict e)))))"

definition pose_fields :: "pydict \<Rightarrow> pydict" where
  "pose_fields pose = map (\<lambda>k. (k, dget pose k)) (filter (\<lambda>k. dget pose k \<noteq> PNone) [''x'', ''y'', ''z'', ''yaw''])"

definition initial_pose_search :: "pydict \<Rightarrow> pydict cmd" where
  "initial_pose_search command =
     bindC command_mapping_origin (\<lambda>origin.
     bindC (liftC (list_or_empty (dget command ''waypoints''))) (\<lambda>wps.
     bindC (if str_or (dget command ''seed_source'') [] \<noteq> ''rtk''
         then bindC (resolve_localization_seed command) (\<lambda>pose. returnC (PDict (pose_fields pose) # wps))
         else returnC wps) (\<lambda>wps'.
       progressive_search command origin wps')))"

definition manual_seed :: "pydict \<Rightarrow> pyval pyres" where
  "manual_seed command =
     (if \<not> has_pose command then Inr PNone
      else bindE (py_float (dget command ''x'')) (\<lambda>x. bindE (py_float (dget command ''y'')) (\<lambda>y.
        bindE (py_float (dget_def_val command ''z'' (PFloat (Fin 0)))) (\<lambda>z. bindE (py_float (dget command ''yaw'')) (\<lambda>yaw.
          Inr (PDict [(''x'', PFloat x), (''y'', PFloat y), (''z'', PFloat z), (''yaw'', PFloat yaw)]))))))"

definition quick_search :: "pydict \<Rightarrow> pydict cmd" where
  "quick_search command =
     bindC command_mapping_origin (\<lambda>origin.
     bindC (liftC (manual_seed command)) (\<lambda>seed.
     bindC (liftC (py_float (dget_def_val command ''wait_seconds'' (PFloat (Fin 120))))) (\<lambda>wait.
       callD ''localization.quick_then_global_relocalize'' [origin, seed, PStr (str_or (dget command ''scene_scope'') ''indoor''),
         PStr (str_or (dget command ''coordinate_mode'') ''local_only''), PFloat wait])))"

definition relocalize_search :: "pydict \<Rightarrow> pydict cmd" where
  "relocalize_search command =
     (let source = str_or (dget command ''seed_source'') ''last_trusted'' in
      if source = ''progressive'' then
        bindC command_mapping_origin (\<lambda>origin. bindC (liftC (list_or_empty (dget command ''waypoints''))) (\<lambda>wps.
          progressive_search command origin wps))
      else if source \<in> {''global'', ''quick_then_global''} then quick_search command
      else bindC (resolve_localization_seed command) (\<lambda>seed. callD ''localization.active_relocalize'' [PDict seed]))"

text \<open>The correction after the search. The time stamps of a finished transaction are read once, when it ends.\<close>

fun operator_correction_loop :: "nat \<Rightarrow> string \<Rightarrow> pydict \<Rightarrow> pydict option cmd" where
  "operator_correction_loop 0 transaction_id secondary = returnC None"
| "operator_correction_loop (Suc n) transaction_id secondary =
     bindC (callC ''localization.localization_decision'' []) (\<lambda>decision.
       case one_shot_of transaction_id decision of
         None \<Rightarrow> operator_correction_loop n transaction_id secondary
       | Some o1 \<Rightarrow>
           if str_or (dget o1 ''status'') [] \<in> set (''completed'' # final_statuses)
           then bindC isoC (\<lambda>now. returnC (Some (dput (dmerge secondary o1) ''finished_at'' (PStr now))))
           else operator_correction_loop n transaction_id secondary)"

definition operator_correction_wait :: "string \<Rightarrow> string \<Rightarrow> pydict \<Rightarrow> pydict cmd" where
  "operator_correction_wait transaction_id mode secondary =
     bindC roundsC (\<lambda>n. bindC (operator_correction_loop n transaction_id secondary) (\<lambda>r.
     bindC (case r of
         Some terminal \<Rightarrow> returnC terminal
       | None \<Rightarrow> thenC (call_quietly ''localization.control_localization_correction'' [PStr transaction_id, PStr mode, PStr ''cancel''])
           (bindC isoC (\<lambda>t. returnC (timed_out_correction secondary t)))) (\<lambda>final.
       if str_or (dget final ''status'') [] \<in> {''completed'', ''skipped''} then returnC final
       else raiseC (correction_failed mode final))))"

definition operator_correction :: "message_envelope \<Rightarrow> pydict \<Rightarrow> pydict \<Rightarrow> pydict cmd" where
  "operator_correction env command result =
     bindC (hasC ''localization.control_localization_correction'') (\<lambda>b. if \<not> b then returnC result
       else
         let mode = correction_mode (lower (strip (str_or (dget command ''localization_mode'') ''ndt'')));
             transaction_id = env_message_type env @ '':'' @ env_message_id env @ '':secondary:'' @ mode in
         bindC isoC (\<lambda>started.
         bindC (call_or_empty ''localization.control_localization_correction'' [PStr transaction_id, PStr mode, PStr ''start'']) (\<lambda>reply.
           let secondary = dmerge reply [(''mode'', PStr mode), (''transaction_id'', PStr transaction_id), (''started_at'', PStr started)] in
           bindC (hasC ''localization.localization_decision'') (\<lambda>reader.
           bindC (if \<not> truthy (dget secondary ''accepted'') then
               (if mode = ''ndt'' \<and> str_or (dget secondary ''status'') [] = ''unavailable''
                then bindC isoC (\<lambda>t. returnC (dmerge secondary [(''status'', PStr ''skipped''), (''finished_at'', PStr t)]))
                else raiseC (ProtocolError ''LOCALIZATION_SECONDARY_CORRECTION_REJECTED''
                  (py_str (py_or (py_or (dget secondary ''message'') (dget secondary ''status'')) (PStr ''secondary correction rejected'')))
                  (PDict [(''secondary_correction'', PDict secondary)])))
             else if reader then operator_correction_wait transaction_id mode secondary
             else bindC isoC (\<lambda>t. raiseC (ProtocolError ''LOCALIZATION_SECONDARY_CORRECTION_UNVERIFIABLE''
               ''secondary correction was accepted but no decision reader is available''
               (PDict [(''secondary_correction'', PDict (dmerge secondary [(''status'', PStr ''unverifiable''), (''finished_at'', PStr t)]))])))) (\<lambda>final.
             returnC (dput result ''secondary_correction'' (PDict final)))))))"

definition identify_map :: "pydict \<Rightarrow> pydict \<Rightarrow> pydict pyres" where
  "identify_map command result =
     bindE (as_dict (dget command ''route_snapshot'')) (\<lambda>route. bindE (as_dict (dget route ''map'')) (\<lambda>route_map.
       Inr (dput_missing (dput_missing result ''map_id'' (py_or (dget command ''map_id'') (dget route_map ''map_id'')))
         ''map_version'' (py_or (dget command ''map_version'') (dget route_map ''map_version'')))))"

text \<open>A failed start of the navigation keeps the completed localization in the details of its error.\<close>

definition navigation_start_failed :: "pydict \<Rightarrow> string \<Rightarrow> pyexc \<Rightarrow> pydict cmd" where
  "navigation_start_failed result started x =
     (case x of
        ProtocolError code message details \<Rightarrow> bindC isoC (\<lambda>t. bindC (liftC (as_dict details)) (\<lambda>inner.
          raiseC (ProtocolError code message (PDict (dmerge result
            [(''localization_attempts'', case dget result ''localization_attempts'' of PDict d \<Rightarrow> PDict d
                | _ \<Rightarrow> PDict (dput result ''state'' (PStr ''accepted''))),
             (''navigation_start'', PDict [(''status'', PStr ''failed''), (''started_at'', PStr started), (''finished_at'', PStr t),
                (''error_code'', PStr code), (''error_message'', PStr message), (''details'', PDict inner)])])))))
      | _ \<Rightarrow> raiseC x)"

definition stamped :: "pydict \<Rightarrow> string \<Rightarrow> pydict cmd" where
  "stamped d started = bindC (if truthy (dget d ''finished_at'') then returnC (dget d ''finished_at'') else bindC isoC (\<lambda>t. returnC (PStr t))) (\<lambda>fin.
     returnC (dmerge d [(''started_at'', py_or (dget d ''started_at'') (PStr started)), (''finished_at'', fin)]))"

definition start_after_operator_localization :: "message_envelope \<Rightarrow> string \<Rightarrow> pydict \<Rightarrow> pydict cmd" where
  "start_after_operator_localization env started_at result =
     bindC isoC (\<lambda>t. bindC (exceptC start_navigation_after_localization (navigation_start_failed result t)) (\<lambda>nav.
     bindC (stamped nav t) (\<lambda>nav'.
       let result' = dput result ''navigation_start'' (PDict nav') in
       thenC (emit_command_progress env started_at result') (returnC result'))))"

definition starts_navigation :: "message_envelope \<Rightarrow> pydict \<Rightarrow> bool \<Rightarrow> bool \<Rightarrow> bool" where
  "starts_navigation env command stack bootstrapped =
     (env_message_type env = ''nav.relocalize'' \<and> stack \<or> bootstrapped
      \<or> truthy (dget_def_val command ''start_navigation'' (PBool (env_message_type env = ''nav.relocalize''
           \<and> str_or (dget command ''seed_source'') [] \<in> {''progressive'', ''quick_then_global''}))))"

definition localization_area :: "message_envelope \<Rightarrow> string" where
  "localization_area env = (if env_message_type env = ''nav.relocalize'' then ''relocalization'' else ''localization'')"

text \<open>The body of the \<open>try\<close> after the operator scope has begun.\<close>

definition operator_localization :: "message_envelope \<Rightarrow> string \<Rightarrow> pydict \<Rightarrow> pydict cmd" where
  "operator_localization env started_at command =
     bindC pause_active_task_for_operator_localization (\<lambda>paused.
     thenC (set_progress callback)
    (bindC isoC (\<lambda>t.
     bindC ensure_initial_pose_subscriber (\<lambda>boot.
     bindC (case boot of None \<Rightarrow> returnC None | Some b \<Rightarrow> bindC (stamped b t) (\<lambda>b'. returnC (Some b'))) (\<lambda>bootstrap.
     bindC (if env_message_type env = ''nav.initial_pose'' then initial_pose_search command else relocalize_search command) (\<lambda>found.
     bindC (operator_correction env command found) (\<lambda>corrected.
     bindC (liftC (identify_map command corrected)) (\<lambda>named.
     let result = (case bootstrap of None \<Rightarrow> named | Some b \<Rightarrow> dput named ''localization_bootstrap'' (PDict b)) in
     bindC (hasC ''nav_stack'') (\<lambda>stack.
     bindC (if starts_navigation env command stack (bootstrap \<noteq> None) then start_after_operator_localization env started_at result
         else returnC result) (\<lambda>result'.
     bindC (resume_task_after_operator_localization paused) (\<lambda>resumed.
     let result'' = (if resumed = PNone then result' else dput result' ''task_resume'' resumed) in
     thenC (structured ''DEBUG'' (localization_area env) (env_message_type env @ ''.output'') (PDict result'') env)
       (returnC result''))))))))))))"

definition operator_cleanup :: "bool \<Rightarrow> unit cmd" where
  "operator_cleanup started = finallyC (set_progress PNone)
     (if started then call_opt ''localization.end_operator_localization'' [] else returnC ())"

definition len_of :: "pyval \<Rightarrow> int pyres" where
  "len_of v = bindE (list_or_empty v) (\<lambda>xs. Inr (int (length xs)))"

text \<open>The log entry of the input (its data are built whether or not a log is configured) and the operator scope: whether
  it has begun decides the clean-up.\<close>

definition begin_operator_scope :: "message_envelope \<Rightarrow> pydict \<Rightarrow> bool cmd" where
  "begin_operator_scope env command =
     bindC (liftC (len_of (dget command ''waypoints''))) (\<lambda>n.
     thenC (structured ''DEBUG'' (localization_area env) (env_message_type env @ ''.input'')
        (PDict [(''seed_source'', dget command ''seed_source''), (''wait_seconds'', dget command ''wait_seconds''),
           (''candidate_waypoint_count'', PInt n), (''coordinate_mode'', dget command ''coordinate_mode''),
           (''scene_scope'', dget command ''scene_scope''), (''localization_mode'', dget command ''localization_mode'')]) env)
      (bindC (hasC ''localization.begin_operator_localization'') (\<lambda>b.
        if b then thenC (callC ''localization.begin_operator_localization'' []) (returnC True) else returnC False)))"

definition pose_command :: "message_envelope \<Rightarrow> string \<Rightarrow> pydict \<Rightarrow> pydict cmd" where
  "pose_command env started_at command =
     thenC (requireC ''localization'' ''LOCALIZATION_UNAVAILABLE'' ''localization adapter is not configured'')
      (with_lock ''localization_command_lock''
        (raiseC (protocol_error ''LOCALIZATION_COMMAND_BUSY'' ''another operator localization command is still running''))
        (bindC (exceptC (begin_operator_scope env command) (\<lambda>x. finallyC (raiseC x) (operator_cleanup False))) (\<lambda>started.
           finallyC (operator_localization env started_at command) (operator_cleanup started))))"

definition execute_navigation :: "message_envelope \<Rightarrow> string \<Rightarrow> pydict option cmd" where
  "execute_navigation env started_at =
     bindC (env_command_or_error env) (\<lambda>command. answered env started_at
       (if env_message_type env = ''nav.single_goal'' then single_goal env command
        else if env_message_type env = ''nav.status'' then thenC require_nav_stack (callD ''nav_stack.status'' [])
        else if env_message_type env \<in> {''nav.initial_pose'', ''nav.relocalize''} then pose_command env started_at command
        else with_lock nav_lock nav_busy (stack_lifecycle env command)))"

section \<open>Events and frames\<close>

context event_policy
begin

lemma keeps_set_progress [cmd_rules]: "keeps (frame P s0) (set_progress v)"
  unfolding set_progress_def by (intro cmd_rules; simp)

lemma keeps_boundary_apply [cmd_rules]: "keeps (frame P s0) (boundary_apply command)"
  unfolding boundary_apply_def by (intro cmd_rules; simp)

lemma keeps_stop_for_activation [cmd_rules]: "keeps (frame P s0) (stop_for_activation)"
  unfolding stop_for_activation_def by (intro cmd_rules; simp)

lemma keeps_reload_active_map [cmd_rules]: "keeps (frame P s0) (reload_active_map result)"
  unfolding reload_active_map_def by (intro cmd_rules; simp)

lemma keeps_require_idle [cmd_rules]: "keeps (frame P s0) (require_idle message)"
  unfolding require_idle_def by (intro cmd_rules; simp)

lemma keeps_undo_activation [cmd_rules]: "keeps (frame P s0) (undo_activation x)"
  unfolding undo_activation_def by (intro cmd_rules; simp)

lemma keeps_map_optimize [cmd_rules]: "keeps (frame P s0) (map_optimize command)"
  unfolding map_optimize_def by (intro cmd_rules; simp)

lemma keeps_single_goal [cmd_rules]: "keeps (frame P s0) (single_goal env command)"
  unfolding single_goal_def by (intro cmd_rules; simp)

lemma keeps_restart_unready_localization [cmd_rules]: "keeps (frame P s0) (restart_unready_localization)"
  unfolding restart_unready_localization_def by (intro cmd_rules; simp)

lemma keeps_nav_busy [cmd_rules]: "keeps (frame P s0) (nav_busy)"
  unfolding nav_busy_def by (intro cmd_rules; simp)

lemma keeps_wait_for_initial_pose_subscriber [cmd_rules]: "keeps (frame P s0) (wait_for_initial_pose_subscriber timeout)"
  unfolding wait_for_initial_pose_subscriber_def by (intro cmd_rules; simp)

lemma keeps_ensure_initial_pose_subscriber [cmd_rules]: "keeps (frame P s0) (ensure_initial_pose_subscriber)"
  unfolding ensure_initial_pose_subscriber_def by (intro cmd_rules; simp)

lemma keeps_pause_active_task_for_operator_localization [cmd_rules]: "keeps (frame P s0) (pause_active_task_for_operator_localization)"
  unfolding pause_active_task_for_operator_localization_def by (intro cmd_rules; simp)

lemma keeps_progressive_search [cmd_rules]: "keeps (frame P s0) (progressive_search command origin wps)"
  unfolding progressive_search_def by (intro cmd_rules; simp)

lemma keeps_initial_pose_search [cmd_rules]: "keeps (frame P s0) (initial_pose_search command)"
  unfolding initial_pose_search_def by (intro cmd_rules; simp)

lemma keeps_quick_search [cmd_rules]: "keeps (frame P s0) (quick_search command)"
  unfolding quick_search_def by (intro cmd_rules; simp)

lemma keeps_relocalize_search [cmd_rules]: "keeps (frame P s0) (relocalize_search command)"
  unfolding relocalize_search_def by (intro cmd_rules; simp)

lemma keeps_operator_correction_loop [cmd_rules]: "keeps (frame P s0) (operator_correction_loop n transaction_id secondary)"
  by (induction n) (simp_all, (intro cmd_rules; simp)+)


lemma keeps_operator_correction_wait [cmd_rules]: "keeps (frame P s0) (operator_correction_wait transaction_id mode secondary)"
  unfolding operator_correction_wait_def by (intro cmd_rules; simp)

lemma keeps_operator_correction [cmd_rules]: "keeps (frame P s0) (operator_correction env command result)"
  unfolding operator_correction_def by (intro cmd_rules; simp)

lemma keeps_navigation_start_failed [cmd_rules]: "keeps (frame P s0) (navigation_start_failed result started x)"
  unfolding navigation_start_failed_def by (intro cmd_rules; simp)

lemma keeps_stamped [cmd_rules]: "keeps (frame P s0) (stamped d started)"
  unfolding stamped_def by (intro cmd_rules; simp)

lemma keeps_operator_cleanup [cmd_rules]: "keeps (frame P s0) (operator_cleanup started)"
  unfolding operator_cleanup_def by (intro cmd_rules; simp)

lemma keeps_begin_operator_scope [cmd_rules]: "keeps (frame P s0) (begin_operator_scope env command)"
  unfolding begin_operator_scope_def by (intro cmd_rules; simp)

end

context call_policy
begin

lemma keeps_localize_activated_map [cmd_rules]: "keeps (frame P s0) (localize_activated_map env started_at localization_command result)"
  unfolding localize_activated_map_def by (intro cmd_rules; simp)

lemma keeps_map_activate [cmd_rules]: "keeps (frame P s0) (map_activate env started_at command)"
  unfolding map_activate_def by (intro cmd_rules; simp)

lemma keeps_execute_map [cmd_rules]: "keeps (frame P s0) (execute_map env started_at)"
  unfolding execute_map_def by (intro cmd_rules; simp)

lemma keeps_legacy_lifecycle [cmd_rules]: "keeps (frame P s0) (legacy_lifecycle env command)"
  unfolding legacy_lifecycle_def by (intro cmd_rules; simp)

lemma keeps_prepared_lifecycle [cmd_rules]: "keeps (frame P s0) (prepared_lifecycle env command)"
  unfolding prepared_lifecycle_def by (intro cmd_rules; simp)

lemma keeps_stack_lifecycle [cmd_rules]: "keeps (frame P s0) (stack_lifecycle env command)"
  unfolding stack_lifecycle_def by (intro cmd_rules; simp)

lemma keeps_start_navigation_after_localization [cmd_rules]: "keeps (frame P s0) (start_navigation_after_localization)"
  unfolding start_navigation_after_localization_def by (intro cmd_rules; simp)

lemma keeps_resume_task_after_operator_localization [cmd_rules]: "keeps (frame P s0) (resume_task_after_operator_localization transaction)"
  unfolding resume_task_after_operator_localization_def by (intro cmd_rules; simp)

lemma keeps_start_after_operator_localization [cmd_rules]: "keeps (frame P s0) (start_after_operator_localization env started_at result)"
  unfolding start_after_operator_localization_def by (intro cmd_rules; simp)

lemma keeps_operator_localization [cmd_rules]: "keeps (frame P s0) (operator_localization env started_at command)"
  unfolding operator_localization_def by (intro cmd_rules; simp)

lemma keeps_pose_command [cmd_rules]: "keeps (frame P s0) (pose_command env started_at command)"
  unfolding pose_command_def by (intro cmd_rules; simp)

lemma keeps_execute_navigation [cmd_rules]: "keeps (frame P s0) (execute_navigation env started_at)"
  unfolding execute_navigation_def by (intro cmd_rules; simp)

end

end
