(* ===== verification/CommandProcessor.thy ===== *)
theory CommandProcessor
  imports CommandNav
begin

text \<open>
  The command processor (\<open>edge-agent/roamerx_edge/command_processor.py\<close>): the controls of a task, the dispatch \<open>execute\<close>,
  and \<open>handle_command\<close>, which every command goes through. A command is decoded; a known command id is answered from the
  store; otherwise its expiry and the expected state are checked, a \<open>task.start\<close> passes its whole admission, the
  acceptance is saved and published, the command is executed, and the outcome is saved and published.
\<close>

section \<open>Task controls\<close>

text \<open>\<open>self.task_executor.context.state\<close>.\<close>

definition task_context_now :: "task_view cmd" where
  "task_context_now = bindC taskC (\<lambda>c. case c of None \<Rightarrow> raiseC AttributeError | Some v \<Rightarrow> returnC v)"

definition int_or_zero :: "pyval \<Rightarrow> int cmd" where
  "int_or_zero v = liftC (py_int (py_or v (PInt 0)))"

definition recovery_interlocks :: "safety_config \<Rightarrow> safety_state \<Rightarrow> unit pyres" where
  "recovery_interlocks cfg st = seqE
     [raise_if (ss_emergency_stop st) (protocol_error ''EMERGENCY_STOP_ACTIVE'' ''emergency stop is active''),
      raise_if (ss_control_mode st = ''manual_takeover'') (protocol_error ''MANUAL_TAKEOVER_ACTIVE'' ''manual takeover is active''),
      raise_if (low_battery cfg st) (protocol_error ''LOW_BATTERY'' (battery_text st))]"

text \<open>After a failed arrival the current pose has to be inside the boundary.\<close>

definition recovery_pose_check :: "pydict \<Rightarrow> unit cmd" where
  "recovery_pose_check command =
     bindC (hasC ''boundary'') (\<lambda>b.
       if str_or (dget command ''trigger_reason_code'') [] \<noteq> ''ARRIVAL_POSE_CONVERGENCE_FAILED'' \<or> \<not> b then returnC ()
       else bindC (callC ''navigation.latest_pose'' []) (\<lambda>pose.
         if pose = PNone then raiseC (protocol_error ''LOCALIZATION_NOT_READY'' ''current pose is unavailable'')
         else bindC task_context_now (\<lambda>v. bindC safetyC (\<lambda>st.
           bindC (liftC (bindE (py_get pose ''x'') py_float)) (\<lambda>x. bindC (liftC (bindE (py_get pose ''y'') py_float)) (\<lambda>y.
             thenC (callC ''boundary.validate_point'' [PStr (ss_current_map_id st), PFloat x, PFloat y, tv_boundary_revision v]) (returnC ())))))))"

definition task_recover :: "pyval \<Rightarrow> pydict \<Rightarrow> pydict cmd" where
  "task_recover execution_id command =
     bindC configC (\<lambda>cfg. bindC safetyC (\<lambda>st.
     thenC (liftC (recovery_interlocks cfg st))
    (bindC task_context_now (\<lambda>v. thenC (liftC (validate_resume (tv_state v)))
    (bindC safetyC (\<lambda>st'.
     thenC (whenC (\<not> ss_nav_ready st') (seqC
       [require_nav_stack,
        bindC (int_or_zero (dget command ''attempt'')) (\<lambda>n.
          thenC (callC ''nav_stack.recover'' [PDict [(''reason'', PStr ''center_loop_recovery''), (''attempt'', PInt n)]]) (returnC ())),
        await_navigation_stack_ready ''Nav2 did not become ready during task recovery'']))
    (thenC (recovery_pose_check command)
     (bindC (int_or_zero (dget command ''attempt'')) (\<lambda>n.
        callD ''task.recover_task'' [execution_id, PStr (str_or (dget command ''trigger_reason_code'') []),
          PStr (str_or (dget command ''recovery_episode_id'') []), PInt n])))))))))"

text \<open>\<open>envelope.payload["command"].get("resume_from_waypoint_index", -1)\<close>.\<close>

definition resume_index :: "message_envelope \<Rightarrow> int pyres" where
  "resume_index env = bindE (dsub (env_payload env) ''command'') (\<lambda>c.
     case c of PDict d \<Rightarrow> py_int (dget_def_val d ''resume_from_waypoint_index'' (PInt (- 1))) | _ \<Rightarrow> Inl AttributeError)"

definition task_control :: "message_envelope \<Rightarrow> pyval \<Rightarrow> pydict cmd" where
  "task_control env execution_id =
     bindC taskC (\<lambda>c.
       if c = None then raiseC (protocol_error ''TASK_CONTEXT_MISMATCH'' ''no active task context'')
       else if env_message_type env = ''task.pause'' then bindC task_context_now (\<lambda>v.
         thenC (liftC (validate_pause (tv_state v))) (callD ''task.pause_task'' [execution_id]))
       else if env_message_type env = ''task.resume'' then bindC task_context_now (\<lambda>v.
         thenC (liftC (validate_resume (tv_state v))) (bindC (liftC (resume_index env)) (\<lambda>i.
           callD ''task.resume_task'' [execution_id, PInt i])))
       else if env_message_type env = ''task.resume_forward'' then callD ''task.resume_forward'' [execution_id]
       else if env_message_type env = ''task.recover.v1'' then bindC (env_command_or_error env) (task_recover execution_id)
       else bindC task_context_now (\<lambda>v. thenC (liftC (validate_cancel (tv_state v))) (callD ''task.cancel_task'' [execution_id])))"

definition log_config :: "message_envelope \<Rightarrow> string \<Rightarrow> pydict option cmd" where
  "log_config env started_at =
     thenC (requireC ''structured_logs'' ''STRUCTURED_LOGS_UNAVAILABLE'' ''structured logging is not configured'')
      (bindC (env_command_or_error env) (\<lambda>command.
       bindC (callD ''structured_logs.configure_debug'' [dget_def_val command ''enabled'' (PBool False), dget command ''modules'',
          dget_def_val command ''sample_hz'' (PFloat (Fin 1)), dget command ''expires_at'']) (\<lambda>result.
       thenC (structured ''INFO'' ''system'' ''debug.configuration_applied'' (PDict result) env)
        (thenC (callC ''structured_logs.flush'' []) (answered env started_at (returnC result))))))"

definition execute :: "message_envelope \<Rightarrow> string \<Rightarrow> pydict option cmd" where
  "execute env started_at =
     (let t = env_message_type env in
      if t = ''task.start'' then raiseC (protocol_error ''INVALID_COMMAND_FLOW'' ''task.start must be prepared before acknowledgement'')
      else if take 8 t = ''mapping.'' then execute_mapping env started_at
      else if take 4 t = ''map.'' then execute_map env started_at
      else if t = ''diagnostics.nav_rosbag_stop'' then bindC (env_command_or_error env) (\<lambda>command.
        answered env started_at (callD ''task.stop_loop_rosbag'' [dget command ''loop_session_id'']))
      else if t = ''diagnostics.log_config'' then log_config env started_at
      else if take 4 t = ''nav.'' then execute_navigation env started_at
      else if take 7 t = ''teleop.'' then execute_teleop env started_at
      else if take 7 t = ''sensor.'' then execute_sensor env started_at
      else if take 7 t = ''charge.'' then execute_charge env started_at
      else if take 7 t = ''motion.'' then execute_motion_control env started_at
      else if take 6 t = ''audio.'' then execute_audio env started_at
      else bindC (liftC (dsub (env_payload env) ''task_execution_id'')) (\<lambda>execution_id.
        if t = ''task.force_exit'' then answered env started_at (callD ''task.force_exit'' [execution_id])
        else answered env started_at (task_control env execution_id)))"

section \<open>The checks before the acceptance\<close>

definition expired :: "pyval \<Rightarrow> int \<Rightarrow> bool pyres" where
  "expired v now =
     (case v of
        PStr s \<Rightarrow> (case fromisoformat (replace_Z s) of
            None \<Rightarrow> Inl ValueError
          | Some t \<Rightarrow> if dt_offset t = None then Inl TypeError else Inr (dt_instant t \<le> now))
      | _ \<Rightarrow> Inl AttributeError)"

definition check_expiry :: "message_envelope \<Rightarrow> unit cmd" where
  "check_expiry env = bindC utcnowC (\<lambda>now. bindC (liftC (bindE (dsub (env_payload env) ''expires_at'') (\<lambda>v. expired v now))) (\<lambda>late.
     if late then raiseC (protocol_error ''COMMAND_EXPIRED'' ''command has expired'') else returnC ()))"

definition unversioned_types :: "string list" where
  "unversioned_types = [''task.pause'', ''task.resume'', ''task.force_exit'', ''task.recover.v1'']"

definition validate_expected_state :: "message_envelope \<Rightarrow> unit cmd" where
  "validate_expected_state env =
     (let expected = dget (env_payload env) ''expected_robot_state_version'' in
      if env_message_type env \<in> set unversioned_types \<or> expected = PNone then returnC ()
      else bindC state_version (\<lambda>current. bindC (liftC (py_int expected)) (\<lambda>n.
        if n < current then raiseC (protocol_error ''STALE_ROBOT_STATE''
          (''expected='' @ py_str expected @ '', current='' @ show_int current)) else returnC ())))"

text \<open>A map that is no dictionary has the error of \<open>get\<close> here, whatever \<open>dict\<close> raises for it.\<close>

definition prepare_docking_map :: "pydict \<Rightarrow> unit cmd" where
  "prepare_docking_map command =
     bindC (hasC ''map_activation'') (\<lambda>m. bindC (hasC ''nav_stack'') (\<lambda>n.
       if \<not> m \<or> \<not> n then raiseC (protocol_error ''DOCKING_UNAVAILABLE'' ''map activation or navigation stack is unavailable'')
       else bindC (liftC (as_dict (dget command ''map''))) (\<lambda>given.
         let payload = dput_missing given ''map_name'' (dget_def_val given ''map_version'' (PStr [])) in
         if \<not> truthy (dget payload ''map_id'') \<or> \<not> truthy (dget payload ''map_version'')
         then raiseC (protocol_error ''DOCKING_MAP_INVALID'' ''docking task has no map identity'')
         else thenC (callD ''map_activation.activate'' [PDict payload])
          (thenC (bindC (hasC ''boundary'') (\<lambda>b. if b
              then thenC (callC ''boundary.activate_map'' [dget payload ''map_id'', dget payload ''map_version'']) (returnC ()) else returnC ()))
          (thenC (callC ''nav_stack.switch_map'' [])
           (bindC (callC ''navigation.wait_until_ready'' [PFloat (Fin 45)]) (\<lambda>ready. thenC telemetryC
              (if truthy ready then returnC ()
               else raiseC (protocol_error ''NAV_STACK_NOT_READY'' ''Nav2 did not become active after switching the docking map''))))))))) "

definition route_of :: "message_envelope \<Rightarrow> pydict pyres" where
  "route_of env =
     bindE (dsub (env_payload env) ''command'') (\<lambda>c. bindE (vsub c ''route_snapshot'') (\<lambda>r.
       case r of PDict route \<Rightarrow> Inr route | _ \<Rightarrow> Inl AttributeError))"

definition route_log_data :: "pydict \<Rightarrow> pydict pyres" where
  "route_log_data route =
     bindE (list_or_empty (dget route ''waypoints'')) (\<lambda>wps.
       Inr [(''route_id'', dget route ''route_id''), (''waypoint_count'', PInt (int (length wps))),
            (''global_controller'', dget route ''global_controller''), (''boundary_revision'', dget route ''boundary_revision''),
            (''first_waypoint'', case wps of [] \<Rightarrow> PNone | p # _ \<Rightarrow> p), (''last_waypoint'', if wps = [] then PNone else last wps)])"

text \<open>The admission of a \<open>task.start\<close>: the stack is prepared, a docking map is activated, the route is checked against the
  boundary, the safety policy is asked, and only then the operator's control is released and the task prepared.\<close>

definition admit_task_start :: "message_envelope \<Rightarrow> unit cmd" where
  "admit_task_start env =
     thenC ensure_navigation_stack_for_task
    (bindC (env_command_or_error env) (\<lambda>command.
     bindC (liftC (as_dict (dget command ''docking''))) (\<lambda>docking.
     thenC (whenC (truthy (dget docking ''enabled'')) (prepare_docking_map command))
    (thenC (bindC (hasC ''boundary'') (\<lambda>b. if \<not> b then returnC ()
        else bindC (liftC (bindE (dsub (env_payload env) ''command'') (\<lambda>c. vsub c ''route_snapshot''))) (\<lambda>route.
          thenC (callC ''boundary.validate_route'' [route]) (returnC ()))))
    (bindC (liftC (bindE (route_of env) route_log_data)) (\<lambda>logged.
     thenC (structured ''DEBUG'' ''planner'' ''planner.route_input'' (PDict logged) env)
    (bindC has_active_task (\<lambda>active.
     bindC (liftC (smart_initialize (env_payload env))) (\<lambda>smart.
     bindC configC (\<lambda>cfg. bindC safetyC (\<lambda>st. bindC clockC (\<lambda>now.
     thenC (liftC (validate_start cfg st now (env_payload env) active True (\<not> smart) (\<not> smart)))
    (thenC release_manual_control_for_task
     (thenC (callC ''task.prepare_task_start'' [PDict (env_payload env)]) (returnC ())))))))))))))))"

section \<open>The start of an accepted task\<close>

definition lifecycle_progress :: "message_envelope \<Rightarrow> string \<Rightarrow> pydict \<Rightarrow> string \<Rightarrow> string \<Rightarrow> pydict \<Rightarrow> unit cmd" where
  "lifecycle_progress env started_at base name status extra =
     emit_command_progress env started_at (dmerge base [(''state'', PStr ''running''), (''selected_stage'', PStr name),
       (''navigation_lifecycle'', PDict ([(''status'', PStr status)] @ extra))])"

definition initialize_accepted_task :: "message_envelope \<Rightarrow> string \<Rightarrow> pydict cmd" where
  "initialize_accepted_task env started_at =
     thenC (set_progress callback)
    (thenC (lifecycle_progress env started_at [] ''fast_lio_readiness'' ''prepared'' [])
    (bindC (liftC (smart_initialize (env_payload env))) (\<lambda>smart.
     bindC (if smart then call_or_empty ''task.initialize_before_navigation'' [] else returnC []) (\<lambda>initialization.
     thenC telemetryC
    (thenC (lifecycle_progress env started_at initialization ''navigation_execution_activate'' ''activating'' [])
    (bindC activate_navigation_execution_for_task (\<lambda>evidence.
     thenC (lifecycle_progress env started_at initialization ''navigation_execution_activate'' ''active'' evidence)
    (bindC configC (\<lambda>cfg. bindC safetyC (\<lambda>st. bindC clockC (\<lambda>now.
     thenC (liftC (validate_navigation_admission cfg st now)) (returnC initialization))))))))))))"

definition start_progress :: "message_envelope \<Rightarrow> string \<Rightarrow> pydict \<Rightarrow> string \<Rightarrow> pydict \<Rightarrow> unit cmd" where
  "start_progress env started_at base state details =
     emit_command_progress env started_at (dmerge base [(''state'', PStr state), (''selected_stage'', PStr ''navigation_start''),
       (''navigation_start'', PDict details)])"

definition exc_code :: "pyexc \<Rightarrow> string" where
  "exc_code x = (case x of ProtocolError code _ _ \<Rightarrow> code | _ \<Rightarrow> [])"

definition launch_accepted_task :: "message_envelope \<Rightarrow> string \<Rightarrow> pydict \<Rightarrow> unit cmd" where
  "launch_accepted_task env started_at initialization =
     bindC isoC (\<lambda>t.
     thenC (start_progress env started_at initialization ''running''
        [(''status'', PStr ''starting''), (''started_at'', PStr t), (''updated_at'', PStr t)])
    (thenC (exceptC (callC ''task.launch_prepared_task'' []) (\<lambda>x. bindC isoC (\<lambda>f.
        thenC (start_progress env started_at [] ''failed'' [(''status'', PStr ''failed''), (''started_at'', PStr t), (''updated_at'', PStr f),
            (''finished_at'', PStr f), (''error_code'', PStr (if exc_code x = [] then ''NAVIGATION_START_FAILED'' else exc_code x)),
            (''error_message'', PStr (exc_text x))])
          (raiseC x))))
     (bindC isoC (\<lambda>f. start_progress env started_at [] ''accepted''
        [(''status'', PStr ''accepted''), (''started_at'', PStr t), (''updated_at'', PStr f), (''finished_at'', PStr f)]))))"

definition start_accepted_task :: "message_envelope \<Rightarrow> string \<Rightarrow> unit cmd" where
  "start_accepted_task env started_at =
     bindC isoC (\<lambda>t.
     thenC (emit_command_progress env started_at [(''state'', PStr ''running''), (''selected_stage'', PStr ''navigation_prepare''),
        (''stages'', PList [PDict [(''stage'', PStr ''navigation_prepare''), (''status'', PStr ''accepted''),
           (''started_at'', PStr started_at), (''finished_at'', PStr t)]]),
        (''navigation_lifecycle'', PDict [(''status'', PStr ''prepared'')])])
    (bindC (finallyC (initialize_accepted_task env started_at) (set_progress PNone)) (\<lambda>initialization.
     launch_accepted_task env started_at initialization)))"

section \<open>handle\_command\<close>

definition save_ack :: "string \<Rightarrow> pyval \<Rightarrow> unit cmd" where
  "save_ack cid ack = thenC (eventC (SavedAck cid ack)) (\<lambda>w s. (Inr (), s\<lparr>cs_store := save_command_ack cid ack (cs_store s)\<rparr>))"

definition save_result :: "string \<Rightarrow> pyval \<Rightarrow> unit cmd" where
  "save_result cid result = thenC (eventC (SavedResult cid result))
     (\<lambda>w s. (Inr (), s\<lparr>cs_store := save_command_result cid result (cs_store s)\<rparr>))"

definition publish_command_ack :: "string \<Rightarrow> pyval \<Rightarrow> unit cmd" where
  "publish_command_ack cid ack = thenC (eventC (PublishedAck cid ack)) (returnC ())"

definition publish_command_result :: "string \<Rightarrow> pyval \<Rightarrow> unit cmd" where
  "publish_command_result cid result = thenC (eventC (PublishedResult cid result)) (returnC ())"

definition answer_duplicate :: "string \<Rightarrow> pyval \<times> pyval option \<Rightarrow> (pyval \<times> pyval option) cmd" where
  "answer_duplicate cid row = seq_valueC
     [whenC (truthy (fst row)) (publish_command_ack cid (fst row)),
      (case snd row of Some r \<Rightarrow> whenC (truthy r) (publish_command_result cid r) | None \<Rightarrow> returnC ())]
     (py_or (fst row) (PDict []), snd row)"

definition ack_message :: "message_envelope \<Rightarrow> bool \<Rightarrow> string \<Rightarrow> string \<Rightarrow> pyval cmd" where
  "ack_message env accepted code message =
     bindC state_version (\<lambda>v. bindC freshC (\<lambda>fr. bindC (liftC (build_ack fr env accepted v code message False)) (\<lambda>m.
       thenC (set_ack (PDict m)) (returnC (PDict m)))))"

definition accept_command :: "message_envelope \<Rightarrow> pyval cmd" where
  "accept_command env =
     bindC (ack_message env True [] []) (\<lambda>ack. seq_valueC [save_ack (cid_of env) ack, publish_command_ack (cid_of env) ack] ack)"

definition checked_command :: "message_envelope \<Rightarrow> unit cmd" where
  "checked_command env = seqC
     [structured ''INFO'' (module_for_command (env_message_type env)) (env_message_type env @ ''.received'') PNone env,
      check_expiry env,
      validate_expected_state env]"

definition process_command :: "message_envelope \<Rightarrow> string \<Rightarrow> (pyval \<times> pyval option) cmd" where
  "process_command env started_at =
     (let start = (env_message_type env = ''task.start'') in
      thenC (checked_command env)
     (thenC (set_prepared start)
     (thenC (whenC start (admit_task_start env))
     (bindC (accept_command env) (\<lambda>ack.
      bindC (if start then thenC (start_accepted_task env started_at) (returnC None) else execute env started_at) (\<lambda>result.
      case result of
        None \<Rightarrow> returnC (ack, None)
      | Some r \<Rightarrow> seq_valueC [save_result (cid_of env) (PDict r), publish_command_result (cid_of env) (PDict r)] (ack, Some (PDict r))))))))"

definition localsC :: "(pyval option \<times> bool option) cmd" where
  "localsC w s = (Inr (cs_ack s, cs_prepared s), s)"

definition force_exit_quietly :: "message_envelope \<Rightarrow> unit cmd" where
  "force_exit_quietly env = exceptC (bindC (liftC (dsub (env_payload env) ''task_execution_id'')) (\<lambda>eid.
     thenC (callC ''task.force_exit'' [eid, PBool False]) (returnC ()))) (\<lambda>_. returnC ())"

definition failed_result :: "message_envelope \<Rightarrow> string \<Rightarrow> pydict \<Rightarrow> string \<Rightarrow> string \<Rightarrow> pyval cmd" where
  "failed_result env started_at details code message =
     bindC (result_message env ''failed'' details started_at code message) (\<lambda>r.
       seq_valueC [save_result (cid_of env) (PDict r), publish_command_result (cid_of env) (PDict r)] (PDict r))"

definition on_protocol_error :: "message_envelope \<Rightarrow> string \<Rightarrow> string \<Rightarrow> string \<Rightarrow> pyval \<Rightarrow> (pyval \<times> pyval option) cmd" where
  "on_protocol_error env started_at code message details =
     bindC localsC (\<lambda>l. thenC (structured (if fst l = None then ''WARNING'' else ''ERROR'') (module_for_command (env_message_type env))
        (env_message_type env @ ''.failed'') (PDict [(''error_code'', PStr code)]) env)
      (case fst l of
         None \<Rightarrow> bindC (ack_message env False code message) (\<lambda>ack.
           seq_valueC [save_ack (cid_of env) ack, publish_command_ack (cid_of env) ack] (ack, None))
       | Some ack \<Rightarrow>
           (case snd l of
              None \<Rightarrow> raiseC UnboundLocalError
            | Some prepared \<Rightarrow> thenC (whenC prepared (force_exit_quietly env))
                (bindC (failed_result env started_at (dict_or_empty details) code message) (\<lambda>r. returnC (ack, Some r))))))"

definition on_unexpected_error :: "message_envelope \<Rightarrow> string \<Rightarrow> pyexc \<Rightarrow> (pyval \<times> pyval option) cmd" where
  "on_unexpected_error env started_at x =
     thenC (structured ''ERROR'' (module_for_command (env_message_type env)) (env_message_type env @ ''.internal_error'')
        (PDict [(''error'', PStr (exc_text x))]) env)
      (bindC localsC (\<lambda>l. case snd l of
         None \<Rightarrow> raiseC UnboundLocalError
       | Some prepared \<Rightarrow> thenC (whenC (prepared \<and> fst l \<noteq> None) (force_exit_quietly env))
           (bindC (failed_result env started_at [] ''INTERNAL_ERROR'' (exc_text x)) (\<lambda>r.
              returnC (case fst l of None \<Rightarrow> PNone | Some ack \<Rightarrow> ack, Some r)))))"

text \<open>The \<open>try\<close> statement for a command that is not known yet.\<close>

definition attempt_command :: "message_envelope \<Rightarrow> string \<Rightarrow> (pyval \<times> pyval option) cmd" where
  "attempt_command env started_at = exceptC (process_command env started_at) (\<lambda>x. case x of
     ProtocolError code message details \<Rightarrow> on_protocol_error env started_at code message details
   | _ \<Rightarrow> on_unexpected_error env started_at x)"

definition handle_envelope :: "string \<Rightarrow> message_envelope \<Rightarrow> (pyval \<times> pyval option) cmd" where
  "handle_envelope robot_id env =
     (if env_robot_id env \<noteq> robot_id then raiseC (protocol_error ''ROBOT_ID_MISMATCH'' ''command robot_id does not match this device'')
      else thenC (liftC (dsub (env_payload env) ''command_id''))
       (bindC storeC (\<lambda>store. case get_processed_command (cid_of env) store of
          Some row \<Rightarrow> answer_duplicate (cid_of env) row
        | None \<Rightarrow> bindC isoC (\<lambda>started_at.
            thenC (\<lambda>w s. (Inr (), s\<lparr>cs_ack := None, cs_prepared := None\<rparr>)) (attempt_command env started_at)))))"

definition handle_command :: "(string \<Rightarrow> pyval option) \<Rightarrow> string \<Rightarrow> raw_message \<Rightarrow> (pyval \<times> pyval option) cmd" where
  "handle_command json_loads robot_id raw = bindC (liftC (decode_message json_loads raw)) (handle_envelope robot_id)"

text \<open>The callback of an asynchronous skill: the outcome's status is the result's status.\<close>

definition complete_skill :: "message_envelope \<Rightarrow> string \<Rightarrow> pydict \<Rightarrow> unit cmd" where
  "complete_skill env started_at outcome =
     (let status = py_str (dget_def_val outcome ''status'' (PStr ''failed'')); rest = AList.delete ''status'' outcome in
      bindC (result_message env status rest started_at (py_str (dget_def_val rest ''error_code'' (PStr [])))
          (py_str (dget_def_val rest ''error_message'' (PStr [])))) (\<lambda>r.
        seqC [save_result (cid_of env) (PDict r), publish_command_result (cid_of env) (PDict r)]))"

section \<open>Events and frames\<close>

context event_policy
begin

lemma keeps_task_context_now [cmd_rules]: "keeps (frame P s0) (task_context_now)"
  unfolding task_context_now_def by (intro cmd_rules; simp)

lemma keeps_int_or_zero [cmd_rules]: "keeps (frame P s0) (int_or_zero v)"
  unfolding int_or_zero_def by (intro cmd_rules; simp)

lemma keeps_recovery_pose_check [cmd_rules]: "keeps (frame P s0) (recovery_pose_check command)"
  unfolding recovery_pose_check_def by (intro cmd_rules; simp)

lemma keeps_task_recover [cmd_rules]: "keeps (frame P s0) (task_recover execution_id command)"
  unfolding task_recover_def by (intro cmd_rules; simp)

lemma keeps_task_control [cmd_rules]: "keeps (frame P s0) (task_control env execution_id)"
  unfolding task_control_def by (intro cmd_rules; simp)

lemma keeps_log_config [cmd_rules]: "keeps (frame P s0) (log_config env started_at)"
  unfolding log_config_def by (intro cmd_rules; simp)

lemma keeps_check_expiry [cmd_rules]: "keeps (frame P s0) (check_expiry env)"
  unfolding check_expiry_def by (intro cmd_rules; simp)

lemma keeps_validate_expected_state [cmd_rules]: "keeps (frame P s0) (validate_expected_state env)"
  unfolding validate_expected_state_def by (intro cmd_rules; simp)

lemma keeps_prepare_docking_map [cmd_rules]: "keeps (frame P s0) (prepare_docking_map command)"
  unfolding prepare_docking_map_def by (intro cmd_rules; simp)

lemma keeps_checked_command [cmd_rules]: "keeps (frame P s0) (checked_command env)"
  unfolding checked_command_def by (intro cmd_rules; simp)

lemma keeps_localsC [cmd_rules]: "keeps (frame P s0) (localsC)"
  by (rule keepsI) (simp add: localsC_def)

end

context drive_policy
begin

lemma keeps_release_manual_control_for_task [cmd_rules]: "keeps (frame P s0) (release_manual_control_for_task)"
  unfolding release_manual_control_for_task_def by (intro cmd_rules; simp)

lemma keeps_admit_task_start [cmd_rules]: "keeps (frame P s0) (admit_task_start env)"
  unfolding admit_task_start_def by (intro cmd_rules; simp)

end

context call_policy
begin

lemma keeps_execute [cmd_rules]: "keeps (frame P s0) (execute env started_at)"
  unfolding execute_def by (intro cmd_rules; simp)

lemma keeps_lifecycle_progress [cmd_rules]: "keeps (frame P s0) (lifecycle_progress env started_at base name status extra)"
  unfolding lifecycle_progress_def by (intro cmd_rules; simp)

lemma keeps_initialize_accepted_task [cmd_rules]: "keeps (frame P s0) (initialize_accepted_task env started_at)"
  unfolding initialize_accepted_task_def by (intro cmd_rules; simp)

lemma keeps_start_progress [cmd_rules]: "keeps (frame P s0) (start_progress env started_at base state details)"
  unfolding start_progress_def by (intro cmd_rules; simp)

lemma keeps_launch_accepted_task [cmd_rules]: "keeps (frame P s0) (launch_accepted_task env started_at initialization)"
  unfolding launch_accepted_task_def by (intro cmd_rules; simp)

lemma keeps_start_accepted_task [cmd_rules]: "keeps (frame P s0) (start_accepted_task env started_at)"
  unfolding start_accepted_task_def by (intro cmd_rules; simp)

lemma keeps_force_exit_quietly [cmd_rules]: "keeps (frame P s0) (force_exit_quietly env)"
  unfolding force_exit_quietly_def by (intro cmd_rules; simp)

end

end
