(* ===== verification/CommandRecord.thy ===== *)
theory CommandRecord
  imports CommandProcessor
begin

text \<open>
  What \<open>handle_command\<close> guarantees about the record of a command: every command that is handled is recorded with its
  acknowledgement and its result, a recorded command is only answered again, and nothing but its own row, the safety state
  and the events of the adapters changes.
\<close>

section \<open>Policies\<close>

text \<open>The events of the handlers: calls and progress messages, never an acknowledgement or a result.\<close>

fun handler_event :: "event \<Rightarrow> bool" where
  "handler_event (Called _ _) = True"
| "handler_event (PublishedProgress _ _) = True"
| "handler_event _ = False"

interpretation handler: call_policy handler_event
  by unfold_locales simp_all

fun log_event :: "event \<Rightarrow> bool" where
  "log_event (Called name args) = (name = ''structured_logs.emit'')"
| "log_event _ = False"

lemma keeps_log_structured: "keeps (frame log_event s0) (structured level area event_code data env)"
  unfolding structured_def callC_def by (intro cmd_rules) simp

lemma keeps_log_checked: "keeps (frame log_event s0) (checked_command env)"
  unfolding checked_command_def check_expiry_def validate_expected_state_def state_version_def
  by (intro cmd_rules keeps_log_structured)

section \<open>The row of a command\<close>

abbreviation row :: "string \<Rightarrow> cmd_state \<Rightarrow> (pyval \<times> pyval option) option" where
  "row cid s \<equiv> get_processed_command cid (cs_store s)"

definition unseen :: "string \<Rightarrow> cmd_state \<Rightarrow> bool" where
  "unseen cid s = (cs_ack s = None \<and> row cid s = None)"

text \<open>Where an exception can leave the row: without an acknowledgement it does not exist; with one it may not be saved
  yet, or it holds that acknowledgement.\<close>

definition recordable :: "string \<Rightarrow> cmd_state \<Rightarrow> bool" where
  "recordable cid s = (case cs_ack s of None \<Rightarrow> row cid s = None | Some a \<Rightarrow> row cid s = None \<or> (\<exists>q. row cid s = Some (a, q)))"

definition acked :: "string \<Rightarrow> pyval \<Rightarrow> cmd_state \<Rightarrow> bool" where
  "acked cid a s = (cs_ack s = Some a \<and> row cid s = Some (a, None))"

lemma stable_row [simp]: "stable P (unseen cid)" "stable P (recordable cid)" "stable P (acked cid a)"
  "stable P (\<lambda>s. row cid s = v)" "stable P (\<lambda>s. cs_ack s = Some a \<and> row cid s = v)" "stable P (\<lambda>_. True)"
  by (auto simp: stable_def frame_def unseen_def recordable_def acked_def split: option.splits)

lemma unseen_recordable: "unseen cid s \<Longrightarrow> recordable cid s"
  by (simp add: unseen_def recordable_def)

lemma acked_recordable: "acked cid a s \<Longrightarrow> recordable cid s"
  by (simp add: acked_def recordable_def)

text \<open>A statement that only produces events of some kind.\<close>

lemma triple_quiet:
  "stable P I \<Longrightarrow> (\<And>s0. keeps (frame P s0) m) \<Longrightarrow> (\<And>s. I s \<Longrightarrow> E s) \<Longrightarrow> triple w I m (\<lambda>_. I) E"
  by (rule triple_conseq [OF triple_frame])

lemma row_save_ack: "row cid s = None \<Longrightarrow> get_processed_command cid (save_command_ack cid a (cs_store s)) = Some (a, None)"
  by (auto simp: get_processed_command_def save_command_ack_def)

lemma row_save_result: "get_processed_command cid (save_command_result cid r (cs_store s))
    = Some (case row cid s of None \<Rightarrow> PNone | Some q \<Rightarrow> fst q, Some r)"
  by (auto simp: get_processed_command_def save_command_result_def split: option.splits)

lemma triple_ack_message:
  assumes "\<And>s. I s \<Longrightarrow> row cid s = None" "stable handler_event I"
  shows "triple w I (ack_message env b code message) (\<lambda>a s. cs_ack s = Some a \<and> row cid s = None) I"
  unfolding ack_message_def
proof (intro triple_bind)
  show "triple w I state_version (\<lambda>_. I) I" "triple w I freshC (\<lambda>_. I) I" "triple w I (liftC m) (\<lambda>_. I) I" for m :: "pydict pyres"
    using assms(2) by (auto intro!: triple_frame handler.keeps_state_version cmd_rules)
  show "triple w I (thenC (set_ack (PDict m)) (returnC (PDict m))) (\<lambda>a s. cs_ack s = Some a \<and> row cid s = None) I" for m
    using assms(1) by (auto simp: triple_def thenC_def bindC_def set_ack_def returnC_def)
qed

text \<open>Saving and publishing, as the handlers do it.\<close>

lemmas saving_defs = seq_valueC_def thenC_def bindC_def save_ack_def save_result_def publish_command_ack_def publish_command_result_def eventC_def returnC_def

lemma triple_answer_ack:
  "triple w (\<lambda>s. cs_ack s = Some a \<and> row cid s = None) (seq_valueC [save_ack cid a, publish_command_ack cid a] v)
     (\<lambda>u s. u = v \<and> acked cid a s) (recordable cid)"
  by (auto simp: triple_def saving_defs acked_def recordable_def row_save_ack split: sum.split)

lemma triple_answer_result:
  "triple w (acked cid a) (seq_valueC [save_result cid r, publish_command_result cid r] v)
     (\<lambda>u s. u = v \<and> row cid s = Some (a, Some r)) (recordable cid)"
  by (auto simp: triple_def saving_defs acked_def recordable_def row_save_result split: sum.split)

text \<open>The row as it is after a failure, with or without a saved acknowledgement.\<close>

definition settled :: "string \<Rightarrow> pyval \<times> pyval option \<Rightarrow> cmd_state \<Rightarrow> bool" where
  "settled cid u s = (\<exists>a. row cid s = Some (a, snd u) \<and> (a = fst u \<or> a = PNone))"

definition unsettled :: "string \<Rightarrow> pyval \<Rightarrow> cmd_state \<Rightarrow> bool" where
  "unsettled cid a s = (row cid s = None \<or> (\<exists>q. row cid s = Some (a, q)))"

lemma triple_answer_failure:
  "triple w (unsettled cid a) (seq_valueC [save_result cid r, publish_command_result cid r] v) (\<lambda>u s. u = v \<and> settled cid (a, Some r) s) (\<lambda>_. True)"
  by (auto simp: triple_def saving_defs row_save_result settled_def unsettled_def split: sum.split)

lemma triple_accept:
  "triple w (unseen cid) (accept_command env) (\<lambda>a. acked cid a) (recordable cid)" if "cid = cid_of env"
  unfolding accept_command_def that [symmetric]
proof (rule triple_bind)
  show "triple w (unseen cid) (ack_message env True [] []) (\<lambda>a s. cs_ack s = Some a \<and> row cid s = None) (recordable cid)"
    by (rule triple_conseq [OF triple_ack_message [of "unseen cid"]]) (auto simp: unseen_recordable, simp add: unseen_def)
  show "triple w (\<lambda>s. cs_ack s = Some a \<and> row cid s = None) (seq_valueC [save_ack cid a, publish_command_ack cid a] a)
      (\<lambda>u. acked cid u) (recordable cid)" for a
    by (rule triple_conseq [OF triple_answer_ack]) auto
qed

lemma triple_process:
  assumes "cid = cid_of env"
  shows "triple w (unseen cid) (process_command env started_at) (\<lambda>u s. row cid s = Some u) (recordable cid)"
  unfolding process_command_def Let_def assms [symmetric]
proof (intro triple_then triple_bind)
  show "triple w (unseen cid) (checked_command env) (\<lambda>_. unseen cid) (recordable cid)"
    by (rule triple_quiet [OF _ handler.keeps_checked_command]) (simp_all add: unseen_recordable)
  show "triple w (unseen cid) (set_prepared b) (\<lambda>_. unseen cid) (recordable cid)" for b
    by (auto simp: triple_def set_prepared_def unseen_def)
  show "triple w (unseen cid) (whenC b (admit_task_start env)) (\<lambda>_. unseen cid) (recordable cid)" for b
    by (rule triple_quiet [of handler_event]) (auto intro!: cmd_rules unseen_recordable)
  show "triple w (unseen cid) (accept_command env) (\<lambda>a. acked cid a) (recordable cid)"
    by (rule triple_accept [OF assms])
  show "triple w (acked cid a)
      (if b then thenC (start_accepted_task env started_at) (returnC None) else execute env started_at) (\<lambda>_. acked cid a) (recordable cid)" for a b
    by (rule triple_quiet [of handler_event]) (auto intro!: cmd_rules acked_recordable)
  show "triple w (acked cid a) (case r of None \<Rightarrow> returnC (a, None)
      | Some m \<Rightarrow> seq_valueC [save_result cid (PDict m), publish_command_result cid (PDict m)] (a, Some (PDict m)))
      (\<lambda>u s. row cid s = Some u) (recordable cid)" for a and r :: "pydict option"
    by (cases r) (auto intro!: triple_return triple_conseq [OF triple_answer_result] simp: acked_def)
qed

section \<open>The exception handlers\<close>

lemma stable_unsettled [simp]: "stable P (unsettled cid a)"
  by (auto simp: stable_def frame_def unsettled_def)

lemma triple_locals: "triple w I localsC (\<lambda>l s. I s \<and> cs_ack s = fst l \<and> cs_prepared s = snd l) E"
  by (simp add: triple_def localsC_def)

lemma triple_failed_result:
  assumes "cid = cid_of env"
  shows "triple w (unsettled cid a) (failed_result env started_at details code message) (\<lambda>r. settled cid (a, Some r)) (\<lambda>_. True)"
  unfolding failed_result_def assms [symmetric]
proof (rule triple_bind)
  show "triple w (unsettled cid a) (result_message env ''failed'' details started_at code message) (\<lambda>_. unsettled cid a) (\<lambda>_. True)"
    by (rule triple_quiet [OF _ handler.keeps_result_message]) simp_all
  show "triple w (unsettled cid a) (seq_valueC [save_result cid (PDict r), publish_command_result cid (PDict r)] (PDict r))
      (\<lambda>r. settled cid (a, Some r)) (\<lambda>_. True)" for r
    by (rule triple_conseq [OF triple_answer_failure]) auto
qed

text \<open>The end of both handlers.\<close>

lemma triple_fail:
  assumes "cid = cid_of env"
  shows "triple w (unsettled cid a) (thenC (whenC b (force_exit_quietly env))
     (bindC (failed_result env started_at details code message) (\<lambda>r. returnC (a, Some r)))) (settled cid) (\<lambda>_. True)"
proof (intro triple_then triple_bind)
  show "triple w (unsettled cid a) (whenC b (force_exit_quietly env)) (\<lambda>_. unsettled cid a) (\<lambda>_. True)"
    by (rule triple_quiet [of handler_event]) (auto intro!: cmd_rules)
  show "triple w (settled cid (a, Some r)) (returnC (a, Some r)) (settled cid) (\<lambda>_. True)" for r
    by (rule triple_return)
qed (rule triple_failed_result [OF assms])

lemma triple_on_protocol_error:
  assumes "cid = cid_of env"
  shows "triple w (recordable cid) (on_protocol_error env started_at code message details) (settled cid) (\<lambda>_. True)"
  unfolding on_protocol_error_def assms [symmetric]
proof (rule triple_bind [OF triple_locals], rule triple_then)
  fix l :: "pyval option \<times> bool option"
  let ?I = "\<lambda>s. recordable cid s \<and> cs_ack s = fst l \<and> cs_prepared s = snd l"
  have st: "stable handler_event ?I"
    using stable_row(2) [of handler_event cid] by (auto simp: stable_def frame_def)
  show "triple w ?I (structured level area event_code data env) (\<lambda>_. ?I) (\<lambda>_. True)" for level area event_code data
    by (rule triple_quiet [OF st handler.keeps_structured]) simp
  show "triple w ?I
      (case fst l of None \<Rightarrow> bindC (ack_message env False code message) (\<lambda>ack. seq_valueC [save_ack cid ack, publish_command_ack cid ack] (ack, None))
       | Some ack \<Rightarrow> (case snd l of None \<Rightarrow> raiseC UnboundLocalError
          | Some prepared \<Rightarrow> thenC (whenC prepared (force_exit_quietly env))
              (bindC (failed_result env started_at (dict_or_empty details) code message) (\<lambda>r. returnC (ack, Some r))))) (settled cid) (\<lambda>_. True)"
  proof (cases "fst l")
    case None
    have "triple w ?I (ack_message env False code message) (\<lambda>a s. cs_ack s = Some a \<and> row cid s = None) (\<lambda>_. True)"
      by (rule triple_conseq [OF triple_ack_message [OF _ st]]) (auto simp: None recordable_def)
    moreover have "triple w (\<lambda>s. cs_ack s = Some a \<and> row cid s = None) (seq_valueC [save_ack cid a, publish_command_ack cid a] (a, None))
        (settled cid) (\<lambda>_. True)" for a
      by (rule triple_conseq [OF triple_answer_ack]) (auto simp: acked_def settled_def)
    ultimately show ?thesis by (simp add: None triple_bind)
  next
    case (Some ack)
    have "triple w ?I (thenC (whenC b (force_exit_quietly env))
        (bindC (failed_result env started_at (dict_or_empty details) code message) (\<lambda>r. returnC (ack, Some r)))) (settled cid) (\<lambda>_. True)" for b
      by (rule triple_conseq [OF triple_fail [OF assms, of _ ack]]) (auto simp: Some recordable_def unsettled_def)
    then show ?thesis by (cases "snd l") (auto simp: Some intro: triple_raise)
  qed
qed

lemma triple_on_unexpected_error:
  assumes "cid = cid_of env"
  shows "triple w (recordable cid) (on_unexpected_error env started_at x) (settled cid) (\<lambda>_. True)"
  unfolding on_unexpected_error_def
proof (intro triple_then triple_bind)
  show "triple w (recordable cid) (structured level area event_code data env) (\<lambda>_. recordable cid) (\<lambda>_. True)" for level area event_code data
    by (rule triple_quiet [OF _ handler.keeps_structured]) simp_all
  show "triple w (recordable cid) localsC (\<lambda>l s. recordable cid s \<and> cs_ack s = fst l \<and> cs_prepared s = snd l) (\<lambda>_. True)"
    by (rule triple_locals)
  fix l :: "pyval option \<times> bool option"
  let ?a = "case fst l of None \<Rightarrow> PNone | Some ack \<Rightarrow> ack"
  have "triple w (\<lambda>s. recordable cid s \<and> cs_ack s = fst l \<and> cs_prepared s = snd l) (thenC (whenC b (force_exit_quietly env))
      (bindC (failed_result env started_at [] ''INTERNAL_ERROR'' (exc_text x)) (\<lambda>r. returnC (?a, Some r)))) (settled cid) (\<lambda>_. True)" for b
    by (rule triple_conseq [OF triple_fail [OF assms, of _ ?a]]) (auto simp: recordable_def unsettled_def split: option.splits)
  then show "triple w (\<lambda>s. recordable cid s \<and> cs_ack s = fst l \<and> cs_prepared s = snd l)
      (case snd l of None \<Rightarrow> raiseC UnboundLocalError
       | Some prepared \<Rightarrow> thenC (whenC (prepared \<and> fst l \<noteq> None) (force_exit_quietly env))
           (bindC (failed_result env started_at [] ''INTERNAL_ERROR'' (exc_text x)) (\<lambda>r. returnC (?a, Some r)))) (settled cid) (\<lambda>_. True)"
    by (cases "snd l") (auto intro: triple_raise)
qed

section \<open>A first delivery\<close>

definition fresh_locals :: "cmd_state \<Rightarrow> cmd_state" where
  "fresh_locals s = s\<lparr>cs_tick := Suc (cs_tick s), cs_ack := None, cs_prepared := None\<rparr>"

text \<open>The first delivery of a command is refused at once, or it is the \<open>try\<close> statement with fresh local variables.\<close>

lemma first_delivery:
  assumes "row (cid_of env) s = None" "handle_envelope robot_id env w s = (r, s')"
  shows "s' = s \<and> isl r \<or> attempt_command env (wd_iso w (cs_tick s)) w (fresh_locals s) = (r, s')"
  using assms by (auto simp: handle_envelope_def thenC_def bindC_def liftC_def raiseC_def storeC_def isoC_def tickC_def fresh_locals_def
      split: if_splits sum.splits)

text \<open>What every part of the \<open>try\<close> statement guarantees holds after a first delivery.\<close>

lemma first_delivery_rule:
  assumes "row (cid_of env) s = None" "handle_envelope robot_id env w s = (r, s')"
    and "I (fresh_locals s)" "isl r \<Longrightarrow> E s"
    and "triple w I (process_command env (wd_iso w (cs_tick s))) Q F"
    and "\<And>code message details. triple w F (on_protocol_error env (wd_iso w (cs_tick s)) code message details) Q E"
    and "\<And>x. triple w F (on_unexpected_error env (wd_iso w (cs_tick s)) x) Q E"
  shows "case r of Inr u \<Rightarrow> Q u s' | Inl x \<Rightarrow> E s'"
proof -
  have h: "triple w F (case x of ProtocolError code message details \<Rightarrow> on_protocol_error env t code message details
      | _ \<Rightarrow> on_unexpected_error env t x) Q E" if "t = wd_iso w (cs_tick s)" for x t
    using assms(6,7) that by (cases x) simp_all
  have "triple w I (attempt_command env (wd_iso w (cs_tick s))) Q E"
    unfolding attempt_command_def by (rule triple_except [OF assms(5) h]) simp
  with first_delivery [OF assms(1,2)] assms(3,4) show ?thesis
    by (cases r) (auto dest: tripleD tripleE)
qed

end
