(* ===== verification/CommandOnce.thy ===== *)
theory CommandOnce
  imports CommandRecord
begin

text \<open>
  The properties of \<open>handle_command\<close> that rest on the record of a command: at most one execution per command id, and the
  frame of a command.
\<close>

section \<open>A command that was answered is only answered again\<close>

lemma settled_handle:
  assumes "row (cid_of env) s = None" "handle_envelope robot_id env w s = (Inr u, s1)"
  shows "settled (cid_of env) u s1"
proof -
  have "triple w (unseen (cid_of env)) (process_command env t) (settled (cid_of env)) (recordable (cid_of env))" for t
    by (rule triple_conseq [OF triple_process]) (auto simp: settled_def)
  then have "case Inr u :: pyexc + _ of Inr u \<Rightarrow> settled (cid_of env) u s1 | Inl x \<Rightarrow> True"
    by (rule first_delivery_rule [OF assms, of "unseen (cid_of env)" "\<lambda>_. True", rotated 2])
      (use assms(1) in \<open>auto intro: triple_on_protocol_error triple_on_unexpected_error simp: unseen_def fresh_locals_def\<close>)
  then show ?thesis by simp
qed

text \<open>The answer to a known command.\<close>

definition republished :: "string \<Rightarrow> pyval \<times> pyval option \<Rightarrow> event set" where
  "republished cid q = insert (PublishedAck cid (fst q)) (PublishedResult cid ` set_option (snd q))"

definition same_but_events :: "cmd_state \<Rightarrow> cmd_state \<Rightarrow> bool" where
  "same_but_events s s' = (s' = s\<lparr>cs_events := cs_events s'\<rparr>)"

lemma keeps_republish: "(\<And>e. e \<in> republished cid q \<Longrightarrow> P e) \<Longrightarrow> keeps (frame P s0) (answer_duplicate cid q)"
  unfolding answer_duplicate_def publish_command_ack_def publish_command_result_def
  by (intro cmd_rules) (auto simp: republished_def)

lemma answer_duplicate_run:
  "answer_duplicate cid q w s = (r, s') \<Longrightarrow> same_but_events s s' \<and> (\<forall>v. r = Inr v \<longrightarrow> v = (py_or (fst q) (PDict []), snd q))"
  by (auto simp: answer_duplicate_def saving_defs whenC_def same_but_events_def split: if_splits sum.splits option.splits)

lemma handle_duplicate:
  assumes "row (cid_of env) s = Some q" "env_robot_id env = robot_id" "has_key (env_payload env) ''command_id''"
  shows "handle_envelope robot_id env w s = answer_duplicate (cid_of env) q w s"
  using assms by (auto simp: handle_envelope_def thenC_def bindC_def liftC_def storeC_def dsub_def has_key_def)

lemma handle_needs: "handle_envelope robot_id env w s = (Inr u, s') \<Longrightarrow> env_robot_id env = robot_id \<and> has_key (env_payload env) ''command_id''"
  by (auto simp: handle_envelope_def run_simps dsub_ok eq_commute [of "Inr _"] split: if_splits)

lemma handled_row:
  assumes "handle_envelope robot_id env w s = (Inr u, s1)"
  shows "\<exists>a. row (cid_of env) s1 = Some (a, snd u)"
proof (cases "row (cid_of env) s")
  case None
  from settled_handle [OF this assms] show ?thesis by (auto simp: settled_def)
next
  case (Some q)
  from handle_needs [OF assms] have "answer_duplicate (cid_of env) q w s = (Inr u, s1)"
    using assms by (simp add: handle_duplicate [OF Some])
  from answer_duplicate_run [OF this] Some show ?thesis
    by (metis same_but_events_def cmd_state.select_convs(3) cmd_state.surjective cmd_state.update_convs(2) prod.collapse snd_conv)
qed

text \<open>C2. At most one execution per command id. When \<open>handle_command\<close> has answered a command, whatever the outcome, the store
  holds the row of its id with the result that was returned; when the same message is delivered again, in any world, the
  handler only publishes the stored acknowledgement and result: no adapter is called, the store, the safety state and the
  locks stay as they are, and the return value is the stored one.\<close>

theorem redelivery_only_answers:
  assumes "decode_message json_loads raw = Inr env" "handle_command json_loads robot_id raw w s = (Inr u, s1)"
  shows "\<exists>a. row (cid_of env) s1 = Some (a, snd u) \<and>
    (\<forall>w' r s2. handle_command json_loads robot_id raw w' s1 = (r, s2) \<longrightarrow>
       same_but_events s1 s2 \<and> frame (\<lambda>e. e \<in> republished (cid_of env) (a, snd u)) s1 s2 \<and>
       (\<forall>v. r = Inr v \<longrightarrow> v = (py_or a (PDict []), snd u)))"
proof -
  have h: "handle_command json_loads robot_id raw = (\<lambda>w s. handle_envelope robot_id env w s)"
    using assms(1) by (intro ext) (simp add: handle_command_def bindC_def liftC_def)
  from assms(2) have run: "handle_envelope robot_id env w s = (Inr u, s1)" by (simp add: h)
  from handled_row [OF run] obtain a where a: "row (cid_of env) s1 = Some (a, snd u)" ..
  from handle_needs [OF run] have "handle_envelope robot_id env w' s1 = answer_duplicate (cid_of env) (a, snd u) w' s1" for w'
    by (simp add: handle_duplicate [OF a])
  then show ?thesis
    using a answer_duplicate_run frameI [OF keeps_republish [of "cid_of env" "(a, snd u)" "\<lambda>e. e \<in> republished (cid_of env) (a, snd u)"]]
    by (fastforce simp: h)
qed

section \<open>A sample run\<close>

definition sample_fresh :: fresh_values where
  "sample_fresh = \<lparr>fr_message_id = ''i'', fr_trace_id = ''i'', fr_sent_at = ''t'', fr_body_at = ''t''\<rparr>"

text \<open>A deployment without optional adapters whose clock reads a time after the sample command's expiry.\<close>

definition late_world :: cmd_world where
  "late_world = \<lparr>wd_has = (\<lambda>_. False), wd_reply = (\<lambda>_ _. Inr PNone), wd_clock = (\<lambda>_. 0), wd_utcnow = (\<lambda>_. 10 ^ 18),
     wd_iso = (\<lambda>_. ''t''), wd_fresh = (\<lambda>_. sample_fresh), wd_task = (\<lambda>_. None), wd_safety = (\<lambda>_ st. st),
     wd_config = \<lparr>sc_localization_stable_seconds = 3, sc_low_battery_percent = 20\<rparr>, wd_rounds = (\<lambda>_. 1), wd_lock = (\<lambda>_ _. True)\<rparr>"

definition idle_state :: cmd_state where
  "idle_state = \<lparr>cs_tick = 0, cs_events = [], cs_store = empty_store, cs_safety = sample_state, cs_held = [],
     cs_ack = None, cs_prepared = None\<rparr>"

lemma sample_expiry: "bindE (dsub (env_payload sample_env) ''expires_at'') (\<lambda>v. expired v (10 ^ 18)) = Inr True"
  by code_simp

lemma sample_ids: "env_robot_id sample_env = ''robot-7''" "has_key (env_payload sample_env) ''command_id''"
  by code_simp+

lemma sample_payload_key: "dsub (env_payload sample_env) ''command_id'' = Inr (PStr ''22222222-2222-4222-8222-222222222222'')"
  by code_simp

lemma late_checked:
  "checked_command sample_env late_world s = (Inl (protocol_error ''COMMAND_EXPIRED'' ''command has expired''), s\<lparr>cs_tick := Suc (cs_tick s)\<rparr>)"
  using sample_expiry by (auto simp: checked_command_def structured_def check_expiry_def thenC_def bindC_def hasC_def returnC_def raiseC_def
    liftC_def utcnowC_def tickC_def late_world_def)

lemma late_run: "\<exists>a s1. handle_envelope ''robot-7'' sample_env late_world idle_state = (Inr (a, None), s1)"
  using sample_ids sample_payload_key
  by (simp add: handle_envelope_def attempt_command_def process_command_def Let_def late_checked on_protocol_error_def ack_message_def state_version_def
    structured_def thenC_def bindC_def hasC_def returnC_def raiseC_def liftC_def utcnowC_def tickC_def isoC_def storeC_def
    exceptC_def localsC_def taskC_def freshC_def build_ack_def reply_def set_ack_def saving_defs get_processed_command_def
    idle_state_def empty_store_def)
    (simp add: late_world_def saving_defs)

lemma redelivery_run:
  "\<exists>u s1. handle_command (\<lambda>_. None) ''robot-7'' (RawObject (PDict sample_start)) late_world idle_state = (Inr u, s1)"
  using late_run by (auto simp: handle_command_def bindC_def liftC_def sample_decodes)

theorem redelivery_only_answers_witness:
  "\<exists>u s1 a. handle_command (\<lambda>_. None) ''robot-7'' (RawObject (PDict sample_start)) late_world idle_state = (Inr u, s1)
     \<and> row (cid_of sample_env) s1 = Some (a, snd u)"
proof -
  from redelivery_run obtain u s1 where run: "handle_command (\<lambda>_. None) ''robot-7'' (RawObject (PDict sample_start)) late_world idle_state = (Inr u, s1)"
    by blast
  from redelivery_only_answers [OF sample_decodes run] run show ?thesis by blast
qed

section \<open>The frame of a command\<close>

text \<open>Every acknowledgement and result that is saved or published is one of this command.\<close>

definition own_event :: "string \<Rightarrow> event \<Rightarrow> bool" where
  "own_event cid e = (case e of SavedAck c _ \<Rightarrow> c = cid | SavedResult c _ \<Rightarrow> c = cid
     | PublishedAck c _ \<Rightarrow> c = cid | PublishedResult c _ \<Rightarrow> c = cid | _ \<Rightarrow> True)"

definition own_answers :: "string \<Rightarrow> cmd_state \<Rightarrow> cmd_state \<Rightarrow> bool" where
  "own_answers cid s0 s = (cs_held s = cs_held s0 \<and> (\<exists>new. cs_events s = cs_events s0 @ new \<and> (\<forall>e \<in> set new. own_event cid e)))"

lemma own_answers_refl [simp]: "own_answers cid s s"
  by (simp add: own_answers_def)

lemma own_answers_stable [simp]: "stable handler_event (own_answers cid s0)"
proof -
  have "handler_event e \<Longrightarrow> own_event cid e" for e by (cases e) (simp_all add: own_event_def)
  then show ?thesis unfolding stable_def frame_def own_answers_def by (metis Un_iff append.assoc set_append)
qed

lemma keeps_stable: "stable P I \<Longrightarrow> (\<And>s0. keeps (frame P s0) m) \<Longrightarrow> keeps I m"
  by (rule keepsI) (metis frameI prod.collapse stable_def)

lemma keeps_own_answer: "own_event cid e \<Longrightarrow> keeps (own_answers cid s0) (eventC e)"
  by (rule keepsI) (auto simp: eventC_def own_answers_def)

lemma keeps_own_saving [cmd_rules]:
  "keeps (own_answers cid s0) (save_ack cid a)" "keeps (own_answers cid s0) (save_result cid a)"
  "keeps (own_answers cid s0) (publish_command_ack cid a)" "keeps (own_answers cid s0) (publish_command_result cid a)"
proof -
  have written: "keeps (own_answers cid s0) (\<lambda>w s. (Inr (), s\<lparr>cs_store := f (cs_store s)\<rparr>))" for f
    by (rule keepsI) (simp add: own_answers_def)
  show "keeps (own_answers cid s0) (save_ack cid a)" "keeps (own_answers cid s0) (save_result cid a)"
    "keeps (own_answers cid s0) (publish_command_ack cid a)" "keeps (own_answers cid s0) (publish_command_result cid a)"
    unfolding save_ack_def save_result_def publish_command_ack_def publish_command_result_def
    by (intro cmd_rules written keeps_own_answer; simp add: own_event_def)+
qed

lemma keeps_own_locals [cmd_rules]:
  "keeps (own_answers cid s0) (set_ack a)" "keeps (own_answers cid s0) (set_prepared b)"
  "keeps (own_answers cid s0) (\<lambda>w s. (Inr (), s\<lparr>cs_ack := None, cs_prepared := None\<rparr>))"
  by (rule keepsI, simp add: set_ack_def set_prepared_def own_answers_def)+

lemma keeps_own: "(\<And>s1. keeps (frame handler_event s1) m) \<Longrightarrow> keeps (own_answers cid s0) m"
  by (rule keeps_stable [where P = handler_event]) simp_all

lemma keeps_own_parts [cmd_rules]:
  "keeps (own_answers cid s0) (structured level area event_code data env)" "keeps (own_answers cid s0) state_version"
  "keeps (own_answers cid s0) freshC" "keeps (own_answers cid s0) isoC" "keeps (own_answers cid s0) (checked_command env)"
  "keeps (own_answers cid s0) (admit_task_start env)" "keeps (own_answers cid s0) (start_accepted_task env started_at)"
  "keeps (own_answers cid s0) (execute env started_at)" "keeps (own_answers cid s0) (force_exit_quietly env)"
  "keeps (own_answers cid s0) (result_message env status result started_at code message)" "keeps (own_answers cid s0) localsC"
  by (rule keeps_own, rule cmd_rules)+

lemma keeps_own_handle: "keeps (own_answers (cid_of env) s0) (handle_envelope robot_id env)"
  unfolding handle_envelope_def attempt_command_def process_command_def on_protocol_error_def on_unexpected_error_def accept_command_def ack_message_def
    failed_result_def answer_duplicate_def Let_def
  by (intro cmd_rules)

text \<open>C26. The frame of a command. However the handling of a message ends, by a return or by an exception, in whatever world,
  the handler has released every lock it took, and every acknowledgement and every result that it saved or published on the
  way is one of this command: no command is answered in the name of another one.\<close>

theorem command_answers_under_its_id:
  assumes "decode_message json_loads raw = Inr env" "handle_command json_loads robot_id raw w s = (r, s')"
  shows "cs_held s' = cs_held s \<and> (\<exists>new. cs_events s' = cs_events s @ new \<and> (\<forall>c v. 
    SavedAck c v \<in> set new \<or> SavedResult c v \<in> set new \<or> PublishedAck c v \<in> set new \<or> PublishedResult c v \<in> set new \<longrightarrow> c = cid_of env))"
proof -
  have "handle_envelope robot_id env w s = (r, s')"
    using assms by (simp add: handle_command_def bindC_def liftC_def)
  then have "own_answers (cid_of env) s s'" by (rule keepsD [OF keeps_own_handle]) simp
  then show ?thesis by (force simp: own_answers_def own_event_def)
qed

theorem command_answers_under_its_id_witness:
  "\<forall>w. cs_held (snd (handle_command (\<lambda>_. None) ''robot-7'' (RawObject (PDict sample_start)) w idle_state)) = []
     \<and> {c. \<exists>v. PublishedAck c v \<in> set (cs_events (snd (handle_command (\<lambda>_. None) ''robot-7'' (RawObject (PDict sample_start)) w idle_state)))}
         \<subseteq> {cid_of sample_env}"
proof
  fix w
  obtain r s' where run: "handle_command (\<lambda>_. None) ''robot-7'' (RawObject (PDict sample_start)) w idle_state = (r, s')"
    by (rule prod.exhaust)
  from command_answers_under_its_id [OF sample_decodes run]
  have "cs_held s' = [] \<and> {c. \<exists>v. PublishedAck c v \<in> set (cs_events s')} \<subseteq> {cid_of sample_env}"
    by (auto simp: idle_state_def)
  then show "cs_held (snd (handle_command (\<lambda>_. None) ''robot-7'' (RawObject (PDict sample_start)) w idle_state)) = []
     \<and> {c. \<exists>v. PublishedAck c v \<in> set (cs_events (snd (handle_command (\<lambda>_. None) ''robot-7'' (RawObject (PDict sample_start)) w idle_state)))}
         \<subseteq> {cid_of sample_env}"
    unfolding run by simp
qed

end
