(* ===== verification/CommandOrder.thy ===== *)
theory CommandOrder
  imports CommandOnce
begin

text \<open>
  The order of what \<open>handle_command\<close> does: a message is saved before it is published, a command other than \<open>task.start\<close>
  touches nothing before its acceptance is saved and published. And the error path that answers nothing.
\<close>

section \<open>Ordered events\<close>

definition accepted_in :: "string \<Rightarrow> event set \<Rightarrow> bool" where
  "accepted_in cid seen = (\<exists>a. SavedAck cid a \<in> seen \<and> PublishedAck cid a \<in> seen)"

text \<open>What has to be seen before an event.\<close>

fun backed :: "string \<Rightarrow> bool \<Rightarrow> event set \<Rightarrow> event \<Rightarrow> bool" where
  "backed cid start seen (PublishedAck c a) = (SavedAck c a \<in> seen)"
| "backed cid start seen (PublishedResult c r) = (SavedResult c r \<in> seen)"
| "backed cid start seen (Called name args) = (name = ''structured_logs.emit'' \<or> start \<or> accepted_in cid seen)"
| "backed cid start seen (PublishedProgress c v) = (start \<or> accepted_in cid seen)"
| "backed cid start seen _ = True"

fun ordered :: "string \<Rightarrow> bool \<Rightarrow> event set \<Rightarrow> event list \<Rightarrow> bool" where
  "ordered cid start seen [] = True"
| "ordered cid start seen (e # es) = (backed cid start seen e \<and> ordered cid start (insert e seen) es)"

lemma accepted_mono: "accepted_in cid S \<Longrightarrow> S \<subseteq> T \<Longrightarrow> accepted_in cid T"
  by (auto simp: accepted_in_def)

lemma ordered_append: "ordered cid start S (xs @ ys) \<longleftrightarrow> ordered cid start S xs \<and> ordered cid start (S \<union> set xs) ys"
  by (induction xs arbitrary: S) (auto simp: insert_commute Un_insert_right)

lemma ordered_split: "ordered cid start S (xs @ e # ys) \<Longrightarrow> backed cid start (S \<union> set xs) e"
  by (simp add: ordered_append)

lemma ordered_log: "\<forall>e \<in> set es. log_event e \<Longrightarrow> ordered cid start S es"
proof (induction es arbitrary: S)
  case (Cons e es)
  then show ?case by (cases e) auto
qed simp

lemma ordered_handler: "\<forall>e \<in> set es. handler_event e \<Longrightarrow> start \<or> accepted_in cid S \<Longrightarrow> ordered cid start S es"
proof (induction es arbitrary: S)
  case (Cons e es)
  then have "start \<or> accepted_in cid (insert e S)" using accepted_mono [of cid S "insert e S"] by blast
  with Cons show ?case by (cases e) auto
qed simp

section \<open>Invariants of a first delivery\<close>

definition in_order :: "string \<Rightarrow> bool \<Rightarrow> cmd_state \<Rightarrow> cmd_state \<Rightarrow> bool" where
  "in_order cid start s0 s = ((\<exists>new. cs_events s = cs_events s0 @ new \<and> ordered cid start {} new) \<and> (cs_prepared s = Some True \<longrightarrow> start))"

definition accepted_order :: "string \<Rightarrow> bool \<Rightarrow> cmd_state \<Rightarrow> cmd_state \<Rightarrow> bool" where
  "accepted_order cid start s0 s = ((\<exists>new. cs_events s = cs_events s0 @ new \<and> ordered cid start {} new \<and> (start \<or> accepted_in cid (set new)))
     \<and> (cs_prepared s = Some True \<longrightarrow> start))"

lemma accepted_in_order: "accepted_order cid start s0 s \<Longrightarrow> in_order cid start s0 s"
  by (auto simp: accepted_order_def in_order_def)

lemma start_accepted_order: "in_order cid True s0 = accepted_order cid True s0"
  by (intro ext) (simp add: accepted_order_def in_order_def)

lemma stable_log_order: "stable log_event (in_order cid start s0)"
  by (auto simp: stable_def frame_def in_order_def ordered_append ordered_log)

lemma stable_handler_order: "stable handler_event (accepted_order cid start s0)"
  unfolding stable_def
proof (intro allI impI)
  fix s s' assume "accepted_order cid start s0 s" "frame handler_event s s'"
  then obtain new more where "cs_events s' = cs_events s0 @ new @ more" "ordered cid start {} new" "start \<or> accepted_in cid (set new)"
      "\<forall>e \<in> set more. handler_event e" "cs_prepared s' = Some True \<longrightarrow> start"
    by (auto simp: accepted_order_def frame_def)
  moreover from this have "ordered cid start {} (new @ more)" by (simp add: ordered_append ordered_handler)
  moreover have "start \<or> accepted_in cid (set (new @ more))"
    using calculation(3) accepted_mono [of cid "set new" "set (new @ more)"] by auto
  ultimately show "accepted_order cid start s0 s'" unfolding accepted_order_def by blast
qed

text \<open>Saving and publishing one message.\<close>

lemma triple_ordered_ack:
  "triple w (in_order cid start s0) (seq_valueC [save_ack cid a, publish_command_ack cid a] v) (\<lambda>_. accepted_order cid start s0) (in_order cid start s0)"
  by (force simp: triple_def saving_defs in_order_def accepted_order_def accepted_in_def ordered_append split: sum.split)

lemma triple_ordered_result:
  "triple w (in_order cid start s0) (seq_valueC [save_result cid r, publish_command_result cid r] v) (\<lambda>_. in_order cid start s0) (in_order cid start s0)"
  by (force simp: triple_def saving_defs in_order_def ordered_append split: sum.split)

lemma triple_keeps: "keeps I m \<Longrightarrow> (\<And>s. I s \<Longrightarrow> E s) \<Longrightarrow> triple w I m (\<lambda>_. I) E"
  by (rule tripleI) (auto dest: keepsD)

lemma keeps_order_log: "(\<And>s1. keeps (frame log_event s1) m) \<Longrightarrow> keeps (in_order cid start s0) m"
  by (rule keeps_stable [OF stable_log_order])

lemma keeps_order_parts [cmd_rules]:
  "keeps (in_order cid start s0) (structured level area event_code data env)" "keeps (in_order cid start s0) (checked_command env)"
  "keeps (in_order cid start s0) freshC" "keeps (in_order cid start s0) taskC"
  by (intro keeps_order_log keeps_log_structured keeps_log_checked keeps_readings)+

lemma keeps_order_locals [cmd_rules]: "keeps (in_order cid start s0) (set_ack a)"
  by (auto simp: keeps_def set_ack_def in_order_def)

lemma keeps_order_ack [cmd_rules]: "keeps (in_order cid start s0) (ack_message env b code message)"
  unfolding ack_message_def state_version_def by (intro cmd_rules)

lemma keeps_order_result_message [cmd_rules]:
  "keeps (in_order cid start s0) (result_message env status details started_at code message)"
  unfolding result_message_def by (intro cmd_rules)

lemma triple_ordered_accept:
  "triple w (in_order (cid_of env) start s0) (accept_command env) (\<lambda>_. accepted_order (cid_of env) start s0) (in_order (cid_of env) start s0)"
  unfolding accept_command_def
  by (rule triple_bind [OF triple_keeps triple_ordered_ack]) (auto intro: cmd_rules)

lemma triple_ordered_process:
  fixes env started_at s0
  defines "I \<equiv> in_order (cid_of env) (env_message_type env = ''task.start'') s0"
    and "A \<equiv> accepted_order (cid_of env) (env_message_type env = ''task.start'') s0"
  shows "triple w I (process_command env started_at) (\<lambda>_. I) I"
  unfolding process_command_def Let_def
proof (intro triple_then triple_bind)
  let ?start = "env_message_type env = ''task.start''"
  have AI: "A s \<Longrightarrow> I s" for s unfolding A_def I_def by (rule accepted_in_order)
  show "triple w I (checked_command env) (\<lambda>_. I) I"
    unfolding I_def by (rule triple_keeps) (auto intro: cmd_rules)
  show "triple w I (set_prepared ?start) (\<lambda>_. I) I"
    by (auto simp: triple_def set_prepared_def I_def in_order_def)
  show "triple w I (whenC ?start (admit_task_start env)) (\<lambda>_. I) I"
  proof (cases ?start)
    case True
    then have "stable handler_event I" using stable_handler_order by (simp add: I_def start_accepted_order)
    then show ?thesis by (rule triple_frame) (auto intro!: cmd_rules)
  qed (simp add: whenC_def triple_return)
  show "triple w I (accept_command env) (\<lambda>_. A) I"
    unfolding I_def A_def by (rule triple_ordered_accept)
  show "triple w A (if ?start then thenC (start_accepted_task env started_at) (returnC None) else execute env started_at) (\<lambda>_. A) I"
    unfolding A_def by (rule triple_quiet [OF stable_handler_order]) (auto intro!: cmd_rules AI [unfolded A_def])
  show "triple w A (case r of None \<Rightarrow> returnC (a, None)
      | Some m \<Rightarrow> seq_valueC [save_result (cid_of env) (PDict m), publish_command_result (cid_of env) (PDict m)] (a, Some (PDict m))) (\<lambda>_. I) I"
    for a and r :: "pydict option"
    using triple_conseq [OF triple_ordered_result [of w "cid_of env" ?start s0, folded I_def] AI]
    by (cases r) (simp_all add: triple_return AI)
qed

lemma triple_ordered_fail:
  assumes "b \<Longrightarrow> start"
  shows "triple w (in_order (cid_of env) start s0) (thenC (whenC b (force_exit_quietly env))
     (bindC (failed_result env started_at details code message) (\<lambda>r. returnC (a, Some r))))
     (\<lambda>_. in_order (cid_of env) start s0) (in_order (cid_of env) start s0)"
  unfolding failed_result_def
proof (intro triple_then triple_bind)
  let ?I = "in_order (cid_of env) start s0"
  show "triple w ?I (whenC b (force_exit_quietly env)) (\<lambda>_. ?I) ?I"
  proof (cases b)
    case True
    with assms have "stable handler_event ?I" using stable_handler_order [of "cid_of env" True s0] by (simp add: start_accepted_order)
    then show ?thesis by (rule triple_frame) (auto intro!: cmd_rules)
  qed (simp add: whenC_def triple_return)
  show "triple w ?I (result_message env ''failed'' details started_at code message) (\<lambda>_. ?I) ?I"
    by (rule triple_keeps) (auto intro: cmd_rules)
  show "triple w ?I (seq_valueC [save_result (cid_of env) (PDict r), publish_command_result (cid_of env) (PDict r)] (PDict r)) (\<lambda>_. ?I) ?I" for r
    by (rule triple_ordered_result)
  show "triple w ?I (returnC (a, Some r)) (\<lambda>_. ?I) ?I" for r
    by (rule triple_return)
qed

lemma triple_ordered_protocol_error:
  "triple w (in_order (cid_of env) start s0) (on_protocol_error env started_at code message details)
     (\<lambda>_. in_order (cid_of env) start s0) (in_order (cid_of env) start s0)"
  unfolding on_protocol_error_def
proof (rule triple_bind [OF triple_locals])
  fix l :: "pyval option \<times> bool option"
  let ?I = "in_order (cid_of env) start s0"
  let ?rest = "case fst l of
      None \<Rightarrow> bindC (ack_message env False code message) (\<lambda>ack. seq_valueC [save_ack (cid_of env) ack, publish_command_ack (cid_of env) ack] (ack, None))
    | Some ack \<Rightarrow> (case snd l of None \<Rightarrow> raiseC UnboundLocalError
        | Some prepared \<Rightarrow> thenC (whenC prepared (force_exit_quietly env))
            (bindC (failed_result env started_at (dict_or_empty details) code message) (\<lambda>r. returnC (ack, Some r))))"
  have reject: "triple w ?I (bindC (ack_message env False code message) (\<lambda>ack. seq_valueC [save_ack (cid_of env) ack, publish_command_ack (cid_of env) ack] (ack, None)))
      (\<lambda>_. ?I) ?I"
    by (rule triple_bind [OF triple_keeps triple_conseq [OF triple_ordered_ack]]) (auto intro: cmd_rules accepted_in_order)
  have rest: "triple w ?I ?rest (\<lambda>_. ?I) ?I" if "snd l = Some True \<longrightarrow> start"
    using that by (cases "fst l"; cases "snd l") (auto intro!: triple_raise triple_ordered_fail reject)
  have "triple w ?I (thenC (structured (if fst l = None then ''WARNING'' else ''ERROR'') (module_for_command (env_message_type env))
      (env_message_type env @ ''.failed'') (PDict [(''error_code'', PStr code)]) env) ?rest) (\<lambda>_. ?I) ?I" if "snd l = Some True \<longrightarrow> start"
    by (rule triple_then [OF triple_keeps rest [OF that]]) (auto intro: cmd_rules)
  then show "triple w (\<lambda>s. ?I s \<and> cs_ack s = fst l \<and> cs_prepared s = snd l)
      (thenC (structured (if fst l = None then ''WARNING'' else ''ERROR'') (module_for_command (env_message_type env))
        (env_message_type env @ ''.failed'') (PDict [(''error_code'', PStr code)]) env) ?rest) (\<lambda>_. ?I) ?I"
    by (rule triple_assume [where G = "snd l = Some True \<longrightarrow> start", rotated]) (auto simp: in_order_def)
qed

lemma triple_ordered_unexpected_error:
  "triple w (in_order (cid_of env) start s0) (on_unexpected_error env started_at x)
     (\<lambda>_. in_order (cid_of env) start s0) (in_order (cid_of env) start s0)"
  unfolding on_unexpected_error_def
proof (rule triple_then [OF triple_keeps])
  let ?I = "in_order (cid_of env) start s0"
  show "keeps ?I (structured level area event_code data env)" for level area event_code data
    by (rule cmd_rules)
  show "triple w ?I (bindC localsC (\<lambda>l. case snd l of None \<Rightarrow> raiseC UnboundLocalError
      | Some prepared \<Rightarrow> thenC (whenC (prepared \<and> fst l \<noteq> None) (force_exit_quietly env))
          (bindC (failed_result env started_at [] ''INTERNAL_ERROR'' (exc_text x)) (\<lambda>r.
             returnC (case fst l of None \<Rightarrow> PNone | Some ack \<Rightarrow> ack, Some r))))) (\<lambda>_. ?I) ?I"
  proof (rule triple_bind [OF triple_locals])
    fix l :: "pyval option \<times> bool option"
    let ?m = "case snd l of None \<Rightarrow> raiseC UnboundLocalError
      | Some prepared \<Rightarrow> thenC (whenC (prepared \<and> fst l \<noteq> None) (force_exit_quietly env))
          (bindC (failed_result env started_at [] ''INTERNAL_ERROR'' (exc_text x)) (\<lambda>r.
             returnC (case fst l of None \<Rightarrow> PNone | Some ack \<Rightarrow> ack, Some r)))"
    have "triple w ?I ?m (\<lambda>_. ?I) ?I" if "snd l = Some True \<longrightarrow> start"
      using that by (cases "snd l") (auto intro!: triple_raise triple_ordered_fail)
    then show "triple w (\<lambda>s. ?I s \<and> cs_ack s = fst l \<and> cs_prepared s = snd l) ?m (\<lambda>_. ?I) ?I"
      by (rule triple_assume [where G = "snd l = Some True \<longrightarrow> start", rotated]) (auto simp: in_order_def)
  qed
qed simp

text \<open>C3. Saved before published, accepted before done. In the events of the first delivery of a command, however it ends,
  every published acknowledgement and result was saved before, so that a crash never leaves the center with an answer the
  edge does not remember; and unless the command is a \<open>task.start\<close>, no adapter, task or boundary is called and no progress
  is published before an acknowledgement was saved and published: until then only the structured log is written.\<close>

theorem acceptance_before_effects:
  assumes "decode_message json_loads raw = Inr env" "row (cid_of env) s = None"
    and "handle_command json_loads robot_id raw w s = (r, s')"
  shows "\<exists>new. cs_events s' = cs_events s @ new \<and>
    (\<forall>xs e ys. new = xs @ e # ys \<longrightarrow> backed (cid_of env) (env_message_type env = ''task.start'') (set xs) e)"
proof -
  let ?I = "in_order (cid_of env) (env_message_type env = ''task.start'') s"
  have run: "handle_envelope robot_id env w s = (r, s')"
    using assms(1,3) by (simp add: handle_command_def bindC_def liftC_def)
  have "case r of Inr u \<Rightarrow> ?I s' | Inl x \<Rightarrow> \<exists>new. cs_events s' = cs_events s @ new \<and> ordered (cid_of env) (env_message_type env = ''task.start'') {} new"
    by (rule first_delivery_rule [OF assms(2) run, of ?I _ "\<lambda>_. ?I" ?I])
      (auto intro: triple_ordered_process triple_conseq [OF triple_ordered_protocol_error] triple_conseq [OF triple_ordered_unexpected_error]
        simp: in_order_def fresh_locals_def)
  then obtain new where "cs_events s' = cs_events s @ new" "ordered (cid_of env) (env_message_type env = ''task.start'') {} new"
    by (auto simp: in_order_def split: sum.splits)
  then show ?thesis using ordered_split [of "cid_of env" _ "{}"] by (metis Un_empty_left)
qed

theorem acceptance_before_effects_witness:
  "\<exists>new. cs_events (snd (handle_command (\<lambda>_. None) ''robot-7'' (RawObject (PDict sample_start)) late_world idle_state)) = new
     \<and> (\<forall>xs e ys. new = xs @ e # ys \<longrightarrow> backed (cid_of sample_env) True (set xs) e)"
proof -
  obtain r s' where run: "handle_command (\<lambda>_. None) ''robot-7'' (RawObject (PDict sample_start)) late_world idle_state = (r, s')"
    by (rule prod.exhaust)
  have "row (cid_of sample_env) idle_state = None" by (simp add: idle_state_def empty_store_def get_processed_command_def)
  from acceptance_before_effects [OF sample_decodes this run] run show ?thesis by (simp add: sample_env_type idle_state_def)
qed

section \<open>The error that is not answered\<close>

lemma not_protocol_case: "(\<forall>c m d. x \<noteq> ProtocolError c m d) \<Longrightarrow> (case x of ProtocolError c m d \<Rightarrow> f c m d | _ \<Rightarrow> g) = g"
  by (cases x) auto

text \<open>The structured log, when there is one: its entries are written and its calls return.\<close>

definition logs_work :: "cmd_world \<Rightarrow> message_envelope \<Rightarrow> bool" where
  "logs_work w env = (wd_has w ''structured_logs'' \<longrightarrow>
     (\<exists>fields. log_context env = Inr fields) \<and> (\<forall>n args. \<exists>v. wd_reply w n (Called ''structured_logs.emit'' args) = Inr v))"

definition logged :: "cmd_state \<Rightarrow> cmd_state \<Rightarrow> bool" where
  "logged s s' = (\<exists>entries. (\<forall>e \<in> set entries. \<exists>args. e = Called ''structured_logs.emit'' args)
     \<and> cs_events s' = cs_events s @ entries \<and> cs_store s' = cs_store s \<and> cs_prepared s' = cs_prepared s)"

lemma logged_trans:
  assumes "logged s s1" "logged s1 s2"
  shows "logged s s2"
proof -
  from assms(1) obtain es where es: "\<forall>e \<in> set es. \<exists>args. e = Called ''structured_logs.emit'' args" "cs_events s1 = cs_events s @ es"
    "cs_store s1 = cs_store s" "cs_prepared s1 = cs_prepared s" unfolding logged_def by blast
  from assms(2) obtain fs where fs: "\<forall>e \<in> set fs. \<exists>args. e = Called ''structured_logs.emit'' args" "cs_events s2 = cs_events s1 @ fs"
    "cs_store s2 = cs_store s1" "cs_prepared s2 = cs_prepared s1" unfolding logged_def by blast
  show ?thesis unfolding logged_def by (rule exI [of _ "es @ fs"]) (use es fs in auto)
qed

lemma structured_logged:
  assumes "logs_work w env"
  shows "\<exists>es. (\<forall>e \<in> set es. \<exists>args. e = Called ''structured_logs.emit'' args)
    \<and> structured level area event_code data env w s = (Inr (), s\<lparr>cs_events := cs_events s @ es\<rparr>)"
proof (cases "wd_has w ''structured_logs''")
  case True
  then obtain fields where fields: "log_context env = Inr fields" using assms by (auto simp: logs_work_def)
  let ?e = "Called ''structured_logs.emit'' [PStr level, PStr area, PStr event_code, data, PDict fields]"
  obtain v where "wd_reply w (length (cs_events s)) ?e = Inr v" using assms True by (fastforce simp: logs_work_def)
  with True fields show ?thesis
    by (intro exI [of _ "[?e]"]) (simp add: structured_def bindC_def thenC_def hasC_def liftC_def callC_def eventC_def returnC_def)
qed (auto intro!: exI [of _ "[]"] simp: structured_def bindC_def hasC_def returnC_def)

lemma early_error_unanswered:
  assumes "checked_command env w s = (Inl x, s1)" "\<forall>c m d. x \<noteq> ProtocolError c m d" "cs_prepared s1 = None" "logs_work w env"
  shows "\<exists>s'. attempt_command env t w s = (Inl UnboundLocalError, s') \<and> logged s1 s'"
proof -
  obtain es where es: "\<forall>e \<in> set es. \<exists>args. e = Called ''structured_logs.emit'' args"
    and log: "structured ''ERROR'' (module_for_command (env_message_type env)) (env_message_type env @ ''.internal_error'')
      (PDict [(''error'', PStr (exc_text x))]) env w s1 = (Inr (), s1\<lparr>cs_events := cs_events s1 @ es\<rparr>)"
    using structured_logged [OF assms(4)] by blast
  from assms(1-3) log have "attempt_command env t w s = (Inl UnboundLocalError, s1\<lparr>cs_events := cs_events s1 @ es\<rparr>)"
    by (simp add: attempt_command_def process_command_def Let_def exceptC_def thenC_def bindC_def not_protocol_case
      on_unexpected_error_def localsC_def raiseC_def)
  with es show ?thesis by (auto simp: logged_def)
qed

lemma version_check_fails:
  assumes "logs_work w env" "env_message_type env \<notin> set unversioned_types"
    and "bindE (dsub (env_payload env) ''expires_at'') (\<lambda>v. expired v (wd_utcnow w (cs_tick s))) = Inr False"
    and "dget (env_payload env) ''expected_robot_state_version'' = PStr v" "parse_int v = None"
  shows "\<exists>s1. checked_command env w s = (Inl ValueError, s1) \<and> logged s s1"
proof -
  obtain es where es: "\<forall>e \<in> set es. \<exists>args. e = Called ''structured_logs.emit'' args"
    and log: "structured ''INFO'' (module_for_command (env_message_type env)) (env_message_type env @ ''.received'') PNone env w s
      = (Inr (), s\<lparr>cs_events := cs_events s @ es\<rparr>)"
    using structured_logged [OF assms(1)] by blast
  from assms(2-5) log have "checked_command env w s = (Inl ValueError, s\<lparr>cs_events := cs_events s @ es, cs_tick := Suc (Suc (cs_tick s))\<rparr>)"
    by (simp add: checked_command_def check_expiry_def validate_expected_state_def state_version_def
      thenC_def bindC_def returnC_def liftC_def utcnowC_def taskC_def tickC_def del: bindE_ok)
  with es show ?thesis by (auto simp: logged_def)
qed

text \<open>C27. An error path that answers nothing. For the first delivery of an unexpired command, of a type whose version is checked,
  whose \<open>expected_robot_state_version\<close> is a text that is no number, the handler leaves with \<open>UnboundLocalError\<close>: the
  \<open>ValueError\<close> of \<open>int()\<close> is raised before \<open>prepared_task_start\<close> is assigned, and the handler for unexpected errors reads that
  variable. The only traces are the entries of the structured log, if the robot has one (and it works): no acknowledgement
  and no result is saved or published, and the table of the processed commands is unchanged, so that the next delivery takes
  the same path.\<close>

theorem malformed_version_unanswered:
  assumes "decode_message json_loads raw = Inr env" "env_robot_id env = robot_id" "has_key (env_payload env) ''command_id''"
    and "row (cid_of env) s = None" "logs_work w env" "env_message_type env \<notin> set unversioned_types"
    and "bindE (dsub (env_payload env) ''expires_at'') (\<lambda>v. expired v (wd_utcnow w (Suc (cs_tick s)))) = Inr False"
    and "dget (env_payload env) ''expected_robot_state_version'' = PStr v" "parse_int v = None"
  shows "\<exists>s' entries. handle_command json_loads robot_id raw w s = (Inl UnboundLocalError, s')
    \<and> st_processed (cs_store s') = st_processed (cs_store s)
    \<and> cs_events s' = cs_events s @ entries \<and> (\<forall>e \<in> set entries. \<exists>args. e = Called ''structured_logs.emit'' args)"
proof -
  let ?s = "fresh_locals s"
  obtain s1 where s1: "checked_command env w ?s = (Inl ValueError, s1)" "logged ?s s1"
    using version_check_fails [of w env ?s v] assms by (auto simp: fresh_locals_def)
  from s1(2) have prepared: "cs_prepared s1 = None" by (auto simp: logged_def fresh_locals_def)
  obtain s' where s': "attempt_command env (wd_iso w (cs_tick s)) w ?s = (Inl UnboundLocalError, s')" "logged s1 s'"
    using early_error_unanswered [OF s1(1) _ prepared assms(5)] by blast
  have "handle_command json_loads robot_id raw w s = (Inl UnboundLocalError, s')"
    using assms(1-4) s'(1)
    by (auto simp: handle_command_def handle_envelope_def thenC_def bindC_def liftC_def storeC_def isoC_def tickC_def dsub_def
      has_key_def fresh_locals_def)
  moreover have "logged ?s s'" by (rule logged_trans [OF s1(2) s'(2)])
  ultimately show ?thesis by (auto simp: logged_def fresh_locals_def)
qed

definition versioned_payload :: pydict where
  "versioned_payload =
     [(''command_id'', PStr ''22222222-2222-4222-8222-222222222222''), (''issued_at'', PStr ''2026-03-01T08:00:00+00:00''),
      (''expires_at'', PStr ''2026-03-01T16:00:30+08:00''), (''command'', PDict []), (''expected_robot_state_version'', PStr ''abc'')]"

definition sample_versioned :: pydict where
  "sample_versioned =
     [(''protocol_version'', PStr ''1.0''), (''message_id'', PStr ''AAAAAAAA-bbbb-4ccc-8ddd-0123456789ab''),
      (''message_type'', PStr ''nav.status''), (''robot_id'', PStr ''robot-7''), (''session_id'', PStr ''s-1''),
      (''sent_at'', PStr ''2026-03-01T08:00:00.000Z''), (''trace_id'', PStr ''11111111222243338444555555555555''),
      (''payload'', PDict versioned_payload)]"

definition versioned_env :: message_envelope where
  "versioned_env = (case decode_message (\<lambda>_. None) (RawObject (PDict sample_versioned)) of Inr env \<Rightarrow> env | Inl _ \<Rightarrow> sample_env)"

lemma versioned_decodes: "decode_message (\<lambda>_. None) (RawObject (PDict sample_versioned)) = Inr versioned_env"
  by code_simp

lemma run_value: "(case v of Inr _ \<Rightarrow> True | Inl _ \<Rightarrow> False) \<Longrightarrow> \<exists>a. v = Inr a"
  by (cases v) simp_all

text \<open>Before the expiry, with a structured log.\<close>

definition early_world :: cmd_world where
  "early_world = late_world\<lparr>wd_utcnow := (\<lambda>_. 0), wd_has := (\<lambda>name. name = ''structured_logs'')\<rparr>"

lemma versioned_fields: "(env_robot_id versioned_env, env_message_type versioned_env, env_payload versioned_env)
    = (''robot-7'', ''nav.status'', versioned_payload)"
  by code_simp

lemma versioned_context: "\<exists>fields. log_context versioned_env = Inr fields"
  by (rule run_value) code_simp

lemma versioned_facts:
  "has_key versioned_payload ''command_id''" "''nav.status'' \<notin> set unversioned_types"
  "bindE (dsub versioned_payload ''expires_at'') (\<lambda>v. expired v 0) = Inr False"
  "dget versioned_payload ''expected_robot_state_version'' = PStr ''abc''" "parse_int ''abc'' = None"
  by code_simp+

theorem malformed_version_unanswered_witness:
  "\<exists>s' entries. handle_command (\<lambda>_. None) ''robot-7'' (RawObject (PDict sample_versioned)) early_world idle_state = (Inl UnboundLocalError, s')
     \<and> get_processed_command (cid_of versioned_env) (cs_store s') = None \<and> cs_events s' = entries \<and> (\<forall>e \<in> set entries. \<exists>args. e = Called ''structured_logs.emit'' args)"
proof -
  have "row (cid_of versioned_env) idle_state = None" "wd_utcnow early_world (Suc (cs_tick idle_state)) = 0"
    "cs_events idle_state = []" "st_processed (cs_store idle_state) = Map.empty"
    by (simp_all add: idle_state_def empty_store_def get_processed_command_def early_world_def)
  moreover have "logs_work early_world versioned_env"
    using versioned_context by (auto simp: logs_work_def early_world_def late_world_def)
  ultimately show ?thesis
    using malformed_version_unanswered [OF versioned_decodes, of "''robot-7''" idle_state early_world "''abc''"] versioned_facts versioned_fields
    by (fastforce simp: get_processed_command_def)
qed

end
