(* ===== verification/CommandMotion.thy ===== *)
theory CommandMotion
  imports CommandOrder
begin

text \<open>
  What the commands can do to the robot: the limits of the velocities that the teleoperation commands send, the order of
  the final localization gate and the activation of the execution group, and the end of a started task.
\<close>

section \<open>Velocity limits\<close>

lemma clamp_range: "0 \<le> limit \<Longrightarrow> \<exists>x. clamp limit v = Fin x \<and> \<bar>x\<bar> \<le> limit"
  by (cases v) (auto simp: clamp_def py_max_def py_min_def)

definition inside :: "real \<Rightarrow> real \<Rightarrow> real \<Rightarrow> pyval list \<Rightarrow> bool" where
  "inside lx ly lr args = (\<exists>a b c. args = [PFloat (Fin a), PFloat (Fin b), PFloat (Fin c)] \<and> \<bar>a\<bar> \<le> lx \<and> \<bar>b\<bar> \<le> ly \<and> \<bar>c\<bar> \<le> lr)"

lemma inside_clamp: "0 \<le> lx \<Longrightarrow> 0 \<le> ly \<Longrightarrow> 0 \<le> lr \<Longrightarrow> inside lx ly lr [PFloat (clamp lx a), PFloat (clamp ly b), PFloat (clamp lr c)]"
  unfolding inside_def using clamp_range [of lx a] clamp_range [of ly b] clamp_range [of lr c] by auto

fun assist_limits :: "event \<Rightarrow> bool" where
  "assist_limits (Called name args) = (name = ''teleop.manual_assist_velocity'' \<longrightarrow> inside (1 / 10) (1 / 10) (1 / 4) args)"
| "assist_limits _ = True"

interpretation assisted: call_policy assist_limits
  by unfold_locales (auto intro: inside_clamp)

fun drive_limits :: "event \<Rightarrow> bool" where
  "drive_limits (Called name args) = (name \<in> {''teleop.teleop_velocity'', ''teleop.manual_assist_velocity''} \<longrightarrow> inside (1 / 2) (1 / 2) (1 / 2) args)"
| "drive_limits _ = True"

interpretation driven: event_policy drive_limits
  by unfold_locales auto

lemma inside_mono: "inside a b c args \<Longrightarrow> a \<le> a' \<Longrightarrow> b \<le> b' \<Longrightarrow> c \<le> c' \<Longrightarrow> inside a' b' c' args"
  unfolding inside_def by (elim exE conjE) (intro exI conjI, auto)

lemma keeps_move_velocity:
  assumes "env_message_type env = ''teleop.move_velocity''"
  shows "keeps (frame drive_limits s0) (execute_teleop env started_at)"
proof -
  have "keeps (frame drive_limits s1) (manual_assist_velocity (clamp (1 / 2) vx) (clamp (1 / 2) vy) (clamp (1 / 2) yr))" for vx vy yr s1
    by (rule driven.keeps_manual_assist_velocity) (auto intro: inside_clamp inside_mono [OF inside_clamp])
  then have action: "keeps (frame drive_limits s1) (teleop_action env ''move_velocity'' command assist)" for s1 command assist
    unfolding teleop_action_def move_action_def moving_actions_def by simp (intro cmd_rules)
  have "teleop_prefix_dropped (env_message_type env) = ''move_velocity''"
    by (simp add: assms teleop_prefix_dropped_def)
  then show ?thesis
    unfolding execute_teleop_def Let_def by (simp only:) (intro cmd_rules action)
qed

text \<open>C23. The limits of manual motion. Whatever a command asks for, and also when a velocity is not a number or infinite,
  every assist velocity that its handler sends is finite and within 0.1 m/s forwards and sideways and 0.25 rad/s; and every
  velocity that \<open>teleop.move_velocity\<close> sends is finite and within 0.5.\<close>

theorem manual_velocity_bounded:
  assumes "execute env started_at w s = (r, s')"
  shows "\<exists>new. cs_events s' = cs_events s @ new \<and> (\<forall>e \<in> set new. assist_limits e)
    \<and> (env_message_type env = ''teleop.move_velocity'' \<longrightarrow> (\<forall>e \<in> set new. drive_limits e))"
proof -
  from frameI [OF assisted.keeps_execute assms] obtain new where new: "cs_events s' = cs_events s @ new" "\<forall>e \<in> set new. assist_limits e"
    by (auto simp: frame_def)
  moreover have "\<forall>e \<in> set new. drive_limits e" if t: "env_message_type env = ''teleop.move_velocity''"
  proof -
    from assms t have "execute_teleop env started_at w s = (r, s')" by (simp add: execute_def)
    from frameI [OF keeps_move_velocity [OF t] this] new(1) show ?thesis by (auto simp: frame_def)
  qed
  ultimately show ?thesis by blast
qed

definition full_speed_payload :: pydict where
  "full_speed_payload = [(''command_id'', PStr ''c''), (''command'', PDict [(''vx'', PFloat NaN), (''vy'', PFloat PosInf)])]"

definition full_speed :: message_envelope where
  "full_speed = sample_env\<lparr>env_message_type := ''teleop.move_velocity'', env_payload := full_speed_payload\<rparr>"

theorem manual_velocity_bounded_witness:
  "\<exists>new. cs_events (snd (execute full_speed ''t'' late_world idle_state)) = new \<and> (\<forall>e \<in> set new. drive_limits e)"
proof -
  obtain r s' where run: "execute full_speed ''t'' late_world idle_state = (r, s')" by (rule prod.exhaust)
  from manual_velocity_bounded [OF run] run show ?thesis by (auto simp: full_speed_def idle_state_def)
qed

section \<open>The gate before the activation\<close>

abbreviation gate_call :: event where
  "gate_call \<equiv> Called ''localization.wait_for_final_localization_gate'' [PFloat (Fin 15), PInt 3]"

definition gate_accepted :: "cmd_world \<Rightarrow> nat \<Rightarrow> bool" where
  "gate_accepted w n = (\<exists>v d. wd_reply w n gate_call = Inr v \<and> as_dict v = Inr d \<and> truthy (dget d ''accepted''))"

text \<open>Events with numbers from \<open>n\<close> on: an accepted gate among them, and every activation after an accepted gate.\<close>

definition gate_passed :: "cmd_world \<Rightarrow> nat \<Rightarrow> event list \<Rightarrow> bool" where
  "gate_passed w n es = (\<exists>j < length es. es ! j = gate_call \<and> gate_accepted w (n + j))"

definition gated :: "cmd_world \<Rightarrow> nat \<Rightarrow> event list \<Rightarrow> bool" where
  "gated w n es = (\<forall>i < length es. (\<exists>a. es ! i = Called ''nav_stack.activate_execution'' a) \<longrightarrow> gate_passed w n (take i es))"

fun calm_event :: "event \<Rightarrow> bool" where
  "calm_event (Called name args) = (name \<noteq> ''nav_stack.activate_execution'')"
| "calm_event _ = True"

interpretation calm: event_policy calm_event
  by unfold_locales auto

lemma gate_passed_append: "gate_passed w n xs \<Longrightarrow> gate_passed w n (xs @ ys)"
  unfolding gate_passed_def by (auto simp: nth_append intro: exI)

lemma gated_append: "gated w n xs \<Longrightarrow> (\<forall>e \<in> set ys. calm_event e) \<or> gate_passed w n xs \<Longrightarrow> gated w n (xs @ ys)"
  unfolding gated_def
proof (intro allI impI)
  fix i
  assume g: "\<forall>i<length xs. (\<exists>a. xs ! i = Called ''nav_stack.activate_execution'' a) \<longrightarrow> gate_passed w n (take i xs)"
    and ys: "(\<forall>e \<in> set ys. calm_event e) \<or> gate_passed w n xs" and i: "i < length (xs @ ys)"
    and a: "\<exists>a. (xs @ ys) ! i = Called ''nav_stack.activate_execution'' a"
  show "gate_passed w n (take i (xs @ ys))"
  proof (cases "i < length xs")
    case True
    with g a show ?thesis by (simp add: nth_append)
  next
    case False
    with a i have "\<exists>e \<in> set ys. \<not> calm_event e" by (auto simp: nth_append) (metis calm_event.simps(1) diff_less_mono nat_le_linear not_le nth_mem add_diff_cancel_left')
    with ys have "gate_passed w n xs" by blast
    with False show ?thesis by (simp add: gate_passed_append)
  qed
qed

definition gates :: "cmd_world \<Rightarrow> cmd_state \<Rightarrow> cmd_state \<Rightarrow> bool" where
  "gates w s0 s = (\<exists>new. cs_events s = cs_events s0 @ new \<and> gated w (length (cs_events s0)) new)"

definition gates_open :: "cmd_world \<Rightarrow> cmd_state \<Rightarrow> cmd_state \<Rightarrow> bool" where
  "gates_open w s0 s = (\<exists>new. cs_events s = cs_events s0 @ new \<and> gated w (length (cs_events s0)) new \<and> gate_passed w (length (cs_events s0)) new)"

lemma gates_openD: "gates_open w s0 s \<Longrightarrow> gates w s0 s"
  by (auto simp: gates_def gates_open_def)

lemma stable_gates: "stable calm_event (gates w s0)" "stable (\<lambda>_. True) (gates_open w s0)"
  by (auto simp: stable_def frame_def gates_def gates_open_def gated_append gate_passed_append)

text \<open>Rules for the parts before the gate, which make no activation.\<close>

lemma calm_part: "(\<And>s1. keeps (frame calm_event s1) m) \<Longrightarrow> triple w (gates w s0) m (\<lambda>_. gates w s0) (gates w s0)"
  by (rule triple_frame [OF stable_gates(1)])

lemma calm_bind: "(\<And>s1. keeps (frame calm_event s1) m) \<Longrightarrow> (\<And>a. triple w (gates w s0) (f a) Q (gates w s0)) \<Longrightarrow>
    triple w (gates w s0) (bindC m f) Q (gates w s0)"
  by (rule triple_bind [OF calm_part])

lemma calm_then: "(\<And>s1. keeps (frame calm_event s1) m) \<Longrightarrow> triple w (gates w s0) n Q (gates w s0) \<Longrightarrow>
    triple w (gates w s0) (thenC m n) Q (gates w s0)"
  by (rule triple_then [OF calm_part])

lemma calm_raise: "triple w (gates w s0) (raiseC x) Q (gates w s0)"
  by (rule triple_raise)

lemma calm_let: "triple w (gates w s0) (f v) Q E \<Longrightarrow> triple w (gates w s0) (Let v f) Q E"
  by simp

lemma open_part: "(\<And>s1. keeps (frame (\<lambda>_. True) s1) m) \<Longrightarrow> triple w (gates_open w s0) m (\<lambda>_. gates_open w s0) (gates w s0)"
  by (rule triple_quiet [OF stable_gates(2)]) (auto intro: gates_openD)

interpretation free: call_policy "\<lambda>_. True"
  by unfold_locales simp_all

lemma triple_gate:
  assumes "wd_has w ''localization.wait_for_final_localization_gate''"
  shows "triple w (gates w s0) wait_for_command_final_localization_gate (\<lambda>_. gates_open w s0) (gates w s0)"
proof -
  have calm: "gates w s0 (s\<lparr>cs_events := cs_events s @ [gate_call]\<rparr>)" if "gates w s0 s" for s
    using that gated_append [of w "length (cs_events s0)" _ "[gate_call]"] by (force simp: gates_def)
  have "gates_open w s0 (s\<lparr>cs_events := cs_events s @ [gate_call]\<rparr>)" if "gates w s0 s" "gate_accepted w (length (cs_events s))" for s
    using that gated_append [of w "length (cs_events s0)" _ "[gate_call]"]
    by (force simp: gates_def gates_open_def gate_passed_def nth_append)
  with calm assms show ?thesis
    unfolding wait_for_command_final_localization_gate_def call_or_empty_def callC_def
    by (auto simp: triple_def bindC_def hasC_def eventC_def liftC_def returnC_def raiseC_def gate_accepted_def split: sum.splits)
qed

lemma triple_gate_then:
  assumes "wd_has w ''localization.wait_for_final_localization_gate''"
    and "\<And>g s1. keeps (frame (\<lambda>_. True) s1) (k g)"
  shows "triple w (gates w s0) (bindC wait_for_command_final_localization_gate k) (\<lambda>_. gates_open w s0) (gates w s0)"
  by (rule triple_bind [OF triple_gate [OF assms(1)] open_part [OF assms(2)]])

lemma triple_correct_and_gate:
  assumes "wd_has w ''localization.wait_for_final_localization_gate''"
  shows "triple w (gates w s0) (correct_and_gate env command wps evidence ndt) (\<lambda>_. gates_open w s0) (gates w s0)"
  unfolding correct_and_gate_def
  by (intro calm_let triple_if calm_then triple_gate_then [OF assms] calm_bind cmd_rules) auto

lemma triple_localized:
  assumes "wd_has w ''localization.wait_for_final_localization_gate''"
  shows "triple w (gates w s0) (run_navigation_command_localization env command) (\<lambda>_. gates_open w s0) (gates w s0)"
  unfolding run_navigation_command_localization_def
  by (intro calm_let triple_if calm_then triple_correct_and_gate [OF assms] calm_bind calm_raise cmd_rules) auto

lemma triple_localized_then:
  assumes "wd_has w ''localization.wait_for_final_localization_gate''"
    and "\<And>g s1. keeps (frame (\<lambda>_. True) s1) (k g)"
  shows "triple w (gates w s0) (bindC (run_navigation_command_localization env command) k) (\<lambda>_. gates w s0) (gates w s0)"
  by (rule triple_conseq [OF triple_bind [OF triple_localized [OF assms(1)] open_part [OF assms(2)]]]) (auto intro: gates_openD)

lemma calm_return: "triple w (gates w s0) (returnC a) (\<lambda>_. gates w s0) (gates w s0)"
  by (rule triple_return)

lemma calm_has: "triple w (gates w s0) (f (wd_has w name)) Q E \<Longrightarrow> triple w (gates w s0) (bindC (hasC name) f) Q E"
  by (simp add: triple_def bindC_def hasC_def)

lemma calm_except: "triple w (gates w s0) m Q (gates w s0) \<Longrightarrow> (\<And>x. triple w (gates w s0) (h x) Q (gates w s0)) \<Longrightarrow>
    triple w (gates w s0) (exceptC m h) Q (gates w s0)"
  by (rule triple_except)

lemma calm_finally: "triple w (gates w s0) m (\<lambda>_. gates w s0) (gates w s0) \<Longrightarrow>
    triple w (gates w s0) f (\<lambda>_. gates w s0) (gates w s0) \<Longrightarrow> triple w (gates w s0) (finallyC m f) (\<lambda>_. gates w s0) (gates w s0)"
  by (rule triple_finally)

lemma calm_lock:
  assumes "triple w (gates w s0) m (\<lambda>_. gates w s0) (gates w s0)" "triple w (gates w s0) busy (\<lambda>_. gates w s0) (gates w s0)"
  shows "triple w (gates w s0) (with_lock name busy m) (\<lambda>_. gates w s0) (gates w s0)"
proof -
  have g: "gates w s0 (s\<lparr>cs_tick := t, cs_held := h\<rparr>) = gates w s0 s" "gates w s0 (s\<lparr>cs_tick := t\<rparr>) = gates w s0 s"
    "gates w s0 (s\<lparr>cs_held := h\<rparr>) = gates w s0 s" for s t h
    by (simp_all add: gates_def)
  have "triple w (gates w s0) (releaseC name) (\<lambda>_. gates w s0) (gates w s0)" by (simp add: triple_def releaseC_def g)
  with assms(1) have "triple w (gates w s0) (finallyC m (releaseC name)) (\<lambda>_. gates w s0) (gates w s0)" by (rule calm_finally)
  moreover have "triple w (gates w s0) (acquireC name) (\<lambda>_. gates w s0) (gates w s0)" by (simp add: triple_def acquireC_def g)
  ultimately show ?thesis
    unfolding with_lock_def using assms(2) by (auto intro: triple_bind)
qed

lemma calm_answered:
  "triple w (gates w s0) m (\<lambda>_. gates w s0) (gates w s0) \<Longrightarrow> triple w (gates w s0) (answered env started_at m) (\<lambda>_. gates w s0) (gates w s0)"
  unfolding answered_def by (erule triple_bind) (intro calm_bind calm_return cmd_rules)

lemma triple_prepared_lifecycle:
  assumes "wd_has w ''localization.wait_for_final_localization_gate''"
  shows "triple w (gates w s0) (prepared_lifecycle env command) (\<lambda>_. gates w s0) (gates w s0)"
  unfolding prepared_lifecycle_def
  by (intro calm_then triple_localized_then [OF assms] calm_bind cmd_rules) auto

lemma triple_localize_activated_map:
  assumes "wd_has w ''localization.wait_for_final_localization_gate''"
  shows "triple w (gates w s0) (localize_activated_map env started_at localization_command activated) (\<lambda>_. gates w s0) (gates w s0)"
  unfolding localize_activated_map_def
  by (intro calm_then triple_localized_then [OF assms] calm_bind cmd_rules) auto

lemma triple_map_activate:
  assumes "wd_has w ''localization.wait_for_final_localization_gate''"
  shows "triple w (gates w s0) (map_activate env started_at command) (\<lambda>_. gates w s0) (gates w s0)"
proof -
  have "triple w (gates w s0) (finallyC (exceptC (localize_activated_map env started_at c m) undo_activation) (set_progress PNone)) (\<lambda>_. gates w s0) (gates w s0)" for c m
    by (intro calm_finally calm_except triple_localize_activated_map [OF assms] calm_part cmd_rules)
  then show ?thesis
    unfolding map_activate_def by (intro calm_then calm_bind triple_if calm_return cmd_rules) auto
qed

lemma gated_iff: "gated w n es \<longleftrightarrow> (\<forall>i < length es. (\<exists>a. es ! i = Called ''nav_stack.activate_execution'' a) \<longrightarrow>
    (\<exists>j < i. es ! j = gate_call \<and> gate_accepted w (n + j)))"
  by (simp add: gated_def gate_passed_def cong: conj_cong)

text \<open>C16. No autonomous motion before the final gate. On a deployment with the prepare step and the final localization gate,
  whenever \<open>nav.start\<close>, \<open>nav.restart\<close>, \<open>nav.recover\<close> or \<open>map.activate\<close> activates the execution group of the navigation
  stack, the final localization gate was called before in the same command and answered that it accepts. This holds on every
  path, also when an adapter raises.\<close>

theorem activation_after_final_gate:
  assumes "execute env started_at w s = (r, s')"
    and "env_message_type env \<in> {''nav.start'', ''nav.restart'', ''nav.recover'', ''map.activate''}"
    and "wd_has w ''localization.wait_for_final_localization_gate''" "wd_has w ''nav_stack.prepare''" "wd_has w ''localization''"
  shows "\<exists>new. cs_events s' = cs_events s @ new \<and>
    (\<forall>i < length new. (\<exists>a. new ! i = Called ''nav_stack.activate_execution'' a) \<longrightarrow>
       (\<exists>j < i. new ! j = gate_call \<and> gate_accepted w (length (cs_events s) + j)))"
proof -
  let ?ok = "\<lambda>m. triple w (gates w s) m (\<lambda>_. gates w s) (gates w s)"
  have "?ok (stack_lifecycle env command)" if "env_message_type env \<in> {''nav.start'', ''nav.restart'', ''nav.recover''}" for command
    unfolding stack_lifecycle_def using that assms(4,5) triple_prepared_lifecycle [OF assms(3)]
    by (intro calm_then cmd_rules) (auto intro!: calm_has)
  then have "?ok (execute env started_at)" if "env_message_type env \<in> {''nav.start'', ''nav.restart'', ''nav.recover''}"
    using that by (auto simp: execute_def execute_navigation_def nav_busy_def intro!: calm_bind calm_answered calm_lock calm_raise cmd_rules)
  moreover have "?ok (execute env started_at)" if "env_message_type env = ''map.activate''"
    using that triple_map_activate [OF assms(3)]
    by (auto simp: execute_def execute_map_def intro!: calm_then calm_bind calm_answered cmd_rules)
  ultimately have "?ok (execute env started_at)" using assms(2) by blast
  moreover have "gates w s s" by (simp add: gates_def gated_def)
  ultimately have "gates w s s'" using assms(1) by (cases r) (auto dest: tripleD tripleE)
  then show ?thesis
    unfolding gates_def gated_iff .
qed

text \<open>A deployment whose adapters answer every call with an acceptance.\<close>

definition ready_world :: cmd_world where
  "ready_world = late_world\<lparr>wd_has := (\<lambda>n. n \<in> {''localization'', ''nav_stack'', ''nav_stack.prepare'', ''nav_stack.activate_execution'',
       ''localization.wait_for_final_localization_gate'', ''localization.progressive_relocalize'', ''navigation.wait_until_ready''}),
     wd_reply := (\<lambda>_ _. Inr (PDict [(''accepted'', PBool True)]))\<rparr>"

definition nav_start :: message_envelope where
  "nav_start = \<lparr>env_protocol_version = ''1.0'', env_message_id = ''m'', env_message_type = ''nav.start'', env_robot_id = ''robot-7'',
     env_session_id = ''s'', env_sent_at = \<lparr>dt_wall = 0, dt_offset = Some 0\<rparr>, env_trace_id = ''t'', env_sequence = PNone,
     env_payload = [(''command'', PDict [])], env_raw = []\<rparr>"

theorem activation_after_final_gate_witness:
  "\<exists>new. cs_events (snd (execute nav_start ''t'' ready_world idle_state)) = new \<and>
    (\<forall>i < length new. (\<exists>a. new ! i = Called ''nav_stack.activate_execution'' a) \<longrightarrow> (\<exists>j < i. new ! j = gate_call \<and> gate_accepted ready_world j))"
proof -
  obtain r s' where run: "execute nav_start ''t'' ready_world idle_state = (r, s')" by (rule prod.exhaust)
  have "\<exists>new. cs_events s' = cs_events idle_state @ new \<and>
    (\<forall>i < length new. (\<exists>a. new ! i = Called ''nav_stack.activate_execution'' a) \<longrightarrow>
       (\<exists>j < i. new ! j = gate_call \<and> gate_accepted ready_world (length (cs_events idle_state) + j)))"
    by (rule activation_after_final_gate [OF run]) (simp_all add: nav_start_def ready_world_def)
  then show ?thesis using run by (simp add: idle_state_def)
qed

section \<open>The end of a started task\<close>

text \<open>The events of this delivery.\<close>

definition since :: "cmd_state \<Rightarrow> cmd_state \<Rightarrow> event set" where
  "since s0 s = set (drop (length (cs_events s0)) (cs_events s))"

abbreviation launch :: event where
  "launch \<equiv> Called ''task.launch_prepared_task'' []"

definition grown :: "cmd_state \<Rightarrow> cmd_state \<Rightarrow> bool" where
  "grown s0 s = (length (cs_events s0) \<le> length (cs_events s))"

lemma since_frame: "frame P s s' \<Longrightarrow> grown s0 s \<Longrightarrow> grown s0 s' \<and> since s0 s \<subseteq> since s0 s'"
  by (auto simp: frame_def grown_def since_def)

lemma since_event: "grown s0 s \<Longrightarrow> since s0 (s\<lparr>cs_events := cs_events s @ [e]\<rparr>) = insert e (since s0 s)"
  by (auto simp: grown_def since_def)

interpretation unlaunched: drive_policy "\<lambda>e. e \<noteq> launch"
  by unfold_locales auto

text \<open>What an acknowledgement says.\<close>

definition ack_says :: "string \<Rightarrow> pyval \<Rightarrow> bool" where
  "ack_says word a = (case a of PDict m \<Rightarrow> (case dget m ''payload'' of PDict p \<Rightarrow> dget p ''ack'' = PStr word | _ \<Rightarrow> False) | _ \<Rightarrow> False)"

lemma build_ack_says: "build_ack fr env accepted v code message dup = Inr m \<Longrightarrow> ack_says (if accepted then ''accepted'' else ''rejected'') (PDict m)"
  by (auto simp: build_ack_def reply_def build_envelope_def ack_says_def dget_def split: if_splits)

definition untouched :: "cmd_state \<Rightarrow> cmd_state \<Rightarrow> bool" where
  "untouched s0 s = (grown s0 s \<and> cs_ack s = None \<and> launch \<notin> since s0 s)"

definition begun :: "cmd_state \<Rightarrow> pyval \<Rightarrow> cmd_state \<Rightarrow> bool" where
  "begun s0 a s = (grown s0 s \<and> cs_ack s = Some a \<and> ack_says ''accepted'' a \<and> cs_prepared s = Some True)"

definition interrupted :: "cmd_state \<Rightarrow> cmd_state \<Rightarrow> bool" where
  "interrupted s0 s = (grown s0 s \<and> (cs_ack s = None \<longrightarrow> launch \<notin> since s0 s)
     \<and> (\<forall>a. cs_ack s = Some a \<longrightarrow> cs_prepared s = Some True \<and> ack_says ''accepted'' a))"

definition launched :: "cmd_state \<Rightarrow> cmd_state \<Rightarrow> bool" where
  "launched s0 s = (grown s0 s \<and> launch \<in> since s0 s)"

lemma unlaunched_frame: "frame (\<lambda>e. e \<noteq> launch) s s' \<Longrightarrow> grown s0 s \<Longrightarrow> launch \<notin> since s0 s \<Longrightarrow> launch \<notin> since s0 s'"
  by (auto simp: frame_def grown_def since_def)

lemma stable_start [simp]: "stable (\<lambda>e. e \<noteq> launch) (untouched s0)" "stable (\<lambda>_. True) (begun s0 a)" "stable (\<lambda>_. True) (launched s0)"
  "stable (\<lambda>e. e \<noteq> launch) (\<lambda>s. untouched s0 s \<and> cs_prepared s = p)" "stable (\<lambda>_. True) (\<lambda>s. begun s0 a s \<and> launched s0 s)"
  by (auto simp: stable_def untouched_def begun_def launched_def frame_def [of _ _ "_ :: cmd_state"]
    dest: unlaunched_frame since_frame) (auto simp: frame_def grown_def since_def)

lemma untouched_interrupted: "untouched s0 s \<Longrightarrow> interrupted s0 s"
  by (simp add: untouched_def interrupted_def)

lemma begun_interrupted: "begun s0 a s \<Longrightarrow> interrupted s0 s"
  by (simp add: begun_def interrupted_def)

lemma begun_part: "(\<And>s1. keeps (frame (\<lambda>_. True) s1) m) \<Longrightarrow> triple w (begun s0 a) m (\<lambda>_. begun s0 a) (interrupted s0)"
  by (rule triple_quiet [OF stable_start(2)]) (auto intro: begun_interrupted)

lemma launched_part:
  "(\<And>s1. keeps (frame (\<lambda>_. True) s1) m) \<Longrightarrow>
    triple w (\<lambda>s. begun s0 a s \<and> launched s0 s) m (\<lambda>_ s. begun s0 a s \<and> launched s0 s) (interrupted s0)"
  by (rule triple_quiet [OF stable_start(5)]) (auto intro: begun_interrupted)

lemma triple_launch: "triple w (begun s0 a) (callC ''task.launch_prepared_task'' []) (\<lambda>_ s. begun s0 a s \<and> launched s0 s) (begun s0 a)"
  by (auto simp: triple_def callC_def eventC_def begun_def launched_def since_event grown_def split: sum.split)

lemma triple_start_accepted:
  "triple w (begun s0 a) (start_accepted_task env started_at) (\<lambda>_ s. begun s0 a s \<and> launched s0 s) (interrupted s0)"
  unfolding start_accepted_task_def launch_accepted_task_def
  by (intro triple_bind [OF begun_part] triple_then [OF begun_part] triple_then [OF triple_except [OF triple_launch]]
      triple_bind [OF launched_part] launched_part cmd_rules)
    (auto intro!: triple_bind [OF begun_part] triple_then [OF begun_part] triple_raise cmd_rules begun_interrupted)

lemma triple_ack_says:
  assumes "stable P I"
  shows "triple w I (ack_message env b code message)
    (\<lambda>a s. \<exists>s1. I s1 \<and> s = s1\<lparr>cs_ack := Some a\<rparr> \<and> ack_says (if b then ''accepted'' else ''rejected'') a) I"
  unfolding ack_message_def state_version_def
proof (intro triple_bind)
  show "triple w I taskC (\<lambda>_. I) I" "triple w I freshC (\<lambda>_. I) I" "triple w I (returnC v) (\<lambda>_. I) I" for v :: int
    by (rule triple_frame [OF assms], rule cmd_rules)+
  let ?word = "if b then ''accepted'' else ''rejected''"
  show "triple w I (liftC (build_ack fr env b v code message False)) (\<lambda>m s. I s \<and> ack_says ?word (PDict m)) I" for fr v
    using build_ack_says by (fastforce simp: triple_def liftC_def split: sum.split)
  show "triple w (\<lambda>s. I s \<and> ack_says ?word (PDict m)) (thenC (set_ack (PDict m)) (returnC (PDict m)))
      (\<lambda>a s. \<exists>s1. I s1 \<and> s = s1\<lparr>cs_ack := Some a\<rparr> \<and> ack_says ?word a) I" for m
    by (auto simp: triple_def thenC_def bindC_def set_ack_def returnC_def)
qed

lemma keeps_answers: "keeps (frame (\<lambda>_. True) s0) (publish_command_ack cid a)" "keeps (frame (\<lambda>_. True) s0) (publish_command_result cid a)"
  unfolding publish_command_ack_def publish_command_result_def by (intro cmd_rules; simp)+

lemma begun_saves: "triple w (begun s0 a) (seq_valueC [save_ack cid b, publish_command_ack cid b] v) (\<lambda>u s. u = v \<and> begun s0 a s) (interrupted s0)"
  by (auto simp: triple_def saving_defs begun_def interrupted_def grown_def split: sum.split)

lemma triple_accept_start:
  "triple w (\<lambda>s. untouched s0 s \<and> cs_prepared s = Some True) (accept_command env) (\<lambda>a. begun s0 a) (interrupted s0)"
  unfolding accept_command_def
proof (rule triple_bind)
  show "triple w (\<lambda>s. untouched s0 s \<and> cs_prepared s = Some True) (ack_message env True [] []) (\<lambda>a. begun s0 a) (interrupted s0)"
    by (rule triple_conseq [OF triple_ack_says [OF stable_start(4)]])
      (auto simp: begun_def untouched_def grown_def interrupted_def)
  show "triple w (begun s0 a) (seq_valueC [save_ack cid a, publish_command_ack cid a] a) (\<lambda>a. begun s0 a) (interrupted s0)" for a cid
    by (rule triple_conseq [OF begun_saves]) auto
qed

lemma triple_process_start:
  assumes "env_message_type env = ''task.start''"
  shows "triple w (untouched s0) (process_command env started_at)
    (\<lambda>u s. snd u = None \<and> ack_says ''accepted'' (fst u) \<and> launch \<in> since s0 s) (interrupted s0)"
  unfolding process_command_def Let_def
proof (intro triple_then triple_bind)
  let ?Z = "\<lambda>s. untouched s0 s \<and> cs_prepared s = Some True"
  show "triple w (untouched s0) (checked_command env) (\<lambda>_. untouched s0) (interrupted s0)"
    by (rule triple_quiet [OF stable_start(1)]) (auto intro: unlaunched.keeps_checked_command untouched_interrupted)
  show "triple w (untouched s0) (set_prepared (env_message_type env = ''task.start'')) (\<lambda>_. ?Z) (interrupted s0)"
    by (simp add: triple_def set_prepared_def untouched_def grown_def since_def assms)
  show "triple w ?Z (whenC (env_message_type env = ''task.start'') (admit_task_start env)) (\<lambda>_. ?Z) (interrupted s0)"
    by (rule triple_quiet [OF stable_start(4)]) (auto intro!: keeps_when unlaunched.keeps_admit_task_start untouched_interrupted)
  show "triple w ?Z (accept_command env) (\<lambda>a. begun s0 a) (interrupted s0)"
    by (rule triple_accept_start)
  show "triple w (begun s0 a) (if env_message_type env = ''task.start'' then thenC (start_accepted_task env started_at) (returnC None) else execute env started_at)
      (\<lambda>r s. r = None \<and> begun s0 a s \<and> launched s0 s) (interrupted s0)" for a
    by (simp add: assms) (rule triple_then [OF triple_start_accepted triple_return], simp)
  show "triple w (\<lambda>s. r = None \<and> begun s0 a s \<and> launched s0 s) (case r of None \<Rightarrow> returnC (a, None)
      | Some m \<Rightarrow> seq_valueC [save_result (cid_of env) (PDict m), publish_command_result (cid_of env) (PDict m)] (a, Some (PDict m)))
      (\<lambda>u s. snd u = None \<and> ack_says ''accepted'' (fst u) \<and> launch \<in> since s0 s) (interrupted s0)" for a and r :: "pydict option"
    by (cases r) (auto intro: triple_return simp: begun_def launched_def, simp add: triple_def)
qed

definition start_outcome :: "cmd_state \<Rightarrow> pyval \<Rightarrow> pyval \<times> pyval option \<Rightarrow> cmd_state \<Rightarrow> bool" where
  "start_outcome s0 eid u s =
     (case snd u of
        None \<Rightarrow> ack_says ''accepted'' (fst u) \<and> launch \<in> since s0 s \<or> ack_says ''rejected'' (fst u) \<and> launch \<notin> since s0 s
      | Some _ \<Rightarrow> fst u = PNone \<and> launch \<notin> since s0 s
          \<or> ack_says ''accepted'' (fst u) \<and> Called ''task.force_exit'' [eid, PBool False] \<in> since s0 s)"

definition cleared :: "cmd_state \<Rightarrow> pyval \<Rightarrow> cmd_state \<Rightarrow> bool" where
  "cleared s0 eid s = (grown s0 s \<and> Called ''task.force_exit'' [eid, PBool False] \<in> since s0 s)"

lemma stable_cleared: "stable (\<lambda>_. True) (cleared s0 eid)"
  by (auto simp: stable_def cleared_def dest: since_frame)

lemma triple_force_exit:
  assumes "dsub (env_payload env) ''task_execution_id'' = Inr eid"
  shows "triple w (grown s0) (force_exit_quietly env) (\<lambda>_. cleared s0 eid) (\<lambda>_. True)"
  by (auto simp: triple_def force_exit_quietly_def exceptC_def thenC_def bindC_def liftC_def returnC_def callC_def eventC_def
    assms cleared_def grown_def since_def split: sum.split)

lemma keeps_failed_result:
  "keeps (cleared s0 eid) (failed_result env started_at details code message)"
proof -
  have "keeps (cleared s0 eid) (result_message env ''failed'' details started_at code message)"
    by (rule keeps_stable [OF stable_cleared free.keeps_result_message])
  moreover have "keeps (cleared s0 eid) (save_result cid r)" "keeps (cleared s0 eid) (publish_command_result cid r)" for cid r
    by (auto simp: keeps_def saving_defs cleared_def grown_def since_def split: sum.splits)
  ultimately show ?thesis unfolding failed_result_def by (intro cmd_rules)
qed

text \<open>The end of a handler after the task was prepared.\<close>

lemma triple_clear:
  assumes "dsub (env_payload env) ''task_execution_id'' = Inr eid" "ack_says ''accepted'' a"
  shows "triple w (grown s0) (thenC (force_exit_quietly env)
     (bindC (failed_result env started_at details code message) (\<lambda>r. returnC (a, Some r)))) (start_outcome s0 eid) (\<lambda>_. True)"
  by (rule triple_then [OF triple_force_exit [OF assms(1)]], rule triple_bind [OF triple_keeps [OF keeps_failed_result]])
    (use assms(2) in \<open>auto intro: triple_return simp: start_outcome_def cleared_def\<close>)

text \<open>An error before any acknowledgement: nothing was launched.\<close>

definition idle_since :: "cmd_state \<Rightarrow> cmd_state \<Rightarrow> bool" where
  "idle_since s0 s = (grown s0 s \<and> launch \<notin> since s0 s)"

lemma stable_idle: "stable (\<lambda>e. e \<noteq> launch) (idle_since s0)"
  by (auto simp: stable_def idle_since_def dest: since_frame unlaunched_frame)

lemma keeps_idle_result: "keeps (idle_since s0) (failed_result env started_at details code message)"
proof -
  have "keeps (idle_since s0) (result_message env ''failed'' details started_at code message)"
    by (rule keeps_stable [OF stable_idle unlaunched.keeps_result_message])
  moreover have "keeps (idle_since s0) (save_result cid r)" "keeps (idle_since s0) (publish_command_result cid r)" for cid r
    by (auto simp: keeps_def saving_defs idle_since_def grown_def since_def split: sum.splits)
  ultimately show ?thesis unfolding failed_result_def by (intro cmd_rules)
qed

lemma triple_unanswered:
  "triple w (idle_since s0) (bindC (failed_result env started_at details code message) (\<lambda>r. returnC (PNone, Some r)))
     (start_outcome s0 eid) (\<lambda>_. True)"
  by (rule triple_bind [OF triple_keeps [OF keeps_idle_result]]) (auto intro: triple_return simp: start_outcome_def idle_since_def)

lemma stable_interrupted: "stable (\<lambda>e. e \<noteq> launch) (interrupted s0)"
  unfolding stable_def
proof (intro allI impI)
  fix s s'
  assume i: "interrupted s0 s" and f: "frame (\<lambda>e. e \<noteq> launch) s s'"
  then have "cs_ack s' = cs_ack s" "cs_prepared s' = cs_prepared s" by (simp_all add: frame_def)
  with i since_frame [OF f] unlaunched_frame [OF f] show "interrupted s0 s'" by (simp add: interrupted_def)
qed

lemma stable_interrupted_locals: "stable (\<lambda>e. e \<noteq> launch) (\<lambda>s. interrupted s0 s \<and> cs_ack s = a \<and> cs_prepared s = p)"
  using stable_interrupted [of s0] by (auto simp: stable_def frame_def)

lemma triple_start_protocol_error:
  assumes "dsub (env_payload env) ''task_execution_id'' = Inr eid"
  shows "triple w (interrupted s0) (on_protocol_error env started_at code message details) (start_outcome s0 eid) (\<lambda>_. True)"
  unfolding on_protocol_error_def
proof (rule triple_bind [OF triple_locals], rule triple_then)
  fix l :: "pyval option \<times> bool option"
  let ?I = "\<lambda>s. interrupted s0 s \<and> cs_ack s = fst l \<and> cs_prepared s = snd l"
  note st = stable_interrupted_locals [of s0 "fst l" "snd l"]
  show "triple w ?I (structured level area event_code data env) (\<lambda>_. ?I) (\<lambda>_. True)" for level area event_code data
    by (rule triple_quiet [OF st unlaunched.keeps_structured]) simp
  show "triple w ?I (case fst l of None \<Rightarrow> bindC (ack_message env False code message)
        (\<lambda>ack. seq_valueC [save_ack (cid_of env) ack, publish_command_ack (cid_of env) ack] (ack, None))
      | Some ack \<Rightarrow> (case snd l of None \<Rightarrow> raiseC UnboundLocalError
          | Some prepared \<Rightarrow> thenC (whenC prepared (force_exit_quietly env))
              (bindC (failed_result env started_at (dict_or_empty details) code message) (\<lambda>r. returnC (ack, Some r)))))
      (start_outcome s0 eid) (\<lambda>_. True)"
  proof (cases "fst l")
    case None
    let ?R = "\<lambda>a s. grown s0 s \<and> launch \<notin> since s0 s \<and> ack_says ''rejected'' a"
    have "triple w ?I (ack_message env False code message) ?R (\<lambda>_. True)"
      by (rule triple_conseq [OF triple_ack_says [OF st]]) (auto simp: None interrupted_def grown_def since_def)
    moreover have "triple w (?R a) (seq_valueC [save_ack cid a, publish_command_ack cid a] (a, None)) (start_outcome s0 eid) (\<lambda>_. True)" for a cid
      by (auto simp: triple_def saving_defs start_outcome_def grown_def since_def split: sum.split)
    ultimately show ?thesis by (simp add: None triple_bind)
  next
    case (Some ack)
    have clear: "triple w ?I (thenC (force_exit_quietly env)
        (bindC (failed_result env started_at (dict_or_empty details) code message) (\<lambda>r. returnC (ack, Some r)))) (start_outcome s0 eid) (\<lambda>_. True)"
      if "ack_says ''accepted'' ack"
      by (rule triple_conseq [OF triple_clear [OF assms that]]) (auto simp: interrupted_def)
    have "\<not> ?I s" if "\<not> (snd l = Some True \<and> ack_says ''accepted'' ack)" for s
      using that Some by (auto simp: interrupted_def)
    with clear show ?thesis
      by (cases "snd l = Some True \<and> ack_says ''accepted'' ack") (simp add: Some whenC_def, rule triple_vacuous, blast)
  qed
qed

lemma triple_start_unexpected_error:
  assumes "dsub (env_payload env) ''task_execution_id'' = Inr eid"
  shows "triple w (interrupted s0) (on_unexpected_error env started_at x) (start_outcome s0 eid) (\<lambda>_. True)"
  unfolding on_unexpected_error_def
proof (intro triple_then triple_bind)
  note st = stable_interrupted [of s0]
  show "triple w (interrupted s0) (structured level area event_code data env) (\<lambda>_. interrupted s0) (\<lambda>_. True)" for level area event_code data
    by (rule triple_quiet [OF st unlaunched.keeps_structured]) simp
  show "triple w (interrupted s0) localsC (\<lambda>l s. interrupted s0 s \<and> cs_ack s = fst l \<and> cs_prepared s = snd l) (\<lambda>_. True)"
    by (rule triple_locals)
  fix l :: "pyval option \<times> bool option"
  let ?I = "\<lambda>s. interrupted s0 s \<and> cs_ack s = fst l \<and> cs_prepared s = snd l"
  let ?m = "\<lambda>a. bindC (failed_result env started_at [] ''INTERNAL_ERROR'' (exc_text x)) (\<lambda>r. returnC (a, Some r))"
  have unanswered: "triple w ?I (thenC (whenC False m) (?m PNone)) (start_outcome s0 eid) (\<lambda>_. True)" if "fst l = None" for m
  proof (rule triple_then)
    show "triple w ?I (whenC False m) (\<lambda>_. idle_since s0) (\<lambda>_. True)"
      using that by (auto simp: whenC_def interrupted_def idle_since_def intro: triple_return)
  qed (rule triple_unanswered)
  have clear: "triple w ?I (thenC (force_exit_quietly env) (?m a)) (start_outcome s0 eid) (\<lambda>_. True)" if "ack_says ''accepted'' a" for a
    by (rule triple_conseq [OF triple_clear [OF assms that]]) (auto simp: interrupted_def)
  have impossible: "\<not> ?I s" if "fst l = Some a" "\<not> (snd l = Some True \<and> ack_says ''accepted'' a)" for s a
    using that by (auto simp: interrupted_def)
  show "triple w ?I (case snd l of None \<Rightarrow> raiseC UnboundLocalError
      | Some prepared \<Rightarrow> thenC (whenC (prepared \<and> fst l \<noteq> None) (force_exit_quietly env))
          (bindC (failed_result env started_at [] ''INTERNAL_ERROR'' (exc_text x)) (\<lambda>r.
             returnC (case fst l of None \<Rightarrow> PNone | Some ack \<Rightarrow> ack, Some r)))) (start_outcome s0 eid) (\<lambda>_. True)"
  proof (cases "fst l")
    case None
    with unanswered [OF None] show ?thesis by (cases "snd l") (auto intro: triple_raise)
  next
    case (Some a)
    show ?thesis
    proof (cases "snd l = Some True \<and> ack_says ''accepted'' a")
      case True
      with Some clear show ?thesis by (simp add: whenC_def)
    next
      case False
      with impossible [OF Some] show ?thesis by (intro triple_vacuous) blast
    qed
  qed
qed

text \<open>C19. A first \<open>task.start\<close> has one of four ends. When its handler returns without a result, either the acknowledgement says
  accepted and the prepared task was launched, or it says rejected and nothing was launched. When it returns a failure result,
  either the acknowledgement says accepted and the task executor was then called to drop the prepared task, so that a failed start
  does not leave the robot busy (an exception of that call is only logged), or the error came before any acknowledgement
  and nothing was launched.\<close>

theorem start_launched_or_cleared:
  assumes "decode_message json_loads raw = Inr env" "row (cid_of env) s = None"
    and "handle_command json_loads robot_id raw w s = (Inr u, s')"
    and "env_message_type env = ''task.start''" "dsub (env_payload env) ''task_execution_id'' = Inr eid"
  shows "start_outcome s eid u s'"
proof -
  have run: "handle_envelope robot_id env w s = (Inr u, s')"
    using assms(1,3) by (simp add: handle_command_def bindC_def liftC_def)
  have "triple w (untouched s) (process_command env t) (start_outcome s eid) (interrupted s)" for t
    by (rule triple_conseq [OF triple_process_start [OF assms(4)]]) (auto simp: start_outcome_def)
  then have "case Inr u :: pyexc + _ of Inr u \<Rightarrow> start_outcome s eid u s' | Inl x \<Rightarrow> True"
    by (rule first_delivery_rule [OF assms(2) run, of "untouched s" "\<lambda>_. True", rotated 2])
      (auto intro: triple_start_protocol_error [OF assms(5)] triple_start_unexpected_error [OF assms(5)]
         simp: untouched_def fresh_locals_def grown_def since_def)
  then show ?thesis by simp
qed

theorem start_launched_or_cleared_witness:
  "\<exists>u s'. handle_command (\<lambda>_. None) ''robot-7'' (RawObject (PDict sample_start)) late_world idle_state = (Inr u, s')
     \<and> start_outcome idle_state (PStr ''33333333-3333-4333-8333-333333333333'') u s'"
proof -
  from redelivery_run obtain u s' where run: "handle_command (\<lambda>_. None) ''robot-7'' (RawObject (PDict sample_start)) late_world idle_state = (Inr u, s')"
    by blast
  have "row (cid_of sample_env) idle_state = None" by (simp add: idle_state_def empty_store_def get_processed_command_def)
  moreover have "dsub (env_payload sample_env) ''task_execution_id'' = Inr (PStr ''33333333-3333-4333-8333-333333333333'')" by code_simp
  ultimately show ?thesis using start_launched_or_cleared [OF sample_decodes _ run sample_env_type] run by blast
qed

end
