(* ===== verification/RoutePlan.thy ===== *)
theory RoutePlan
  imports PyText
begin

text \<open>
  Route geometry of the task executor (\<open>edge-agent/roamerx_edge/task_executor.py\<close>): reading the position of a waypoint,
  co-located waypoints, the straightening of hand-clicked corridors by Ramer-Douglas-Peucker with an explicit stack, the
  choice of the waypoint a task starts at, and the extent of one navigation goal. Coordinates of a waypoint that was read
  are real numbers; a pose is the pair of attribute values, \<open>None\<close> when there is no pose.
\<close>

section \<open>Positions of waypoints\<close>

type_synonym xy = "real \<times> real"

definition WAYPOINT_COLOCATION_M :: real where
  "WAYPOINT_COLOCATION_M = 1"

definition ROUND_TRIP_START_MARGIN_M :: real where
  "ROUND_TRIP_START_MARGIN_M = 2"

definition WAYPOINT_STRAIGHTEN_M :: real where
  "WAYPOINT_STRAIGHTEN_M = 4 / 10"

definition finite_xy :: "pyfloat pyres \<Rightarrow> pyfloat pyres \<Rightarrow> xy option" where
  "finite_xy x y = (case (x, y) of (Inr (Fin a), Inr (Fin b)) \<Rightarrow> Some (a, b) | _ \<Rightarrow> None)"

definition waypoint_xy :: "pydict \<Rightarrow> xy option" where
  "waypoint_xy w = finite_xy (bindE (dsub w ''x'') py_float) (bindE (dsub w ''y'') py_float)"

definition xy_distance :: "xy \<Rightarrow> xy \<Rightarrow> real" where
  "xy_distance p q = sqrt ((fst p - fst q)\<^sup>2 + (snd p - snd q)\<^sup>2)"

definition waypoints_are_colocated :: "xy option \<Rightarrow> xy option \<Rightarrow> bool" where
  "waypoints_are_colocated left right =
     (case (left, right) of (Some p, Some q) \<Rightarrow> xy_distance p q \<le> WAYPOINT_COLOCATION_M | _ \<Rightarrow> False)"

section \<open>Straightening\<close>

text \<open>Distance to a segment and the foot point on it.\<close>

definition segment_projection :: "xy \<Rightarrow> xy \<Rightarrow> xy \<Rightarrow> real \<times> xy" where
  "segment_projection p a b =
     (let dx = fst b - fst a; dy = snd b - snd a; length2 = dx * dx + dy * dy in
      if length2 < 1 / 10 ^ 12 then (xy_distance p a, a)
      else let t = max 0 (min 1 (((fst p - fst a) * dx + (snd p - snd a) * dy) / length2));
               q = (fst a + t * dx, snd a + t * dy)
           in (xy_distance p q, q))"

definition offset_from :: "xy list \<Rightarrow> nat \<Rightarrow> nat \<Rightarrow> nat \<Rightarrow> real" where
  "offset_from ps a b i = fst (segment_projection (ps ! i) (ps ! a) (ps ! b))"

text \<open>The loop that looks for the farthest point strictly between two indices; \<open>None\<close> for \<open>farthest_i = -1\<close>.\<close>

definition pick_farther :: "nat \<Rightarrow> real \<Rightarrow> (nat \<times> real) option \<Rightarrow> (nat \<times> real) option" where
  "pick_farther i d best =
     (case best of None \<Rightarrow> Some (i, d) | Some (j, e) \<Rightarrow> if e < d then Some (i, d) else best)"

fun farther :: "xy list \<Rightarrow> nat \<Rightarrow> nat \<Rightarrow> (nat \<times> real) option \<Rightarrow> nat list \<Rightarrow> (nat \<times> real) option" where
  "farther ps a b best [] = best"
| "farther ps a b best (i # is) = farther ps a b (pick_farther i (offset_from ps a b i) best) is"

definition farthest :: "xy list \<Rightarrow> nat \<Rightarrow> nat \<Rightarrow> (nat \<times> real) option" where
  "farthest ps a b = farther ps a b None [Suc a..<b]"

lemma pick_farther_some: "\<exists>j e. pick_farther i d best = Some (j, e) \<and> (j = i \<and> e = d \<or> best = Some (j, e)) \<and> d \<le> e"
  by (auto simp: pick_farther_def split: option.splits)

lemma pick_farther_mono: "best = Some (j, e) \<Longrightarrow> pick_farther i d best = Some (k, f) \<Longrightarrow> e \<le> f"
  by (auto simp: pick_farther_def split: if_splits)

lemma farther_index: "farther ps a b best is = Some (i, d) \<Longrightarrow> best = Some (i, d) \<or> i \<in> set is"
proof (induction "is" arbitrary: best)
  case (Cons k "is")
  obtain j e where "pick_farther k (offset_from ps a b k) best = Some (j, e)" "j = k \<or> best = Some (j, e)"
    using pick_farther_some by blast
  with Cons.IH [of "Some (j, e)"] Cons.prems show ?case by auto
qed simp

lemma farthest_between: "farthest ps a b = Some (i, d) \<Longrightarrow> a < i \<and> i < b"
  unfolding farthest_def by (drule farther_index) auto

text \<open>The stack has its top first; \<open>stack.append\<close> of the left half is followed by that of the right half.\<close>

definition span :: "nat \<times> nat \<Rightarrow> nat" where
  "span g = (if fst g < snd g then 2 * (snd g - fst g) - 1 else 1)"

function keep_loop :: "xy list \<Rightarrow> real \<Rightarrow> (nat \<times> nat) list \<Rightarrow> bool list \<Rightarrow> bool list" where
  "keep_loop ps eps [] keep = keep"
| "keep_loop ps eps ((a, b) # stack) keep =
     (case farthest ps a b of
        Some (i, d) \<Rightarrow>
          if eps < d then keep_loop ps eps ((i, b) # (a, i) # stack) (keep[i := True])
          else keep_loop ps eps stack keep
      | None \<Rightarrow> keep_loop ps eps stack keep)"
  by pat_completeness auto
termination
  by (relation "measure (\<lambda>(ps, eps, stack, keep). sum_list (map span stack))")
    (auto simp: span_def dest!: farthest_between)

definition douglas_peucker_indices :: "xy list \<Rightarrow> real \<Rightarrow> nat list" where
  "douglas_peucker_indices ps eps =
     (let n = length ps in
      if n < 3 then [0..<n]
      else let keep = keep_loop ps eps [(0, n - 1)] ((replicate n False)[0 := True, n - 1 := True])
           in filter (\<lambda>i. keep ! i) [0..<n])"

definition flatten_waypoint :: "xy list \<Rightarrow> nat list \<Rightarrow> nat \<Rightarrow> pydict \<Rightarrow> pydict" where
  "flatten_waypoint ps kept i w =
     (if i \<in> set kept then w
      else let a = Max {k \<in> set kept. k \<le> i}; b = Min {k \<in> set kept. i \<le> k};
               q = snd (segment_projection (ps ! i) (ps ! a) (ps ! b))
           in AList.update ''y'' (PFloat (Fin (snd q))) (AList.update ''x'' (PFloat (Fin (fst q))) w))"

definition straighten_pass_through_waypoints :: "pydict list \<Rightarrow> real \<Rightarrow> pydict list" where
  "straighten_pass_through_waypoints ws eps =
     (if length ws < 3 \<or> list_ex (\<lambda>w. waypoint_xy w = None) ws then ws
      else let ps = map (the \<circ> waypoint_xy) ws; kept = douglas_peucker_indices ps eps in
        if length kept = length ps then ws
        else map (\<lambda>i. flatten_waypoint ps kept i (ws ! i)) [0..<length ws])"

section \<open>The waypoint a task starts at\<close>

type_synonym pose_view = "(pyval \<times> pyval) option"

definition pose_float :: "pose_view \<Rightarrow> (pyfloat \<times> pyfloat) option" where
  "pose_float pose =
     (case pose of None \<Rightarrow> None
      | Some (x, y) \<Rightarrow> (case (py_float x, py_float y) of (Inr a, Inr b) \<Rightarrow> Some (a, b) | _ \<Rightarrow> None))"

text \<open>\<open>min(range(n), key=...)\<close>: the first index with the least key.\<close>

fun least_offset :: "(nat \<times> pyfloat) \<Rightarrow> nat \<Rightarrow> pyfloat list \<Rightarrow> nat" where
  "least_offset best i [] = fst best"
| "least_offset best i (d # ds) = least_offset (if float_lt d (snd best) then (i, d) else best) (Suc i) ds"

definition waypoint_distances :: "xy \<Rightarrow> pydict list \<Rightarrow> pyfloat list" where
  "waypoint_distances p ws =
     map (\<lambda>w. case waypoint_xy w of Some q \<Rightarrow> Fin (xy_distance p q) | None \<Rightarrow> PosInf) ws"

definition first_index :: "(nat \<Rightarrow> bool) \<Rightarrow> nat \<Rightarrow> nat \<Rightarrow> nat option" where
  "first_index P a b = (case filter P [a..<b] of [] \<Rightarrow> None | i # _ \<Rightarrow> Some i)"

definition wp_colocated :: "pydict list \<Rightarrow> nat \<Rightarrow> nat \<Rightarrow> bool" where
  "wp_colocated ws i j = waypoints_are_colocated (waypoint_xy (ws ! i)) (waypoint_xy (ws ! j))"

definition earliest_from_nearest :: "pydict list \<Rightarrow> nat \<Rightarrow> nat \<Rightarrow> nat" where
  "earliest_from_nearest ws start nearest =
     (let chosen = (case first_index (\<lambda>i. wp_colocated ws i nearest) start (length ws) of None \<Rightarrow> nearest | Some i \<Rightarrow> i)
      in if chosen \<le> start then chosen
         else case first_index (\<lambda>i. wp_colocated ws i chosen) 0 chosen of
                None \<Rightarrow> chosen | Some i \<Rightarrow> max start i)"

definition earliest_colocated_nearest_index :: "pydict list \<Rightarrow> pose_view \<Rightarrow> nat \<Rightarrow> nat" where
  "earliest_colocated_nearest_index ws pose start =
     (if ws = [] then 0
      else if length ws \<le> start then start
      else case pose_float pose of
        Some (Fin x, Fin y) \<Rightarrow>
          let ds = waypoint_distances (x, y) (drop start ws); off = least_offset (0, hd ds) 1 (tl ds) in
          if \<not> is_finite (ds ! off) then start
          else earliest_from_nearest ws start (start + off)
      | _ \<Rightarrow> start)"

text \<open>The distances here are taken of coordinates that may be infinite or NaN.\<close>

definition pose_distance :: "pyfloat \<times> pyfloat \<Rightarrow> xy \<Rightarrow> pyfloat" where
  "pose_distance p q = hypot (float_sub (fst p) (Fin (fst q))) (float_sub (snd p) (Fin (snd q)))"

definition prefer_round_trip_start :: "pydict list \<Rightarrow> pose_view \<Rightarrow> nat \<Rightarrow> nat" where
  "prefer_round_trip_start ws pose nearest =
     (if int nearest \<noteq> int (length ws) - 1 \<or> length ws < 2 then nearest
      else case (waypoint_xy (hd ws), waypoint_xy (last ws), pose_float pose) of
        (Some first, Some final, Some p) \<Rightarrow>
          if float_le (pose_distance p first) (float_plus ROUND_TRIP_START_MARGIN_M (pose_distance p final)) then 0
          else nearest
      | _ \<Rightarrow> nearest)"

definition nearest_waypoint_index :: "pydict list \<Rightarrow> pose_view \<Rightarrow> nat" where
  "nearest_waypoint_index ws pose = prefer_round_trip_start ws pose (earliest_colocated_nearest_index ws pose 0)"

section \<open>Arrival policy\<close>

text \<open>The policies that the code distinguishes; every other text is a stop. The checks of the dwell time, of the actions
  and of the speech have the same outcome, but \<open>float\<close> of the dwell time may raise.\<close>

definition arrival_policy :: "pydict \<Rightarrow> bool \<Rightarrow> string pyres" where
  "arrival_policy w is_last =
     (let value = lower (strip (str_or (dget w ''arrival_policy'') [])) in
      if value \<in> {''pass_through'', ''stop_and_confirm'', ''precision'', ''dock''} then Inr value
      else if is_last \<or> truthy (dget w ''require_yaw'') then Inr ''stop_and_confirm''
      else bindE (py_float (py_or (dget w ''dwell_seconds'') (PInt 0))) (\<lambda>_. Inr ''stop_and_confirm''))"

section \<open>What straightening does\<close>

definition gap :: "bool list \<Rightarrow> nat \<Rightarrow> nat \<Rightarrow> bool" where
  "gap keep a b = (a < b \<and> b < length keep \<and> keep ! a \<and> keep ! b \<and> (\<forall>i. a < i \<and> i < b \<longrightarrow> \<not> keep ! i))"

definition settled_at :: "xy list \<Rightarrow> real \<Rightarrow> (nat \<times> nat) list \<Rightarrow> bool list \<Rightarrow> nat \<Rightarrow> bool" where
  "settled_at ps eps stack keep i =
     (\<exists>a b. gap keep a b \<and> a < i \<and> i < b \<and> ((a, b) \<in> set stack \<or> offset_from ps a b i \<le> eps))"

definition keep_inv :: "xy list \<Rightarrow> real \<Rightarrow> (nat \<times> nat) list \<Rightarrow> bool list \<Rightarrow> bool" where
  "keep_inv ps eps stack keep =
     (length keep = length ps \<and> distinct stack \<and> (\<forall>(a, b) \<in> set stack. gap keep a b)
      \<and> (\<forall>i < length keep. \<not> keep ! i \<longrightarrow> settled_at ps eps stack keep i))"

text \<open>Gaps do not overlap.\<close>

lemma gap_unique: "gap keep a b \<Longrightarrow> gap keep c d \<Longrightarrow> a < i \<Longrightarrow> i < b \<Longrightarrow> c < i \<Longrightarrow> i < d \<Longrightarrow> a = c \<and> b = d"
  unfolding gap_def by (metis dual_order.strict_trans linorder_neqE_nat)

lemma gap_split:
  assumes "gap keep a b" "a < i" "i < b"
  shows "gap (keep[i := True]) a i" "gap (keep[i := True]) i b"
  using assms by (auto simp: gap_def nth_list_update)

lemma gap_other:
  assumes "gap keep c d" "gap keep a b" "a < i" "i < b" "(c, d) \<noteq> (a, b)"
  shows "gap (keep[i := True]) c d"
proof -
  have "\<not> (c < i \<and> i < d)" using assms gap_unique [of keep c d a b i] by auto
  then show ?thesis using assms by (auto simp: gap_def nth_list_update)
qed

lemma farther_bound:
  "\<exists>i d. farther ps a b (Some (j, e)) is = Some (i, d) \<and> e \<le> d \<and> (\<forall>k \<in> set is. offset_from ps a b k \<le> d)"
proof (induction "is" arbitrary: j e)
  case (Cons k "is")
  obtain j' e' where p: "pick_farther k (offset_from ps a b k) (Some (j, e)) = Some (j', e')" "offset_from ps a b k \<le> e'"
    using pick_farther_some by blast
  moreover have "e \<le> e'" using pick_farther_mono [OF refl p(1)] .
  ultimately show ?case using Cons.IH [of j' e'] by force
qed simp

lemma farthest_bound:
  assumes "a < i" "i < b"
  shows "\<exists>j d. farthest ps a b = Some (j, d) \<and> offset_from ps a b i \<le> d"
proof -
  obtain k ks where ks: "[Suc a..<b] = k # ks" using assms by (cases "[Suc a..<b]") auto
  have "i \<in> set (k # ks)" unfolding ks [symmetric] using assms by auto
  then show ?thesis
    unfolding farthest_def ks using farther_bound [of ps a b k "offset_from ps a b k" ks]
    by (auto simp: pick_farther_def)
qed

lemma keep_inv_step:
  assumes inv: "keep_inv ps eps ((a, b) # stack) keep" and i: "a < i" "i < b"
  shows "keep_inv ps eps ((i, b) # (a, i) # stack) (keep[i := True])"
proof -
  let ?k = "keep[i := True]"
  have ab: "gap keep a b" and fresh: "(a, b) \<notin> set stack" using inv by (auto simp: keep_inv_def)
  note halves = gap_split [OF ab i]
  have other: "gap ?k c d" if "gap keep c d" "(c, d) \<noteq> (a, b)" for c d
    by (rule gap_other [OF that(1) ab i that(2)])
  have stack: "gap ?k c d" if "(c, d) \<in> set stack" for c d
    using that inv fresh by (intro other) (auto simp: keep_inv_def)
  have notin: "(i, b) \<notin> set stack" "(a, i) \<notin> set stack" using inv i ab by (auto simp: keep_inv_def gap_def)
  have settled: "settled_at ps eps ((i, b) # (a, i) # stack) ?k j" if "j < length keep" "\<not> ?k ! j" for j
  proof -
    have j: "\<not> keep ! j" "j \<noteq> i" using that i ab by (auto simp: nth_list_update gap_def split: if_splits)
    then obtain c d where cd: "gap keep c d" "c < j" "j < d" "(c, d) \<in> set ((a, b) # stack) \<or> offset_from ps c d j \<le> eps"
      using inv \<open>j < length keep\<close> by (auto simp: keep_inv_def settled_at_def)
    show ?thesis
    proof (cases "(c, d) = (a, b)")
      case True
      with cd j have "a < j \<and> j < i \<or> i < j \<and> j < b" by auto
      with halves show ?thesis unfolding settled_at_def by (auto 4 3)
    next
      case False
      with cd other [OF cd(1)] show ?thesis unfolding settled_at_def by auto
    qed
  qed
  show ?thesis
    using inv halves stack notin settled i by (auto simp: keep_inv_def)
qed

lemma keep_inv_drop:
  assumes inv: "keep_inv ps eps ((a, b) # stack) keep" and close: "\<And>i. a < i \<Longrightarrow> i < b \<Longrightarrow> offset_from ps a b i \<le> eps"
  shows "keep_inv ps eps stack keep"
proof -
  have "settled_at ps eps stack keep i" if "settled_at ps eps ((a, b) # stack) keep i" for i
    using that close unfolding settled_at_def by (metis prod.inject set_ConsD)
  with inv show ?thesis by (auto simp: keep_inv_def)
qed

lemma keep_loop_inv: "keep_inv ps eps stack keep \<Longrightarrow> keep_inv ps eps [] (keep_loop ps eps stack keep)"
proof (induction ps eps stack keep rule: keep_loop.induct)
  case (2 ps eps a b stack keep)
  show ?case
  proof (cases "farthest ps a b")
    case None
    then have "\<not> (a < i \<and> i < b)" for i using farthest_bound [of a i b ps] by auto
    then have "keep_inv ps eps stack keep" using keep_inv_drop [OF "2.prems"] by blast
    with None "2.IH" show ?thesis by simp
  next
    case (Some p)
    obtain i d where f: "farthest ps a b = Some (i, d)" using Some by (cases p) simp
    show ?thesis
    proof (cases "eps < d")
      case True
      with f "2.IH" keep_inv_step [OF "2.prems"] farthest_between [OF f] show ?thesis by simp
    next
      case False
      have "offset_from ps a b j \<le> eps" if "a < j" "j < b" for j using farthest_bound [OF that, of ps] f False by auto
      with f False "2.IH" keep_inv_drop [OF "2.prems"] show ?thesis by simp
    qed
  qed
qed simp


lemma segment_foot: "\<exists>t. 0 \<le> t \<and> t \<le> 1 \<and> snd (segment_projection p a b) = (fst a + t * (fst b - fst a), snd a + t * (snd b - snd a))"
proof (cases "(fst b - fst a) * (fst b - fst a) + (snd b - snd a) * (snd b - snd a) < 1 / 10 ^ 12")
  case True
  then show ?thesis by (intro exI [of _ 0]) (simp add: segment_projection_def)
next
  case False
  define t where "t = max 0 (min 1 (((fst p - fst a) * (fst b - fst a) + (snd p - snd a) * (snd b - snd a))
    / ((fst b - fst a) * (fst b - fst a) + (snd b - snd a) * (snd b - snd a))))"
  have "0 \<le> t" "t \<le> 1" by (simp_all add: t_def)
  moreover have "snd (segment_projection p a b) = (fst a + t * (fst b - fst a), snd a + t * (snd b - snd a))"
    using False unfolding segment_projection_def Let_def t_def [symmetric] by simp
  ultimately show ?thesis by blast
qed

lemma segment_offset: "fst (segment_projection p a b) = xy_distance p (snd (segment_projection p a b))"
  unfolding segment_projection_def Let_def by (simp only: if_distrib [of fst] if_distrib [of snd] fst_conv snd_conv split: if_split) blast

lemma keep_inv_start:
  assumes "3 \<le> length ps"
  shows "keep_inv ps eps [(0, length ps - 1)] ((replicate (length ps) False)[0 := True, length ps - 1 := True])"
proof -
  define keep where "keep = (replicate (length ps) False)[0 := True, length ps - 1 := True]"
  have len: "length keep = length ps" by (simp add: keep_def)
  have k: "keep ! j = (j = 0 \<or> j = length ps - 1)" if "j < length ps" for j
    unfolding keep_def using that by (cases "j = length ps - 1"; cases "j = 0") simp_all
  have "0 < length ps" "length ps - 1 < length ps" using assms by linarith+
  then have "keep ! 0" "keep ! (length ps - 1)" using k by blast+
  then have "gap keep 0 (length ps - 1)" using assms k len by (auto simp: gap_def)
  moreover have "settled_at ps eps [(0, length ps - 1)] keep i" if "i < length ps" "\<not> keep ! i" for i
    unfolding settled_at_def using k that calculation by (intro exI [of _ "0 :: nat"] exI [of _ "length ps - 1"]) auto
  ultimately show ?thesis unfolding keep_def [symmetric] using len by (auto simp: keep_inv_def)
qed

text \<open>An index that is dropped lies between two kept neighbours and close to the segment between them.\<close>

lemma dropped_between:
  assumes i: "i < length ps" "i \<notin> set (douglas_peucker_indices ps eps)"
  obtains a b where "a < i" "i < b" "b < length ps" "a \<in> set (douglas_peucker_indices ps eps)"
    "b \<in> set (douglas_peucker_indices ps eps)" "offset_from ps a b i \<le> eps"
    "Max {k \<in> set (douglas_peucker_indices ps eps). k \<le> i} = a"
    "Min {k \<in> set (douglas_peucker_indices ps eps). i \<le> k} = b"
proof -
  have n: "3 \<le> length ps" using i by (auto simp: douglas_peucker_indices_def Let_def split: if_splits)
  define keep where "keep = keep_loop ps eps [(0, length ps - 1)] ((replicate (length ps) False)[0 := True, length ps - 1 := True])"
  have inv: "keep_inv ps eps [] keep" unfolding keep_def by (rule keep_loop_inv [OF keep_inv_start [OF n]])
  then have len: "length keep = length ps" by (simp add: keep_inv_def)
  have kept: "set (douglas_peucker_indices ps eps) = {k. k < length ps \<and> keep ! k}"
    using n by (auto simp: douglas_peucker_indices_def Let_def keep_def)
  obtain a b where ab: "gap keep a b" "a < i" "i < b" "offset_from ps a b i \<le> eps"
    using inv i kept len by (auto simp: keep_inv_def settled_at_def)
  have "Max {k \<in> {k. k < length ps \<and> keep ! k}. k \<le> i} = a"
  proof (rule Max_eqI)
    fix k assume "k \<in> {k \<in> {k. k < length ps \<and> keep ! k}. k \<le> i}"
    with ab show "k \<le> a" by (auto simp: gap_def) (metis leI order.strict_trans1)
  qed (use ab len in \<open>auto simp: gap_def\<close>)
  moreover have "Min {k \<in> {k. k < length ps \<and> keep ! k}. i \<le> k} = b"
  proof (rule Min_eqI)
    fix k assume "k \<in> {k \<in> {k. k < length ps \<and> keep ! k}. i \<le> k}"
    with ab show "b \<le> k" by (auto simp: gap_def) (metis leI order.strict_trans2)
  qed (use ab len in \<open>auto simp: gap_def\<close>)
  ultimately show thesis using ab len by (intro that [of a b]) (auto simp: kept gap_def)
qed

lemma end_points_kept:
  assumes "ps \<noteq> []"
  shows "0 \<in> set (douglas_peucker_indices ps eps)" "length ps - 1 \<in> set (douglas_peucker_indices ps eps)"
proof -
  show "0 \<in> set (douglas_peucker_indices ps eps)"
  proof (rule ccontr)
    assume "0 \<notin> set (douglas_peucker_indices ps eps)"
    with assms show False by (auto elim!: dropped_between [of 0 ps eps, rotated])
  qed
  show "length ps - 1 \<in> set (douglas_peucker_indices ps eps)"
  proof (rule ccontr)
    assume "length ps - 1 \<notin> set (douglas_peucker_indices ps eps)"
    with assms obtain b where "length ps - 1 < b" "b < length ps"
      using dropped_between [of "length ps - 1" ps eps] by (metis diff_less length_greater_0_conv zero_less_one)
    then show False by simp
  qed
qed

lemma dp_bound: "i \<in> set (douglas_peucker_indices ps eps) \<Longrightarrow> i < length ps"
  by (auto simp: douglas_peucker_indices_def Let_def split: if_splits)

lemma waypoint_xy_moved:
  "waypoint_xy (AList.update ''y'' (PFloat (Fin v)) (AList.update ''x'' (PFloat (Fin u)) w)) = Some (u, v)"
  by (simp add: waypoint_xy_def finite_xy_def dsub_def update_conv)

lemma length_straighten [simp]: "length (straighten_pass_through_waypoints ws eps) = length ws"
  by (simp add: straighten_pass_through_waypoints_def Let_def)

text \<open>A waypoint keeps its dictionary, or it is flattened onto the segment between two waypoints that keep theirs.\<close>

lemma straighten_cases:
  assumes i: "i < length ws" and pos: "waypoint_xy (ws ! i) = Some p"
  shows "straighten_pass_through_waypoints ws eps ! i = ws ! i
     \<or> (\<exists>a b pa pb q. a < i \<and> i < b \<and> b < length ws
          \<and> straighten_pass_through_waypoints ws eps ! a = ws ! a \<and> straighten_pass_through_waypoints ws eps ! b = ws ! b
          \<and> waypoint_xy (ws ! a) = Some pa \<and> waypoint_xy (ws ! b) = Some pb
          \<and> q = snd (segment_projection p pa pb) \<and> xy_distance p q \<le> eps
          \<and> straighten_pass_through_waypoints ws eps ! i
              = AList.update ''y'' (PFloat (Fin (snd q))) (AList.update ''x'' (PFloat (Fin (fst q))) (ws ! i)))"
proof (cases "length ws < 3 \<or> list_ex (\<lambda>w. waypoint_xy w = None) ws")
  case True
  then show ?thesis by (simp add: straighten_pass_through_waypoints_def)
next
  case False
  define ps where "ps = map (the \<circ> waypoint_xy) ws"
  let ?kept = "douglas_peucker_indices ps eps"
  have xy: "waypoint_xy (ws ! j) = Some (ps ! j)" if "j < length ws" for j
    using False that by (auto simp: ps_def list_ex_iff)
  have len: "length ps = length ws" by (simp add: ps_def)
  have run: "straighten_pass_through_waypoints ws eps ! j = flatten_waypoint ps ?kept j (ws ! j)"
    if "j < length ws" "length ?kept \<noteq> length ps" for j
    using False that by (auto simp: straighten_pass_through_waypoints_def Let_def ps_def)
  show ?thesis
  proof (cases "length ?kept = length ps \<or> i \<in> set ?kept")
    case True
    then show ?thesis
      using False run [OF i] by (auto simp: straighten_pass_through_waypoints_def Let_def ps_def flatten_waypoint_def)
  next
    case dropped: False
    then obtain a b where ab: "a < i" "i < b" "b < length ps" "a \<in> set ?kept" "b \<in> set ?kept" "offset_from ps a b i \<le> eps"
      "Max {k \<in> set ?kept. k \<le> i} = a" "Min {k \<in> set ?kept. i \<le> k} = b"
      using dropped_between [of i ps eps] i len by auto
    have kept: "straighten_pass_through_waypoints ws eps ! j = ws ! j" if "j \<in> set ?kept" for j
      using run [of j] dropped dp_bound [OF that] that len by (simp add: flatten_waypoint_def)
    have "ps ! i = p" using pos xy [OF i] by simp
    then show ?thesis
      using ab dropped run [OF i] kept xy len segment_offset [of p "ps ! a" "ps ! b"]
      by (intro disjI2 exI [of _ a] exI [of _ b] exI [of _ "ps ! a"] exI [of _ "ps ! b"]
            exI [of _ "snd (segment_projection p (ps ! a) (ps ! b))"])
        (simp add: flatten_waypoint_def offset_from_def Let_def)
  qed
qed

text \<open>A waypoint that was moved by at most epsilon onto the segment between two waypoints that kept their place.\<close>

definition flattened_between :: "pydict list \<Rightarrow> pydict list \<Rightarrow> real \<Rightarrow> nat \<Rightarrow> bool" where
  "flattened_between ws ws' eps i =
     (\<exists>p q a b pa pb t. waypoint_xy (ws ! i) = Some p \<and> waypoint_xy (ws' ! i) = Some q \<and> xy_distance p q \<le> eps
        \<and> a < i \<and> i < b \<and> b < length ws \<and> ws' ! a = ws ! a \<and> ws' ! b = ws ! b
        \<and> waypoint_xy (ws ! a) = Some pa \<and> waypoint_xy (ws ! b) = Some pb
        \<and> 0 \<le> t \<and> t \<le> 1 \<and> q = (fst pa + t * (fst pb - fst pa), snd pa + t * (snd pb - snd pa)))"

lemma flattened_betweenI:
  assumes "waypoint_xy (ws ! i) = Some p" "waypoint_xy (ws' ! i) = Some q" "xy_distance p q \<le> eps"
    "a < i" "i < b" "b < length ws" "ws' ! a = ws ! a" "ws' ! b = ws ! b"
    "waypoint_xy (ws ! a) = Some pa" "waypoint_xy (ws ! b) = Some pb"
    "0 \<le> t" "t \<le> 1" "q = (fst pa + t * (fst pb - fst pa), snd pa + t * (snd pb - snd pa))"
  shows "flattened_between ws ws' eps i"
  unfolding flattened_between_def
  by (rule exI [of _ p], rule exI [of _ q], rule exI [of _ a], rule exI [of _ b], rule exI [of _ pa], rule exI [of _ pb],
      rule exI [of _ t]) (intro conjI assms)

text \<open>Straightening a route keeps the number of waypoints, both end points and everything but the position of a
  waypoint; a waypoint that is moved is moved by at most epsilon, onto the segment between an earlier and a later waypoint
  that keep their place.\<close>

theorem straightening_stays_close:
  assumes i: "i < length ws"
  shows "let ws' = straighten_pass_through_waypoints ws eps in
     length ws' = length ws
     \<and> (i = 0 \<or> i = length ws - 1 \<longrightarrow> ws' ! i = ws ! i)
     \<and> (\<forall>k. k \<noteq> ''x'' \<and> k \<noteq> ''y'' \<longrightarrow> map_of (ws' ! i) k = map_of (ws ! i) k)
     \<and> (ws' ! i = ws ! i \<or> flattened_between ws ws' eps i)"
proof (cases "straighten_pass_through_waypoints ws eps ! i = ws ! i")
  case True
  then show ?thesis by (auto simp: Let_def)
next
  case False
  then have "waypoint_xy (ws ! i) \<noteq> None"
    using i by (auto simp: straighten_pass_through_waypoints_def list_ex_iff Let_def split: if_splits)
  then obtain p where p: "waypoint_xy (ws ! i) = Some p" by auto
  obtain a b pa pb q where m: "a < i" "i < b" "b < length ws"
    "straighten_pass_through_waypoints ws eps ! a = ws ! a" "straighten_pass_through_waypoints ws eps ! b = ws ! b"
    "waypoint_xy (ws ! a) = Some pa" "waypoint_xy (ws ! b) = Some pb" "q = snd (segment_projection p pa pb)"
    "xy_distance p q \<le> eps"
    "straighten_pass_through_waypoints ws eps ! i
       = AList.update ''y'' (PFloat (Fin (snd q))) (AList.update ''x'' (PFloat (Fin (fst q))) (ws ! i))"
    using straighten_cases [OF i p, of eps] False by blast
  obtain t where t: "0 \<le> t" "t \<le> 1" "q = (fst pa + t * (fst pb - fst pa), snd pa + t * (snd pb - snd pa))"
    using segment_foot [of p pa pb] m(8) by blast
  have xy: "waypoint_xy (straighten_pass_through_waypoints ws eps ! i) = Some q" unfolding m(10) waypoint_xy_moved by simp
  have rest: "map_of (straighten_pass_through_waypoints ws eps ! i) k = map_of (ws ! i) k" if "k \<noteq> ''x''" "k \<noteq> ''y''" for k
    unfolding m(10) using that by (simp add: update_conv)
  have inner: "\<not> (i = 0 \<or> i = length ws - 1)" using m(1-3) by auto
  have moved: "flattened_between ws (straighten_pass_through_waypoints ws eps) eps i"
    by (rule flattened_betweenI [OF p xy m(9) m(1-7) t])
  show ?thesis unfolding Let_def
  proof (intro conjI disjI2 allI impI)
    show "flattened_between ws (straighten_pass_through_waypoints ws eps) eps i" by (rule moved)
  qed (use inner rest in simp_all)
qed

theorem straightening_stays_close_witness:
  "let ws = [[(''x'', PInt 0), (''y'', PInt 0)], [(''x'', PInt 5), (''y'', PFloat (Fin (3 / 10)))], [(''x'', PInt 10), (''y'', PInt 0)]];
       ws' = straighten_pass_through_waypoints ws WAYPOINT_STRAIGHTEN_M
   in length ws' = 3 \<and> map_of (ws' ! 1) ''dwell_seconds'' = None"
  using straightening_stays_close [of 1 "[[(''x'', PInt 0), (''y'', PInt 0)], [(''x'', PInt 5), (''y'', PFloat (Fin (3 / 10)))],
    [(''x'', PInt 10), (''y'', PInt 0)]]" WAYPOINT_STRAIGHTEN_M]
  by (simp add: Let_def)

section \<open>Where a task starts\<close>

definition ordered_key :: "pyfloat \<Rightarrow> bool" where
  "ordered_key d = (d = PosInf \<or> (\<exists>x. d = Fin x))"

lemma float_le_trans: "float_le x y \<Longrightarrow> float_le y z \<Longrightarrow> float_le x z"
  by (cases x; cases y; cases z) auto

lemma ordered_not_lt: "ordered_key x \<Longrightarrow> ordered_key y \<Longrightarrow> \<not> float_lt x y \<Longrightarrow> float_le y x"
  by (auto simp: ordered_key_def)

lemma ordered_lt: "ordered_key x \<Longrightarrow> ordered_key y \<Longrightarrow> float_lt x y \<Longrightarrow> float_le x y"
  by (auto simp: ordered_key_def)

lemma ordered_refl: "ordered_key x \<Longrightarrow> float_le x x"
  by (auto simp: ordered_key_def)

lemma least_offset_spec:
  "ordered_key d \<Longrightarrow> \<forall>e \<in> set ds. ordered_key e \<Longrightarrow>
     \<exists>e. (least_offset (k, d) i ds = k \<and> e = d \<or> (\<exists>j < length ds. least_offset (k, d) i ds = i + j \<and> e = ds ! j))
       \<and> float_le e d \<and> (\<forall>f \<in> set ds. float_le e f)"
proof (induction ds arbitrary: k d i)
  case Nil
  then show ?case by (simp add: ordered_refl)
next
  case (Cons c cs)
  show ?case
  proof (cases "float_lt c d")
    case True
    then obtain e where "least_offset (i, c) (Suc i) cs = i \<and> e = c
        \<or> (\<exists>j < length cs. least_offset (i, c) (Suc i) cs = Suc i + j \<and> e = cs ! j)" "float_le e c" "\<forall>f \<in> set cs. float_le e f"
      using Cons.IH [of c i "Suc i"] Cons.prems by auto
    then show ?thesis
      using True ordered_lt [OF _ _ True] Cons.prems float_le_trans [of e c d]
      by (intro exI [of _ e]) (auto intro: exI [of _ 0] exI [of _ "Suc j" for j])
  next
    case False
    then obtain e where "least_offset (k, d) (Suc i) cs = k \<and> e = d
        \<or> (\<exists>j < length cs. least_offset (k, d) (Suc i) cs = Suc i + j \<and> e = cs ! j)" "float_le e d" "\<forall>f \<in> set cs. float_le e f"
      using Cons.IH [of d k "Suc i"] Cons.prems by auto
    then show ?thesis
      using False ordered_not_lt [OF _ _ False] Cons.prems float_le_trans [of e d c]
      by (intro exI [of _ e]) (auto intro: exI [of _ "Suc j" for j])
  qed
qed

lemma distance_keys: "d \<in> set (waypoint_distances p ws) \<Longrightarrow> ordered_key d"
  by (auto simp: waypoint_distances_def ordered_key_def split: option.splits)

lemma first_index_some: "first_index P a b = Some i \<Longrightarrow> a \<le> i \<and> i < b \<and> P i \<and> (\<forall>j. a \<le> j \<and> j < i \<longrightarrow> \<not> P j)"
proof (induction "b - a" arbitrary: a)
  case (Suc n)
  then have ab: "[a..<b] = a # [Suc a..<b]" by (simp add: upt_conv_Cons)
  show ?case
  proof (cases "P a")
    case True
    with Suc.prems Suc.hyps(2) ab show ?thesis by (auto simp: first_index_def)
  next
    case False
    with Suc.prems ab have "first_index P (Suc a) b = Some i" by (simp add: first_index_def)
    moreover have "n = b - Suc a" using Suc.hyps(2) by simp
    ultimately have "Suc a \<le> i \<and> i < b \<and> P i \<and> (\<forall>j. Suc a \<le> j \<and> j < i \<longrightarrow> \<not> P j)" by (intro Suc.hyps(1))
    with False show ?thesis by (metis Suc_leD Suc_leI le_neq_implies_less)
  qed
qed (simp add: first_index_def)

lemma first_index_none: "first_index P a b = None \<Longrightarrow> a \<le> i \<Longrightarrow> i < b \<Longrightarrow> \<not> P i"
  by (auto simp: first_index_def filter_empty_conv split: list.splits)

lemma xy_distance_self [simp]: "xy_distance p p = 0"
  by (simp add: xy_distance_def)

lemma wp_colocated_self: "waypoint_xy (ws ! i) = Some p \<Longrightarrow> wp_colocated ws i i"
  by (simp add: wp_colocated_def waypoints_are_colocated_def WAYPOINT_COLOCATION_M_def)

text \<open>The waypoint that is chosen for the cluster of the nearest one.\<close>

lemma earliest_from_nearest_spec:
  assumes "start \<le> n" "n < length ws" "waypoint_xy (ws ! n) = Some p"
  obtains c where "earliest_from_nearest ws start n \<le> c" "start \<le> earliest_from_nearest ws start n" "c \<le> n"
    "wp_colocated ws c n" "\<And>j. j < earliest_from_nearest ws start n \<Longrightarrow> start < c \<Longrightarrow> start < earliest_from_nearest ws start n
       \<Longrightarrow> \<not> wp_colocated ws j c"
    "earliest_from_nearest ws start n = c \<or> earliest_from_nearest ws start n = start
       \<or> wp_colocated ws (earliest_from_nearest ws start n) c"
proof -
  have self: "wp_colocated ws n n" using assms(3) by (rule wp_colocated_self)
  then obtain c where c: "first_index (\<lambda>i. wp_colocated ws i n) start (length ws) = Some c"
    using first_index_none [of "\<lambda>i. wp_colocated ws i n" start "length ws" n] assms by (cases "first_index (\<lambda>i. wp_colocated ws i n) start (length ws)") auto
  have cs: "start \<le> c" "c < length ws" "wp_colocated ws c n" "c \<le> n"
    using first_index_some [OF c] self assms by (auto simp: not_less [symmetric])
  show thesis
  proof (cases "c \<le> start")
    case True
    then show thesis using c cs by (intro that [of c]) (auto simp: earliest_from_nearest_def)
  next
    case False
    show thesis
    proof (cases "first_index (\<lambda>i. wp_colocated ws i c) 0 c")
      case None
      then have "earliest_from_nearest ws start n = c" using c False by (simp add: earliest_from_nearest_def)
      then show thesis using cs first_index_none [OF None] by (intro that [of c]) auto
    next
      case (Some i)
      then have r: "earliest_from_nearest ws start n = max start i" using c False by (simp add: earliest_from_nearest_def)
      then show thesis using cs False first_index_some [OF Some] by (intro that [of c]) (auto simp: max_def split: if_splits)
    qed
  qed
qed

text \<open>The waypoint a task starts at or continues with: it is never before the pending one; it belongs to the cluster of
  the waypoint nearest to the robot; and when it lies ahead, no earlier waypoint of the route shares the place of that
  cluster, so the return leg of a round trip is never mistaken for its outbound leg.\<close>

theorem start_keeps_earlier_copies:
  assumes start: "start < length ws" and pose: "pose_float pose = Some (Fin x, Fin y)"
    and some: "start \<le> k" "k < length ws" "waypoint_xy (ws ! k) = Some pk"
  shows "let r = earliest_colocated_nearest_index ws pose start in
     \<exists>n c p. start \<le> n \<and> n < length ws \<and> waypoint_xy (ws ! n) = Some p
       \<and> (\<forall>j q. start \<le> j \<and> j < length ws \<and> waypoint_xy (ws ! j) = Some q \<longrightarrow> xy_distance (x, y) p \<le> xy_distance (x, y) q)
       \<and> wp_colocated ws c n \<and> c \<le> n \<and> start \<le> r \<and> r \<le> c \<and> (r = c \<or> r = start \<or> wp_colocated ws r c)
       \<and> (start < r \<longrightarrow> (\<forall>j < r. \<not> wp_colocated ws j c))"
proof -
  define ds where "ds = waypoint_distances (x, y) (drop start ws)"
  define off where "off = least_offset (0, hd ds) 1 (tl ds)"
  have len: "length ds = length ws - start" by (simp add: ds_def waypoint_distances_def)
  have at: "ds ! j = (case waypoint_xy (ws ! (start + j)) of Some q \<Rightarrow> Fin (xy_distance (x, y) q) | None \<Rightarrow> PosInf)"
    if "start + j < length ws" for j
    using that by (simp add: ds_def waypoint_distances_def)
  obtain d cs where ds: "ds = d # cs" using len start by (cases ds) auto
  have keys: "ordered_key e" if "e \<in> set ds" for e using that distance_keys unfolding ds_def by blast
  obtain e where e: "off = 0 \<and> e = d \<or> (\<exists>j < length cs. off = 1 + j \<and> e = cs ! j)" "float_le e d" "\<forall>f \<in> set cs. float_le e f"
    using least_offset_spec [of d cs 0 1] keys ds unfolding off_def by auto
  have off: "off < length ds" "ds ! off = e" using e(1) ds by auto
  have least: "float_le (ds ! off) f" if "f \<in> set ds" for f using that e ds off by auto
  have "float_le (ds ! off) (Fin (xy_distance (x, y) pk))"
    using least [OF nth_mem, of "k - start"] at [of "k - start"] some len by auto
  then have fin: "is_finite (ds ! off)" using keys [of "ds ! off"] off by (auto simp: ordered_key_def)
  define n where "n = start + off"
  have n: "start \<le> n" "n < length ws" using off len by (auto simp: n_def)
  obtain p where p: "waypoint_xy (ws ! n) = Some p" using at [of off] fin n by (auto simp: n_def split: option.splits)
  have near: "xy_distance (x, y) p \<le> xy_distance (x, y) q" if "start \<le> j" "j < length ws" "waypoint_xy (ws ! j) = Some q" for j q
    using least [OF nth_mem, of "j - start"] at [of off] at [of "j - start"] that p n len by (auto simp: n_def)
  have r: "earliest_colocated_nearest_index ws pose start = earliest_from_nearest ws start n"
    using start pose fin by (auto simp: earliest_colocated_nearest_index_def ds_def off_def n_def Let_def)
  obtain c where c: "earliest_from_nearest ws start n \<le> c" "start \<le> earliest_from_nearest ws start n" "c \<le> n"
    "wp_colocated ws c n" "\<And>j. j < earliest_from_nearest ws start n \<Longrightarrow> start < c \<Longrightarrow> start < earliest_from_nearest ws start n
       \<Longrightarrow> \<not> wp_colocated ws j c"
    "earliest_from_nearest ws start n = c \<or> earliest_from_nearest ws start n = start
       \<or> wp_colocated ws (earliest_from_nearest ws start n) c"
    using earliest_from_nearest_spec [OF n p] by blast
  show ?thesis unfolding r Let_def using n p near c by (intro exI [of _ n] exI [of _ c] exI [of _ p]) auto
qed

theorem start_keeps_earlier_copies_witness:
  "let ws = [[(''x'', PInt 0), (''y'', PInt 0)], [(''x'', PInt 5), (''y'', PInt 0)], [(''x'', PInt 0), (''y'', PInt 0)]];
       r = earliest_colocated_nearest_index ws (Some (PInt 0, PInt 1)) 1
   in 1 \<le> r \<and> r < 3"
  using start_keeps_earlier_copies [of 1 "[[(''x'', PInt 0), (''y'', PInt 0)], [(''x'', PInt 5), (''y'', PInt 0)],
      [(''x'', PInt 0), (''y'', PInt 0)]]" "Some (PInt 0, PInt 1)" 0 1 1 "(5, 0)"]
  by (auto simp: Let_def pose_float_def waypoint_xy_def finite_xy_def)

end
