(* ===== verification/MapConstraints.thy ===== *)
theory MapConstraints
  imports PyText
begin

text \<open>
  Coordinate mode, scene scope and localization capability of a map (\<open>edge-agent/roamerx_edge/map_coordinate.py\<close>; the
  center carries the same code in \<open>platform/backend/monitoring/services/map_coordinate.py\<close>, with
  \<open>constraints_from_map_data\<close> in addition). A manifest and a set of constraints are dictionaries, as in the code. The
  lemmas show that what is derived from a manifest is consistent, and what an admitted route satisfies.
\<close>

section \<open>Vocabulary\<close>

definition COORDINATE_MODES :: "string list" where
  "COORDINATE_MODES = [''rtk_fixed'', ''local_only'']"

definition SCENE_SCOPES :: "string list" where
  "SCENE_SCOPES = [''indoor'', ''transition'', ''outdoor'']"

definition ORIGIN_STATUSES :: "string list" where
  "ORIGIN_STATUSES = [''fixed'', ''local_only'', ''legacy_incomplete'']"

definition SCHEMA_VERSION :: int where
  "SCHEMA_VERSION = 2"

definition normalize_text :: "pyval \<Rightarrow> string \<Rightarrow> string" where
  "normalize_text v dflt = (let text = lower (strip (str_or v [])) in if text = [] then dflt else text)"

definition waypoint_localization_mode :: "pyval \<Rightarrow> string" where
  "waypoint_localization_mode v =
     (let mode = normalize_text v ''ndt'' in
      if mode = ''rtk'' \<or> mode = ''rtk_ndt'' then ''rtk'' else if mode = ''ukf'' then ''ukf'' else ''ndt'')"

definition map_localization_mode :: "pyval \<Rightarrow> string \<Rightarrow> string" where
  "map_localization_mode v coordinate_mode =
     (let mode = normalize_text v [] in
      if coordinate_mode = ''local_only'' then ''ndt''
      else if mode = ''rtk'' \<or> mode = ''rtk_ndt'' then ''rtk_ndt''
      else if mode = ''ndt'' then ''ndt''
      else if coordinate_mode = ''rtk_fixed'' then ''rtk_ndt'' else ''ndt'')"

definition gnss_origin_is_fixed :: "pydict \<Rightarrow> bool" where
  "gnss_origin_is_fixed origin =
     (if origin = [] then False
      else let locked = dget origin ''alignment_locked'' in
        py_eq_int locked 1 \<or> locked \<in> {PStr ''1'', PStr ''true'', PStr ''True''}
        \<or> lower (str_or (dget origin ''rtk_enabled'') []) = ''true'')"

section \<open>Constraints of a manifest\<close>

text \<open>Coordinate mode and status of the origin.\<close>

definition manifest_origin :: "pydict \<Rightarrow> pydict \<Rightarrow> string \<times> string" where
  "manifest_origin data gnss =
     (let explicit_mode = normalize_text (dget data ''coordinate_mode'') [];
          completeness = normalize_text (py_or (dget data ''completeness'') (dget data ''map_completeness'')) [];
          usual = (if explicit_mode = ''rtk_fixed'' then ''fixed'' else ''local_only'') in
      if explicit_mode \<in> set COORDINATE_MODES
      then let status = normalize_text (dget data ''origin_status'') usual
           in (explicit_mode, if status \<in> set ORIGIN_STATUSES then status else usual)
      else if completeness = ''legacy_incomplete'' \<or> data = []
      then (if gnss_origin_is_fixed gnss then ''rtk_fixed'' else [], ''legacy_incomplete'')
      else if gnss_origin_is_fixed gnss then (''rtk_fixed'', normalize_text (dget data ''origin_status'') ''fixed'')
      else (''local_only'', ''local_only''))"

definition manifest_scene :: "string \<Rightarrow> string \<Rightarrow> string" where
  "manifest_scene coordinate_mode scene =
     (if coordinate_mode = ''local_only'' then ''indoor''
      else if scene \<notin> set SCENE_SCOPES then (if scene = [] then [] else ''indoor'') else scene)"

definition constraints_from_manifest :: "pydict \<Rightarrow> pydict \<Rightarrow> string \<Rightarrow> pydict pyres" where
  "constraints_from_manifest data gnss requested_scene_scope =
     (let completeness = normalize_text (py_or (dget data ''completeness'') (dget data ''map_completeness'')) [];
          mode = fst (manifest_origin data gnss); status = snd (manifest_origin data gnss);
          scene = manifest_scene mode
            (normalize_text (py_or (dget data ''scene_scope'') (PStr requested_scene_scope)) []);
          localization = (if mode = ''local_only'' then ''ndt''
            else if mode = [] then normalize_text (dget data ''localization_mode'') []
            else map_localization_mode (dget data ''localization_mode'') mode) in
      bindE (py_int (py_or (dget data ''schema_version'') (PInt SCHEMA_VERSION))) (\<lambda>version. Inr
        [(''schema_version'', PInt version), (''coordinate_mode'', PStr mode), (''scene_scope'', PStr scene),
         (''localization_mode'', PStr localization), (''origin_status'', PStr (if status = [] then ''legacy_incomplete'' else status)),
         (''rtk_origin_required'', PBool (mode = ''rtk_fixed'')),
         (''completeness'', PStr (if completeness \<noteq> [] then completeness else if status \<noteq> [] then status else ''legacy_incomplete''))]))"

section \<open>Checking constraints and routes\<close>

definition map_error :: "string \<Rightarrow> string \<Rightarrow> 'a pyres" where
  "map_error code message = Inl (MapConstraintError code message)"

definition validate_map_constraints :: "pydict \<Rightarrow> pydict pyres" where
  "validate_map_constraints c =
     (let mode = normalize_text (dget c ''coordinate_mode'') []; origin = normalize_text (dget c ''origin_status'') [];
          scene = normalize_text (dget c ''scene_scope'') ''indoor'';
          localization = map_localization_mode (dget c ''localization_mode'') mode;
          updated = (\<lambda>status. dput (dput (dput (dput (dput c ''coordinate_mode'' (PStr mode)) ''scene_scope'' (PStr scene))
            ''localization_mode'' (PStr localization)) ''origin_status'' (PStr status))
            ''rtk_origin_required'' (PBool (mode = ''rtk_fixed''))) in
      if origin = ''legacy_incomplete'' \<and> mode = [] then Inr c
      else if mode \<notin> set COORDINATE_MODES
        then map_error ''MAP_CONSTRAINT_INVALID'' ''coordinate_mode must be rtk_fixed or local_only''
      else if mode = ''local_only'' then
        (if scene = ''outdoor''
           then map_error ''MAP_LOCAL_ONLY_OUTDOOR_FORBIDDEN'' ''local_only maps cannot use outdoor scene_scope''
         else if scene = ''transition''
           then map_error ''MAP_LOCAL_ONLY_TRANSITION_FORBIDDEN'' ''local_only maps cannot use transition scene_scope''
         else if scene \<noteq> ''indoor''
           then map_error ''MAP_CONSTRAINT_INVALID'' ''local_only maps must use indoor scene_scope''
         else if localization \<noteq> ''ndt''
           then map_error ''MAP_LOCAL_ONLY_NDT_ONLY'' ''local_only maps can only use NDT localization''
         else Inr (updated ''local_only''))
      else if scene \<notin> set SCENE_SCOPES
        then map_error ''MAP_CONSTRAINT_INVALID'' ''rtk_fixed maps require indoor, transition, or outdoor scene_scope''
      else Inr (updated (if origin \<in> set ORIGIN_STATUSES then origin else ''fixed'')))"

definition new_map_constraints :: "pydict \<Rightarrow> pyval \<Rightarrow> pydict pyres" where
  "new_map_constraints gnss requested =
     (let rtk = gnss_origin_is_fixed gnss; scene0 = normalize_text requested ''indoor'';
          scene = (if \<not> rtk \<or> scene0 \<notin> set SCENE_SCOPES then ''indoor'' else scene0) in
      validate_map_constraints
        [(''schema_version'', PInt SCHEMA_VERSION), (''coordinate_mode'', PStr (if rtk then ''rtk_fixed'' else ''local_only'')),
         (''scene_scope'', PStr scene), (''localization_mode'', PStr (if rtk then ''rtk_ndt'' else ''ndt'')),
         (''origin_status'', PStr (if rtk then ''fixed'' else ''local_only'')), (''rtk_origin_required'', PBool rtk),
         (''completeness'', PStr ''complete'')])"

definition validate_route_waypoint :: "nat \<Rightarrow> pyval \<Rightarrow> unit pyres" where
  "validate_route_waypoint i wp =
     (case wp of
        PDict w \<Rightarrow> raise_if (waypoint_localization_mode (dget w ''localization_mode'') = ''rtk'')
          (MapConstraintError ''MAP_LOCAL_ONLY_NDT_ONLY''
            (''local_only maps cannot use RTK localization at waypoint '' @ show_nat (Suc i)))
      | _ \<Rightarrow> Inr ())"

definition validate_route_against_map :: "pydict \<Rightarrow> pyval \<Rightarrow> pyval list \<Rightarrow> bool \<Rightarrow> unit pyres" where
  "validate_route_against_map constraints scene_scope waypoints require_rtk_origin =
     bindE (validate_map_constraints constraints) (\<lambda>c.
       (let mode = dget c ''coordinate_mode'';
            scene = normalize_text (py_or scene_scope (dget c ''scene_scope'')) ''indoor'' in
        if \<not> truthy mode then Inr ()
        else seqE
          ((if mode = PStr ''local_only'' then
              [raise_if (scene = ''outdoor'') (MapConstraintError ''MAP_LOCAL_ONLY_OUTDOOR_FORBIDDEN''
                 ''local_only maps cannot bind outdoor tasks''),
               raise_if (scene = ''transition'') (MapConstraintError ''MAP_LOCAL_ONLY_TRANSITION_FORBIDDEN''
                 ''local_only maps cannot bind transition tasks''),
               for_each 0 validate_route_waypoint waypoints]
            else [])
           @ [raise_if ((require_rtk_origin \<or> scene = ''outdoor'' \<or> scene = ''transition'') \<and> mode \<noteq> PStr ''rtk_fixed'')
                (MapConstraintError ''MAP_RTK_ORIGIN_REQUIRED''
                  ''outdoor and transition scenes require an RTK-fixed map origin'')])))"

section \<open>The center's map record\<close>

record map_row =
  md_id :: int
  md_name :: string
  md_description :: string
  md_coordinate_mode :: string
  md_scene_scope :: string
  md_localization_mode :: string
  md_origin_status :: string
  md_completeness :: string

fun contains_text :: "string \<Rightarrow> string \<Rightarrow> bool" where
  "contains_text p [] = (p = [])"
| "contains_text p (c # cs) = (take (length p) (c # cs) = p \<or> contains_text p cs)"

text \<open>\<open>json_loads\<close> gives \<open>None\<close> for \<open>JSONDecodeError\<close>. The texts of the columns take precedence over the manifest's.\<close>

definition stored_description :: "(string \<Rightarrow> pyval option) \<Rightarrow> map_row \<Rightarrow> pydict" where
  "stored_description json_loads m =
     (case json_loads (if md_description m = [] then ''{}'' else md_description m) of Some (PDict d) \<Rightarrow> d | _ \<Rightarrow> [])"

definition column_or :: "string \<Rightarrow> pydict \<Rightarrow> string \<Rightarrow> pyval" where
  "column_or column manifest key = py_or (py_or (PStr column) (dget manifest key)) (PStr [])"

definition row_manifest :: "(string \<Rightarrow> pyval option) \<Rightarrow> map_row \<Rightarrow> pydict" where
  "row_manifest json_loads m =
     (let manifest = (case dget (stored_description json_loads m) ''map_manifest'' of PDict d \<Rightarrow> d | _ \<Rightarrow> []);
          coordinate_mode = py_str (column_or (md_coordinate_mode m) manifest ''coordinate_mode'') in
      if coordinate_mode = [] then manifest
      else dmerge manifest
        [(''coordinate_mode'', PStr coordinate_mode), (''scene_scope'', column_or (md_scene_scope m) manifest ''scene_scope''),
         (''localization_mode'', column_or (md_localization_mode m) manifest ''localization_mode''),
         (''origin_status'', column_or (md_origin_status m) manifest ''origin_status''),
         (''completeness'', column_or (md_completeness m) manifest ''completeness'')])"

definition row_gnss_origin :: "(string \<Rightarrow> pyval option) \<Rightarrow> map_row \<Rightarrow> pydict" where
  "row_gnss_origin json_loads m =
     (let text = str_or (dget (stored_description json_loads m) ''gnss_origin_yaml'') [] in
      if contains_text ''alignment_locked:'' text
      then [(''alignment_locked'', PBool (contains_text ''alignment_locked: 1'' text
              \<or> contains_text ''alignment_locked: true'' text \<or> contains_text ''alignment_locked: True'' text))]
      else [])"

definition constraints_from_map_data :: "(string \<Rightarrow> pyval option) \<Rightarrow> map_row \<Rightarrow> pydict pyres" where
  "constraints_from_map_data json_loads m =
     constraints_from_manifest (row_manifest json_loads m) (row_gnss_origin json_loads m) []"

section \<open>Normalized texts\<close>

lemma strip_by_idem: "strip_by p (strip_by p s) = strip_by p s"
proof -
  define u where "u = dropWhile p s"
  define v where "v = dropWhile p (rev u)"
  have u: "u = [] \<or> \<not> p (hd u)" using dropWhile_eq_self_iff [of p u] by (simp add: u_def dropWhile_idem)
  have v: "v = [] \<or> \<not> p (hd v)" using dropWhile_eq_self_iff [of p v] by (simp add: v_def dropWhile_idem)
  obtain w where w: "rev u = w @ v" by (metis v_def takeWhile_dropWhile_id)
  have "rev v = [] \<or> \<not> p (hd (rev v))"
  proof (cases "v = []")
    case False
    have "u = rev v @ rev w" using w by (metis rev_append rev_rev_ident)
    with u False show ?thesis by auto
  qed simp
  then have "dropWhile p (rev v) = rev v" using dropWhile_eq_self_iff by blast
  moreover have "dropWhile p v = v" using v dropWhile_eq_self_iff by blast
  ultimately show ?thesis unfolding strip_by_def u_def [symmetric] v_def [symmetric] by simp
qed

lemma is_space_lower [simp]: "is_space (lower_char c) = is_space c"
  by (auto simp: is_space_def lower_char_def)

lemma strip_lower: "strip (lower s) = lower (strip s)"
proof -
  have "dropWhile is_space (map lower_char xs) = map lower_char (dropWhile is_space xs)" for xs by (induction xs) auto
  then show ?thesis by (simp add: strip_def strip_by_def lower_def rev_map)
qed

text \<open>Texts that normalization leaves alone.\<close>

definition is_normal :: "string \<Rightarrow> bool" where
  "is_normal s = (s \<noteq> [] \<and> strip s = s \<and> lower s = s)"

lemma normalize_normal: "is_normal s \<Longrightarrow> normalize_text (PStr s) d = s"
  by (simp add: is_normal_def normalize_text_def py_or_def)

lemma normalize_empty [simp]: "normalize_text (PStr []) d = d"
  by (simp add: normalize_text_def strip_def strip_by_def)

lemma normal_normalize: "is_normal d \<or> d = [] \<Longrightarrow> is_normal (normalize_text v d) \<or> normalize_text v d = []"
proof -
  have "strip (lower (strip s)) = lower (strip s)" for s
    by (simp only: strip_lower) (simp only: strip_def strip_by_idem)
  moreover assume "is_normal d \<or> d = []"
  ultimately show ?thesis by (simp add: normalize_text_def is_normal_def Let_def)
qed

lemma keywords_normal:
  "is_normal ''rtk_fixed''" "is_normal ''local_only''" "is_normal ''indoor''" "is_normal ''transition''" "is_normal ''outdoor''"
  "is_normal ''fixed''" "is_normal ''legacy_incomplete''" "is_normal ''ndt''" "is_normal ''rtk_ndt''"
  by code_simp+

lemmas keyword_texts [simp] = keywords_normal [THEN normalize_normal]

lemma map_localization_mode_cases: "map_localization_mode v m = ''ndt'' \<or> map_localization_mode v m = ''rtk_ndt''"
  by (simp add: map_localization_mode_def Let_def)

lemma map_localization_mode_again [simp]:
  "map_localization_mode (PStr (map_localization_mode v m)) m = map_localization_mode v m"
  by (auto simp: map_localization_mode_def Let_def)

section \<open>What holds of derived and of checked constraints\<close>

lemma manifest_origin_cases:
  assumes "manifest_origin data gnss = (mode, status)"
  shows "mode = [] \<and> status = ''legacy_incomplete'' \<or> mode = ''local_only'' \<or> mode = ''rtk_fixed''"
  using assms unfolding manifest_origin_def Let_def by (auto simp: COORDINATE_MODES_def split: if_splits)

lemma manifest_status: "snd (manifest_origin data gnss) \<noteq> []"
proof -
  have "is_normal (normalize_text v ''fixed'')" for v
    using normal_normalize [of "''fixed''" v] keywords_normal by (auto simp: normalize_text_def Let_def)
  then have "normalize_text v ''fixed'' \<noteq> []" for v by (simp add: is_normal_def)
  then show ?thesis unfolding manifest_origin_def Let_def by (auto simp: ORIGIN_STATUSES_def)
qed

lemma scene_cases: "manifest_scene m s = [] \<or> manifest_scene m s \<in> set SCENE_SCOPES"
  by (simp add: manifest_scene_def SCENE_SCOPES_def)

text \<open>Whatever a map's manifest says, the constraints that are derived from it are consistent: checking them succeeds,
  and what the check returns has the derived coordinate mode and localization mode.\<close>

theorem derived_constraints_consistent:
  assumes "constraints_from_manifest data gnss requested = Inr c"
  shows "\<exists>c'. validate_map_constraints c = Inr c' \<and> dget c' ''coordinate_mode'' = dget c ''coordinate_mode''
     \<and> dget c' ''localization_mode'' = dget c ''localization_mode''
     \<and> (dget c ''coordinate_mode'' = PStr ''local_only'' \<longrightarrow>
          dget c' ''scene_scope'' = PStr ''indoor'' \<and> dget c' ''localization_mode'' = PStr ''ndt'')"
proof -
  obtain mode status where o: "manifest_origin data gnss = (mode, status)" by (cases "manifest_origin data gnss")
  define scene where "scene = manifest_scene mode
    (normalize_text (py_or (dget data ''scene_scope'') (PStr requested)) [])"
  have s: "scene = [] \<or> scene \<in> set SCENE_SCOPES" unfolding scene_def by (rule scene_cases)
  note c = assms [unfolded constraints_from_manifest_def Let_def o fst_conv snd_conv, folded scene_def]
  have st: "status \<noteq> []" using manifest_status [of data gnss] o by simp
  consider "mode = []" "status = ''legacy_incomplete''" | "mode = ''local_only''" | "mode = ''rtk_fixed''"
    using manifest_origin_cases [OF o] by blast
  then show ?thesis
  proof cases
    case 1
    from c 1 have f: "dget c ''coordinate_mode'' = PStr []" "dget c ''origin_status'' = PStr ''legacy_incomplete''" by auto
    then have "validate_map_constraints c = Inr c" unfolding validate_map_constraints_def Let_def f by simp
    with f show ?thesis by (intro exI [of _ c]) simp
  next
    case 2
    have "scene = ''indoor''" by (simp add: scene_def manifest_scene_def 2)
    with 2 c have f: "dget c ''coordinate_mode'' = PStr ''local_only''" "dget c ''scene_scope'' = PStr ''indoor''"
      "dget c ''localization_mode'' = PStr ''ndt''" by auto
    show ?thesis unfolding validate_map_constraints_def Let_def f by (simp add: COORDINATE_MODES_def map_localization_mode_def)
  next
    case 3
    from s have sc: "normalize_text (PStr scene) ''indoor'' \<in> set SCENE_SCOPES" by (auto simp: SCENE_SCOPES_def)
    from 3 c have f: "dget c ''coordinate_mode'' = PStr ''rtk_fixed''" "dget c ''scene_scope'' = PStr scene"
      "dget c ''localization_mode'' = PStr (map_localization_mode (dget data ''localization_mode'') ''rtk_fixed'')" by auto
    show ?thesis unfolding validate_map_constraints_def Let_def f using sc by (simp add: COORDINATE_MODES_def)
  qed
qed

theorem derived_constraints_consistent_witness:
  "\<exists>c c'. constraints_from_manifest [(''coordinate_mode'', PStr '' LOCAL_only''), (''scene_scope'', PStr ''outdoor'')] [] [] = Inr c
     \<and> validate_map_constraints c = Inr c' \<and> dget c' ''scene_scope'' = PStr ''indoor''"
proof -
  have "manifest_origin [(''coordinate_mode'', PStr '' LOCAL_only''), (''scene_scope'', PStr ''outdoor'')] []
      = (''local_only'', ''local_only'')"
    by code_simp
  then obtain c where c: "constraints_from_manifest [(''coordinate_mode'', PStr '' LOCAL_only''), (''scene_scope'', PStr ''outdoor'')] [] [] = Inr c"
      "dget c ''coordinate_mode'' = PStr ''local_only''"
    by (simp add: constraints_from_manifest_def SCHEMA_VERSION_def Let_def)
  from derived_constraints_consistent [OF c(1)] c show ?thesis by auto
qed

text \<open>C40. A route that is admitted to a map that states a coordinate mode: outdoors and in transitions, or where an RTK
  origin is demanded, the map has a fixed RTK origin; and a local-only map takes neither an outdoor nor a transition scene and
  no waypoint that is localized by RTK. Legacy maps without a coordinate mode are exempt: the code admits every route to them.\<close>

theorem admitted_route_fits_map:
  assumes "validate_route_against_map constraints scene_scope waypoints require_rtk_origin = Inr ()"
  shows "\<exists>c scene. validate_map_constraints constraints = Inr c
     \<and> scene = normalize_text (py_or scene_scope (dget c ''scene_scope'')) ''indoor''
     \<and> (truthy (dget c ''coordinate_mode'') \<longrightarrow>
          (require_rtk_origin \<or> scene \<in> {''outdoor'', ''transition''} \<longrightarrow> dget c ''coordinate_mode'' = PStr ''rtk_fixed'')
        \<and> (dget c ''coordinate_mode'' = PStr ''local_only'' \<longrightarrow> scene \<notin> {''outdoor'', ''transition''}
             \<and> (\<forall>w. PDict w \<in> set waypoints \<longrightarrow> waypoint_localization_mode (dget w ''localization_mode'') \<noteq> ''rtk'')))"
proof -
  obtain c where c: "validate_map_constraints constraints = Inr c"
    using assms by (cases "validate_map_constraints constraints") (auto simp: validate_route_against_map_def)
  have rtk: "waypoint_localization_mode (dget w ''localization_mode'') \<noteq> ''rtk''"
    if each: "for_each 0 validate_route_waypoint waypoints = Inr ()" and w: "PDict w \<in> set waypoints" for w
  proof -
    obtain i where "i < length waypoints" "waypoints ! i = PDict w" using w by (auto simp: in_set_conv_nth)
    with each have "validate_route_waypoint i (PDict w) = Inr ()" by (auto simp: for_each_ok)
    then show ?thesis by (simp add: validate_route_waypoint_def)
  qed
  from assms c show ?thesis
    unfolding validate_route_against_map_def Let_def
    by (intro exI [of _ c]) (auto simp: seqE_ok rtk split: if_splits)
qed

definition local_route :: "pyval list" where
  "local_route = [PDict [(''seq'', PInt 1), (''localization_mode'', PStr ''ndt'')],
     PDict [(''seq'', PInt 2), (''localization_mode'', PStr [])]]"

text \<open>A local-only map admits a route of two waypoints, and refuses it when one of them asks for RTK.\<close>

theorem admitted_route_fits_map_witness:
  "validate_route_against_map [(''coordinate_mode'', PStr ''local_only'')] PNone local_route False = Inr ()
   \<and> ''rtk'' \<notin> {waypoint_localization_mode (dget w ''localization_mode'') | w. PDict w \<in> set local_route}
   \<and> isl (validate_route_against_map [(''coordinate_mode'', PStr ''local_only'')] PNone
        (local_route @ [PDict [(''localization_mode'', PStr ''rtk'')]]) False)"
proof -
  have run: "validate_route_against_map [(''coordinate_mode'', PStr ''local_only'')] PNone local_route False = Inr ()"
    by code_simp
  have refused: "isl (validate_route_against_map [(''coordinate_mode'', PStr ''local_only'')] PNone
        (local_route @ [PDict [(''localization_mode'', PStr ''rtk'')]]) False)"
    by code_simp
  have "normalize_text PNone ''indoor'' = ''indoor''" by code_simp
  then obtain c where c: "validate_map_constraints [(''coordinate_mode'', PStr ''local_only'')] = Inr c"
    and mode: "dget c ''coordinate_mode'' = PStr ''local_only''"
    by (simp add: validate_map_constraints_def Let_def COORDINATE_MODES_def map_localization_mode_def)
  show ?thesis using admitted_route_fits_map [OF run] c mode run refused by auto
qed

end
