(* ===== verification/CenterProtocol.thy ===== *)
theory CenterProtocol
  imports Protocol
begin

text \<open>
  The message protocol at the center (\<open>platform/backend/monitoring/protocol.py\<close>): the vocabularies, \<open>parse_message\<close> with
  every check of \<open>validate_payload\<close> in the order of the source, and the command message that goes to a robot. Names that
  the robot's side uses too carry the prefix \<open>center\<close>. Django's \<open>parse_datetime\<close> is a parameter: it may raise, it
  returns \<open>None\<close> for a text that is no timestamp.
\<close>

section \<open>Vocabularies\<close>

definition CENTER_COMMAND_TYPES :: "string list" where
  "CENTER_COMMAND_TYPES = [''task.start'', ''task.pause'', ''task.resume'', ''task.resume_forward'', ''task.cancel'',
     ''task.force_exit'', ''task.recover.v1'', ''mapping.start'', ''mapping.save'', ''mapping.cancel'', ''mapping.status'',
     ''mapping.scene_semantics'', ''mapping.origin_start'', ''mapping.origin_cancel'', ''mapping.origin_extract_global'',
     ''mapping.slam_start'', ''mapping.begin'', ''nav.status'', ''nav.start'', ''nav.restart'', ''nav.recover'', ''nav.stop'',
     ''nav.initial_pose'', ''nav.single_goal'', ''nav.relocalize'', ''diagnostics.log_config'',
     ''diagnostics.nav_rosbag_stop'', ''map.activate'', ''map.boundary_apply'', ''map.optimize'', ''sensor.restart'',
     ''charge.start'', ''charge.stop'', ''motion.start'', ''motion.stop'', ''audio.volume'', ''teleop.takeover_enter'',
     ''teleop.takeover_exit'', ''teleop.stand_up'', ''teleop.lie_down'', ''teleop.shake_hand'', ''teleop.two_leg_stand'',
     ''teleop.crawl_forward'', ''teleop.speed_micro'', ''teleop.speed_slow'', ''teleop.speed_normal'', ''teleop.speed_fast'',
     ''teleop.move_forward'', ''teleop.move_backward'', ''teleop.move_left'', ''teleop.move_right'', ''teleop.turn_left'',
     ''teleop.turn_right'', ''teleop.move_velocity'', ''teleop.move_stop'', ''teleop.passive'', ''teleop.skill'',
     ''teleop.skill_list'', ''teleop.skill_status'', ''teleop.skill_cancel'', ''teleop.person_follow_start'',
     ''teleop.person_follow_stop'', ''teleop.person_follow_status'']"

definition UPLINK_MESSAGE_TYPES :: "string list" where
  "UPLINK_MESSAGE_TYPES = [''presence.online'', ''presence.heartbeat'', ''presence.offline'', ''telemetry.status'',
     ''telemetry.pose'', ''trajectory.batch'', ''command.ack'', ''command.progress'', ''command.result'', ''task.progress'',
     ''task.navigation_stage'', ''task.round_started'', ''task.obstacle_speech'', ''task.obstacle_stage'',
     ''navigation.obstacle_recovery'', ''task.accepted'', ''task.started'', ''task.pausing'', ''task.paused'',
     ''task.resuming'', ''task.resumed'', ''task.cancelling'', ''task.completed'', ''task.failed'', ''task.cancelled'',
     ''task.interrupted'', ''task.arrival_pending_settle'', ''task.arrival_nav2_stopping'',
     ''task.arrival_zero_confirming'', ''task.arrival_zero_confirmed'', ''task.arrival_zero_timeout'',
     ''task.arrival_check'', ''task.arrival_confirmed'', ''task.arrival_degraded_accepted'', ''task.arrival_correcting'',
     ''task.arrival_heading_aligning'', ''task.arrival_heading_aligned'', ''task.recovery_active'', ''task.safe_hold'',
     ''task.waypoint_actions'', ''task.waypoint_degraded'', ''task.waypoint_postprocess_completed'', ''alert.event'',
     ''system.log.batch'', ''sync.request'']"

definition ALL_MESSAGE_TYPES :: "string list" where
  "ALL_MESSAGE_TYPES = UPLINK_MESSAGE_TYPES @ CENTER_COMMAND_TYPES"

section \<open>Fields\<close>

type_synonym datetime_reader = "string \<Rightarrow> datetime option pyres"

definition center_required :: "pyval \<Rightarrow> string \<Rightarrow> pyval pyres" where
  "center_required v k =
     bindE (require_key v ''missing required field: '' k) (\<lambda>_. case v of PDict d \<Rightarrow> Inr (dget d k) | _ \<Rightarrow> Inl TypeError)"

definition center_uuid :: "pyval \<Rightarrow> string \<Rightarrow> string pyres" where
  "center_uuid v field =
     (case uuid_of_text (py_str v) of
        None \<Rightarrow> Inl (invalid (field @ '' must be UUID''))
      | Some n \<Rightarrow> Inr (uuid_to_text n))"

definition normalize_timestamp :: "datetime_reader \<Rightarrow> pyval \<Rightarrow> datetime pyres" where
  "normalize_timestamp parse_datetime v =
     bindE (parse_datetime (py_str v)) (\<lambda>parsed.
       (case parsed of
          None \<Rightarrow> Inl (invalid (''invalid timestamp: '' @ py_str v))
        | Some t \<Rightarrow> if dt_offset t = None then Inl (invalid ''timestamp must include timezone'') else Inr t))"

text \<open>A field that is read, checked, and dropped.\<close>

definition uuid_field :: "pyval \<Rightarrow> string \<Rightarrow> unit pyres" where
  "uuid_field v k = discard (bindE (center_required v k) (\<lambda>x. center_uuid x k))"

definition time_field :: "datetime_reader \<Rightarrow> pyval \<Rightarrow> string \<Rightarrow> unit pyres" where
  "time_field parse_datetime v k = discard (bindE (center_required v k) (normalize_timestamp parse_datetime))"

section \<open>Validation of task.start at the center\<close>

definition center_waypoint_basic :: "nat \<Rightarrow> pydict \<Rightarrow> unit pyres" where
  "center_waypoint_basic index w = seqE
     (raise_if (\<not> py_eq_int (dget w ''sequence'') (int index)) (invalid ''waypoint sequence must start at 0 and be contiguous'')
      # map (\<lambda>f. raise_if (\<not> is_number (dget w f)) (invalid (''waypoint '' @ f @ '' must be numeric'')))
          [''x'', ''y'', ''yaw'']
      @ map (\<lambda>f. raise_if (has_key w f \<and> \<not> is_bool (dget w f)) (invalid (''waypoint '' @ f @ '' must be boolean'')))
          [''avoidance_to_next'', ''require_yaw'', ''detour_enabled'', ''collision_slowdown_enabled'',
           ''collision_stop_enabled'', ''force_localization_correction''])"

definition center_waypoint_arrival :: "pydict \<Rightarrow> unit pyres" where
  "center_waypoint_arrival w =
     (let policy = lower (str_or (dget w ''arrival_policy'') ''stop_and_confirm'') in seqE
       [keyword_field w ''arrival_policy'' [''pass_through'', ''stop_and_confirm'', ''precision'', ''dock'']
          ''waypoint arrival_policy is invalid'',
        keyword_field w ''arrival_micro_adjust_mode'' [''cmd_vel'', ''nav2_goal'']
          ''waypoint arrival_micro_adjust_mode is invalid'',
        raise_if (has_key w ''arrival_micro_adjust_mode''
            \<and> lowered w ''arrival_micro_adjust_mode'' = ''nav2_goal'' \<and> policy \<in> {''pass_through'', ''dock''})
          (invalid ''nav2_goal is not allowed for pass_through or dock'')])"

text \<open>\<open>waypoint.get("actions", [])\<close>: a list whose items all equal the text \<open>snapshot\<close>.\<close>

definition snapshot_actions :: "pyval \<Rightarrow> bool" where
  "snapshot_actions v = (case v of PList xs \<Rightarrow> list_all (\<lambda>a. a = PStr ''snapshot'') xs | _ \<Rightarrow> False)"

definition center_waypoint_options :: "pydict \<Rightarrow> unit pyres" where
  "center_waypoint_options w = seqE
     [keyword_field w ''localization_anchor_preference'' [''ndt'', ''rtk'', ''balanced'']
        ''waypoint localization_anchor_preference is invalid'',
      raise_if (has_key w ''rtk_primary_allowed'' \<and> \<not> is_bool (dget w ''rtk_primary_allowed''))
        (invalid ''waypoint rtk_primary_allowed must be boolean''),
      keyword_field w ''speech_mode'' [''blocking'', ''non_blocking'', ''disabled''] ''waypoint speech_mode is invalid'',
      keyword_field w ''local_controller'' [''rpp'', ''mppi'', ''ilqr'']
        ''waypoint local_controller must be mppi, rpp or ilqr'',
      keyword_field w ''navigation_speed_level'' [''micro'', ''low'', ''medium'', ''high'']
        ''waypoint navigation_speed_level must be micro, low, medium or high'',
      keyword_field w ''global_controller'' global_controllers
        ''waypoint global_controller must be theta_star, navfn or smac_hybrid'',
      raise_if (has_key w ''dwell_seconds'' \<and>
          (\<not> is_number (dget w ''dwell_seconds'') \<or> \<not> num_between 0 (dget w ''dwell_seconds'') 3600))
        (invalid ''waypoint dwell_seconds must be between 0 and 3600''),
      raise_if (\<not> snapshot_actions (dget_def_val w ''actions'' (PList [])))
        (invalid ''P0 waypoint actions only support snapshot'')]"

definition center_waypoint :: "nat \<Rightarrow> pyval \<Rightarrow> unit pyres" where
  "center_waypoint index wp =
     (case wp of
        PDict w \<Rightarrow> seqE [center_waypoint_basic index w, center_waypoint_arrival w, center_waypoint_options w]
      | _ \<Rightarrow> Inl (invalid ''waypoint must be an object''))"

definition center_recording :: "pydict \<Rightarrow> unit pyres" where
  "center_recording cmd =
     (let record = dget cmd ''record_rosbag''; cont = dget_def_val cmd ''continuous_rosbag'' (PBool False) in seqE
       [raise_if (record \<noteq> PNone \<and> \<not> is_bool record) (invalid ''task.start record_rosbag must be boolean''),
        raise_if (\<not> is_bool cont) (invalid ''task.start continuous_rosbag must be boolean''),
        on_cond (truthy cont) (seqE
          [raise_if (\<not> truthy record) (invalid ''continuous_rosbag requires record_rosbag''),
           uuid_field (PDict cmd) ''loop_session_id''])])"

definition center_task_start :: "pydict \<Rightarrow> unit pyres" where
  "center_task_start cmd =
     bindE (center_required (PDict cmd) ''route_snapshot'') (\<lambda>route_value.
       (case route_value of
          PDict route \<Rightarrow>
            bindE (center_required route_value ''waypoints'') (\<lambda>wps.
              (case wps of
                 PList (wp # rest) \<Rightarrow> seqE
                   [for_each 0 center_waypoint (wp # rest),
                    raise_if (lower (str_or (dget route ''global_controller'') ''theta_star'') \<notin> set global_controllers)
                      (invalid ''route_snapshot global_controller must be theta_star, navfn or smac_hybrid''),
                    center_recording cmd]
               | _ \<Rightarrow> Inl (invalid ''task.start requires at least one waypoint'')))
        | _ \<Rightarrow> Inl (invalid ''route_snapshot must be an object'')))"

definition center_single_goal :: "pydict \<Rightarrow> unit pyres" where
  "center_single_goal cmd = seqE
     (map (\<lambda>f. raise_if (\<not> is_number (dget cmd f)) (invalid (''nav.single_goal '' @ f @ '' must be numeric''))) [''x'', ''y'', ''yaw'']
      @ [raise_if (lower (str_or (dget cmd ''global_controller'') ''theta_star'') \<notin> set global_controllers)
           (invalid ''nav.single_goal global_controller must be theta_star, navfn or smac_hybrid'')])"

section \<open>Validation of what a robot sends\<close>

fun nonneg_int :: "pyval \<Rightarrow> bool" where
  "nonneg_int (PInt n) = (0 \<le> n)"
| "nonneg_int _ = False"

definition trajectory_point :: "datetime_reader \<Rightarrow> pyval \<Rightarrow> unit pyres" where
  "trajectory_point parse_datetime v =
     (case v of
        PDict p \<Rightarrow> seqE
          ([bindE (center_required v ''seq'') (\<lambda>n. raise_if (\<not> nonneg_int n) (invalid ''trajectory seq must be non-negative integer'')),
            time_field parse_datetime v ''sampled_at'']
           @ map (\<lambda>f. raise_if (\<not> is_number (dget p f)) (invalid (''trajectory '' @ f @ '' must be numeric''))) [''x'', ''y'', ''yaw'']
           @ [raise_if (dget p ''keyframe'' \<noteq> PNone \<and> \<not> is_dict (dget p ''keyframe'')) (invalid ''trajectory keyframe must be an object'')])
      | _ \<Rightarrow> Inl (invalid ''trajectory point must be an object''))"

text \<open>The number of a point that was checked.\<close>

fun point_seq :: "pyval \<Rightarrow> int" where
  "point_seq (PDict p) = (case dget p ''seq'' of PInt n \<Rightarrow> n | _ \<Rightarrow> 0)"
| "point_seq _ = 0"

definition validate_trajectory_batch :: "datetime_reader \<Rightarrow> pydict \<Rightarrow> unit pyres" where
  "validate_trajectory_batch parse_datetime payload = seqE
     [uuid_field (PDict payload) ''task_execution_id'',
      uuid_field (PDict payload) ''batch_id'',
      bindE (center_required (PDict payload) ''points'') (\<lambda>v.
        (case v of
           PList points \<Rightarrow>
             if 1 \<le> length points \<and> length points \<le> 100 then
               (let seqs = map point_seq points in seqE
                 [for_each 0 (\<lambda>_. trajectory_point parse_datetime) points,
                  raise_if (seqs \<noteq> map (\<lambda>i. hd seqs + int i) [0..<length seqs]) (invalid ''trajectory seq must be contiguous''),
                  raise_if (\<not> py_eq_int (dget payload ''first_seq'') (hd seqs) \<or> \<not> py_eq_int (dget payload ''last_seq'') (last seqs))
                    (invalid ''trajectory batch range does not match points'')])
             else Inl (invalid ''trajectory points must contain 1..100 items'')
         | _ \<Rightarrow> Inl (invalid ''trajectory points must contain 1..100 items'')))]"

definition log_entry :: "pyval \<Rightarrow> unit pyres" where
  "log_entry v = (if \<not> is_dict v then Inl (invalid ''system log entry must be an object'') else seqE
     [bindE (center_required v ''level'') (\<lambda>x. raise_if (lower (py_str x) \<notin> {''debug'', ''info'', ''warning'', ''error''})
        (invalid ''invalid system log level'')),
      bindE (center_required v ''module'') (\<lambda>x. raise_if (py_str x \<notin> {''localization'', ''navigation'', ''avoidance'',
        ''relocalization'', ''waypoint'', ''planner'', ''boundary'', ''system''}) (invalid ''invalid system log module'')),
      discard (center_required v ''event_code''), discard (center_required v ''message'')])"

definition log_batch :: "pydict \<Rightarrow> unit pyres" where
  "log_batch payload =
     bindE (center_required (PDict payload) ''entries'') (\<lambda>v.
       (case v of
          PList entries \<Rightarrow>
            if length entries > 100 then Inl (invalid ''system.log.batch entries must contain at most 100 items'')
            else for_each 0 (\<lambda>_. log_entry) entries
        | _ \<Rightarrow> Inl (invalid ''system.log.batch entries must contain at most 100 items'')))"

definition validate_command_payload :: "datetime_reader \<Rightarrow> string \<Rightarrow> pydict \<Rightarrow> unit pyres" where
  "validate_command_payload parse_datetime message_type payload = seqE
     [uuid_field (PDict payload) ''command_id'',
      time_field parse_datetime (PDict payload) ''issued_at'',
      bindE (center_required (PDict payload) ''expires_at'') (\<lambda>e.
      bindE (normalize_timestamp parse_datetime e) (\<lambda>expires.
      bindE (normalize_timestamp parse_datetime (dget payload ''issued_at'')) (\<lambda>issued.
        raise_if (dt_instant expires \<le> dt_instant issued) (invalid ''expires_at must be after issued_at'')))),
      on_cond (take 5 message_type = ''task.'') (uuid_field (PDict payload) ''task_execution_id''),
      bindE (center_required (PDict payload) ''command'') (\<lambda>c.
        (case c of
           PDict cmd \<Rightarrow>
             if message_type = ''task.start'' then center_task_start cmd
             else if message_type = ''diagnostics.nav_rosbag_stop'' then uuid_field c ''loop_session_id''
             else if message_type = ''nav.single_goal'' then center_single_goal cmd
             else Inr ()
         | _ \<Rightarrow> Inl (invalid ''command must be an object'')))]"

definition validate_payload :: "datetime_reader \<Rightarrow> string \<Rightarrow> pydict \<Rightarrow> unit pyres" where
  "validate_payload parse_datetime message_type payload =
     (let v = PDict payload in
      if message_type \<in> set CENTER_COMMAND_TYPES then validate_command_payload parse_datetime message_type payload
      else if message_type = ''command.ack'' then seqE
        [uuid_field v ''command_id'',
         bindE (center_required v ''ack'') (\<lambda>a. require_in a [''accepted'', ''rejected''] (invalid ''ack must be accepted or rejected''))]
      else if message_type = ''command.progress'' then seqE
        [uuid_field v ''command_id'',
         raise_if (dget payload ''result'' \<noteq> PNone \<and> \<not> is_dict (dget payload ''result''))
           (invalid ''command progress result must be an object'')]
      else if message_type = ''command.result'' then seqE
        [uuid_field v ''command_id'',
         bindE (center_required v ''status'') (\<lambda>a. require_in a [''succeeded'', ''failed'', ''cancelled'', ''timed_out'']
           (invalid ''invalid command result status''))]
      else if message_type = ''trajectory.batch'' then validate_trajectory_batch parse_datetime payload
      else if message_type = ''alert.event'' then seqE
        [uuid_field v ''event_id'', time_field parse_datetime v ''occurred_at'', discard (center_required v ''event_type''),
         discard (center_required v ''severity'')]
      else if message_type = ''system.log.batch'' then log_batch payload
      else Inr ())"

section \<open>parse_message\<close>

record center_envelope =
  cv_message_id :: string
  cv_message_type :: string
  cv_robot_id :: string
  cv_session_id :: string
  cv_sent_at :: datetime
  cv_trace_id :: string
  cv_sequence :: "int option"
  cv_payload :: pydict
  cv_raw :: pydict

definition parse_sequence :: "pyval \<Rightarrow> int option pyres" where
  "parse_sequence v =
     (case v of PNone \<Rightarrow> Inr None
      | PInt n \<Rightarrow> if n < 0 then Inl (invalid ''sequence must be a non-negative integer'') else Inr (Some n)
      | _ \<Rightarrow> Inl (invalid ''sequence must be a non-negative integer''))"

definition parse_session :: "string \<Rightarrow> pyval \<Rightarrow> string pyres" where
  "parse_session message_type v =
     (if message_type \<in> set UPLINK_MESSAGE_TYPES then center_uuid (PStr (py_str v)) ''session_id'' else Inr (py_str v))"

definition parse_identity :: "datetime_reader \<Rightarrow> pyval \<Rightarrow> string \<Rightarrow> string \<Rightarrow> int option \<Rightarrow> pydict \<Rightarrow> string
    \<Rightarrow> center_envelope pyres" where
  "parse_identity parse_datetime v message_type robot_id sequence payload session_id =
     bindE (bindE (center_required v ''message_id'') (\<lambda>x. center_uuid x ''message_id'')) (\<lambda>mid.
     bindE (bindE (center_required v ''sent_at'') (normalize_timestamp parse_datetime)) (\<lambda>sent.
     bindE (bindE (center_required v ''trace_id'') (\<lambda>x. center_uuid x ''trace_id'')) (\<lambda>tid.
       Inr \<lparr>cv_message_id = mid, cv_message_type = message_type, cv_robot_id = robot_id, cv_session_id = session_id,
            cv_sent_at = sent, cv_trace_id = tid, cv_sequence = sequence, cv_payload = payload,
            cv_raw = (case v of PDict d \<Rightarrow> d | _ \<Rightarrow> [])\<rparr>)))"

definition parse_value :: "datetime_reader \<Rightarrow> pyval \<Rightarrow> center_envelope pyres" where
  "parse_value parse_datetime v =
     bindE (center_required v ''protocol_version'') (\<lambda>version.
     if py_str version \<noteq> PROTOCOL_VERSION
       then Inl (protocol_error ''UNSUPPORTED_PROTOCOL_VERSION'' (''unsupported protocol version: '' @ py_str version))
     else bindE (center_required v ''message_type'') (\<lambda>mt.
     if py_str mt \<notin> set ALL_MESSAGE_TYPES then Inl (invalid (''unsupported message_type: '' @ py_str mt))
     else bindE (center_required v ''robot_id'') (\<lambda>robot.
     if strip (py_str robot) = [] then Inl (invalid ''robot_id must not be empty'')
     else bindE (py_get v ''sequence'') (\<lambda>s. bindE (parse_sequence s) (\<lambda>sequence.
     bindE (center_required v ''payload'') (\<lambda>body.
     (case body of
        PDict payload \<Rightarrow>
          bindE (center_required v ''session_id'') (\<lambda>session.
          bindE (parse_session (py_str mt) session) (\<lambda>session_id.
          bindE (parse_identity parse_datetime v (py_str mt) (strip (py_str robot)) sequence payload session_id) (\<lambda>env.
          bindE (validate_payload parse_datetime (py_str mt) payload) (\<lambda>_. Inr env))))
      | _ \<Rightarrow> Inl (invalid ''payload must be an object''))))))))"

definition parse_message :: "(string \<Rightarrow> pyval option) \<Rightarrow> datetime_reader \<Rightarrow> raw_message \<Rightarrow> center_envelope pyres" where
  "parse_message json_loads parse_datetime raw =
     (case raw of
        RawText s \<Rightarrow>
          (case json_loads s of None \<Rightarrow> Inl (invalid ''message is not valid JSON'') | Some v \<Rightarrow> parse_value parse_datetime v)
      | RawObject v \<Rightarrow> if is_dict v then parse_value parse_datetime v else Inl (invalid ''message must be JSON object''))"

end
