(* ===== verification/CenterDb.thy ===== *)
theory CenterDb
  imports Effect CenterProtocol MapConstraints
begin

text \<open>
  The center's database as its services see it (\<open>platform/backend/monitoring/models.py\<close>): one record per model with the
  columns the services read, one list of rows per table, the constraints the database checks at every write, and the
  statements that read and write it. An instance that a handler holds and its row are different things: a handler's
  assignments reach the row when it saves, \<open>save(update_fields=...)\<close> changes only the named columns.

  A writer collision of SQLite can strike at every write (\<open>cw_locked\<close>). Clock readings, fresh identifiers and the
  answers of services that are not modelled belong to the world. Timestamps are instants in microseconds. The columns
  \<open>created_at\<close> and \<open>updated_at\<close>, which Django fills by itself, are left out; rows stand in the order of their creation.
\<close>

section \<open>Rows\<close>

record robot_row =
  rb_id :: int
  rb_code :: string
  rb_status :: string
  rb_connection :: string
  rb_battery :: int
  rb_network :: int
  rb_localization :: string
  rb_ros_ready :: bool
  rb_nav_ready :: bool
  rb_control_mode :: string
  rb_agent_version :: string
  rb_capabilities :: pyval
  rb_map_id :: string
  rb_map_version :: string
  rb_state_version :: int
  rb_heartbeat :: int
  rb_last_seen :: "int option"
  rb_charging_map :: "int option"
  rb_charging_route :: "int option"

record session_row =
  sn_session_id :: string
  sn_robot :: int
  sn_connected_at :: int
  sn_heartbeat :: int
  sn_disconnected :: "int option"
  sn_reason :: string
  sn_agent_version :: string
  sn_boot_id :: string
  sn_capabilities :: pyval
  sn_metadata :: pydict

record patrol_task_row =
  pt_id :: int
  pt_name :: string
  pt_robot :: int
  pt_route :: "int option"
  pt_enabled :: bool
  pt_record_rosbag :: bool

record route_row =
  ro_id :: int
  ro_name :: string
  ro_map :: int
  ro_robot :: int
  ro_map_set :: "int option"
  ro_waypoints :: pyval
  ro_names :: pyval
  ro_scene :: string
  ro_controller :: string
  ro_record_rosbag :: bool

record execution_row =
  ex_id :: string
  ex_task :: int
  ex_robot :: int
  ex_route :: "int option"
  ex_map :: "int option"
  ex_snapshot :: pydict
  ex_loop :: "string option"
  ex_round :: int
  ex_dispatch_key :: "string option"
  ex_state :: string
  ex_version :: int
  ex_waypoint_index :: "int option"
  ex_waypoint_id :: string
  ex_completed :: int
  ex_total :: int
  ex_distance :: "real option"
  ex_eta :: "int option"
  ex_started :: "int option"
  ex_finished :: "int option"
  ex_accepted :: "int option"
  ex_paused :: "int option"
  ex_failure_code :: string
  ex_failure_message :: string
  ex_created_by :: "int option"
  ex_last_edge_event :: "int option"

record task_event_row =
  te_id :: nat
  te_execution :: string
  te_state :: string
  te_version :: int
  te_type :: string
  te_occurred :: int
  te_message_id :: "string option"
  te_reason_code :: string
  te_reason_message :: string
  te_payload :: pydict

record command_row =
  cm_id :: string
  cm_robot :: int
  cm_execution :: "string option"
  cm_type :: string
  cm_payload :: pydict
  cm_status :: string
  cm_operator :: "int option"
  cm_trace :: string
  cm_issued :: int
  cm_expires :: int
  cm_published :: "int option"
  cm_acknowledged :: "int option"
  cm_started :: "int option"
  cm_finished :: "int option"
  cm_ack_code :: string
  cm_ack_message :: string
  cm_result :: pydict
  cm_error_code :: string
  cm_error_message :: string

record command_event_row =
  ce_command :: string
  ce_type :: string
  ce_source :: string
  ce_message_id :: "string option"
  ce_payload :: pydict

record inbound_row =
  ib_message_id :: string
  ib_robot :: int
  ib_session :: string
  ib_type :: string
  ib_sequence :: "int option"
  ib_topic :: string
  ib_processed :: "int option"
  ib_status :: string
  ib_error :: string
  ib_raw :: pydict

record status_row =
  sl_robot :: int
  sl_version :: int
  sl_sampled :: int
  sl_received :: int
  sl_frame :: string
  sl_map_id :: string
  sl_map_version :: string
  sl_x :: "real option"
  sl_y :: "real option"
  sl_z :: "real option"
  sl_yaw :: "real option"
  sl_speed :: "real option"
  sl_localization :: string
  sl_source_status :: "int option"
  sl_quality :: pydict
  sl_power :: bool
  sl_percent :: "int option"
  sl_charging :: "bool option"
  sl_network :: string
  sl_signal :: "int option"
  sl_ros :: bool
  sl_nav :: bool
  sl_estop :: bool
  sl_mode :: string
  sl_execution :: "string option"
  sl_raw :: pydict

record battery_episode_row =
  be_robot :: int
  be_key :: string
  be_active :: bool
  be_percent :: int
  be_threshold :: int
  be_rearm :: int
  be_source :: string
  be_triggered :: int
  be_cleared :: "int option"

record loop_row =
  lp_id :: string
  lp_robot :: int
  lp_task :: int
  lp_snapshot :: pydict
  lp_state :: string
  lp_version :: int
  lp_duration :: int
  lp_rest :: int
  lp_started :: int
  lp_ends :: int
  lp_finished :: "int option"
  lp_round :: int
  lp_execution :: "string option"
  lp_next :: int
  lp_observed :: "int option"
  lp_episode :: "string option"
  lp_code :: string
  lp_message :: string
  lp_attempt :: int
  lp_max_attempts :: int
  lp_paused :: bool
  lp_error :: string
  lp_metadata :: pydict
  lp_created_by :: "int option"

record loop_event_row =
  le_key :: string
  le_loop :: string
  le_execution :: "string option"
  le_type :: string
  le_state :: string
  le_occurred :: int
  le_code :: string
  le_message :: string
  le_attempt :: int
  le_payload :: pydict

record schedule_row =
  sc_id :: int
  sc_robot :: int
  sc_task :: int
  sc_route :: int
  sc_type :: string
  sc_time :: int
  sc_weekdays :: pyval
  sc_run_date :: "int option"
  sc_priority :: int
  sc_enabled :: bool
  sc_last :: "int option"

record schedule_run_row =
  sr_schedule :: int
  sr_robot :: int
  sr_planned :: int
  sr_triggered :: "int option"
  sr_status :: string
  sr_execution :: "string option"
  sr_command :: "string option"
  sr_skip :: string
  sr_error :: string

record calendar_day_row =
  cd_date :: int
  cd_type :: string
  cd_enabled :: bool

record point_row =
  tp_robot :: int
  tp_execution :: string
  tp_seq :: int
  tp_sampled :: int
  tp_frame :: string
  tp_map_id :: string
  tp_map_version :: string
  tp_x :: "real option"
  tp_y :: "real option"
  tp_yaw :: "real option"
  tp_speed :: "real option"
  tp_localization :: string
  tp_keyframe :: pydict
  tp_batch :: string

record receipt_row =
  tr_batch :: string
  tr_robot :: int
  tr_execution :: string
  tr_first :: int
  tr_last :: int
  tr_count :: int

record debug_session_row =
  ds_id :: string
  ds_robot :: int
  ds_status :: string
  ds_stopped :: "int option"

record boundary_row =
  bd_map :: int
  bd_revision :: int
  bd_active_revision :: int
  bd_active_payload :: pydict
  bd_status :: string
  bd_error :: string
  bd_command :: "string option"

record center_db =
  db_robots :: "robot_row list"
  db_sessions :: "session_row list"
  db_tasks :: "patrol_task_row list"
  db_maps :: "map_row list"
  db_routes :: "route_row list"
  db_executions :: "execution_row list"
  db_task_events :: "task_event_row list"
  db_commands :: "command_row list"
  db_command_events :: "command_event_row list"
  db_inbound :: "inbound_row list"
  db_statuses :: "status_row list"
  db_episodes :: "battery_episode_row list"
  db_points :: "point_row list"
  db_receipts :: "receipt_row list"
  db_debug :: "debug_session_row list"
  db_boundaries :: "boundary_row list"
  db_loops :: "loop_row list"
  db_loop_events :: "loop_event_row list"
  db_schedules :: "schedule_row list"
  db_runs :: "schedule_run_row list"
  db_calendar :: "calendar_day_row list"

section \<open>States of an execution\<close>

definition ACTIVE_STATES :: "string list" where
  "ACTIVE_STATES = [''created'', ''dispatching'', ''accepted'', ''running'', ''pausing'', ''paused'', ''resuming'',
     ''cancelling'', ''interrupted'']"

definition EXECUTION_STATES :: "string list" where
  "EXECUTION_STATES = [''created'', ''dispatching'', ''accepted'', ''running'', ''pausing'', ''paused'', ''resuming'',
     ''cancelling'', ''completed'', ''failed'', ''cancelled'', ''timed_out'', ''interrupted'', ''rejected'']"

section \<open>The world, the state, the statements\<close>

datatype center_event =
    Published string pydict
  | Notified string "pyval list"

record center_world =
  cw_now :: "nat \<Rightarrow> int"
  cw_uuid :: "nat \<Rightarrow> string"
  cw_locked :: "nat \<Rightarrow> bool"
  cw_reply :: "nat \<Rightarrow> center_event \<Rightarrow> pyval pyres"
  cw_json_loads :: "string \<Rightarrow> pyval option"
  cw_parse_datetime :: datetime_reader
  cw_isoformat :: "int \<Rightarrow> string"
  cw_decimal :: "pyval \<Rightarrow> real pyres"
  cw_setting :: "string \<Rightarrow> int option"

text \<open>Beside the database there is Django's cache, one per process and no part of a transaction: the battery samples that
  a process has counted for a robot, with the status version and the time they expire.\<close>

record center_state =
  cn_tick :: nat
  cn_events :: "center_event list"
  cn_cache :: "((string \<times> int) \<times> (int \<times> int \<times> int)) list"
  cn_db :: center_db

type_synonym 'a ctr = "(center_world, center_state, 'a) eff"

definition dbC :: "(center_db \<Rightarrow> 'a) \<Rightarrow> 'a ctr" where
  "dbC f w s = (Inr (f (cn_db s)), s)"

definition worldC :: "(center_world \<Rightarrow> 'a) \<Rightarrow> 'a ctr" where
  "worldC f w s = (Inr (f w), s)"

definition read_tick :: "(center_world \<Rightarrow> nat \<Rightarrow> 'a) \<Rightarrow> 'a ctr" where
  "read_tick f w s = (Inr (f w (cn_tick s)), s\<lparr>cn_tick := Suc (cn_tick s)\<rparr>)"

definition nowC :: "int ctr" where
  "nowC = read_tick cw_now"

definition uuidC :: "string ctr" where
  "uuidC = read_tick cw_uuid"

definition settingC :: "string \<Rightarrow> int \<Rightarrow> int ctr" where
  "settingC name dflt = worldC (\<lambda>w. case cw_setting w name of None \<Rightarrow> dflt | Some n \<Rightarrow> n)"

text \<open>A write: the constraints decide whether the database takes it. A statement that fails changes nothing.\<close>

definition writeC :: "(center_db \<Rightarrow> center_db pyres) \<Rightarrow> unit ctr" where
  "writeC f w s =
     (let s' = s\<lparr>cn_tick := Suc (cn_tick s)\<rparr> in
      if cw_locked w (cn_tick s) then (Inl (OperationalError ''database is locked''), s')
      else (case f (cn_db s) of Inl x \<Rightarrow> (Inl x, s') | Inr db \<Rightarrow> (Inr (), s'\<lparr>cn_db := db\<rparr>)))"

text \<open>Messages to robots, notifications of browsers, the center's log, services that are not modelled.\<close>

definition emitC :: "center_event \<Rightarrow> pyval ctr" where
  "emitC e w s = (cw_reply w (length (cn_events s)) e, s\<lparr>cn_events := cn_events s @ [e]\<rparr>)"

definition notifyC :: "string \<Rightarrow> pyval list \<Rightarrow> unit ctr" where
  "notifyC name args = thenC (emitC (Notified name args)) (returnC ())"

text \<open>\<open>transaction.atomic\<close>, also as a savepoint inside another one: an exception restores the database. What left the
  center stays.\<close>

definition atomicC :: "'a ctr \<Rightarrow> 'a ctr" where
  "atomicC m w s = (case m w s of (Inl x, s') \<Rightarrow> (Inl x, s'\<lparr>cn_db := cn_db s\<rparr>) | (Inr a, s') \<Rightarrow> (Inr a, s'))"

text \<open>A loop over rows that were read before it.\<close>

fun for_rows :: "('r \<Rightarrow> unit ctr) \<Rightarrow> 'r list \<Rightarrow> unit ctr" where
  "for_rows body [] = returnC ()"
| "for_rows body (r # rs) = thenC (body r) (for_rows body rs)"

section \<open>Tables\<close>

definition row_of :: "('r \<Rightarrow> 'k) \<Rightarrow> 'k \<Rightarrow> 'r list \<Rightarrow> 'r option" where
  "row_of key k rows = find (\<lambda>r. key r = k) rows"

definition edit_rows :: "('r \<Rightarrow> 'k) \<Rightarrow> 'k \<Rightarrow> ('r \<Rightarrow> 'r) \<Rightarrow> 'r list \<Rightarrow> 'r list" where
  "edit_rows key k f rows = map (\<lambda>r. if key r = k then f r else r) rows"

definition integrity :: "bool \<Rightarrow> string \<Rightarrow> unit pyres" where
  "integrity ok name = raise_if (\<not> ok) (IntegrityError name)"

text \<open>\<open>Model.objects.get\<close> by the key.\<close>

definition getC :: "(center_db \<Rightarrow> 'r option) \<Rightarrow> 'r ctr" where
  "getC f = bindC (dbC f) (\<lambda>r. case r of None \<Rightarrow> raiseC DoesNotExist | Some a \<Rightarrow> returnC a)"

subsection \<open>Executions\<close>

definition is_active :: "execution_row \<Rightarrow> bool" where
  "is_active e = (ex_state e \<in> set ACTIVE_STATES)"

text \<open>The largest integer SQLite stores.\<close>

definition SQLITE_INTEGER :: int where
  "SQLITE_INTEGER = 2 ^ 63"

definition fits :: "int \<Rightarrow> bool" where
  "fits n = (- SQLITE_INTEGER \<le> n \<and> n < SQLITE_INTEGER)"

fun opt_all :: "('a \<Rightarrow> bool) \<Rightarrow> 'a option \<Rightarrow> bool" where
  "opt_all p None = True"
| "opt_all p (Some a) = p a"

definition check_execution :: "execution_row \<Rightarrow> execution_row list \<Rightarrow> unit pyres" where
  "check_execution e rows = seqE
     [raise_if (\<not> (fits (ex_version e) \<and> fits (ex_round e) \<and> fits (ex_completed e) \<and> fits (ex_total e)
        \<and> opt_all fits (ex_waypoint_index e) \<and> opt_all fits (ex_eta e))) OverflowError,
      integrity (0 \<le> ex_version e) ''task_exec_state_version_gte_0'',
      integrity (\<not> (is_active e \<and> (\<exists>r \<in> set rows. ex_id r \<noteq> ex_id e \<and> ex_robot r = ex_robot e \<and> is_active r)))
        ''uniq_active_task_execution_per_robot'',
      integrity (\<not> (ex_dispatch_key e \<noteq> None \<and> (\<exists>r \<in> set rows. ex_id r \<noteq> ex_id e \<and> ex_dispatch_key r = ex_dispatch_key e)))
        ''loop_dispatch_key'',
      integrity (0 \<le> ex_round e \<and> 0 \<le> ex_completed e \<and> 0 \<le> ex_total e \<and> opt_all (\<lambda>n. 0 \<le> n) (ex_waypoint_index e)
        \<and> opt_all (\<lambda>n. 0 \<le> n) (ex_eta e)) ''positive integer columns'']"

definition find_execution :: "string \<Rightarrow> center_db \<Rightarrow> execution_row option" where
  "find_execution pk db = row_of ex_id pk (db_executions db)"

definition insert_execution :: "execution_row \<Rightarrow> center_db \<Rightarrow> center_db pyres" where
  "insert_execution e db =
     bindE (seqE [integrity (find_execution (ex_id e) db = None) ''primary key'', check_execution e (db_executions db)])
       (\<lambda>_. Inr (db\<lparr>db_executions := db_executions db @ [e]\<rparr>))"

text \<open>\<open>save(update_fields=...)\<close> with the columns that \<open>f\<close> assigns, and \<open>save()\<close> of all columns.\<close>

definition update_execution :: "string \<Rightarrow> (execution_row \<Rightarrow> execution_row) \<Rightarrow> center_db \<Rightarrow> center_db pyres" where
  "update_execution pk f db =
     (case find_execution pk db of
        None \<Rightarrow> Inl DatabaseError
      | Some r \<Rightarrow> bindE (check_execution (f r) (db_executions db))
          (\<lambda>_. Inr (db\<lparr>db_executions := edit_rows ex_id pk f (db_executions db)\<rparr>)))"

definition save_execution :: "execution_row \<Rightarrow> center_db \<Rightarrow> center_db pyres" where
  "save_execution e db =
     (if find_execution (ex_id e) db = None then insert_execution e db else update_execution (ex_id e) (\<lambda>_. e) db)"

text \<open>Rows without their unique key \<open>(execution, state_version)\<close>: several stages can report the same version.\<close>

definition STAGE_EVENTS :: "string list" where
  "STAGE_EVENTS = [''task.obstacle_stage'', ''task.arrival_degraded_accepted'', ''task.navigation_stage'']"

definition check_task_event :: "task_event_row \<Rightarrow> task_event_row list \<Rightarrow> unit pyres" where
  "check_task_event t rows = seqE
     [raise_if (\<not> fits (te_version t)) OverflowError,
      integrity (\<not> (te_message_id t \<noteq> None \<and> (\<exists>r \<in> set rows. te_message_id r = te_message_id t))) ''message_id'',
      integrity (\<not> (te_type t \<notin> set STAGE_EVENTS \<and> (\<exists>r \<in> set rows. te_type r \<notin> set STAGE_EVENTS
          \<and> te_execution r = te_execution t \<and> te_version r = te_version t))) ''uniq_task_state_ver_non_obstacle'']"

definition insert_task_event :: "task_event_row \<Rightarrow> center_db \<Rightarrow> center_db pyres" where
  "insert_task_event t db =
     bindE (check_task_event t (db_task_events db))
       (\<lambda>_. Inr (db\<lparr>db_task_events := db_task_events db @ [t\<lparr>te_id := length (db_task_events db)\<rparr>]\<rparr>))"

definition update_task_event :: "nat \<Rightarrow> (task_event_row \<Rightarrow> task_event_row) \<Rightarrow> center_db \<Rightarrow> center_db pyres" where
  "update_task_event i f db = Inr (db\<lparr>db_task_events := edit_rows te_id i f (db_task_events db)\<rparr>)"

subsection \<open>Commands\<close>

definition find_command :: "string \<Rightarrow> center_db \<Rightarrow> command_row option" where
  "find_command pk db = row_of cm_id pk (db_commands db)"

definition check_command :: "command_row \<Rightarrow> unit pyres" where
  "check_command c = integrity (cm_issued c < cm_expires c) ''remote_cmd_expiry_after_issue''"

definition insert_command :: "command_row \<Rightarrow> center_db \<Rightarrow> center_db pyres" where
  "insert_command c db =
     bindE (seqE [integrity (find_command (cm_id c) db = None) ''primary key'', check_command c])
       (\<lambda>_. Inr (db\<lparr>db_commands := db_commands db @ [c]\<rparr>))"

definition update_command :: "string \<Rightarrow> (command_row \<Rightarrow> command_row) \<Rightarrow> center_db \<Rightarrow> center_db pyres" where
  "update_command pk f db =
     (case find_command pk db of
        None \<Rightarrow> Inl DatabaseError
      | Some r \<Rightarrow> bindE (check_command (f r)) (\<lambda>_. Inr (db\<lparr>db_commands := edit_rows cm_id pk f (db_commands db)\<rparr>)))"

definition save_command :: "command_row \<Rightarrow> center_db \<Rightarrow> center_db pyres" where
  "save_command c db =
     (if find_command (cm_id c) db = None then insert_command c db else update_command (cm_id c) (\<lambda>_. c) db)"

definition insert_command_event :: "command_event_row \<Rightarrow> center_db \<Rightarrow> center_db pyres" where
  "insert_command_event e db =
     bindE (integrity (\<not> (ce_message_id e \<noteq> None \<and> (\<exists>r \<in> set (db_command_events db). ce_message_id r = ce_message_id e)))
       ''message_id'') (\<lambda>_. Inr (db\<lparr>db_command_events := db_command_events db @ [e]\<rparr>))"

subsection \<open>Received messages, robots, sessions\<close>

definition find_inbound :: "string \<Rightarrow> center_db \<Rightarrow> inbound_row option" where
  "find_inbound mid db = row_of ib_message_id mid (db_inbound db)"

definition insert_inbound :: "inbound_row \<Rightarrow> center_db \<Rightarrow> center_db pyres" where
  "insert_inbound r db =
     bindE (integrity (find_inbound (ib_message_id r) db = None) ''primary key'')
       (\<lambda>_. Inr (db\<lparr>db_inbound := db_inbound db @ [r]\<rparr>))"

definition update_inbound :: "string \<Rightarrow> (inbound_row \<Rightarrow> inbound_row) \<Rightarrow> center_db \<Rightarrow> center_db pyres" where
  "update_inbound mid f db =
     (if find_inbound mid db = None then Inl DatabaseError
      else Inr (db\<lparr>db_inbound := edit_rows ib_message_id mid f (db_inbound db)\<rparr>))"

definition find_robot :: "int \<Rightarrow> center_db \<Rightarrow> robot_row option" where
  "find_robot pk db = row_of rb_id pk (db_robots db)"

definition robot_by_code :: "string \<Rightarrow> center_db \<Rightarrow> robot_row option" where
  "robot_by_code code db = row_of rb_code code (db_robots db)"

definition update_robot :: "int \<Rightarrow> (robot_row \<Rightarrow> robot_row) \<Rightarrow> center_db \<Rightarrow> center_db pyres" where
  "update_robot pk f db =
     (if find_robot pk db = None then Inl DatabaseError
      else Inr (db\<lparr>db_robots := edit_rows rb_id pk f (db_robots db)\<rparr>))"

subsection \<open>Status, battery episodes\<close>

definition find_status :: "int \<Rightarrow> center_db \<Rightarrow> status_row option" where
  "find_status robot db = row_of sl_robot robot (db_statuses db)"

definition check_status :: "status_row \<Rightarrow> unit pyres" where
  "check_status l = seqE
     [raise_if (\<not> (fits (sl_version l) \<and> opt_all fits (sl_source_status l) \<and> opt_all fits (sl_percent l)
        \<and> opt_all fits (sl_signal l))) OverflowError,
      integrity (opt_all (\<lambda>n. 0 \<le> n) (sl_source_status l) \<and> opt_all (\<lambda>n. 0 \<le> n) (sl_percent l)
        \<and> opt_all (\<lambda>n. 0 \<le> n) (sl_signal l)) ''positive integer columns'']"

definition put_status :: "status_row \<Rightarrow> center_db \<Rightarrow> center_db pyres" where
  "put_status l db =
     bindE (check_status l) (\<lambda>_. Inr (db\<lparr>db_statuses :=
       (if find_status (sl_robot l) db = None then db_statuses db @ [l]
        else edit_rows sl_robot (sl_robot l) (\<lambda>_. l) (db_statuses db))\<rparr>))"

definition active_episode :: "int \<Rightarrow> center_db \<Rightarrow> battery_episode_row option" where
  "active_episode robot db = find (\<lambda>b. be_robot b = robot \<and> be_active b) (db_episodes db)"

definition insert_episode :: "battery_episode_row \<Rightarrow> center_db \<Rightarrow> center_db pyres" where
  "insert_episode b db =
     bindE (seqE [integrity (\<forall>r \<in> set (db_episodes db). be_key r \<noteq> be_key b) ''episode_key'',
         integrity (\<not> (be_active b \<and> active_episode (be_robot b) db \<noteq> None)) ''uniq_active_low_battery_episode''])
       (\<lambda>_. Inr (db\<lparr>db_episodes := db_episodes db @ [b]\<rparr>))"

definition clear_episode :: "string \<Rightarrow> int \<Rightarrow> center_db \<Rightarrow> center_db" where
  "clear_episode key now db =
     db\<lparr>db_episodes := edit_rows be_key key (\<lambda>b. b\<lparr>be_active := False, be_cleared := Some now\<rparr>) (db_episodes db)\<rparr>"

subsection \<open>Patrol loops\<close>

definition LOOP_ACTIVE_STATES :: "string list" where
  "LOOP_ACTIVE_STATES = [''starting'', ''running'', ''resting'', ''observing'', ''recovering'', ''paused'', ''stopping'']"

definition LOOP_TERMINAL_STATES :: "string list" where
  "LOOP_TERMINAL_STATES = [''completed'', ''failed'', ''cancelled'', ''low_battery_stopped'']"

definition loop_active :: "loop_row \<Rightarrow> bool" where
  "loop_active l = (lp_state l \<in> set LOOP_ACTIVE_STATES)"

definition check_loop :: "loop_row \<Rightarrow> loop_row list \<Rightarrow> unit pyres" where
  "check_loop l rows = seqE
     [raise_if (\<not> (fits (lp_version l) \<and> fits (lp_duration l) \<and> fits (lp_rest l) \<and> fits (lp_round l))) OverflowError,
      integrity (0 < lp_duration l) ''loop_duration_gt_0'',
      integrity (lp_attempt l \<le> 10) ''loop_recovery_attempt_lte_10'',
      integrity (\<not> (loop_active l \<and> (\<exists>r \<in> set rows. lp_id r \<noteq> lp_id l \<and> lp_robot r = lp_robot l \<and> loop_active r)))
        ''uniq_active_patrol_loop_per_robot'',
      integrity (0 \<le> lp_rest l \<and> 0 \<le> lp_round l \<and> 0 \<le> lp_attempt l \<and> 0 \<le> lp_max_attempts l) ''positive integer columns'']"

definition find_loop :: "string \<Rightarrow> center_db \<Rightarrow> loop_row option" where
  "find_loop pk db = row_of lp_id pk (db_loops db)"

definition insert_loop :: "loop_row \<Rightarrow> center_db \<Rightarrow> center_db pyres" where
  "insert_loop l db =
     bindE (seqE [integrity (find_loop (lp_id l) db = None) ''primary key'', check_loop l (db_loops db)])
       (\<lambda>_. Inr (db\<lparr>db_loops := db_loops db @ [l]\<rparr>))"

definition update_loop :: "string \<Rightarrow> (loop_row \<Rightarrow> loop_row) \<Rightarrow> center_db \<Rightarrow> center_db pyres" where
  "update_loop pk f db =
     (case find_loop pk db of
        None \<Rightarrow> Inl DatabaseError
      | Some r \<Rightarrow> bindE (check_loop (f r) (db_loops db))
          (\<lambda>_. Inr (db\<lparr>db_loops := edit_rows lp_id pk f (db_loops db)\<rparr>)))"

definition save_loop :: "loop_row \<Rightarrow> center_db \<Rightarrow> center_db pyres" where
  "save_loop l db = (if find_loop (lp_id l) db = None then insert_loop l db else update_loop (lp_id l) (\<lambda>_. l) db)"

definition find_loop_event :: "string \<Rightarrow> center_db \<Rightarrow> loop_event_row option" where
  "find_loop_event key db = row_of le_key key (db_loop_events db)"

definition insert_loop_event :: "loop_event_row \<Rightarrow> center_db \<Rightarrow> center_db pyres" where
  "insert_loop_event e db =
     bindE (integrity (find_loop_event (le_key e) db = None) ''idempotency_key'')
       (\<lambda>_. Inr (db\<lparr>db_loop_events := db_loop_events db @ [e]\<rparr>))"

subsection \<open>Schedule runs\<close>

definition find_run :: "int \<Rightarrow> int \<Rightarrow> center_db \<Rightarrow> schedule_run_row option" where
  "find_run schedule planned db = row_of (\<lambda>r. (sr_schedule r, sr_planned r)) (schedule, planned) (db_runs db)"

definition insert_run :: "schedule_run_row \<Rightarrow> center_db \<Rightarrow> center_db pyres" where
  "insert_run r db =
     bindE (integrity (find_run (sr_schedule r) (sr_planned r) db = None) ''uniq_schedule_planned_start'')
       (\<lambda>_. Inr (db\<lparr>db_runs := db_runs db @ [r]\<rparr>))"

definition update_run :: "int \<Rightarrow> int \<Rightarrow> (schedule_run_row \<Rightarrow> schedule_run_row) \<Rightarrow> center_db \<Rightarrow> center_db" where
  "update_run schedule planned f db =
     db\<lparr>db_runs := edit_rows (\<lambda>r. (sr_schedule r, sr_planned r)) (schedule, planned) f (db_runs db)\<rparr>"

section \<open>Column conversions\<close>

text \<open>\<open>IntegerField\<close>, \<open>CharField\<close> without null, \<open>DecimalField\<close> and \<open>UUIDField\<close>.\<close>

definition int_column :: "pyval \<Rightarrow> int option pyres" where
  "int_column v = (if v = PNone then Inr None else bindE (py_int v) (\<lambda>n. Inr (Some n)))"

definition text_column :: "pyval \<Rightarrow> string pyres" where
  "text_column v = (if v = PNone then Inl (IntegrityError ''NOT NULL'') else Inr (py_str v))"

definition decimal_column :: "(pyval \<Rightarrow> real pyres) \<Rightarrow> pyval \<Rightarrow> real option pyres" where
  "decimal_column decimal v = (if v = PNone then Inr None else bindE (decimal v) (\<lambda>x. Inr (Some x)))"

definition uuid_of_int :: "int \<Rightarrow> string option pyres" where
  "uuid_of_int n = (if 0 \<le> n \<and> n < 2 ^ 128 then Inr (Some (uuid_to_text n)) else Inl ValidationError)"

fun uuid_column :: "pyval \<Rightarrow> string option pyres" where
  "uuid_column PNone = Inr None"
| "uuid_column (PInt n) = uuid_of_int n"
| "uuid_column (PBool b) = uuid_of_int (if b then 1 else 0)"
| "uuid_column (PStr s) = (case uuid_of_text s of None \<Rightarrow> Inl ValidationError | Some n \<Rightarrow> Inr (Some (uuid_to_text n)))"
| "uuid_column _ = Inl ValidationError"

end
