(* ===== verification/CenterTask.thy ===== *)
theory CenterTask
  imports CenterDb
begin

text \<open>
  The center's task service (\<open>monitoring/services/task_service.py\<close>): the state machine of an execution, the route
  snapshot that goes to the robot, the creation of an execution, its transitions with their events, the repair of an
  execution that only the center had given up, and progress. \<open>reconcile_task_start_for_execution\<close> of the command service
  is here too, because every terminal transition calls it.
\<close>

section \<open>The state machine\<close>

definition TERMINAL_STATES :: "string list" where
  "TERMINAL_STATES = [''completed'', ''failed'', ''cancelled'', ''timed_out'', ''rejected'']"

definition LISTED_TRANSITIONS :: "(string \<times> string list) list" where
  "LISTED_TRANSITIONS =
     [(''created'', [''dispatching'', ''pausing'', ''resuming'', ''cancelling'', ''cancelled'', ''interrupted'']),
      (''dispatching'', [''accepted'', ''pausing'', ''resuming'', ''cancelling'', ''cancelled'', ''rejected'', ''timed_out'',
         ''interrupted'']),
      (''accepted'', [''running'', ''pausing'', ''resuming'', ''cancelling'', ''completed'', ''cancelled'', ''failed'',
         ''timed_out'', ''interrupted'']),
      (''running'', [''pausing'', ''paused'', ''resuming'', ''cancelling'', ''cancelled'', ''completed'', ''failed'',
         ''timed_out'', ''interrupted'']),
      (''pausing'', [''accepted'', ''running'', ''paused'', ''resuming'', ''cancelling'', ''cancelled'', ''failed'',
         ''interrupted'']),
      (''paused'', [''running'', ''pausing'', ''resuming'', ''cancelling'', ''cancelled'', ''interrupted'']),
      (''resuming'', [''accepted'', ''running'', ''paused'', ''pausing'', ''cancelling'', ''cancelled'', ''failed'',
         ''interrupted'']),
      (''cancelling'', [''cancelled'', ''failed'', ''interrupted'']),
      (''interrupted'', [''accepted'', ''paused'', ''running'', ''pausing'', ''resuming'', ''cancelling'', ''cancelled'',
         ''failed''])]"

text \<open>The loop over \<open>ACTIVE_STATES\<close> adds the terminal states to every listed set. A state without an entry has no
  transition.\<close>

definition allowed_targets :: "string \<Rightarrow> string list" where
  "allowed_targets current =
     (case map_of LISTED_TRANSITIONS current of
        None \<Rightarrow> []
      | Some targets \<Rightarrow> if current \<in> set ACTIVE_STATES then targets @ TERMINAL_STATES else targets)"

definition assert_transition_allowed :: "string \<Rightarrow> pyval \<Rightarrow> string pyres" where
  "assert_transition_allowed current target =
     bindE (in_strs target (allowed_targets current)) (\<lambda>ok.
       if ok then Inr (py_str target)
       else Inl (TaskStateError (''invalid task state transition: '' @ current @ '' -> '' @ py_str target)))"

section \<open>The waypoints of a route\<close>

definition keyword_or :: "string list \<Rightarrow> string \<Rightarrow> pyval \<Rightarrow> string" where
  "keyword_or options dflt v = (let t = lower (strip (str_or v dflt)) in if t \<in> set options then t else dflt)"

definition center_global_controller :: "pyval \<Rightarrow> string" where
  "center_global_controller = keyword_or [''theta_star'', ''navfn'', ''smac_hybrid''] ''theta_star''"

definition center_local_controller :: "pyval \<Rightarrow> string" where
  "center_local_controller = keyword_or [''mppi'', ''rpp'', ''ilqr''] ''mppi''"

definition normalize_speed_level :: "pyval \<Rightarrow> string" where
  "normalize_speed_level = keyword_or [''micro'', ''low'', ''medium'', ''high''] ''micro''"

definition normalize_anchor_preference :: "pyval \<Rightarrow> string" where
  "normalize_anchor_preference = keyword_or [''ndt'', ''rtk'', ''balanced''] ''balanced''"

text \<open>Every route without an explicit policy stops and confirms, whatever its other fields say.\<close>

definition normalize_arrival_policy :: "pyval \<Rightarrow> string" where
  "normalize_arrival_policy v =
     (let t = lower (strip (str_or v []))
      in if t \<in> {''pass_through'', ''stop_and_confirm'', ''precision'', ''dock''} then t else ''stop_and_confirm'')"

definition normalize_micro_adjust_mode :: "pyval \<Rightarrow> string \<Rightarrow> string" where
  "normalize_micro_adjust_mode v policy =
     (if policy \<in> {''pass_through'', ''dock''} then ''cmd_vel'' else keyword_or [''cmd_vel'', ''nav2_goal''] ''cmd_vel'' v)"

definition unset_template :: "pyval \<Rightarrow> bool" where
  "unset_template v = (v = PNone \<or> v = PStr [])"

definition normalize_speech_mode :: "pyval \<Rightarrow> pyval \<Rightarrow> string" where
  "normalize_speech_mode v template =
     (let t = lower (strip (str_or v [])) in
      if t \<in> {''blocking'', ''non_blocking'', ''disabled''} then t
      else if unset_template template then ''disabled'' else ''non_blocking'')"

definition default_name :: "nat \<Rightarrow> pyval" where
  "default_name index = PStr (''<waypoint> '' @ show_nat (index + 1))"

text \<open>\<open>names[index] if index < len(names) else ...\<close> with \<open>names = route.waypoint_names or []\<close>.\<close>

fun name_at :: "pyval \<Rightarrow> nat \<Rightarrow> pyval pyres" where
  "name_at (PList xs) i = Inr (if i < length xs then xs ! i else default_name i)"
| "name_at (PStr s) i = Inr (if i < length s then PStr [s ! i] else default_name i)"
| "name_at (PDict d) i = (if i < length d then Inl KeyError else Inr (default_name i))"
| "name_at v i = (if truthy v then Inl TypeError else Inr (default_name i))"

definition dwell_of :: "nat \<Rightarrow> pydict \<Rightarrow> real pyres" where
  "dwell_of index raw =
     (case py_float (py_or (dget_def_val raw ''dwell_seconds'' (PInt 0)) (PInt 0)) of
        Inl x \<Rightarrow> Inl (if x = TypeError \<or> x = ValueError
          then TaskStateError (''route waypoint '' @ show_nat index @ '' dwell_seconds must be numeric'') else x)
      | Inr (Fin t) \<Rightarrow>
          if 0 \<le> t \<and> t \<le> 3600 then Inr t
          else Inl (TaskStateError (''route waypoint '' @ show_nat index @ '' dwell_seconds must be between 0 and 3600''))
      | Inr _ \<Rightarrow> Inl (TaskStateError (''route waypoint '' @ show_nat index @ '' dwell_seconds must be between 0 and 3600'')))"

definition flag :: "pydict \<Rightarrow> string \<Rightarrow> bool \<Rightarrow> bool" where
  "flag raw key dflt = truthy (dget_def_val raw key (PBool dflt))"

text \<open>The options of a waypoint that is an object, in the order of the snapshot; \<open>force\<close> was checked to be a boolean.\<close>

definition waypoint_options :: "string \<Rightarrow> pydict \<Rightarrow> pyval list \<Rightarrow> pyval \<Rightarrow> pydict" where
  "waypoint_options controller raw actions force =
     (let mode = lower (str_or (dget raw ''localization_mode'') ''ndt'');
          avoidance = flag raw ''avoidance_to_next'' True;
          policy = normalize_arrival_policy (dget raw ''arrival_policy'') in
       [(''actions'', PList actions),
        (''localization_mode'', PStr (if mode \<in> {''ndt'', ''rtk'', ''ukf''} then mode else ''ndt'')),
        (''local_controller'', PStr (center_local_controller (dget raw ''local_controller''))),
        (''navigation_speed_level'', PStr (normalize_speed_level (dget raw ''navigation_speed_level''))),
        (''global_controller'', PStr (center_global_controller (py_or (dget raw ''global_controller'') (PStr controller)))),
        (''avoidance_to_next'', PBool avoidance),
        (''detour_enabled'', PBool (flag raw ''detour_enabled'' avoidance)),
        (''collision_slowdown_enabled'', PBool (flag raw ''collision_slowdown_enabled'' avoidance)),
        (''collision_stop_enabled'', PBool (flag raw ''collision_stop_enabled'' True)),
        (''require_yaw'', PBool (flag raw ''require_yaw'' False)),
        (''force_localization_correction'', force),
        (''arrival_policy'', PStr policy),
        (''arrival_micro_adjust_mode'', PStr (normalize_micro_adjust_mode (dget raw ''arrival_micro_adjust_mode'') policy)),
        (''localization_anchor_preference'', PStr (normalize_anchor_preference (dget raw ''localization_anchor_preference''))),
        (''rtk_primary_allowed'', PBool (flag raw ''rtk_primary_allowed'' False)),
        (''speech_mode'', PStr (normalize_speech_mode (dget raw ''speech_mode'') (dget raw ''speech_template_id'')))])"

text \<open>The number of a point that is an array \<open>[x, y]\<close> or \<open>[x, y, yaw]\<close> and its fixed options.\<close>

definition plain_options :: "string \<Rightarrow> pydict" where
  "plain_options controller =
     [(''actions'', PList []), (''localization_mode'', PStr ''ndt''), (''local_controller'', PStr ''mppi''),
      (''navigation_speed_level'', PStr ''micro''), (''global_controller'', PStr controller),
      (''avoidance_to_next'', PBool True), (''detour_enabled'', PBool True), (''collision_slowdown_enabled'', PBool True),
      (''collision_stop_enabled'', PBool True), (''require_yaw'', PBool False),
      (''force_localization_correction'', PBool False), (''arrival_policy'', PStr (normalize_arrival_policy PNone)),
      (''arrival_micro_adjust_mode'', PStr ''cmd_vel''), (''localization_anchor_preference'', PStr ''balanced''),
      (''rtk_primary_allowed'', PBool False), (''speech_mode'', PStr ''disabled'')]"

definition waypoint_pose :: "nat \<Rightarrow> string \<Rightarrow> int \<Rightarrow> pyval \<Rightarrow> pyval \<Rightarrow> pyval \<Rightarrow> pyval \<Rightarrow> pyval \<Rightarrow> pydict pyres" where
  "waypoint_pose index wid number name x y yaw dwell =
     bindE (py_float x) (\<lambda>fx. bindE (py_float y) (\<lambda>fy. bindE (py_float yaw) (\<lambda>fyaw.
       Inr [(''waypoint_id'', PStr wid), (''sequence'', PInt (int index)), (''map_point_number'', PInt number),
            (''name'', name), (''x'', PFloat fx), (''y'', PFloat fy), (''yaw'', PFloat fyaw), (''dwell_seconds'', dwell)])))"

definition waypoint_speech :: "pydict \<Rightarrow> pydict pyres" where
  "waypoint_speech raw =
     (if unset_template (dget raw ''speech_template_id'') then Inr []
      else bindE (py_int (dget raw ''speech_template_id'')) (\<lambda>template.
        Inr [(''speech_template_id'', PInt template), (''speech_template_name'', PStr (str_or (dget raw ''speech_template_name'') [])),
             (''speech_text'', PStr (str_or (dget raw ''speech_text'') []))]))"

definition object_waypoint :: "string \<Rightarrow> pyval \<Rightarrow> nat \<Rightarrow> pydict \<Rightarrow> pydict pyres" where
  "object_waypoint controller names index raw =
     bindE (if truthy (dget raw ''name'') then Inr (dget raw ''name'') else name_at names index) (\<lambda>name.
     bindE (py_int (py_or (dget raw ''map_point_number'') (PInt (int index + 1)))) (\<lambda>number.
     bindE (dwell_of index raw) (\<lambda>dwell.
     bindE (list_or_empty (dget raw ''actions'')) (\<lambda>actions.
     (let force = dget_def_val raw ''force_localization_correction'' (PBool False) in
      if \<not> is_bool force
        then Inl (TaskStateError (''route waypoint '' @ show_nat index @ '' force_localization_correction must be boolean''))
      else
        bindE (waypoint_pose index (str_or (dget raw ''waypoint_id'') (''wp-'' @ show_nat (index + 1))) number name
            (dget raw ''x'') (dget raw ''y'') (dget_def_val raw ''yaw'' (PFloat (Fin 0))) (PFloat (Fin (py_round 1 dwell))))
          (\<lambda>pose. bindE (waypoint_speech raw) (\<lambda>speech.
            Inr (pose @ waypoint_options controller raw actions force @ speech))))))))"

definition array_waypoint :: "string \<Rightarrow> pyval \<Rightarrow> nat \<Rightarrow> pyval list \<Rightarrow> pydict pyres" where
  "array_waypoint controller names index xs =
     bindE (name_at names index) (\<lambda>name.
     bindE (waypoint_pose index (''wp-'' @ show_nat (index + 1)) (int index + 1) name (xs ! 0) (xs ! 1)
         (if 3 \<le> length xs then xs ! 2 else PFloat (Fin 0)) (PInt 0))
       (\<lambda>pose. Inr (pose @ plain_options controller)))"

definition normalize_waypoint :: "string \<Rightarrow> pyval \<Rightarrow> nat \<Rightarrow> pyval \<Rightarrow> pydict pyres" where
  "normalize_waypoint controller names index raw =
     (case raw of
        PDict d \<Rightarrow> object_waypoint controller names index d
      | PList xs \<Rightarrow> if 2 \<le> length xs then array_waypoint controller names index xs
          else Inl (TaskStateError (''route waypoint '' @ show_nat index @ '' has invalid format''))
      | _ \<Rightarrow> Inl (TaskStateError (''route waypoint '' @ show_nat index @ '' has invalid format'')))"

fun normalize_from :: "string \<Rightarrow> pyval \<Rightarrow> nat \<Rightarrow> pyval list \<Rightarrow> pydict list pyres" where
  "normalize_from controller names i [] = Inr []"
| "normalize_from controller names i (raw # raws) =
     bindE (normalize_waypoint controller names i raw) (\<lambda>w.
     bindE (normalize_from controller names (Suc i) raws) (\<lambda>ws. Inr (w # ws)))"

definition normalize_waypoints :: "route_row \<Rightarrow> pydict list pyres" where
  "normalize_waypoints route =
     bindE (list_or_empty (ro_waypoints route)) (\<lambda>raws.
     bindE (normalize_from (center_global_controller (PStr (ro_controller route))) (ro_names route) 0 raws) (\<lambda>ws.
       if ws = [] then Inl (TaskStateError ''route must contain at least one waypoint'') else Inr ws))"

section \<open>The snapshot of a route\<close>

text \<open>What the snapshot reads beside the route and its map: the active navigation boundary (its revision and the payload
  of the boundary service) and the map set with its members.\<close>

record map_set_member =
  mm_submap :: string
  mm_sequence :: int
  mm_map :: int
  mm_metadata :: pyval
  mm_description :: string

record map_set_row =
  mst_id :: int
  mst_name :: string
  mst_version :: string
  mst_manifest :: pyval
  mst_members :: "map_set_member list"

definition source_map_dir :: "(string \<Rightarrow> pyval option) \<Rightarrow> string \<Rightarrow> string pyres" where
  "source_map_dir json_loads description =
     (case json_loads (if description = [] then ''{}'' else description) of
        None \<Rightarrow> Inr []
      | Some v \<Rightarrow> bindE (py_get v ''source_map_dir'') (\<lambda>d. Inr (str_or d [])))"

definition map_version_name :: "int \<Rightarrow> string" where
  "map_version_name i = ''legacy-mapdata-'' @ show_int i"

definition snapshot_map_part :: "map_row \<Rightarrow> string \<Rightarrow> pydict" where
  "snapshot_map_part m local_dir =
     [(''map_id'', PStr (show_int (md_id m))), (''map_version'', PStr (map_version_name (md_id m))), (''sha256'', PNone),
      (''map_name'', PStr (md_name m)), (''local_map_dir'', PStr local_dir),
      (''coordinate_mode'', PStr (md_coordinate_mode m)), (''scene_scope'', PStr (md_scene_scope m)),
      (''localization_mode'', PStr (md_localization_mode m)), (''origin_status'', PStr (md_origin_status m)),
      (''completeness'', PStr (md_completeness m))]"

definition snapshot_member :: "(string \<Rightarrow> pyval option) \<Rightarrow> map_set_member \<Rightarrow> pyval pyres" where
  "snapshot_member json_loads m =
     bindE (source_map_dir json_loads (mm_description m)) (\<lambda>d.
       Inr (PDict [(''submap_id'', PStr (mm_submap m)), (''sequence'', PInt (mm_sequence m)),
         (''map_id'', PStr (show_int (mm_map m))), (''map_version'', PStr (map_version_name (mm_map m))),
         (''metadata'', mm_metadata m), (''local_map_dir'', PStr d)]))"

fun snapshot_members :: "(string \<Rightarrow> pyval option) \<Rightarrow> map_set_member list \<Rightarrow> pyval list pyres" where
  "snapshot_members json_loads [] = Inr []"
| "snapshot_members json_loads (m # ms) =
     bindE (snapshot_member json_loads m) (\<lambda>v. bindE (snapshot_members json_loads ms) (\<lambda>vs. Inr (v # vs)))"

definition snapshot_map_set :: "(string \<Rightarrow> pyval option) \<Rightarrow> map_set_row option \<Rightarrow> pydict pyres" where
  "snapshot_map_set json_loads map_set =
     (case map_set of
        None \<Rightarrow> Inr []
      | Some s \<Rightarrow> bindE (snapshot_members json_loads (mst_members s)) (\<lambda>members.
          Inr [(''map_set'', PDict [(''id'', PStr (show_int (mst_id s))), (''name'', PStr (mst_name s)),
            (''version'', PStr (mst_version s)), (''manifest'', mst_manifest s), (''submaps'', PList members)])]))"

definition build_route_snapshot :: "(string \<Rightarrow> pyval option) \<Rightarrow> route_row \<Rightarrow> map_row \<Rightarrow> (int \<times> pydict) option
    \<Rightarrow> map_set_row option \<Rightarrow> pydict pyres" where
  "build_route_snapshot json_loads route m boundary map_set =
     bindE (source_map_dir json_loads (md_description m)) (\<lambda>local_dir.
     bindE (normalize_waypoints route) (\<lambda>ws.
     bindE (snapshot_map_set json_loads map_set) (\<lambda>set_part.
       Inr ([(''route_id'', PStr (show_int (ro_id route))), (''route_name'', PStr (ro_name route)),
             (''frame_id'', PStr ''map''), (''map'', PDict (snapshot_map_part m local_dir)),
             (''scene_scope'', PStr (if md_scene_scope m \<noteq> [] then md_scene_scope m
                else if ro_scene route \<noteq> [] then ro_scene route else ''indoor'')),
             (''global_controller'', PStr (center_global_controller (PStr (ro_controller route)))),
             (''waypoints'', PList (map PDict ws))]
            @ (case boundary of
                 None \<Rightarrow> []
               | Some (revision, body) \<Rightarrow>
                   if 0 < revision then [(''boundary_revision'', PInt revision), (''boundary'', PDict body)] else [])
            @ set_part))))"

end
