(* ===== verification/CenterExecution.thy ===== *)
theory CenterExecution
  imports CenterTask
begin

text \<open>
  \<open>TaskExecutionService\<close> of \<open>monitoring/services/task_service.py\<close> on the database: the creation of an execution, its
  transitions, the repair after a timeout of the center, progress; and \<open>reconcile_task_start_for_execution\<close> of
  \<open>command_service.py\<close>, which every terminal transition runs.
\<close>

section \<open>Small pieces\<close>

definition or_now :: "int option \<Rightarrow> int ctr" where
  "or_now t = (case t of None \<Rightarrow> nowC | Some n \<Rightarrow> returnC n)"

definition update_executionC :: "string \<Rightarrow> (execution_row \<Rightarrow> execution_row) \<Rightarrow> unit ctr" where
  "update_executionC pk f = writeC (update_execution pk f)"

definition record_task_event :: "task_event_row \<Rightarrow> unit ctr" where
  "record_task_event t = writeC (insert_task_event t)"

definition record_command_event :: "string \<Rightarrow> string \<Rightarrow> string \<Rightarrow> string option \<Rightarrow> pydict \<Rightarrow> unit ctr" where
  "record_command_event command kind source mid payload =
     writeC (insert_command_event \<lparr>ce_command = command, ce_type = kind, ce_source = source, ce_message_id = mid,
       ce_payload = payload\<rparr>)"

text \<open>The row of an execution that a service locks. The modelled services never delete one; the views of the REST interface,
  which are not modelled, delete the rows of a task or a map that is removed by force, and only inactive ones.\<close>

definition lock_execution :: "string \<Rightarrow> execution_row ctr" where
  "lock_execution pk = getC (find_execution pk)"

definition opt_text :: "string option \<Rightarrow> pyval" where
  "opt_text v = (case v of None \<Rightarrow> PNone | Some t \<Rightarrow> PStr t)"

section \<open>The start command of a finished execution\<close>

definition EXECUTION_COMMAND_STATUS :: "(string \<times> string) list" where
  "EXECUTION_COMMAND_STATUS = [(''completed'', ''succeeded''), (''failed'', ''failed''), (''cancelled'', ''cancelled''),
     (''timed_out'', ''timed_out''), (''rejected'', ''rejected'')]"

definition final_command :: "execution_row \<Rightarrow> string \<Rightarrow> int \<Rightarrow> command_row \<Rightarrow> command_row" where
  "final_command e target finished c =
     c\<lparr>cm_status := target, cm_finished := Some finished,
       cm_result := dput (dput (dput (cm_result c) ''final_task_state'' (PStr (ex_state e))) ''state_version''
         (PInt (ex_version e))) ''reconciled_from_execution'' (PBool True),
       cm_error_code := (if target = ''succeeded'' then [] else if ex_failure_code e \<noteq> [] then ex_failure_code e
         else if target = ''timed_out'' then ''COMMAND_TIMED_OUT'' else []),
       cm_error_message := (if target = ''succeeded'' then [] else ex_failure_message e)\<rparr>"

text \<open>\<open>save(update_fields=...)\<close>: the assigned columns of the instance \<open>c\<close> replace those of the row.\<close>

definition final_columns :: "command_row \<Rightarrow> command_row \<Rightarrow> command_row" where
  "final_columns c r = r\<lparr>cm_status := cm_status c, cm_finished := cm_finished c, cm_result := cm_result c,
     cm_error_code := cm_error_code c, cm_error_message := cm_error_message c\<rparr>"

definition reconcile_start_command :: "execution_row \<Rightarrow> string \<Rightarrow> string \<Rightarrow> command_row \<Rightarrow> unit ctr" where
  "reconcile_start_command e source target c =
     whenC (cm_status c \<noteq> target)
       (bindC (or_now (ex_finished e)) (\<lambda>finished. seqC
         [writeC (update_command (cm_id c) (final_columns (final_command e target finished c))),
          record_command_event (cm_id c) ''execution_terminal'' ''center'' None
            [(''source'', PStr source), (''previous_status'', PStr (cm_status c)), (''execution_state'', PStr (ex_state e)),
             (''execution_state_version'', PInt (ex_version e))]]))"

definition start_commands :: "string \<Rightarrow> center_db \<Rightarrow> command_row list" where
  "start_commands pk db = sort_key (\<lambda>c. - cm_issued c)
     (filter (\<lambda>c. cm_execution c = Some pk \<and> cm_type c = ''task.start'') (db_commands db))"

definition reconcile_task_start_for_execution :: "execution_row \<Rightarrow> string \<Rightarrow> unit ctr" where
  "reconcile_task_start_for_execution e source = atomicC
     (case map_of EXECUTION_COMMAND_STATUS (ex_state e) of
        None \<Rightarrow> returnC ()
      | Some target \<Rightarrow> bindC (dbC (start_commands (ex_id e))) (for_rows (reconcile_start_command e source target)))"

section \<open>Transitions\<close>

text \<open>The keyword arguments of \<open>transition\<close>. A reason that comes from a message is any JSON value; the columns store its
  text.\<close>

record transition_request =
  rq_event :: string
  rq_version :: "int option"
  rq_occurred :: "int option"
  rq_message_id :: "string option"
  rq_code :: string
  rq_message :: string
  rq_payload :: pydict

definition request :: "string \<Rightarrow> transition_request" where
  "request kind = \<lparr>rq_event = kind, rq_version = None, rq_occurred = None, rq_message_id = None, rq_code = [],
     rq_message = [], rq_payload = []\<rparr>"

definition is_final :: "string \<Rightarrow> bool" where
  "is_final t = (t \<in> set TERMINAL_STATES)"

text \<open>The locked instance after the assignments; \<open>at\<close> is \<open>occurred_at or timezone.now()\<close>.\<close>

definition moved :: "string \<Rightarrow> int \<Rightarrow> int \<Rightarrow> string \<Rightarrow> string \<Rightarrow> execution_row \<Rightarrow> execution_row" where
  "moved target version stamp code message e =
     e\<lparr>ex_state := target, ex_version := version, ex_last_edge_event := Some stamp,
       ex_accepted := (if target = ''accepted'' then Some stamp else ex_accepted e),
       ex_started := (if target = ''running'' \<and> ex_started e = None then Some stamp else ex_started e),
       ex_paused := (if target = ''paused'' then Some stamp else ex_paused e),
       ex_finished := (if is_final target then Some stamp else ex_finished e),
       ex_failure_code := (if code \<noteq> [] then code else ex_failure_code e),
       ex_failure_message := (if code \<noteq> [] then message else ex_failure_message e)\<rparr>"

definition task_event :: "execution_row \<Rightarrow> transition_request \<Rightarrow> int \<Rightarrow> task_event_row" where
  "task_event e q stamp = \<lparr>te_id = 0, te_execution = ex_id e, te_state = ex_state e, te_version = ex_version e,
     te_type = rq_event q, te_occurred = stamp, te_message_id = rq_message_id q, te_reason_code = rq_code q,
     te_reason_message = rq_message q, te_payload = rq_payload q\<rparr>"

definition apply_transition :: "execution_row \<Rightarrow> string \<Rightarrow> int \<Rightarrow> transition_request \<Rightarrow> execution_row ctr" where
  "apply_transition locked target version q =
     bindC (or_now (rq_occurred q)) (\<lambda>stamp.
     (let e = moved target version stamp (rq_code q) (rq_message q) locked in seq_valueC
       [writeC (save_execution e),
        record_task_event (task_event e q stamp),
        whenC (is_final target) (reconcile_task_start_for_execution e (rq_event q))] e))"

definition transition :: "string \<Rightarrow> pyval \<Rightarrow> transition_request \<Rightarrow> execution_row ctr" where
  "transition pk target q = atomicC
     (bindC (lock_execution pk) (\<lambda>locked.
      bindC (liftC (assert_transition_allowed (ex_state locked) target)) (\<lambda>t.
      (let version = (case rq_version q of None \<Rightarrow> ex_version locked + 1 | Some v \<Rightarrow> v) in
       if version \<le> ex_version locked then raiseC (TaskStateError ''STALE_TASK_STATE'')
       else apply_transition locked t version q))))"

section \<open>Repair after a timeout of the center\<close>

definition recovered :: "string \<Rightarrow> int \<Rightarrow> int \<Rightarrow> string \<Rightarrow> string \<Rightarrow> execution_row \<Rightarrow> execution_row" where
  "recovered target version stamp code message e =
     e\<lparr>ex_state := target, ex_version := version, ex_finished := None, ex_last_edge_event := Some stamp,
       ex_failure_code := code, ex_failure_message := message,
       ex_paused := (if target = ''paused'' then Some stamp else ex_paused e)\<rparr>"

definition recovered_columns :: "execution_row \<Rightarrow> execution_row \<Rightarrow> execution_row" where
  "recovered_columns e r = r\<lparr>ex_state := ex_state e, ex_version := ex_version e, ex_finished := ex_finished e,
     ex_last_edge_event := ex_last_edge_event e, ex_failure_code := ex_failure_code e,
     ex_failure_message := ex_failure_message e, ex_paused := ex_paused e\<rparr>"

definition recovery_code :: "string \<Rightarrow> string \<Rightarrow> string" where
  "recovery_code target code = (if code \<noteq> [] then code else if target = ''paused'' then ''EDGE_SYNC_PAUSED'' else ''EDGE_SYNC_ACTIVE'')"

definition recovery_message :: "string \<Rightarrow> string \<Rightarrow> string" where
  "recovery_message target message = (if message \<noteq> [] then message
     else if target = ''paused'' then ''<cloud-edge reconciliation: the task is paused on the device>''
     else ''<cloud-edge reconciliation: the task on the device is still in state> '' @ target)"

definition given_up :: "execution_row \<Rightarrow> bool" where
  "given_up e = (ex_state e \<in> {''timed_out'', ''interrupted''} \<and> ex_failure_code e = ''COMMAND_TIMED_OUT'')"

definition reconcile_edge_active_after_center_timeout :: "string \<Rightarrow> string \<Rightarrow> int \<Rightarrow> string \<Rightarrow> string \<Rightarrow> pydict
    \<Rightarrow> execution_row ctr" where
  "reconcile_edge_active_after_center_timeout pk target edge_version code message payload = atomicC
     (bindC (lock_execution pk) (\<lambda>locked.
      if \<not> given_up locked \<or> target \<notin> set ACTIVE_STATES \<or> target \<in> {''created'', ''dispatching''}
        then raiseC (TaskStateError ''TASK_TIMEOUT_NOT_RECONCILABLE'')
      else bindC nowC (\<lambda>stamp.
        (let version = max (ex_version locked + 1) (edge_version + 1);
             e = recovered target version stamp (recovery_code target code) (recovery_message target message) locked in
         seq_valueC
           [update_executionC pk (recovered_columns e),
            bindC nowC (\<lambda>occurred. record_task_event (task_event e
              ((request ''task.sync_center_timeout_reconciled'')\<lparr>rq_code := recovery_code target code,
                rq_message := recovery_message target message,
                rq_payload := dput (dput payload ''previous_cloud_state'' (PStr (ex_state locked)))
                  ''edge_state_version'' (PInt edge_version)\<rparr>) occurred))] e))))"

section \<open>Progress\<close>

definition progress_columns :: "(pyval \<Rightarrow> real pyres) \<Rightarrow> execution_row \<Rightarrow> pydict \<Rightarrow> int \<Rightarrow> int \<Rightarrow> execution_row pyres" where
  "progress_columns decimal e payload version stamp =
     bindE (py_int (dget_def_val payload ''completed_waypoints'' (PInt 0))) (\<lambda>completed.
     bindE (py_int (dget_def_val payload ''total_waypoints'' (PInt (ex_total e)))) (\<lambda>count.
     bindE (decimal_column decimal (dget payload ''distance_remaining_m'')) (\<lambda>distance.
     bindE (int_column (dget payload ''current_waypoint_index'')) (\<lambda>index.
     bindE (text_column (dget_def_val payload ''current_waypoint_id'' (PStr []))) (\<lambda>wid.
     bindE (int_column (dget payload ''estimated_time_remaining_s'')) (\<lambda>eta.
       Inr (e\<lparr>ex_version := version, ex_waypoint_index := index, ex_waypoint_id := wid, ex_completed := completed,
              ex_total := count, ex_distance := distance, ex_eta := eta, ex_last_edge_event := Some stamp\<rparr>)))))))"

definition apply_progress :: "execution_row \<Rightarrow> pydict \<Rightarrow> execution_row ctr" where
  "apply_progress e payload =
     bindC (liftC (bindE (dsub payload ''state_version'') py_int)) (\<lambda>version.
     if version \<le> ex_version e then returnC e
     else bindC (worldC cw_decimal) (\<lambda>decimal. bindC nowC (\<lambda>stamp.
       bindC (liftC (progress_columns decimal e payload version stamp)) (\<lambda>e'.
         thenC (writeC (save_execution e')) (returnC e')))))"

section \<open>The creation of an execution\<close>

definition loop_dispatch_key :: "string option \<Rightarrow> int \<Rightarrow> string option" where
  "loop_dispatch_key session round_number =
     (case session of None \<Rightarrow> None
      | Some t \<Rightarrow> if t = [] then None else Some (t @ '':'' @ show_int (max 1 round_number)))"

definition find_loop_execution :: "string option \<Rightarrow> int \<Rightarrow> center_db \<Rightarrow> execution_row option" where
  "find_loop_execution session round_number db =
     (case loop_dispatch_key session round_number of None \<Rightarrow> None
      | Some key \<Rightarrow> find (\<lambda>e. ex_dispatch_key e = Some key) (db_executions db))"

definition active_execution :: "int \<Rightarrow> center_db \<Rightarrow> execution_row option" where
  "active_execution robot db = find (\<lambda>e. ex_robot e = robot \<and> is_active e) (rev (db_executions db))"

definition busy_error :: "execution_row \<Rightarrow> pyexc" where
  "busy_error e = TaskStateError (''ROBOT_BUSY: <execution> '' @ ex_id e @ '' <is still in> '' @ ex_state e
     @ '' <round> '' @ show_int (ex_round e))"

text \<open>\<open>dict(v or {})\<close>: also a sequence of pairs makes a dictionary. A key that is not a text cannot be stored as JSON.\<close>

fun pair_of :: "pyval \<Rightarrow> (string \<times> pyval) pyres" where
  "pair_of (PList [PStr k, v]) = Inr (k, v)"
| "pair_of (PStr [a, b]) = Inr ([a], PStr [b])"
| "pair_of (PDict [(a, _), (b, _)]) = Inr (a, PStr b)"
| "pair_of (PList _) = Inl ValueError"
| "pair_of (PStr _) = Inl ValueError"
| "pair_of (PDict _) = Inl ValueError"
| "pair_of _ = Inl TypeError"

fun pairs_of :: "pyval list \<Rightarrow> pydict pyres" where
  "pairs_of [] = Inr []"
| "pairs_of (v # vs) = bindE (pair_of v) (\<lambda>p. bindE (pairs_of vs) (\<lambda>ps. Inr (p # ps)))"

fun new_dict :: "pyval \<Rightarrow> pydict pyres" where
  "new_dict (PDict d) = Inr d"
| "new_dict (PList xs) = bindE (pairs_of xs) (\<lambda>ps. Inr (dmerge [] ps))"
| "new_dict (PStr s) = (if s = [] then Inr [] else Inl ValueError)"
| "new_dict v = (if truthy v then Inl TypeError else Inr [])"

text \<open>A waypoint value that cannot be iterated is refused later, where the snapshot is built or counted.\<close>

definition checked_waypoints :: "pydict option \<Rightarrow> route_row \<Rightarrow> pyval list" where
  "checked_waypoints given route =
     (case list_or_empty (case given of None \<Rightarrow> ro_waypoints route | Some d \<Rightarrow> dget d ''waypoints'') of Inr ws \<Rightarrow> ws | Inl _ \<Rightarrow> [])"

definition route_scene :: "map_row \<Rightarrow> route_row \<Rightarrow> string" where
  "route_scene m route = (if md_scene_scope m \<noteq> [] then md_scene_scope m else if ro_scene route \<noteq> [] then ro_scene route
     else ''indoor'')"

definition check_route :: "(string \<Rightarrow> pyval option) \<Rightarrow> map_row \<Rightarrow> route_row \<Rightarrow> pydict option \<Rightarrow> unit pyres" where
  "check_route json_loads m route given =
     (case bindE (constraints_from_map_data json_loads m) (\<lambda>c.
             validate_route_against_map c (PStr (route_scene m route)) (checked_waypoints given route) False) of
        Inl (MapConstraintError code message) \<Rightarrow> Inl (TaskStateError code)
      | r \<Rightarrow> r)"

definition finish_snapshot :: "map_row \<Rightarrow> string \<Rightarrow> pydict \<Rightarrow> pydict pyres" where
  "finish_snapshot m source snapshot =
     (let scene = py_or (py_or (PStr (md_scene_scope m)) (dget snapshot ''scene_scope'')) (PStr ''indoor'') in
      bindE (new_dict (dget snapshot ''map'')) (\<lambda>map_part.
        Inr (dput (dput (dput snapshot ''scene_scope'' scene) ''map''
               (PDict (dput (dput map_part ''scene_scope'' scene) ''coordinate_mode''
                 (py_or (py_or (PStr (md_coordinate_mode m)) (dget map_part ''coordinate_mode'')) (PStr ''local_only'')))))
             ''execution_source'' (PStr (if source = [] then ''task_center'' else source)))))"

fun py_len :: "pyval \<Rightarrow> int pyres" where
  "py_len (PList xs) = Inr (int (length xs))"
| "py_len (PStr s) = Inr (int (length s))"
| "py_len (PDict d) = Inr (int (length d))"
| "py_len _ = Inl TypeError"

record creation =
  cr_operator :: "int option"
  cr_loop :: "string option"
  cr_round :: int
  cr_snapshot :: "pydict option"
  cr_source :: string
  cr_boundary :: "(int \<times> pydict) option"
  cr_map_set :: "map_set_row option"

definition new_execution :: "string \<Rightarrow> patrol_task_row \<Rightarrow> route_row \<Rightarrow> pydict \<Rightarrow> int \<Rightarrow> creation \<Rightarrow> execution_row" where
  "new_execution pk task route snapshot count c =
     \<lparr>ex_id = pk, ex_task = pt_id task, ex_robot = pt_robot task, ex_route = Some (ro_id route), ex_map = Some (ro_map route),
      ex_snapshot = snapshot, ex_loop = cr_loop c, ex_round = max 1 (cr_round c),
      ex_dispatch_key = loop_dispatch_key (cr_loop c) (cr_round c), ex_state = ''created'', ex_version = 0,
      ex_waypoint_index = None, ex_waypoint_id = [], ex_completed = 0, ex_total = count, ex_distance = None, ex_eta = None,
      ex_started = None, ex_finished = None, ex_accepted = None, ex_paused = None, ex_failure_code = [],
      ex_failure_message = [], ex_created_by = cr_operator c, ex_last_edge_event = None\<rparr>"

definition created_event :: "execution_row \<Rightarrow> transition_request" where
  "created_event e = (request ''task.created'')\<lparr>rq_payload :=
     [(''source'', PStr ''center''), (''execution_source'', dget (ex_snapshot e) ''execution_source''),
      (''loop_session_id'', opt_text (ex_loop e)), (''round_number'', PInt (ex_round e))]\<rparr>"

definition store_execution :: "execution_row \<Rightarrow> execution_row ctr" where
  "store_execution e =
     thenC (exceptC (writeC (insert_execution e))
       (\<lambda>x. raiseC (case x of IntegrityError _ \<Rightarrow> TaskStateError ''ROBOT_BUSY'' | _ \<Rightarrow> x)))
     (bindC nowC (\<lambda>stamp. thenC (record_task_event (task_event e (created_event e) stamp)) (returnC e)))"

definition create_on_route :: "patrol_task_row \<Rightarrow> route_row \<Rightarrow> creation \<Rightarrow> execution_row ctr" where
  "create_on_route task route c =
     bindC (getC (\<lambda>db. row_of md_id (ro_map route) (db_maps db))) (\<lambda>m.
     bindC (worldC cw_json_loads) (\<lambda>json.
     thenC (liftC (check_route json m route (cr_snapshot c)))
     (bindC (case cr_snapshot c of Some d \<Rightarrow> returnC d
        | None \<Rightarrow> liftC (build_route_snapshot json route m (cr_boundary c) (cr_map_set c))) (\<lambda>snapshot.
      bindC (liftC (finish_snapshot m (cr_source c) snapshot)) (\<lambda>final.
      bindC (liftC (bindE (dsub final ''waypoints'') py_len)) (\<lambda>count.
      bindC uuidC (\<lambda>pk. store_execution (new_execution pk task route final count c))))))))"

definition create_execution :: "patrol_task_row \<Rightarrow> creation \<Rightarrow> execution_row ctr" where
  "create_execution task c = atomicC
     (bindC (getC (find_robot (pt_robot task))) (\<lambda>robot.
      bindC (dbC (active_execution (rb_id robot))) (\<lambda>active.
      (case active of
         Some e \<Rightarrow> raiseC (busy_error e)
       | None \<Rightarrow>
           if \<not> pt_enabled task then raiseC (TaskStateError ''TASK_DISABLED'')
           else bindC (dbC (\<lambda>db. Option.bind (pt_route task) (\<lambda>r. row_of ro_id r (db_routes db)))) (\<lambda>route.
             (case route of
                None \<Rightarrow> raiseC (TaskStateError ''TASK_ROUTE_MISSING'')
              | Some r \<Rightarrow> create_on_route task r c))))))"

end
