(* ===== verification/CenterCommand.thy ===== *)
theory CenterCommand
  imports CenterExecution
begin

text \<open>
  Commands at the center: \<open>monitoring/services/command_service.py\<close> (creation with the battery guard, the marks a command
  gets when it is published, fails or times out, recovery commands), \<open>build_command_message\<close> of \<open>protocol.py\<close>, the
  publishing part of \<open>mqtt_client.py\<close> and the expiry sweep of \<open>run_device_worker.py\<close>.
\<close>

section \<open>Vocabulary\<close>

definition REMOTE_COMMAND_TYPES :: "string list" where
  "REMOTE_COMMAND_TYPES = [''task.start'', ''task.pause'', ''task.resume'', ''task.resume_forward'', ''task.cancel'',
     ''task.force_exit'', ''task.recover.v1'', ''mapping.start'', ''mapping.save'', ''mapping.cancel'', ''mapping.status'',
     ''mapping.scene_semantics'', ''mapping.origin_start'', ''mapping.origin_cancel'', ''mapping.origin_extract_global'',
     ''mapping.slam_start'', ''mapping.begin'', ''nav.status'', ''nav.start'', ''nav.restart'', ''nav.recover'', ''nav.stop'',
     ''nav.initial_pose'', ''nav.single_goal'', ''nav.relocalize'', ''diagnostics.log_config'', ''map.activate'',
     ''map.boundary_apply'', ''map.optimize'', ''sensor.restart'', ''charge.start'', ''charge.stop'', ''motion.start'',
     ''motion.stop'', ''audio.volume'', ''teleop.takeover_enter'', ''teleop.takeover_exit'', ''teleop.stand_up'',
     ''teleop.lie_down'', ''teleop.shake_hand'', ''teleop.two_leg_stand'', ''teleop.crawl_forward'', ''teleop.speed_micro'',
     ''teleop.speed_slow'', ''teleop.speed_normal'', ''teleop.speed_fast'', ''teleop.move_forward'', ''teleop.move_backward'',
     ''teleop.move_left'', ''teleop.move_right'', ''teleop.turn_left'', ''teleop.turn_right'', ''teleop.move_velocity'',
     ''teleop.move_stop'', ''teleop.passive'', ''teleop.skill'', ''teleop.skill_list'', ''teleop.skill_status'',
     ''teleop.skill_cancel'', ''teleop.person_follow_start'', ''teleop.person_follow_stop'', ''teleop.person_follow_status'']"

definition INTERNAL_ROBOT_COMMAND_TYPES :: "string list" where
  "INTERNAL_ROBOT_COMMAND_TYPES = [''diagnostics.nav_rosbag_stop'']"

definition COMMAND_TARGET_STATES :: "(string \<times> string) list" where
  "COMMAND_TARGET_STATES = [(''task.start'', ''dispatching''), (''task.pause'', ''pausing''), (''task.resume'', ''resuming''),
     (''task.resume_forward'', ''resuming''), (''task.cancel'', ''cancelling''), (''task.force_exit'', ''cancelling'')]"

section \<open>The battery guard\<close>

definition battery_of :: "robot_row \<Rightarrow> center_db \<Rightarrow> int" where
  "battery_of robot db =
     (case row_of sl_robot (rb_id robot) (db_statuses db) of
        Some l \<Rightarrow> (case sl_percent l of Some n \<Rightarrow> if sl_power l then n else rb_battery robot | None \<Rightarrow> rb_battery robot)
      | None \<Rightarrow> rb_battery robot)"

definition latched_episode :: "int \<Rightarrow> center_db \<Rightarrow> battery_episode_row option" where
  "latched_episode robot db = find (\<lambda>b. be_robot b = robot \<and> be_active b) (rev (db_episodes db))"

definition latched_text :: "battery_episode_row \<Rightarrow> string" where
  "latched_text b = ''<low battery protection is still latched (triggered at> '' @ show_int (be_percent b)
     @ ''%<); patrols may restart at> '' @ show_int (be_rearm b) @ ''%''"

definition low_text :: "int \<Rightarrow> int \<Rightarrow> string" where
  "low_text percent threshold = ''<battery too low (> '' @ show_int percent @ ''%<), below> '' @ show_int threshold
     @ ''% <only the docking task may run>''"

definition ensure_battery_allows :: "robot_row \<Rightarrow> string \<Rightarrow> bool \<Rightarrow> unit ctr" where
  "ensure_battery_allows robot command_type allow_docking =
     bindC (dbC (battery_of robot)) (\<lambda>percent.
     bindC (settingC ''LOW_BATTERY_STOP_PERCENT'' 20) (\<lambda>threshold.
     thenC (whenC (command_type = ''task.start'' \<and> \<not> allow_docking)
         (bindC (dbC (latched_episode (rb_id robot))) (\<lambda>b.
            case b of None \<Rightarrow> returnC () | Some e \<Rightarrow> raiseC (PermissionDenied (latched_text e)))))
       (whenC (percent < threshold \<and> command_type = ''task.start'' \<and> \<not> allow_docking)
         (raiseC (PermissionDenied (low_text percent threshold))))))"

definition ensure_task_start_allowed :: "robot_row \<Rightarrow> bool \<Rightarrow> unit ctr" where
  "ensure_task_start_allowed robot allow_docking = ensure_battery_allows robot ''task.start'' allow_docking"

section \<open>The body of a command\<close>

text \<open>Route and task rows that the foreign keys of an execution name.\<close>

definition task_row_of :: "execution_row \<Rightarrow> center_db \<Rightarrow> patrol_task_row option" where
  "task_row_of e db = row_of pt_id (ex_task e) (db_tasks db)"

definition route_row_of :: "execution_row \<Rightarrow> patrol_task_row \<Rightarrow> center_db \<Rightarrow> route_row option" where
  "route_row_of e task db =
     (case Option.bind (ex_route e) (\<lambda>r. row_of ro_id r (db_routes db)) of
        Some r \<Rightarrow> Some r
      | None \<Rightarrow> Option.bind (pt_route task) (\<lambda>r. row_of ro_id r (db_routes db)))"

definition effective_record_rosbag :: "execution_row \<Rightarrow> patrol_task_row \<Rightarrow> pyval \<Rightarrow> center_db \<Rightarrow> bool" where
  "effective_record_rosbag e task requested db =
     (case route_row_of e task db of
        Some r \<Rightarrow> if ro_record_rosbag r then True else if requested \<noteq> PNone then truthy requested else pt_record_rosbag task
      | None \<Rightarrow> if requested \<noteq> PNone then truthy requested else pt_record_rosbag task)"

definition start_record_rosbag :: "execution_row \<Rightarrow> patrol_task_row \<Rightarrow> pydict \<Rightarrow> center_db \<Rightarrow> bool" where
  "start_record_rosbag e task options db =
     (if truthy (dget_def_val options ''record_rosbag_frozen'' (PBool False)) then truthy (dget_def_val options ''record_rosbag'' (PBool False))
      else effective_record_rosbag e task (dget options ''record_rosbag'') db)"

definition start_payload :: "execution_row \<Rightarrow> patrol_task_row \<Rightarrow> bool \<Rightarrow> int \<Rightarrow> pydict \<Rightarrow> pydict pyres" where
  "start_payload e task record_rosbag max_seconds options =
     bindE (dsub (ex_snapshot e) ''map'') (\<lambda>map_part.
     bindE (py_int (dget_def_val options ''loop_total'' (PInt 1))) (\<lambda>loop_total.
     bindE (new_dict (dget options ''docking'')) (\<lambda>docking.
       Inr [(''task_id'', PStr (show_int (ex_task e))), (''task_name'', PStr (pt_name task)), (''map'', map_part),
            (''route_snapshot'', PDict (ex_snapshot e)),
            (''policy'', PDict [(''on_waypoint_failure'', PStr ''abort''), (''max_duration_seconds'', PInt max_seconds),
               (''continue_on_disconnect'', PBool True)]),
            (''record_rosbag'', PBool record_rosbag),
            (''continuous_rosbag'', PBool (record_rosbag \<and> truthy (opt_text (ex_loop e))
               \<and> truthy (dget_def_val options ''continuous_rosbag'' (PBool False)))),
            (''loop_execution'', PBool (truthy (dget_def_val options ''loop_execution'' (PBool False)))),
            (''loop_session_id'', opt_text (ex_loop e)), (''round_number'', PInt (ex_round e)),
            (''loop_total'', PInt (max 1 loop_total)),
            (''smart_initialize'', PBool (truthy (dget_def_val options ''smart_initialize'' (PBool True)))),
            (''docking'', PDict docking)])))"

definition start_body :: "execution_row \<Rightarrow> pydict \<Rightarrow> (pydict \<times> int) ctr" where
  "start_body e options =
     bindC (getC (task_row_of e)) (\<lambda>task.
     bindC (dbC (start_record_rosbag e task options)) (\<lambda>record_rosbag.
     bindC (settingC ''TASK_MAX_DURATION_SECONDS'' 1800) (\<lambda>max_seconds.
     bindC (liftC (start_payload e task record_rosbag max_seconds options)) (\<lambda>p. returnC (p, max_seconds)))))"

text \<open>The payload of a command and its lifetime in seconds.\<close>

definition command_body :: "execution_row \<Rightarrow> string \<Rightarrow> pydict \<Rightarrow> (pydict \<times> int) ctr" where
  "command_body e command_type options =
     (if command_type = ''task.start'' then start_body e options
      else bindC (settingC ''COMMAND_CONTROL_EXPIRY_SECONDS'' 15) (\<lambda>expiry. returnC
        (if command_type = ''task.resume'' then
           [(''resume_from_waypoint_index'', PInt (case ex_waypoint_index e of None \<Rightarrow> 0 | Some i \<Rightarrow> i))]
         else if command_type = ''task.resume_forward'' then
           [(''reason'', PStr ''operator_resume_forward''), (''resume_forward'', PBool True)]
         else [(''reason'', PStr (str_or (dget options ''reason'') ''operator_request''))], expiry)))"

section \<open>Creation\<close>

definition SECOND :: int where
  "SECOND = 1000000"

definition trace_of :: "string option \<Rightarrow> string ctr" where
  "trace_of trace =
     (case trace of
        Some t \<Rightarrow> if t = [] then uuidC
          else (case uuid_of_text t of None \<Rightarrow> raiseC ValueError | Some n \<Rightarrow> returnC (uuid_to_text n))
      | None \<Rightarrow> uuidC)"

definition new_command :: "int \<Rightarrow> string option \<Rightarrow> string \<Rightarrow> pydict \<Rightarrow> int option \<Rightarrow> string \<Rightarrow> string \<Rightarrow> int \<Rightarrow> int \<Rightarrow> command_row" where
  "new_command robot execution command_type payload operator trace pk issued expires =
     \<lparr>cm_id = pk, cm_robot = robot, cm_execution = execution, cm_type = command_type, cm_payload = payload,
      cm_status = ''created'', cm_operator = operator, cm_trace = trace, cm_issued = issued, cm_expires = expires,
      cm_published = None, cm_acknowledged = None, cm_started = None, cm_finished = None, cm_ack_code = [],
      cm_ack_message = [], cm_result = [], cm_error_code = [], cm_error_message = []\<rparr>"

text \<open>\<open>RemoteCommand.objects.create\<close> and the event \<open>created\<close>. The trace and the expiry are computed before the defaults
  of \<open>id\<close> and \<open>issued_at\<close>.\<close>

definition insert_new_command :: "int \<Rightarrow> string option \<Rightarrow> string \<Rightarrow> pydict \<Rightarrow> int option \<Rightarrow> string option \<Rightarrow> int \<Rightarrow> pydict
    \<Rightarrow> command_row ctr" where
  "insert_new_command robot execution command_type payload operator trace expiry note =
     bindC (trace_of trace) (\<lambda>tid.
     bindC nowC (\<lambda>now.
     bindC uuidC (\<lambda>pk.
     bindC nowC (\<lambda>issued.
     (let c = new_command robot execution command_type payload operator tid pk issued (now + expiry * SECOND) in
      seq_valueC [writeC (insert_command c), record_command_event pk ''created'' ''center'' None note] c)))))"

definition force_exit_executions :: "execution_row \<Rightarrow> command_row \<Rightarrow> unit ctr" where
  "force_exit_executions e c =
     bindC (dbC (\<lambda>db. rev (filter (\<lambda>r. ex_robot r = ex_robot e \<and> is_active r) (db_executions db)))) (\<lambda>rows.
       for_rows (\<lambda>r. thenC (transition (ex_id r) (PStr ''cancelled'')
         ((request ''task.force_exit.requested'')\<lparr>rq_code := ''FORCE_EXIT'',
           rq_message := ''<the operator forced the exit and cleared the task state>'',
           rq_payload := [(''command_id'', PStr (cm_id c)), (''requested_execution_id'', PStr (ex_id e))]\<rparr>)) (returnC ())) rows)"

definition request_command :: "execution_row \<Rightarrow> string \<Rightarrow> string \<Rightarrow> command_row \<Rightarrow> unit ctr" where
  "request_command e command_type target c =
     (if command_type = ''task.force_exit'' then force_exit_executions e c
      else thenC (transition (ex_id e) (PStr target)
        ((request (command_type @ ''.requested''))\<lparr>rq_payload := [(''command_id'', PStr (cm_id c))]\<rparr>)) (returnC ()))"

definition wants_docking :: "pydict \<Rightarrow> bool pyres" where
  "wants_docking options =
     bindE (as_dict (dget options ''docking'')) (\<lambda>d. Inr (truthy (dget d ''enabled'')))"

definition create :: "execution_row \<Rightarrow> string \<Rightarrow> int option \<Rightarrow> pydict \<Rightarrow> string option \<Rightarrow> command_row ctr" where
  "create e command_type operator options trace = atomicC
     (case map_of COMMAND_TARGET_STATES command_type of
        None \<Rightarrow> raiseC ValueError
      | Some target \<Rightarrow>
          bindC (getC (find_robot (ex_robot e))) (\<lambda>robot.
          bindC (liftC (wants_docking options)) (\<lambda>docking.
          thenC (ensure_battery_allows robot command_type docking)
          (bindC (command_body e command_type options) (\<lambda>(payload, expiry).
          bindC (insert_new_command (ex_robot e) (Some (ex_id e)) command_type payload operator trace expiry
              [(''command_type'', PStr command_type)]) (\<lambda>c.
          thenC (request_command e command_type target c) (returnC c)))))))"

definition create_robot_command :: "robot_row \<Rightarrow> string \<Rightarrow> pydict \<Rightarrow> int option \<Rightarrow> int option \<Rightarrow> string option \<Rightarrow> command_row ctr" where
  "create_robot_command robot command_type payload operator expiry_seconds trace = atomicC
     (if command_type \<notin> set (REMOTE_COMMAND_TYPES @ INTERNAL_ROBOT_COMMAND_TYPES) then raiseC ValueError
      else bindC (case expiry_seconds of
            Some n \<Rightarrow> if n = 0 then settingC ''COMMAND_CONTROL_EXPIRY_SECONDS'' 15 else returnC n
          | None \<Rightarrow> settingC ''COMMAND_CONTROL_EXPIRY_SECONDS'' 15) (\<lambda>expiry.
        insert_new_command (rb_id robot) None command_type payload operator trace expiry
          [(''command_type'', PStr command_type)]))"

definition recovery_payload :: "execution_row \<Rightarrow> string \<Rightarrow> int \<Rightarrow> string \<Rightarrow> string \<Rightarrow> pydict" where
  "recovery_payload e episode attempt code message =
     [(''recovery_episode_id'', PStr episode), (''attempt'', PInt attempt), (''expected_task_state_version'', PInt (ex_version e)),
      (''trigger_reason_code'', PStr code), (''trigger_reason_message'', PStr message), (''observation_seconds'', PInt 5)]"

definition same_recovery :: "execution_row \<Rightarrow> string \<Rightarrow> int \<Rightarrow> command_row \<Rightarrow> bool" where
  "same_recovery e episode attempt c =
     (cm_execution c = Some (ex_id e) \<and> cm_type c = ''task.recover.v1''
      \<and> dget (cm_payload c) ''recovery_episode_id'' = PStr episode \<and> py_eq_int (dget (cm_payload c) ''attempt'') attempt)"

definition create_task_recovery :: "execution_row \<Rightarrow> string \<Rightarrow> int \<Rightarrow> string \<Rightarrow> string \<Rightarrow> command_row ctr" where
  "create_task_recovery e episode attempt code message = atomicC
     (bindC (dbC (\<lambda>db. find (same_recovery e episode attempt) (sort_key (\<lambda>c. - cm_issued c) (db_commands db)))) (\<lambda>existing.
      (case existing of
         Some c \<Rightarrow> returnC c
       | None \<Rightarrow>
           bindC (settingC ''TASK_RECOVERY_EXPIRY_SECONDS'' 300) (\<lambda>expiry.
             (let payload = recovery_payload e episode attempt code message in
              insert_new_command (ex_robot e) (Some (ex_id e)) ''task.recover.v1'' payload None None expiry
                ((''command_type'', PStr ''task.recover.v1'') # payload))))))"

section \<open>Marks\<close>

definition mark_published :: "command_row \<Rightarrow> unit ctr" where
  "mark_published c =
     bindC nowC (\<lambda>now. seqC
       [writeC (update_command (cm_id c) (\<lambda>r. r\<lparr>cm_status := ''published'', cm_published := Some now\<rparr>)),
        record_command_event (cm_id c) ''published'' ''broker'' None []])"

definition mark_publish_failed :: "command_row \<Rightarrow> string \<Rightarrow> unit ctr" where
  "mark_publish_failed c message =
     bindC nowC (\<lambda>now. seqC
       [writeC (update_command (cm_id c) (\<lambda>r. r\<lparr>cm_status := ''failed'', cm_error_code := ''MQTT_PUBLISH_FAILED'',
          cm_error_message := message, cm_finished := Some now\<rparr>)),
        record_command_event (cm_id c) ''publish_failed'' ''center'' None [(''error'', PStr message)]])"

section \<open>Timeouts\<close>

definition FINAL_COMMAND_STATUSES :: "string list" where
  "FINAL_COMMAND_STATUSES = [''succeeded'', ''failed'', ''cancelled'', ''rejected'', ''timed_out'', ''expired'']"

definition timeout_message :: "command_row \<Rightarrow> string" where
  "timeout_message c =
     (if cm_type c = ''task.start'' then
        (if cm_status c \<in> {''created'', ''published''}
         then ''<the start command was not confirmed in time; waiting for the edge or a forced exit>''
         else ''<the center's wait for the task is over; waiting for the edge or a forced exit>'')
      else cm_error_message c)"

definition timed_transition :: "execution_row \<Rightarrow> string \<Rightarrow> string \<Rightarrow> string \<Rightarrow> pydict \<Rightarrow> unit ctr" where
  "timed_transition e target event message payload =
     thenC (transition (ex_id e) (PStr target) ((request event)\<lparr>rq_code := ''COMMAND_TIMED_OUT'', rq_message := message,
       rq_payload := payload\<rparr>)) (returnC ())"

text \<open>What the timeout of a command does to its execution.\<close>

definition timeout_execution :: "command_row \<Rightarrow> execution_row \<Rightarrow> unit ctr" where
  "timeout_execution c e =
     (let id_part = [(''command_id'', PStr (cm_id c))] in
      if cm_type c = ''task.start'' then whenC (ex_state e \<noteq> ''interrupted'')
        (timed_transition e ''interrupted'' ''task.start.timeout_pending_edge'' (timeout_message c)
          (id_part @ [(''previous_command_status'', PStr (cm_status c))]))
      else if cm_type c = ''task.pause'' then whenC (ex_state e = ''pausing'')
        (timed_transition e ''running'' ''task.pause.timeout'' ''<the pause timed out; the task state is kept>'' id_part)
      else if cm_type c = ''task.resume'' then whenC (ex_state e = ''resuming'')
        (timed_transition e ''paused'' ''task.resume.timeout'' ''<the resume timed out; the task stays paused>'' id_part)
      else if cm_type c = ''task.force_exit'' then returnC ()
      else timed_transition e ''timed_out'' (cm_type c @ ''.timeout'')
        ''<the edge agent did not confirm or finish the command in time>'' id_part)"

definition only_task_errors :: "unit ctr \<Rightarrow> unit ctr" where
  "only_task_errors m = exceptC m (\<lambda>x. case x of TaskStateError _ \<Rightarrow> returnC () | _ \<Rightarrow> raiseC x)"

definition execution_of :: "command_row \<Rightarrow> center_db \<Rightarrow> execution_row option" where
  "execution_of c db = Option.bind (cm_execution c) (\<lambda>pk. find_execution pk db)"

definition expire_command :: "command_row \<Rightarrow> unit ctr" where
  "expire_command c =
     whenC (cm_status c \<notin> set FINAL_COMMAND_STATUSES)
       (bindC nowC (\<lambda>now. seqC
         [writeC (update_command (cm_id c) (\<lambda>r. r\<lparr>cm_status := ''timed_out'', cm_error_code := ''COMMAND_TIMED_OUT'',
            cm_error_message := timeout_message c, cm_finished := Some now\<rparr>)),
          record_command_event (cm_id c) ''timeout'' ''center'' None [],
          bindC (dbC (execution_of c)) (\<lambda>e.
            case e of None \<Rightarrow> returnC () | Some x \<Rightarrow> whenC (is_active x) (only_task_errors (timeout_execution c x)))]))"

definition finished_execution :: "command_row \<Rightarrow> center_db \<Rightarrow> execution_row option" where
  "finished_execution c db =
     (if cm_type c \<noteq> ''task.start'' then None
      else (case execution_of c db of
        Some e \<Rightarrow> if map_of EXECUTION_COMMAND_STATUS (ex_state e) \<noteq> None then Some e else None
      | None \<Rightarrow> None))"

definition mark_timeout :: "command_row \<Rightarrow> unit ctr" where
  "mark_timeout c =
     bindC (dbC (finished_execution c)) (\<lambda>e.
       case e of
         Some x \<Rightarrow> reconcile_task_start_for_execution x ''timeout_sweeper_precheck''
       | None \<Rightarrow> expire_command c)"

definition by_issue :: "(command_row \<Rightarrow> bool) \<Rightarrow> center_db \<Rightarrow> command_row list" where
  "by_issue p db = sort_key (\<lambda>c. - cm_issued c) (filter p (db_commands db))"

definition unconfirmed_start :: "int \<Rightarrow> command_row \<Rightarrow> bool" where
  "unconfirmed_start cutoff c = (cm_type c = ''task.start'' \<and> cm_status c \<in> {''created'', ''published''} \<and> cm_issued c < cutoff)"

definition overdue :: "int \<Rightarrow> command_row \<Rightarrow> bool" where
  "overdue now c = (cm_status c \<in> {''created'', ''published'', ''accepted'', ''executing''} \<and> cm_expires c < now)"

definition expire_commands :: "unit ctr" where
  "expire_commands =
     bindC nowC (\<lambda>now.
     bindC (settingC ''TASK_START_ACK_TIMEOUT_SECONDS'' 60) (\<lambda>patience.
     seqC [bindC (dbC (by_issue (unconfirmed_start (now - patience * SECOND)))) (for_rows mark_timeout),
           bindC (dbC (by_issue (overdue now))) (for_rows mark_timeout)]))"

section \<open>Publishing\<close>

definition command_payload :: "(int \<Rightarrow> string) \<Rightarrow> robot_row \<Rightarrow> command_row \<Rightarrow> pydict" where
  "command_payload fmt robot c =
     [(''command_id'', PStr (cm_id c)), (''issued_at'', PStr (fmt (cm_issued c))), (''expires_at'', PStr (fmt (cm_expires c))),
      (''operator_id'', (case cm_operator c of None \<Rightarrow> PNone | Some n \<Rightarrow> if n = 0 then PNone else PStr (show_int n))),
      (''task_execution_id'', opt_text (cm_execution c)), (''command'', PDict (cm_payload c))]
     @ (if cm_execution c = None then [] else [(''expected_robot_state_version'', PInt (rb_state_version robot))])"

definition command_message :: "string \<Rightarrow> string \<Rightarrow> string \<Rightarrow> robot_row \<Rightarrow> command_row \<Rightarrow> pydict \<Rightarrow> pydict" where
  "command_message mid session sent robot c payload =
     [(''protocol_version'', PStr PROTOCOL_VERSION), (''message_id'', PStr mid), (''message_type'', PStr (cm_type c)),
      (''robot_id'', PStr (rb_code robot)), (''session_id'', PStr session), (''sent_at'', PStr sent),
      (''trace_id'', PStr (cm_trace c)), (''payload'', PDict payload)]"

definition build_command_message :: "command_row \<Rightarrow> robot_row \<Rightarrow> string \<Rightarrow> pydict ctr" where
  "build_command_message c robot session_id =
     bindC (worldC cw_isoformat) (\<lambda>fmt.
     bindC uuidC (\<lambda>mid.
     bindC (if session_id = [] then uuidC else returnC session_id) (\<lambda>session.
     bindC nowC (\<lambda>now. returnC (command_message mid session (fmt now) robot c (command_payload fmt robot c))))))"

text \<open>\<open>publish_json\<close>: the world's answer decides whether the MQTT library took the message.\<close>

definition publish_json :: "string \<Rightarrow> pydict \<Rightarrow> unit ctr" where
  "publish_json topic payload = thenC (emitC (Published topic payload)) (returnC ())"

definition publish_command :: "command_row \<Rightarrow> unit ctr" where
  "publish_command c =
     exceptC
       (bindC (getC (find_robot (cm_robot c))) (\<lambda>robot.
        bindC (build_command_message c robot []) (\<lambda>m.
        thenC (publish_json (''robots/'' @ rb_code robot @ ''/commands'') m) (mark_published c))))
       (\<lambda>x. thenC (mark_publish_failed c (exc_text x)) (raiseC x))"

definition publish_pending_commands :: "unit ctr" where
  "publish_pending_commands = bindC (dbC (by_issue (\<lambda>c. cm_status c = ''created''))) (for_rows publish_command)"

end
