(* ===== verification/CenterLoop.thy ===== *)
theory CenterLoop
  imports CenterCommand
begin

text \<open>
  Patrol loops at the center, first part of \<open>monitoring/services/patrol_loop_service.py\<close>: the session of a loop and its
  events, the commands it sends to its execution, the requests of operators (create, pause, continue, stop) and the
  protection against a low battery. A session that a method holds is an instance; its assignments reach the row when it is
  saved. The supervisor that drives a session is \<open>CenterSupervisor\<close>.
\<close>

section \<open>Sessions and events\<close>

definition DAY_SECONDS :: int where
  "DAY_SECONDS = 24 * 60 * 60"

text \<open>The first instant after the last day of a Python datetime.\<close>

definition DATETIME_END :: int where
  "DATETIME_END = 3652059 * DAY_SECONDS * SECOND"

definition after :: "int \<Rightarrow> int \<Rightarrow> int pyres" where
  "after now seconds = (if now + seconds * SECOND < DATETIME_END then Inr (now + seconds * SECOND) else Inl OverflowError)"

text \<open>\<open>Robot.effective_connection_status\<close> (\<open>models.py\<close>).\<close>

definition effective_connection_status :: "robot_row \<Rightarrow> string ctr" where
  "effective_connection_status robot =
     (if rb_connection robot \<noteq> ''online'' then returnC (rb_connection robot)
      else (case rb_last_seen robot of
        None \<Rightarrow> returnC ''offline''
      | Some seen \<Rightarrow> bindC nowC (\<lambda>now. returnC (if 180 * SECOND < now - seen then ''offline'' else ''online''))))"

definition current_execution :: "loop_row \<Rightarrow> execution_row option ctr" where
  "current_execution l =
     (case lp_execution l of None \<Rightarrow> returnC None
      | Some pk \<Rightarrow> bindC (getC (find_execution pk)) (\<lambda>e. returnC (Some e)))"

definition loop_event :: "loop_row \<Rightarrow> string \<Rightarrow> string \<Rightarrow> string \<Rightarrow> string \<Rightarrow> pydict \<Rightarrow> unit ctr" where
  "loop_event l kind key code message payload =
     (let k = take 160 (lp_id l @ '':'' @ key) in
      bindC (dbC (find_loop_event k)) (\<lambda>known.
        if known \<noteq> None then returnC ()
        else bindC nowC (\<lambda>now.
          exceptC (atomicC (writeC (insert_loop_event
             \<lparr>le_key = k, le_loop = lp_id l, le_execution = lp_execution l, le_type = kind, le_state = lp_state l,
              le_occurred = now, le_code = code, le_message = message, le_attempt = lp_attempt l, le_payload = payload\<rparr>)))
          (\<lambda>x. case x of
             IntegrityError _ \<Rightarrow> bindC (dbC (find_loop_event k)) (\<lambda>r. if r = None then raiseC x else returnC ())
           | _ \<Rightarrow> raiseC x))))"

text \<open>\<open>save(update_fields=...)\<close>.\<close>

definition save_columns :: "loop_row \<Rightarrow> (loop_row \<Rightarrow> loop_row) \<Rightarrow> unit ctr" where
  "save_columns l f = writeC (update_loop (lp_id l) f)"

definition save_session :: "loop_row \<Rightarrow> unit ctr" where
  "save_session l = writeC (save_loop l)"

section \<open>The recording of a loop\<close>

definition recording_config :: "patrol_task_row \<Rightarrow> center_db \<Rightarrow> pydict" where
  "recording_config task db =
     (let route_enabled = (case Option.bind (pt_route task) (\<lambda>r. row_of ro_id r (db_routes db)) of
            None \<Rightarrow> False | Some r \<Rightarrow> ro_record_rosbag r) in
      [(''record_rosbag'', PBool (route_enabled \<or> pt_record_rosbag task)),
       (''record_rosbag_source'', PStr (if route_enabled then ''route'' else if pt_record_rosbag task then ''task'' else ''disabled'')),
       (''recording_mode'', PStr ''continuous_loop'')])"

definition LOOP_ROSBAG_STOP_COMMAND :: string where
  "LOOP_ROSBAG_STOP_COMMAND = ''diagnostics.nav_rosbag_stop''"

definition recording_stop :: "loop_row \<Rightarrow> center_db \<Rightarrow> command_row option" where
  "recording_stop l db =
     find (\<lambda>c. cm_robot c = lp_robot l \<and> cm_type c = LOOP_ROSBAG_STOP_COMMAND
            \<and> dget (cm_payload c) ''loop_session_id'' = PStr (lp_id l)) (sort_key cm_issued (db_commands db))"

definition ensure_recording_stop :: "loop_row \<Rightarrow> string \<Rightarrow> loop_row ctr" where
  "ensure_recording_stop l reason =
     (if \<not> truthy (dget (lp_metadata l) ''record_rosbag'') then returnC l
      else bindC (dbC (recording_stop l)) (\<lambda>known.
        bindC (case known of
            Some c \<Rightarrow> returnC c
          | None \<Rightarrow> bindC (getC (find_robot (lp_robot l))) (\<lambda>robot.
              create_robot_command robot LOOP_ROSBAG_STOP_COMMAND
                [(''loop_session_id'', PStr (lp_id l)), (''reason'', PStr (if reason = [] then ''loop_terminal'' else reason))]
                (lp_created_by l) (Some DAY_SECONDS) None)) (\<lambda>c.
        bindC nowC (\<lambda>now. bindC (worldC cw_isoformat) (\<lambda>fmt.
          (let m = dput (dput (lp_metadata l) ''recording_stop_command_id'' (PStr (cm_id c)))
                 ''recording_stop_requested_at'' (PStr (fmt now)) in
           seq_valueC [save_columns l (\<lambda>r. r\<lparr>lp_metadata := m\<rparr>)] (l\<lparr>lp_metadata := m\<rparr>)))))))"

section \<open>Changes of state\<close>

record loop_change =
  lc_state :: string
  lc_event :: string
  lc_code :: string
  lc_message :: string
  lc_next :: "int option"
  lc_terminal :: bool
  lc_payload :: pydict

definition change :: "string \<Rightarrow> string \<Rightarrow> loop_change" where
  "change state event = \<lparr>lc_state = state, lc_event = event, lc_code = [], lc_message = [], lc_next = None,
     lc_terminal = False, lc_payload = []\<rparr>"

definition changed :: "loop_change \<Rightarrow> int option \<Rightarrow> loop_row \<Rightarrow> loop_row" where
  "changed c finished l = l\<lparr>lp_state := lc_state c, lp_version := lp_version l + 1,
     lp_next := (case lc_next c of None \<Rightarrow> lp_next l | Some t \<Rightarrow> t),
     lp_finished := (case finished of None \<Rightarrow> lp_finished l | Some t \<Rightarrow> Some t)\<rparr>"

definition set_state :: "loop_row \<Rightarrow> loop_change \<Rightarrow> loop_row ctr" where
  "set_state l c =
     bindC (if lc_terminal c then bindC nowC (\<lambda>t. returnC (Some t)) else returnC None) (\<lambda>finished.
     (let l' = changed c finished l in
      thenC (save_session l')
     (thenC (loop_event l' (lc_event c) (''v'' @ show_int (lp_version l') @ '':'' @ lc_event c) (lc_code c) (lc_message c) (lc_payload c))
       (if lc_terminal c then ensure_recording_stop l' (if lc_code c = [] then lc_state c else lc_code c) else returnC l'))))"

text \<open>The next look at the session, one second after \<open>now\<close>.\<close>

definition look_again :: "int \<Rightarrow> int" where
  "look_again now = now + SECOND"

definition wait_second :: "loop_row \<Rightarrow> int \<Rightarrow> loop_row ctr" where
  "wait_second l now =
     seq_valueC [save_columns l (\<lambda>r. r\<lparr>lp_next := look_again now\<rparr>)] (l\<lparr>lp_next := look_again now\<rparr>)"

section \<open>The execution of a loop\<close>

text \<open>Does the first start command of an execution carry a docking task?\<close>

definition docking_execution :: "execution_row \<Rightarrow> center_db \<Rightarrow> bool pyres" where
  "docking_execution e db =
     (case find (\<lambda>c. cm_execution c = Some (ex_id e) \<and> cm_type c = ''task.start'') (sort_key cm_issued (db_commands db)) of
        None \<Rightarrow> Inr False
      | Some c \<Rightarrow> bindE (as_dict (dget (cm_payload c) ''docking'')) (\<lambda>d. Inr (truthy (dget d ''enabled''))))"

definition is_docking_execution :: "execution_row option \<Rightarrow> bool ctr" where
  "is_docking_execution e =
     (case e of None \<Rightarrow> returnC False | Some r \<Rightarrow> bindC (dbC (docking_execution r)) liftC)"

definition PENDING_STATUSES :: "string list" where
  "PENDING_STATUSES = [''created'', ''published'', ''accepted'', ''executing'']"

definition pending_command :: "execution_row \<Rightarrow> string \<Rightarrow> center_db \<Rightarrow> bool" where
  "pending_command e kind db = (\<exists>c \<in> set (db_commands db).
     cm_execution c = Some (ex_id e) \<and> cm_type c = kind \<and> cm_status c \<in> set PENDING_STATUSES)"

definition force_exit_execution :: "execution_row option \<Rightarrow> string \<Rightarrow> unit ctr" where
  "force_exit_execution e reason =
     (case e of None \<Rightarrow> returnC ()
      | Some r \<Rightarrow> whenC (is_active r)
          (bindC (is_docking_execution e) (\<lambda>docking. whenC (\<not> docking)
            (bindC (dbC (pending_command r ''task.force_exit'')) (\<lambda>pending. whenC (\<not> pending)
              (thenC (create r ''task.force_exit'' None [(''reason'', PStr reason)] None) (returnC ())))))))"

section \<open>Recovery episodes\<close>

definition EPISODE_KEYS :: "string list" where
  "EPISODE_KEYS = [''observation_blocker'', ''recovery_in_progress_started_at'', ''recovery_in_progress_action'',
     ''recovery_in_progress_timeout_seconds'', ''recovery_in_progress_reason_message'', ''stop_scope'']"

definition without_keys :: "string list \<Rightarrow> pydict \<Rightarrow> pydict" where
  "without_keys ks d = filter (\<lambda>(k, _). k \<notin> set ks) d"

definition clear_recovery_episode :: "loop_row \<Rightarrow> loop_row" where
  "clear_recovery_episode l = l\<lparr>lp_attempt := 0, lp_episode := None, lp_code := [], lp_message := [], lp_observed := None,
     lp_metadata := without_keys EPISODE_KEYS (lp_metadata l)\<rparr>"

definition recovery_in_progress_timeout :: "string \<Rightarrow> int" where
  "recovery_in_progress_timeout action =
     (if action = ''nav2_reapproach'' then 35 else if action = ''task_start_initializing'' then 180 else 70)"

definition hold_recovery :: "loop_row \<Rightarrow> string \<Rightarrow> string \<Rightarrow> loop_row ctr" where
  "hold_recovery l code message =
     bindC nowC (\<lambda>now.
       set_state (l\<lparr>lp_metadata := dput (lp_metadata l) ''continuation_required'' (PBool True), lp_paused := True\<rparr>)
         ((change ''paused'' ''loop.recovery_exhausted_paused'')\<lparr>lc_code := code, lc_message := message, lc_next := Some (look_again now)\<rparr>))"

definition stop_round :: "loop_row \<Rightarrow> execution_row \<Rightarrow> string \<Rightarrow> string \<Rightarrow> loop_row ctr" where
  "stop_round l e code message =
     thenC (force_exit_execution (Some e) ''recovery_attempts_exhausted'')
       (bindC nowC (\<lambda>now. set_state (l\<lparr>lp_metadata := dput (lp_metadata l) ''stop_scope'' (PStr ''round'')\<rparr>)
         ((change ''stopping'' ''loop.recovery_stopping'')\<lparr>lc_code := code, lc_message := message, lc_next := Some (look_again now)\<rparr>)))"

definition refresh_execution :: "execution_row option \<Rightarrow> execution_row option ctr" where
  "refresh_execution e =
     (case e of None \<Rightarrow> returnC None | Some r \<Rightarrow> bindC (getC (find_execution (ex_id r))) (\<lambda>r'. returnC (Some r')))"

definition begin_recovery_stop :: "loop_row \<Rightarrow> execution_row option \<Rightarrow> string \<Rightarrow> string \<Rightarrow> loop_row ctr" where
  "begin_recovery_stop l e code message =
     bindC (refresh_execution e) (\<lambda>e'.
       case e' of
         None \<Rightarrow> hold_recovery l code message
       | Some r \<Rightarrow> if ex_state r \<notin> {''paused'', ''interrupted''} then stop_round l r code message else hold_recovery l code message)"

section \<open>Requests of an operator\<close>

text \<open>\<open>x in capabilities\<close>.\<close>

fun has_capability :: "string \<Rightarrow> pyval \<Rightarrow> bool pyres" where
  "has_capability x (PList vs) = Inr (PStr x \<in> set vs)"
| "has_capability x (PStr s) = Inr (contains_text x s)"
| "has_capability x (PDict d) = Inr (has_key d x)"
| "has_capability x _ = Inl TypeError"

definition check_recovery_support :: "robot_row \<Rightarrow> unit pyres" where
  "check_recovery_support robot =
     (if \<not> truthy (rb_capabilities robot) then Inr ()
      else bindE (has_capability ''task.recover.v1'' (rb_capabilities robot)) (\<lambda>ok. raise_if (\<not> ok)
        (PatrolLoopError ''<this edge version does not support the self-healing of the center's loops>'')))"

definition active_loop :: "int \<Rightarrow> center_db \<Rightarrow> loop_row option" where
  "active_loop robot db = find (\<lambda>l. lp_robot l = robot \<and> loop_active l) (db_loops db)"

definition admit_session :: "patrol_task_row \<Rightarrow> robot_row \<Rightarrow> unit ctr" where
  "admit_session task robot =
     thenC (bindC (dbC (active_loop (rb_id robot))) (\<lambda>l.
        if l \<noteq> None then raiseC (PatrolLoopError ''<the robot has an active loop>'') else returnC ()))
    (thenC (bindC (dbC (active_execution (rb_id robot))) (\<lambda>e.
        if e \<noteq> None then raiseC (PatrolLoopError ''<the robot has an active task>'') else returnC ()))
    (thenC (if \<not> pt_enabled task \<or> pt_route task = None
        then raiseC (PatrolLoopError ''<the task is disabled or has no route>'') else returnC ())
    (bindC (effective_connection_status robot) (\<lambda>status.
     thenC (if status \<noteq> ''online'' then raiseC (PatrolLoopError ''<the edge agent is offline>'') else returnC ())
    (thenC (if rb_localization robot \<noteq> ''normal'' \<or> \<not> rb_nav_ready robot
        then raiseC (PatrolLoopError ''<localization or navigation is not ready>'') else returnC ())
    (thenC (liftC (check_recovery_support robot))
       (ensure_task_start_allowed robot False)))))))"

definition new_loop :: "string \<Rightarrow> robot_row \<Rightarrow> patrol_task_row \<Rightarrow> pydict \<Rightarrow> int \<Rightarrow> int \<Rightarrow> int \<Rightarrow> int \<Rightarrow> pydict \<Rightarrow> int option \<Rightarrow> loop_row" where
  "new_loop pk robot task snapshot duration rest now ends recording operator =
     \<lparr>lp_id = pk, lp_robot = rb_id robot, lp_task = pt_id task, lp_snapshot = snapshot, lp_state = ''starting'', lp_version = 0,
      lp_duration = duration, lp_rest = rest, lp_started = now, lp_ends = ends, lp_finished = None, lp_round = 0,
      lp_execution = None, lp_next = now, lp_observed = None, lp_episode = None, lp_code = [], lp_message = [], lp_attempt = 0,
      lp_max_attempts = 10, lp_paused = False, lp_error = [],
      lp_metadata = dmerge [(''total_distance_m'', PStr ''0.000000'')] recording, lp_created_by = operator\<rparr>"

definition insert_session :: "patrol_task_row \<Rightarrow> robot_row \<Rightarrow> string \<Rightarrow> int \<Rightarrow> int \<Rightarrow> creation \<Rightarrow> loop_row ctr" where
  "insert_session task robot pk duration rest c =
     bindC nowC (\<lambda>now.
     bindC (dbC (recording_config task)) (\<lambda>recording.
     bindC (getC (\<lambda>db. Option.bind (pt_route task) (\<lambda>r. row_of ro_id r (db_routes db)))) (\<lambda>route.
     bindC (getC (\<lambda>db. row_of md_id (ro_map route) (db_maps db))) (\<lambda>m.
     bindC (worldC cw_json_loads) (\<lambda>json.
     bindC (liftC (build_route_snapshot json route m (cr_boundary c) (cr_map_set c))) (\<lambda>snapshot.
     bindC (liftC (after now duration)) (\<lambda>ends.
     (let l = new_loop pk robot task snapshot duration rest now ends recording (cr_operator c) in
      seq_valueC [writeC (insert_loop l), loop_event l ''loop.created'' ''created'' [] [] []] l))))))))"

text \<open>\<open>create_session\<close>; of the record \<open>c\<close> it uses the operator and what the snapshot of the route reads.\<close>

definition create_session :: "patrol_task_row \<Rightarrow> int \<Rightarrow> int \<Rightarrow> string option \<Rightarrow> creation \<Rightarrow> (loop_row \<times> bool) ctr" where
  "create_session task duration rest session_id c = atomicC
     (bindC (settingC ''PATROL_LOOP_SELF_HEAL_ENABLED'' 1) (\<lambda>enabled.
      if duration \<le> 0 then raiseC (PatrolLoopError ''duration_seconds <must be positive>'')
      else if enabled = 0 then raiseC (PatrolLoopError ''<the self-healing of loops is disabled>'')
      else if rest < 0 then raiseC (PatrolLoopError ''rest_seconds <must not be negative>'')
      else bindC (trace_of session_id) (\<lambda>pk.
        bindC (dbC (find_loop pk)) (\<lambda>existing.
          case existing of
            Some l \<Rightarrow> if lp_task l \<noteq> pt_id task then raiseC (PatrolLoopError ''session_id <is used by another task>'')
              else returnC (l, False)
          | None \<Rightarrow> bindC (getC (find_robot (pt_robot task))) (\<lambda>robot.
              thenC (admit_session task robot)
                (bindC (insert_session task robot pk duration rest c) (\<lambda>l. returnC (l, True))))))))"

definition lock_loop :: "string \<Rightarrow> loop_row ctr" where
  "lock_loop pk = getC (find_loop pk)"

definition pause :: "string \<Rightarrow> int option \<Rightarrow> loop_row ctr" where
  "pause pk operator = atomicC
     (bindC (lock_loop pk) (\<lambda>l.
      if \<not> loop_active l then raiseC (PatrolLoopError ''<the loop is over>'')
      else bindC (current_execution l) (\<lambda>e.
        thenC (case e of
            Some r \<Rightarrow> whenC (ex_state r \<in> {''accepted'', ''running'', ''resuming''})
              (thenC (create r ''task.pause'' operator [] None) (returnC ()))
          | None \<Rightarrow> returnC ())
        (bindC nowC (\<lambda>now. set_state (l\<lparr>lp_paused := True\<rparr>)
          ((change ''paused'' ''loop.manual_paused'')\<lparr>lc_next := Some (look_again now)\<rparr>))))))"

definition ensure_manual_pause :: "loop_row \<Rightarrow> loop_row ctr" where
  "ensure_manual_pause l =
     bindC (current_execution l) (\<lambda>e.
       thenC (case e of
           Some r \<Rightarrow> whenC (ex_state r \<in> {''accepted'', ''running'', ''resuming''})
             (bindC (dbC (pending_command r ''task.pause'')) (\<lambda>pending. whenC (\<not> pending)
               (thenC (create r ''task.pause'' (lp_created_by l) [] None) (returnC ()))))
         | None \<Rightarrow> returnC ())
       (bindC nowC (wait_second l)))"

definition stop :: "string \<Rightarrow> loop_row ctr" where
  "stop pk = atomicC
     (bindC (lock_loop pk) (\<lambda>l.
      if lp_state l \<in> set LOOP_TERMINAL_STATES then returnC l
      else bindC (current_execution l) (\<lambda>e.
        thenC (force_exit_execution e ''loop_operator_stop'')
          (set_state (l\<lparr>lp_paused := False\<rparr>)
            ((change ''cancelled'' ''loop.stopped'')\<lparr>lc_code := ''OPERATOR_STOP'', lc_message := ''<the operator stopped the loop>'',
              lc_terminal := True\<rparr>)))))"

section \<open>Low battery\<close>

definition LOW_BATTERY_PERCENT :: "int ctr" where
  "LOW_BATTERY_PERCENT = settingC ''LOW_BATTERY_STOP_PERCENT'' 20"

definition low_battery_text :: "int \<Rightarrow> string" where
  "low_battery_text percent = ''<battery> '' @ show_int percent @ ''% <is below the patrol threshold>''"

definition new_episode :: "int \<Rightarrow> string \<Rightarrow> int \<Rightarrow> string \<Rightarrow> int \<Rightarrow> int \<Rightarrow> int \<Rightarrow> battery_episode_row" where
  "new_episode robot key percent source threshold rearm now =
     \<lparr>be_robot = robot, be_key = key, be_active = True, be_percent = max 0 (min 100 percent), be_threshold = threshold,
      be_rearm = rearm, be_source = source, be_triggered = now, be_cleared = None\<rparr>"

text \<open>\<open>known\<close> is an episode of this key that is still active.\<close>

definition ensure_episode :: "int \<Rightarrow> string \<Rightarrow> int \<Rightarrow> string \<Rightarrow> battery_episode_row option \<Rightarrow> battery_episode_row ctr" where
  "ensure_episode robot key percent source known =
     bindC (dbC (active_episode robot)) (\<lambda>active.
       case (active, known) of
         (Some b, _) \<Rightarrow> returnC b
       | (None, Some b) \<Rightarrow> returnC b
       | (None, None) \<Rightarrow>
           bindC LOW_BATTERY_PERCENT (\<lambda>threshold.
           bindC (settingC ''LOW_BATTERY_REARM_PERCENT'' 25) (\<lambda>rearm.
           bindC nowC (\<lambda>now.
           (let b = new_episode robot key percent source threshold rearm now in
            seq_valueC [writeC (insert_episode b)] b)))))"

definition low_battery_session :: "battery_episode_row \<Rightarrow> int \<Rightarrow> string \<Rightarrow> loop_row \<Rightarrow> unit ctr" where
  "low_battery_session b percent source l =
     bindC (current_execution l) (\<lambda>e.
     bindC (is_docking_execution e) (\<lambda>docking. whenC (\<not> docking)
       (thenC (set_state (l\<lparr>lp_paused := False, lp_error := low_battery_text percent\<rparr>)
         ((change ''low_battery_stopped'' ''loop.low_battery_stopped'')\<lparr>lc_code := ''LOW_BATTERY'',
           lc_message := low_battery_text percent, lc_terminal := True,
           lc_payload := [(''episode_key'', PStr (be_key b)), (''source'', PStr source)]\<rparr>)) (returnC ()))))"

text \<open>The rows are read before the first one changes, so the executions are instances of before.\<close>

definition low_battery_execution :: "execution_row \<Rightarrow> unit ctr" where
  "low_battery_execution e =
     bindC (is_docking_execution (Some e)) (\<lambda>docking. whenC (\<not> docking) (force_exit_execution (Some e) ''LOW_BATTERY''))"

definition terminate_low_battery :: "int \<Rightarrow> string \<Rightarrow> int \<Rightarrow> string \<Rightarrow> battery_episode_row ctr" where
  "terminate_low_battery robot episode_key percent source = atomicC
     (let key = take 128 episode_key in
      bindC (dbC (\<lambda>db. find (\<lambda>b. be_robot b = robot \<and> be_key b = key) (db_episodes db))) (\<lambda>known.
      if (case known of None \<Rightarrow> False | Some b \<Rightarrow> \<not> be_active b) then returnC (the known)
      else bindC (ensure_episode robot key percent source known) (\<lambda>b.
        bindC (dbC (\<lambda>db. rev (filter (\<lambda>l. lp_robot l = robot \<and> loop_active l) (db_loops db)))) (\<lambda>sessions.
        bindC (dbC (\<lambda>db. rev (filter (\<lambda>e. ex_robot e = robot \<and> is_active e) (db_executions db)))) (\<lambda>executions.
          seq_valueC [for_rows (low_battery_session b percent source) sessions, for_rows low_battery_execution executions] b)))))"

text \<open>The samples a process has counted; an entry lives for a minute.\<close>

definition cached_sample :: "string \<Rightarrow> int \<Rightarrow> (int \<times> int) option ctr" where
  "cached_sample process robot =
     bindC nowC (\<lambda>now. \<lambda>w s. (Inr (case map_of (cn_cache s) (process, robot) of
       None \<Rightarrow> None | Some (count, version, expiry) \<Rightarrow> if now < expiry then Some (count, version) else None), s))"

definition set_sample :: "string \<Rightarrow> int \<Rightarrow> int \<Rightarrow> int \<Rightarrow> unit ctr" where
  "set_sample process robot count version =
     bindC nowC (\<lambda>now. \<lambda>w s. (Inr (), s\<lparr>cn_cache := AList.update (process, robot) (count, version, now + 60 * SECOND) (cn_cache s)\<rparr>))"

definition drop_sample :: "string \<Rightarrow> int \<Rightarrow> unit ctr" where
  "drop_sample process robot w s = (Inr (), s\<lparr>cn_cache := AList.delete (process, robot) (cn_cache s)\<rparr>)"

definition count_sample :: "string \<Rightarrow> status_row \<Rightarrow> int \<Rightarrow> unit ctr" where
  "count_sample process latest percent =
     bindC (cached_sample process (sl_robot latest)) (\<lambda>sample.
       if map_option snd sample = Some (sl_version latest) then returnC ()
       else (let count = (case sample of None \<Rightarrow> 0 | Some (n, _) \<Rightarrow> n) + 1 in
         thenC (set_sample process (sl_robot latest) count (sl_version latest))
           (whenC (2 \<le> count) (seqC
             [thenC (terminate_low_battery (sl_robot latest)
                (''center-'' @ show_int (sl_robot latest) @ ''-'' @ show_int (sl_version latest)) percent ''center_telemetry'') (returnC ()),
              drop_sample process (sl_robot latest)]))))"

definition observe_battery :: "string \<Rightarrow> status_row \<Rightarrow> unit ctr" where
  "observe_battery process latest = atomicC
     (case sl_percent latest of
        None \<Rightarrow> returnC ()
      | Some percent \<Rightarrow> whenC (sl_power latest)
          (bindC (dbC (active_episode (sl_robot latest))) (\<lambda>active.
           bindC LOW_BATTERY_PERCENT (\<lambda>threshold.
             case active of
               Some b \<Rightarrow> whenC (be_rearm b \<le> percent)
                 (bindC nowC (\<lambda>now. writeC (\<lambda>db. Inr (clear_episode (be_key b) now db))))
             | None \<Rightarrow> whenC (percent < threshold) (count_sample process latest percent)))))"

end
