(* ===== verification/CenterTelemetry.thy ===== *)
theory CenterTelemetry
  imports CenterLoop
begin

text \<open>
  Status reports at the center (\<open>monitoring/services/telemetry_service.py\<close>, with the handlers of \<open>telemetry.status\<close> and of
  the low battery alert in \<open>message_handlers.py\<close>) and the distance of a patrol loop
  (\<open>services/trajectory_distance_service.py\<close>), which a trajectory batch keeps up to date.
\<close>

section \<open>Is a status report new?\<close>

text \<open>The time zone of the settings, \<open>Asia/Shanghai\<close>.\<close>

definition LOCAL_OFFSET :: int where
  "LOCAL_OFFSET = 8 * 60 * 60 * SECOND"

definition local_instant :: "datetime \<Rightarrow> int" where
  "local_instant t = (case dt_offset t of None \<Rightarrow> dt_wall t - LOCAL_OFFSET | Some _ \<Rightarrow> dt_instant t)"

definition save_progress :: "pydict \<Rightarrow> pyval pyres" where
  "save_progress payload =
     bindE (as_dict (dget payload ''mapping'')) (\<lambda>mapping.
     bindE (as_dict (dget mapping ''save_progress'')) (\<lambda>progress.
       Inr (py_or (dget progress ''updated_at_unix'') (PInt 0))))"

text \<open>Only a \<open>TypeError\<close> or \<open>ValueError\<close> of \<open>float\<close> is caught.\<close>

definition float_after :: "pyval \<Rightarrow> pyval \<Rightarrow> bool pyres" where
  "float_after a b =
     (case bindE (py_float a) (\<lambda>x. bindE (py_float b) (\<lambda>y. Inr (float_lt y x))) of
        Inl x \<Rightarrow> if x \<in> {TypeError, ValueError} then Inr False else Inl x
      | Inr r \<Rightarrow> Inr r)"

definition progress_advanced :: "pydict \<Rightarrow> status_row option \<Rightarrow> bool pyres" where
  "progress_advanced payload latest =
     bindE (save_progress payload) (\<lambda>incoming.
     bindE (case latest of None \<Rightarrow> Inr (PInt 0) | Some l \<Rightarrow> save_progress (sl_raw l)) (\<lambda>known.
       float_after incoming known))"

definition stale_status :: "status_row \<Rightarrow> int \<Rightarrow> int option \<Rightarrow> bool" where
  "stale_status l version sampled = (version \<le> sl_version l \<and> opt_all (\<lambda>t. t \<le> sl_sampled l) sampled)"

section \<open>The columns of a report\<close>

text \<open>\<open>BooleanField(null=True)\<close>.\<close>

definition bool_column :: "pyval \<Rightarrow> bool option pyres" where
  "bool_column v =
     (if v \<in> {PNone, PStr [], PList [], PDict []} then Inr None
      else if py_eq_int v 1 \<or> v \<in> {PStr ''t'', PStr ''True'', PStr ''1''} then Inr (Some True)
      else if py_eq_int v 0 \<or> v \<in> {PStr ''f'', PStr ''False'', PStr ''0''} then Inr (Some False)
      else Inl ValidationError)"

definition quality_column :: "pydict \<Rightarrow> pydict \<Rightarrow> pydict pyres" where
  "quality_column localization map_set =
     bindE (new_dict (dget localization ''quality'')) (\<lambda>quality.
     bindE (new_dict (dget localization ''decision'')) (\<lambda>decision.
     (let q1 = dput quality ''decision'' (PDict decision);
          q2 = (if dget localization ''sampled_at'' \<noteq> PNone then dput q1 ''localization_sampled_at'' (dget localization ''sampled_at'') else q1);
          q3 = (if has_key localization ''fresh'' then dput q2 ''localization_fresh'' (PBool (truthy (dget localization ''fresh''))) else q2);
          q4 = (if dget localization ''sample_age_seconds'' \<noteq> PNone
            then dput q3 ''localization_sample_age_seconds'' (dget localization ''sample_age_seconds'') else q3) in
      Inr (if map_set \<noteq> [] then dput q4 ''map_set'' (PDict map_set) else q4))))"

definition pose_columns :: "(pyval \<Rightarrow> real pyres) \<Rightarrow> pydict \<Rightarrow> (string \<times> real option \<times> real option \<times> real option \<times> real option \<times> real option) pyres" where
  "pose_columns decimal pose =
     bindE (text_column (dget_def_val pose ''frame_id'' (PStr ''map''))) (\<lambda>frame.
     bindE (decimal_column decimal (dget pose ''x'')) (\<lambda>x.
     bindE (decimal_column decimal (dget pose ''y'')) (\<lambda>y.
     bindE (decimal_column decimal (dget pose ''z'')) (\<lambda>z.
     bindE (decimal_column decimal (dget pose ''yaw'')) (\<lambda>yaw.
     bindE (decimal_column decimal (dget pose ''speed_mps'')) (\<lambda>speed. Inr (frame, x, y, z, yaw, speed)))))))"

definition power_columns :: "pydict \<Rightarrow> (bool \<times> int option \<times> bool option) pyres" where
  "power_columns supply =
     (let available = truthy (dget supply ''available'') in
      bindE (if available then int_column (dget supply ''percent'') else Inr None) (\<lambda>percent.
      bindE (if available then bool_column (dget supply ''charging'') else Inr None) (\<lambda>charging.
        Inr (truthy (dget_def_val supply ''available'' (PBool False)), percent, charging))))"

text \<open>The execution the robot names, if the center has it for this robot.\<close>

definition named_execution :: "int \<Rightarrow> pyval \<Rightarrow> center_db \<Rightarrow> string option pyres" where
  "named_execution robot v db =
     (if \<not> truthy v then Inr None
      else bindE (uuid_column v) (\<lambda>pk. Inr (case Option.bind pk (\<lambda>t. find_execution t db) of
        None \<Rightarrow> None | Some e \<Rightarrow> if ex_robot e = robot then Some (ex_id e) else None)))"

definition flag_of :: "pydict \<Rightarrow> string \<Rightarrow> bool" where
  "flag_of runtime key = truthy (dget_def_val runtime key (PBool False))"

text \<open>A time that \<open>parse_datetime\<close> does not read is refused by its column.\<close>

definition status_columns :: "(pyval \<Rightarrow> real pyres) \<Rightarrow> robot_row \<Rightarrow> pydict \<Rightarrow> int \<Rightarrow> int option \<Rightarrow> int \<Rightarrow> center_db \<Rightarrow> status_row pyres" where
  "status_columns decimal robot payload version sampled now db =
     bindE (as_dict (dget payload ''pose'')) (\<lambda>pose.
     bindE (as_dict (dget payload ''localization'')) (\<lambda>localization.
     bindE (as_dict (dget payload ''power'')) (\<lambda>supply.
     bindE (as_dict (dget payload ''network'')) (\<lambda>network.
     bindE (as_dict (dget payload ''runtime'')) (\<lambda>runtime.
     bindE (as_dict (dget payload ''current_map'')) (\<lambda>current_map.
     bindE (as_dict (dget payload ''map_set'')) (\<lambda>map_set.
     bindE (quality_column localization map_set) (\<lambda>quality.
     bindE (named_execution (rb_id robot) (dget runtime ''task_execution_id'') db) (\<lambda>execution.
     bindE (case sampled of None \<Rightarrow> Inl ValidationError | Some t \<Rightarrow> Inr t) (\<lambda>stamp.
     bindE (pose_columns decimal pose) (\<lambda>(frame, x, y, z, yaw, speed).
     bindE (text_column (dget_def_val current_map ''map_id'' (PStr []))) (\<lambda>map_id.
     bindE (text_column (dget_def_val current_map ''map_version'' (PStr []))) (\<lambda>map_version.
     bindE (text_column (dget_def_val localization ''status'' (PStr ''unknown''))) (\<lambda>status.
     bindE (int_column (dget localization ''source_status'')) (\<lambda>source_status.
     bindE (power_columns supply) (\<lambda>(available, percent, charging).
     bindE (text_column (dget_def_val network ''type'' (PStr []))) (\<lambda>network_type.
     bindE (int_column (dget network ''signal_percent'')) (\<lambda>signal.
     bindE (text_column (dget_def_val runtime ''control_mode'' (PStr ''unknown''))) (\<lambda>mode. Inr
       \<lparr>sl_robot = rb_id robot, sl_version = version, sl_sampled = stamp, sl_received = now, sl_frame = frame,
        sl_map_id = map_id, sl_map_version = map_version, sl_x = x, sl_y = y, sl_z = z, sl_yaw = yaw, sl_speed = speed,
        sl_localization = status, sl_source_status = source_status, sl_quality = quality, sl_power = available,
        sl_percent = percent, sl_charging = charging, sl_network = network_type, sl_signal = signal,
        sl_ros = flag_of runtime ''ros_ready'', sl_nav = flag_of runtime ''nav_ready'', sl_estop = flag_of runtime ''emergency_stop'',
        sl_mode = mode, sl_execution = execution, sl_raw = payload\<rparr>)))))))))))))))))))"

definition robot_of_status :: "status_row \<Rightarrow> int \<Rightarrow> int \<Rightarrow> robot_row \<Rightarrow> robot_row" where
  "robot_of_status l seen heartbeat r = r\<lparr>rb_connection := ''online'', rb_status := ''online'', rb_localization := sl_localization l,
     rb_ros_ready := sl_ros l, rb_nav_ready := sl_nav l, rb_control_mode := sl_mode l, rb_map_id := sl_map_id l,
     rb_map_version := sl_map_version l, rb_state_version := sl_version l, rb_last_seen := Some seen, rb_heartbeat := heartbeat,
     rb_battery := (case sl_percent l of Some p \<Rightarrow> if sl_power l then p else rb_battery r | None \<Rightarrow> rb_battery r),
     rb_network := (case sl_signal l of Some n \<Rightarrow> n | None \<Rightarrow> rb_network r)\<rparr>"

definition store_status :: "string \<Rightarrow> robot_row \<Rightarrow> status_row \<Rightarrow> unit ctr" where
  "store_status worker robot l =
     thenC (writeC (put_status l))
     (bindC nowC (\<lambda>seen. bindC nowC (\<lambda>heartbeat. seqC
       [writeC (update_robot (rb_id robot) (\<lambda>_. robot_of_status l seen heartbeat robot)),
        observe_battery worker l])))"

definition apply_status :: "string \<Rightarrow> robot_row \<Rightarrow> pydict \<Rightarrow> (status_row \<times> bool) ctr" where
  "apply_status worker robot payload = atomicC
     (bindC (liftC (bindE (dsub payload ''state_version'') py_int)) (\<lambda>version.
      bindC (dbC (find_status (rb_id robot))) (\<lambda>latest.
      bindC (worldC cw_parse_datetime) (\<lambda>parse.
      bindC (liftC (bindE (dsub payload ''sampled_at'') (\<lambda>v. parse (py_str v)))) (\<lambda>read.
      bindC (liftC (progress_advanced payload latest)) (\<lambda>advanced.
      (let sampled = map_option local_instant read in
       if latest \<noteq> None \<and> \<not> advanced \<and> stale_status (the latest) version sampled then returnC (the latest, False)
       else bindC (worldC cw_decimal) (\<lambda>decimal.
         bindC nowC (\<lambda>now.
         bindC (dbC (status_columns decimal robot payload version sampled now)) (\<lambda>columns.
         bindC (liftC columns) (\<lambda>l.
           thenC (store_status worker robot l) (returnC (l, latest = None)))))))))))))"

definition telemetry_status :: "string \<Rightarrow> robot_row \<Rightarrow> pydict \<Rightarrow> pydict ctr" where
  "telemetry_status worker robot payload =
     bindC (apply_status worker robot payload) (\<lambda>(l, changed). seq_valueC
       [notifyC ''publish_robot_status'' [PInt (rb_id robot), PDict payload]]
       [(''changed'', PBool changed), (''state_version'', PInt (sl_version l))])"

section \<open>Alerts\<close>

text \<open>\<open>ingested\<close> is the answer of the alert service: whether the event is new, and its number if it was registered.\<close>

definition low_battery_alert :: "pydict \<Rightarrow> string \<Rightarrow> bool pyres" where
  "low_battery_alert payload source_code =
     bindE (in_strs (dget payload ''event_type'') [''low_battery_alert'', ''low_battery_return_charge'']) (\<lambda>named.
       Inr (named \<or> source_code \<in> {''LOW_BATTERY_ALERT'', ''LOW_BATTERY_RETURN_CHARGE''}))"

definition alert_answer :: "bool \<Rightarrow> string option \<Rightarrow> pydict \<Rightarrow> pydict pyres" where
  "alert_answer created event payload =
     bindE (case event of Some t \<Rightarrow> Inr (PStr t) | None \<Rightarrow> bindE (dsub payload ''event_id'') (\<lambda>v. Inr (PStr (py_str v)))) (\<lambda>i.
       Inr [(''created'', PBool created), (''registered'', PBool (event \<noteq> None)), (''event_id'', i)])"

definition stop_for_battery :: "robot_row \<Rightarrow> pydict \<Rightarrow> unit ctr" where
  "stop_for_battery robot payload =
     bindC (liftC (as_dict (dget payload ''attributes''))) (\<lambda>attributes.
     bindC (liftC (if dget attributes ''battery_percent'' \<noteq> PNone then py_int (dget attributes ''battery_percent'') else Inr (rb_battery robot))) (\<lambda>percent.
       thenC (terminate_low_battery (rb_id robot)
           (py_str (py_or (dget attributes ''low_battery_episode_id'') (dget payload ''event_id''))) percent ''edge_alert'')
         (returnC ())))"

definition handle_alert :: "robot_row \<Rightarrow> pydict \<Rightarrow> (bool \<times> string option) \<Rightarrow> pydict ctr" where
  "handle_alert robot payload ingested =
     (case ingested of (created, event) \<Rightarrow>
      thenC (whenC (created \<and> event \<noteq> None) (notifyC ''publish_alert'' [PStr (the event)]))
      (bindC (liftC (as_dict (dget payload ''source''))) (\<lambda>source.
       (let code = str_or (dget source ''code'') [] in
        thenC (whenC (dget payload ''event_type'' = PStr ''slam_diverged'' \<or> code = ''SLAM_DIVERGED'')
          (notifyC ''queue_mapping_divergence_speech'' [PDict payload]))
        (bindC (liftC (low_battery_alert payload code)) (\<lambda>low.
           if low then thenC (whenC created (notifyC ''queue_low_battery_alert_speech'' [PDict payload]))
             (thenC (stop_for_battery robot payload)
               (bindC (liftC (alert_answer created event payload)) (\<lambda>d. returnC (d @ [(''automatic_docking'', PBool False)]))))
           else liftC (alert_answer created event payload)))))))"

section \<open>The distance of a loop\<close>

definition segment :: "point_row \<Rightarrow> point_row \<Rightarrow> real" where
  "segment p q =
     (if tp_map_id p \<noteq> [] \<and> tp_map_id q \<noteq> [] \<and> tp_map_id p \<noteq> tp_map_id q then 0
      else (let d = sqrt ((the (tp_x q) - the (tp_x p))\<^sup>2 + (the (tp_y q) - the (tp_y p))\<^sup>2) in if d \<le> 10 then d else 0))"

text \<open>The square root does not compute; evaluation leaves a segment as it is.\<close>

lemma segment_abort [code]: "segment p q = Code.abort (STR ''segment'') (\<lambda>_. segment p q)"
  by simp

fun trajectory_distance :: "point_row list \<Rightarrow> real" where
  "trajectory_distance (p # q # ps) = segment p q + trajectory_distance (q # ps)"
| "trajectory_distance _ = 0"

text \<open>A number with six decimals, and its text.\<close>

definition quantize :: "real \<Rightarrow> real" where
  "quantize x = py_round 6 x"

definition fixed_text :: "real \<Rightarrow> string" where
  "fixed_text x = (let n = \<lfloor>x * 10 ^ 6\<rfloor>; digits = show_int (n mod 10 ^ 6) in
     show_int (n div 10 ^ 6) @ ''.'' @ replicate (6 - length digits) (CHR ''0'') @ digits)"

text \<open>\<open>Decimal(str(value))\<close>, finite and not negative.\<close>

definition stored_distance :: "pydict \<Rightarrow> real option" where
  "stored_distance metadata =
     (case (case dget metadata ''total_distance_m'' of PStr t \<Rightarrow> parse_float t | PInt n \<Rightarrow> Some (Fin (real_of_int n))
           | PFloat f \<Rightarrow> Some f | _ \<Rightarrow> None) of
        Some (Fin x) \<Rightarrow> if x < 0 then None else Some (quantize x)
      | _ \<Rightarrow> None)"

definition points_of :: "string \<Rightarrow> center_db \<Rightarrow> point_row list" where
  "points_of pk db = sort_key tp_seq (filter (\<lambda>p. tp_execution p = pk) (db_points db))"

definition calculate_loop_total_distance :: "string \<Rightarrow> center_db \<Rightarrow> real" where
  "calculate_loop_total_distance loop db =
     quantize (sum_list (map (\<lambda>e. trajectory_distance (points_of (ex_id e) db)) (filter (\<lambda>e. ex_loop e = Some loop) (db_executions db))))"

text \<open>The stretch of an execution that a batch touches: from the stored point before its first one to the one after its last.\<close>

definition touched :: "string \<Rightarrow> point_row list \<Rightarrow> point_row list" where
  "touched batch points =
     (let inserted = filter (\<lambda>p. tp_batch p = batch) points;
          first_seq = tp_seq (hd inserted); last_seq = tp_seq (List.last inserted);
          before = filter (\<lambda>p. tp_seq p < first_seq) points; behind = filter (\<lambda>p. last_seq < tp_seq p) points;
          lower = (if before = [] then first_seq else tp_seq (List.last before));
          upper = (if behind = [] then last_seq else tp_seq (hd behind)) in
      filter (\<lambda>p. lower \<le> tp_seq p \<and> tp_seq p \<le> upper) points)"

definition distance_delta :: "string \<Rightarrow> point_row list \<Rightarrow> real" where
  "distance_delta batch points =
     (let ps = touched batch points in
      trajectory_distance ps - trajectory_distance (filter (\<lambda>p. tp_batch p \<noteq> batch) ps))"

definition updated_distance :: "loop_row \<Rightarrow> string \<Rightarrow> string \<Rightarrow> center_db \<Rightarrow> real option" where
  "updated_distance l pk batch db =
     (case stored_distance (lp_metadata l) of
        None \<Rightarrow> Some (calculate_loop_total_distance (lp_id l) db)
      | Some known \<Rightarrow> (let points = points_of pk db in
          if filter (\<lambda>p. tp_batch p = batch) points = [] then None
          else Some (quantize (max 0 (known + distance_delta batch points)))))"

definition update_patrol_loop_distance :: "loop_row option \<Rightarrow> string \<Rightarrow> string \<Rightarrow> unit ctr" where
  "update_patrol_loop_distance session pk batch =
     (case session of
        None \<Rightarrow> returnC ()
      | Some l \<Rightarrow> bindC (dbC (updated_distance l pk batch)) (\<lambda>updated.
          case updated of
            None \<Rightarrow> returnC ()
          | Some x \<Rightarrow> save_columns l (\<lambda>r. r\<lparr>lp_metadata := dput (lp_metadata l) ''total_distance_m'' (PStr (fixed_text x))\<rparr>)))"

end
