(* ===== verification/CenterMessages.thy ===== *)
theory CenterMessages
  imports CenterTelemetry
begin

text \<open>
  The handlers of \<open>monitoring/message_handlers.py\<close> for what a robot reports about its commands and its task: command
  acknowledgements, progress and results, and task events. A handler gets the parsed envelope and the robot's instance
  and returns the dictionary of the source. Notifications of browsers, the center's log and the speech and alert services
  are events; of a log entry the level, the module, the event code and the data are kept.
\<close>

section \<open>Evidence of a localization\<close>

text \<open>The identity of a stage or of an attempt, as the texts of the source's tuple.\<close>

definition localization_list_identity :: "string \<Rightarrow> pydict \<Rightarrow> string list option" where
  "localization_list_identity kind item =
     (if kind = ''stages'' then
        (let stage = str_or (dget item ''stage'') [] in if stage \<noteq> [] then Some [''stage'', stage] else None)
      else
        (let number = dget_def_val item ''candidate_number'' (dget item ''index'') in
         if number = PNone then None
         else Some [''attempt'', py_str (py_or (py_or (dget item ''stage'') (dget item ''source'')) (PStr [])), py_str number]))"

text \<open>The last position of an identity in a list.\<close>

definition identity_position :: "string \<Rightarrow> string list \<Rightarrow> pyval list \<Rightarrow> nat option" where
  "identity_position kind ident xs =
     map_option fst (find (\<lambda>(i, v). case v of PDict d \<Rightarrow> localization_list_identity kind d = Some ident | _ \<Rightarrow> False)
       (rev (enumerate 0 xs)))"

text \<open>\<open>_deep_merge_localization_mapping\<close> over the pairs of the incoming dictionary, \<open>_merge_localization_list\<close> over the
  items of an incoming list. JSON values are equal when they are the same value.\<close>

function (sequential) merge_value :: "string \<Rightarrow> pyval \<Rightarrow> pyval \<Rightarrow> pyval"
  and merge_pairs :: "pydict \<Rightarrow> pydict \<Rightarrow> pydict"
  and merge_items :: "string \<Rightarrow> pyval list \<Rightarrow> pyval list \<Rightarrow> pyval list" where
  "merge_value key (PDict old) (PDict d) = PDict (merge_pairs old d)"
| "merge_value key old (PList items) =
     (if key \<in> {''attempts'', ''stages''} then PList (merge_items key (case old of PList xs \<Rightarrow> xs | _ \<Rightarrow> []) items)
      else PList items)"
| "merge_value key old v = v"
| "merge_pairs acc [] = acc"
| "merge_pairs acc ((k, v) # rest) = merge_pairs (dput acc k (merge_value k (dget acc k) v)) rest"
| "merge_items kind acc [] = acc"
| "merge_items kind acc (v # rest) =
     (case v of
        PDict d \<Rightarrow>
          (case Option.bind (localization_list_identity kind d) (\<lambda>ident. identity_position kind ident acc) of
             None \<Rightarrow> merge_items kind (acc @ [v]) rest
           | Some i \<Rightarrow> merge_items kind (acc[i := merge_value [] (acc ! i) v]) rest)
      | _ \<Rightarrow> merge_items kind (if v \<in> set acc then acc else acc @ [v]) rest)"
  by pat_completeness auto

termination
  by (relation "measure (\<lambda>x. case x of
       Inl (key, old, v) \<Rightarrow> 2 * size v
     | Inr (Inl (acc, d)) \<Rightarrow> 2 * size_list (size_prod (\<lambda>_. 0) size) d + 1
     | Inr (Inr (kind, acc, vs)) \<Rightarrow> 2 * size_list size vs + 1)") auto

definition LOCALIZATION_PROGRESS_COMMAND_TYPES :: "string list" where
  "LOCALIZATION_PROGRESS_COMMAND_TYPES = [''nav.initial_pose'', ''nav.relocalize'', ''task.start'']"

section \<open>Small pieces\<close>

definition event_time :: "pydict \<Rightarrow> string list \<Rightarrow> int ctr" where
  "event_time payload keys =
     (case find (\<lambda>k. truthy (dget payload k)) keys of
        None \<Rightarrow> nowC
      | Some k \<Rightarrow> bindC (worldC cw_parse_datetime) (\<lambda>parse.
          bindC (liftC (normalize_timestamp parse (dget payload k))) (\<lambda>t. returnC (dt_instant t))))"

text \<open>\<open>try: int(v) except (TypeError, ValueError): dflt\<close>.\<close>

definition int_or :: "pyval \<Rightarrow> int \<Rightarrow> int pyres" where
  "int_or v dflt = (case py_int v of Inl x \<Rightarrow> if x = TypeError \<or> x = ValueError then Inr dflt else Inl x | Inr n \<Rightarrow> Inr n)"

definition emit_log :: "string \<Rightarrow> string \<Rightarrow> string \<Rightarrow> pydict \<Rightarrow> unit ctr" where
  "emit_log level area event_code data =
     notifyC ''emit_center_log'' [PStr level, PStr area, PStr event_code, PDict data]"

definition notify_task :: "string \<Rightarrow> pydict \<Rightarrow> unit ctr" where
  "notify_task pk payload = notifyC ''publish_task_event'' [PStr pk, PDict payload]"

definition task_note :: "string \<Rightarrow> pydict \<Rightarrow> pydict" where
  "task_note kind payload = [(''type'', PStr kind), (''payload'', PDict payload)]"

text \<open>What \<open>TaskExecutionSerializer\<close> gives of an execution is its own matter.\<close>

definition notify_execution :: "execution_row \<Rightarrow> unit ctr" where
  "notify_execution e = notifyC ''publish_task_execution'' [PStr (ex_id e), PStr (ex_state e), PInt (ex_version e)]"

definition command_log_area :: "string \<Rightarrow> string" where
  "command_log_area t =
     (if t = ''nav.relocalize'' then ''relocalization'' else if t = ''nav.single_goal'' then ''planner''
      else if take 4 t = ''nav.'' then ''navigation'' else if t = ''map.boundary_apply'' then ''boundary'' else ''system'')"

definition get_command :: "pydict \<Rightarrow> robot_row \<Rightarrow> command_row ctr" where
  "get_command payload robot =
     bindC (liftC (bindE (dsub payload ''command_id'') uuid_column)) (\<lambda>pk.
     bindC (dbC (\<lambda>db. Option.bind pk (\<lambda>k. find_command k db))) (\<lambda>c.
       case c of
         Some r \<Rightarrow> if cm_robot r = rb_id robot then returnC r
           else raiseC (protocol_error ''UNKNOWN_COMMAND'' ''command not found'')
       | None \<Rightarrow> raiseC (protocol_error ''UNKNOWN_COMMAND'' ''command not found'')))"

text \<open>\<open>CommandEvent.objects.get_or_create(message_id=...)\<close>.\<close>

definition command_event_once :: "string \<Rightarrow> string \<Rightarrow> string \<Rightarrow> pydict \<Rightarrow> unit ctr" where
  "command_event_once mid command kind payload =
     bindC (dbC (\<lambda>db. \<exists>r \<in> set (db_command_events db). ce_message_id r = Some mid)) (\<lambda>there.
       whenC (\<not> there) (record_command_event command kind ''edge'' (Some mid) payload))"

definition status_result :: "string \<Rightarrow> pydict" where
  "status_result t = [(''status'', PStr t)]"

section \<open>command.ack\<close>

definition acked_command :: "bool \<Rightarrow> int \<Rightarrow> pydict \<Rightarrow> command_row \<Rightarrow> command_row" where
  "acked_command accepted stamp payload c =
     c\<lparr>cm_status := (if accepted then ''accepted'' else ''rejected''), cm_acknowledged := Some stamp,
       cm_ack_code := str_or (dget payload ''reason_code'') [], cm_ack_message := str_or (dget payload ''reason_message'') []\<rparr>"

definition text_default :: "string \<Rightarrow> string \<Rightarrow> string" where
  "text_default t dflt = (if t = [] then dflt else t)"

definition ack_execution :: "bool \<Rightarrow> command_row \<Rightarrow> int \<Rightarrow> pydict \<Rightarrow> execution_row \<Rightarrow> unit ctr" where
  "ack_execution accepted c stamp payload e =
     bindC (liftC (int_or (py_or (dget payload ''edge_state_version'') (PInt (ex_version e + 1))) (ex_version e + 1))) (\<lambda>version.
       if accepted \<and> given_up e then
         thenC (reconcile_edge_active_after_center_timeout (ex_id e) ''accepted'' version
           (text_default (cm_ack_code c) ''EDGE_SYNC_ACTIVE'')
           (text_default (cm_ack_message c) ''<cloud-edge reconciliation: the device accepted the start command>'') payload) (returnC ())
       else
         thenC (transition (ex_id e) (PStr (if accepted then ''accepted'' else ''rejected''))
           ((request ''command.ack'')\<lparr>rq_version := Some version, rq_occurred := Some stamp, rq_code := cm_ack_code c,
             rq_message := cm_ack_message c, rq_payload := payload\<rparr>)) (returnC ()))"

definition handle_command_ack :: "center_envelope \<Rightarrow> robot_row \<Rightarrow> pydict ctr" where
  "handle_command_ack env robot =
     (let payload = cv_payload env in
      bindC (get_command payload robot) (\<lambda>command.
      if cm_status command \<in> {''accepted'', ''rejected'', ''executing'', ''succeeded'', ''failed'', ''cancelled''}
        then returnC [(''duplicate'', PBool True), (''status'', PStr (cm_status command))]
      else
        bindC (liftC (dsub payload ''ack'')) (\<lambda>ack.
        bindC (event_time payload [''acknowledged_at'', ''accepted_at'']) (\<lambda>stamp.
        (let accepted = (ack = PStr ''accepted''); c = acked_command accepted stamp payload command in
         thenC (seqC
           [writeC (save_command c),
            record_command_event (cm_id c) ''ack'' ''edge'' (Some (cv_message_id env)) payload,
            emit_log (if accepted then ''INFO'' else ''WARNING'') (command_log_area (cm_type c))
              (cm_type c @ (if accepted then ''.accepted'' else ''.rejected''))
              [(''reason_code'', PStr (cm_ack_code c)), (''reason_message'', PStr (cm_ack_message c))]])
         (bindC (dbC (execution_of c)) (\<lambda>execution.
            (case execution of
               None \<Rightarrow> returnC (status_result (cm_status c))
             | Some e \<Rightarrow> seq_valueC
                 [whenC (cm_type c = ''task.start'') (ack_execution accepted c stamp payload e), notify_task (ex_id e) payload]
                 (status_result (cm_status c))))))))))"

section \<open>command.progress\<close>

definition center_start_timeout :: "command_row \<Rightarrow> bool" where
  "center_start_timeout c = (cm_type c = ''task.start'' \<and> cm_status c = ''timed_out'' \<and> cm_error_code c = ''COMMAND_TIMED_OUT'')"

text \<open>A command that was waiting becomes \<open>executing\<close> and gets its start time once.\<close>

definition begin_executing :: "pydict \<Rightarrow> command_row \<Rightarrow> command_row ctr" where
  "begin_executing payload c =
     (if cm_status c \<in> {''created'', ''published'', ''accepted''} \<or> center_start_timeout c then
        (case cm_started c of
           Some _ \<Rightarrow> returnC (c\<lparr>cm_status := ''executing''\<rparr>)
         | None \<Rightarrow> bindC (event_time payload [''started_at'']) (\<lambda>t. returnC (c\<lparr>cm_status := ''executing'', cm_started := Some t\<rparr>)))
      else returnC c)"

definition progress_result :: "command_row \<Rightarrow> pydict \<Rightarrow> pydict" where
  "progress_result c incoming =
     (if cm_type c \<in> set LOCALIZATION_PROGRESS_COMMAND_TYPES then merge_pairs (cm_result c) incoming
      else dmerge (cm_result c) incoming)"

definition recover_started :: "pydict \<Rightarrow> execution_row \<Rightarrow> unit ctr" where
  "recover_started payload e =
     bindC (liftC (int_or (py_or (dget payload ''edge_state_version'') (PInt (ex_version e))) (ex_version e))) (\<lambda>version.
       whenC (given_up e)
         (bindC (reconcile_edge_active_after_center_timeout (ex_id e) ''accepted'' version ''EDGE_SYNC_ACTIVE''
            ''<cloud-edge reconciliation: the device is initializing the start>'' payload) (\<lambda>e'. notify_task (ex_id e') payload)))"

definition handle_command_progress :: "center_envelope \<Rightarrow> robot_row \<Rightarrow> pydict ctr" where
  "handle_command_progress env robot =
     (let payload = cv_payload env; incoming = dict_or_empty (dget payload ''result'') in
      bindC (get_command payload robot) (\<lambda>command.
      if cm_status command \<in> set FINAL_COMMAND_STATUSES \<and> \<not> center_start_timeout command
        then returnC [(''ignored'', PBool True), (''status'', PStr (cm_status command))]
      else
        bindC (begin_executing payload command) (\<lambda>c.
        (let merged = progress_result command incoming in
         thenC (seqC
           [writeC (update_command (cm_id c) (\<lambda>r. r\<lparr>cm_status := cm_status c, cm_started := cm_started c, cm_result := merged\<rparr>)),
            command_event_once (cv_message_id env) (cm_id c) ''progress'' payload,
            emit_log ''INFO'' (command_log_area (cm_type c)) (cm_type c @ ''.progress'') incoming])
         (bindC (dbC (execution_of c)) (\<lambda>execution.
            thenC (case execution of None \<Rightarrow> returnC () | Some e \<Rightarrow> whenC (center_start_timeout command) (recover_started payload e))
              (returnC (status_result (cm_status c)))))))))"

section \<open>command.result\<close>

definition finished_command :: "pydict \<Rightarrow> string \<Rightarrow> int \<Rightarrow> int \<Rightarrow> command_row \<Rightarrow> command_row" where
  "finished_command payload terminal started finished c =
     (let incoming = dict_or_empty (dget payload ''result'') in
      c\<lparr>cm_status := terminal, cm_started := Some started, cm_finished := Some finished,
        cm_error_code := str_or (dget payload ''error_code'') [], cm_error_message := str_or (dget payload ''error_message'') [],
        cm_result := (if cm_type c \<in> set LOCALIZATION_PROGRESS_COMMAND_TYPES then merge_pairs (cm_result c) incoming else incoming)\<rparr>)"

definition map_activated :: "command_row \<Rightarrow> robot_row \<Rightarrow> unit ctr" where
  "map_activated c robot =
     bindC (liftC (case dget (cm_result c) ''current_map'' of
         PDict d \<Rightarrow> Inr (if d = [] then cm_result c else d)
       | v \<Rightarrow> if truthy v then Inl AttributeError else Inr (cm_result c))) (\<lambda>current.
     bindC nowC (\<lambda>seen. bindC nowC (\<lambda>beat.
       writeC (update_robot (rb_id robot) (\<lambda>r. r\<lparr>rb_map_id := str_or (dget current ''map_id'') [],
         rb_map_version := str_or (dget current ''map_version'') [], rb_last_seen := Some seen, rb_heartbeat := beat\<rparr>)))))"

definition debug_session_done :: "command_row \<Rightarrow> bool \<Rightarrow> robot_row \<Rightarrow> unit ctr" where
  "debug_session_done c success robot =
     bindC (liftC (uuid_column (dget (cm_payload c) ''session_id''))) (\<lambda>sid.
     bindC (dbC (\<lambda>db. Option.bind sid (\<lambda>k. row_of ds_id k (db_debug db)))) (\<lambda>session.
       (case session of
          Some d \<Rightarrow> whenC (ds_robot d = rb_id robot)
            (bindC (or_now (cm_finished c)) (\<lambda>now.
              (let enabled = truthy (dget (cm_payload c) ''enabled'') in
               writeC (\<lambda>db. Inr (db\<lparr>db_debug := edit_rows ds_id (ds_id d) (\<lambda>r.
                 r\<lparr>ds_status := (if \<not> success then ''failed'' else if enabled then ''active'' else ''stopped''),
                   ds_stopped := (if success \<and> \<not> enabled then Some now else ds_stopped d)\<rparr>) (db_debug db)\<rparr>)))))
        | None \<Rightarrow> returnC ())))"

definition applied_boundary :: "command_row \<Rightarrow> bool \<Rightarrow> boundary_row \<Rightarrow> boundary_row pyres" where
  "applied_boundary c success b =
     (if success then
        bindE (as_dict (dget (cm_payload c) ''boundary'')) (\<lambda>data.
        bindE (py_int (py_or (dget data ''revision'') (PInt (bd_revision b)))) (\<lambda>revision.
          if revision < 0 then Inl (IntegrityError ''active_revision'')
          else Inr (b\<lparr>bd_active_revision := revision, bd_active_payload := data,
            bd_status := (if revision = bd_revision b then ''active'' else ''draft''), bd_error := []\<rparr>)))
      else Inr (b\<lparr>bd_status := ''failed'', bd_error := text_default (cm_error_message c) (cm_error_code c)\<rparr>))"

definition boundary_applied :: "command_row \<Rightarrow> bool \<Rightarrow> unit ctr" where
  "boundary_applied c success =
     bindC (liftC (int_column (dget (cm_payload c) ''map_id''))) (\<lambda>m.
     bindC (dbC (\<lambda>db. find (\<lambda>b. Some (bd_map b) = m \<and> bd_command b = Some (cm_id c)) (db_boundaries db))) (\<lambda>boundary.
       (case boundary of
          None \<Rightarrow> returnC ()
        | Some b \<Rightarrow> bindC (liftC (applied_boundary c success b)) (\<lambda>b'.
            writeC (\<lambda>db. Inr (db\<lparr>db_boundaries := edit_rows bd_map (bd_map b) (\<lambda>_. b') (db_boundaries db)\<rparr>))))))"

text \<open>The state a result means for the execution: what the robot says, or else what a failed command implies. A failed
  pause or resume restores the state before it; a failed recovery leaves the loop to try again.\<close>

definition failed_control :: "execution_row \<Rightarrow> string \<Rightarrow> string \<Rightarrow> string \<Rightarrow> command_row \<Rightarrow> pydict \<Rightarrow> execution_row ctr" where
  "failed_control e waiting restored event c payload =
     (if ex_state e = waiting then
        transition (ex_id e) (PStr restored) ((request event)\<lparr>rq_code := cm_error_code c, rq_message := cm_error_message c,
          rq_payload := payload\<rparr>)
      else returnC e)"

definition implied_state :: "execution_row \<Rightarrow> command_row \<Rightarrow> string \<Rightarrow> pydict \<Rightarrow> (execution_row \<times> pyval) ctr" where
  "implied_state e c terminal payload =
     (let stated = dget (cm_result c) ''final_task_state'' in
      if truthy stated \<or> terminal \<notin> {''failed'', ''timed_out'', ''expired''} then returnC (e, stated)
      else if cm_type c = ''task.pause'' then
        bindC (failed_control e ''pausing'' ''running'' ''task.pause.failed'' c payload) (\<lambda>e'. returnC (e', PNone))
      else if cm_type c = ''task.resume'' then
        bindC (failed_control e ''resuming'' ''paused'' ''task.resume.failed'' c payload) (\<lambda>e'. returnC (e', PNone))
      else if cm_type c = ''task.recover.v1'' then returnC (e, PNone)
      else returnC (e, PStr (if cm_error_code c \<in> {''COMMAND_EXPIRED'', ''COMMAND_TIMED_OUT''} then ''timed_out'' else ''failed'')))"

definition final_transition :: "execution_row \<Rightarrow> pyval \<Rightarrow> command_row \<Rightarrow> pydict \<Rightarrow> execution_row ctr" where
  "final_transition e final c payload =
     (if truthy final \<and> final \<noteq> PStr (ex_state e) then
        bindC (liftC (py_int (py_or (dget (cm_result c) ''state_version'') (PInt 0)))) (\<lambda>reported.
          transition (ex_id e) final ((request ''command.result'')\<lparr>rq_version := Some (max reported (ex_version e + 1)),
            rq_occurred := cm_finished c,
            rq_code := py_str (py_or (py_or (PStr (cm_error_code c)) (dget (cm_result c) ''reason_code'')) (PStr [])),
            rq_message := py_str (py_or (py_or (PStr (cm_error_message c)) (dget (cm_result c) ''reason_message'')) (PStr [])),
            rq_payload := payload\<rparr>))
      else returnC e)"

text \<open>The counters a result carries; the update function of the columns that are present.\<close>

definition result_counters :: "pydict \<Rightarrow> (execution_row \<Rightarrow> execution_row) option pyres" where
  "result_counters r =
     bindE (if has_key r ''completed_waypoints'' then bindE (py_int (dget r ''completed_waypoints'')) (\<lambda>n. Inr (Some n)) else Inr None) (\<lambda>completed.
     bindE (if has_key r ''total_waypoints'' then bindE (py_int (dget r ''total_waypoints'')) (\<lambda>n. Inr (Some n)) else Inr None) (\<lambda>count.
     bindE (if has_key r ''current_waypoint_index'' then int_column (dget r ''current_waypoint_index'') else Inr None) (\<lambda>index.
       Inr (if completed = None \<and> count = None \<and> \<not> has_key r ''current_waypoint_index'' then None
            else Some (\<lambda>e. e\<lparr>ex_completed := (case completed of None \<Rightarrow> ex_completed e | Some n \<Rightarrow> n),
              ex_total := (case count of None \<Rightarrow> ex_total e | Some n \<Rightarrow> n),
              ex_waypoint_index := (if has_key r ''current_waypoint_index'' then index else ex_waypoint_index e)\<rparr>)))))"

definition result_execution :: "command_row \<Rightarrow> string \<Rightarrow> pydict \<Rightarrow> execution_row \<Rightarrow> unit ctr" where
  "result_execution c terminal payload e =
     bindC (implied_state e c terminal payload) (\<lambda>(e', final).
     bindC (final_transition e' final c payload) (\<lambda>e''.
     bindC (liftC (result_counters (cm_result c))) (\<lambda>counters.
       seqC [case counters of None \<Rightarrow> returnC () | Some f \<Rightarrow> update_executionC (ex_id e'') f, notify_task (ex_id e'') payload])))"

definition handle_command_result :: "center_envelope \<Rightarrow> robot_row \<Rightarrow> pydict ctr" where
  "handle_command_result env robot =
     (let payload = cv_payload env in
      bindC (get_command payload robot) (\<lambda>command.
      bindC (liftC (dsub payload ''status'')) (\<lambda>status.
      bindC (event_time payload [''started_at'']) (\<lambda>started.
      bindC (event_time payload [''finished_at'']) (\<lambda>finished.
      (let terminal = py_str status; success = (terminal = ''succeeded'');
           c = finished_command payload terminal started finished command in
       seq_valueC
         [writeC (save_command c),
          whenC (cm_type c = ''map.activate'' \<and> success) (map_activated c robot),
          command_event_once (cv_message_id env) (cm_id c) ''result'' payload,
          emit_log (if success then ''INFO'' else ''ERROR'') (command_log_area (cm_type c))
            (cm_type c @ (if success then ''.succeeded'' else ''.failed''))
            [(''result'', PDict (cm_result c)), (''error_code'', PStr (cm_error_code c)), (''error_message'', PStr (cm_error_message c))],
          whenC (cm_type c = ''diagnostics.log_config'') (debug_session_done c success robot),
          whenC (cm_type c = ''map.boundary_apply'') (boundary_applied c success),
          bindC (dbC (execution_of c)) (\<lambda>execution.
            case execution of None \<Rightarrow> returnC () | Some e \<Rightarrow> result_execution c terminal payload e)]
         (status_result terminal)))))))"

end
