(* ===== verification/CenterEvents.thy ===== *)
theory CenterEvents
  imports CenterMessages
begin

text \<open>
  Task events, trajectory batches, synchronization and presence in \<open>monitoring/message_handlers.py\<close>.
\<close>

section \<open>Task events\<close>

definition lock_robot_execution :: "pydict \<Rightarrow> robot_row \<Rightarrow> execution_row ctr" where
  "lock_robot_execution payload robot =
     bindC (liftC (bindE (dsub payload ''task_execution_id'') uuid_column)) (\<lambda>pk.
     bindC (dbC (\<lambda>db. Option.bind pk (\<lambda>k. find_execution k db))) (\<lambda>e.
       case e of
         Some r \<Rightarrow> if ex_robot r = rb_id robot then returnC r
           else raiseC (protocol_error ''UNKNOWN_TASK_EXECUTION'' ''task execution not found'')
       | None \<Rightarrow> raiseC (protocol_error ''UNKNOWN_TASK_EXECUTION'' ''task execution not found'')))"

definition execution_result :: "execution_row \<Rightarrow> pydict" where
  "execution_result e = [(''state'', PStr (ex_state e)), (''state_version'', PInt (ex_version e))]"

text \<open>\<open>task.obstacle_stage\<close>: one event per episode, stage and attempt, refreshed by later reports.\<close>

definition same_stage :: "execution_row \<Rightarrow> string \<Rightarrow> string \<Rightarrow> int \<Rightarrow> task_event_row \<Rightarrow> bool" where
  "same_stage e episode stage attempt t =
     (te_execution t = ex_id e \<and> te_type t = ''task.obstacle_stage''
      \<and> dget (te_payload t) ''obstacle_episode_id'' = PStr episode \<and> dget (te_payload t) ''stage'' = PStr stage
      \<and> py_eq_int (dget (te_payload t) ''recovery_attempt'') attempt)"

definition record_stage :: "center_envelope \<Rightarrow> execution_row \<Rightarrow> unit ctr" where
  "record_stage env e =
     (let payload = cv_payload env; episode = str_or (dget payload ''obstacle_episode_id'') [];
          stage = str_or (dget payload ''stage'') [] in
      bindC (event_time payload [''reported_at'', ''occurred_at'']) (\<lambda>stamp.
      bindC (liftC (py_int (py_or (dget payload ''recovery_attempt'') (PInt 0)))) (\<lambda>attempt.
      bindC (dbC (\<lambda>db. find (same_stage e episode stage attempt) (db_task_events db))) (\<lambda>known.
        case known of
          None \<Rightarrow> record_task_event (task_event e ((request ''task.obstacle_stage'')\<lparr>rq_message_id := Some (cv_message_id env),
            rq_payload := payload\<rparr>) stamp)
        | Some t \<Rightarrow> writeC (update_task_event (te_id t)
            (\<lambda>r. r\<lparr>te_payload := dmerge (te_payload t) payload, te_occurred := stamp\<rparr>))))))"

definition obstacle_stage :: "center_envelope \<Rightarrow> execution_row \<Rightarrow> pydict ctr" where
  "obstacle_stage env e =
     (let payload = cv_payload env in
      thenC (record_stage env e)
      (bindC (emitC (Notified ''ingest_obstacle_stage'' [PStr (ex_id e), PDict payload])) (\<lambda>alert. seq_valueC
        [notifyC ''publish_alert'' [alert],
         notify_task (ex_id e) (task_note ''obstacle_stage'' payload),
         emit_log (if dget payload ''stage'' \<in> {PStr ''DISSUASION'', PStr ''SAFE_OBSERVING''} then ''WARNING'' else ''INFO'')
           ''avoidance'' (''avoidance.obstacle.'' @ lower (str_or (dget payload ''stage'') ''unknown'')) payload]
        (execution_result e @ [(''inspection_event_id'', alert)]))))"

definition obstacle_recovery :: "center_envelope \<Rightarrow> execution_row \<Rightarrow> pydict ctr" where
  "obstacle_recovery env e = seq_valueC
     [notify_task (ex_id e) (task_note ''obstacle_recovery'' (cv_payload env)),
      emit_log ''INFO'' ''avoidance'' ''navigation.obstacle_recovery'' (cv_payload env)] (execution_result e)"

definition obstacle_speech :: "center_envelope \<Rightarrow> execution_row \<Rightarrow> pydict ctr" where
  "obstacle_speech env e =
     bindC (emitC (Notified ''_queue_obstacle_speech'' [PStr (ex_id e), PDict (cv_payload env)])) (\<lambda>audio. seq_valueC
       [emit_log ''WARNING'' ''avoidance'' (''avoidance.'' @ str_or (dget (cv_payload env) ''speech_stage'') ''obstacle'') (cv_payload env),
        notify_task (ex_id e) (task_note ''obstacle_speech'' (cv_payload env) @ [(''audio_command_id'', audio)])]
       (execution_result e @ [(''audio_command_id'', audio)]))"

definition NAVIGATION_NOTES :: "string list" where
  "NAVIGATION_NOTES = [''task.navigation_stage'', ''task.arrival_pending_settle'', ''task.arrival_nav2_stopping'',
     ''task.arrival_zero_confirming'', ''task.arrival_zero_confirmed'', ''task.arrival_zero_timeout'', ''task.arrival_check'',
     ''task.arrival_confirmed'', ''task.arrival_degraded_accepted'', ''task.arrival_correcting'',
     ''task.arrival_heading_aligning'', ''task.arrival_heading_aligned'', ''task.recovery_active'', ''task.waypoint_actions'',
     ''task.waypoint_degraded'', ''task.waypoint_postprocess_completed'']"

definition note_event :: "center_envelope \<Rightarrow> execution_row \<Rightarrow> int \<Rightarrow> int \<Rightarrow> task_event_row" where
  "note_event env e version stamp =
     (let payload = cv_payload env; degraded = (cv_message_type env = ''task.arrival_degraded_accepted'') in
      task_event (e\<lparr>ex_version := version\<rparr>) ((request (cv_message_type env))\<lparr>rq_message_id := Some (cv_message_id env),
        rq_code := str_or (dget payload ''reason_code'') (if degraded then ''ARRIVAL_FINE_REAPPROACH_EXHAUSTED'' else []),
        rq_message := str_or (dget payload ''reason_message'')
          (if degraded then ''<an ordinary waypoint was completed within the coarse radius>'' else []),
        rq_payload := payload\<rparr>) stamp)"

text \<open>\<open>get_or_create\<close> computes its defaults before it looks.\<close>

definition record_note :: "center_envelope \<Rightarrow> execution_row \<Rightarrow> unit ctr" where
  "record_note env e =
     bindC (liftC (py_int (py_or (dget (cv_payload env) ''state_version'') (PInt (ex_version e))))) (\<lambda>version.
     bindC (event_time (cv_payload env) [''occurred_at'', ''reported_at'']) (\<lambda>stamp.
     bindC (dbC (\<lambda>db. \<exists>r \<in> set (db_task_events db). te_message_id r = Some (cv_message_id env))) (\<lambda>there.
       whenC (\<not> there) (record_task_event (note_event env e version stamp)))))"

definition navigation_note :: "center_envelope \<Rightarrow> execution_row \<Rightarrow> pydict ctr" where
  "navigation_note env e =
     (let t = cv_message_type env in seq_valueC
       [whenC (t \<in> {''task.navigation_stage'', ''task.arrival_degraded_accepted''}) (record_note env e),
        notify_task (ex_id e) (task_note (drop 5 t) (cv_payload env)),
        emit_log ''INFO'' ''navigation'' t (cv_payload env)] (execution_result e))"

definition safe_hold :: "center_envelope \<Rightarrow> execution_row \<Rightarrow> pydict ctr" where
  "safe_hold env e =
     (let payload = cv_payload env in
      bindC (liftC (py_int (py_or (dget payload ''state_version'') (PInt (ex_version e + 1))))) (\<lambda>version.
      bindC (if ex_version e < version \<and> ex_state e \<notin> {''paused'', ''failed'', ''cancelled'', ''completed''} then
          exceptC (bindC (event_time payload [''occurred_at'', ''reported_at'']) (\<lambda>stamp.
              transition (ex_id e) (PStr ''paused'') ((request ''task.safe_hold'')\<lparr>rq_version := Some version,
                rq_occurred := Some stamp, rq_message_id := Some (cv_message_id env),
                rq_code := str_or (dget payload ''reason_code'') ''SAFE_HOLD'',
                rq_message := str_or (dget payload ''reason_message'') ''<safe hold>'', rq_payload := payload\<rparr>)))
            (\<lambda>x. case x of TaskStateError _ \<Rightarrow> returnC e | _ \<Rightarrow> raiseC x)
        else returnC e) (\<lambda>e'. seq_valueC
          [notify_task (ex_id e') (task_note ''safe_hold'' payload), emit_log ''WARNING'' ''navigation'' ''task.safe_hold'' payload]
          (execution_result e'))))"

definition round_columns :: "execution_row \<Rightarrow> pydict \<Rightarrow> execution_row pyres" where
  "round_columns e payload =
     bindE (py_int (py_or (dget payload ''round_number'') (PInt (ex_round e)))) (\<lambda>r.
     bindE (py_int (py_or (dget payload ''state_version'') (PInt (ex_version e)))) (\<lambda>v.
       Inr (e\<lparr>ex_round := max (ex_round e) r, ex_version := max (ex_version e) v\<rparr>)))"

definition round_started :: "center_envelope \<Rightarrow> execution_row \<Rightarrow> pydict ctr" where
  "round_started env e =
     bindC (liftC (round_columns e (cv_payload env))) (\<lambda>e'. seq_valueC
       [update_executionC (ex_id e') (\<lambda>r. r\<lparr>ex_round := ex_round e', ex_version := ex_version e'\<rparr>),
        notify_task (ex_id e') (task_note ''round_started'' (cv_payload env))]
       (execution_result e' @ [(''round_number'', PInt (ex_round e'))]))"

text \<open>\<open>get_or_create(task_execution=..., state_version=...)\<close>: stages share versions with other events, so several rows can
  match.\<close>

definition record_milestone :: "center_envelope \<Rightarrow> execution_row \<Rightarrow> string \<Rightarrow> unit ctr" where
  "record_milestone env e milestone =
     bindC (event_time (cv_payload env) [''reported_at'', ''occurred_at'']) (\<lambda>stamp.
     bindC (dbC (\<lambda>db. filter (\<lambda>t. te_execution t = ex_id e \<and> te_version t = ex_version e) (db_task_events db))) (\<lambda>rows.
       case rows of
         [] \<Rightarrow> record_task_event (task_event e ((request (''task.'' @ milestone))\<lparr>rq_message_id := Some (cv_message_id env),
           rq_payload := cv_payload env\<rparr>) stamp)
       | [_] \<Rightarrow> returnC ()
       | _ \<Rightarrow> raiseC MultipleObjectsReturned))"

definition task_progress :: "center_envelope \<Rightarrow> execution_row \<Rightarrow> execution_row ctr" where
  "task_progress env e0 =
     (let payload = cv_payload env in
      bindC (apply_progress e0 payload) (\<lambda>e.
      bindC (liftC (bindE (dsub payload ''state_version'') py_int)) (\<lambda>version.
      (let milestone = str_or (dget payload ''milestone'') [] in seq_valueC
         [whenC (milestone \<in> {''target_dispatched'', ''waypoint_reached'', ''arrival_confirmed'', ''waypoint_passed''}
             \<and> ex_version e = version) (record_milestone env e milestone),
          whenC (milestone \<in> {''waypoint_reached'', ''arrival_confirmed''})
            (bindC (liftC (as_dict (dget payload ''waypoint''))) (\<lambda>waypoint.
              notifyC ''_queue_waypoint_speech'' [PStr (ex_id e), dget payload ''execution_waypoint_index'',
                py_or (py_or (dget waypoint ''waypoint_id'') (dget payload ''current_waypoint_id'')) (PStr [])]))] e))))"

text \<open>The log of progress puts the number of the point into a set, which an array or an object cannot be in.\<close>

definition progress_logged :: "center_envelope \<Rightarrow> execution_row \<Rightarrow> unit ctr" where
  "progress_logged env e =
     (let payload = cv_payload env; milestone = str_or (dget payload ''milestone'') ''progress'';
          reached = milestone \<in> {''waypoint_reached'', ''arrival_confirmed''};
          point_number = dget (dict_or_empty (dget (dict_or_empty (dget payload ''navigation_progress'')) ''waypoint'')) ''map_point_number'' in
      thenC (liftC (if reached then Inr () else
          bindE (in_strs point_number [[]]) (\<lambda>none. if none \<or> point_number = PNone
            then bindE (in_strs (dget (dict_or_empty (dget payload ''waypoint'')) ''map_point_number'') [[]]) (\<lambda>_. Inr ()) else Inr ())))
        (emit_log ''INFO'' (if reached then ''waypoint'' else ''navigation'')
          ((if reached then ''waypoint.'' else ''navigation.'') @ milestone) payload))"

definition reported_transition :: "center_envelope \<Rightarrow> execution_row \<Rightarrow> pyval \<Rightarrow> int \<Rightarrow> execution_row ctr" where
  "reported_transition env e target version =
     (let payload = cv_payload env in
      exceptC
        (bindC (event_time payload [''occurred_at'', ''reported_at'']) (\<lambda>stamp.
          transition (ex_id e) target ((request (cv_message_type env))\<lparr>rq_version := Some version, rq_occurred := Some stamp,
            rq_message_id := Some (cv_message_id env), rq_code := str_or (dget payload ''reason_code'') [],
            rq_message := str_or (dget payload ''reason_message'') [], rq_payload := payload\<rparr>)))
        (\<lambda>x. case x of TaskStateError _ \<Rightarrow> if target \<noteq> PStr (ex_state e) then raiseC x else returnC e | _ \<Rightarrow> raiseC x))"

definition state_logged :: "center_envelope \<Rightarrow> unit ctr" where
  "state_logged env =
     (let payload = cv_payload env; state = py_or (dget payload ''state'') (PStr (drop 5 (cv_message_type env))) in
      bindC (liftC (in_strs state [''paused'', ''interrupted'', ''cancelled''])) (\<lambda>warning.
        emit_log (if state = PStr ''failed'' then ''ERROR'' else if warning then ''WARNING'' else ''INFO'')
          (if contains_text ''localization'' (lower (str_or (dget payload ''reason_code'') [])) then ''localization'' else ''navigation'')
          (cv_message_type env) payload))"

definition progress_or_state :: "center_envelope \<Rightarrow> execution_row \<Rightarrow> pydict ctr" where
  "progress_or_state env e =
     (let payload = cv_payload env in
      if cv_message_type env = ''task.progress'' then
        bindC (task_progress env e) (\<lambda>e'. seq_valueC [progress_logged env e', notify_execution e'] (execution_result e'))
      else
        bindC (liftC (dsub payload ''state'')) (\<lambda>target.
        bindC (liftC (bindE (dsub payload ''state_version'') py_int)) (\<lambda>version.
          if version \<le> ex_version e then returnC [(''ignored'', PBool True), (''reason'', PStr ''stale_state_version'')]
          else bindC (reported_transition env e target version) (\<lambda>e'.
            seq_valueC [state_logged env, notify_execution e'] (execution_result e')))))"

definition handle_task_event :: "center_envelope \<Rightarrow> robot_row \<Rightarrow> pydict ctr" where
  "handle_task_event env robot =
     bindC (lock_robot_execution (cv_payload env) robot) (\<lambda>e.
     (let t = cv_message_type env in
      if t = ''task.obstacle_stage'' then obstacle_stage env e
      else if t = ''navigation.obstacle_recovery'' then obstacle_recovery env e
      else if t = ''task.obstacle_speech'' then obstacle_speech env e
      else if t \<in> set NAVIGATION_NOTES then navigation_note env e
      else if t = ''task.safe_hold'' then safe_hold env e
      else if t = ''task.round_started'' then round_started env e
      else progress_or_state env e))"

section \<open>Messages to the robot\<close>

definition downlink :: "string \<Rightarrow> string \<Rightarrow> string \<Rightarrow> robot_row \<Rightarrow> center_envelope \<Rightarrow> pydict \<Rightarrow> pydict" where
  "downlink kind mid sent robot env payload =
     [(''protocol_version'', PStr ''1.0''), (''message_id'', PStr mid), (''message_type'', PStr kind),
      (''robot_id'', PStr (rb_code robot)), (''session_id'', PStr ''center''), (''sent_at'', PStr sent),
      (''trace_id'', PStr (cv_trace_id env)), (''payload'', PDict payload)]"

text \<open>\<open>publish_response\<close> is absent when the handler is called without a connection.\<close>

definition respond :: "bool \<Rightarrow> string \<Rightarrow> robot_row \<Rightarrow> center_envelope \<Rightarrow> pydict \<Rightarrow> unit ctr" where
  "respond online kind robot env payload =
     whenC online
       (bindC uuidC (\<lambda>mid. bindC nowC (\<lambda>now. bindC (worldC cw_isoformat) (\<lambda>fmt.
         publish_json (''robots/'' @ rb_code robot @ ''/sync/state'') (downlink kind mid (fmt now) robot env payload)))))"

section \<open>trajectory.batch\<close>

definition trajectory_result :: "receipt_row \<Rightarrow> bool \<Rightarrow> pydict" where
  "trajectory_result r duplicate =
     [(''task_execution_id'', PStr (tr_execution r)), (''batch_id'', PStr (tr_batch r)), (''accepted_first_seq'', PInt (tr_first r)),
      (''accepted_last_seq'', PInt (tr_last r)), (''duplicate'', PBool duplicate), (''accepted'', PBool True)]"

definition find_receipt :: "string \<Rightarrow> center_db \<Rightarrow> receipt_row option" where
  "find_receipt batch db = row_of tr_batch batch (db_receipts db)"

text \<open>A point as it reaches the database. \<open>bulk_create(ignore_conflicts=True)\<close> leaves out a row that a constraint refuses:
  a text that is null, or a number that the execution of the robot has already.\<close>

definition point_columns :: "datetime_reader \<Rightarrow> (pyval \<Rightarrow> real pyres) \<Rightarrow> execution_row \<Rightarrow> string \<Rightarrow> pydict \<Rightarrow> pydict \<Rightarrow> point_row option pyres" where
  "point_columns parse decimal e batch payload p =
     bindE (dsub p ''localization_status'') (\<lambda>localization.
     bindE (bindE (dsub p ''seq'') py_int) (\<lambda>n. if \<not> fits n then Inl OverflowError else
     bindE (bindE (dsub p ''sampled_at'') (normalize_timestamp parse)) (\<lambda>t.
     bindE (decimal_column decimal (dget p ''x'')) (\<lambda>x.
     bindE (decimal_column decimal (dget p ''y'')) (\<lambda>y.
     bindE (decimal_column decimal (dget p ''yaw'')) (\<lambda>yaw.
     bindE (decimal_column decimal (dget p ''speed_mps'')) (\<lambda>speed.
     (let frame = dget_def_val payload ''frame_id'' (PStr ''map''); m = dget_def_val payload ''map_id'' (PStr []);
          version = dget_def_val payload ''map_version'' (PStr []) in
      Inr (if PNone \<in> {frame, m, version, localization} then None
           else Some \<lparr>tp_robot = ex_robot e, tp_execution = ex_id e, tp_seq = n, tp_sampled = dt_instant t,
             tp_frame = py_str frame, tp_map_id = py_str m, tp_map_version = py_str version, tp_x = x, tp_y = y, tp_yaw = yaw,
             tp_speed = speed, tp_localization = py_str localization, tp_keyframe = dict_or_empty (dget p ''keyframe''),
             tp_batch = batch\<rparr>)))))))))"

fun batch_points :: "(pydict \<Rightarrow> point_row option pyres) \<Rightarrow> pyval list \<Rightarrow> point_row list pyres" where
  "batch_points columns [] = Inr []"
| "batch_points columns (v # vs) =
     bindE (columns (dict_or_empty v)) (\<lambda>p. bindE (batch_points columns vs) (\<lambda>ps.
       Inr (case p of None \<Rightarrow> ps | Some r \<Rightarrow> r # ps)))"

definition same_point :: "point_row \<Rightarrow> point_row \<Rightarrow> bool" where
  "same_point p q = (tp_robot p = tp_robot q \<and> tp_execution p = tp_execution q \<and> tp_seq p = tp_seq q)"

definition add_point :: "point_row list \<Rightarrow> point_row \<Rightarrow> point_row list" where
  "add_point rows p = (if \<exists>q \<in> set rows. same_point q p then rows else rows @ [p])"

definition add_points :: "point_row list \<Rightarrow> center_db \<Rightarrow> center_db" where
  "add_points ps db = db\<lparr>db_points := foldl add_point (db_points db) ps\<rparr>"

definition insert_receipt :: "receipt_row \<Rightarrow> center_db \<Rightarrow> center_db pyres" where
  "insert_receipt r db =
     bindE (seqE [integrity (find_receipt (tr_batch r) db = None) ''primary key'',
         integrity (tr_first r \<le> tr_last r) ''trajectory_batch_valid_range''])
       (\<lambda>_. Inr (db\<lparr>db_receipts := db_receipts db @ [r]\<rparr>))"

definition store_batch :: "point_row list \<Rightarrow> receipt_row \<Rightarrow> (receipt_row \<times> bool) ctr" where
  "store_batch points receipt =
     exceptC
       (atomicC (seq_valueC [writeC (\<lambda>db. Inr (add_points points db)), writeC (insert_receipt receipt)] (receipt, False)))
       (\<lambda>x. case x of
          IntegrityError _ \<Rightarrow> bindC (dbC (find_receipt (tr_batch receipt))) (\<lambda>r.
            case r of None \<Rightarrow> raiseC x | Some a \<Rightarrow> returnC (a, True))
        | _ \<Rightarrow> raiseC x)"

definition new_batch :: "center_envelope \<Rightarrow> robot_row \<Rightarrow> string \<Rightarrow> (pydict \<times> bool) ctr" where
  "new_batch env robot batch =
     (let payload = cv_payload env in
      bindC (lock_robot_execution payload robot) (\<lambda>e.
      bindC (dbC (\<lambda>db. Option.bind (ex_loop e) (\<lambda>l. find_loop l db))) (\<lambda>session.
      bindC (worldC cw_parse_datetime) (\<lambda>parse.
      bindC (worldC cw_decimal) (\<lambda>decimal.
      bindC (liftC (bindE (dsub payload ''points'') list_or_empty)) (\<lambda>items.
      bindC (liftC (batch_points (point_columns parse decimal e batch payload) items)) (\<lambda>points.
      bindC (liftC (bindE (dsub payload ''first_seq'') py_int)) (\<lambda>first_seq.
      bindC (liftC (bindE (dsub payload ''last_seq'') py_int)) (\<lambda>last_seq.
      bindC (store_batch points \<lparr>tr_batch = batch, tr_robot = rb_id robot, tr_execution = ex_id e, tr_first = first_seq,
          tr_last = last_seq, tr_count = int (length items)\<rparr>) (\<lambda>(receipt, duplicate).
        seq_valueC [whenC (\<not> duplicate) (update_patrol_loop_distance session (ex_id e) batch)]
          (trajectory_result receipt duplicate, duplicate)))))))))))"

text \<open>The transaction, then the hooks of \<open>on_commit\<close>.\<close>

definition handle_trajectory :: "bool \<Rightarrow> center_envelope \<Rightarrow> robot_row \<Rightarrow> pydict ctr" where
  "handle_trajectory online env robot =
     bindC (liftC (bindE (dsub (cv_payload env) ''batch_id'') (\<lambda>v. center_uuid v ''batch_id''))) (\<lambda>batch.
     bindC (atomicC (bindC (dbC (find_receipt batch)) (\<lambda>existing.
        case existing of
          Some r \<Rightarrow> returnC (trajectory_result r True, True)
        | None \<Rightarrow> new_batch env robot batch))) (\<lambda>(result, duplicate). seq_valueC
       [respond online ''trajectory.ack'' robot env result,
        whenC (\<not> duplicate) (notify_task (py_str (dget result ''task_execution_id''))
          ((''type'', PStr ''trajectory.updated'') # result))] result))"

section \<open>sync.request\<close>

definition sync_data :: "execution_row \<Rightarrow> string \<Rightarrow> int \<Rightarrow> pydict \<Rightarrow> pydict" where
  "sync_data e state version payload =
     [(''source'', PStr ''edge_sync''), (''local_task_state'', PStr state), (''local_task_state_version'', PInt version),
      (''outbox_pending'', dget payload ''outbox_pending'')]"

definition sync_recover :: "execution_row \<Rightarrow> string \<Rightarrow> int \<Rightarrow> pydict \<Rightarrow> (execution_row \<times> bool) ctr" where
  "sync_recover e state version payload =
     (if given_up e \<and> state \<in> set ACTIVE_STATES \<and> state \<notin> {''created'', ''dispatching''} \<and> state \<noteq> ex_state e then
        bindC (exceptC (bindC (reconcile_edge_active_after_center_timeout (ex_id e) state version
              (str_or (dget payload ''local_task_reason_code'') []) (str_or (dget payload ''local_task_reason_message'') [])
              (sync_data e state version payload)) (\<lambda>e'. returnC (Some e')))
            (\<lambda>x. case x of TaskStateError _ \<Rightarrow> returnC None | _ \<Rightarrow> raiseC x))
          (\<lambda>r. case r of None \<Rightarrow> returnC (e, False) | Some e' \<Rightarrow> thenC (notify_execution e') (returnC (e', True)))
      else returnC (e, False))"

definition sync_reason :: "string \<Rightarrow> pydict \<Rightarrow> string \<times> string" where
  "sync_reason state payload =
     (let code = str_or (dget payload ''local_task_reason_code'') []; message = str_or (dget payload ''local_task_reason_message'') [] in
      if is_final state \<and> state \<noteq> ''completed'' \<and> code = [] then
        (''EDGE_SYNC_TERMINAL'', text_default message (''<final state reported when the edge reconnected:> '' @ state))
      else if state = ''paused'' \<and> code = [] then
        (''EDGE_SYNC_PAUSED'', text_default message ''<cloud-edge reconciliation: the task is paused on the device>'')
      else (code, message))"

definition sync_transition :: "execution_row \<Rightarrow> string \<Rightarrow> int \<Rightarrow> pydict \<Rightarrow> (execution_row \<times> bool) ctr" where
  "sync_transition e state version payload =
     (if is_active e \<and> state \<in> set EXECUTION_STATES \<and> state \<noteq> ex_state e \<and> ex_version e < version then
        bindC (exceptC (bindC (transition (ex_id e) (PStr state)
              ((request (if is_final state then ''task.sync_terminal_reconciled'' else ''task.sync_state_reconciled''))
                \<lparr>rq_version := Some version, rq_code := fst (sync_reason state payload), rq_message := snd (sync_reason state payload),
                 rq_payload := dput (sync_data e state version payload) ''previous_cloud_state'' (PStr (ex_state e))\<rparr>))
              (\<lambda>e'. returnC (Some e')))
            (\<lambda>x. case x of TaskStateError _ \<Rightarrow> returnC None | _ \<Rightarrow> raiseC x))
          (\<lambda>r. case r of None \<Rightarrow> returnC (e, False) | Some e' \<Rightarrow> thenC (notify_execution e') (returnC (e', True)))
      else returnC (e, False))"

definition last_point_seq :: "string \<Rightarrow> center_db \<Rightarrow> int" where
  "last_point_seq pk db =
     (case rev (sort_key tp_seq (filter (\<lambda>p. tp_execution p = pk) (db_points db))) of [] \<Rightarrow> - 1 | p # _ \<Rightarrow> tp_seq p)"

definition sync_action :: "execution_row \<Rightarrow> string \<Rightarrow> bool \<Rightarrow> string" where
  "sync_action e state reconciled =
     (if reconciled then ''report_only''
      else if ex_state e = state then ''continue''
      else if ex_state e \<in> {''cancelling'', ''cancelled''} then ''cancel'' else ''hold'')"

definition sync_execution :: "execution_row \<Rightarrow> pydict \<Rightarrow> pydict ctr" where
  "sync_execution e0 payload =
     (let state = str_or (dget payload ''local_task_state'') [] in
      bindC (liftC (int_or (py_or (dget payload ''local_task_state_version'') (PInt 0)) 0)) (\<lambda>version.
      bindC (sync_recover e0 state version payload) (\<lambda>(e1, recovered).
      bindC (if recovered then returnC (e1, False) else sync_transition e1 state version payload) (\<lambda>(e, moved).
      bindC (dbC (last_point_seq (ex_id e))) (\<lambda>last_seq. returnC
        [(''task_execution_id'', PStr (ex_id e)), (''expected_task_state'', PStr (ex_state e)),
         (''expected_state_version'', PInt (ex_version e)), (''action'', PStr (sync_action e state (recovered \<or> moved))),
         (''last_accepted_trajectory_seq'', PInt last_seq), (''state_reconciled'', PBool (recovered \<or> moved)),
         (''terminal_reconciled'', PBool (moved \<and> is_final state)), (''center_timeout_recovered'', PBool recovered)])))))"

definition no_execution_answer :: pydict where
  "no_execution_answer = [(''task_execution_id'', PNone), (''expected_task_state'', PNone), (''expected_state_version'', PInt 0),
     (''action'', PStr ''report_only''), (''last_accepted_trajectory_seq'', PInt (- 1))]"

definition reported_execution :: "pydict \<Rightarrow> robot_row \<Rightarrow> execution_row option ctr" where
  "reported_execution payload robot =
     (if truthy (dget payload ''current_task_execution_id'') then
        bindC (liftC (uuid_column (dget payload ''current_task_execution_id''))) (\<lambda>pk.
          dbC (\<lambda>db. case Option.bind pk (\<lambda>k. find_execution k db) of
            Some e \<Rightarrow> if ex_robot e = rb_id robot then Some e else None | None \<Rightarrow> None))
      else returnC None)"

definition handle_sync :: "bool \<Rightarrow> center_envelope \<Rightarrow> robot_row \<Rightarrow> pydict ctr" where
  "handle_sync online env robot =
     bindC (reported_execution (cv_payload env) robot) (\<lambda>execution.
     bindC (case execution of None \<Rightarrow> returnC no_execution_answer | Some e \<Rightarrow> sync_execution e (cv_payload env)) (\<lambda>answer.
       thenC (respond online ''sync.response'' robot env answer) (returnC answer)))"

end
