(* ===== verification/CenterInbound.thy ===== *)
theory CenterInbound
  imports CenterEvents
begin

text \<open>
  A message at the center: presence, the audit row of every message, the dispatch to the handlers, the transaction around
  them with the failure row, the retry after a collision of SQLite writers (\<open>message_handlers.py\<close>, \<open>sqlite_retry.py\<close>), and
  the answer to a trajectory batch that can never succeed (\<open>mqtt_client.py\<close>). The services that store an
  alert and a batch of logs are an argument of the dispatch.
\<close>

section \<open>Presence\<close>

definition find_session :: "string \<Rightarrow> center_db \<Rightarrow> session_row option" where
  "find_session sid db = row_of sn_session_id sid (db_sessions db)"

text \<open>\<open>update_or_create(session_id=...)\<close>.\<close>

definition put_session :: "session_row \<Rightarrow> center_db \<Rightarrow> center_db" where
  "put_session r db =
     db\<lparr>db_sessions := (if find_session (sn_session_id r) db = None then db_sessions db @ [r]
        else edit_rows sn_session_id (sn_session_id r) (\<lambda>_. r) (db_sessions db))\<rparr>"

definition edit_sessions :: "string \<Rightarrow> int \<Rightarrow> (session_row \<Rightarrow> session_row) \<Rightarrow> center_db \<Rightarrow> center_db" where
  "edit_sessions sid robot f db =
     db\<lparr>db_sessions := map (\<lambda>r. if sn_session_id r = sid \<and> sn_robot r = robot then f r else r) (db_sessions db)\<rparr>"

definition presence_online :: "center_envelope \<Rightarrow> robot_row \<Rightarrow> int \<Rightarrow> robot_row ctr" where
  "presence_online env robot now =
     (let payload = cv_payload env; capabilities = py_or (dget payload ''capabilities'') (PList []) in
      bindC (liftC (text_column (dget_def_val payload ''agent_version'' (PStr [])))) (\<lambda>agent.
      bindC (liftC (text_column (dget_def_val payload ''boot_id'' (PStr [])))) (\<lambda>boot.
      thenC (writeC (\<lambda>db. Inr (put_session \<lparr>sn_session_id = cv_session_id env, sn_robot = rb_id robot,
          sn_connected_at = dt_instant (cv_sent_at env), sn_heartbeat = now, sn_disconnected = None, sn_reason = [],
          sn_agent_version = agent, sn_boot_id = boot, sn_capabilities = capabilities, sn_metadata = payload\<rparr> db)))
      (bindC (liftC (as_dict (dget payload ''current_map''))) (\<lambda>current_map.
       bindC (liftC (text_column (dget_def_val current_map ''map_id'' (PStr [])))) (\<lambda>m.
       bindC (liftC (text_column (dget_def_val current_map ''map_version'' (PStr [])))) (\<lambda>version.
         returnC (robot\<lparr>rb_connection := ''online'', rb_status := ''online'', rb_agent_version := agent,
           rb_capabilities := capabilities, rb_map_id := m, rb_map_version := version\<rparr>))))))))"

definition presence_heartbeat :: "center_envelope \<Rightarrow> robot_row \<Rightarrow> int \<Rightarrow> robot_row ctr" where
  "presence_heartbeat env robot now =
     thenC (writeC (\<lambda>db. Inr (edit_sessions (cv_session_id env) (rb_id robot) (\<lambda>r. r\<lparr>sn_heartbeat := now\<rparr>) db)))
       (returnC (robot\<lparr>rb_connection := ''online'', rb_status := ''online''\<rparr>))"

definition presence_offline :: "center_envelope \<Rightarrow> robot_row \<Rightarrow> int \<Rightarrow> robot_row ctr" where
  "presence_offline env robot now =
     (let reason = dget_def_val (cv_payload env) ''reason'' (PStr ''unexpected_disconnect'') in
      thenC (writeC (\<lambda>db. if reason = PNone \<and> (\<exists>r \<in> set (db_sessions db). sn_session_id r = cv_session_id env \<and> sn_robot r = rb_id robot)
            then Inl (IntegrityError ''NOT NULL'')
          else Inr (edit_sessions (cv_session_id env) (rb_id robot) (\<lambda>r. r\<lparr>sn_disconnected := Some now, sn_reason := py_str reason\<rparr>) db)))
        (returnC (robot\<lparr>rb_connection := ''offline'', rb_status := ''offline''\<rparr>)))"

definition handle_presence :: "center_envelope \<Rightarrow> robot_row \<Rightarrow> pydict ctr" where
  "handle_presence env robot =
     bindC nowC (\<lambda>now.
     bindC (if cv_message_type env = ''presence.online'' then presence_online env robot now
        else if cv_message_type env = ''presence.heartbeat'' then presence_heartbeat env robot now
        else presence_offline env robot now) (\<lambda>r.
     (let r' = r\<lparr>rb_heartbeat := now, rb_last_seen := Some now\<rparr> in seq_valueC
       [writeC (update_robot (rb_id r') (\<lambda>_. r')),
        notifyC ''publish_robot_status'' [PInt (rb_id r'), PDict [(''connection_status'', PStr (rb_connection r'))]]]
       [(''connection_status'', PStr (rb_connection r'))])))"

definition telemetry_pose :: "center_envelope \<Rightarrow> robot_row \<Rightarrow> pydict ctr" where
  "telemetry_pose env robot =
     bindC nowC (\<lambda>now. seq_valueC
       [writeC (update_robot (rb_id robot) (\<lambda>r. r\<lparr>rb_last_seen := Some now\<rparr>)),
        notifyC ''publish_robot_status'' [PInt (rb_id robot), PDict (cv_payload env)]] [(''accepted'', PBool True)])"

section \<open>Dispatch\<close>

text \<open>The messages whose services are not modelled.\<close>

definition SERVICE_TYPES :: "string list" where
  "SERVICE_TYPES = [''alert.event'', ''system.log.batch'']"

text \<open>They answer with a dictionary; that of an alert says whether the event is new (\<open>created\<close>) and its number if it was
  registered (\<open>event_id\<close>).\<close>

type_synonym services = "center_envelope \<Rightarrow> robot_row \<Rightarrow> pydict ctr"

definition dispatch :: "services \<Rightarrow> bool \<Rightarrow> center_envelope \<Rightarrow> robot_row \<Rightarrow> pydict ctr" where
  "dispatch services online env robot =
     (let t = cv_message_type env in
      if take 9 t = ''presence.'' then handle_presence env robot
      else if t = ''telemetry.pose'' then telemetry_pose env robot
      else if t = ''command.ack'' then handle_command_ack env robot
      else if t = ''command.progress'' then handle_command_progress env robot
      else if t = ''command.result'' then handle_command_result env robot
      else if take 5 t = ''task.'' \<or> t = ''navigation.obstacle_recovery'' then handle_task_event env robot
      else if t = ''trajectory.batch'' then handle_trajectory online env robot
      else if t = ''telemetry.status'' then telemetry_status ''worker'' robot (cv_payload env)
      else if t = ''alert.event'' then bindC (services env robot) (\<lambda>d.
        handle_alert robot (cv_payload env) (truthy (dget d ''created''), (case dget d ''event_id'' of PStr i \<Rightarrow> Some i | _ \<Rightarrow> None)))
      else if t \<in> set SERVICE_TYPES then services env robot
      else if t = ''sync.request'' then handle_sync online env robot
      else returnC [(''ignored'', PBool True)])"

section \<open>The audit row\<close>

definition selected_fields :: "pyval \<Rightarrow> string list \<Rightarrow> pydict" where
  "selected_fields v keys = (let d = dict_or_empty v in map (\<lambda>k. (k, dget d k)) (filter (has_key d) keys))"

definition TELEMETRY_AUDIT_FIELDS :: "string list" where
  "TELEMETRY_AUDIT_FIELDS = [''sampled_at'', ''state_version'', ''pose'', ''power'', ''network'', ''audio'', ''storage'',
     ''runtime'', ''current_map'', ''map_set'']"

definition LOCALIZATION_AUDIT_FIELDS :: "string list" where
  "LOCALIZATION_AUDIT_FIELDS = [''sampled_at'', ''fresh'', ''sample_age_seconds'', ''status'', ''source_status'',
     ''coord_type'', ''quality'', ''decision'', ''recovery'', ''imu_cross_check'', ''time_diagnostics'']"

definition MAPPING_AUDIT_FIELDS :: "string list" where
  "MAPPING_AUDIT_FIELDS = [''state'', ''process_alive'', ''save_progress'', ''rtk_alignment'', ''readiness'',
     ''ready_for_motion'', ''ready_for_save'', ''optimization'', ''origin'', ''global_enu'', ''origin_status'', ''mapping_type'',
     ''slam_process_alive'', ''slam_warmup'', ''mapping_capture_enabled'', ''imu_initialized'', ''slam_pose_ready'',
     ''ready_for_mapping'', ''odometry'']"

definition POWER_MODE_AUDIT_FIELDS :: "string list" where
  "POWER_MODE_AUDIT_FIELDS = [''mode'', ''transition_state'', ''auto_charge_enabled'', ''last_error'', ''updated_at'',
     ''last_warning'', ''reboot_required'', ''leg_power_state'', ''charge_stage'', ''charge_stage_detail'']"

definition archive_note :: "string \<Rightarrow> int \<Rightarrow> pyval" where
  "archive_note mode sample_every = PDict [(''payload_mode'', PStr mode), (''sample_every'', PInt sample_every)]"

definition compact_payload :: "pydict \<Rightarrow> pydict pyres" where
  "compact_payload payload =
     bindE (new_dict (dget payload ''navigation'')) (\<lambda>navigation.
     bindE (new_dict (dget payload ''sensors'')) (\<lambda>sensors.
       Inr (dput (dput (dput (dput (dput (selected_fields (PDict payload) TELEMETRY_AUDIT_FIELDS)
         ''localization'' (PDict (selected_fields (dget payload ''localization'') LOCALIZATION_AUDIT_FIELDS)))
         ''mapping'' (PDict (selected_fields (dget payload ''mapping'') MAPPING_AUDIT_FIELDS)))
         ''navigation'' (PDict (AList.delete ''global_plan'' navigation)))
         ''sensors'' (PDict sensors))
         ''power_mode'' (PDict (selected_fields (dget payload ''power_mode'') POWER_MODE_AUDIT_FIELDS)))))"

definition telemetry_audit_payload :: "center_envelope \<Rightarrow> bool \<Rightarrow> int \<Rightarrow> pydict pyres" where
  "telemetry_audit_payload env preserve_full sample_every =
     (if cv_message_type env \<noteq> ''telemetry.status'' \<or> preserve_full then Inr (cv_raw env)
      else if 0 < sample_every \<and> (case uuid_of_text (cv_message_id env) of None \<Rightarrow> False | Some n \<Rightarrow> n mod sample_every = 0)
        then Inr (dput (cv_raw env) ''_archive'' (archive_note ''full_sample'' sample_every))
      else bindE (compact_payload (cv_payload env)) (\<lambda>p.
        Inr (dput (dput (cv_raw env) ''payload'' (PDict p)) ''_archive'' (archive_note ''compact'' sample_every))))"

definition inbound_defaults :: "string \<Rightarrow> center_envelope \<Rightarrow> robot_row \<Rightarrow> bool \<Rightarrow> inbound_row ctr" where
  "inbound_defaults topic env robot preserve_full =
     bindC (settingC ''INBOUND_TELEMETRY_FULL_PAYLOAD_SAMPLE_EVERY'' 150) (\<lambda>sample_every.
     bindC (liftC (telemetry_audit_payload env preserve_full sample_every)) (\<lambda>raw. returnC
       \<lparr>ib_message_id = cv_message_id env, ib_robot = rb_id robot, ib_session = cv_session_id env, ib_type = cv_message_type env,
        ib_sequence = cv_sequence env, ib_topic = topic, ib_processed = None, ib_status = ''pending'', ib_error = [], ib_raw = raw\<rparr>))"

definition record_inbound :: "string \<Rightarrow> center_envelope \<Rightarrow> robot_row \<Rightarrow> (inbound_row \<times> bool) ctr" where
  "record_inbound topic env robot =
     exceptC
       (bindC (inbound_defaults topic env robot False) (\<lambda>fresh.
        bindC (dbC (find_inbound (cv_message_id env))) (\<lambda>known.
          case known of
            Some r \<Rightarrow> returnC (r, False)
          | None \<Rightarrow> thenC (writeC (insert_inbound fresh)) (returnC (fresh, True)))))
       (\<lambda>x. case x of
          IntegrityError _ \<Rightarrow> bindC (getC (find_inbound (cv_message_id env))) (\<lambda>r. returnC (r, False))
        | _ \<Rightarrow> raiseC x)"

text \<open>\<open>update_or_create\<close> of the failed row, in a transaction of its own; its failure is only logged.\<close>

definition put_inbound :: "inbound_row \<Rightarrow> center_db \<Rightarrow> center_db" where
  "put_inbound r db =
     db\<lparr>db_inbound := (if find_inbound (ib_message_id r) db = None then db_inbound db @ [r]
        else edit_rows ib_message_id (ib_message_id r) (\<lambda>_. r) (db_inbound db))\<rparr>"

definition persist_inbound_failure :: "string \<Rightarrow> center_envelope \<Rightarrow> robot_row \<Rightarrow> pyexc \<Rightarrow> unit ctr" where
  "persist_inbound_failure topic env robot x =
     exceptC
       (atomicC (bindC (inbound_defaults topic env robot True) (\<lambda>row. bindC nowC (\<lambda>now.
         writeC (\<lambda>db. Inr (put_inbound (row\<lparr>ib_status := ''failed'', ib_error := exc_text x, ib_processed := Some now\<rparr>) db))))))
       (\<lambda>_. returnC ())"

section \<open>Handling a message\<close>

definition is_lock_error :: "pyexc \<Rightarrow> bool" where
  "is_lock_error x = contains_text ''database is locked'' (lower (exc_text x))"

definition processed_columns :: "int \<Rightarrow> inbound_row \<Rightarrow> inbound_row" where
  "processed_columns now r = r\<lparr>ib_status := ''processed'', ib_processed := Some now, ib_error := []\<rparr>"

definition process_inbound :: "services \<Rightarrow> bool \<Rightarrow> string \<Rightarrow> center_envelope \<Rightarrow> robot_row \<Rightarrow> pydict ctr" where
  "process_inbound services online topic env robot = atomicC
     (bindC (record_inbound topic env robot) (\<lambda>(inbound, created).
      if \<not> created \<and> ib_status inbound = ''processed''
        then returnC [(''duplicate'', PBool True), (''message_id'', PStr (cv_message_id env))]
      else bindC (dispatch services online env robot) (\<lambda>result.
        bindC nowC (\<lambda>now. thenC (writeC (update_inbound (cv_message_id env) (processed_columns now))) (returnC result)))))"

definition handle_envelope_once :: "services \<Rightarrow> bool \<Rightarrow> string \<Rightarrow> center_envelope \<Rightarrow> robot_row \<Rightarrow> pydict ctr" where
  "handle_envelope_once services online topic env robot =
     (if cv_message_type env = ''trajectory.batch'' then handle_trajectory online env robot
      else exceptC (process_inbound services online topic env robot)
        (\<lambda>x. thenC (whenC (\<not> is_lock_error x) (persist_inbound_failure topic env robot x)) (raiseC x)))"

definition handle_mqtt_message_once :: "services \<Rightarrow> bool \<Rightarrow> string \<Rightarrow> raw_message \<Rightarrow> pydict ctr" where
  "handle_mqtt_message_once services online topic raw =
     bindC (worldC cw_json_loads) (\<lambda>loads.
     bindC (worldC cw_parse_datetime) (\<lambda>parse.
     bindC (liftC (parse_message loads parse raw)) (\<lambda>env.
     bindC (dbC (robot_by_code (cv_robot_id env))) (\<lambda>robot.
       case robot of
         None \<Rightarrow> raiseC (protocol_error ''UNKNOWN_ROBOT'' (''unknown robot: '' @ cv_robot_id env))
       | Some r \<Rightarrow> handle_envelope_once services online topic env r))))"

text \<open>\<open>with_sqlite_lock_retry\<close>: \<open>n\<close> more attempts may follow this one.\<close>

definition retryable :: "pyexc \<Rightarrow> bool" where
  "retryable x = (case x of OperationalError _ \<Rightarrow> is_lock_error x | _ \<Rightarrow> False)"

fun with_lock_retry :: "nat \<Rightarrow> 'a ctr \<Rightarrow> 'a ctr" where
  "with_lock_retry 0 operation = operation"
| "with_lock_retry (Suc n) operation =
     exceptC operation (\<lambda>x. if retryable x then with_lock_retry n operation else raiseC x)"

definition handle_mqtt_message :: "services \<Rightarrow> bool \<Rightarrow> string \<Rightarrow> raw_message \<Rightarrow> pydict ctr" where
  "handle_mqtt_message services online topic raw =
     bindC (settingC ''SQLITE_LOCK_RETRY_ATTEMPTS'' 4) (\<lambda>attempts.
       with_lock_retry (nat (max 1 attempts) - 1) (handle_mqtt_message_once services online topic raw))"

section \<open>The MQTT callback\<close>

text \<open>The part of the topic between the first two slashes.\<close>

definition topic_robot :: "string \<Rightarrow> string" where
  "topic_robot topic = (case break_at (\<lambda>c. c = CHR ''/'') topic of
     (_, None) \<Rightarrow> [] | (_, Some rest) \<Rightarrow> fst (break_at (\<lambda>c. c = CHR ''/'') rest))"

definition ends_with :: "string \<Rightarrow> string \<Rightarrow> bool" where
  "ends_with suffix s = (length suffix \<le> length s \<and> drop (length s - length suffix) s = suffix)"

definition rejection_message :: "string \<Rightarrow> string \<Rightarrow> string \<Rightarrow> pydict \<Rightarrow> pydict \<Rightarrow> string \<Rightarrow> string \<Rightarrow> pydict" where
  "rejection_message mid sent robot envelope payload code message =
     [(''protocol_version'', PStr ''1.0''), (''message_id'', PStr mid), (''message_type'', PStr ''trajectory.ack''),
      (''robot_id'', PStr robot), (''session_id'', PStr ''center''), (''sent_at'', PStr sent),
      (''trace_id'', dget_def_val envelope ''trace_id'' (PStr [])),
      (''payload'', PDict [(''batch_id'', dget payload ''batch_id''), (''task_execution_id'', dget payload ''task_execution_id''),
         (''accepted'', PBool False), (''reason_code'', PStr code), (''reason_message'', PStr message)])]"

definition publish_trajectory_rejection :: "string \<Rightarrow> string \<Rightarrow> string \<Rightarrow> string \<Rightarrow> unit ctr" where
  "publish_trajectory_rejection topic raw code message =
     exceptC
       (bindC (worldC cw_json_loads) (\<lambda>loads.
        bindC (liftC (case loads raw of Some (PDict d) \<Rightarrow> Inr d | Some _ \<Rightarrow> Inl AttributeError | None \<Rightarrow> Inl ValueError)) (\<lambda>envelope.
        bindC (liftC (as_dict (dget envelope ''payload''))) (\<lambda>payload.
          whenC (truthy (dget payload ''batch_id''))
            (bindC uuidC (\<lambda>mid. bindC nowC (\<lambda>now. bindC (worldC cw_isoformat) (\<lambda>fmt.
              publish_json (''robots/'' @ topic_robot topic @ ''/sync/state'')
                (rejection_message mid (fmt now) (topic_robot topic) envelope payload code message)))))))))
       (\<lambda>_. returnC ())"

definition CENTER_DOWNLINK_MESSAGE_TYPES :: "string list" where
  "CENTER_DOWNLINK_MESSAGE_TYPES = [''sync.response'', ''trajectory.ack'']"

definition is_center_sync_downlink :: "(string \<Rightarrow> pyval option) \<Rightarrow> string \<Rightarrow> string \<Rightarrow> bool pyres" where
  "is_center_sync_downlink loads topic raw =
     (if \<not> ends_with ''/sync/state'' topic then Inr False
      else (case loads raw of
        Some (PDict d) \<Rightarrow> in_strs (dget d ''message_type'') CENTER_DOWNLINK_MESSAGE_TYPES
      | _ \<Rightarrow> Inr False))"

text \<open>\<open>on_message\<close> for the topics of this center (those of the development agent have their own handlers). Its failures
  are logged; \<open>raw\<close> is the decoded text.\<close>

definition on_message :: "services \<Rightarrow> string \<Rightarrow> string \<Rightarrow> unit ctr" where
  "on_message services topic raw =
     bindC (worldC cw_json_loads) (\<lambda>loads.
     bindC (liftC (is_center_sync_downlink loads topic raw)) (\<lambda>own.
       if own then returnC ()
       else exceptC (thenC (handle_mqtt_message services True topic (RawText raw)) (returnC ()))
         (\<lambda>x. case x of
            ProtocolError code message _ \<Rightarrow>
              whenC (ends_with ''/telemetry/trajectory'' topic \<and> code \<in> {''INVALID_MESSAGE'', ''UNKNOWN_TASK_EXECUTION''})
                (publish_trajectory_rejection topic raw code message)
          | _ \<Rightarrow> returnC ())))"

section \<open>Robots without a heartbeat\<close>

definition stale_session :: "int \<Rightarrow> session_row \<Rightarrow> bool" where
  "stale_session cutoff r = (sn_disconnected r = None \<and> sn_heartbeat r < cutoff)"

definition mark_offline_robots :: "unit ctr" where
  "mark_offline_robots =
     bindC nowC (\<lambda>now.
     bindC (settingC ''DEVICE_OFFLINE_TIMEOUT_SECONDS'' 30) (\<lambda>patience.
     (let cutoff = now - patience * SECOND in
      bindC (dbC (\<lambda>db. map sn_robot (filter (stale_session cutoff) (db_sessions db)))) (\<lambda>robots.
      bindC nowC (\<lambda>gone. seqC
        [writeC (\<lambda>db. Inr (db\<lparr>db_sessions := map (\<lambda>r. if stale_session cutoff r
           then r\<lparr>sn_disconnected := Some gone, sn_reason := ''heartbeat_timeout''\<rparr> else r) (db_sessions db)\<rparr>)),
         writeC (\<lambda>db. Inr (db\<lparr>db_robots := map (\<lambda>r. if rb_id r \<in> set robots
           then r\<lparr>rb_connection := ''offline'', rb_status := ''offline''\<rparr> else r) (db_robots db)\<rparr>))])))))"

end
