(* ===== verification/CenterSupervisor.thy ===== *)
theory CenterSupervisor
  imports CenterLoop
begin

text \<open>
  The supervisor of patrol loops, second part of \<open>patrol_loop_service.py\<close>: the safety of an observation, the dispatch of a
  round, the recovery episodes, and \<open>process\<close>, the step the supervisor takes for every session that is due.
\<close>

section \<open>Observations\<close>

text \<open>\<open>_abs_finite\<close> and \<open>_nonnegative_finite\<close>: only a \<open>TypeError\<close> or \<open>ValueError\<close> of \<open>float\<close> is caught.\<close>

definition finite_float :: "pyval \<Rightarrow> real option pyres" where
  "finite_float v =
     (case py_float v of
        Inl x \<Rightarrow> if x \<in> {TypeError, ValueError} then Inr None else Inl x
      | Inr (Fin r) \<Rightarrow> Inr (Some r)
      | Inr _ \<Rightarrow> Inr None)"

definition abs_finite :: "pyval \<Rightarrow> real option pyres" where
  "abs_finite v = bindE (finite_float v) (\<lambda>r. Inr (map_option abs r))"

definition nonnegative_finite :: "pyval \<Rightarrow> real option pyres" where
  "nonnegative_finite v = bindE (finite_float v) (\<lambda>r. Inr (case r of None \<Rightarrow> None | Some x \<Rightarrow> if x < 0 then None else Some x))"

definition STOP_SPEED_MPS :: real where
  "STOP_SPEED_MPS = 3 / 100"

definition STOP_TURN_RPS :: real where
  "STOP_TURN_RPS = 5 / 100"

definition EDGE_ROS_STALE_SECONDS :: real where
  "EDGE_ROS_STALE_SECONDS = 15"

definition localization_current :: "pydict \<Rightarrow> bool pyres" where
  "localization_current localization =
     bindE (nonnegative_finite (dget localization ''sample_age_seconds'')) (\<lambda>age.
       Inr (case dget localization ''fresh'' of
          PBool False \<Rightarrow> False
        | PBool True \<Rightarrow> opt_all (\<lambda>a. a \<le> EDGE_ROS_STALE_SECONDS) age
        | _ \<Rightarrow> (case age of None \<Rightarrow> False | Some a \<Rightarrow> a \<le> EDGE_ROS_STALE_SECONDS)))"

definition commanding_motion :: "pydict \<Rightarrow> bool pyres" where
  "commanding_motion navigation =
     (if dget navigation ''requested_velocity_observed'' \<noteq> PBool True then Inr False
      else bindE (abs_finite (dget navigation ''requested_planar_speed_mps'')) (\<lambda>planar.
        bindE (abs_finite (dget navigation ''requested_turn_speed_rps'')) (\<lambda>turn.
          Inr (case (planar, turn) of
             (Some p, Some t) \<Rightarrow> STOP_SPEED_MPS < p \<or> STOP_TURN_RPS < t
           | _ \<Rightarrow> False))))"

text \<open>The outcome of a check: nothing, or the code and the message of what is in the way.\<close>

type_synonym blocker = "(string \<times> string) option"

definition NOT_STOPPED :: blocker where
  "NOT_STOPPED = Some (''ROBOT_NOT_STOPPED'', ''<the robot is not confirmed to have stopped>'')"

definition idle_uncommanded_stop :: "pydict \<Rightarrow> pydict \<Rightarrow> blocker pyres" where
  "idle_uncommanded_stop navigation localization =
     bindE (commanding_motion navigation) (\<lambda>commanding.
       if commanding then Inr NOT_STOPPED
       else bindE (localization_current localization) (\<lambda>current. Inr (if current then None
         else Some (''EDGE_ROS_DATA_UNAVAILABLE'', ''<the edge has no observation of the actual velocity>''))))"

definition moving_observation :: "pydict \<Rightarrow> pydict \<Rightarrow> real \<Rightarrow> real \<Rightarrow> blocker pyres" where
  "moving_observation navigation localization planar turn =
     bindE (nonnegative_finite (dget navigation ''actual_velocity_sample_age_seconds'')) (\<lambda>age.
     bindE (localization_current localization) (\<lambda>current.
       case age of
         None \<Rightarrow> idle_uncommanded_stop navigation localization
       | Some a \<Rightarrow> Inr
           (if EDGE_ROS_STALE_SECONDS < a \<and> \<not> current
              then Some (''EDGE_ROS_DATA_STALE'', ''<the motion and localization observations of the edge are stale>'')
            else if STOP_SPEED_MPS < planar \<or> STOP_TURN_RPS < turn then NOT_STOPPED
            else None)))"

definition modern_contract :: "pydict \<Rightarrow> bool" where
  "modern_contract navigation = (dget navigation ''observation_schema'' = PStr ''roamerx.navigation-observation.v1''
     \<or> has_key navigation ''actual_velocity_observed'')"

definition motion_blocker :: "status_row \<Rightarrow> blocker pyres" where
  "motion_blocker latest =
     (let navigation = dict_or_empty (dget (sl_raw latest) ''navigation'');
          localization = dict_or_empty (dget (sl_raw latest) ''localization'') in
      if dget navigation ''actual_velocity_observed'' = PBool False then idle_uncommanded_stop navigation localization
      else bindE (abs_finite (dget navigation ''actual_planar_speed_mps'')) (\<lambda>planar.
        bindE (abs_finite (dget navigation ''actual_turn_speed_rps'')) (\<lambda>turn.
          case (planar, turn) of
            (Some p, Some t) \<Rightarrow> moving_observation navigation localization p t
          | _ \<Rightarrow> if modern_contract navigation then idle_uncommanded_stop navigation localization
              else Inr (case sl_speed latest of
                 None \<Rightarrow> NOT_STOPPED
               | Some v \<Rightarrow> if STOP_SPEED_MPS < \<bar>v\<bar> then NOT_STOPPED else None))))"

definition status_blocker :: "int \<Rightarrow> int \<Rightarrow> status_row \<Rightarrow> blocker" where
  "status_blocker now threshold latest =
     (if sl_received latest < now - 15 * SECOND then Some (''TELEMETRY_STALE'', ''<the status of the device is out of date>'')
      else if sl_estop latest \<or> sl_mode latest = ''emergency_stop'' then Some (''EMERGENCY_STOP'', ''<the emergency stop is set>'')
      else if sl_mode latest = ''manual_takeover'' then Some (''MANUAL_TAKEOVER'', ''<the robot is under manual takeover>'')
      else if sl_power latest \<and> (case sl_percent latest of None \<Rightarrow> False | Some p \<Rightarrow> p < threshold)
        then Some (''LOW_BATTERY'', ''<the battery is below the patrol threshold>'')
      else None)"

definition EDGE_OFFLINE :: blocker where
  "EDGE_OFFLINE = Some (''EDGE_OFFLINE'', ''<the edge is offline or has no status>'')"

definition observation_safety :: "robot_row \<Rightarrow> blocker ctr" where
  "observation_safety robot =
     bindC (dbC (find_status (rb_id robot))) (\<lambda>latest.
     bindC (effective_connection_status robot) (\<lambda>status.
       case latest of
         None \<Rightarrow> returnC EDGE_OFFLINE
       | Some l \<Rightarrow>
           if status \<noteq> ''online'' then returnC EDGE_OFFLINE
           else bindC nowC (\<lambda>now. bindC LOW_BATTERY_PERCENT (\<lambda>threshold.
             case status_blocker now threshold l of
               Some b \<Rightarrow> returnC (Some b)
             | None \<Rightarrow> liftC (motion_blocker l)))))"

definition status_health :: "status_row \<Rightarrow> blocker" where
  "status_health latest =
     (if sl_localization latest \<noteq> ''normal'' then Some (''LOCALIZATION_NOT_READY'', ''<the localization has not recovered>'')
      else if \<not> sl_ros latest \<or> \<not> sl_nav latest then Some (''NAV_NOT_READY'', ''<ROS or Nav2 is not ready>'')
      else None)"

definition health :: "robot_row \<Rightarrow> blocker ctr" where
  "health robot =
     bindC (observation_safety robot) (\<lambda>b.
       case b of
         Some x \<Rightarrow> returnC (Some x)
       | None \<Rightarrow> bindC (dbC (find_status (rb_id robot))) (\<lambda>latest.
           case latest of None \<Rightarrow> raiseC AttributeError | Some l \<Rightarrow> returnC (status_health l)))"

section \<open>Continuing after an operator's request\<close>

definition refuse_continue :: "loop_row \<Rightarrow> unit pyres" where
  "refuse_continue l =
     (if lp_state l \<in> set LOOP_TERMINAL_STATES then Inl (PatrolLoopError ''<the loop is over and cannot be continued>'')
      else if lp_state l = ''recovering'' then Inl (PatrolLoopError ''<the loop is healing itself>'')
      else if lp_state l = ''stopping'' then Inl (PatrolLoopError ''<the stop of the robot is being confirmed>'')
      else if lp_state l \<notin> {''paused'', ''observing''} then Inl (PatrolLoopError ''<the loop needs no continuation>'')
      else Inr ())"

definition continued :: "string \<Rightarrow> loop_row \<Rightarrow> loop_row" where
  "continued episode l = l\<lparr>lp_paused := False, lp_observed := None, lp_episode := Some episode, lp_attempt := 0,
     lp_code := ''OPERATOR_CONTINUE'', lp_message := ''<the operator continues: observe again, then recover>'',
     lp_metadata := without_keys [''continuation_required'', ''recovery_in_progress_started_at''] (lp_metadata l)\<rparr>"

definition CONTINUABLE :: "string set" where
  "CONTINUABLE = {''paused'', ''interrupted'', ''accepted'', ''running'', ''resuming''}"

definition continue_recovery :: "string \<Rightarrow> loop_row ctr" where
  "continue_recovery pk = atomicC
     (bindC (lock_loop pk) (\<lambda>l.
      thenC (liftC (refuse_continue l))
      (bindC (getC (find_robot (lp_robot l))) (\<lambda>robot.
       bindC (observation_safety robot) (\<lambda>b.
         case b of
           Some (code, message) \<Rightarrow> raiseC (PatrolLoopError
             (if code = ''MANUAL_TAKEOVER'' then ''<leave the manual takeover first>'' else ''<unsafe:> '' @ message))
         | None \<Rightarrow> bindC (current_execution l) (\<lambda>e.
             if (case e of None \<Rightarrow> True | Some r \<Rightarrow> ex_state r \<notin> CONTINUABLE)
               then raiseC (PatrolLoopError ''<the task has no saved context to recover>'')
             else bindC uuidC (\<lambda>episode. bindC nowC (\<lambda>now.
               (let l' = continued episode l in set_state l'
                  ((change ''observing'' ''loop.continue_requested'')\<lparr>lc_code := lp_code l', lc_message := lp_message l',
                    lc_next := Some now\<rparr>))))))))))"

section \<open>Rounds\<close>

text \<open>The options of the start command of a round.\<close>

definition round_options :: "loop_row \<Rightarrow> int \<Rightarrow> pydict" where
  "round_options l n =
     [(''record_rosbag'', PBool (truthy (dget (lp_metadata l) ''record_rosbag''))), (''record_rosbag_frozen'', PBool True),
      (''continuous_rosbag'', PBool True), (''loop_execution'', PBool True), (''loop_total'', PInt 1),
      (''loop_direction'', PStr (if n mod 2 \<noteq> 0 then ''forward'' else ''reverse''))]"

definition round_creation :: "loop_row \<Rightarrow> int \<Rightarrow> creation" where
  "round_creation l n = \<lparr>cr_operator = lp_created_by l, cr_loop = Some (lp_id l), cr_round = n, cr_snapshot = Some (lp_snapshot l),
     cr_source = ''guard_duty'', cr_boundary = None, cr_map_set = None\<rparr>"

definition round_execution :: "loop_row \<Rightarrow> int \<Rightarrow> execution_row ctr" where
  "round_execution l n =
     bindC (dbC (find_loop_execution (Some (lp_id l)) n)) (\<lambda>existing.
       case existing of
         Some e \<Rightarrow> returnC e
       | None \<Rightarrow>
           bindC (getC (\<lambda>db. row_of pt_id (lp_task l) (db_tasks db))) (\<lambda>task.
           bindC (create_execution task (round_creation l n)) (\<lambda>e.
             thenC (create e ''task.start'' (lp_created_by l) (round_options l n) None) (returnC e))))"

definition round_begun :: "int \<Rightarrow> string \<Rightarrow> loop_row \<Rightarrow> loop_row" where
  "round_begun n pk l = l\<lparr>lp_round := n, lp_execution := Some pk, lp_attempt := 0, lp_episode := None, lp_code := [],
     lp_message := [], lp_observed := None\<rparr>"

definition dispatch_round :: "loop_row \<Rightarrow> loop_row ctr" where
  "dispatch_round l =
     (let n = lp_round l + 1 in
      bindC (round_execution l n) (\<lambda>e. bindC nowC (\<lambda>now.
        set_state (round_begun n (ex_id e) l) ((change ''running'' ''loop.round_dispatched'')\<lparr>lc_next := Some (look_again now),
          lc_payload := [(''round_number'', PInt n), (''execution_id'', PStr (ex_id e))]\<rparr>))))"

definition observing :: "string \<Rightarrow> string \<Rightarrow> string option \<Rightarrow> loop_row \<Rightarrow> loop_row" where
  "observing code message episode l =
     (let l' = l\<lparr>lp_observed := None, lp_code := (if code = [] then ''TASK_INTERRUPTED'' else code),
           lp_message := (if message = [] then ''<the task was interrupted; waiting for recovery>'' else message)\<rparr> in
      case episode of None \<Rightarrow> l' | Some _ \<Rightarrow> l'\<lparr>lp_episode := episode, lp_attempt := 0\<rparr>)"

definition begin_observation :: "loop_row \<Rightarrow> string \<Rightarrow> string \<Rightarrow> loop_row ctr" where
  "begin_observation l code message =
     bindC (if lp_episode l = None \<or> lp_code l \<noteq> code then bindC uuidC (\<lambda>u. returnC (Some u)) else returnC None) (\<lambda>episode.
     bindC nowC (\<lambda>now.
       (let l' = observing code message episode l in set_state l'
          ((change ''observing'' ''loop.recovery_observation_started'')\<lparr>lc_code := lp_code l', lc_message := lp_message l',
            lc_next := Some now\<rparr>))))"

section \<open>A session that stops, or whose time is over\<close>

definition last_force_exit :: "execution_row option \<Rightarrow> center_db \<Rightarrow> command_row option" where
  "last_force_exit e db =
     (case e of None \<Rightarrow> None
      | Some r \<Rightarrow> find (\<lambda>c. cm_execution c = Some (ex_id r) \<and> cm_type c = ''task.force_exit'') (sort_key (\<lambda>c. - cm_issued c) (db_commands db)))"

text \<open>The robot confirmed that it stands, or nobody had to stop it.\<close>

definition stop_confirmed :: "command_row option \<Rightarrow> bool" where
  "stop_confirmed force =
     (case force of None \<Rightarrow> True | Some c \<Rightarrow> cm_status c = ''succeeded'' \<and> truthy (dget (cm_result c) ''robot_stopped''))"

definition round_stopped :: "loop_row \<Rightarrow> int \<Rightarrow> bool \<Rightarrow> loop_row ctr" where
  "round_stopped l now stopped =
     (if \<not> stopped then set_state l ((change ''failed'' ''loop.recovery_stop_unconfirmed'')\<lparr>lc_code := ''ROBOT_STOP_UNCONFIRMED'',
        lc_message := ''<no confirmation that the robot stopped after the recovery was exhausted>'', lc_terminal := True\<rparr>)
      else set_state (clear_recovery_episode l) ((change ''resting'' ''loop.recovery_stop_confirmed'')\<lparr>
        lc_code := ''RECOVERY_ATTEMPTS_EXHAUSTED'', lc_message := ''<the recovery of this round is exhausted; the next round follows>'',
        lc_next := Some (now + lp_rest l * SECOND)\<rparr>))"

definition loop_stopped :: "loop_row \<Rightarrow> bool \<Rightarrow> loop_row ctr" where
  "loop_stopped l stopped =
     set_state l ((change (if stopped then ''completed'' else ''failed'') (if stopped then ''loop.stop_confirmed'' else ''loop.stop_unconfirmed''))\<lparr>
       lc_code := (if stopped then ''LOOP_DEADLINE'' else ''ROBOT_STOP_UNCONFIRMED''),
       lc_message := (if stopped then ''<the time of the loop is over and the robot stopped>'' else ''<no confirmation that the robot stopped>''),
       lc_terminal := True\<rparr>)"

definition process_stopping :: "loop_row \<Rightarrow> int \<Rightarrow> loop_row ctr" where
  "process_stopping l now =
     bindC (current_execution l) (\<lambda>e.
     bindC (dbC (last_force_exit e)) (\<lambda>force.
       if (case force of None \<Rightarrow> False | Some c \<Rightarrow> cm_status c \<in> set PENDING_STATUSES) then wait_second l now
       else if opt_all (\<lambda>r. \<not> is_active r) e then
         (if dget (lp_metadata l) ''stop_scope'' = PStr ''round'' then round_stopped l now (stop_confirmed force)
          else loop_stopped l (stop_confirmed force))
       else wait_second l now))"

definition process_deadline :: "loop_row \<Rightarrow> int \<Rightarrow> loop_row ctr" where
  "process_deadline l now =
     bindC (current_execution l) (\<lambda>e.
     thenC (force_exit_execution e ''loop_deadline'')
       (if (case e of None \<Rightarrow> False | Some r \<Rightarrow> is_active r) then
          set_state l ((change ''stopping'' ''loop.deadline_stopping'')\<lparr>lc_code := ''LOOP_DEADLINE'',
            lc_message := ''<the time of the loop is over; confirming the stop>'', lc_next := Some (look_again now)\<rparr>)
        else set_state l ((change ''completed'' ''loop.deadline_reached'')\<lparr>lc_code := ''LOOP_DEADLINE'',
            lc_message := ''<the time of the loop is over>'', lc_terminal := True\<rparr>)))"

section \<open>Waiting for a round, running a round\<close>

definition process_waiting :: "loop_row \<Rightarrow> int \<Rightarrow> loop_row ctr" where
  "process_waiting l now =
     (if now < lp_next l then returnC l
      else bindC (getC (find_robot (lp_robot l))) (\<lambda>robot.
        bindC (health robot) (\<lambda>b.
          case b of Some (code, message) \<Rightarrow> begin_observation l code message | None \<Rightarrow> dispatch_round l)))"

definition text_or :: "string \<Rightarrow> string \<Rightarrow> string" where
  "text_or t dflt = (if t = [] then dflt else t)"

definition process_running :: "loop_row \<Rightarrow> execution_row option \<Rightarrow> int \<Rightarrow> loop_row ctr" where
  "process_running l execution now =
     (case execution of
        None \<Rightarrow> begin_observation l ''EXECUTION_MISSING'' ''<the current execution of the loop is missing>''
      | Some e \<Rightarrow>
          if ex_state e = ''completed'' then
            set_state (l\<lparr>lp_attempt := 0\<rparr>) ((change ''resting'' ''loop.round_completed'')\<lparr>lc_next := Some (now + lp_rest l * SECOND),
              lc_payload := [(''round_number'', PInt (lp_round l))]\<rparr>)
          else if ex_state e \<in> {''paused'', ''interrupted''} then
            begin_observation l (text_or (ex_failure_code e) ''TASK_INTERRUPTED'') (text_or (ex_failure_message e) ''<the task is paused>'')
          else if ex_state e \<in> {''failed'', ''cancelled'', ''timed_out'', ''rejected''} then
            (if ex_failure_code e = ''LOW_BATTERY'' then
               bindC (getC (find_robot (lp_robot l))) (\<lambda>robot.
               thenC (terminate_low_battery (lp_robot l) (''execution-'' @ ex_id e) (rb_battery robot) ''task_terminal'')
                 (lock_loop (lp_id l)))
             else begin_observation l (text_or (ex_failure_code e) ''ROUND_FAILED'') (text_or (ex_failure_message e) ''<the round failed>''))
          else wait_second l now)"

section \<open>Observing\<close>

definition OBSERVATION_SECONDS :: int where
  "OBSERVATION_SECONDS = 5"

definition reset_key :: "loop_row \<Rightarrow> status_row option \<Rightarrow> int \<Rightarrow> string \<Rightarrow> string" where
  "reset_key l latest now code = ''v'' @ show_int (lp_version l) @ '':reset:''
     @ show_int (case latest of None \<Rightarrow> now | Some s \<Rightarrow> sl_version s) @ '':'' @ code"

definition observation_blocked :: "loop_row \<Rightarrow> status_row option \<Rightarrow> int \<Rightarrow> string \<Rightarrow> string \<Rightarrow> loop_row ctr" where
  "observation_blocked l latest now code message =
     bindC (liftC (as_dict (dget (lp_metadata l) ''observation_blocker''))) (\<lambda>blocker.
       if lp_observed l \<noteq> None \<or> dget blocker ''code'' \<noteq> PStr code then
         (let l' = l\<lparr>lp_observed := None, lp_metadata := dput (lp_metadata l) ''observation_blocker''
                (PDict [(''code'', PStr code), (''message'', PStr message)])\<rparr> in
          thenC (seqC [save_session l', loop_event l' ''loop.observation_reset'' (reset_key l' latest now code) code message []])
            (wait_second l' now))
       else wait_second l now)"

definition await_reconciliation :: "loop_row \<Rightarrow> int \<Rightarrow> loop_row ctr" where
  "await_reconciliation l now =
     (let l' = l\<lparr>lp_observed := None\<rparr> in
      thenC (whenC (lp_observed l \<noteq> None) (save_columns l (\<lambda>r. r\<lparr>lp_observed := None\<rparr>)))
      (bindC (wait_second l' now) (\<lambda>l''. seq_valueC
        [loop_event l'' ''loop.waiting_edge_reconciliation'' (''v'' @ show_int (lp_version l'') @ '':wait_start_ack'')
          (lp_code l'') (lp_message l'') []] l'')))"

definition observation_begun :: "loop_row \<Rightarrow> int \<Rightarrow> loop_row ctr" where
  "observation_begun l now =
     (let l' = l\<lparr>lp_observed := Some now, lp_next := look_again now\<rparr> in seq_valueC
       [save_columns l (\<lambda>r. r\<lparr>lp_observed := Some now, lp_next := look_again now\<rparr>),
        loop_event l' ''loop.observation_healthy'' (''v'' @ show_int (lp_version l') @ '':healthy'') [] []
          [(''observation_seconds'', PInt OBSERVATION_SECONDS)]] l')"

definition dispatch_recovery :: "loop_row \<Rightarrow> execution_row \<Rightarrow> int \<Rightarrow> loop_row ctr" where
  "dispatch_recovery l e now =
     bindC (case lp_episode l of Some u \<Rightarrow> returnC u | None \<Rightarrow> uuidC) (\<lambda>episode.
     (let l' = l\<lparr>lp_attempt := lp_attempt l + 1\<rparr> in
      bindC (create_task_recovery e episode (lp_attempt l') (lp_code l') (lp_message l')) (\<lambda>c.
        set_state l' ((change ''recovering'' ''loop.recovery_dispatched'')\<lparr>lc_next := Some (look_again now),
          lc_payload := [(''command_id'', PStr (cm_id c)), (''attempt'', PInt (lp_attempt l'))]\<rparr>))))"

definition replace_round :: "loop_row \<Rightarrow> int \<Rightarrow> loop_row ctr" where
  "replace_round l now =
     set_state l ((change ''resting'' ''loop.round_recovery_replaced'')\<lparr>
       lc_next := Some (now + (if lp_code l = ''OPERATOR_CONTINUE'' then 0 else lp_rest l) * SECOND)\<rparr>)"

text \<open>After five seconds in which nothing was in the way.\<close>

definition observation_done :: "loop_row \<Rightarrow> execution_row option \<Rightarrow> int \<Rightarrow> loop_row ctr" where
  "observation_done l execution now =
     (case execution of
        Some e \<Rightarrow>
          if ex_state e \<in> set TERMINAL_STATES then replace_round l now
          else if lp_max_attempts l \<le> lp_attempt l then
            begin_recovery_stop l execution ''RECOVERY_ATTEMPTS_EXHAUSTED'' ''<the recovery of this fault was tried 10 times>''
          else dispatch_recovery l e now
      | None \<Rightarrow> replace_round l now)"

definition watch_window :: "loop_row \<Rightarrow> execution_row option \<Rightarrow> int \<Rightarrow> loop_row ctr" where
  "watch_window l execution now =
     (case lp_observed l of
        None \<Rightarrow> observation_begun l now
      | Some start \<Rightarrow> if now < start + OBSERVATION_SECONDS * SECOND then wait_second l now else observation_done l execution now)"

definition process_observing :: "loop_row \<Rightarrow> execution_row option \<Rightarrow> status_row option \<Rightarrow> int \<Rightarrow> loop_row ctr" where
  "process_observing l execution latest now =
     (if (case execution of None \<Rightarrow> False | Some e \<Rightarrow> ex_state e \<in> {''accepted'', ''running'', ''resuming''}) then
        set_state (clear_recovery_episode l) ((change ''running'' ''loop.edge_state_reconciled'')\<lparr>lc_next := Some (look_again now),
          lc_payload := [(''execution_state'', PStr (ex_state (the execution)))]\<rparr>)
      else bindC (getC (find_robot (lp_robot l))) (\<lambda>robot.
        bindC (observation_safety robot) (\<lambda>b.
          case b of
            Some (code, message) \<Rightarrow> observation_blocked l latest now code message
          | None \<Rightarrow>
              if lp_code l = ''COMMAND_TIMED_OUT'' \<and> opt_all (\<lambda>e. ex_state e = ''interrupted'') execution
                then await_reconciliation l now
              else watch_window l execution now)))"

section \<open>Recovering\<close>

definition recovery_command :: "loop_row \<Rightarrow> execution_row option \<Rightarrow> center_db \<Rightarrow> command_row option" where
  "recovery_command l execution db =
     find (\<lambda>c. cm_execution c = map_option ex_id execution \<and> cm_type c = ''task.recover.v1''
            \<and> dget (cm_payload c) ''recovery_episode_id'' = PStr (py_str (opt_text (lp_episode l)))
            \<and> py_eq_int (dget (cm_payload c) ''attempt'') (lp_attempt l))
       (sort_key (\<lambda>c. - cm_issued c) (db_commands db))"

definition recovery_failed :: "loop_row \<Rightarrow> command_row option \<Rightarrow> int \<Rightarrow> loop_row ctr" where
  "recovery_failed l command now =
     set_state (l\<lparr>lp_observed := None\<rparr>) ((change ''observing'' ''loop.recovery_failed'')\<lparr>
       lc_code := (case command of None \<Rightarrow> ''RECOVERY_COMMAND_MISSING'' | Some c \<Rightarrow> cm_error_code c),
       lc_message := (case command of None \<Rightarrow> ''<the recovery command is missing>'' | Some c \<Rightarrow> cm_error_message c),
       lc_next := Some now\<rparr>)"

definition in_progress_note :: "loop_row \<Rightarrow> pydict \<Rightarrow> string \<Rightarrow> string \<Rightarrow> pydict" where
  "in_progress_note l result action started =
     dput (dput (dput (dput (lp_metadata l) ''recovery_in_progress_started_at'' (PStr started))
       ''recovery_in_progress_action'' (PStr action))
       ''recovery_in_progress_timeout_seconds'' (PInt (recovery_in_progress_timeout action)))
       ''recovery_in_progress_reason_message'' (PStr (str_or (dget result ''reason_message'') (lp_message l)))"

definition in_progress_begun :: "loop_row \<Rightarrow> pydict \<Rightarrow> string \<Rightarrow> int \<Rightarrow> loop_row ctr" where
  "in_progress_begun l result action now =
     bindC (worldC cw_isoformat) (\<lambda>fmt.
     (let m = in_progress_note l result action (fmt now);
          l' = l\<lparr>lp_metadata := m, lp_next := look_again now\<rparr> in seq_valueC
       [save_columns l (\<lambda>r. r\<lparr>lp_metadata := m, lp_next := look_again now\<rparr>),
        loop_event l' ''loop.recovery_in_progress'' (''v'' @ show_int (lp_version l') @ '':in_progress:'' @ show_int (lp_attempt l'))
          (str_or (dget result ''reason_code'') (lp_code l')) (str_or (dget result ''reason_message'') ''<the edge recovers asynchronously>'')
          [(''recovery_action'', PStr action), (''timeout_seconds'', PInt (recovery_in_progress_timeout action))]] l'))"

text \<open>The microseconds since the recorded start; a text that is no aware timestamp counts as expired.\<close>

definition recovery_elapsed :: "int \<Rightarrow> pyval \<Rightarrow> int option" where
  "recovery_elapsed now started =
     (case started of
        PStr t \<Rightarrow> (case fromisoformat t of None \<Rightarrow> None | Some d \<Rightarrow> if dt_offset d = None then None else Some (now - dt_instant d))
      | _ \<Rightarrow> None)"

definition IN_PROGRESS_KEYS :: "string list" where
  "IN_PROGRESS_KEYS = [''recovery_in_progress_started_at'', ''recovery_in_progress_action'',
     ''recovery_in_progress_timeout_seconds'', ''recovery_in_progress_reason_message'']"

definition in_progress_timeout :: "loop_row \<Rightarrow> string \<Rightarrow> int option \<Rightarrow> int \<Rightarrow> loop_row ctr" where
  "in_progress_timeout l action elapsed now =
     (let limit = recovery_in_progress_timeout action in
      set_state (l\<lparr>lp_metadata := without_keys IN_PROGRESS_KEYS (lp_metadata l), lp_observed := None\<rparr>)
        ((change ''observing'' ''loop.recovery_in_progress_timeout'')\<lparr>lc_code := ''RECOVERY_IN_PROGRESS_TIMEOUT'',
          lc_message := (if action = ''nav2_reapproach'' then ''<the re-approach>'' else ''<the asynchronous recovery>'') @ ''<timed out; observe again>'',
          lc_next := Some now,
          lc_payload := [(''recovery_action'', PStr action), (''timeout_seconds'', PInt limit),
            (''elapsed_seconds'', (case elapsed of None \<Rightarrow> PInt (limit + 1)
               | Some us \<Rightarrow> PFloat (Fin (py_round 3 (real_of_int us / real_of_int SECOND)))))]\<rparr>))"

definition recovery_in_progress :: "loop_row \<Rightarrow> pydict \<Rightarrow> int \<Rightarrow> loop_row ctr" where
  "recovery_in_progress l result now =
     (let action = str_or (py_or (dget (lp_metadata l) ''recovery_in_progress_action'') (dget result ''recovery_action'')) [];
          started = dget (lp_metadata l) ''recovery_in_progress_started_at'';
          elapsed = recovery_elapsed now started in
      if started = PNone then in_progress_begun l result action now
      else if (case elapsed of None \<Rightarrow> False | Some us \<Rightarrow> us < recovery_in_progress_timeout action * SECOND) then wait_second l now
      else in_progress_timeout l action elapsed now)"

definition recovery_answered :: "loop_row \<Rightarrow> execution_row option \<Rightarrow> command_row \<Rightarrow> int \<Rightarrow> loop_row ctr" where
  "recovery_answered l execution c now =
     bindC (refresh_execution execution) (\<lambda>e.
     (let result = cm_result c; status = lower (str_or (dget result ''recovery_status'') []) in
      case e of
        None \<Rightarrow> raiseC AttributeError
      | Some r \<Rightarrow>
          if ex_state r \<in> {''running'', ''accepted'', ''resuming''} then
            set_state (clear_recovery_episode l) ((change ''running'' ''loop.recovery_succeeded'')\<lparr>lc_next := Some (look_again now)\<rparr>)
          else if status = ''in_progress'' then recovery_in_progress l result now
          else if status = ''non_retryable'' then
            begin_recovery_stop l e (str_or (dget result ''reason_code'') ''RECOVERY_NON_RETRYABLE'')
              (str_or (dget result ''reason_message'') ''<the edge cannot recover from this fault>'')
          else set_state (l\<lparr>lp_observed := None\<rparr>) ((change ''observing'' ''loop.recovery_still_held'')\<lparr>lc_next := Some now\<rparr>)))"

definition process_recovering :: "loop_row \<Rightarrow> execution_row option \<Rightarrow> int \<Rightarrow> loop_row ctr" where
  "process_recovering l execution now =
     bindC (dbC (recovery_command l execution)) (\<lambda>command.
       case command of
         None \<Rightarrow> recovery_failed l None now
       | Some c \<Rightarrow>
           if cm_status c \<in> {''failed'', ''cancelled'', ''rejected'', ''timed_out'', ''expired''} then recovery_failed l command now
           else if cm_status c = ''succeeded'' then recovery_answered l execution c now
           else wait_second l now)"

section \<open>The step of the supervisor\<close>

definition process_state :: "loop_row \<Rightarrow> status_row option \<Rightarrow> int \<Rightarrow> loop_row ctr" where
  "process_state l latest now =
     bindC (current_execution l) (\<lambda>e.
       if lp_state l \<in> {''starting'', ''resting''} then process_waiting l now
       else if lp_state l = ''running'' then process_running l e now
       else if lp_state l = ''observing'' then process_observing l e latest now
       else if lp_state l = ''recovering'' then process_recovering l e now
       else returnC l)"

text \<open>\<open>session.refresh_from_db()\<close> after the battery was observed, which may have ended the session.\<close>

definition process_battery :: "string \<Rightarrow> loop_row \<Rightarrow> status_row option \<Rightarrow> loop_row ctr" where
  "process_battery worker l latest =
     (case latest of
        None \<Rightarrow> returnC l
      | Some s \<Rightarrow> thenC (observe_battery worker s) (lock_loop (lp_id l)))"

definition process :: "string \<Rightarrow> string \<Rightarrow> loop_row ctr" where
  "process worker pk = atomicC
     (bindC (lock_loop pk) (\<lambda>l.
      bindC nowC (\<lambda>now.
        if lp_state l \<in> set LOOP_TERMINAL_STATES then returnC l
        else if lp_state l = ''stopping'' then process_stopping l now
        else if lp_ends l \<le> now then process_deadline l now
        else if lp_paused l \<or> lp_state l = ''paused'' then ensure_manual_pause l
        else bindC (dbC (find_status (lp_robot l))) (\<lambda>latest.
          bindC (process_battery worker l latest) (\<lambda>l'.
            if lp_state l' \<in> set LOOP_TERMINAL_STATES then returnC l' else process_state l' latest now)))))"

text \<open>The supervisor survives only the exceptions it names; any other one ends the round over the sessions.\<close>

definition caught :: "pyexc \<Rightarrow> bool" where
  "caught x = (case x of IntegrityError _ \<Rightarrow> True | TaskStateError _ \<Rightarrow> True | PatrolLoopError _ \<Rightarrow> True | _ \<Rightarrow> False)"

definition process_caught :: "string \<Rightarrow> string \<Rightarrow> unit ctr" where
  "process_caught worker pk =
     exceptC (thenC (process worker pk) (returnC ()))
       (\<lambda>x. if \<not> caught x then raiseC x
         else bindC (dbC (find_loop pk)) (\<lambda>l.
           case l of
             None \<Rightarrow> returnC ()
           | Some r \<Rightarrow> whenC (loop_active r)
               (bindC nowC (\<lambda>now. save_columns r (\<lambda>q. q\<lparr>lp_error := ''<the supervision of the loop failed>'', lp_next := look_again now\<rparr>)))))"

definition due_sessions :: "nat \<Rightarrow> int \<Rightarrow> center_db \<Rightarrow> string list" where
  "due_sessions limit now db = map lp_id (take limit (sort_key lp_next (filter (\<lambda>l. loop_active l \<and> lp_next l \<le> now) (db_loops db))))"

definition process_due :: "string \<Rightarrow> nat \<Rightarrow> unit ctr" where
  "process_due worker limit =
     bindC nowC (\<lambda>now. bindC (dbC (due_sessions limit now)) (for_rows (process_caught worker)))"

end
