(* ===== verification/CenterSchedule.thy ===== *)
theory CenterSchedule
  imports CenterSupervisor CenterTelemetry
begin

text \<open>
  Executions that no operator starts by hand: the patrol calendar (\<open>monitoring/services/schedule_service.py\<close>) and the docking
  of a robot (\<open>services/docking_service.py\<close>). A local day is the number of days since 0001-01-01, a local time of day its
  microseconds, a planned minute an instant.
\<close>

section \<open>Days\<close>

definition DAY :: int where
  "DAY = DAY_SECONDS * SECOND"

definition MINUTE :: int where
  "MINUTE = 60 * SECOND"

definition local_minute :: "int \<Rightarrow> int" where
  "local_minute t = t - (t + LOCAL_OFFSET) mod MINUTE"

definition local_day :: "int \<Rightarrow> int" where
  "local_day t = (t + LOCAL_OFFSET) div DAY"

definition local_time :: "int \<Rightarrow> int" where
  "local_time t = (t + LOCAL_OFFSET) mod DAY"

definition isoweekday :: "int \<Rightarrow> int" where
  "isoweekday day = day mod 7 + 1"

definition day_type :: "int \<Rightarrow> center_db \<Rightarrow> string" where
  "day_type day db = (case find (\<lambda>d. cd_date d = day \<and> cd_enabled d) (db_calendar db) of None \<Rightarrow> ''normal'' | Some d \<Rightarrow> cd_type d)"

text \<open>\<open>isoweekday in weekdays\<close>, if weekdays are given.\<close>

fun on_weekday :: "int \<Rightarrow> pyval \<Rightarrow> bool pyres" where
  "on_weekday d (PList vs) = Inr (vs = [] \<or> (\<exists>v \<in> set vs. py_eq_int v d))"
| "on_weekday d (PDict vs) = Inr (vs = [])"
| "on_weekday d v = (if truthy v then Inl TypeError else Inr True)"

definition schedule_matches_date :: "int \<Rightarrow> string \<Rightarrow> schedule_row \<Rightarrow> bool pyres" where
  "schedule_matches_date day kind c =
     (if sc_type c = ''once'' then Inr (sc_run_date c = Some day)
      else bindE (on_weekday (isoweekday day) (sc_weekdays c)) (\<lambda>ok.
        Inr (ok \<and> (if sc_type c = ''holiday'' then kind \<in> {''holiday'', ''event_day''} else sc_type c = ''daily''))))"

section \<open>Due schedules\<close>

fun filterE :: "('a \<Rightarrow> bool pyres) \<Rightarrow> 'a list \<Rightarrow> 'a list pyres" where
  "filterE p [] = Inr []"
| "filterE p (x # xs) = bindE (p x) (\<lambda>ok. bindE (filterE p xs) (\<lambda>ys. Inr (if ok then x # ys else ys)))"

definition due_schedules :: "int \<Rightarrow> center_db \<Rightarrow> schedule_row list pyres" where
  "due_schedules planned db =
     (let day = local_day planned; kind = day_type day db in
      filterE (schedule_matches_date day kind)
        (sort_key (\<lambda>c. - sc_priority c) (filter (\<lambda>c. sc_enabled c \<and> sc_time c = local_time planned) (db_schedules db))))"

text \<open>The schedule of a robot that is started, among those that are due: a holiday plan before the others, then the
  priority, then the number.\<close>

definition effective_schedules :: "schedule_row list \<Rightarrow> schedule_row list" where
  "effective_schedules cs = (let hs = filter (\<lambda>c. sc_type c = ''holiday'') cs in
     sort_key (\<lambda>c. - sc_priority c) (sort_key sc_id (if hs \<noteq> [] then hs else cs)))"

definition skip_reason :: "schedule_row \<Rightarrow> schedule_row \<Rightarrow> string" where
  "skip_reason selected c = (if sc_type selected = ''holiday'' \<and> sc_type c = ''daily'' then ''holiday_override'' else ''lower_priority'')"

section \<open>Runs of a schedule\<close>

definition new_run :: "schedule_row \<Rightarrow> int \<Rightarrow> int \<Rightarrow> string \<Rightarrow> string \<Rightarrow> schedule_run_row" where
  "new_run c planned now status reason = \<lparr>sr_schedule = sc_id c, sr_robot = sc_robot c, sr_planned = planned,
     sr_triggered = Some now, sr_status = status, sr_execution = None, sr_command = None, sr_skip = reason, sr_error = []\<rparr>"

text \<open>\<open>get_or_create(schedule=..., planned_start_at=...)\<close>.\<close>

definition ensure_run :: "schedule_row \<Rightarrow> int \<Rightarrow> string \<Rightarrow> string \<Rightarrow> (schedule_run_row \<times> bool) ctr" where
  "ensure_run c planned status reason =
     bindC (dbC (find_run (sc_id c) planned)) (\<lambda>known.
       case known of
         Some r \<Rightarrow> returnC (r, False)
       | None \<Rightarrow> bindC nowC (\<lambda>now. (let r = new_run c planned now status reason in
           exceptC (seq_valueC [writeC (insert_run r)] (r, True))
             (\<lambda>x. case x of IntegrityError _ \<Rightarrow> bindC (getC (find_run (sc_id c) planned)) (\<lambda>q. returnC (q, False)) | _ \<Rightarrow> raiseC x))))"

definition save_run :: "schedule_run_row \<Rightarrow> schedule_run_row ctr" where
  "save_run r = seq_valueC [writeC (\<lambda>db. Inr (update_run (sr_schedule r) (sr_planned r) (\<lambda>_. r) db))] r"

definition settle_run :: "schedule_run_row \<Rightarrow> string \<Rightarrow> string \<Rightarrow> string \<Rightarrow> schedule_run_row ctr" where
  "settle_run r status reason message =
     bindC nowC (\<lambda>now. save_run (r\<lparr>sr_status := status, sr_skip := reason, sr_error := message, sr_triggered := Some now\<rparr>))"

definition record_skip :: "schedule_row \<Rightarrow> int \<Rightarrow> string \<Rightarrow> schedule_run_row ctr" where
  "record_skip c planned reason = atomicC
     (bindC (ensure_run c planned ''skipped'' reason) (\<lambda>(r, created).
        if \<not> created \<and> sr_status r = ''created'' then settle_run r ''skipped'' reason [] else returnC r))"

text \<open>Why a run cannot start now.\<close>

definition refused_run :: "schedule_row \<Rightarrow> patrol_task_row \<Rightarrow> robot_row \<Rightarrow> (string \<times> string \<times> string) option ctr" where
  "refused_run c task robot =
     bindC (if rb_status robot = ''offline'' then returnC ''offline'' else effective_connection_status robot) (\<lambda>status.
     bindC (dbC (active_execution (rb_id robot))) (\<lambda>active. returnC
       (if status = ''offline'' then Some (''failed'', ''ROBOT_OFFLINE'', ''<the robot is offline>'')
        else if \<not> pt_enabled task then Some (''skipped'', ''TASK_DISABLED'', ''<the task is disabled>'')
        else if pt_route task \<noteq> Some (sc_route c) then Some (''failed'', ''INVALID_CONFIG'', ''<the route differs from the one of the task>'')
        else if active \<noteq> None then Some (''skipped'', ''ROBOT_BUSY'', ''<the robot has a running task>'')
        else None)))"

definition start_run :: "schedule_run_row \<Rightarrow> patrol_task_row \<Rightarrow> creation \<Rightarrow> (execution_row \<times> command_row) ctr" where
  "start_run r task c =
     bindC (create_execution task c) (\<lambda>e. bindC (create e ''task.start'' (cr_operator c) [] None) (\<lambda>command. returnC (e, command)))"

definition run_dispatched :: "schedule_run_row \<Rightarrow> execution_row \<Rightarrow> command_row \<Rightarrow> int \<Rightarrow> schedule_run_row" where
  "run_dispatched r e command now = r\<lparr>sr_status := ''dispatched'', sr_execution := Some (ex_id e), sr_command := Some (cm_id command),
     sr_triggered := Some now\<rparr>"

definition mark_schedule :: "int \<Rightarrow> int option \<Rightarrow> unit ctr" where
  "mark_schedule pk t = writeC (\<lambda>db. Inr (db\<lparr>db_schedules := edit_rows sc_id pk (\<lambda>c. c\<lparr>sc_last := t\<rparr>) (db_schedules db)\<rparr>))"

definition dispatch_run :: "schedule_row \<Rightarrow> schedule_run_row \<Rightarrow> patrol_task_row \<Rightarrow> creation \<Rightarrow> schedule_run_row ctr" where
  "dispatch_run c r task order =
     bindC (exceptC (bindC (start_run r task order) (\<lambda>p. returnC (Inr p)))
        (\<lambda>x. case x of TaskStateError t \<Rightarrow> returnC (Inl t) | _ \<Rightarrow> raiseC x)) (\<lambda>started.
       case started of
         Inl t \<Rightarrow> settle_run r ''failed'' t t
       | Inr (e, command) \<Rightarrow> bindC nowC (\<lambda>now.
           bindC (save_run (run_dispatched r e command now)) (\<lambda>r'. seq_valueC [mark_schedule (sc_id c) (sr_triggered r')] r')))"

text \<open>The caller gives the operator and what the snapshot reads.\<close>

definition trigger :: "schedule_row \<Rightarrow> int \<Rightarrow> creation \<Rightarrow> schedule_run_row ctr" where
  "trigger c planned order = atomicC
     (bindC (ensure_run c planned ''created'' []) (\<lambda>(r, created).
      if \<not> created \<and> sr_status r \<noteq> ''created'' then returnC r
      else bindC (getC (find_robot (sc_robot c))) (\<lambda>robot.
        bindC (getC (\<lambda>db. row_of pt_id (sc_task c) (db_tasks db))) (\<lambda>task.
        bindC (refused_run c task robot) (\<lambda>refusal.
          case refusal of
            Some (status, reason, message) \<Rightarrow> settle_run r status reason message
          | None \<Rightarrow> dispatch_run c r task (order\<lparr>cr_loop := None, cr_round := 1, cr_snapshot := None, cr_source := ''scheduler''\<rparr>))))))"

text \<open>One robot with its due schedules.\<close>

definition dispatch_robot :: "int \<Rightarrow> creation \<Rightarrow> schedule_row list \<Rightarrow> unit ctr" where
  "dispatch_robot planned order cs =
     (case effective_schedules cs of
        [] \<Rightarrow> returnC ()
      | selected # _ \<Rightarrow> thenC
          (for_rows (\<lambda>c. thenC (record_skip c planned (skip_reason selected c)) (returnC ())) (filter (\<lambda>c. sc_id c \<noteq> sc_id selected) cs))
          (thenC (trigger selected planned order) (returnC ())))"

text \<open>\<open>defaultdict\<close>: the robots in the order of their first schedule.\<close>

definition due_robots :: "schedule_row list \<Rightarrow> int list" where
  "due_robots cs = rev (remdups (rev (map sc_robot cs)))"

definition dispatch_due :: "int \<Rightarrow> creation \<Rightarrow> unit ctr" where
  "dispatch_due planned_minute order =
     (let planned = local_minute planned_minute in
      bindC (dbC (due_schedules planned)) (\<lambda>r.
      bindC (liftC r) (\<lambda>due. for_rows (\<lambda>robot. dispatch_robot planned order (filter (\<lambda>c. sc_robot c = robot) due)) (due_robots due))))"

section \<open>Docking\<close>

definition docking_route :: "robot_row \<Rightarrow> int option \<Rightarrow> int option \<Rightarrow> center_db \<Rightarrow> route_row pyres" where
  "docking_route robot map_pk route_pk db =
     (case (if map_pk = None then rb_charging_map robot else map_pk,
            Option.bind (if route_pk = None then rb_charging_route robot else route_pk) (\<lambda>r. row_of ro_id r (db_routes db))) of
        (Some m, Some r) \<Rightarrow>
          if ro_robot r \<noteq> rb_id robot \<or> ro_map r \<noteq> m
            then Inl (DockingDispatchError ''DOCK_ROUTE_MISMATCH'' ''<the docking route does not fit the robot or the map>'')
          else bindE (if truthy (ro_waypoints r) then py_len (ro_waypoints r) else Inr 0) (\<lambda>n.
            if n \<noteq> 2 then Inl (DockingDispatchError ''DOCK_ROUTE_INVALID'' ''<the docking route must have two points>'') else Inr r)
      | _ \<Rightarrow> Inl (DockingDispatchError ''DOCK_ROUTE_MISSING'' ''<choose the charging map and the docking route first>''))"

definition first_start :: "execution_row \<Rightarrow> center_db \<Rightarrow> command_row option" where
  "first_start e db =
     find (\<lambda>c. cm_execution c = Some (ex_id e) \<and> cm_type c = ''task.start'') (sort_key cm_issued (db_commands db))"

text \<open>The docking task that was dispatched for this battery episode.\<close>

definition docked_before :: "robot_row \<Rightarrow> string option \<Rightarrow> center_db \<Rightarrow> (execution_row \<times> command_row) option" where
  "docked_before robot episode db =
     (case episode of None \<Rightarrow> None
      | Some u \<Rightarrow> Option.bind (find (\<lambda>e. ex_robot e = rb_id robot \<and> ex_loop e = Some u) (db_executions db)) (\<lambda>e.
          map_option (\<lambda>c. (e, c)) (first_start e db)))"

text \<open>\<open>payload__docking__enabled=True\<close>.\<close>

definition docking_start :: "execution_row \<Rightarrow> center_db \<Rightarrow> command_row option" where
  "docking_start e db =
     find (\<lambda>c. cm_execution c = Some (ex_id e) \<and> cm_type c = ''task.start''
            \<and> dget (dict_or_empty (dget (cm_payload c) ''docking'')) ''enabled'' = PBool True) (sort_key cm_issued (db_commands db))"

definition docking_task :: "robot_row \<Rightarrow> route_row \<Rightarrow> patrol_task_row ctr" where
  "docking_task robot route =
     (let name = ''<docking> - '' @ ro_name route in
      bindC (dbC (\<lambda>db. filter (\<lambda>t. pt_robot t = rb_id robot \<and> pt_route t = Some (ro_id route) \<and> pt_name t = name) (db_tasks db))) (\<lambda>known.
        case known of
          [] \<Rightarrow> bindC (dbC (\<lambda>db. 1 + foldl max 0 (map pt_id (db_tasks db)))) (\<lambda>pk.
            (let t = \<lparr>pt_id = pk, pt_name = name, pt_robot = rb_id robot, pt_route = Some (ro_id route), pt_enabled = True,
                 pt_record_rosbag = False\<rparr> in
             seq_valueC [writeC (\<lambda>db. Inr (db\<lparr>db_tasks := db_tasks db @ [t]\<rparr>))] t))
        | [t] \<Rightarrow> (let t' = t\<lparr>pt_enabled := True\<rparr> in
            seq_valueC [writeC (\<lambda>db. Inr (db\<lparr>db_tasks := edit_rows pt_id (pt_id t) (\<lambda>r. r\<lparr>pt_enabled := True\<rparr>) (db_tasks db)\<rparr>))] t')
        | _ \<Rightarrow> raiseC MultipleObjectsReturned))"

definition docking_options :: "string \<Rightarrow> pydict" where
  "docking_options episode =
     [(''docking'', PDict [(''enabled'', PBool True), (''final_waypoint_index'', PInt 1), (''charge_retries'', PInt 3),
        (''undock_seconds'', PInt 3), (''low_battery_episode_id'', if episode = [] then PNone else PStr episode)])]"

definition admit_docking :: "robot_row \<Rightarrow> unit ctr" where
  "admit_docking robot =
     bindC (effective_connection_status robot) (\<lambda>status.
       if status \<noteq> ''online'' then raiseC (DockingDispatchError ''EDGE_OFFLINE'' ''<the edge agent is offline>'')
       else if rb_localization robot \<noteq> ''normal'' \<or> \<not> rb_nav_ready robot
         then raiseC (DockingDispatchError ''DOCK_NAV_NOT_READY'' ''<localization or navigation is not ready>'')
       else returnC ())"

definition new_docking :: "robot_row \<Rightarrow> route_row \<Rightarrow> string \<Rightarrow> string option \<Rightarrow> creation \<Rightarrow> (execution_row \<times> command_row) ctr" where
  "new_docking robot route episode loop order =
     bindC (docking_task robot route) (\<lambda>task.
       exceptC
         (bindC (create_execution task (order\<lparr>cr_loop := loop, cr_round := 1, cr_snapshot := None, cr_source := ''auto_docking''\<rparr>)) (\<lambda>e.
          bindC (create e ''task.start'' (cr_operator order) (docking_options episode) None) (\<lambda>c. returnC (e, c))))
         (\<lambda>x. case x of TaskStateError t \<Rightarrow> raiseC (DockingDispatchError t t) | _ \<Rightarrow> raiseC x))"

definition uuid_or_none :: "string \<Rightarrow> string option pyres" where
  "uuid_or_none t = (if t = [] then Inr None
     else (case uuid_of_text t of None \<Rightarrow> Inl ValueError | Some n \<Rightarrow> Inr (Some (uuid_to_text n))))"

definition dispatch_docking_task :: "int \<Rightarrow> int option \<Rightarrow> int option \<Rightarrow> string \<Rightarrow> bool \<Rightarrow> creation
    \<Rightarrow> (execution_row \<times> command_row \<times> bool) ctr" where
  "dispatch_docking_task robot_pk map_pk route_pk episode persist order = atomicC
     (bindC (getC (find_robot robot_pk)) (\<lambda>robot.
      bindC (dbC (docking_route robot map_pk route_pk)) (\<lambda>checked.
      bindC (liftC checked) (\<lambda>route.
      bindC (liftC (uuid_or_none episode)) (\<lambda>loop.
      bindC (dbC (docked_before robot loop)) (\<lambda>before.
      bindC (dbC (active_execution (rb_id robot))) (\<lambda>active.
      bindC (dbC (\<lambda>db. Option.bind active (\<lambda>e. docking_start e db))) (\<lambda>running.
        case (before, active, running) of
          (Some (e, c), _, _) \<Rightarrow> returnC (e, c, False)
        | (None, Some e, Some c) \<Rightarrow> returnC (e, c, False)
        | (None, Some e, None) \<Rightarrow> raiseC (DockingDispatchError ''ROBOT_BUSY'' ''<the robot has an active navigation task>'')
        | (None, None, _) \<Rightarrow> thenC (admit_docking robot)
            (thenC (whenC persist (writeC (update_robot (rb_id robot) (\<lambda>r. r\<lparr>rb_charging_map := Some (ro_map route), rb_charging_route := Some (ro_id route)\<rparr>))))
              (bindC (new_docking robot route episode loop order) (\<lambda>(e, c). returnC (e, c, True))))))))))))"

end
