(* ===== verification/CenterRules.thy ===== *)
theory CenterRules
  imports CenterInbound CenterSchedule
begin

text \<open>
  What the operations of the center may do to the executions. \<open>exec_step\<close> is the abstract state machine: a report that
  keeps the state, an allowed transition with a greater version, the recovery of an execution that only the center had
  given up. A predicate of the database that survives these steps, the creation of an execution and every write to another
  table survives every operation: the locale \<open>execution_policy\<close> states the interface and holds the proofs, one lemma per
  operation.
\<close>

section \<open>Tables\<close>

lemma row_of_Nil [simp]: "row_of key k [] = None"
  by (simp add: row_of_def)

lemma row_of_Cons [simp]: "row_of key k (r # rs) = (if key r = k then Some r else row_of key k rs)"
  by (simp add: row_of_def)

lemma row_of_append: "row_of key k (rs @ qs) = (case row_of key k rs of None \<Rightarrow> row_of key k qs | Some r \<Rightarrow> Some r)"
  by (induction rs) simp_all

lemma row_of_key: "row_of key k rs = Some r \<Longrightarrow> key r = k"
  by (induction rs) (auto split: if_splits)

lemma row_of_in: "row_of key k rs = Some r \<Longrightarrow> r \<in> set rs"
  by (induction rs) (auto split: if_splits)

lemma row_of_None: "row_of key k rs = None \<longleftrightarrow> k \<notin> key ` set rs"
  by (induction rs) auto

lemma row_of_edit:
  assumes "\<And>r. key r = k \<Longrightarrow> key (f r) = k"
  shows "row_of key k' (edit_rows key k f rs) = (if k' = k then map_option f (row_of key k rs) else row_of key k' rs)"
  using assms by (induction rs) (auto simp: edit_rows_def)

section \<open>Statements\<close>

named_theorems center_rules \<open>rules for the statements of the center\<close>

lemma keeps_reads [center_rules]:
  "keeps (\<lambda>s. P (cn_db s)) (dbC f)" "keeps (\<lambda>s. P (cn_db s)) (worldC g)" "keeps (\<lambda>s. P (cn_db s)) (read_tick h)"
  "keeps (\<lambda>s. P (cn_db s)) nowC" "keeps (\<lambda>s. P (cn_db s)) uuidC" "keeps (\<lambda>s. P (cn_db s)) (settingC name n)"
  "keeps (\<lambda>s. P (cn_db s)) (emitC e)"
  by (rule keepsI, simp add: dbC_def worldC_def read_tick_def nowC_def uuidC_def settingC_def emitC_def)+

lemma keeps_notify [center_rules]: "keeps (\<lambda>s. P (cn_db s)) (notifyC name args)"
  unfolding notifyC_def by (intro cmd_rules center_rules)

lemma keeps_atomic [center_rules]: "keeps (\<lambda>s. P (cn_db s)) m \<Longrightarrow> keeps (\<lambda>s. P (cn_db s)) (atomicC m)"
  unfolding keeps_def atomicC_def by (auto split: prod.splits sum.splits) (metis snd_conv)

lemma keeps_for_rows [center_rules]: "(\<And>r. keeps I (body r)) \<Longrightarrow> keeps I (for_rows body rs)"
  by (induction rs) (auto intro: cmd_rules)

lemma keeps_write: "(\<And>db db'. f db = Inr db' \<Longrightarrow> P db \<Longrightarrow> P db') \<Longrightarrow> keeps (\<lambda>s. P (cn_db s)) (writeC f)"
  by (rule keepsI) (auto simp: writeC_def Let_def split: sum.splits)

lemma keeps_lift_bind: "(\<And>a. v = Inr a \<Longrightarrow> keeps I (f a)) \<Longrightarrow> keeps I (bindC (liftC v) f)"
  by (cases v) (auto simp: keeps_def bindC_def liftC_def)

lemma keeps_get [center_rules]: "keeps (\<lambda>s. P (cn_db s)) (getC f)"
  unfolding getC_def by (intro cmd_rules center_rules)

lemma keeps_or_now [center_rules]: "keeps (\<lambda>s. P (cn_db s)) (or_now t)"
  unfolding or_now_def by (intro cmd_rules center_rules)

lemma keeps_event_time [center_rules]: "keeps (\<lambda>s. P (cn_db s)) (event_time payload keys)"
  unfolding event_time_def by (intro cmd_rules center_rules)

lemma keeps_parts [center_rules]:
  "keeps (\<lambda>s. P (cn_db s)) (emit_log level area code data)" "keeps (\<lambda>s. P (cn_db s)) (notify_task pk payload)"
  "keeps (\<lambda>s. P (cn_db s)) (notify_execution e)" "keeps (\<lambda>s. P (cn_db s)) (lock_execution pk)"
  "keeps (\<lambda>s. P (cn_db s)) (publish_json topic payload)" "keeps (\<lambda>s. P (cn_db s)) (trace_of trace)"
  "keeps (\<lambda>s. P (cn_db s)) (build_command_message c robot sid)"
  unfolding emit_log_def notify_task_def notify_execution_def lock_execution_def publish_json_def trace_of_def build_command_message_def
  by (intro cmd_rules center_rules)+

text \<open>The reads of the loops, the cache of a process.\<close>

lemma keeps_cache [center_rules]:
  "keeps (\<lambda>s. P (cn_db s)) (cached_sample worker robot)" "keeps (\<lambda>s. P (cn_db s)) (set_sample worker robot count version)"
  "keeps (\<lambda>s. P (cn_db s)) (drop_sample worker robot)"
  by (rule keepsI, simp add: cached_sample_def set_sample_def drop_sample_def nowC_def read_tick_def bindC_def)+

lemma keeps_loop_reads [center_rules]:
  "keeps (\<lambda>s. P (cn_db s)) (effective_connection_status robot)" "keeps (\<lambda>s. P (cn_db s)) (current_execution l)"
  "keeps (\<lambda>s. P (cn_db s)) (refresh_execution e)" "keeps (\<lambda>s. P (cn_db s)) (is_docking_execution e)"
  "keeps (\<lambda>s. P (cn_db s)) LOW_BATTERY_PERCENT" "keeps (\<lambda>s. P (cn_db s)) (lock_loop pk)"
  unfolding effective_connection_status_def current_execution_def refresh_execution_def is_docking_execution_def
    LOW_BATTERY_PERCENT_def lock_loop_def
  by (intro cmd_rules center_rules)+

lemma keeps_safety [center_rules]:
  "keeps (\<lambda>s. P (cn_db s)) (observation_safety robot)" "keeps (\<lambda>s. P (cn_db s)) (health robot)"
  unfolding observation_safety_def health_def by (intro cmd_rules center_rules)+

lemma keeps_error_case [cmd_rules]:
  "(\<And>t. x = TaskStateError t \<Longrightarrow> keeps I (f t)) \<Longrightarrow> ((\<forall>t. x \<noteq> TaskStateError t) \<Longrightarrow> keeps I g) \<Longrightarrow>
     keeps I (case x of TaskStateError t \<Rightarrow> f t | _ \<Rightarrow> g)"
  "(\<And>t. x = IntegrityError t \<Longrightarrow> keeps I (f' t)) \<Longrightarrow> ((\<forall>t. x \<noteq> IntegrityError t) \<Longrightarrow> keeps I g') \<Longrightarrow>
     keeps I (case x of IntegrityError t \<Rightarrow> f' t | _ \<Rightarrow> g')"
  by (cases x; simp)+

lemma center_triple_keeps: "keeps I m \<Longrightarrow> triple w I m (\<lambda>_. I) I"
  by (rule tripleI) (auto dest: keepsD)

lemma keeps_triple: "(\<And>w. triple w I m (\<lambda>_. I) I) \<Longrightarrow> keeps I m"
proof (rule keepsI)
  fix w s
  assume "\<And>w. triple w I m (\<lambda>_. I) I" "I s"
  then show "I (snd (m w s))" by (cases "m w s"; cases "fst (m w s)") (auto dest: tripleD tripleE)
qed

lemma triple_weaken: "keeps I m \<Longrightarrow> (\<And>s. J s \<Longrightarrow> I s) \<Longrightarrow> triple w J m (\<lambda>_. I) I"
  by (rule triple_conseq [OF center_triple_keeps]) auto

lemma triple_write:
  "(\<And>db db'. f db = Inr db' \<Longrightarrow> Q db \<Longrightarrow> R db') \<Longrightarrow> (\<And>db. Q db \<Longrightarrow> E db) \<Longrightarrow>
     triple w (\<lambda>s. Q (cn_db s)) (writeC f) (\<lambda>_ s. R (cn_db s)) (\<lambda>s. E (cn_db s))"
  by (rule tripleI) (auto simp: writeC_def Let_def split: if_splits sum.splits)

lemma triple_atomic:
  "triple w (\<lambda>s. Q (cn_db s)) m R E \<Longrightarrow>
     triple w (\<lambda>s. Q (cn_db s)) (atomicC m) R (\<lambda>s. Q (cn_db s))"
  by (auto simp: triple_def atomicC_def split: prod.splits sum.splits)

lemma triple_get: "(\<And>a. triple w (\<lambda>s. I s \<and> f (cn_db s) = Some a) (g a) R E) \<Longrightarrow> (\<And>s. I s \<Longrightarrow> E s) \<Longrightarrow> triple w I (bindC (getC f) g) R E"
  by (auto simp: triple_def getC_def bindC_def dbC_def returnC_def raiseC_def split: option.splits)

lemma triple_read: "(\<And>a. triple w (\<lambda>s. I s \<and> f (cn_db s) = a) (g a) R E) \<Longrightarrow> triple w I (bindC (dbC f) g) R E"
  by (auto simp: triple_def bindC_def dbC_def)

lemma triple_lift: "(\<And>a. v = Inr a \<Longrightarrow> triple w I (g a) R E) \<Longrightarrow> (\<And>s. I s \<Longrightarrow> E s) \<Longrightarrow> triple w I (bindC (liftC v) g) R E"
  by (cases v) (auto simp: triple_def bindC_def liftC_def)

text \<open>A statement that only reads, before another one.\<close>

lemma triple_reading:
  assumes "\<And>Q. keeps (\<lambda>s. Q (cn_db s)) m" "\<And>a. triple w (\<lambda>s. Q (cn_db s)) (g a) R E" "\<And>s. Q (cn_db s) \<Longrightarrow> E s"
  shows "triple w (\<lambda>s. Q (cn_db s)) (bindC m g) R E"
proof (rule triple_bind [OF _ assms(2)])
  show "triple w (\<lambda>s. Q (cn_db s)) m (\<lambda>_ s. Q (cn_db s)) E"
    by (rule triple_conseq [OF center_triple_keeps [OF assms(1) [of Q]]]) (auto intro: assms(3))
qed

text \<open>Writes that leave the executions alone.\<close>

lemma bindE_check: "bindE c (\<lambda>_. Inr a) = Inr b \<Longrightarrow> a = b"
  by (cases c) simp_all

lemma quiet_writes:
  "insert_task_event t db = Inr db' \<Longrightarrow> db_executions db' = db_executions db"
  "update_task_event i g db = Inr db' \<Longrightarrow> db_executions db' = db_executions db"
  "insert_command c db = Inr db' \<Longrightarrow> db_executions db' = db_executions db"
  "update_command pk h db = Inr db' \<Longrightarrow> db_executions db' = db_executions db"
  "insert_command_event e db = Inr db' \<Longrightarrow> db_executions db' = db_executions db"
  "insert_inbound r db = Inr db' \<Longrightarrow> db_executions db' = db_executions db"
  "update_inbound mid u db = Inr db' \<Longrightarrow> db_executions db' = db_executions db"
  "update_robot rid v db = Inr db' \<Longrightarrow> db_executions db' = db_executions db"
  "insert_receipt q db = Inr db' \<Longrightarrow> db_executions db' = db_executions db"
  by (auto simp: insert_task_event_def update_task_event_def insert_command_def update_command_def insert_command_event_def
    insert_inbound_def update_inbound_def update_robot_def insert_receipt_def split: option.splits if_splits)

lemma quiet_loop_writes:
  "insert_loop l db = Inr db' \<Longrightarrow> db_executions db' = db_executions db \<and> db_commands db' = db_commands db"
  "update_loop pk f db = Inr db' \<Longrightarrow> db_executions db' = db_executions db \<and> db_commands db' = db_commands db"
  "insert_loop_event e db = Inr db' \<Longrightarrow> db_executions db' = db_executions db \<and> db_commands db' = db_commands db"
  "put_status x db = Inr db' \<Longrightarrow> db_executions db' = db_executions db \<and> db_commands db' = db_commands db"
  "insert_episode b db = Inr db' \<Longrightarrow> db_executions db' = db_executions db \<and> db_commands db' = db_commands db"
  "insert_run r db = Inr db' \<Longrightarrow> db_executions db' = db_executions db \<and> db_commands db' = db_commands db"
  by (auto simp: insert_loop_def update_loop_def insert_loop_event_def put_status_def insert_episode_def insert_run_def
    split: option.splits if_splits)

lemma quiet_save_loop: "save_loop l db = Inr db' \<Longrightarrow> db_executions db' = db_executions db \<and> db_commands db' = db_commands db"
  by (auto simp: save_loop_def dest: quiet_loop_writes split: if_splits)

lemma quiet_save_command: "save_command c db = Inr db' \<Longrightarrow> db_executions db' = db_executions db"
  by (auto simp: save_command_def dest: quiet_writes split: if_splits)

section \<open>The abstract state machine\<close>

definition same_run :: "execution_row \<Rightarrow> execution_row \<Rightarrow> bool" where
  "same_run r r' = (ex_id r' = ex_id r \<and> ex_robot r' = ex_robot r \<and> ex_task r' = ex_task r \<and> ex_snapshot r' = ex_snapshot r
     \<and> ex_loop r' = ex_loop r \<and> ex_dispatch_key r' = ex_dispatch_key r)"

inductive exec_step :: "execution_row \<Rightarrow> execution_row \<Rightarrow> bool" where
  report: "same_run r r' \<Longrightarrow> ex_state r' = ex_state r \<Longrightarrow> ex_failure_code r' = ex_failure_code r \<Longrightarrow>
    ex_finished r' = ex_finished r \<Longrightarrow> ex_version r \<le> ex_version r' \<Longrightarrow> exec_step r r'"
| move: "same_run r r' \<Longrightarrow> ex_state r' \<in> set (allowed_targets (ex_state r)) \<Longrightarrow> ex_version r < ex_version r' \<Longrightarrow> exec_step r r'"
| recover: "same_run r r' \<Longrightarrow> given_up r \<Longrightarrow> ex_state r' \<in> set ACTIVE_STATES \<Longrightarrow> ex_state r' \<notin> {''created'', ''dispatching''} \<Longrightarrow>
    ex_version r < ex_version r' \<Longrightarrow> exec_step r r'"

lemma same_run_refl [simp]: "same_run r r"
  by (simp add: same_run_def)

lemma exec_step_id: "exec_step r r' \<Longrightarrow> ex_id r' = ex_id r"
  by (induction rule: exec_step.induct) (simp_all add: same_run_def)

lemma exec_step_version: "exec_step r r' \<Longrightarrow> ex_version r \<le> ex_version r'"
  by (induction rule: exec_step.induct) simp_all

lemma allowed_text: "in_strs v S = Inr True \<Longrightarrow> v = PStr (py_str v) \<and> py_str v \<in> set S"
  by (cases v) auto

lemmas allowed_target = allowed_text [THEN conjunct2] allowed_text [THEN conjunct1]

section \<open>The operations under a policy\<close>

text \<open>A property that only the table of executions decides.\<close>

locale execution_frame =
  fixes P :: "center_db \<Rightarrow> bool"
  assumes other_table: "P db \<Longrightarrow> db_executions db' = db_executions db \<Longrightarrow> P db'"
begin

lemma keeps_quiet: "(\<And>db db'. f db = Inr db' \<Longrightarrow> db_executions db' = db_executions db) \<Longrightarrow> keeps (\<lambda>s. P (cn_db s)) (writeC f)"
  by (rule keeps_write) (blast intro: other_table)

lemma keeps_other_writes [center_rules]:
  "keeps (\<lambda>s. P (cn_db s)) (record_task_event t)" "keeps (\<lambda>s. P (cn_db s)) (record_command_event command kind source mid payload)"
  "keeps (\<lambda>s. P (cn_db s)) (writeC (update_task_event i g))" "keeps (\<lambda>s. P (cn_db s)) (writeC (insert_command c))"
  "keeps (\<lambda>s. P (cn_db s)) (writeC (update_command pk h))" "keeps (\<lambda>s. P (cn_db s)) (writeC (save_command c))"
  "keeps (\<lambda>s. P (cn_db s)) (writeC (insert_inbound r))" "keeps (\<lambda>s. P (cn_db s)) (writeC (update_inbound m u))"
  "keeps (\<lambda>s. P (cn_db s)) (writeC (update_robot rid v))" "keeps (\<lambda>s. P (cn_db s)) (writeC (insert_receipt q))"
  unfolding record_task_event_def record_command_event_def
  by (rule keeps_quiet, erule quiet_writes quiet_save_command)+

lemma keeps_pure_writes [center_rules]:
  "(\<And>db. db_executions (g db) = db_executions db) \<Longrightarrow> keeps (\<lambda>s. P (cn_db s)) (writeC (\<lambda>db. Inr (g db)))"
  by (rule keeps_quiet) auto

lemma keeps_reconcile_start [center_rules]: "keeps (\<lambda>s. P (cn_db s)) (reconcile_task_start_for_execution e source)"
  unfolding reconcile_task_start_for_execution_def reconcile_start_command_def by (intro cmd_rules center_rules)

end

text \<open>A property that every step of an execution keeps. \<open>T\<close> says which target states the policy permits.\<close>

locale transition_policy = execution_frame P for P :: "center_db \<Rightarrow> bool" +
  fixes T :: "string \<Rightarrow> bool"
  assumes step: "P db \<Longrightarrow> find_execution pk db = Some r \<Longrightarrow> exec_step r (f r) \<Longrightarrow>
      ex_state (f r) = ex_state r \<or> T (ex_state (f r)) \<Longrightarrow> (\<And>x. ex_id x = pk \<Longrightarrow> ex_id (f x) = pk) \<Longrightarrow>
      update_execution pk f db = Inr db' \<Longrightarrow> P db'"
begin

text \<open>The writes to an execution. What is known of the row comes from the read before it.\<close>

lemma save_step: "P db \<Longrightarrow> find_execution (ex_id e) db = Some r \<Longrightarrow> exec_step r e \<Longrightarrow> ex_state e = ex_state r \<or> T (ex_state e) \<Longrightarrow>
    save_execution e db = Inr db' \<Longrightarrow> P db'"
  by (auto simp: save_execution_def intro: step)

lemma keeps_apply_transition:
  assumes "ex_id r = pk" "t \<in> set (allowed_targets (ex_state r))" "ex_version r < version" "T t"
  shows "triple w (\<lambda>s. P (cn_db s) \<and> find_execution pk (cn_db s) = Some r) (apply_transition r t version q) (\<lambda>_ s. P (cn_db s)) (\<lambda>s. P (cn_db s))"
proof -
  have moves: "exec_step r (moved t version stamp code message r)" for stamp code message
    using assms by (intro exec_step.move) (simp_all add: moved_def same_run_def)
  have saved: "triple w (\<lambda>s. P (cn_db s) \<and> find_execution pk (cn_db s) = Some r)
      (writeC (save_execution (moved t version stamp code message r))) (\<lambda>_ s. P (cn_db s)) (\<lambda>s. P (cn_db s))" for stamp code message
    using assms(1,4) by (intro triple_write) (auto simp: moved_def intro: save_step [OF _ _ moves])
  show ?thesis
    unfolding apply_transition_def Let_def seq_valueC_def seqC.simps
    by (rule triple_reading [where Q = "\<lambda>db. P db \<and> find_execution pk db = Some r"], rule keeps_or_now)
      (auto intro!: triple_then [OF triple_then [OF saved]] center_triple_keeps cmd_rules center_rules)
qed

lemma keeps_transition [center_rules]:
  assumes T: "\<And>t. target = PStr t \<Longrightarrow> T t"
  shows "keeps (\<lambda>s. P (cn_db s)) (transition pk target q)"
  unfolding transition_def lock_execution_def Let_def
proof (rule keeps_atomic, rule keeps_triple, rule triple_get)
  fix w r
  show "triple w (\<lambda>s. P (cn_db s) \<and> find_execution pk (cn_db s) = Some r)
      (bindC (liftC (assert_transition_allowed (ex_state r) target)) (\<lambda>t.
        if (case rq_version q of None \<Rightarrow> ex_version r + 1 | Some v \<Rightarrow> v) \<le> ex_version r then raiseC (TaskStateError ''STALE_TASK_STATE'')
        else apply_transition r t (case rq_version q of None \<Rightarrow> ex_version r + 1 | Some v \<Rightarrow> v) q))
      (\<lambda>_ s. P (cn_db s)) (\<lambda>s. P (cn_db s))"
  proof (rule triple_assume [where G = "ex_id r = pk"])
    assume id: "ex_id r = pk"
    show "triple w (\<lambda>s. P (cn_db s) \<and> find_execution pk (cn_db s) = Some r)
      (bindC (liftC (assert_transition_allowed (ex_state r) target)) (\<lambda>t.
        if (case rq_version q of None \<Rightarrow> ex_version r + 1 | Some v \<Rightarrow> v) \<le> ex_version r then raiseC (TaskStateError ''STALE_TASK_STATE'')
        else apply_transition r t (case rq_version q of None \<Rightarrow> ex_version r + 1 | Some v \<Rightarrow> v) q))
      (\<lambda>_ s. P (cn_db s)) (\<lambda>s. P (cn_db s))"
      by (rule triple_lift) (auto intro!: triple_if triple_raise keeps_apply_transition id
        simp: assert_transition_allowed_def T split: if_splits dest: allowed_target)
  qed (auto simp: find_execution_def dest: row_of_key)
qed simp

lemma triple_update:
  assumes "exec_step r (f r)" "ex_state (f r) = ex_state r \<or> T (ex_state (f r))" "\<And>x. ex_id x = pk \<Longrightarrow> ex_id (f x) = pk"
  shows "triple w (\<lambda>s. P (cn_db s) \<and> find_execution pk (cn_db s) = Some r) (update_executionC pk f) (\<lambda>_ s. P (cn_db s)) (\<lambda>s. P (cn_db s))"
  unfolding update_executionC_def using assms by (intro triple_write) (auto intro: step)

lemma keeps_columns: "(\<And>x. exec_step x (f x) \<and> ex_state (f x) = ex_state x) \<Longrightarrow> keeps (\<lambda>s. P (cn_db s)) (update_executionC pk f)"
  unfolding update_executionC_def
proof (rule keeps_write)
  fix db db'
  assume "\<And>x. exec_step x (f x) \<and> ex_state (f x) = ex_state x" "update_execution pk f db = Inr db'" "P db"
  moreover from this obtain r where "find_execution pk db = Some r" by (auto simp: update_execution_def split: option.splits)
  ultimately show "P db'" using exec_step_id by (metis step)
qed

lemma keeps_recover [center_rules]:
  assumes T: "T target"
  shows "keeps (\<lambda>s. P (cn_db s)) (reconcile_edge_active_after_center_timeout pk target edge_version code message payload)"
  unfolding reconcile_edge_active_after_center_timeout_def lock_execution_def Let_def
proof (rule keeps_atomic, rule keeps_triple, rule triple_get, rule triple_if)
  fix w r
  assume ok: "\<not> (\<not> given_up r \<or> target \<notin> set ACTIVE_STATES \<or> target \<in> {''created'', ''dispatching''})"
  let ?e = "\<lambda>stamp. recovered target (max (ex_version r + 1) (edge_version + 1)) stamp (recovery_code target code) (recovery_message target message) r"
  have moves: "exec_step r (recovered_columns (?e stamp) r)" for stamp
    using ok by (intro exec_step.recover) (auto simp: recovered_columns_def recovered_def same_run_def)
  have saved: "triple w (\<lambda>s. P (cn_db s) \<and> find_execution pk (cn_db s) = Some r) (update_executionC pk (recovered_columns (?e stamp)))
      (\<lambda>_ s. P (cn_db s)) (\<lambda>s. P (cn_db s))" for stamp
    by (rule triple_update) (rule moves, simp_all add: recovered_columns_def recovered_def T)
  show "triple w (\<lambda>s. P (cn_db s) \<and> find_execution pk (cn_db s) = Some r)
      (bindC nowC (\<lambda>stamp. seq_valueC
         [update_executionC pk (recovered_columns (?e stamp)),
          bindC nowC (\<lambda>occurred. record_task_event (task_event (?e stamp)
            (request ''task.sync_center_timeout_reconciled''
              \<lparr>rq_code := recovery_code target code, rq_message := recovery_message target message,
               rq_payload := dput (dput payload ''previous_cloud_state'' (PStr (ex_state r))) ''edge_state_version'' (PInt edge_version)\<rparr>) occurred))]
         (?e stamp))) (\<lambda>_ s. P (cn_db s)) (\<lambda>s. P (cn_db s))"
    unfolding seq_valueC_def seqC.simps
    by (rule triple_reading [where Q = "\<lambda>db. P db \<and> find_execution pk db = Some r"], rule keeps_reads)
      (auto intro!: triple_then [OF triple_then [OF saved]] center_triple_keeps cmd_rules center_rules)
qed (auto intro: triple_raise)

lemma triple_progress:
  "triple w (\<lambda>s. P (cn_db s) \<and> find_execution (ex_id e) (cn_db s) = Some e) (apply_progress e payload) (\<lambda>_ s. P (cn_db s)) (\<lambda>s. P (cn_db s))"
proof -
  have moves: "exec_step e e' \<and> ex_id e' = ex_id e \<and> ex_state e' = ex_state e" if "progress_columns decimal e payload version stamp = Inr e'" "\<not> version \<le> ex_version e"
    for decimal version stamp e'
    using that by (auto simp: progress_columns_def same_run_def intro!: exec_step.report)
  have saved: "triple w (\<lambda>s. P (cn_db s) \<and> find_execution (ex_id e) (cn_db s) = Some e) (writeC (save_execution e')) (\<lambda>_ s. P (cn_db s)) (\<lambda>s. P (cn_db s))"
    if "progress_columns decimal e payload version stamp = Inr e'" "\<not> version \<le> ex_version e" for decimal version stamp e'
    using moves [OF that] by (intro triple_write) (metis save_step, simp)
  show ?thesis
    unfolding apply_progress_def
    by (rule triple_lift, rule triple_if, rule triple_return, simp,
        rule triple_reading [where Q = "\<lambda>db. P db \<and> find_execution (ex_id e) db = Some e"], rule keeps_reads,
        rule triple_reading [where Q = "\<lambda>db. P db \<and> find_execution (ex_id e) db = Some e"], rule keeps_reads,
        rule triple_lift, rule triple_then, erule (1) saved)
      (auto intro!: triple_return)
qed

end

text \<open>Every target, and new executions.\<close>

locale execution_policy = transition_policy P "\<lambda>_. True" for P :: "center_db \<Rightarrow> bool" +
  assumes creation: "P db \<Longrightarrow> ex_state e = ''created'' \<Longrightarrow> ex_version e = 0 \<Longrightarrow> insert_execution e db = Inr db' \<Longrightarrow> P db'"
begin

lemmas keeps_any_transition [center_rules] = keeps_transition [OF TrueI] keeps_recover [OF TrueI]

lemma keeps_create_execution [center_rules]: "keeps (\<lambda>s. P (cn_db s)) (create_execution task c)"
proof -
  have "keeps (\<lambda>s. P (cn_db s)) (writeC (insert_execution (new_execution pk task route snapshot n c)))" for pk route snapshot n
    by (rule keeps_write) (erule (1) creation [rotated -1], simp_all add: new_execution_def)
  then have "keeps (\<lambda>s. P (cn_db s)) (store_execution (new_execution pk task route snapshot n c))" for pk route snapshot n
    unfolding store_execution_def by (intro cmd_rules center_rules)
  then show ?thesis
    unfolding create_execution_def create_on_route_def by (intro cmd_rules center_rules)
qed

section \<open>Commands\<close>

lemma keeps_ensure_battery [center_rules]: "keeps (\<lambda>s. P (cn_db s)) (ensure_battery_allows robot t docking)"
  unfolding ensure_battery_allows_def by (intro cmd_rules center_rules)

lemma keeps_insert_command [center_rules]:
  "keeps (\<lambda>s. P (cn_db s)) (insert_new_command robot execution t payload operator trace expiry note)"
  unfolding insert_new_command_def Let_def by (intro cmd_rules center_rules)

lemma keeps_command_body [center_rules]: "keeps (\<lambda>s. P (cn_db s)) (command_body e t options)"
  unfolding command_body_def start_body_def by (intro cmd_rules center_rules)

lemma keeps_request_command [center_rules]: "keeps (\<lambda>s. P (cn_db s)) (request_command e t target c)"
  unfolding request_command_def force_exit_executions_def by (intro cmd_rules center_rules)

lemma keeps_create [center_rules]:
  "keeps (\<lambda>s. P (cn_db s)) (create e t operator options trace)"
  "keeps (\<lambda>s. P (cn_db s)) (create_robot_command robot t payload operator expiry trace)"
  "keeps (\<lambda>s. P (cn_db s)) (create_task_recovery e episode attempt code message)"
  unfolding create_def create_robot_command_def create_task_recovery_def Let_def by (intro cmd_rules center_rules)+

lemma keeps_marks [center_rules]:
  "keeps (\<lambda>s. P (cn_db s)) (mark_published c)" "keeps (\<lambda>s. P (cn_db s)) (mark_publish_failed c m)"
  unfolding mark_published_def mark_publish_failed_def by (intro cmd_rules center_rules)+

lemma keeps_timeouts [center_rules]: "keeps (\<lambda>s. P (cn_db s)) (timeout_execution c e)"
  unfolding timeout_execution_def timed_transition_def Let_def by (intro cmd_rules center_rules)

lemma keeps_mark_timeout [center_rules]: "keeps (\<lambda>s. P (cn_db s)) (mark_timeout c)"
  unfolding mark_timeout_def expire_command_def only_task_errors_def by (intro cmd_rules center_rules)

lemma keeps_sweeps [center_rules]:
  "keeps (\<lambda>s. P (cn_db s)) expire_commands" "keeps (\<lambda>s. P (cn_db s)) publish_pending_commands"
  unfolding expire_commands_def publish_pending_commands_def publish_command_def by (intro cmd_rules center_rules)+

section \<open>Patrol loops\<close>

lemma keeps_loop_writes [center_rules]:
  "keeps (\<lambda>s. P (cn_db s)) (writeC (insert_loop l))" "keeps (\<lambda>s. P (cn_db s)) (writeC (save_loop l))"
  "keeps (\<lambda>s. P (cn_db s)) (writeC (update_loop pk f))" "keeps (\<lambda>s. P (cn_db s)) (writeC (insert_loop_event e))"
  "keeps (\<lambda>s. P (cn_db s)) (writeC (put_status x))" "keeps (\<lambda>s. P (cn_db s)) (writeC (insert_episode b))"
  "keeps (\<lambda>s. P (cn_db s)) (writeC (insert_run r))"
  by (rule keeps_quiet, (drule quiet_loop_writes | drule quiet_save_loop), simp)+

lemma keeps_loop_parts [center_rules]:
  "keeps (\<lambda>s. P (cn_db s)) (loop_event l kind key code message payload)" "keeps (\<lambda>s. P (cn_db s)) (save_columns l f)"
  "keeps (\<lambda>s. P (cn_db s)) (save_session l)" "keeps (\<lambda>s. P (cn_db s)) (ensure_recording_stop l reason)"
  unfolding loop_event_def save_columns_def save_session_def ensure_recording_stop_def Let_def by (intro cmd_rules center_rules)+

lemma keeps_set_state [center_rules]:
  "keeps (\<lambda>s. P (cn_db s)) (set_state l c)" "keeps (\<lambda>s. P (cn_db s)) (wait_second l now)"
  unfolding set_state_def wait_second_def Let_def by (intro cmd_rules center_rules)+

lemma keeps_force_exit [center_rules]: "keeps (\<lambda>s. P (cn_db s)) (force_exit_execution e reason)"
  unfolding force_exit_execution_def by (intro cmd_rules center_rules)

lemma keeps_recovery_stop [center_rules]: "keeps (\<lambda>s. P (cn_db s)) (begin_recovery_stop l e code message)"
  unfolding begin_recovery_stop_def hold_recovery_def stop_round_def by (intro cmd_rules center_rules)

lemma keeps_session_requests [center_rules]:
  "keeps (\<lambda>s. P (cn_db s)) (create_session task duration rest sid c)" "keeps (\<lambda>s. P (cn_db s)) (pause pk operator)"
  "keeps (\<lambda>s. P (cn_db s)) (ensure_manual_pause l)" "keeps (\<lambda>s. P (cn_db s)) (stop pk)"
  "keeps (\<lambda>s. P (cn_db s)) (continue_recovery pk)"
  unfolding create_session_def admit_session_def ensure_task_start_allowed_def insert_session_def pause_def ensure_manual_pause_def
    stop_def continue_recovery_def Let_def
  by (intro cmd_rules center_rules)+

lemma keeps_low_battery [center_rules]: "keeps (\<lambda>s. P (cn_db s)) (terminate_low_battery robot key percent source)"
proof -
  have "keeps (\<lambda>s. P (cn_db s)) (ensure_episode robot key percent source known)" for known key
    unfolding ensure_episode_def Let_def prod.case_eq_if by (intro cmd_rules center_rules)
  then show ?thesis
    unfolding terminate_low_battery_def low_battery_session_def low_battery_execution_def Let_def
    by (intro cmd_rules center_rules)
qed

lemma keeps_observe_battery [center_rules]: "keeps (\<lambda>s. P (cn_db s)) (observe_battery worker latest)"
  unfolding observe_battery_def count_sample_def Let_def
  by (intro cmd_rules center_rules) (simp add: clear_episode_def)

lemma keeps_rounds [center_rules]:
  "keeps (\<lambda>s. P (cn_db s)) (dispatch_round l)" "keeps (\<lambda>s. P (cn_db s)) (begin_observation l code message)"
  unfolding dispatch_round_def round_execution_def begin_observation_def Let_def by (intro cmd_rules center_rules)+

lemma keeps_process_parts [center_rules]:
  "keeps (\<lambda>s. P (cn_db s)) (process_stopping l now)" "keeps (\<lambda>s. P (cn_db s)) (process_deadline l now)"
  "keeps (\<lambda>s. P (cn_db s)) (process_waiting l now)" "keeps (\<lambda>s. P (cn_db s)) (process_running l e now)"
  unfolding process_stopping_def round_stopped_def loop_stopped_def process_deadline_def process_waiting_def process_running_def
  by (intro cmd_rules center_rules)+

lemma keeps_process_observing [center_rules]: "keeps (\<lambda>s. P (cn_db s)) (process_observing l e latest now)"
  unfolding process_observing_def observation_blocked_def await_reconciliation_def watch_window_def observation_begun_def
    observation_done_def replace_round_def dispatch_recovery_def Let_def
  by (intro cmd_rules center_rules)

lemma keeps_process_recovering [center_rules]: "keeps (\<lambda>s. P (cn_db s)) (process_recovering l e now)"
  unfolding process_recovering_def recovery_failed_def recovery_answered_def recovery_in_progress_def in_progress_begun_def
    in_progress_timeout_def Let_def
  by (intro cmd_rules center_rules)

lemma keeps_process [center_rules]: "keeps (\<lambda>s. P (cn_db s)) (process worker pk)"
  unfolding process_def process_state_def process_battery_def by (intro cmd_rules center_rules)

lemma keeps_process_due [center_rules]: "keeps (\<lambda>s. P (cn_db s)) (process_due worker limit)"
  unfolding process_due_def process_caught_def by (intro cmd_rules center_rules)

section \<open>Status, schedules, docking\<close>

lemma keeps_telemetry [center_rules]: "keeps (\<lambda>s. P (cn_db s)) (telemetry_status worker robot payload)"
  unfolding telemetry_status_def apply_status_def store_status_def Let_def by (intro cmd_rules center_rules)

lemma keeps_alert [center_rules]: "keeps (\<lambda>s. P (cn_db s)) (handle_alert robot payload ingested)"
  unfolding handle_alert_def stop_for_battery_def Let_def by (intro cmd_rules center_rules)

lemma keeps_distance [center_rules]: "keeps (\<lambda>s. P (cn_db s)) (update_patrol_loop_distance session pk batch)"
  unfolding update_patrol_loop_distance_def by (intro cmd_rules center_rules)

lemma keeps_runs [center_rules]:
  "keeps (\<lambda>s. P (cn_db s)) (ensure_run c planned status reason)" "keeps (\<lambda>s. P (cn_db s)) (save_run r)"
  "keeps (\<lambda>s. P (cn_db s)) (settle_run r status reason message)" "keeps (\<lambda>s. P (cn_db s)) (mark_schedule i stamp)"
  unfolding ensure_run_def save_run_def settle_run_def mark_schedule_def Let_def
  by (intro cmd_rules center_rules; simp add: update_run_def)+

lemma keeps_trigger [center_rules]:
  "keeps (\<lambda>s. P (cn_db s)) (record_skip c planned reason)" "keeps (\<lambda>s. P (cn_db s)) (trigger c planned order)"
  unfolding record_skip_def trigger_def refused_run_def dispatch_run_def start_run_def prod.case_eq_if
  by (intro cmd_rules center_rules)+

lemma keeps_dispatch_due [center_rules]: "keeps (\<lambda>s. P (cn_db s)) (dispatch_due planned order)"
  unfolding dispatch_due_def dispatch_robot_def Let_def by (intro cmd_rules center_rules)

lemma keeps_docking [center_rules]: "keeps (\<lambda>s. P (cn_db s)) (dispatch_docking_task robot map_pk route_pk episode persist order)"
proof -
  have "keeps (\<lambda>s. P (cn_db s)) (docking_task robot' route)" for robot' route
    unfolding docking_task_def Let_def by (intro cmd_rules center_rules; simp split: list.split)+
  then show ?thesis
    unfolding dispatch_docking_task_def admit_docking_def new_docking_def by (intro cmd_rules center_rules)
qed

end

end
