(* ===== verification/CenterSteps.thy ===== *)
theory CenterSteps
  imports CenterRules
begin

text \<open>
  The message handlers and the whole center under an execution policy, the runs of the center as lists of operations, and
  the two policies that matter: the history of an execution follows the state machine, and a robot has at most one active
  execution.
\<close>

section \<open>Handlers\<close>

context execution_policy
begin

lemma keeps_get_command [center_rules]: "keeps (\<lambda>s. P (cn_db s)) (get_command payload robot)"
  unfolding get_command_def by (intro cmd_rules center_rules)

lemma keeps_event_once [center_rules]: "keeps (\<lambda>s. P (cn_db s)) (command_event_once mid c kind payload)"
  unfolding command_event_once_def by (intro cmd_rules center_rules)

lemma keeps_ack [center_rules]: "keeps (\<lambda>s. P (cn_db s)) (handle_command_ack env robot)"
  unfolding handle_command_ack_def ack_execution_def Let_def by (intro cmd_rules center_rules)

lemma keeps_begin [center_rules]: "keeps (\<lambda>s. P (cn_db s)) (begin_executing payload c)"
  unfolding begin_executing_def by (intro cmd_rules center_rules)

lemma keeps_progress [center_rules]: "keeps (\<lambda>s. P (cn_db s)) (handle_command_progress env robot)"
  unfolding handle_command_progress_def recover_started_def Let_def by (intro cmd_rules center_rules)

lemma counters_report: "result_counters r = Inr (Some f) \<Longrightarrow> exec_step e (f e) \<and> ex_state (f e) = ex_state e"
  by (auto simp: result_counters_def same_run_def split: if_splits intro!: exec_step.report)

lemma keeps_counters: "result_counters r = Inr v \<Longrightarrow> keeps (\<lambda>s. P (cn_db s)) (case v of None \<Rightarrow> returnC () | Some f \<Rightarrow> update_executionC pk f)"
  by (cases v) (simp_all add: cmd_rules keeps_columns counters_report)

lemma keeps_implied [center_rules]: "keeps (\<lambda>s. P (cn_db s)) (implied_state e c terminal payload)"
  unfolding implied_state_def failed_control_def Let_def by (intro cmd_rules center_rules)

lemma keeps_final [center_rules]: "keeps (\<lambda>s. P (cn_db s)) (final_transition e final c payload)"
  unfolding final_transition_def by (intro cmd_rules center_rules)

lemma keeps_result_execution [center_rules]: "keeps (\<lambda>s. P (cn_db s)) (result_execution c terminal payload e)"
  unfolding result_execution_def
  by (rule cmd_rules center_rules keeps_lift_bind keeps_counters | assumption)+

lemma keeps_result_parts [center_rules]:
  "keeps (\<lambda>s. P (cn_db s)) (map_activated c robot)" "keeps (\<lambda>s. P (cn_db s)) (debug_session_done c success robot)"
  "keeps (\<lambda>s. P (cn_db s)) (boundary_applied c success)"
  unfolding map_activated_def debug_session_done_def boundary_applied_def Let_def by (intro cmd_rules center_rules; simp)+

lemma keeps_result [center_rules]: "keeps (\<lambda>s. P (cn_db s)) (handle_command_result env robot)"
  unfolding handle_command_result_def Let_def by (intro cmd_rules center_rules)

text \<open>A handler that locked the robot's execution knows its row.\<close>

lemma triple_lock_robot:
  assumes "\<And>e. triple w (\<lambda>s. P (cn_db s) \<and> find_execution (ex_id e) (cn_db s) = Some e) (g e) (\<lambda>_ s. P (cn_db s)) (\<lambda>s. P (cn_db s))"
  shows "triple w (\<lambda>s. P (cn_db s)) (bindC (lock_robot_execution payload robot) g) (\<lambda>_ s. P (cn_db s)) (\<lambda>s. P (cn_db s))"
proof (rule triple_bind [OF _ assms])
  show "triple w (\<lambda>s. P (cn_db s)) (lock_robot_execution payload robot)
      (\<lambda>e s. P (cn_db s) \<and> find_execution (ex_id e) (cn_db s) = Some e) (\<lambda>s. P (cn_db s))"
    by (rule tripleI) (auto simp: lock_robot_execution_def run_simps dbC_def find_execution_def dest: row_of_key
        split: option.splits if_splits bind_splits)
qed

lemma keeps_lock_robot [center_rules]: "keeps (\<lambda>s. P (cn_db s)) (lock_robot_execution payload robot)"
  unfolding lock_robot_execution_def by (intro cmd_rules center_rules)

lemma keeps_notes [center_rules]:
  "keeps (\<lambda>s. P (cn_db s)) (obstacle_stage env e)" "keeps (\<lambda>s. P (cn_db s)) (obstacle_recovery env e)"
  "keeps (\<lambda>s. P (cn_db s)) (obstacle_speech env e)" "keeps (\<lambda>s. P (cn_db s)) (navigation_note env e)"
  "keeps (\<lambda>s. P (cn_db s)) (safe_hold env e)"
  unfolding obstacle_stage_def record_stage_def obstacle_recovery_def obstacle_speech_def navigation_note_def record_note_def safe_hold_def Let_def
  by (intro cmd_rules center_rules)+

lemma triple_round_started:
  "triple w (\<lambda>s. P (cn_db s) \<and> find_execution (ex_id e) (cn_db s) = Some e) (round_started env e) (\<lambda>_ s. P (cn_db s)) (\<lambda>s. P (cn_db s))"
proof -
  have moves: "ex_id e' = ex_id e" "exec_step e (e\<lparr>ex_round := ex_round e', ex_version := ex_version e'\<rparr>)"
    if "round_columns e payload = Inr e'" for payload e'
    using that by (auto simp: round_columns_def same_run_def intro!: exec_step.report)
  show ?thesis
    unfolding round_started_def seq_valueC_def seqC.simps
    by (rule triple_lift, simp only: moves(1), rule triple_then, rule triple_then, rule triple_update, erule moves(2))
      (auto intro!: center_triple_keeps cmd_rules center_rules)
qed

lemma keeps_milestone [center_rules]: "keeps (\<lambda>s. P (cn_db s)) (record_milestone env e milestone)"
  unfolding record_milestone_def by (intro cmd_rules center_rules)

lemma triple_task_progress:
  "triple w (\<lambda>s. P (cn_db s) \<and> find_execution (ex_id e) (cn_db s) = Some e) (task_progress env e) (\<lambda>_ s. P (cn_db s)) (\<lambda>s. P (cn_db s))"
  unfolding task_progress_def Let_def by (rule triple_bind [OF triple_progress], rule center_triple_keeps) (intro cmd_rules center_rules)

lemma keeps_reported [center_rules]: "keeps (\<lambda>s. P (cn_db s)) (reported_transition env e target version)"
  unfolding reported_transition_def Let_def by (intro cmd_rules center_rules)

lemma keeps_logged [center_rules]: "keeps (\<lambda>s. P (cn_db s)) (progress_logged env e)" "keeps (\<lambda>s. P (cn_db s)) (state_logged env)"
  unfolding progress_logged_def state_logged_def Let_def by (intro cmd_rules center_rules)+

lemma triple_progress_or_state:
  "triple w (\<lambda>s. P (cn_db s) \<and> find_execution (ex_id e) (cn_db s) = Some e) (progress_or_state env e) (\<lambda>_ s. P (cn_db s)) (\<lambda>s. P (cn_db s))"
  unfolding progress_or_state_def Let_def
proof (rule triple_if)
  show "triple w (\<lambda>s. P (cn_db s) \<and> find_execution (ex_id e) (cn_db s) = Some e)
      (bindC (task_progress env e) (\<lambda>e'. seq_valueC [progress_logged env e', notify_execution e'] (execution_result e'))) (\<lambda>_ s. P (cn_db s)) (\<lambda>s. P (cn_db s))"
    by (rule triple_bind [OF triple_task_progress], rule center_triple_keeps) (intro cmd_rules center_rules)
qed (rule triple_weaken, (intro cmd_rules center_rules), simp)

lemma keeps_task_event [center_rules]: "keeps (\<lambda>s. P (cn_db s)) (handle_task_event env robot)"
  unfolding handle_task_event_def Let_def
  by (rule keeps_triple, rule triple_lock_robot,
      intro triple_if triple_round_started triple_progress_or_state; (rule triple_weaken, rule keeps_notes, simp))

lemma keeps_respond [center_rules]: "keeps (\<lambda>s. P (cn_db s)) (respond online kind robot env payload)"
  unfolding respond_def by (intro cmd_rules center_rules)

lemma keeps_trajectory [center_rules]: "keeps (\<lambda>s. P (cn_db s)) (handle_trajectory online env robot)"
  unfolding handle_trajectory_def new_batch_def store_batch_def Let_def by (intro cmd_rules center_rules; simp add: add_points_def)

lemma keeps_sync_parts [center_rules]:
  "keeps (\<lambda>s. P (cn_db s)) (sync_recover e state version payload)" "keeps (\<lambda>s. P (cn_db s)) (sync_transition e state version payload)"
  unfolding sync_recover_def sync_transition_def by (intro cmd_rules center_rules)+

lemma keeps_sync [center_rules]: "keeps (\<lambda>s. P (cn_db s)) (handle_sync online env robot)"
  unfolding handle_sync_def reported_execution_def sync_execution_def Let_def by (intro cmd_rules center_rules)

lemma keeps_presence_parts [center_rules]:
  "keeps (\<lambda>s. P (cn_db s)) (presence_online env robot now)" "keeps (\<lambda>s. P (cn_db s)) (presence_heartbeat env robot now)"
  unfolding presence_online_def presence_heartbeat_def Let_def
  by (intro cmd_rules center_rules; simp add: put_session_def edit_sessions_def)+

lemma keeps_presence_offline [center_rules]: "keeps (\<lambda>s. P (cn_db s)) (presence_offline env robot now)"
  unfolding presence_offline_def Let_def
  by (intro cmd_rules keeps_quiet) (auto simp: edit_sessions_def split: if_splits)

lemma keeps_presence [center_rules]:
  "keeps (\<lambda>s. P (cn_db s)) (handle_presence env robot)" "keeps (\<lambda>s. P (cn_db s)) (telemetry_pose env robot)"
  unfolding handle_presence_def telemetry_pose_def Let_def by (intro cmd_rules center_rules)+

section \<open>A message\<close>

lemma keeps_defaults [center_rules]: "keeps (\<lambda>s. P (cn_db s)) (inbound_defaults topic env robot full)"
  unfolding inbound_defaults_def by (intro cmd_rules center_rules)

lemma keeps_record_inbound [center_rules]: "keeps (\<lambda>s. P (cn_db s)) (record_inbound topic env robot)"
  unfolding record_inbound_def by (intro cmd_rules center_rules)

lemma keeps_persist [center_rules]: "keeps (\<lambda>s. P (cn_db s)) (persist_inbound_failure topic env robot x)"
  unfolding persist_inbound_failure_def by (intro cmd_rules center_rules) (simp add: put_inbound_def)

lemma keeps_dispatch:
  "(\<And>e r. keeps (\<lambda>s. P (cn_db s)) (services e r)) \<Longrightarrow> keeps (\<lambda>s. P (cn_db s)) (dispatch services online env robot)"
  unfolding dispatch_def Let_def by (intro cmd_rules center_rules)

lemma keeps_retry: "keeps I m \<Longrightarrow> keeps I (with_lock_retry n m)"
  by (induction n) (auto intro!: cmd_rules)

lemma keeps_message:
  "(\<And>e r. keeps (\<lambda>s. P (cn_db s)) (services e r)) \<Longrightarrow> keeps (\<lambda>s. P (cn_db s)) (handle_mqtt_message services online topic raw)"
  unfolding handle_mqtt_message_def handle_mqtt_message_once_def handle_envelope_once_def process_inbound_def
  by (intro cmd_rules center_rules keeps_retry keeps_dispatch)

lemma keeps_protocol_errors [center_rules]: "keeps (\<lambda>s. P (cn_db s)) (publish_trajectory_rejection topic raw code message)"
  unfolding publish_trajectory_rejection_def by (intro cmd_rules center_rules)

lemma keeps_on_message:
  "(\<And>e r. keeps (\<lambda>s. P (cn_db s)) (services e r)) \<Longrightarrow> keeps (\<lambda>s. P (cn_db s)) (on_message services topic raw)"
  unfolding on_message_def by (intro cmd_rules center_rules keeps_message)

lemma keeps_offline [center_rules]: "keeps (\<lambda>s. P (cn_db s)) mark_offline_robots"
  unfolding mark_offline_robots_def Let_def by (intro cmd_rules center_rules; simp)

end

end
