(* ===== verification/CenterHistory.thy ===== *)
theory CenterHistory
  imports CenterSteps
begin

text \<open>
  Runs of the center as lists of operations in any order, and what every run keeps: the history of each execution follows the
  abstract state machine, and a robot has at most one active execution. Then the consequences: finished executions are
  final, and the timeout of a start command never frees the robot.
\<close>

section \<open>Runs\<close>

text \<open>What the processes of the center do: the MQTT worker and its housekeeping, the supervisor of patrol loops, the scheduler,
  and the requests of operators. An instance that a request holds can be old. An exception ends the operation, not the center.\<close>

datatype center_op =
    Received string string
  | PublishPending
  | ExpireCommands
  | MarkOffline
  | NewExecution patrol_task_row creation
  | NewCommand execution_row string "int option" pydict "string option"
  | NewRobotCommand robot_row string pydict "int option" "int option" "string option"
  | NewRecovery execution_row string int string string
  | StartLoop patrol_task_row int int "string option" creation
  | PauseLoop string "int option"
  | ContinueLoop string
  | StopLoop string
  | ProcessLoop string string
  | SuperviseLoops string nat
  | DispatchSchedules int creation
  | RunSchedule schedule_row int creation
  | DockRobot int "int option" "int option" string bool creation

definition run_op :: "services \<Rightarrow> center_op \<Rightarrow> unit ctr" where
  "run_op services op =
     (case op of
        Received topic raw \<Rightarrow> on_message services topic raw
      | PublishPending \<Rightarrow> publish_pending_commands
      | ExpireCommands \<Rightarrow> expire_commands
      | MarkOffline \<Rightarrow> mark_offline_robots
      | NewExecution task c \<Rightarrow> thenC (create_execution task c) (returnC ())
      | NewCommand e t operator options trace \<Rightarrow> thenC (create e t operator options trace) (returnC ())
      | NewRobotCommand robot t payload operator expiry trace \<Rightarrow>
          thenC (create_robot_command robot t payload operator expiry trace) (returnC ())
      | NewRecovery e episode attempt code message \<Rightarrow> thenC (create_task_recovery e episode attempt code message) (returnC ())
      | StartLoop task duration rest sid c \<Rightarrow> thenC (create_session task duration rest sid c) (returnC ())
      | PauseLoop pk operator \<Rightarrow> thenC (pause pk operator) (returnC ())
      | ContinueLoop pk \<Rightarrow> thenC (continue_recovery pk) (returnC ())
      | StopLoop pk \<Rightarrow> thenC (stop pk) (returnC ())
      | ProcessLoop worker pk \<Rightarrow> thenC (process worker pk) (returnC ())
      | SuperviseLoops worker limit \<Rightarrow> process_due worker limit
      | DispatchSchedules planned order \<Rightarrow> dispatch_due planned order
      | RunSchedule c planned order \<Rightarrow> thenC (trigger c (local_minute planned) order) (returnC ())
      | DockRobot robot map_pk route_pk episode persist order \<Rightarrow>
          thenC (dispatch_docking_task robot map_pk route_pk episode persist order) (returnC ()))"

fun run_center :: "services \<Rightarrow> center_world \<Rightarrow> center_op list \<Rightarrow> center_state \<Rightarrow> center_state" where
  "run_center services w [] s = s"
| "run_center services w (op # ops) s = run_center services w ops (snd (run_op services op w s))"

context execution_policy
begin

lemma keeps_run_op:
  "(\<And>e r. keeps (\<lambda>s. P (cn_db s)) (services e r)) \<Longrightarrow> keeps (\<lambda>s. P (cn_db s)) (run_op services op)"
  by (cases op) (auto simp: run_op_def intro!: cmd_rules center_rules keeps_on_message)

lemma policy_run:
  assumes "\<And>e r. keeps (\<lambda>s. P (cn_db s)) (services e r)" "P (cn_db s)"
  shows "P (cn_db (run_center services w ops s))"
  using assms(2)
proof (induction ops arbitrary: s)
  case (Cons op ops)
  have "P (cn_db (snd (run_op services op w s)))" using keeps_run_op [OF assms(1)] Cons.prems by (simp add: keeps_def)
  then show ?case by (simp add: Cons.IH)
qed simp

end

section \<open>A small center\<close>

text \<open>Instances for concrete runs: robot 1 with one execution \<open>e1\<close> of task 7.\<close>

definition sample_execution :: "string \<Rightarrow> string \<Rightarrow> execution_row" where
  "sample_execution state code = \<lparr> ex_id = ''e1'', ex_task = 7, ex_robot = 1, ex_route = None, ex_map = None, ex_snapshot = [],
     ex_loop = None, ex_round = 0, ex_dispatch_key = None, ex_state = state, ex_version = 3, ex_waypoint_index = None,
     ex_waypoint_id = [], ex_completed = 0, ex_total = 2, ex_distance = None, ex_eta = None, ex_started = None, ex_finished = None,
     ex_accepted = None, ex_paused = None, ex_failure_code = code, ex_failure_message = [], ex_created_by = None,
     ex_last_edge_event = None \<rparr>"

definition sample_robot :: robot_row where
  "sample_robot = \<lparr> rb_id = 1, rb_code = ''r1'', rb_status = ''online'', rb_connection = ''online'', rb_battery = 80,
     rb_network = 100, rb_localization = ''normal'', rb_ros_ready = True, rb_nav_ready = True, rb_control_mode = ''autonomous'',
     rb_agent_version = [], rb_capabilities = PList [], rb_map_id = [], rb_map_version = [], rb_state_version = 0,
     rb_heartbeat = 0, rb_last_seen = None, rb_charging_map = None, rb_charging_route = None \<rparr>"

definition sample_message :: "string \<Rightarrow> pydict \<Rightarrow> pydict" where
  "sample_message kind payload =
     [(''protocol_version'', PStr ''1.0''), (''message_id'', PStr ''00000000-0000-0000-0000-000000000001''),
      (''message_type'', PStr kind), (''robot_id'', PStr ''r1''), (''session_id'', PStr ''00000000-0000-0000-0000-000000000002''),
      (''sent_at'', PStr ''2026-01-01T00:00:00Z''), (''trace_id'', PStr ''00000000-0000-0000-0000-000000000003''),
      (''payload'', PDict payload)]"

text \<open>A world in which every text is the given message, nothing is locked, and the clock ticks.\<close>

definition sample_world :: "pydict \<Rightarrow> center_world" where
  "sample_world message = \<lparr> cw_now = int, cw_uuid = (\<lambda>_. ''00000000-0000-0000-0000-000000000009''), cw_locked = (\<lambda>_. False),
     cw_reply = (\<lambda>_ _. Inr PNone), cw_json_loads = (\<lambda>_. Some (PDict message)),
     cw_parse_datetime = (\<lambda>_. Inr (Some \<lparr> dt_wall = 0, dt_offset = Some 0 \<rparr>)), cw_isoformat = (\<lambda>_. []),
     cw_decimal = (\<lambda>_. Inl TypeError), cw_setting = (\<lambda>_. None) \<rparr>"

definition empty_db :: center_db where
  "empty_db = \<lparr> db_robots = [], db_sessions = [], db_tasks = [], db_maps = [], db_routes = [], db_executions = [],
     db_task_events = [], db_commands = [], db_command_events = [], db_inbound = [], db_statuses = [], db_episodes = [],
     db_points = [], db_receipts = [], db_debug = [], db_boundaries = [],
     db_loops = [], db_loop_events = [], db_schedules = [], db_runs = [], db_calendar = [] \<rparr>"

definition sample_center :: "execution_row list \<Rightarrow> center_state" where
  "sample_center executions = \<lparr> cn_tick = 0, cn_events = [], cn_cache = [],
     cn_db = empty_db\<lparr>db_robots := [sample_robot], db_executions := executions\<rparr> \<rparr>"

definition no_services :: services where
  "no_services env robot = returnC []"

lemma no_services_db [simp]: "snd (no_services env robot w s) = s"
  by (simp add: no_services_def returnC_def)

section \<open>The history of an execution\<close>

definition history :: "center_db \<Rightarrow> center_db \<Rightarrow> bool" where
  "history db0 db = (\<forall>pk r. find_execution pk db0 = Some r \<longrightarrow> (\<exists>r'. find_execution pk db = Some r' \<and> exec_step\<^sup>*\<^sup>* r r'))"

lemma find_update:
  assumes "update_execution pk f db = Inr db'" "\<And>x. ex_id x = pk \<Longrightarrow> ex_id (f x) = pk"
  shows "find_execution pk' db' = (if pk' = pk then map_option f (find_execution pk db) else find_execution pk' db)"
  using assms by (auto simp: update_execution_def find_execution_def row_of_edit split: option.splits)

lemma find_insert:
  "insert_execution e db = Inr db' \<Longrightarrow> find_execution pk db' =
     (case find_execution pk db of None \<Rightarrow> if ex_id e = pk then Some e else None | Some r \<Rightarrow> Some r)"
  by (auto simp: insert_execution_def find_execution_def row_of_append split: option.split)

lemma history_refl [simp]: "history db db"
  by (simp add: history_def)

lemma history_trans: "history a b \<Longrightarrow> history b c \<Longrightarrow> history a c"
  unfolding history_def by (meson rtranclp_trans)

interpretation hist: execution_policy "history db0" for db0
proof
  fix db db' :: center_db
  assume "history db0 db" "db_executions db' = db_executions db"
  then show "history db0 db'" by (simp add: history_def find_execution_def)
next
  fix db db' pk r f
  assume h: "history db0 db" and r: "find_execution pk db = Some r" "exec_step r (f r)"
    and u: "\<And>x. ex_id x = pk \<Longrightarrow> ex_id (f x) = pk" "update_execution pk f db = Inr db'"
  have "history db db'" using find_update [OF u(2,1)] r by (auto simp: history_def)
  with h show "history db0 db'" by (rule history_trans)
next
  fix db db' e
  assume "history db0 db" "insert_execution e db = Inr db'"
  moreover from this have "history db db'" by (simp add: history_def find_insert)
  ultimately show "history db0 db'" by (blast intro: history_trans)
qed

text \<open>An execution that ended, other than by the center's own timeout.\<close>

definition ended :: "execution_row \<Rightarrow> bool" where
  "ended r = (is_final (ex_state r) \<and> \<not> given_up r)"

lemma final_no_targets: "is_final t \<Longrightarrow> allowed_targets t = []"
proof -
  have "list_all (\<lambda>t. allowed_targets t = []) TERMINAL_STATES" by code_simp
  then show "is_final t \<Longrightarrow> allowed_targets t = []" by (simp add: is_final_def list_all_iff)
qed

lemma ended_step: "exec_step r r' \<Longrightarrow> ended r \<Longrightarrow> ex_state r' = ex_state r \<and> ex_failure_code r' = ex_failure_code r \<and> ex_finished r' = ex_finished r"
  by (induction rule: exec_step.induct) (auto simp: ended_def final_no_targets)

lemma history_facts:
  "exec_step\<^sup>*\<^sup>* r r' \<Longrightarrow> ex_version r \<le> ex_version r' \<and> same_run r r' \<and>
     (ended r \<longrightarrow> ex_state r' = ex_state r \<and> ex_failure_code r' = ex_failure_code r \<and> ex_finished r' = ex_finished r)"
proof (induction rule: rtranclp_induct)
  case (step y z)
  have "same_run y z" using step.hyps(2) by (cases rule: exec_step.cases) auto
  with step have "same_run r z" by (auto simp: same_run_def)
  moreover have "ended r \<Longrightarrow> ended y" using step.IH by (auto simp: ended_def given_up_def)
  ultimately show ?case using step.IH exec_step_version [OF step.hyps(2)] ended_step [OF step.hyps(2)] by auto
qed (simp add: same_run_def)

text \<open>C4. Executions follow the state machine. Whatever the operations of the center and their order are, and whatever
  fails in between, an execution stays in the database with its robot, task, snapshot and keys; its state version never
  decreases; its row is reached from the earlier one by allowed transitions, reports and recoveries of executions that only
  the center had given up; and an execution that has ended, other than by the center's own timeout, keeps its state, its
  failure code and its end time for ever. The services that are not modelled are assumed to keep to the same steps.\<close>

theorem executions_follow_state_machine:
  assumes services: "\<And>env robot w s. history (cn_db s) (cn_db (snd (services env robot w s)))"
    and row: "find_execution pk (cn_db s) = Some r"
  shows "\<exists>r'. find_execution pk (cn_db (run_center services w ops s)) = Some r' \<and> exec_step\<^sup>*\<^sup>* r r' \<and> ex_version r \<le> ex_version r' \<and>
    same_run r r' \<and> (ended r \<longrightarrow> ex_state r' = ex_state r \<and> ex_failure_code r' = ex_failure_code r \<and> ex_finished r' = ex_finished r)"
proof -
  have "keeps (\<lambda>s'. history (cn_db s) (cn_db s')) (services env robot)" for env robot
    by (rule keepsI) (rule history_trans [OF _ services])
  then have "history (cn_db s) (cn_db (run_center services w ops s))" by (rule hist.policy_run) simp
  with row obtain r' where "find_execution pk (cn_db (run_center services w ops s)) = Some r'" "exec_step\<^sup>*\<^sup>* r r'"
    by (auto simp: history_def)
  with history_facts show ?thesis by blast
qed

theorem executions_follow_state_machine_witness:
  "\<forall>w raw. \<exists>r'. find_execution ''e1'' (cn_db (run_center no_services w
       [Received ''robots/r1/up/command'' raw, ExpireCommands, MarkOffline, PublishPending] (sample_center [sample_execution ''completed'' []]))) = Some r'
     \<and> ex_state r' = ''completed'' \<and> ex_robot r' = 1"
proof (intro allI)
  fix w raw
  let ?s = "sample_center [sample_execution ''completed'' []]" and ?e = "sample_execution ''completed'' []"
  have row: "find_execution ''e1'' (cn_db ?s) = Some ?e" and e: "ended ?e" "ex_state ?e = ''completed''" "ex_robot ?e = 1"
    by (simp_all add: find_execution_def sample_center_def sample_execution_def empty_db_def ended_def is_final_def
        TERMINAL_STATES_def given_up_def)
  have "history (cn_db s) (cn_db (snd (no_services env robot v s)))" for env robot v s by simp
  from executions_follow_state_machine [where services = no_services, OF this row] e
  show "\<exists>r'. find_execution ''e1'' (cn_db (run_center no_services w
       [Received ''robots/r1/up/command'' raw, ExpireCommands, MarkOffline, PublishPending] ?s)) = Some r'
     \<and> ex_state r' = ''completed'' \<and> ex_robot r' = 1" unfolding same_run_def by metis
qed

section \<open>One active execution per robot\<close>

definition executions_ok :: "center_db \<Rightarrow> bool" where
  "executions_ok db = (distinct (map ex_id (db_executions db))
     \<and> (\<forall>r \<in> set (db_executions db). 0 \<le> ex_version r \<and> ex_state r \<in> set EXECUTION_STATES)
     \<and> (\<forall>r \<in> set (db_executions db). \<forall>q \<in> set (db_executions db). is_active r \<and> is_active q \<and> ex_robot r = ex_robot q \<longrightarrow> ex_id r = ex_id q))"

lemma listed_in_states: "list_all (\<lambda>(c, ts). list_all (\<lambda>t. t \<in> set EXECUTION_STATES) (ts @ TERMINAL_STATES)) LISTED_TRANSITIONS"
  by code_simp

lemma allowed_in_states:
  assumes "t \<in> set (allowed_targets c)"
  shows "t \<in> set EXECUTION_STATES"
proof (cases "map_of LISTED_TRANSITIONS c")
  case None
  then show ?thesis using assms by (simp add: allowed_targets_def)
next
  case (Some ts)
  from bspec [OF listed_in_states [unfolded list_all_iff] map_of_SomeD [OF Some]]
  have "\<forall>t \<in> set (ts @ TERMINAL_STATES). t \<in> set EXECUTION_STATES" by (simp only: prod.case list_all_iff)
  moreover have "t \<in> set (ts @ TERMINAL_STATES)" using assms Some by (simp add: allowed_targets_def split: if_splits)
  ultimately show ?thesis ..
qed

lemma active_in_states: "t \<in> set ACTIVE_STATES \<Longrightarrow> t \<in> set EXECUTION_STATES"
  by (auto simp: ACTIVE_STATES_def EXECUTION_STATES_def)

lemma step_state: "exec_step r r' \<Longrightarrow> ex_state r \<in> set EXECUTION_STATES \<Longrightarrow> ex_state r' \<in> set EXECUTION_STATES"
  by (induction rule: exec_step.induct) (auto dest: allowed_in_states active_in_states)

lemma check_execution_ok:
  "check_execution e rows = Inr u \<Longrightarrow> 0 \<le> ex_version e \<and>
     (\<forall>r \<in> set rows. is_active e \<and> ex_id r \<noteq> ex_id e \<and> ex_robot r = ex_robot e \<longrightarrow> \<not> is_active r)"
  by (auto simp: check_execution_def seqE_ok integrity_def raise_if_def split: if_splits)

lemma distinct_edit:
  assumes "distinct (map key rs)" "row_of key k rs = Some r" "key (f r) = k"
  shows "distinct (map key (edit_rows key k f rs))" "set (edit_rows key k f rs) \<subseteq> insert (f r) (set rs - {r})"
proof -
  have only: "x = r" if "x \<in> set rs" "key x = k" for x
    using assms(1,2) that row_of_in [OF assms(2)] row_of_key [OF assms(2)] by (metis distinct_map inj_on_def)
  then have "map key (edit_rows key k f rs) = map key rs" using assms(3) by (auto simp: edit_rows_def)
  then show "distinct (map key (edit_rows key k f rs))" using assms(1) by simp
  show "set (edit_rows key k f rs) \<subseteq> insert (f r) (set rs - {r})"
  proof
    fix x
    assume "x \<in> set (edit_rows key k f rs)"
    then obtain y where y: "y \<in> set rs" "x = (if key y = k then f y else y)" by (auto simp: edit_rows_def)
    then show "x \<in> insert (f r) (set rs - {r})" using only [of y] row_of_key [OF assms(2)] by (cases "key y = k") auto
  qed
qed

text \<open>A row that passes the check joins the others.\<close>

lemma only_one_active:
  assumes "executions_ok db" "0 \<le> ex_version e \<and> (\<forall>r \<in> set (db_executions db). is_active e \<and> ex_id r \<noteq> ex_id e \<and> ex_robot r = ex_robot e \<longrightarrow> \<not> is_active r)"
    "ex_state e \<in> set EXECUTION_STATES" "S \<subseteq> insert e (set (db_executions db))"
  shows "(\<forall>r \<in> S. 0 \<le> ex_version r \<and> ex_state r \<in> set EXECUTION_STATES)
     \<and> (\<forall>r \<in> S. \<forall>q \<in> S. is_active r \<and> is_active q \<and> ex_robot r = ex_robot q \<longrightarrow> ex_id r = ex_id q)"
proof (intro conjI ballI impI)
  let ?D = "set (db_executions db)"
  have D: "\<And>r. r \<in> ?D \<Longrightarrow> 0 \<le> ex_version r" "\<And>r. r \<in> ?D \<Longrightarrow> ex_state r \<in> set EXECUTION_STATES"
    "\<And>r q. r \<in> ?D \<Longrightarrow> q \<in> ?D \<Longrightarrow> is_active r \<Longrightarrow> is_active q \<Longrightarrow> ex_robot r = ex_robot q \<Longrightarrow> ex_id r = ex_id q"
    using assms(1) unfolding executions_ok_def by blast+
  fix r
  assume "r \<in> S"
  then consider "r = e" | "r \<in> ?D" using assms(4) by blast
  note r = this
  show "0 \<le> ex_version r" by (cases rule: r) (simp add: assms(2), rule D(1))
  show "ex_state r \<in> set EXECUTION_STATES" by (cases rule: r) (simp only: assms(3), rule D(2))
  fix q
  assume "q \<in> S"
  then consider "q = e" | "q \<in> ?D" using assms(4) by blast
  note q = this
  assume both: "is_active r \<and> is_active q \<and> ex_robot r = ex_robot q"
  show "ex_id r = ex_id q"
  proof (cases rule: r; cases rule: q)
  qed (use both assms(2) D(3) [of r q] in metis)+
qed

lemma executions_ok_join:
  assumes ok: "executions_ok db" and c: "check_execution e (db_executions db) = Inr u" and st: "ex_state e \<in> set EXECUTION_STATES"
    and d: "distinct (map ex_id (db_executions db'))" and sub: "set (db_executions db') \<subseteq> insert e (set (db_executions db))"
  shows "executions_ok db'"
  unfolding executions_ok_def
  by (rule conjI [OF d]) (rule only_one_active [OF ok check_execution_ok [OF c] st sub])

lemma executions_okD: "executions_ok db \<Longrightarrow> distinct (map ex_id (db_executions db))"
  "executions_ok db \<Longrightarrow> r \<in> set (db_executions db) \<Longrightarrow> ex_state r \<in> set EXECUTION_STATES"
  unfolding executions_ok_def by (elim conjE, assumption) (elim conjE, drule (1) bspec, erule conjunct2)

interpretation single: execution_policy executions_ok
proof
  fix db db' :: center_db
  assume ok: "executions_ok db" and same: "db_executions db' = db_executions db"
  show "executions_ok db'" using ok unfolding executions_ok_def same .
next
  fix db db' pk r f
  assume ok: "executions_ok db" and r: "find_execution pk db = Some r" "exec_step r (f r)"
    and u: "\<And>x. ex_id x = pk \<Longrightarrow> ex_id (f x) = pk" "update_execution pk f db = Inr db'"
  have row: "row_of ex_id pk (db_executions db) = Some r" using r(1) by (simp add: find_execution_def)
  have rows: "db_executions db' = edit_rows ex_id pk f (db_executions db)" and c: "check_execution (f r) (db_executions db) = Inr ()"
    using u(2) r(1) by (auto simp: update_execution_def split: option.splits)
  have id: "ex_id (f r) = pk" using u(1) row_of_key [OF row] by blast
  note d = executions_okD(1) [OF ok]
  show "executions_ok db'"
  proof (rule executions_ok_join [OF ok c])
    show "ex_state (f r) \<in> set EXECUTION_STATES" by (rule step_state [OF r(2) executions_okD(2) [OF ok row_of_in [OF row]]])
    show "distinct (map ex_id (db_executions db'))" unfolding rows by (rule distinct_edit(1) [where key = ex_id and f = f, OF d row id])
    show "set (db_executions db') \<subseteq> insert (f r) (set (db_executions db))"
      unfolding rows by (rule subset_trans [OF distinct_edit(2) [where key = ex_id and f = f, OF d row id]]) blast
  qed
next
  fix db db' e
  assume ok: "executions_ok db" and e: "ex_state e = ''created''" "ex_version e = 0" "insert_execution e db = Inr db'"
  have rows: "db_executions db' = db_executions db @ [e]" and c: "check_execution e (db_executions db) = Inr ()"
    and new: "row_of ex_id (ex_id e) (db_executions db) = None"
    using e(3) by (auto simp: insert_execution_def seqE_ok integrity_def find_execution_def)
  show "executions_ok db'"
  proof (rule executions_ok_join [OF ok c])
    show "ex_state e \<in> set EXECUTION_STATES" unfolding e(1) by (simp add: EXECUTION_STATES_def)
    show "distinct (map ex_id (db_executions db'))"
      using executions_okD(1) [OF ok] new by (auto simp: rows row_of_None)
    show "set (db_executions db') \<subseteq> insert e (set (db_executions db))" by (auto simp: rows)
  qed
qed

text \<open>C5. One active execution per robot. From a database with distinct execution ids, known states, non-negative versions and
  at most one active execution per robot, every run of the center leads to such a database, however operators, schedules,
  the sweeper and late messages interleave.\<close>

theorem one_active_execution_per_robot:
  assumes "executions_ok (cn_db s)"
    and "\<And>env robot w s. executions_ok (cn_db s) \<Longrightarrow> executions_ok (cn_db (snd (services env robot w s)))"
  shows "executions_ok (cn_db (run_center services w ops s))"
  by (rule single.policy_run) (auto intro: keepsI assms)

lemma sample_executions_ok: "executions_ok (cn_db (sample_center [sample_execution ''running'' []]))"
  by (simp add: executions_ok_def sample_center_def sample_execution_def empty_db_def EXECUTION_STATES_def)

theorem one_active_execution_per_robot_witness:
  "\<forall>w topic raw. executions_ok (cn_db (run_center no_services w [Received topic raw, ExpireCommands, PublishPending]
     (sample_center [sample_execution ''running'' []])))"
  by (intro allI, rule one_active_execution_per_robot) (simp_all only: sample_executions_ok no_services_db)

end
