(* ===== verification/CenterReliable.thy ===== *)
theory CenterReliable
  imports CenterHistory
begin

text \<open>
  What a message does to the center, whatever its handler does: its effects happen once however often it is delivered, and
  a message whose handling fails changes nothing but its own audit row.
\<close>

section \<open>The audit row\<close>

lemma defaults_run: "inbound_defaults topic env robot full w s = (fst (inbound_defaults topic env robot full w s0), s)"
  by (auto simp: inbound_defaults_def settingC_def worldC_def bindC_def liftC_def returnC_def split: sum.splits)

lemma record_known:
  assumes "inbound_defaults topic env robot False w s = (Inr fresh, s)" "find_inbound (cv_message_id env) (cn_db s) = Some row"
  shows "record_inbound topic env robot w s = (Inr (row, False), s)"
  using assms by (simp add: record_inbound_def exceptC_def bindC_def dbC_def returnC_def)

lemma new_dict_error: "new_dict v = Inl x \<Longrightarrow> x = TypeError \<or> x = ValueError"
proof (cases v)
  case (PList xs)
  have "pairs_of xs = Inl x \<Longrightarrow> x = TypeError \<or> x = ValueError" for x
  proof (induction xs)
    case (Cons v vs)
    have "pair_of v = Inl y \<Longrightarrow> y = TypeError \<or> y = ValueError" for y
      by (cases v rule: pair_of.cases) auto
    with Cons show ?case by (auto simp: bindE_err)
  qed simp
  moreover assume "new_dict v = Inl x"
  ultimately show ?thesis using PList by (auto simp: bindE_err)
qed (auto split: if_splits)

lemma audit_error: "telemetry_audit_payload env full n = Inl x \<Longrightarrow> x = TypeError \<or> x = ValueError"
proof -
  have "compact_payload p = Inl x \<Longrightarrow> x = TypeError \<or> x = ValueError" for p
    unfolding compact_payload_def bindE_err by (auto dest: new_dict_error)
  then show "telemetry_audit_payload env full n = Inl x \<Longrightarrow> x = TypeError \<or> x = ValueError"
    unfolding telemetry_audit_payload_def by (simp split: if_splits add: bindE_err)
qed

lemma defaults_error: "inbound_defaults topic env robot full w s = (Inl x, s') \<Longrightarrow> x = TypeError \<or> x = ValueError"
  by (auto simp: inbound_defaults_def settingC_def worldC_def run_simps dest: audit_error[OF sym])

lemma record_result:
  assumes "record_inbound topic env robot w s = (Inr (row, created), s')"
  shows "\<exists>fresh. inbound_defaults topic env robot False w s = (Inr fresh, s)"
    "\<not> created \<Longrightarrow> find_inbound (cv_message_id env) (cn_db s') = Some row"
proof -
  obtain v where v: "inbound_defaults topic env robot False w s = (v, s)" using defaults_run by metis
  then show "\<exists>fresh. inbound_defaults topic env robot False w s = (Inr fresh, s)"
    using assms by (cases v) (auto simp: record_inbound_def exceptC_def bindC_def raiseC_def dest: defaults_error)
  with v show "find_inbound (cv_message_id env) (cn_db s') = Some row" if "\<not> created"
    using assms that
    by (auto simp: record_inbound_def exceptC_def bindC_def raiseC_def dbC_def returnC_def getC_def thenC_def
        split: option.splits prod.splits sum.splits pyexc.splits)
qed

text \<open>A message of which the row is processed is only acknowledged as a duplicate.\<close>

lemma process_duplicate:
  assumes "inbound_defaults topic env robot False w s = (Inr fresh, s)" "find_inbound (cv_message_id env) (cn_db s) = Some row"
    "ib_status row = ''processed''"
  shows "process_inbound services online topic env robot w s =
    (Inr [(''duplicate'', PBool True), (''message_id'', PStr (cv_message_id env))], s)"
  using record_known [OF assms(1,2)] assms(3) by (simp add: process_inbound_def atomicC_def bindC_def returnC_def)

lemma retry_first: "m w s = (Inr a, s') \<Longrightarrow> with_lock_retry n m w s = (Inr a, s')"
  by (cases n) (simp_all add: exceptC_def)

lemma retry_success: "with_lock_retry n m w s = (Inr a, s') \<Longrightarrow> \<exists>s0. m w s0 = (Inr a, s')"
proof (induction n arbitrary: s)
  case (Suc n)
  then show ?case by (auto simp: exceptC_def raiseC_def split: prod.splits sum.splits if_splits)
qed auto

lemma update_inbound_row:
  assumes "update_inbound mid f db = Inr db'" "\<And>r. ib_message_id (f r) = ib_message_id r"
  shows "\<exists>r. find_inbound mid db' = Some (f r)"
  using assms by (auto simp: update_inbound_def find_inbound_def row_of_edit split: if_splits)

lemma writeC_ok: "writeC f w s = (Inr u, s') \<Longrightarrow> f (cn_db s) = Inr (cn_db s')"
  by (auto simp: writeC_def Let_def split: if_splits sum.splits)

text \<open>A message that was handled has a processed row, and its audit row could be built.\<close>

lemma handled_message:
  assumes parse: "parse_message (cw_json_loads w) (cw_parse_datetime w) raw = Inr env"
    and kind: "cv_message_type env \<noteq> ''trajectory.batch''"
    and first: "handle_mqtt_message services online topic raw w s = (Inr res, s1)"
  shows "(\<exists>row. find_inbound (cv_message_id env) (cn_db s1) = Some row \<and> ib_status row = ''processed'')
    \<and> (\<exists>robot fresh. inbound_defaults topic env robot False w s1 = (Inr fresh, s1))"
proof -
  from first obtain s0 where "handle_mqtt_message_once services online topic raw w s0 = (Inr res, s1)"
    by (auto simp: handle_mqtt_message_def bindC_ok settingC_def worldC_def dest: retry_success)
  then obtain robot s0 where "handle_envelope_once services online topic env robot w s0 = (Inr res, s1)"
    using parse by (auto simp: handle_mqtt_message_once_def bindC_ok worldC_def liftC_def dbC_def raiseC_def split: option.splits)
  then have "process_inbound services online topic env robot w s0 = (Inr res, s1)"
    using kind by (auto simp: handle_envelope_once_def exceptC_def thenC_def bindC_def raiseC_def split: prod.splits sum.splits)
  then obtain inbound created s' where rec: "record_inbound topic env robot w s0 = (Inr (inbound, created), s')"
    and rest: "(if \<not> created \<and> ib_status inbound = ''processed''
        then returnC [(''duplicate'', PBool True), (''message_id'', PStr (cv_message_id env))]
      else bindC (dispatch services online env robot) (\<lambda>result.
        bindC nowC (\<lambda>now. thenC (writeC (update_inbound (cv_message_id env) (processed_columns now))) (returnC result)))) w s' = (Inr res, s1)"
    by (auto simp: process_inbound_def atomicC_def bindC_ok split: prod.splits sum.splits)
  have audit: "\<exists>fresh. inbound_defaults topic env robot False w s1 = (Inr fresh, s1)"
    using record_result(1) [OF rec] defaults_run [of topic env robot False w s1 s0] by auto
  show ?thesis
  proof (cases "\<not> created \<and> ib_status inbound = ''processed''")
    case True
    then show ?thesis using rest record_result(2) [OF rec] audit by (auto simp: returnC_run)
  next
    case False
    then obtain now s2 where "writeC (update_inbound (cv_message_id env) (processed_columns now)) w s2 = (Inr (), s1)"
      using rest by (auto simp: run_simps simp del: not_le split: if_splits)
    from update_inbound_row [OF writeC_ok [OF this]]
    have "\<exists>r. find_inbound (cv_message_id env) (cn_db s1) = Some (processed_columns now r)" by (simp add: processed_columns_def)
    then show ?thesis using audit by (auto simp: processed_columns_def)
  qed
qed

text \<open>C9. A message takes effect once. After a message other than a trajectory batch was handled, every later delivery of it is
  answered as a duplicate, runs no handler, writes nothing and sends nothing: the state of the center is exactly the one
  before, as long as the row of the message is there and the robot is known. So the broker may deliver at least once.\<close>

theorem message_effects_once:
  assumes "parse_message (cw_json_loads w) (cw_parse_datetime w) raw = Inr env" and "cv_message_type env \<noteq> ''trajectory.batch''"
    and "handle_mqtt_message services online topic raw w s = (Inr result, s1)"
    and "find_inbound (cv_message_id env) (cn_db s2) = find_inbound (cv_message_id env) (cn_db s1)"
    and "robot_by_code (cv_robot_id env) (cn_db s2) = Some robot"
  shows "handle_mqtt_message services' online' topic' raw w s2 =
    (Inr [(''duplicate'', PBool True), (''message_id'', PStr (cv_message_id env))], s2)"
proof -
  obtain row robot' fresh where row: "find_inbound (cv_message_id env) (cn_db s2) = Some row" "ib_status row = ''processed''"
    and audit: "inbound_defaults topic env robot' False w s1 = (Inr fresh, s1)"
    using handled_message [OF assms(1-3)] assms(4) by auto
  have "\<exists>fresh. inbound_defaults topic' env robot False w s2 = (Inr fresh, s2)"
    using audit by (auto simp: inbound_defaults_def settingC_def worldC_def run_simps)
  with row have "process_inbound services' online' topic' env robot w s2 =
      (Inr [(''duplicate'', PBool True), (''message_id'', PStr (cv_message_id env))], s2)" by (auto intro: process_duplicate)
  then have "handle_mqtt_message_once services' online' topic' raw w s2 =
      (Inr [(''duplicate'', PBool True), (''message_id'', PStr (cv_message_id env))], s2)"
    using assms(1,2,5) by (simp add: handle_mqtt_message_once_def handle_envelope_once_def bindC_def worldC_def liftC_def dbC_def exceptC_def)
  then show ?thesis
    by (simp add: handle_mqtt_message_def bindC_def settingC_def worldC_def retry_first)
qed

section \<open>Failures\<close>

text \<open>What a failure leaves behind: nothing but the audit row of the message, marked as failed.\<close>

definition only_failure_row :: "string \<Rightarrow> center_db \<Rightarrow> center_db \<Rightarrow> bool" where
  "only_failure_row mid db0 db =
     (\<exists>rows. db = db0\<lparr>db_inbound := rows\<rparr> \<and> (\<forall>m. m \<noteq> mid \<longrightarrow> row_of ib_message_id m rows = find_inbound m db0)
        \<and> (rows = db_inbound db0 \<or> (\<exists>r. row_of ib_message_id mid rows = Some r \<and> ib_status r = ''failed'')))"

lemma only_failure_refl [simp]: "only_failure_row mid db db"
  unfolding only_failure_row_def by (rule exI [of _ "db_inbound db"]) (simp add: find_inbound_def)

lemma put_failure:
  "only_failure_row mid db0 db \<Longrightarrow> ib_message_id r = mid \<Longrightarrow> ib_status r = ''failed'' \<Longrightarrow> only_failure_row mid db0 (put_inbound r db)"
  by (auto simp: only_failure_row_def put_inbound_def find_inbound_def row_of_edit row_of_append split: option.splits)

lemma keeps_persist_failure: "keeps (\<lambda>s. only_failure_row (cv_message_id env) db0 (cn_db s)) (persist_inbound_failure topic env robot x)"
proof -
  let ?I = "\<lambda>s. only_failure_row (cv_message_id env) db0 (cn_db s)"
  have row: "triple w ?I (inbound_defaults topic env robot True) (\<lambda>row s. ?I s \<and> ib_message_id row = cv_message_id env) ?I" for w
    by (rule tripleI) (auto simp: inbound_defaults_def settingC_def worldC_def run_simps)
  have "keeps ?I (bindC (inbound_defaults topic env robot True) (\<lambda>row. bindC nowC (\<lambda>now.
      writeC (\<lambda>db. Inr (put_inbound (row\<lparr>ib_status := ''failed'', ib_error := exc_text x, ib_processed := Some now\<rparr>) db)))))"
  proof (rule keeps_triple, rule triple_bind [OF row])
    fix w row
    show "triple w (\<lambda>s. ?I s \<and> ib_message_id row = cv_message_id env)
        (bindC nowC (\<lambda>now. writeC (\<lambda>db. Inr (put_inbound (row\<lparr>ib_status := ''failed'', ib_error := exc_text x, ib_processed := Some now\<rparr>) db))))
        (\<lambda>_. ?I) ?I"
      by (rule triple_assume [where G = "ib_message_id row = cv_message_id env"], blast, rule triple_weaken [OF keeps_bind])
        (auto intro!: center_rules keeps_write put_failure)
  qed
  from keeps_except [OF keeps_atomic [OF this] keeps_pure(1)] show ?thesis unfolding persist_inbound_failure_def .
qed

lemma triple_any: "triple w I m (\<lambda>_ _. True) (\<lambda>_. True)"
  by (simp add: triple_def split: prod.split sum.split)

lemma triple_retry: "triple w I m (\<lambda>_ _. True) I \<Longrightarrow> triple w I (with_lock_retry n m) (\<lambda>_ _. True) I"
  by (induction n) (auto intro!: triple_except triple_raise)

text \<open>C13. A message that fails rolls back. When the handling of a message other than a trajectory batch ends in an
  exception, however far its handler came and however often a collision of writers made it start again, the database is
  the one before, except for the audit row of the message, which is as it was or marked as failed. So a later delivery
  runs the handler again on unchanged data.\<close>

theorem failed_message_rolls_back:
  assumes parse: "parse_message (cw_json_loads w) (cw_parse_datetime w) raw = Inr env"
    and kind: "cv_message_type env \<noteq> ''trajectory.batch''"
    and failed: "handle_mqtt_message services online topic raw w s = (Inl x, s')"
  shows "only_failure_row (cv_message_id env) (cn_db s) (cn_db s')"
proof -
  let ?I = "\<lambda>s'. only_failure_row (cv_message_id env) (cn_db s) (cn_db s')"
  have envelope: "triple w ?I (handle_envelope_once services online topic env robot) (\<lambda>_ _. True) ?I" for robot
    unfolding handle_envelope_once_def process_inbound_def if_not_P [OF kind]
    by (rule triple_except [OF triple_atomic [OF triple_any]], rule triple_conseq [OF center_triple_keeps])
      (auto intro!: cmd_rules keeps_persist_failure)
  have "triple w ?I (handle_mqtt_message_once services online topic raw) (\<lambda>_ _. True) ?I"
  proof (rule tripleI)
    fix s0 y s1
    assume "?I s0" "handle_mqtt_message_once services online topic raw w s0 = (Inl y, s1)"
    then show "?I s1" using tripleE [OF envelope]
      by (auto simp: handle_mqtt_message_once_def bindC_def worldC_def liftC_def parse dbC_def raiseC_def split: option.splits)
  qed simp
  note step = triple_retry [OF this]
  from failed obtain n where "with_lock_retry n (handle_mqtt_message_once services online topic raw) w s = (Inl x, s')"
    by (auto simp: handle_mqtt_message_def bindC_def settingC_def worldC_def)
  from tripleE [OF step _ this] show ?thesis by simp
qed

section \<open>Concrete messages\<close>

definition sample_pose :: pydict where
  "sample_pose = sample_message ''telemetry.pose'' []"

text \<open>An acknowledgement of a command that the center does not know.\<close>

definition sample_ack :: pydict where
  "sample_ack = sample_message ''command.ack'' [(''command_id'', PStr ''00000000-0000-0000-0000-000000000004''), (''ack'', PStr ''accepted'')]"

lemma run_cases:
  "(case v of Inr e \<Rightarrow> P e | Inl _ \<Rightarrow> False) \<Longrightarrow> \<exists>e. v = Inr e \<and> P e"
  "(case m of (Inr d, s) \<Rightarrow> Q d s | _ \<Rightarrow> False) \<Longrightarrow> \<exists>d s. m = (Inr d, s) \<and> Q d s"
  "(case m of (Inl x, s) \<Rightarrow> R x s | _ \<Rightarrow> False) \<Longrightarrow> \<exists>x s. m = (Inl x, s) \<and> R x s"
  by (cases v, simp_all) (cases m; cases "fst m"; simp)+

lemma sample_pose_run:
  "\<exists>e. parse_message (cw_json_loads (sample_world sample_pose)) (cw_parse_datetime (sample_world sample_pose)) (RawText []) = Inr e
     \<and> cv_message_type e \<noteq> ''trajectory.batch'' \<and> cv_robot_id e = ''r1''"
  "\<exists>d s. handle_mqtt_message no_services False ''t'' (RawText []) (sample_world sample_pose) (sample_center []) = (Inr d, s)
     \<and> d = [(''accepted'', PBool True)] \<and> robot_by_code ''r1'' (cn_db s) \<noteq> None"
  by (rule run_cases, code_simp)+

lemma sample_ack_run:
  "\<exists>e. parse_message (cw_json_loads (sample_world sample_ack)) (cw_parse_datetime (sample_world sample_ack)) (RawText []) = Inr e
     \<and> cv_message_type e \<noteq> ''trajectory.batch'' \<and> cv_message_id e = ''00000000-0000-0000-0000-000000000001''"
  "\<exists>x s. handle_mqtt_message no_services False ''t'' (RawText []) (sample_world sample_ack) (sample_center []) = (Inl x, s)
     \<and> x = protocol_error ''UNKNOWN_COMMAND'' ''command not found''"
  by (rule run_cases, code_simp)+

theorem message_effects_once_witness:
  "\<exists>d s1. handle_mqtt_message no_services False ''t'' (RawText []) (sample_world sample_pose) (sample_center []) = (Inr [(''accepted'', PBool True)], s1)
     \<and> handle_mqtt_message no_services True ''t'' (RawText []) (sample_world sample_pose) s1 = (Inr ((''duplicate'', PBool True) # d), s1)"
proof -
  from sample_pose_run(1) obtain e where e: "parse_message (cw_json_loads (sample_world sample_pose)) (cw_parse_datetime (sample_world sample_pose)) (RawText []) = Inr e"
    "cv_message_type e \<noteq> ''trajectory.batch''" "cv_robot_id e = ''r1''" by blast
  from sample_pose_run(2) obtain s1 robot where s1: "robot_by_code ''r1'' (cn_db s1) = Some robot"
    "handle_mqtt_message no_services False ''t'' (RawText []) (sample_world sample_pose) (sample_center []) = (Inr [(''accepted'', PBool True)], s1)" by blast
  from message_effects_once [OF e(1,2) s1(2) refl, unfolded e(3), OF s1(1)] s1(2) show ?thesis by blast
qed

theorem failed_message_rolls_back_witness:
  "\<exists>x s1. handle_mqtt_message no_services False ''t'' (RawText []) (sample_world sample_ack) (sample_center []) = (Inl x, s1)
     \<and> only_failure_row ''00000000-0000-0000-0000-000000000001'' (cn_db (sample_center [])) (cn_db s1)"
  using sample_ack_run failed_message_rolls_back by metis

end
