(* ===== verification/CenterAdmission.thy ===== *)
theory CenterAdmission
  imports CenterReliable
begin

text \<open>
  Commands to an execution, all or nothing: what the creation of a command leaves in the database, the battery guard before
  a start, and the timeout of a start command, which holds the execution and so keeps the robot from a second task.
\<close>

section \<open>A start that times out holds its robot\<close>

definition busy_with :: "string \<Rightarrow> int \<Rightarrow> center_db \<Rightarrow> bool" where
  "busy_with pk robot db = (\<exists>e. find_execution pk db = Some e \<and> is_active e \<and> ex_robot e = robot)"

lemma busy_same_table: "busy_with pk robot db \<Longrightarrow> db_executions db' = db_executions db \<Longrightarrow> busy_with pk robot db'"
  by (simp add: busy_with_def find_execution_def)

interpretation busy: transition_policy "busy_with pk robot" "\<lambda>t. t \<in> set ACTIVE_STATES" for pk robot
proof
  fix db db' :: center_db and pk robot
  assume "busy_with pk robot db" "db_executions db' = db_executions db"
  then show "busy_with pk robot db'" by (rule busy_same_table)
next
  fix db db' pk' r f
  assume "busy_with pk robot db" "find_execution pk' db = Some r" "exec_step r (f r)"
    "ex_state (f r) = ex_state r \<or> ex_state (f r) \<in> set ACTIVE_STATES"
    and u: "\<And>x. ex_id x = pk' \<Longrightarrow> ex_id (f x) = pk'" "update_execution pk' f db = Inr db'"
  moreover from this have "same_run r (f r)" by (auto elim: exec_step.cases)
  ultimately show "busy_with pk robot db'"
    using find_update [OF u(2,1)] by (auto simp: busy_with_def is_active_def same_run_def split: if_splits)
qed

lemma keeps_start_timeout:
  assumes "cm_type c = ''task.start''"
  shows "keeps (\<lambda>s. busy_with pk robot (cn_db s)) (mark_timeout c)"
proof -
  have "''interrupted'' \<in> set ACTIVE_STATES" by (simp add: ACTIVE_STATES_def)
  then show ?thesis
    unfolding mark_timeout_def expire_command_def only_task_errors_def timeout_execution_def timed_transition_def Let_def if_P [OF assms]
    by (intro cmd_rules center_rules; simp)
qed

text \<open>The admission of a new execution.\<close>

lemma busy_active: "busy_with pk robot db \<Longrightarrow> \<exists>e. active_execution robot db = Some e \<and> is_active e \<and> ex_robot e = robot"
  unfolding busy_with_def active_execution_def find_execution_def
  by (cases "find (\<lambda>e. ex_robot e = robot \<and> is_active e) (rev (db_executions db))")
    (auto simp: find_None_iff find_Some_iff dest: row_of_in)

lemma busy_refused:
  assumes "find_robot (pt_robot task) (cn_db s) = Some r" "active_execution (pt_robot task) (cn_db s) = Some e"
  shows "create_execution task c w s = (Inl (busy_error e), s)"
  using assms by (auto simp: create_execution_def atomicC_def getC_def bindC_def dbC_def returnC_def raiseC_def find_robot_def
      dest: row_of_key)

text \<open>C11. A start command that times out never frees its robot. Whatever the sweep does with a \<open>task.start\<close> and however it
  ends, an active execution stays active on its robot (it is held as \<open>interrupted\<close> at most), and every attempt to create
  another execution on this robot raises ROBOT_BUSY and changes nothing, until the edge reports or an operator forces the
  exit.\<close>

theorem start_timeout_keeps_robot_busy:
  assumes start: "cm_type c = ''task.start''" and e: "find_execution pk (cn_db s) = Some e" "is_active e"
    and sweep: "mark_timeout c w s = (result, s1)"
    and task: "pt_robot task = ex_robot e" "find_robot (ex_robot e) (cn_db s1) = Some robot"
  shows "(\<exists>e1. find_execution pk (cn_db s1) = Some e1 \<and> is_active e1 \<and> ex_robot e1 = ex_robot e)
    \<and> (\<exists>e2. is_active e2 \<and> ex_robot e2 = ex_robot e \<and> create_execution task order w s1 = (Inl (busy_error e2), s1))"
proof -
  have "busy_with pk (ex_robot e) (cn_db s)" using e by (auto simp: busy_with_def)
  with keepsD [OF keeps_start_timeout [OF start] sweep] have busy: "busy_with pk (ex_robot e) (cn_db s1)" .
  from busy_active [OF this] obtain e2 where "active_execution (ex_robot e) (cn_db s1) = Some e2" "is_active e2" "ex_robot e2 = ex_robot e"
    by blast
  with busy_refused [of task s1 robot e2 order w] task busy show ?thesis by (auto simp: busy_with_def)
qed

definition sample_command :: "string \<Rightarrow> command_row" where
  "sample_command kind = new_command 1 (Some ''e1'') kind [] None [] ''c1'' 0 5"

definition sample_task :: patrol_task_row where
  "sample_task = \<lparr> pt_id = 7, pt_name = ''round'', pt_robot = 1, pt_route = None, pt_enabled = True, pt_record_rosbag = False \<rparr>"

text \<open>The start of \<open>e1\<close> is never confirmed; the sweep holds the execution.\<close>

definition sample_dispatched :: center_state where
  "sample_dispatched = (let s = sample_center [sample_execution ''dispatching'' []] in
     s\<lparr>cn_db := (cn_db s)\<lparr>db_commands := [sample_command ''task.start'']\<rparr>\<rparr>)"

lemma sample_sweep:
  "\<exists>u s1. mark_timeout (sample_command ''task.start'') (sample_world []) sample_dispatched = (Inr u, s1)
     \<and> map ex_state (db_executions (cn_db s1)) = [''interrupted''] \<and> find_robot 1 (cn_db s1) = Some sample_robot"
  by (rule run_cases, code_simp)

theorem start_timeout_keeps_robot_busy_witness:
  "\<exists>s1. mark_timeout (sample_command ''task.start'') (sample_world []) sample_dispatched = (Inr (), s1)
     \<and> map ex_state (db_executions (cn_db s1)) = [''interrupted'']
     \<and> (\<forall>order. \<exists>e2. create_execution sample_task order (sample_world []) s1 = (Inl (busy_error e2), s1))"
proof -
  from sample_sweep obtain s1 where s1: "mark_timeout (sample_command ''task.start'') (sample_world []) sample_dispatched = (Inr (), s1)"
    "map ex_state (db_executions (cn_db s1)) = [''interrupted'']" "find_robot 1 (cn_db s1) = Some sample_robot" by auto
  have kind: "cm_type (sample_command ''task.start'') = ''task.start''" by (simp add: sample_command_def new_command_def)
  have e: "find_execution ''e1'' (cn_db sample_dispatched) = Some (sample_execution ''dispatching'' [])"
    "is_active (sample_execution ''dispatching'' [])" "ex_robot (sample_execution ''dispatching'' []) = 1" "pt_robot sample_task = 1"
    by code_simp+
  have "\<exists>e2. create_execution sample_task order (sample_world []) s1 = (Inl (busy_error e2), s1)" for order
    using start_timeout_keeps_robot_busy [OF kind e(1,2), unfolded e(3), OF s1(1) e(4) s1(3), of order] by blast
  then show ?thesis by (intro exI [of _ s1] conjI allI s1(1,2))
qed

section \<open>Commands are created whole or not at all\<close>

text \<open>Statements that send nothing.\<close>

lemma silent_parts [cmd_rules]:
  "keeps (\<lambda>s. cn_events s = es) (dbC f)" "keeps (\<lambda>s. cn_events s = es) (worldC g)" "keeps (\<lambda>s. cn_events s = es) nowC"
  "keeps (\<lambda>s. cn_events s = es) uuidC" "keeps (\<lambda>s. cn_events s = es) (settingC name n)" "keeps (\<lambda>s. cn_events s = es) (writeC h)"
  by (rule keepsI, simp add: dbC_def worldC_def nowC_def uuidC_def read_tick_def settingC_def writeC_def Let_def split: sum.split)+

lemma silent_atomic [cmd_rules]: "keeps (\<lambda>s. cn_events s = es) m \<Longrightarrow> keeps (\<lambda>s. cn_events s = es) (atomicC m)"
  unfolding keeps_def atomicC_def by (auto split: prod.splits sum.splits) (metis snd_conv)+

lemma silent_rows [cmd_rules]: "(\<And>r. keeps I (body r)) \<Longrightarrow> keeps I (for_rows body rs)"
  by (rule keeps_for_rows)

lemma silent_get [cmd_rules]: "keeps (\<lambda>s. cn_events s = es) (getC f)"
  unfolding getC_def by (intro cmd_rules)

lemma silent_transition [cmd_rules]: "keeps (\<lambda>s. cn_events s = es) (transition pk target q)"
  unfolding transition_def apply_transition_def lock_execution_def or_now_def record_task_event_def record_command_event_def
    reconcile_task_start_for_execution_def reconcile_start_command_def Let_def
  by (intro cmd_rules)

lemma silent_create: "keeps (\<lambda>s. cn_events s = es) (create e t operator options trace)"
  unfolding create_def ensure_battery_allows_def command_body_def start_body_def insert_new_command_def trace_of_def
    record_command_event_def request_command_def force_exit_executions_def Let_def
  by (intro cmd_rules)

text \<open>What a transition leaves in the row of its execution.\<close>

interpretation table: execution_frame "\<lambda>db. db_executions db = rows" for rows
  by unfold_locales simp

lemma save_execution_table: "save_execution e db = Inr db' \<Longrightarrow> find_execution (ex_id e) db \<noteq> None \<Longrightarrow>
    db_executions db' = edit_rows ex_id (ex_id e) (\<lambda>_. e) (db_executions db)"
  by (auto simp: save_execution_def update_execution_def split: option.splits if_splits)

lemma transition_ok:
  assumes "transition pk target q w s = (Inr e, s')"
  shows "\<exists>e0. find_execution pk (cn_db s) = Some e0 \<and> ex_state e \<in> set (allowed_targets (ex_state e0)) \<and> target = PStr (ex_state e)
    \<and> ex_version e = (case rq_version q of None \<Rightarrow> ex_version e0 + 1 | Some v \<Rightarrow> v) \<and> ex_version e0 < ex_version e
    \<and> same_run e0 e \<and> db_executions (cn_db s') = edit_rows ex_id pk (\<lambda>_. e) (db_executions (cn_db s)) \<and> find_execution pk (cn_db s') = Some e"
proof -
  let ?v = "\<lambda>e0. case rq_version q of None \<Rightarrow> ex_version e0 + 1 | Some v \<Rightarrow> v"
  from assms obtain e0 t where e0: "find_execution pk (cn_db s) = Some e0" and t: "assert_transition_allowed (ex_state e0) target = Inr t"
    and v: "ex_version e0 < ?v e0" and run: "apply_transition e0 t (?v e0) q w s = (Inr e, s')"
    by (auto simp: transition_def lock_execution_def getC_def atomicC_def dbC_def run_simps Let_def simp del: not_le dest!: sym [of "Inr _"]
      split: option.split_asm if_split_asm prod.split_asm sum.split_asm)
  from run obtain stamp s1 s2 where e: "e = moved t (?v e0) stamp (rq_code q) (rq_message q) e0" and time: "or_now (rq_occurred q) w s = (Inr stamp, s1)"
    and save: "writeC (save_execution e) w s1 = (Inr (), s2)"
    and rest: "seqC [record_task_event (task_event e q stamp), whenC (is_final t) (reconcile_task_start_for_execution e (rq_event q))] w s2 = (Inr (), s')"
    by (auto simp: apply_transition_def Let_def seq_valueC_def run_simps)
  have id: "ex_id e = pk" using e0 by (auto simp: e moved_def find_execution_def dest: row_of_key)
  have "cn_db s1 = cn_db s" using keepsD [OF keeps_or_now [where P = "\<lambda>db. db = cn_db s"] time] by simp
  then have "db_executions (cn_db s2) = edit_rows ex_id pk (\<lambda>_. e) (db_executions (cn_db s))"
    using save_execution_table [OF writeC_ok [OF save]] id e0 by simp
  moreover have kept: "keeps (\<lambda>s. db_executions (cn_db s) = rows)
      (seqC [record_task_event (task_event e q stamp), whenC (is_final t) (reconcile_task_start_for_execution e (rq_event q))])" for rows
    by (intro cmd_rules table.keeps_other_writes table.keeps_reconcile_start)
  ultimately have table: "db_executions (cn_db s') = edit_rows ex_id pk (\<lambda>_. e) (db_executions (cn_db s))"
    using keepsD [where I = "\<lambda>s. db_executions (cn_db s) = edit_rows ex_id pk (\<lambda>_. e) rows" for rows, OF kept rest] by blast
  moreover have "t \<in> set (allowed_targets (ex_state e0))" "target = PStr t"
    using t by (auto simp: assert_transition_allowed_def dest: allowed_target split: if_splits)
  moreover have "find_execution pk (cn_db s') = Some e" using table e0 id by (simp add: find_execution_def row_of_edit)
  ultimately show ?thesis using e0 v by (auto simp: e moved_def same_run_def)
qed

text \<open>A transition to a state that is not final leaves the commands alone.\<close>

lemma command_table_writes:
  "insert_task_event t db = Inr db' \<Longrightarrow> db_commands db' = db_commands db"
  "save_execution e db = Inr db' \<Longrightarrow> db_commands db' = db_commands db"
  "insert_command_event v db = Inr db' \<Longrightarrow> db_commands db' = db_commands db"
  by (auto simp: insert_task_event_def save_execution_def insert_execution_def update_execution_def insert_command_event_def
    split: option.splits if_splits)

lemma keeps_commands:
  assumes "\<not> is_final t"
  shows "keeps (\<lambda>s. db_commands (cn_db s) = cs) (transition pk (PStr t) q)"
proof -
  have quiet: "keeps (\<lambda>s. db_commands (cn_db s) = cs) (writeC (save_execution e))" "keeps (\<lambda>s. db_commands (cn_db s) = cs) (record_task_event v)" for e v
    unfolding record_task_event_def by (rule keeps_write [where P = "\<lambda>db. db_commands db = cs"], simp add: command_table_writes)+
  have "keeps (\<lambda>s. db_commands (cn_db s) = cs) (bindC (liftC (assert_transition_allowed c (PStr t))) (\<lambda>t.
      if v \<le> n then raiseC (TaskStateError ''STALE_TASK_STATE'') else apply_transition r t v q))" for c v n r
    unfolding apply_transition_def Let_def using assms
    by (intro keeps_lift_bind) (auto simp: assert_transition_allowed_def whenC_def intro!: cmd_rules quiet
        keeps_or_now [where P = "\<lambda>db. db_commands db = cs"] split: if_splits dest: allowed_target)
  then show ?thesis
    unfolding transition_def lock_execution_def Let_def
    by (intro keeps_atomic [where P = "\<lambda>db. db_commands db = cs"]) (rule keeps_bind, rule keeps_get [where P = "\<lambda>db. db_commands db = cs"])
qed

lemma commands_kept:
  assumes "transition pk (PStr t) q w s = (r, s')" "\<not> is_final t"
  shows "db_commands (cn_db s') = db_commands (cn_db s)"
proof -
  have "keeps (\<lambda>s1. db_commands (cn_db s1) = db_commands (cn_db s)) (transition pk (PStr t) q)" by (rule keeps_commands) (rule assms(2))
  then show ?thesis unfolding keeps_def using assms(1) by (metis snd_conv)
qed

lemma insert_command_row: "insert_command c db = Inr db' \<Longrightarrow> find_command (cm_id c) db' = Some c"
  by (auto simp: insert_command_def find_command_def seqE_ok integrity_def raise_if_def row_of_append split: if_splits)

lemma insert_new_command_ok:
  assumes "insert_new_command robot x t payload operator trace expiry note w s = (Inr c, s')"
  shows "find_command (cm_id c) (cn_db s') = Some c" "db_executions (cn_db s') = db_executions (cn_db s)"
    "cm_type c = t" "cm_execution c = x" "cm_robot c = robot" "cm_status c = ''created''" "cm_payload c = payload"
proof -
  from assms obtain tid s1 issued pk now s2 where c: "c = new_command robot x t payload operator tid pk issued (now + expiry * SECOND)"
    and trace: "trace_of trace w s = (Inr tid, s1)" and insert: "writeC (insert_command c) w (s1\<lparr>cn_tick := Suc (Suc (Suc (cn_tick s1)))\<rparr>) = (Inr (), s2)"
    and event: "record_command_event pk ''created'' ''center'' None note w s2 = (Inr (), s')"
    by (auto simp: insert_new_command_def Let_def seq_valueC_def run_simps nowC_def uuidC_def read_tick_def)
  have "cn_db s1 = cn_db s"
    using keepsD [where I = "\<lambda>s'. cn_db s' = cn_db s", OF keeps_parts(6) [where P = "\<lambda>db. db = cn_db s"] trace] by simp
  then have new: "insert_command c (cn_db s) = Inr (cn_db s2)" using writeC_ok [OF insert] by simp
  note event = writeC_ok [OF event [unfolded record_command_event_def]]
  show "find_command (cm_id c) (cn_db s') = Some c"
    using insert_command_row [OF new] command_table_writes(3) [OF event] by (simp add: find_command_def)
  show "db_executions (cn_db s') = db_executions (cn_db s)" using quiet_writes(3) [OF new] quiet_writes(5) [OF event] by simp
  show "cm_type c = t" "cm_execution c = x" "cm_robot c = robot" "cm_status c = ''created''" "cm_payload c = payload"
    by (simp_all add: c new_command_def)
qed

lemma target_not_final: "map_of COMMAND_TARGET_STATES t = Some target \<Longrightarrow> \<not> is_final target"
proof -
  have "list_all (\<lambda>(t, target). \<not> is_final target) COMMAND_TARGET_STATES" by code_simp
  then show "map_of COMMAND_TARGET_STATES t = Some target \<Longrightarrow> \<not> is_final target"
    by (auto simp only: list_all_iff dest!: map_of_SomeD)
qed

text \<open>The battery guard and the payload only read.\<close>

lemma keeps_readers:
  "keeps (\<lambda>s. P (cn_db s)) (ensure_battery_allows robot t docking)" "keeps (\<lambda>s. P (cn_db s)) (command_body e t options)"
  unfolding ensure_battery_allows_def command_body_def start_body_def by (intro cmd_rules center_rules)+

text \<open>A forced exit cancels every active execution of the robot.\<close>

definition active_ids :: "int \<Rightarrow> center_db \<Rightarrow> string set" where
  "active_ids robot db = ex_id ` {r \<in> set (db_executions db). ex_robot r = robot \<and> is_active r}"

lemma cancelled_not_active: "ex_state e = ''cancelled'' \<Longrightarrow> \<not> is_active e"
  by (simp add: is_active_def ACTIVE_STATES_def)

lemma active_ids_edit:
  assumes "db_executions db' = edit_rows ex_id pk (\<lambda>_. e) (db_executions db)" "\<not> is_active e"
  shows "active_ids robot db' \<subseteq> active_ids robot db - {pk}"
  using assms by (auto simp: active_ids_def edit_rows_def split: if_splits)

lemma force_exit_ok:
  assumes "for_rows (\<lambda>r. thenC (transition (ex_id r) (PStr ''cancelled'') (q r)) (returnC ())) rows w s = (Inr u, s')"
    "active_ids robot (cn_db s) \<subseteq> ex_id ` set rows"
  shows "active_ids robot (cn_db s') = {}"
  using assms
proof (induction rows arbitrary: s)
  case (Cons r rows)
  then obtain e s1 where "transition (ex_id r) (PStr ''cancelled'') (q r) w s = (Inr e, s1)"
    and rest: "for_rows (\<lambda>r. thenC (transition (ex_id r) (PStr ''cancelled'') (q r)) (returnC ())) rows w s1 = (Inr u, s')"
    by (auto simp: run_simps)
  from transition_ok [OF this(1)] have "db_executions (cn_db s1) = edit_rows ex_id (ex_id r) (\<lambda>_. e) (db_executions (cn_db s))"
    "\<not> is_active e" by (auto dest: cancelled_not_active [OF sym])
  from active_ids_edit [OF this] Cons.prems(2) have "active_ids robot (cn_db s1) \<subseteq> ex_id ` set rows" by auto
  with Cons.IH [OF rest] show ?case .
qed (simp add: returnC_def)

lemma create_ok:
  assumes "create e t operator options trace w s = (Inr c, s')"
  shows "\<exists>target robot docking s1. map_of COMMAND_TARGET_STATES t = Some target \<and> wants_docking options = Inr docking
    \<and> find_robot (ex_robot e) (cn_db s) = Some robot
    \<and> (\<exists>s2 s3. cn_db s2 = cn_db s \<and> ensure_battery_allows robot t docking w s2 = (Inr (), s3))
    \<and> find_command (cm_id c) (cn_db s1) = Some c \<and> db_executions (cn_db s1) = db_executions (cn_db s)
    \<and> cm_type c = t \<and> cm_execution c = Some (ex_id e) \<and> cm_robot c = ex_robot e \<and> cm_status c = ''created''
    \<and> request_command e t target c w s1 = (Inr (), s')"
proof -
  from assms obtain target robot docking s2 p expiry s3 s1 where r: "map_of COMMAND_TARGET_STATES t = Some target"
      "find_robot (ex_robot e) (cn_db s) = Some robot" "wants_docking options = Inr docking"
    and guard: "ensure_battery_allows robot t docking w s = (Inr (), s2)" and body: "command_body e t options w s2 = (Inr (p, expiry), s3)"
    and ins: "insert_new_command (ex_robot e) (Some (ex_id e)) t p operator trace expiry [(''command_type'', PStr t)] w s3 = (Inr c, s1)"
    and request: "request_command e t target c w s1 = (Inr (), s')"
    by (auto simp: create_def atomicC_def getC_def dbC_def run_simps dest!: sym [of "Inr _"]
      split: option.split_asm prod.split_asm sum.split_asm)
  have "cn_db s2 = cn_db s" "cn_db s3 = cn_db s2"
    using keepsD [OF keeps_readers(1) [where P = "\<lambda>db. db = cn_db s"] guard]
      keepsD [OF keeps_readers(2) [where P = "\<lambda>db. db = cn_db s2"] body] by simp_all
  with r guard request insert_new_command_ok [OF ins] show ?thesis by auto
qed

lemma command_creation_rolls_back: "create e t operator options trace w s = (Inl x, s') \<Longrightarrow> cn_db s' = cn_db s"
  by (auto simp: create_def atomicC_def split: prod.split_asm sum.split_asm)

text \<open>C14. A command is created whole or not at all. Creating a command for an execution sends nothing. If it raises, the
  database is unchanged. Otherwise the command is stored as \<open>created\<close> for this execution and robot, and the execution has
  moved in the same transaction to the state the command asks for, by an allowed transition that raises its version by
  one; a forced exit leaves no active execution on the robot, whatever their state.\<close>

theorem command_creation_all_or_nothing:
  assumes "create e t operator options trace w s = (r, s')"
  shows "cn_events s' = cn_events s \<and>
    (case r of
       Inl x \<Rightarrow> cn_db s' = cn_db s
     | Inr c \<Rightarrow> cm_type c = t \<and> cm_execution c = Some (ex_id e) \<and> cm_robot c = ex_robot e \<and> cm_status c = ''created'' \<and>
         (if t = ''task.force_exit'' then active_ids (ex_robot e) (cn_db s') = {}
          else find_command (cm_id c) (cn_db s') = Some c \<and>
            (\<exists>e0 e1. find_execution (ex_id e) (cn_db s) = Some e0 \<and> find_execution (ex_id e) (cn_db s') = Some e1
               \<and> map_of COMMAND_TARGET_STATES t = Some (ex_state e1) \<and> ex_state e1 \<in> set (allowed_targets (ex_state e0))
               \<and> ex_version e1 = ex_version e0 + 1)))"
proof (intro conjI)
  show "cn_events s' = cn_events s" using keepsD [OF silent_create assms] by simp
  show "case r of
       Inl x \<Rightarrow> cn_db s' = cn_db s
     | Inr c \<Rightarrow> cm_type c = t \<and> cm_execution c = Some (ex_id e) \<and> cm_robot c = ex_robot e \<and> cm_status c = ''created'' \<and>
         (if t = ''task.force_exit'' then active_ids (ex_robot e) (cn_db s') = {}
          else find_command (cm_id c) (cn_db s') = Some c \<and>
            (\<exists>e0 e1. find_execution (ex_id e) (cn_db s) = Some e0 \<and> find_execution (ex_id e) (cn_db s') = Some e1
               \<and> map_of COMMAND_TARGET_STATES t = Some (ex_state e1) \<and> ex_state e1 \<in> set (allowed_targets (ex_state e0))
               \<and> ex_version e1 = ex_version e0 + 1))"
  proof (cases r)
    case (Inl x)
    with command_creation_rolls_back [OF assms [unfolded Inl]] show ?thesis by simp
  next
    case (Inr c)
    from create_ok [OF assms [unfolded Inr]] obtain target s1 where target: "map_of COMMAND_TARGET_STATES t = Some target"
      and c: "find_command (cm_id c) (cn_db s1) = Some c" "cm_type c = t" "cm_execution c = Some (ex_id e)" "cm_robot c = ex_robot e" "cm_status c = ''created''"
      and table: "db_executions (cn_db s1) = db_executions (cn_db s)" and request: "request_command e t target c w s1 = (Inr (), s')" by blast
    show ?thesis
    proof (cases "t = ''task.force_exit''")
      case True
      with request have "force_exit_executions e c w s1 = (Inr (), s')" by (simp add: request_command_def)
      then have "active_ids (ex_robot e) (cn_db s') = {}"
        unfolding force_exit_executions_def bindC_def dbC_def prod.case sum.case
        by (rule force_exit_ok) (auto simp: active_ids_def)
      with True c Inr show ?thesis by simp
    next
      case False
      let ?q = "(request (t @ ''.requested''))\<lparr>rq_payload := [(''command_id'', PStr (cm_id c))]\<rparr>"
      have q: "rq_version ?q = None" by (simp add: request_def)
      from False request obtain e1 where move: "transition (ex_id e) (PStr target) ?q w s1 = (Inr e1, s')"
        by (auto simp: request_command_def run_simps)
      have "find_command (cm_id c) (cn_db s') = Some c"
        using commands_kept [OF move target_not_final [OF target]] c(1) by (simp add: find_command_def)
      moreover have "find_execution (ex_id e) (cn_db s1) = find_execution (ex_id e) (cn_db s)" by (simp add: find_execution_def table)
      ultimately show ?thesis using transition_ok [OF move] False c Inr target q by auto
    qed
  qed
qed

text \<open>C12. No patrol starts on a low battery. Whoever asks (an operator, a schedule, a loop), a start command that is not a
  docking task exists only if no low-battery episode of the robot is latched and its charge, as the latest status or else
  the robot's row has it, is at the threshold or above. Otherwise nothing is stored.\<close>

theorem low_battery_starts_nothing:
  assumes "create e ''task.start'' operator options trace w s = (r, s')"
  shows "(\<exists>x. r = Inl x \<and> cn_db s' = cn_db s) \<or>
    (\<exists>robot docking. find_robot (ex_robot e) (cn_db s) = Some robot \<and> wants_docking options = Inr docking
       \<and> (docking \<or> latched_episode (rb_id robot) (cn_db s) = None
            \<and> (case cw_setting w ''LOW_BATTERY_STOP_PERCENT'' of None \<Rightarrow> 20 | Some n \<Rightarrow> n) \<le> battery_of robot (cn_db s)))"
proof (cases r)
  case (Inl x)
  with command_creation_rolls_back [OF assms [unfolded Inl]] show ?thesis by simp
next
  case (Inr c)
  from create_ok [OF assms [unfolded Inr]] obtain robot docking s2 s3 where robot: "find_robot (ex_robot e) (cn_db s) = Some robot"
    "wants_docking options = Inr docking" and db: "cn_db s2 = cn_db s"
    and guard: "ensure_battery_allows robot ''task.start'' docking w s2 = (Inr (), s3)" by blast
  have "docking \<or> latched_episode (rb_id robot) (cn_db s2) = None
      \<and> (case cw_setting w ''LOW_BATTERY_STOP_PERCENT'' of None \<Rightarrow> 20 | Some n \<Rightarrow> n) \<le> battery_of robot (cn_db s2)"
    using guard by (auto simp: ensure_battery_allows_def dbC_def settingC_def worldC_def run_simps split: if_split_asm option.split_asm)
  with robot db show ?thesis by auto
qed

section \<open>Concrete commands\<close>

text \<open>A robot with a task and a running execution.\<close>

definition sample_running :: center_state where
  "sample_running = (let s = sample_center [sample_execution ''running'' []] in s\<lparr>cn_db := (cn_db s)\<lparr>db_tasks := [sample_task]\<rparr>\<rparr>)"

lemma sample_pause:
  "\<exists>c s1. create (sample_execution ''running'' []) ''task.pause'' None [] None (sample_world []) sample_running = (Inr c, s1)
     \<and> map ex_state (db_executions (cn_db s1)) = [''pausing'']"
  by (rule run_cases, code_simp)

theorem command_creation_all_or_nothing_witness:
  "\<exists>c s1 e1. create (sample_execution ''running'' []) ''task.pause'' None [] None (sample_world []) sample_running = (Inr c, s1)
     \<and> cn_events s1 = [] \<and> find_command (cm_id c) (cn_db s1) = Some c \<and> find_execution ''e1'' (cn_db s1) = Some e1 \<and> ex_version e1 = 4"
proof -
  from sample_pause obtain c s1 where run: "create (sample_execution ''running'' []) ''task.pause'' None [] None (sample_world []) sample_running = (Inr c, s1)"
    by blast
  have e: "find_execution ''e1'' (cn_db sample_running) = Some (sample_execution ''running'' [])" "ex_id (sample_execution ''running'' []) = ''e1''"
    "ex_version (sample_execution ''running'' []) = 3" "cn_events sample_running = []" "''task.pause'' \<noteq> ''task.force_exit''"
    by code_simp+
  from command_creation_all_or_nothing [OF run] e show ?thesis by (auto simp: run)
qed

text \<open>A robot at 10 percent.\<close>

definition sample_low :: center_state where
  "sample_low = (let s = sample_running in s\<lparr>cn_db := (cn_db s)\<lparr>db_robots := [sample_robot\<lparr>rb_battery := 10\<rparr>]\<rparr>\<rparr>)"

lemma sample_refused:
  "\<exists>x s1. create (sample_execution ''created'' []) ''task.start'' None [] None (sample_world []) sample_low = (Inl x, s1)
     \<and> x = PermissionDenied (low_text 10 20)"
  by (rule run_cases, code_simp)

theorem low_battery_starts_nothing_witness:
  "\<exists>s1. create (sample_execution ''created'' []) ''task.start'' None [] None (sample_world []) sample_low
       = (Inl (PermissionDenied (low_text 10 20)), s1) \<and> cn_db s1 = cn_db sample_low"
proof -
  from sample_refused obtain s1 where run: "create (sample_execution ''created'' []) ''task.start'' None [] None (sample_world []) sample_low
      = (Inl (PermissionDenied (low_text 10 20)), s1)" by blast
  have low: "find_robot 1 (cn_db sample_low) = Some (sample_robot\<lparr>rb_battery := 10\<rparr>)" "wants_docking [] = Inr False"
    "ex_robot (sample_execution ''created'' []) = 1" "battery_of (sample_robot\<lparr>rb_battery := 10\<rparr>) (cn_db sample_low) = 10"
    "cw_setting (sample_world []) ''LOW_BATTERY_STOP_PERCENT'' = None"
    by code_simp+
  from low_battery_starts_nothing [OF run] low run show ?thesis by auto
qed

end
