(* ===== verification/CenterTrajectory.thy ===== *)
theory CenterTrajectory
  imports CenterAdmission
begin

text \<open>
  Trajectory batches at the center: a batch is stored in one transaction with its receipt, a point never changes once it is
  stored, and the acknowledgement that lets the robot forget the batch leaves the center only after the batch is in the database.
\<close>

section \<open>Points\<close>

definition point_key :: "point_row \<Rightarrow> int \<times> string \<times> int" where
  "point_key p = (tp_robot p, tp_execution p, tp_seq p)"

definition points_ok :: "center_db \<Rightarrow> bool" where
  "points_ok db = distinct (map point_key (db_points db))"

lemma same_point_key: "same_point p q \<longleftrightarrow> point_key p = point_key q"
  by (simp add: same_point_def point_key_def)

lemma add_points_facts:
  "(distinct (map point_key rows) \<longrightarrow> distinct (map point_key (foldl add_point rows ps)))
     \<and> (\<exists>new. foldl add_point rows ps = rows @ new) \<and> (\<forall>p \<in> set ps. \<exists>q \<in> set (foldl add_point rows ps). same_point q p)
     \<and> set (foldl add_point rows ps) \<subseteq> set rows \<union> set ps"
proof (induction ps rule: rev_induct)
  case (snoc p ps)
  then show ?case by (auto simp: add_point_def same_point_key)
qed simp

section \<open>A batch\<close>

definition batch_of :: "center_envelope \<Rightarrow> string pyres" where
  "batch_of env = bindE (dsub (cv_payload env) ''batch_id'') (\<lambda>v. center_uuid v ''batch_id'')"

text \<open>A point with a text that is null is left out by \<open>bulk_create(ignore_conflicts=True)\<close>.\<close>

definition null_text :: "pydict \<Rightarrow> pydict \<Rightarrow> bool" where
  "null_text payload p = (PNone \<in> {dget_def_val payload ''frame_id'' (PStr ''map''), dget_def_val payload ''map_id'' (PStr []),
     dget_def_val payload ''map_version'' (PStr []), dget p ''localization_status''})"

text \<open>Every point of the message without a null text is in the database under its number, as the message brings it or as it was
  there before, and nothing else was added.\<close>

definition batch_stored :: "center_world \<Rightarrow> center_envelope \<Rightarrow> execution_row \<Rightarrow> string \<Rightarrow> center_db \<Rightarrow> center_db \<Rightarrow> bool" where
  "batch_stored w env e batch db db' =
     (let columns = (\<lambda>v. point_columns (cw_parse_datetime w) (cw_decimal w) e batch (cv_payload env) (dict_or_empty v)) in
      \<exists>items. bindE (dsub (cv_payload env) ''points'') list_or_empty = Inr items
        \<and> (\<forall>v \<in> set items. null_text (cv_payload env) (dict_or_empty v)
             \<or> (\<exists>p. columns v = Inr (Some p) \<and> (\<exists>q \<in> set (db_points db'). same_point q p)))
        \<and> (\<forall>q \<in> set (db_points db'). q \<in> set (db_points db) \<or> (\<exists>v \<in> set items. columns v = Inr (Some q))))"

lemma point_columns_none: "point_columns parse decimal e batch payload p = Inr None \<Longrightarrow> null_text payload p"
  by (auto simp: point_columns_def null_text_def Let_def dsub_ok dest!: sym [of "Inr _"] split: if_split_asm)

lemma batch_points_items:
  "batch_points f items = Inr ps \<Longrightarrow> (\<forall>v \<in> set items. \<exists>c. f (dict_or_empty v) = Inr c \<and> set_option c \<subseteq> set ps)
     \<and> (\<forall>p \<in> set ps. \<exists>v \<in> set items. f (dict_or_empty v) = Inr (Some p))"
proof (induction items arbitrary: ps)
  case (Cons v items)
  then obtain c qs where c: "f (dict_or_empty v) = Inr c" "batch_points f items = Inr qs" "ps = (case c of None \<Rightarrow> qs | Some r \<Rightarrow> r # qs)"
    using Cons.prems by (auto dest!: sym [of "Inr _"])
  with Cons.IH [OF c(2)] show ?case by (cases c) (fastforce dest: subsetD)+
qed simp

lemma batch_is_stored:
  assumes "bindE (dsub (cv_payload env) ''points'') list_or_empty = Inr items"
    and "batch_points (point_columns (cw_parse_datetime w) (cw_decimal w) e batch (cv_payload env)) items = Inr ps"
    and "db_points db' = foldl add_point (db_points db) ps"
  shows "batch_stored w env e batch db db'"
proof -
  let ?f = "point_columns (cw_parse_datetime w) (cw_decimal w) e batch (cv_payload env)"
  note items = batch_points_items [OF assms(2)] and facts = add_points_facts [of "db_points db" ps]
  have "null_text (cv_payload env) (dict_or_empty v) \<or> (\<exists>p. ?f (dict_or_empty v) = Inr (Some p) \<and> (\<exists>q \<in> set (db_points db'). same_point q p))"
    if v: "v \<in> set items" for v
  proof -
    from items v obtain c where c: "?f (dict_or_empty v) = Inr c" "set_option c \<subseteq> set ps" by blast
    show ?thesis
    proof (cases c)
      case None
      with c point_columns_none show ?thesis by blast
    next
      case (Some p)
      with c facts show ?thesis unfolding assms(3) by auto
    qed
  qed
  moreover have "q \<in> set (db_points db) \<or> (\<exists>v \<in> set items. ?f (dict_or_empty v) = Inr (Some q))" if "q \<in> set (db_points db')" for q
    using that items facts unfolding assms(3) by blast
  ultimately show ?thesis unfolding batch_stored_def Let_def using assms(1) by blast
qed

lemma insert_receipt_ok: "insert_receipt r db = Inr db' \<Longrightarrow> find_receipt (tr_batch r) db' = Some r \<and> db_points db' = db_points db"
  by (auto simp: insert_receipt_def find_receipt_def seqE_ok integrity_def raise_if_def row_of_append split: if_splits)

lemma add_points_receipt [simp]: "find_receipt b (add_points ps db) = find_receipt b db" "db_points (add_points ps db) = foldl add_point (db_points db) ps"
  by (simp_all add: find_receipt_def add_points_def)

lemma writeC_events: "writeC f w s = (r, s') \<Longrightarrow> cn_events s' = cn_events s"
  by (auto simp: writeC_def Let_def split: if_splits sum.splits)

lemma store_batch_ok:
  assumes "store_batch ps receipt w s = (Inr (rc, dup), s')" "find_receipt (tr_batch receipt) (cn_db s) = None"
  shows "rc = receipt \<and> \<not> dup \<and> find_receipt (tr_batch receipt) (cn_db s') = Some receipt
    \<and> db_points (cn_db s') = foldl add_point (db_points (cn_db s)) ps"
proof -
  let ?m = "atomicC (seq_valueC [writeC (\<lambda>db. Inr (add_points ps db)), writeC (insert_receipt receipt)] (receipt, False))"
  obtain r1 s1 where m: "?m w s = (r1, s1)" by (cases "?m w s")
  show ?thesis
  proof (cases r1)
    case (Inl x)
    with m have "cn_db s1 = cn_db s" by (auto simp: atomicC_def split: prod.split_asm sum.split_asm)
    with assms m Inl show ?thesis
      by (cases x) (auto simp: store_batch_def exceptC_def raiseC_def bindC_def dbC_def)
  next
    case (Inr v)
    with m have "seq_valueC [writeC (\<lambda>db. Inr (add_points ps db)), writeC (insert_receipt receipt)] (receipt, False) w s = (Inr v, s1)"
      by (auto simp: atomicC_def split: prod.split_asm sum.split_asm)
    then obtain s2 where "writeC (\<lambda>db. Inr (add_points ps db)) w s = (Inr (), s2)" "writeC (insert_receipt receipt) w s2 = (Inr (), s1)"
      "v = (receipt, False)" by (auto simp: seq_valueC_def run_simps)
    moreover from this have "cn_db s2 = add_points ps (cn_db s)" using writeC_ok by fastforce
    moreover have "rc = fst v" "dup = snd v" "s' = s1" using assms(1) m Inr by (auto simp: store_batch_def exceptC_def)
    ultimately show ?thesis using insert_receipt_ok [OF writeC_ok] by fastforce
  qed
qed

text \<open>The distance of a loop is written to another table.\<close>

definition same_track :: "center_db \<Rightarrow> center_db \<Rightarrow> bool" where
  "same_track a b = (db_points b = db_points a \<and> db_receipts b = db_receipts a)"

lemma same_track_refl [simp]: "same_track db db"
  by (simp add: same_track_def)

lemma keeps_track: "keeps (\<lambda>s. same_track db (cn_db s)) (update_patrol_loop_distance session pk batch)"
proof -
  have "keeps (\<lambda>s. same_track db (cn_db s)) (writeC (update_loop l f))" for l f
    by (rule keeps_write) (auto simp: same_track_def update_loop_def split: option.splits)
  then show ?thesis
    unfolding update_patrol_loop_distance_def save_columns_def by (intro cmd_rules center_rules)
qed

lemma new_batch_ok:
  assumes "new_batch env robot batch w s = (Inr (result, dup), s')" "find_receipt batch (cn_db s) = None"
  shows "\<exists>rc e ps. \<not> dup \<and> result = trajectory_result rc False \<and> find_receipt batch (cn_db s') = Some rc
    \<and> find_execution (ex_id e) (cn_db s) = Some e \<and> ex_robot e = rb_id robot \<and> batch_stored w env e batch (cn_db s) (cn_db s')
    \<and> db_points (cn_db s') = foldl add_point (db_points (cn_db s)) ps"
proof -
  from assms(1) obtain e s1 session items ps first_seq last_seq rc dup' s2 where lock: "lock_robot_execution (cv_payload env) robot w s = (Inr e, s1)"
    and items: "bindE (dsub (cv_payload env) ''points'') list_or_empty = Inr items"
    and ps: "batch_points (point_columns (cw_parse_datetime w) (cw_decimal w) e batch (cv_payload env)) items = Inr ps"
    and store: "store_batch ps \<lparr>tr_batch = batch, tr_robot = rb_id robot, tr_execution = ex_id e, tr_first = first_seq,
          tr_last = last_seq, tr_count = int (length items)\<rparr> w s1 = (Inr (rc, dup'), s2)"
    and rest: "seq_valueC [whenC (\<not> dup') (update_patrol_loop_distance session (ex_id e) batch)]
          (trajectory_result rc dup', dup') w s2 = (Inr (result, dup), s')"
    by (auto simp: new_batch_def Let_def run_simps worldC_def dbC_def dest!: sym [of "Inr _"] split: prod.split_asm)
  have e: "s1 = s" "find_execution (ex_id e) (cn_db s) = Some e" "ex_robot e = rb_id robot"
    using lock by (auto simp: lock_robot_execution_def run_simps dbC_def find_execution_def dest: row_of_key split: option.splits if_splits bind_splits)
  have "keeps (\<lambda>s. same_track (cn_db s2) (cn_db s)) (seq_valueC [whenC (\<not> dup') (update_patrol_loop_distance session (ex_id e) batch)]
      (trajectory_result rc dup', dup'))" by (intro cmd_rules keeps_track)
  then have "same_track (cn_db s2) (cn_db s')" using rest unfolding keeps_def by (metis same_track_refl snd_conv)
  moreover have "result = trajectory_result rc dup'" "dup = dup'" using rest by (auto simp: seq_valueC_def run_simps)
  moreover note store_batch_ok [OF store] e assms(2)
  ultimately show ?thesis using batch_is_stored [OF items ps] by (auto simp: same_track_def find_receipt_def)
qed

lemma bind_atomic:
  "m w s = (Inr a, s') \<Longrightarrow> bindC (atomicC m) f w s = f a w s'"
  "m w s = (Inl x, s') \<Longrightarrow> bindC (atomicC m) f w s = (Inl x, s'\<lparr>cn_db := cn_db s\<rparr>)"
  by (simp_all add: bindC_def atomicC_def)

text \<open>What leaves the center.\<close>

definition published :: "center_state \<Rightarrow> center_event list" where
  "published s = filter (\<lambda>v. case v of Published _ _ \<Rightarrow> True | _ \<Rightarrow> False) (cn_events s)"

lemma unpublished_parts [cmd_rules]:
  "keeps (\<lambda>s. published s = es) (dbC f)" "keeps (\<lambda>s. published s = es) (worldC g)" "keeps (\<lambda>s. published s = es) nowC"
  "keeps (\<lambda>s. published s = es) uuidC" "keeps (\<lambda>s. published s = es) (writeC h)" "keeps (\<lambda>s. published s = es) (notifyC name args)"
  by (rule keepsI, simp add: dbC_def worldC_def nowC_def uuidC_def read_tick_def writeC_def notifyC_def thenC_def bindC_def
      returnC_def emitC_def published_def Let_def split: sum.split)+

lemma unpublished_atomic [cmd_rules]: "keeps (\<lambda>s. published s = es) m \<Longrightarrow> keeps (\<lambda>s. published s = es) (atomicC m)"
  unfolding keeps_def atomicC_def published_def by (auto split: prod.splits sum.splits) (metis snd_conv)+

lemma unpublished_batch: "keeps (\<lambda>s. published s = es) (new_batch env robot batch)"
  unfolding new_batch_def lock_robot_execution_def store_batch_def update_patrol_loop_distance_def save_columns_def Let_def
  by (intro cmd_rules)

lemma keeps_answer: "keeps (\<lambda>s. P (cn_db s)) (seq_valueC [respond online kind robot env payload, whenC b (notify_task pk note)] v)"
  unfolding respond_def by (intro cmd_rules center_rules)

lemma answer_db:
  assumes "seq_valueC [respond online kind robot env payload, whenC b (notify_task pk note)] v w s = (r, s')"
  shows "cn_db s' = cn_db s" "r = Inr x \<Longrightarrow> x = v"
proof -
  have "keeps (\<lambda>t. cn_db t = cn_db s) (seq_valueC [respond online kind robot env payload, whenC b (notify_task pk note)] v)"
    by (rule keeps_answer)
  then have "cn_db (snd (seq_valueC [respond online kind robot env payload, whenC b (notify_task pk note)] v w s)) = cn_db s"
    unfolding keeps_def by blast
  then show "cn_db s' = cn_db s" unfolding assms by simp
  show "x = v" if "r = Inr x" using assms unfolding that by (auto simp: seq_valueC_def thenC_def bindC_ok returnC_def)
qed

text \<open>C10. A trajectory batch is stored once and acknowledged afterwards. Handling a batch never changes or removes a point
  and keeps the numbers of an execution's points unique; a batch that is already there changes nothing. Whenever the
  center sends anything to the robot, the receipt of the batch is in the database, also if sending fails; and the answer
  repeats the receipt, marked as a duplicate exactly if the batch was there before. A new batch belongs to an execution of
  this robot; each point of the message is in the database under its number, as the message brings it or as it was there
  before, unless one of its texts is null (then the database leaves it out and the batch is acknowledged all the same); and
  nothing but points of the message is added.\<close>

theorem trajectory_batch_stored_once:
  assumes run: "handle_trajectory online env robot w s = (r, s1)" and batch: "batch_of env = Inr batch"
  shows "(points_ok (cn_db s) \<longrightarrow> points_ok (cn_db s1)) \<and> (\<exists>new. db_points (cn_db s1) = db_points (cn_db s) @ new)
    \<and> (find_receipt batch (cn_db s) \<noteq> None \<longrightarrow> cn_db s1 = cn_db s)
    \<and> (published s1 \<noteq> published s \<longrightarrow> find_receipt batch (cn_db s1) \<noteq> None)
    \<and> (\<forall>result. r = Inr result \<longrightarrow> (\<exists>rc. find_receipt batch (cn_db s1) = Some rc
         \<and> result = trajectory_result rc (find_receipt batch (cn_db s) \<noteq> None)
         \<and> (find_receipt batch (cn_db s) = None \<longrightarrow>
              (\<exists>e. find_execution (ex_id e) (cn_db s) = Some e \<and> ex_robot e = rb_id robot \<and> batch_stored w env e batch (cn_db s) (cn_db s1)))))"
proof -
  let ?body = "bindC (dbC (find_receipt batch)) (\<lambda>existing.
        case existing of Some r \<Rightarrow> returnC (trajectory_result r True, True) | None \<Rightarrow> new_batch env robot batch)"
  let ?answer = "\<lambda>(result, duplicate). seq_valueC [respond online ''trajectory.ack'' robot env result,
        whenC (\<not> duplicate) (notify_task (py_str (dget result ''task_execution_id'')) ((''type'', PStr ''trajectory.updated'') # result))] result"
  have split: "handle_trajectory online env robot w s = bindC (atomicC ?body) ?answer w s"
    unfolding handle_trajectory_def batch [unfolded batch_of_def] by (simp add: bindC_def [of "liftC _"] liftC_def)
  obtain r' s' where body: "?body w s = (r', s')" by (cases "?body w s")
  show ?thesis
  proof (cases r')
    case (Inl x)
    have "keeps (\<lambda>t. published t = published s) ?body" by (intro cmd_rules unpublished_batch)
    then have "published s' = published s" using body unfolding keeps_def by (metis snd_conv)
    moreover have "r = Inl x" "s1 = s'\<lparr>cn_db := cn_db s\<rparr>" 
      using run [unfolded split bind_atomic(2) [where m = ?body and w = w and s = s and f = ?answer, OF body [unfolded Inl]]] by simp_all
    ultimately show ?thesis by (auto simp: published_def)
  next
    case (Inr v)
    obtain result duplicate where v: "v = (result, duplicate)" by (cases v)
    have "seq_valueC [respond online ''trajectory.ack'' robot env result,
        whenC (\<not> duplicate) (notify_task (py_str (dget result ''task_execution_id'')) ((''type'', PStr ''trajectory.updated'') # result))] result
        w s' = (r, s1)"
      using run unfolding split v bind_atomic(1) [where m = ?body and w = w and s = s and f = ?answer, OF body [unfolded Inr v]] prod.case .
    note db = answer_db(1) [OF this] and res = answer_db(2) [OF this]
    show ?thesis
    proof (cases "find_receipt batch (cn_db s)")
      case None
      with body Inr v have "new_batch env robot batch w s = (Inr (result, duplicate), s')" by (simp add: bindC_def dbC_def)
      from new_batch_ok [OF this None] obtain rc e ps where new: "result = trajectory_result rc False" "find_receipt batch (cn_db s1) = Some rc"
        "find_execution (ex_id e) (cn_db s) = Some e" "ex_robot e = rb_id robot" "batch_stored w env e batch (cn_db s) (cn_db s1)"
        "db_points (cn_db s1) = foldl add_point (db_points (cn_db s)) ps" unfolding db by blast
      have "points_ok (cn_db s) \<longrightarrow> points_ok (cn_db s1)" "\<exists>new. db_points (cn_db s1) = db_points (cn_db s) @ new"
        using add_points_facts [of "db_points (cn_db s)" ps] unfolding points_ok_def new(6) by blast+
      with None new res show ?thesis by auto
    next
      case (Some rc)
      with body Inr v have "cn_db s1 = cn_db s" "result = trajectory_result rc True" by (auto simp: db bindC_def dbC_def returnC_def)
      with Some res show ?thesis by auto
    qed
  qed
qed

section \<open>A concrete batch\<close>

definition sample_point :: "int \<Rightarrow> pyval" where
  "sample_point n = PDict [(''seq'', PInt n), (''sampled_at'', PStr ''t''), (''x'', PInt 0), (''y'', PInt 0), (''yaw'', PInt 0),
     (''localization_status'', PStr ''normal'')]"

definition sample_batch :: center_envelope where
  "sample_batch = \<lparr> cv_message_id = ''00000000-0000-0000-0000-000000000001'', cv_message_type = ''trajectory.batch'',
     cv_robot_id = ''r1'', cv_session_id = ''00000000-0000-0000-0000-000000000002'', cv_sent_at = \<lparr> dt_wall = 0, dt_offset = Some 0 \<rparr>,
     cv_trace_id = ''00000000-0000-0000-0000-000000000003'', cv_sequence = None, cv_payload =
       [(''batch_id'', PStr ''00000000-0000-0000-0000-000000000005''), (''task_execution_id'', PStr ''00000000-0000-0000-0000-000000000006''),
        (''points'', PList [sample_point 4, sample_point 5]), (''first_seq'', PInt 4), (''last_seq'', PInt 5)],
     cv_raw = [] \<rparr>"

definition sample_track :: "center_state" where
  "sample_track = sample_center [(sample_execution ''running'' [])\<lparr>ex_id := ''00000000-0000-0000-0000-000000000006''\<rparr>]"

lemma sample_batch_run:
  "\<exists>result s1. handle_trajectory True sample_batch sample_robot ((sample_world [])\<lparr>cw_decimal := (\<lambda>_. Inr 0)\<rparr>) sample_track = (Inr result, s1)
     \<and> map tp_seq (db_points (cn_db s1)) = [4, 5] \<and> length (cn_events s1) = 2"
  by (rule run_cases, code_simp)

theorem trajectory_batch_stored_once_witness:
  "\<exists>rc s1. handle_trajectory True sample_batch sample_robot ((sample_world [])\<lparr>cw_decimal := (\<lambda>_. Inr 0)\<rparr>) sample_track
       = (Inr (trajectory_result rc False), s1)
     \<and> points_ok (cn_db s1) \<and> find_receipt ''00000000-0000-0000-0000-000000000005'' (cn_db s1) = Some rc
     \<and> map tp_seq (db_points (cn_db s1)) = [4, 5]"
proof -
  from sample_batch_run obtain result s1 where run: "handle_trajectory True sample_batch sample_robot ((sample_world [])\<lparr>cw_decimal := (\<lambda>_. Inr 0)\<rparr>) sample_track
      = (Inr result, s1)" "map tp_seq (db_points (cn_db s1)) = [4, 5]" by (elim exE conjE) (rule that)
  have facts: "batch_of sample_batch = Inr ''00000000-0000-0000-0000-000000000005''" "points_ok (cn_db sample_track)"
    "find_receipt ''00000000-0000-0000-0000-000000000005'' (cn_db sample_track) = None"
    by (code_simp, simp_all add: sample_track_def sample_center_def empty_db_def points_ok_def find_receipt_def)
  from trajectory_batch_stored_once [OF run(1) facts(1)] facts(2,3) run show ?thesis by auto
qed

end
