(* ===== verification/CenterFrame.thy ===== *)
theory CenterFrame
  imports CenterHistory
begin

text \<open>
  What operations leave alone, as locales of predicates: \<open>task_frame\<close> for those that executions, commands and their events do
  not decide; \<open>watch_frame\<close> for those that the sessions of loops and the low battery episodes do not decide either, which the
  battery watch keeps; \<open>side_frame\<close> for those that only sessions and episodes decide, which messages, sweeps and the
  creation of executions and commands keep. The policies of \<open>CenterLoopRun\<close> extend the last one.
\<close>

section \<open>Executions and commands\<close>

locale task_frame =
  fixes P :: "center_db \<Rightarrow> bool"
  assumes task_tables [simp]:
      "P (db\<lparr>db_executions := es\<rparr>) = P db" "P (db\<lparr>db_commands := cs\<rparr>) = P db" "P (db\<lparr>db_task_events := ts\<rparr>) = P db"
      "P (db\<lparr>db_command_events := ces\<rparr>) = P db" "P (db\<lparr>db_loop_events := les\<rparr>) = P db"
begin

lemma execution_writes:
  "insert_execution e db = Inr db' \<Longrightarrow> P db' = P db" "update_execution pk f db = Inr db' \<Longrightarrow> P db' = P db"
  by (auto simp: insert_execution_def update_execution_def split: option.splits)

lemma save_writes: "save_execution e db = Inr db' \<Longrightarrow> P db' = P db"
  by (auto simp: save_execution_def dest: execution_writes split: if_splits)

lemma command_writes:
  "insert_command c db = Inr db' \<Longrightarrow> P db' = P db" "update_command pk h db = Inr db' \<Longrightarrow> P db' = P db"
  "insert_task_event te db = Inr db' \<Longrightarrow> P db' = P db" "update_task_event i g db = Inr db' \<Longrightarrow> P db' = P db"
  "insert_command_event ce db = Inr db' \<Longrightarrow> P db' = P db" "insert_loop_event le db = Inr db' \<Longrightarrow> P db' = P db"
  by (auto simp: insert_command_def update_command_def insert_task_event_def update_task_event_def insert_command_event_def
    insert_loop_event_def split: option.splits if_splits)

lemma save_command_writes: "save_command c db = Inr db' \<Longrightarrow> P db' = P db"
  by (auto simp: save_command_def dest: command_writes split: if_splits)

lemmas task_writes = execution_writes save_writes command_writes save_command_writes

lemma keeps_side_write: "(\<And>db db'. f db = Inr db' \<Longrightarrow> P db' = P db) \<Longrightarrow> keeps (\<lambda>s. P (cn_db s)) (writeC f)"
  by (rule keeps_write) blast

lemma keeps_task_writes [center_rules]:
  "keeps (\<lambda>s. P (cn_db s)) (writeC (insert_execution e))" "keeps (\<lambda>s. P (cn_db s)) (update_executionC pk f)"
  "keeps (\<lambda>s. P (cn_db s)) (writeC (save_execution e))" "keeps (\<lambda>s. P (cn_db s)) (writeC (insert_command c))"
  "keeps (\<lambda>s. P (cn_db s)) (writeC (update_command pk h))" "keeps (\<lambda>s. P (cn_db s)) (writeC (save_command c))"
  "keeps (\<lambda>s. P (cn_db s)) (record_task_event te)" "keeps (\<lambda>s. P (cn_db s)) (writeC (update_task_event i g))"
  "keeps (\<lambda>s. P (cn_db s)) (record_command_event command kind source mid payload)"
  "keeps (\<lambda>s. P (cn_db s)) (writeC (insert_loop_event le))"
  unfolding update_executionC_def record_task_event_def record_command_event_def by (rule keeps_side_write, erule task_writes)+

lemma keeps_side_edit [center_rules]: "(\<And>db. P (g db) = P db) \<Longrightarrow> keeps (\<lambda>s. P (cn_db s)) (writeC (\<lambda>db. Inr (g db)))"
  by (rule keeps_side_write) auto

lemma keeps_side_transition [center_rules]:
  "keeps (\<lambda>s. P (cn_db s)) (reconcile_task_start_for_execution e source)" "keeps (\<lambda>s. P (cn_db s)) (transition pk target q)"
  "keeps (\<lambda>s. P (cn_db s)) (reconcile_edge_active_after_center_timeout pk state version code message payload)"
  "keeps (\<lambda>s. P (cn_db s)) (apply_progress e payload)"
  unfolding transition_def apply_transition_def reconcile_task_start_for_execution_def reconcile_start_command_def
    reconcile_edge_active_after_center_timeout_def apply_progress_def Let_def
  by (intro cmd_rules center_rules)+

lemma keeps_side_create [center_rules]:
  "keeps (\<lambda>s. P (cn_db s)) (insert_new_command robot execution kind payload operator trace expiry note)"
  "keeps (\<lambda>s. P (cn_db s)) (create_execution task c)"
  "keeps (\<lambda>s. P (cn_db s)) (create_robot_command r kind payload operator seconds trace)"
  unfolding insert_new_command_def create_execution_def create_on_route_def store_execution_def create_robot_command_def Let_def
  by (intro cmd_rules center_rules)+

lemma keeps_side_commands [center_rules]:
  "keeps (\<lambda>s. P (cn_db s)) (ensure_battery_allows robot kind docking)"
  "keeps (\<lambda>s. P (cn_db s)) (create e kind operator options trace)"
  "keeps (\<lambda>s. P (cn_db s)) (create_task_recovery e episode attempt code message)"
  unfolding ensure_battery_allows_def create_def command_body_def start_body_def request_command_def force_exit_executions_def
    create_task_recovery_def Let_def
  by (intro cmd_rules center_rules)+

lemma keeps_side_loop_parts [center_rules]:
  "keeps (\<lambda>s. P (cn_db s)) (force_exit_execution e reason)"
  "keeps (\<lambda>s. P (cn_db s)) (loop_event l kind key code message payload)"
  unfolding force_exit_execution_def loop_event_def Let_def by (intro cmd_rules center_rules)+

end

section \<open>The battery watch\<close>

text \<open>Predicates that the sessions and the episodes do not decide either: of the status, the robot, the runs of schedules.\<close>

locale watch_frame = task_frame P for P :: "center_db \<Rightarrow> bool" +
  assumes loop_tables [simp]: "P (db\<lparr>db_loops := ls\<rparr>) = P db" "P (db\<lparr>db_episodes := bs\<rparr>) = P db"
begin

lemma watch_writes:
  "update_loop pk f db = Inr db' \<Longrightarrow> P db' = P db" "insert_loop l db = Inr db' \<Longrightarrow> P db' = P db"
  "insert_episode b db = Inr db' \<Longrightarrow> P db' = P db"
  by (auto simp: update_loop_def insert_loop_def insert_episode_def split: option.splits)

lemma keeps_watch_writes [center_rules]:
  "keeps (\<lambda>s. P (cn_db s)) (save_columns l f)" "keeps (\<lambda>s. P (cn_db s)) (save_session l)"
  "keeps (\<lambda>s. P (cn_db s)) (writeC (insert_episode b))"
  unfolding save_columns_def save_session_def
  by (rule keeps_side_write; auto simp: save_loop_def dest: watch_writes split: if_splits)+

lemma keeps_watch_state [center_rules]: "keeps (\<lambda>s. P (cn_db s)) (set_state l c)"
  unfolding set_state_def ensure_recording_stop_def Let_def by (intro cmd_rules center_rules)

lemma keeps_watch_battery [center_rules]:
  "keeps (\<lambda>s. P (cn_db s)) (terminate_low_battery robot key percent source)" "keeps (\<lambda>s. P (cn_db s)) (observe_battery worker latest)"
proof -
  have episode: "keeps (\<lambda>s. P (cn_db s)) (ensure_episode robot k percent source known)" for k robot percent source known
    unfolding ensure_episode_def Let_def prod.case_eq_if by (intro cmd_rules center_rules)
  show stop: "keeps (\<lambda>s. P (cn_db s)) (terminate_low_battery robot key percent source)" for robot key percent source
    unfolding terminate_low_battery_def low_battery_session_def low_battery_execution_def Let_def
    by (intro cmd_rules center_rules episode)
  show "keeps (\<lambda>s. P (cn_db s)) (observe_battery worker latest)"
    unfolding observe_battery_def count_sample_def Let_def by (intro cmd_rules center_rules stop) (simp add: clear_episode_def)
qed

end

section \<open>Everything but loops and episodes\<close>

locale side_frame = task_frame P for P :: "center_db \<Rightarrow> bool" +
  assumes main_tables [simp]:
      "P (db\<lparr>db_inbound := ins\<rparr>) = P db" "P (db\<lparr>db_robots := rs\<rparr>) = P db" "P (db\<lparr>db_sessions := ss\<rparr>) = P db"
      "P (db\<lparr>db_points := ps\<rparr>) = P db" "P (db\<lparr>db_receipts := qs\<rparr>) = P db" "P (db\<lparr>db_debug := ds\<rparr>) = P db"
      "P (db\<lparr>db_boundaries := bs\<rparr>) = P db" "P (db\<lparr>db_tasks := pts\<rparr>) = P db" "P (db\<lparr>db_statuses := sts\<rparr>) = P db"
      "P (db\<lparr>db_schedules := scs\<rparr>) = P db" "P (db\<lparr>db_runs := srs\<rparr>) = P db"
begin

lemma side_writes:
  "insert_inbound r db = Inr db' \<Longrightarrow> P db' = P db" "update_inbound mid u db = Inr db' \<Longrightarrow> P db' = P db"
  "update_robot rid v db = Inr db' \<Longrightarrow> P db' = P db" "insert_receipt q db = Inr db' \<Longrightarrow> P db' = P db"
  "put_status x db = Inr db' \<Longrightarrow> P db' = P db" "insert_run sr db = Inr db' \<Longrightarrow> P db' = P db"
  by (auto simp: insert_inbound_def update_inbound_def update_robot_def insert_receipt_def put_status_def insert_run_def
    split: option.splits if_splits)

lemma keeps_side_writes [center_rules]:
  "keeps (\<lambda>s. P (cn_db s)) (writeC (insert_inbound r))" "keeps (\<lambda>s. P (cn_db s)) (writeC (update_inbound mm u))"
  "keeps (\<lambda>s. P (cn_db s)) (writeC (update_robot rid v))" "keeps (\<lambda>s. P (cn_db s)) (writeC (insert_receipt q))"
  "keeps (\<lambda>s. P (cn_db s)) (writeC (put_status x))" "keeps (\<lambda>s. P (cn_db s)) (writeC (insert_run sr))"
  by (rule keeps_side_write, erule side_writes)+

lemma keeps_side_sweeps [center_rules]:
  "keeps (\<lambda>s. P (cn_db s)) expire_commands" "keeps (\<lambda>s. P (cn_db s)) publish_pending_commands" "keeps (\<lambda>s. P (cn_db s)) mark_offline_robots"
  unfolding expire_commands_def mark_timeout_def expire_command_def only_task_errors_def timeout_execution_def timed_transition_def
    publish_pending_commands_def publish_command_def mark_published_def mark_publish_failed_def mark_offline_robots_def Let_def
  by (intro cmd_rules center_rules; simp)+

section \<open>Messages\<close>

lemma keeps_side_command_messages [center_rules]:
  "keeps (\<lambda>s. P (cn_db s)) (handle_command_ack env robot)" "keeps (\<lambda>s. P (cn_db s)) (handle_command_progress env robot)"
  unfolding handle_command_ack_def ack_execution_def handle_command_progress_def recover_started_def begin_executing_def
    get_command_def command_event_once_def Let_def
  by (intro cmd_rules center_rules)+

lemma keeps_side_result [center_rules]: "keeps (\<lambda>s. P (cn_db s)) (handle_command_result env robot)"
proof -
  have parts: "keeps (\<lambda>s. P (cn_db s)) (map_activated c robot)" "keeps (\<lambda>s. P (cn_db s)) (debug_session_done c success robot)"
    "keeps (\<lambda>s. P (cn_db s)) (boundary_applied c success)" "keeps (\<lambda>s. P (cn_db s)) (implied_state e c kind payload)"
    "keeps (\<lambda>s. P (cn_db s)) (final_transition e final c payload)" for c success e kind payload final
    unfolding map_activated_def debug_session_done_def boundary_applied_def implied_state_def failed_control_def final_transition_def Let_def
    by (intro cmd_rules center_rules; simp)+
  show ?thesis
    unfolding handle_command_result_def result_execution_def get_command_def command_event_once_def Let_def
    by (intro cmd_rules center_rules parts)
qed

lemma keeps_side_task_event [center_rules]: "keeps (\<lambda>s. P (cn_db s)) (handle_task_event env robot)"
  unfolding handle_task_event_def lock_robot_execution_def obstacle_stage_def record_stage_def obstacle_recovery_def obstacle_speech_def
    navigation_note_def record_note_def safe_hold_def round_started_def progress_or_state_def task_progress_def record_milestone_def
    reported_transition_def progress_logged_def state_logged_def Let_def
  by (intro cmd_rules center_rules)

lemma keeps_side_sync [center_rules]: "keeps (\<lambda>s. P (cn_db s)) (handle_sync online env robot)"
  unfolding handle_sync_def reported_execution_def sync_execution_def sync_recover_def sync_transition_def respond_def Let_def
  by (intro cmd_rules center_rules)

lemma keeps_side_presence [center_rules]:
  "keeps (\<lambda>s. P (cn_db s)) (handle_presence env robot)" "keeps (\<lambda>s. P (cn_db s)) (telemetry_pose env robot)"
proof -
  have parts: "keeps (\<lambda>s. P (cn_db s)) (presence_online env robot now)" "keeps (\<lambda>s. P (cn_db s)) (presence_heartbeat env robot now)"
    "keeps (\<lambda>s. P (cn_db s)) (presence_offline env robot now)" for now
    unfolding presence_online_def presence_heartbeat_def presence_offline_def Let_def
    by (intro cmd_rules center_rules keeps_side_write; auto simp: put_session_def edit_sessions_def split: if_splits)+
  show "keeps (\<lambda>s. P (cn_db s)) (handle_presence env robot)" "keeps (\<lambda>s. P (cn_db s)) (telemetry_pose env robot)"
    unfolding handle_presence_def telemetry_pose_def Let_def by (intro cmd_rules center_rules parts)+
qed

text \<open>A batch, up to the distance of its loop; the audit of a message around its handler.\<close>

lemma keeps_side_trajectory:
  "(\<And>session pk batch. keeps (\<lambda>s. P (cn_db s)) (update_patrol_loop_distance session pk batch)) \<Longrightarrow>
     keeps (\<lambda>s. P (cn_db s)) (handle_trajectory online env robot)"
  unfolding handle_trajectory_def new_batch_def lock_robot_execution_def store_batch_def respond_def Let_def
  by (intro cmd_rules center_rules; simp add: add_points_def)

lemma keeps_side_message:
  assumes "\<And>online env robot. keeps (\<lambda>s. P (cn_db s)) (dispatch services online env robot)"
    and "\<And>online env robot. keeps (\<lambda>s. P (cn_db s)) (handle_trajectory online env robot)"
  shows "keeps (\<lambda>s. P (cn_db s)) (on_message services topic raw)"
proof -
  have retry: "keeps (\<lambda>s. P (cn_db s)) m \<Longrightarrow> keeps (\<lambda>s. P (cn_db s)) (with_lock_retry n m)" for m :: "pydict ctr" and n
    by (induction n) (auto intro!: cmd_rules)
  have failure: "keeps (\<lambda>s. P (cn_db s)) (persist_inbound_failure t e r x)" for t e r x
    unfolding persist_inbound_failure_def inbound_defaults_def by (intro cmd_rules center_rules) (simp add: put_inbound_def)
  show ?thesis
    unfolding on_message_def handle_mqtt_message_def handle_mqtt_message_once_def handle_envelope_once_def process_inbound_def
      record_inbound_def inbound_defaults_def publish_trajectory_rejection_def
    by (intro cmd_rules center_rules retry failure assms)
qed

end

end
