(* ===== verification/CenterLoopRun.thy ===== *)
theory CenterLoopRun
  imports CenterFrame
begin

text \<open>
  Patrol loops under every run of the center. \<open>loop_step\<close> is the abstract state machine of a session; the locale
  \<open>loop_policy\<close> is the interface of a predicate that its steps keep, and shows that every operation of the center keeps it.
\<close>

section \<open>The state machine of a loop\<close>

definition LOOP_TRANSITIONS :: "(string \<times> string list) list" where
  "LOOP_TRANSITIONS = [(''starting'', [''running'', ''observing'']), (''resting'', [''running'', ''observing'']),
     (''running'', [''resting'', ''observing'']), (''observing'', [''running'', ''resting'', ''recovering'', ''observing'']),
     (''recovering'', [''observing'', ''running'']), (''paused'', [''observing'']), (''stopping'', [''resting'', ''failed''])]"

text \<open>What the deadline, the operator and the battery can do to every session that is not over.\<close>

definition EVERYWHERE :: "string list" where
  "EVERYWHERE = [''paused'', ''stopping'', ''completed'', ''cancelled'', ''low_battery_stopped'']"

definition loop_over :: "loop_row \<Rightarrow> bool" where
  "loop_over l = (lp_state l \<in> set LOOP_TERMINAL_STATES)"

definition loop_targets :: "string \<Rightarrow> string list" where
  "loop_targets t = (if t \<in> set LOOP_TERMINAL_STATES then []
     else (case map_of LOOP_TRANSITIONS t of None \<Rightarrow> [] | Some ts \<Rightarrow> ts) @ EVERYWHERE)"

definition same_loop :: "loop_row \<Rightarrow> loop_row \<Rightarrow> bool" where
  "same_loop l l' = (lp_id l' = lp_id l \<and> lp_robot l' = lp_robot l \<and> lp_task l' = lp_task l \<and> lp_snapshot l' = lp_snapshot l
     \<and> lp_duration l' = lp_duration l \<and> lp_rest l' = lp_rest l \<and> lp_started l' = lp_started l \<and> lp_ends l' = lp_ends l
     \<and> lp_max_attempts l' = lp_max_attempts l)"

text \<open>A note changes the session in its state. A move takes a new version; only a dispatched recovery counts an attempt, below
  the maximum, and only a dispatched round counts a round.\<close>

inductive loop_step :: "loop_row \<Rightarrow> loop_row \<Rightarrow> bool" where
  loop_note: "same_loop l l' \<Longrightarrow> lp_state l' = lp_state l \<Longrightarrow> lp_version l' = lp_version l \<Longrightarrow> lp_finished l' = lp_finished l \<Longrightarrow>
    lp_attempt l' = lp_attempt l \<Longrightarrow> lp_round l' = lp_round l \<Longrightarrow> loop_step l l'"
| loop_move: "same_loop l l' \<Longrightarrow> lp_state l' \<in> set (loop_targets (lp_state l)) \<Longrightarrow> lp_version l' = lp_version l + 1 \<Longrightarrow>
    (loop_over l' \<Longrightarrow> lp_finished l' \<noteq> None) \<Longrightarrow>
    lp_attempt l' \<in> {0, lp_attempt l} \<or> lp_state l' = ''recovering'' \<and> lp_attempt l < lp_max_attempts l \<and> lp_attempt l' = lp_attempt l + 1 \<Longrightarrow>
    lp_round l' = lp_round l \<or> lp_state l' = ''running'' \<and> lp_state l \<in> {''starting'', ''resting''} \<and> lp_round l' = lp_round l + 1 \<Longrightarrow>
    loop_step l l'"

lemma same_loop_refl [simp]: "same_loop l l"
  by (simp add: same_loop_def)

lemma loop_step_id: "loop_step l l' \<Longrightarrow> lp_id l' = lp_id l"
  by (induction rule: loop_step.induct) (simp_all add: same_loop_def)

lemma everywhere: "t \<notin> set LOOP_TERMINAL_STATES \<Longrightarrow> t' \<in> set EVERYWHERE \<Longrightarrow> t' \<in> set (loop_targets t)"
  by (simp add: loop_targets_def)

lemma everywhere_list:
  "''paused'' \<in> set EVERYWHERE" "''stopping'' \<in> set EVERYWHERE" "''completed'' \<in> set EVERYWHERE" "''cancelled'' \<in> set EVERYWHERE"
  "''low_battery_stopped'' \<in> set EVERYWHERE"
  by (simp_all add: EVERYWHERE_def)

lemma listed_targets:
  "''running'' \<in> set (loop_targets ''starting'')" "''observing'' \<in> set (loop_targets ''starting'')"
  "''running'' \<in> set (loop_targets ''resting'')" "''observing'' \<in> set (loop_targets ''resting'')"
  "''resting'' \<in> set (loop_targets ''running'')" "''observing'' \<in> set (loop_targets ''running'')"
  "''running'' \<in> set (loop_targets ''observing'')" "''resting'' \<in> set (loop_targets ''observing'')"
  "''recovering'' \<in> set (loop_targets ''observing'')" "''observing'' \<in> set (loop_targets ''observing'')"
  "''observing'' \<in> set (loop_targets ''recovering'')" "''running'' \<in> set (loop_targets ''recovering'')"
  "''observing'' \<in> set (loop_targets ''paused'')" "''resting'' \<in> set (loop_targets ''stopping'')" "''failed'' \<in> set (loop_targets ''stopping'')"
  by code_simp+

text \<open>The steps of \<open>set_state\<close>, for an instance \<open>l'\<close> with assignments on the row \<open>l\<close>.\<close>

definition step_ready :: "loop_row \<Rightarrow> loop_row \<Rightarrow> loop_change \<Rightarrow> bool" where
  "step_ready l l' c = (same_loop l l' \<and> lp_version l' = lp_version l \<and> lc_state c \<in> set (loop_targets (lp_state l))
     \<and> (lc_state c \<in> set LOOP_TERMINAL_STATES \<longrightarrow> lc_terminal c)
     \<and> (lp_attempt l' \<in> {0, lp_attempt l} \<or> lc_state c = ''recovering'' \<and> lp_attempt l < lp_max_attempts l \<and> lp_attempt l' = lp_attempt l + 1)
     \<and> (lp_round l' = lp_round l \<or> lc_state c = ''running'' \<and> lp_state l \<in> {''starting'', ''resting''} \<and> lp_round l' = lp_round l + 1))"

lemma step_ready_step: "step_ready l l' c \<Longrightarrow> lc_terminal c = (fin \<noteq> None) \<Longrightarrow> loop_step l (changed c fin l')"
  by (rule loop_step.loop_move) (auto simp: step_ready_def changed_def same_loop_def loop_over_def)

section \<open>The operations under a policy\<close>

definition fresh_loop :: "loop_row \<Rightarrow> bool" where
  "fresh_loop l = (lp_state l = ''starting'' \<and> lp_version l = 0 \<and> lp_attempt l = 0 \<and> lp_round l = 0 \<and> lp_max_attempts l = 10)"

lemma effect_laws: "bindC (returnC a) g = g a" "bindC (thenC m n) h = bindC m (\<lambda>_. bindC n h)"
  by (intro ext; simp add: bindC_def thenC_def returnC_def split: prod.split sum.split)+

lemma find_update_loop:
  assumes "update_loop pk f db = Inr db'" "\<And>x. lp_id x = pk \<Longrightarrow> lp_id (f x) = pk"
  shows "find_loop k db' = (if k = pk then map_option f (find_loop pk db) else find_loop k db)"
  using assms by (auto simp: update_loop_def find_loop_def row_of_edit split: option.splits)

lemma find_loop_id: "find_loop pk db = Some l \<Longrightarrow> lp_id l = pk"
  by (auto simp: find_loop_def dest: row_of_key)

lemma row_of_distinct: "distinct (map key rs) \<Longrightarrow> r \<in> set rs \<Longrightarrow> row_of key (key r) rs = Some r"
  by (induction rs) (auto simp: rev_image_eqI)

lemma find_loop_in: "distinct (map lp_id (db_loops db)) \<Longrightarrow> l \<in> set (db_loops db) \<Longrightarrow> find_loop (lp_id l) db = Some l"
  unfolding find_loop_def by (rule row_of_distinct)

named_theorems drive_rules \<open>rules for statements that hold instances of sessions\<close>

text \<open>The rows in \<open>L\<close> are as they were read.\<close>

definition unchanged :: "loop_row set \<Rightarrow> center_db \<Rightarrow> bool" where
  "unchanged L db = (\<forall>l \<in> L. find_loop (lp_id l) db = Some l)"


lemma unchanged_other:
  "unchanged L db \<Longrightarrow> pk \<notin> lp_id ` L \<Longrightarrow> (\<And>k. k \<noteq> pk \<Longrightarrow> find_loop k db' = find_loop k db) \<Longrightarrow> unchanged L db'"
  unfolding unchanged_def by (metis image_eqI)

locale loop_policy = side_frame P for P :: "center_db \<Rightarrow> bool" +
  assumes episodes [simp]: "P (db\<lparr>db_episodes := bs\<rparr>) = P db"
    and unique: "P db \<Longrightarrow> distinct (map lp_id (db_loops db))"
    and loop_step: "P db \<Longrightarrow> find_loop pk db = Some r \<Longrightarrow> loop_step r (f r) \<Longrightarrow> (\<And>x. lp_id x = pk \<Longrightarrow> lp_id (f x) = pk) \<Longrightarrow>
      update_loop pk f db = Inr db' \<Longrightarrow> P db'"
    and loop_creation: "P db \<Longrightarrow> fresh_loop l \<Longrightarrow> insert_loop l db = Inr db' \<Longrightarrow> P db'"
begin

definition knows :: "loop_row set \<Rightarrow> center_db \<Rightarrow> bool" where
  "knows L db = (P db \<and> unchanged L db)"

lemma knows_frame: "task_frame (knows L)"
  by unfold_locales (simp_all add: knows_def unchanged_def find_loop_def)

lemmas frame_rules = task_frame.keeps_side_create [OF knows_frame] task_frame.keeps_side_commands [OF knows_frame]
  task_frame.keeps_task_writes [OF knows_frame] task_frame.keeps_side_loop_parts [OF knows_frame]

lemma knows_weaken: "knows (insert l L) db \<Longrightarrow> knows L db"
  by (simp add: knows_def unchanged_def)

lemma knows_none [simp]: "knows {} db = P db"
  by (simp add: knows_def unchanged_def)

section \<open>Writes to a session\<close>

lemma knows_update:
  assumes "knows L db" "find_loop pk db = Some r" "loop_step r (f r)" "\<And>x. lp_id x = pk \<Longrightarrow> lp_id (f x) = pk"
    "update_loop pk f db = Inr db'" "pk \<notin> lp_id ` L"
  shows "knows (insert (f r) L) db'"
proof -
  have f: "find_loop k db' = (if k = pk then Some (f r) else find_loop k db)" for k
    using find_update_loop [OF assms(5,4)] assms(2) by simp
  have "P db'" using assms(1) by (auto simp: knows_def intro: loop_step [OF _ assms(2,3,4,5)])
  moreover have "unchanged L db'" using assms(1,6) f by (auto simp: knows_def intro: unchanged_other)
  moreover have "lp_id (f r) = pk" using assms(4) find_loop_id [OF assms(2)] by blast
  ultimately show ?thesis using f by (simp add: knows_def unchanged_def)
qed

lemma keeps_note:
  assumes "\<And>x. loop_step x (f x)" "lp_id l \<notin> lp_id ` L"
  shows "keeps (\<lambda>s. knows L (cn_db s)) (save_columns l f)"
  unfolding save_columns_def
proof (rule keeps_write)
  fix db db'
  assume u: "update_loop (lp_id l) f db = Inr db'" and k: "knows L db"
  obtain r where r: "find_loop (lp_id l) db = Some r" using u by (auto simp: update_loop_def split: option.splits)
  show "knows L db'"
    by (rule knows_weaken [OF knows_update [OF k r assms(1) _ u assms(2)]]) (simp add: loop_step_id [OF assms(1)])
qed

lemma triple_save:
  assumes "loop_step l l'" "lp_id l \<notin> lp_id ` L"
  shows "triple w (\<lambda>s. knows (insert l L) (cn_db s)) (save_session l') (\<lambda>_ s. knows (insert l' L) (cn_db s)) (\<lambda>s. knows L (cn_db s))"
  unfolding save_session_def
proof (rule triple_write)
  fix db db'
  assume w: "save_loop l' db = Inr db'" and k: "knows (insert l L) db"
  have id: "lp_id l' = lp_id l" using loop_step_id [OF assms(1)] .
  have r: "find_loop (lp_id l) db = Some l" using k by (simp add: knows_def unchanged_def)
  have u: "update_loop (lp_id l) (\<lambda>_. l') db = Inr db'" using w r by (simp add: save_loop_def id)
  show "knows (insert l' L) db'"
    by (rule knows_update [OF knows_weaken [OF k] r assms(1) _ u assms(2)]) (rule id)
qed (rule knows_weaken)

lemma note_columns [intro]:
  "loop_step x (x\<lparr>lp_metadata := m\<rparr>)" "loop_step x (x\<lparr>lp_next := t\<rparr>)" "loop_step x (x\<lparr>lp_observed := ob\<rparr>)"
  "loop_step x (x\<lparr>lp_observed := ob, lp_next := t\<rparr>)" "loop_step x (x\<lparr>lp_metadata := m, lp_next := t\<rparr>)"
  "loop_step x (x\<lparr>lp_error := err, lp_next := t\<rparr>)" "loop_step x (x\<lparr>lp_observed := ob, lp_metadata := m\<rparr>)"
  by (rule loop_step.loop_note; simp add: same_loop_def)+

lemma keeps_recording_stop: "lp_id l \<notin> lp_id ` L \<Longrightarrow> keeps (\<lambda>s. knows L (cn_db s)) (ensure_recording_stop l reason)"
  unfolding ensure_recording_stop_def Let_def by (intro cmd_rules center_rules frame_rules keeps_note) auto

text \<open>The main rule: the change of a session that was read from its row \<open>l\<close> and edited to \<open>l'\<close>.\<close>

lemma triple_set_state:
  assumes "step_ready l l' c" "lp_id l \<notin> lp_id ` L"
  shows "triple w (\<lambda>s. knows (insert l L) (cn_db s)) (set_state l' c) (\<lambda>_ s. knows L (cn_db s)) (\<lambda>s. knows L (cn_db s))"
proof -
  have id: "lp_id (changed c fin l') = lp_id l" for fin using assms(1) by (simp add: step_ready_def changed_def same_loop_def)
  have saved: "triple w (\<lambda>s. knows (insert l L) (cn_db s)) (save_session (changed c fin l')) (\<lambda>_ s. knows L (cn_db s)) (\<lambda>s. knows L (cn_db s))"
    if "lc_terminal c = (fin \<noteq> None)" for fin
    by (rule triple_conseq [OF triple_save [OF step_ready_step [OF assms(1) that] assms(2)]]) (auto dest: knows_weaken)
  have rest: "keeps (\<lambda>s. knows L (cn_db s)) (thenC (loop_event (changed c fin l') kind key code message payload)
      (if lc_terminal c then ensure_recording_stop (changed c fin l') reason else returnC (changed c fin l')))" for fin kind key code message payload reason
    by (intro cmd_rules center_rules frame_rules keeps_recording_stop) (use id assms(2) in auto)
  have stamp: "triple w (\<lambda>s. knows (insert l L) (cn_db s)) (if lc_terminal c then bindC nowC (\<lambda>t. returnC (Some t)) else returnC None)
      (\<lambda>fin s. knows (insert l L) (cn_db s) \<and> lc_terminal c = (fin \<noteq> None)) (\<lambda>s. knows L (cn_db s))"
    by (rule tripleI) (auto simp: run_simps nowC_def read_tick_def split: if_splits)
  show ?thesis
    unfolding set_state_def Let_def
  proof (rule triple_bind [OF stamp])
    fix fin
    show "triple w (\<lambda>s. knows (insert l L) (cn_db s) \<and> lc_terminal c = (fin \<noteq> None))
      (thenC (save_session (changed c fin l')) (thenC (loop_event (changed c fin l') (lc_event c)
        (''v'' @ show_int (lp_version (changed c fin l')) @ '':'' @ lc_event c) (lc_code c) (lc_message c) (lc_payload c))
       (if lc_terminal c then ensure_recording_stop (changed c fin l') (if lc_code c = [] then lc_state c else lc_code c)
        else returnC (changed c fin l')))) (\<lambda>_ s. knows L (cn_db s)) (\<lambda>s. knows L (cn_db s))"
      by (rule triple_assume [where G = "lc_terminal c = (fin \<noteq> None)"], blast)
        (rule triple_then [OF saved center_triple_keeps [OF rest]])
  qed
qed

section \<open>Statements that hold a session\<close>

text \<open>Whoever holds the rows in \<open>L\<close> as they are can run \<open>m\<close>.\<close>

definition drives :: "loop_row set \<Rightarrow> 'a ctr \<Rightarrow> bool" where
  "drives L m = (\<forall>w. triple w (\<lambda>s. knows L (cn_db s)) m (\<lambda>_ s. P (cn_db s)) (\<lambda>s. P (cn_db s)))"

lemma knows_P: "knows L db \<Longrightarrow> P db"
  by (simp add: knows_def)

lemma drives_keeps: "keeps (\<lambda>s. P (cn_db s)) m \<Longrightarrow> drives L m"
  unfolding drives_def by (blast intro: triple_weaken knows_P)

lemma drives_read: "(\<And>Q. keeps (\<lambda>s. Q (cn_db s)) m) \<Longrightarrow> (\<And>a. drives L (g a)) \<Longrightarrow> drives L (bindC m g)"
  unfolding drives_def by (blast intro: triple_reading knows_P)

lemma drives_frame:
  assumes "\<And>L. keeps (\<lambda>s. knows L (cn_db s)) m" "\<And>a. drives L (g a)"
  shows "drives L (bindC m g)"
  unfolding drives_def
proof
  fix w
  have held: "triple w (\<lambda>s. knows L (cn_db s)) m (\<lambda>_ s. knows L (cn_db s)) (\<lambda>s. P (cn_db s))"
    by (rule triple_conseq [OF center_triple_keeps [OF assms(1)]]) (auto intro: knows_P)
  show "triple w (\<lambda>s. knows L (cn_db s)) (bindC m g) (\<lambda>_ s. P (cn_db s)) (\<lambda>s. P (cn_db s))"
    by (rule triple_bind [OF held]) (use assms(2) in \<open>simp add: drives_def\<close>)
qed

lemma drives_frame_then: "(\<And>L. keeps (\<lambda>s. knows L (cn_db s)) m) \<Longrightarrow> drives L n \<Longrightarrow> drives L (thenC m n)"
  unfolding thenC_def by (rule drives_frame)

lemma drives_end: "drives L m \<Longrightarrow> (\<And>a. keeps (\<lambda>s. P (cn_db s)) (g a)) \<Longrightarrow> drives L (bindC m g)"
  unfolding drives_def by (blast intro: triple_bind center_triple_keeps)

lemma drives_end_then: "drives L m \<Longrightarrow> keeps (\<lambda>s. P (cn_db s)) n \<Longrightarrow> drives L (thenC m n)"
  unfolding thenC_def by (rule drives_end)

lemma drives_lift: "(\<And>a. v = Inr a \<Longrightarrow> drives L (g a)) \<Longrightarrow> drives L (bindC (liftC v) g)"
  unfolding drives_def by (blast intro: triple_lift knows_P)

lemma drives_basics [drive_rules]:
  "(b \<Longrightarrow> drives L m) \<Longrightarrow> (\<not> b \<Longrightarrow> drives L n) \<Longrightarrow> drives L (if b then m else n)"
  "drives L (returnC a)" "drives L (raiseC x)" "(b \<Longrightarrow> drives L u) \<Longrightarrow> drives L (whenC b u)"
  by (auto simp: whenC_def drives_def intro!: triple_return triple_raise knows_P)

lemma drives_option [drive_rules]:
  "(v = None \<Longrightarrow> drives L m) \<Longrightarrow> (\<And>a. v = Some a \<Longrightarrow> drives L (f a)) \<Longrightarrow> drives L (case v of None \<Rightarrow> m | Some a \<Rightarrow> f a)"
  by (cases v) simp_all

lemma drives_prod [drive_rules]: "(\<And>a b. drives L (f a b)) \<Longrightarrow> drives L (case p of (a, b) \<Rightarrow> f a b)"
  by (simp add: case_prod_beta)

lemma drives_lock [drive_rules]: "(\<And>l. lp_id l = pk \<Longrightarrow> drives {l} (g l)) \<Longrightarrow> drives L (bindC (lock_loop pk) g)"
  unfolding drives_def lock_loop_def
proof (intro allI triple_get)
  fix w r
  assume g: "\<And>l. lp_id l = pk \<Longrightarrow> \<forall>w. triple w (\<lambda>s. knows {l} (cn_db s)) (g l) (\<lambda>_ s. P (cn_db s)) (\<lambda>s. P (cn_db s))"
  show "triple w (\<lambda>s. knows L (cn_db s) \<and> find_loop pk (cn_db s) = Some r) (g r) (\<lambda>_ s. P (cn_db s)) (\<lambda>s. P (cn_db s))"
  proof (rule triple_assume [where G = "lp_id r = pk" and I = "\<lambda>s. knows {r} (cn_db s)"])
    show "knows {r} (cn_db s) \<and> lp_id r = pk" if "knows L (cn_db s) \<and> find_loop pk (cn_db s) = Some r" for s
      using that find_loop_id [of pk "cn_db s" r] by (auto simp: knows_def unchanged_def)
  qed (use g in blast)
qed (rule knows_P)

lemma drives_keeps_iff: "keeps (\<lambda>s. P (cn_db s)) m = drives {} m"
  unfolding drives_def by (auto intro: center_triple_keeps keeps_triple)

lemma drives_set_state [drive_rules]: "step_ready l l' c \<Longrightarrow> drives {l} (set_state l' c)"
  unfolding drives_def using triple_set_state [where L = "{}"] by simp

lemma drives_save: "loop_step l l' \<Longrightarrow> drives {l} (save_session l')"
  unfolding drives_def by (intro allI triple_conseq [OF triple_save [where L = "{}"]]) (auto intro: knows_P)

lemma keeps_loop_notes [center_rules]:
  "keeps (\<lambda>s. P (cn_db s)) (wait_second l now)"
  "keeps (\<lambda>s. P (cn_db s)) (update_patrol_loop_distance session pk batch)"
  unfolding wait_second_def update_patrol_loop_distance_def
  using keeps_note [where L = "{}"] by (auto intro!: cmd_rules center_rules)

section \<open>Low battery\<close>

lemma triple_hold:
  assumes "keeps (\<lambda>s. knows (insert l L) (cn_db s)) m"
    "\<And>a. triple w (\<lambda>s. knows (insert l L) (cn_db s)) (g a) R (\<lambda>s. knows L (cn_db s))"
  shows "triple w (\<lambda>s. knows (insert l L) (cn_db s)) (bindC m g) R (\<lambda>s. knows L (cn_db s))"
  by (rule triple_bind [OF _ assms(2)], rule triple_conseq [OF center_triple_keeps [OF assms(1)]]) (auto dest: knows_weaken)

lemma triple_low_battery_session:
  assumes "loop_active l" "lp_id l \<notin> lp_id ` L"
  shows "triple w (\<lambda>s. knows (insert l L) (cn_db s)) (low_battery_session b percent source l) (\<lambda>_ s. knows L (cn_db s)) (\<lambda>s. knows L (cn_db s))"
proof -
  have state: "lp_state l \<notin> set LOOP_TERMINAL_STATES"
    using assms(1) by (auto simp: loop_active_def LOOP_ACTIVE_STATES_def LOOP_TERMINAL_STATES_def)
  have ready: "step_ready l (l\<lparr>lp_paused := False, lp_error := problem\<rparr>)
      ((change ''low_battery_stopped'' event)\<lparr>lc_code := code, lc_message := message, lc_terminal := True, lc_payload := p\<rparr>)"
    for problem event code message p
    using everywhere [OF state everywhere_list(5)] by (simp add: step_ready_def same_loop_def change_def)
  show ?thesis
    unfolding low_battery_session_def whenC_def
    by (rule triple_hold, rule keeps_loop_reads, rule triple_hold, rule keeps_loop_reads, rule triple_if,
        rule triple_then [OF triple_set_state [OF ready assms(2)]], rule triple_return, assumption,
        rule triple_return, rule knows_weaken)
qed

lemma triple_low_battery_sessions:
  "distinct (map lp_id ls) \<Longrightarrow> \<forall>l \<in> set ls. loop_active l \<Longrightarrow>
     triple w (\<lambda>s. knows (set ls) (cn_db s)) (for_rows (low_battery_session b percent source) ls) (\<lambda>_ s. P (cn_db s)) (\<lambda>s. P (cn_db s))"
proof (induction ls)
  case (Cons l ls)
  then have first: "triple w (\<lambda>s. knows (insert l (set ls)) (cn_db s)) (low_battery_session b percent source l)
      (\<lambda>_ s. knows (set ls) (cn_db s)) (\<lambda>s. P (cn_db s))"
    by (intro triple_conseq [OF triple_low_battery_session]) (auto intro: knows_P)
  show ?case using triple_then [OF first] Cons by simp
qed (auto intro: triple_return)

lemma knows_filter: "P db \<Longrightarrow> set ls \<subseteq> set (db_loops db) \<Longrightarrow> knows (set ls) db"
  using find_loop_in [OF unique] by (auto simp: knows_def unchanged_def)

lemma keeps_episode_writes [center_rules]:
  "keeps (\<lambda>s. P (cn_db s)) (writeC (insert_episode b))" "keeps (\<lambda>s. P (cn_db s)) (writeC (\<lambda>db. Inr (clear_episode key now db)))"
  by (rule keeps_write; auto simp: insert_episode_def clear_episode_def split: if_splits)+

lemma keeps_low_battery [center_rules]: "keeps (\<lambda>s. P (cn_db s)) (terminate_low_battery robot key percent source)"
proof -
  let ?sessions = "\<lambda>db. rev (filter (\<lambda>l. lp_robot l = robot \<and> loop_active l) (db_loops db))"
  have episode: "keeps (\<lambda>s. P (cn_db s)) (ensure_episode robot k percent source known)" for known k
    unfolding ensure_episode_def Let_def prod.case_eq_if by (intro cmd_rules center_rules)
  have stops: "triple w (\<lambda>s. P (cn_db s)) (bindC (dbC ?sessions) (\<lambda>sessions. bindC (dbC f) (\<lambda>es.
      seq_valueC [for_rows (low_battery_session b percent source) sessions, for_rows low_battery_execution es] b)))
      (\<lambda>_ s. P (cn_db s)) (\<lambda>s. P (cn_db s))" for w b f
  proof (rule triple_read)
    fix ls
    show "triple w (\<lambda>s. P (cn_db s) \<and> ?sessions (cn_db s) = ls) (bindC (dbC f) (\<lambda>es.
      seq_valueC [for_rows (low_battery_session b percent source) ls, for_rows low_battery_execution es] b))
      (\<lambda>_ s. P (cn_db s)) (\<lambda>s. P (cn_db s))"
    proof (rule triple_assume [where I = "\<lambda>s. knows (set ls) (cn_db s)" and G = "distinct (map lp_id ls) \<and> (\<forall>l \<in> set ls. loop_active l)"])
      show "knows (set ls) (cn_db s) \<and> distinct (map lp_id ls) \<and> (\<forall>l \<in> set ls. loop_active l)" if "P (cn_db s) \<and> ?sessions (cn_db s) = ls" for s
        using that knows_filter [of "cn_db s" ls] unique [of "cn_db s"] by (auto simp: rev_map [symmetric] distinct_map_filter)
      assume "distinct (map lp_id ls) \<and> (\<forall>l \<in> set ls. loop_active l)"
      then have "drives (set ls) (for_rows (low_battery_session b percent source) ls)"
        unfolding drives_def using triple_low_battery_sessions by blast
      then have "drives (set ls) (bindC (dbC f) (\<lambda>es.
          seq_valueC [for_rows (low_battery_session b percent source) ls, for_rows low_battery_execution es] b))"
        unfolding seq_valueC_def seqC.simps low_battery_execution_def
        by (intro drives_read drives_end_then cmd_rules center_rules)
      then show "triple w (\<lambda>s. knows (set ls) (cn_db s)) (bindC (dbC f) (\<lambda>es.
          seq_valueC [for_rows (low_battery_session b percent source) ls, for_rows low_battery_execution es] b))
          (\<lambda>_ s. P (cn_db s)) (\<lambda>s. P (cn_db s))" by (simp add: drives_def)
    qed
  qed
  show ?thesis
    unfolding terminate_low_battery_def Let_def
    by (intro cmd_rules center_rules keeps_triple triple_bind [OF center_triple_keeps [OF episode]] stops)
qed

lemma keeps_observe_battery [center_rules]: "keeps (\<lambda>s. P (cn_db s)) (observe_battery worker latest)"
  unfolding observe_battery_def count_sample_def Let_def by (intro cmd_rules center_rules)

section \<open>Requests of an operator\<close>

lemma active_not_over: "loop_active l \<Longrightarrow> lp_state l \<notin> set LOOP_TERMINAL_STATES"
  by (auto simp: loop_active_def LOOP_ACTIVE_STATES_def LOOP_TERMINAL_STATES_def)

lemmas ready_simps = step_ready_def same_loop_def change_def

lemma keeps_create_session [center_rules]: "keeps (\<lambda>s. P (cn_db s)) (create_session task duration rest sid c)"
proof -
  have new: "keeps (\<lambda>s. P (cn_db s)) (writeC (insert_loop (new_loop pk robot task snapshot duration rest now ends recording operator)))"
    for pk robot snapshot now ends recording operator
    by (rule keeps_write, rule loop_creation [rotated 2], assumption, assumption, simp add: new_loop_def fresh_loop_def)
  show ?thesis
    unfolding create_session_def admit_session_def ensure_task_start_allowed_def insert_session_def Let_def
    by (intro cmd_rules center_rules new)
qed

lemma keeps_pause [center_rules]: "keeps (\<lambda>s. P (cn_db s)) (pause pk operator)"
proof -
  have ready: "loop_active l \<Longrightarrow> step_ready l (l\<lparr>lp_paused := True\<rparr>) ((change ''paused'' event)\<lparr>lc_next := stamp\<rparr>)" for l event stamp
    using everywhere [OF active_not_over everywhere_list(1), of l] by (simp add: ready_simps)
      (simp add: LOOP_TERMINAL_STATES_def)
  show ?thesis
    unfolding pause_def
    by (rule keeps_atomic, unfold drives_keeps_iff)
      (intro drive_rules ready drives_frame drives_frame_then cmd_rules center_rules frame_rules; simp)
qed

lemma keeps_manual_pause [center_rules]: "keeps (\<lambda>s. P (cn_db s)) (ensure_manual_pause l)"
  unfolding ensure_manual_pause_def by (intro cmd_rules center_rules)

lemma keeps_stop [center_rules]: "keeps (\<lambda>s. P (cn_db s)) (stop pk)"
proof -
  have ready: "lp_state l \<notin> set LOOP_TERMINAL_STATES \<Longrightarrow> step_ready l (l\<lparr>lp_paused := False\<rparr>)
      ((change ''cancelled'' event)\<lparr>lc_code := code, lc_message := message, lc_terminal := True\<rparr>)" for l event code message
    using everywhere [OF _ everywhere_list(4), of "lp_state l"] by (simp add: ready_simps)
  show ?thesis
    unfolding stop_def
    by (rule keeps_atomic, unfold drives_keeps_iff)
      (intro drive_rules ready drives_frame drives_frame_then cmd_rules center_rules frame_rules; simp)
qed

lemma keeps_continue [center_rules]: "keeps (\<lambda>s. P (cn_db s)) (continue_recovery pk)"
proof -
  have ready: "refuse_continue l = Inr u \<Longrightarrow> step_ready l (continued episode l)
      ((change ''observing'' event)\<lparr>lc_code := code, lc_message := message, lc_next := stamp\<rparr>)" for l u episode event code message stamp
    using listed_targets(10,13) by (auto simp: ready_simps refuse_continue_def continued_def LOOP_TERMINAL_STATES_def split: if_splits)
  show ?thesis
    unfolding continue_recovery_def Let_def thenC_def
    by (rule keeps_atomic, unfold drives_keeps_iff)
      (intro drive_rules drives_lift drives_frame cmd_rules center_rules frame_rules; erule ready)
qed

section \<open>The supervisor\<close>

lemmas supervisor_simps = ready_simps LOOP_TERMINAL_STATES_def listed_targets

lemma everywhere_now:
  "lp_state l \<notin> set LOOP_TERMINAL_STATES \<Longrightarrow> ''paused'' \<in> set (loop_targets (lp_state l)) \<and> ''stopping'' \<in> set (loop_targets (lp_state l))
     \<and> ''completed'' \<in> set (loop_targets (lp_state l))"
  using everywhere everywhere_list by blast

lemma drives_stopping: "lp_state l = ''stopping'' \<Longrightarrow> drives {l} (process_stopping l now)"
  using everywhere_now [of l]
  unfolding process_stopping_def round_stopped_def loop_stopped_def clear_recovery_episode_def
  by (intro drive_rules drives_frame cmd_rules center_rules frame_rules drives_keeps [OF keeps_loop_notes(1)];
      simp add: supervisor_simps)

lemma drives_deadline: "lp_state l \<notin> set LOOP_TERMINAL_STATES \<Longrightarrow> drives {l} (process_deadline l now)"
  using everywhere_now [of l]
  unfolding process_deadline_def
  by (intro drive_rules drives_frame drives_frame_then cmd_rules center_rules frame_rules;
      simp add: ready_simps; simp add: LOOP_TERMINAL_STATES_def)

lemma observing_columns:
  "same_loop l (observing code message episode l)" "lp_version (observing code message episode l) = lp_version l"
  "lp_round (observing code message episode l) = lp_round l" "lp_attempt (observing code message episode l) \<in> {0, lp_attempt l}"
  by (auto simp: observing_def Let_def same_loop_def split: option.split)

lemma drives_observation:
  assumes "lp_state l \<in> {''starting'', ''resting'', ''running''}"
  shows "drives {l} (begin_observation l code message)"
proof -
  have "''observing'' \<in> set (loop_targets (lp_state l))" using assms listed_targets by auto
  then show ?thesis
    unfolding begin_observation_def Let_def
    by (intro drive_rules drives_frame cmd_rules center_rules frame_rules)
      (use observing_columns in \<open>auto simp: step_ready_def change_def LOOP_TERMINAL_STATES_def\<close>)
qed

lemma drives_round:
  assumes "lp_state l \<in> {''starting'', ''resting''}"
  shows "drives {l} (dispatch_round l)"
proof -
  have "''running'' \<in> set (loop_targets (lp_state l))" using assms listed_targets by auto
  then show ?thesis
    unfolding dispatch_round_def round_execution_def Let_def
    by (intro drive_rules drives_frame cmd_rules center_rules frame_rules)
      (use assms in \<open>auto simp: ready_simps round_begun_def LOOP_TERMINAL_STATES_def\<close>)
qed

lemma drives_waiting: "lp_state l \<in> {''starting'', ''resting''} \<Longrightarrow> drives {l} (process_waiting l now)"
  unfolding process_waiting_def
  by (intro drive_rules drives_frame cmd_rules center_rules frame_rules drives_round drives_observation; auto)

lemma drives_running: "lp_state l = ''running'' \<Longrightarrow> drives {l} (process_running l e now)"
proof -
  assume running: "lp_state l = ''running''"
  have battery: "drives {l} (bindC (getC (find_robot (lp_robot l))) (\<lambda>robot.
      thenC (terminate_low_battery (lp_robot l) key (rb_battery robot) source) (lock_loop (lp_id l))))" for key source
    by (intro drives_keeps cmd_rules center_rules)
  show ?thesis
    unfolding process_running_def
    by (intro drive_rules battery drives_observation drives_keeps [OF keeps_loop_notes(1)]; simp add: running supervisor_simps)
qed

lemma drives_hold:
  assumes "lp_state l \<notin> set LOOP_TERMINAL_STATES"
  shows "drives {l} (begin_recovery_stop l e code message)"
proof -
  have "\<not> (''paused'' \<in> set LOOP_TERMINAL_STATES \<or> ''stopping'' \<in> set LOOP_TERMINAL_STATES)" by (simp add: LOOP_TERMINAL_STATES_def)
  then show ?thesis
    using everywhere_now [OF assms]
    unfolding begin_recovery_stop_def hold_recovery_def stop_round_def
    by (intro drive_rules drives_frame drives_frame_then cmd_rules center_rules frame_rules; simp add: ready_simps)
qed

lemma drives_blocked: "drives {l} (observation_blocked l latest now code message)"
proof -
  have saved: "drives {l} (thenC (seqC [save_session (l\<lparr>lp_observed := None, lp_metadata := m\<rparr>), loop_event l' kind key code' message' p]) n)"
    if "keeps (\<lambda>s. P (cn_db s)) n" for m l' kind key code' message' p and n :: "loop_row ctr"
    unfolding seqC.simps by (intro drives_end_then drives_save that cmd_rules center_rules) auto
  show ?thesis
    unfolding observation_blocked_def Let_def
    by (intro drive_rules drives_lift saved drives_keeps [OF keeps_loop_notes(1)] center_rules)
qed

lemma keeps_column_note: "(\<And>x. loop_step x (f x)) \<Longrightarrow> keeps (\<lambda>s. P (cn_db s)) (save_columns l f)"
  using keeps_note [where L = "{}"] by simp

lemma keeps_watch_notes [center_rules]:
  "keeps (\<lambda>s. P (cn_db s)) (await_reconciliation l now)" "keeps (\<lambda>s. P (cn_db s)) (observation_begun l now)"
  "keeps (\<lambda>s. P (cn_db s)) (in_progress_begun l result action now)"
  unfolding await_reconciliation_def observation_begun_def in_progress_begun_def Let_def
  by (intro cmd_rules center_rules keeps_column_note note_columns)+

lemma drives_observation_done:
  assumes "lp_state l = ''observing''"
  shows "drives {l} (observation_done l e now)"
proof -
  have open_state: "lp_state l \<notin> set LOOP_TERMINAL_STATES" using assms by (simp add: LOOP_TERMINAL_STATES_def)
  have recovery: "\<not> lp_max_attempts l \<le> lp_attempt l \<Longrightarrow> drives {l} (dispatch_recovery l r now)" for r
    unfolding dispatch_recovery_def Let_def
    by (intro drive_rules drives_frame cmd_rules center_rules frame_rules) (simp add: supervisor_simps assms)
  show ?thesis
    unfolding observation_done_def replace_round_def
    by (intro drive_rules drives_hold [OF open_state] recovery; simp add: supervisor_simps assms)
qed

lemma drives_observing: "lp_state l = ''observing'' \<Longrightarrow> drives {l} (process_observing l e latest now)"
proof -
  assume state: "lp_state l = ''observing''"
  have window: "drives {l} (watch_window l e now)"
    unfolding watch_window_def by (intro drive_rules drives_observation_done drives_keeps center_rules state)
  show ?thesis
    unfolding process_observing_def
    by (intro drive_rules drives_frame cmd_rules center_rules frame_rules drives_blocked window drives_keeps [OF keeps_watch_notes(1)];
        simp add: supervisor_simps state clear_recovery_episode_def)
qed

lemma drives_recovering: "lp_state l = ''recovering'' \<Longrightarrow> drives {l} (process_recovering l e now)"
proof -
  assume state: "lp_state l = ''recovering''"
  have open_state: "lp_state l \<notin> set LOOP_TERMINAL_STATES" using state by (simp add: LOOP_TERMINAL_STATES_def)
  have progress: "drives {l} (recovery_in_progress l result now)" for result
    unfolding recovery_in_progress_def in_progress_timeout_def Let_def
    by (intro drive_rules drives_keeps [OF keeps_watch_notes(3)] drives_keeps [OF keeps_loop_notes(1)]; simp add: supervisor_simps state)
  have answered: "drives {l} (recovery_answered l e' c now)" for e' c
    unfolding recovery_answered_def Let_def
    by (intro drive_rules drives_frame cmd_rules center_rules frame_rules progress drives_hold [OF open_state];
        simp add: supervisor_simps state clear_recovery_episode_def)
  show ?thesis
    unfolding process_recovering_def recovery_failed_def
    by (intro drive_rules drives_frame cmd_rules center_rules frame_rules answered drives_keeps [OF keeps_loop_notes(1)];
        simp add: supervisor_simps state)
qed

lemma drives_state: "lp_state l \<notin> set LOOP_TERMINAL_STATES \<Longrightarrow> drives {l} (process_state l latest now)"
  unfolding process_state_def
  by (intro drive_rules drives_frame cmd_rules center_rules drives_waiting drives_running drives_observing drives_recovering)

lemma keeps_process [center_rules]: "keeps (\<lambda>s. P (cn_db s)) (process worker pk)"
proof -
  have battery: "drives {l} (bindC (process_battery worker l latest) (\<lambda>l'.
      if lp_state l' \<in> set LOOP_TERMINAL_STATES then returnC l' else process_state l' latest now))" for l latest now
  proof (cases latest)
    case None
    then show ?thesis unfolding process_battery_def by (auto simp: effect_laws intro!: drive_rules drives_state)
  next
    case (Some x)
    have "drives {l} (bindC (observe_battery worker x) (\<lambda>_. bindC (lock_loop (lp_id l)) (\<lambda>l'.
        if lp_state l' \<in> set LOOP_TERMINAL_STATES then returnC l' else process_state l' latest now)))"
      by (intro drives_end drives_keeps keeps_observe_battery, unfold drives_keeps_iff) (intro drive_rules drives_state)
    then show ?thesis using Some by (simp add: process_battery_def effect_laws)
  qed
  show ?thesis
    unfolding process_def
    by (rule keeps_atomic, unfold drives_keeps_iff)
      (intro drive_rules drives_stopping drives_deadline drives_keeps [OF keeps_manual_pause] battery drives_frame cmd_rules center_rules)
qed

lemma keeps_process_due [center_rules]: "keeps (\<lambda>s. P (cn_db s)) (process_due worker limit)"
proof -
  show ?thesis
    unfolding process_due_def process_caught_def by (intro cmd_rules center_rules keeps_column_note note_columns)
qed

section \<open>Everything the center does\<close>

lemma keeps_trajectory [center_rules]: "keeps (\<lambda>s. P (cn_db s)) (handle_trajectory online env robot)"
  by (rule keeps_side_trajectory) (rule keeps_loop_notes)

lemma keeps_services_messages [center_rules]:
  "keeps (\<lambda>s. P (cn_db s)) (telemetry_status worker robot payload)" "keeps (\<lambda>s. P (cn_db s)) (handle_alert robot payload ingested)"
  unfolding telemetry_status_def apply_status_def store_status_def handle_alert_def stop_for_battery_def Let_def
  by (intro cmd_rules center_rules)+

lemma keeps_dispatch:
  "(\<And>e r. keeps (\<lambda>s. P (cn_db s)) (services e r)) \<Longrightarrow> keeps (\<lambda>s. P (cn_db s)) (dispatch services online env robot)"
  unfolding dispatch_def Let_def by (intro cmd_rules center_rules)

lemma keeps_schedules [center_rules]:
  "keeps (\<lambda>s. P (cn_db s)) (trigger c planned order)" "keeps (\<lambda>s. P (cn_db s)) (dispatch_due planned order)"
proof -
  have run: "keeps (\<lambda>s. P (cn_db s)) (ensure_run c planned status reason)" "keeps (\<lambda>s. P (cn_db s)) (save_run r)"
    "keeps (\<lambda>s. P (cn_db s)) (mark_schedule i stamp)" for c planned status reason r i stamp
    unfolding ensure_run_def save_run_def mark_schedule_def Let_def by (intro cmd_rules center_rules; simp add: update_run_def)+
  show trigger: "keeps (\<lambda>s. P (cn_db s)) (trigger c planned order)" for c planned
    unfolding trigger_def refused_run_def dispatch_run_def start_run_def settle_run_def prod.case_eq_if
    by (intro cmd_rules center_rules run)
  show "keeps (\<lambda>s. P (cn_db s)) (dispatch_due planned order)"
    unfolding dispatch_due_def dispatch_robot_def record_skip_def settle_run_def Let_def
    by (intro cmd_rules center_rules run trigger)
qed

lemma keeps_docking [center_rules]: "keeps (\<lambda>s. P (cn_db s)) (dispatch_docking_task robot map_pk route_pk episode persist order)"
proof -
  have "keeps (\<lambda>s. P (cn_db s)) (docking_task robot' route)" for robot' route
    unfolding docking_task_def Let_def by (intro cmd_rules center_rules; simp split: list.split)+
  then show ?thesis
    unfolding dispatch_docking_task_def admit_docking_def new_docking_def by (intro cmd_rules center_rules)
qed

lemma keeps_run_op:
  "(\<And>e r. keeps (\<lambda>s. P (cn_db s)) (services e r)) \<Longrightarrow> keeps (\<lambda>s. P (cn_db s)) (run_op services op)"
  by (cases op) (auto simp: run_op_def intro!: cmd_rules center_rules keeps_side_message keeps_dispatch)

lemma policy_run:
  assumes "\<And>e r. keeps (\<lambda>s. P (cn_db s)) (services e r)" "P (cn_db s)"
  shows "P (cn_db (run_center services w ops s))"
  using assms(2)
proof (induction ops arbitrary: s)
  case (Cons op ops)
  have "P (cn_db (snd (run_op services op w s)))" using keeps_run_op [OF assms(1)] Cons.prems by (simp add: keeps_def)
  then show ?case by (simp add: Cons.IH)
qed simp

end

section \<open>The history of a loop\<close>

definition loop_history :: "center_db \<Rightarrow> center_db \<Rightarrow> bool" where
  "loop_history db0 db = (distinct (map lp_id (db_loops db))
     \<and> (\<forall>pk l. find_loop pk db0 = Some l \<longrightarrow> (\<exists>l'. find_loop pk db = Some l' \<and> loop_step\<^sup>*\<^sup>* l l')))"

lemma loops_updated:
  assumes "update_loop pk f db = Inr db'" "find_loop pk db = Some r" "lp_id (f r) = pk" "distinct (map lp_id (db_loops db))"
  shows "distinct (map lp_id (db_loops db'))" "set (db_loops db') \<subseteq> insert (f r) (set (db_loops db) - {r})" "check_loop (f r) (db_loops db) = Inr ()"
proof -
  have rows: "db_loops db' = edit_rows lp_id pk f (db_loops db)" and c: "check_loop (f r) (db_loops db) = Inr ()"
    using assms(1,2) by (auto simp: update_loop_def split: option.splits)
  have row: "row_of lp_id pk (db_loops db) = Some r" and id: "lp_id (f r) = pk"
    using assms(2,3) by (simp_all add: find_loop_def)
  show "distinct (map lp_id (db_loops db'))" "set (db_loops db') \<subseteq> insert (f r) (set (db_loops db) - {r})"
    unfolding rows using distinct_edit [where key = lp_id and f = f, OF assms(4) row id] by simp_all
  show "check_loop (f r) (db_loops db) = Inr ()" by (rule c)
qed

lemma loops_inserted:
  assumes "insert_loop l db = Inr db'"
  shows "db_loops db' = db_loops db @ [l]" "find_loop (lp_id l) db = None" "check_loop l (db_loops db) = Inr ()"
  using assms by (auto simp: insert_loop_def seqE_ok integrity_def)

interpretation loops: loop_policy "loop_history db0" for db0
proof
  fix db db' pk r f
  assume h: "loop_history db0 db" and r: "find_loop pk db = Some r" "loop_step r (f r)"
    and u: "\<And>x. lp_id x = pk \<Longrightarrow> lp_id (f x) = pk" "update_loop pk f db = Inr db'"
  have d: "distinct (map lp_id (db_loops db'))" 
    using loops_updated(1) [OF u(2) r(1) u(1) [OF find_loop_id [OF r(1)]]] h by (simp add: loop_history_def)
  have f: "find_loop k db' = (if k = pk then Some (f r) else find_loop k db)" for k
    using find_update_loop [OF u(2,1)] r(1) by simp
  show "loop_history db0 db'"
    unfolding loop_history_def
  proof (intro conjI allI impI d)
    fix k l
    assume "find_loop k db0 = Some l"
    then obtain l' where l': "find_loop k db = Some l'" "loop_step\<^sup>*\<^sup>* l l'" using h by (auto simp: loop_history_def)
    show "\<exists>l'. find_loop k db' = Some l' \<and> loop_step\<^sup>*\<^sup>* l l'"
    proof (cases "k = pk")
      case True
      then show ?thesis using f l' r by (auto intro: rtranclp.rtrancl_into_rtrancl)
    qed (use f l' in simp)
  qed
next
  fix db db' l
  assume h: "loop_history db0 db" and i: "insert_loop l db = Inr db'"
  have "find_loop k db' = (case find_loop k db of None \<Rightarrow> if lp_id l = k then Some l else None | Some r \<Rightarrow> Some r)" for k
    by (simp add: find_loop_def loops_inserted(1) [OF i] row_of_append split: option.split)
  then show "loop_history db0 db'"
    using h loops_inserted [OF i] by (fastforce simp: loop_history_def find_loop_def row_of_None)
qed (auto simp: loop_history_def find_loop_def)

text \<open>What any number of steps keeps.\<close>

lemma loop_step_over: "loop_step l l' \<Longrightarrow> loop_over l \<Longrightarrow> lp_state l' = lp_state l \<and> lp_version l' = lp_version l \<and> lp_finished l' = lp_finished l"
  by (induction rule: loop_step.induct) (auto simp: loop_over_def loop_targets_def)

lemma loop_history_facts:
  "loop_step\<^sup>*\<^sup>* l l' \<Longrightarrow> same_loop l l' \<and> lp_version l \<le> lp_version l' \<and> lp_round l \<le> lp_round l'
     \<and> (loop_over l \<longrightarrow> lp_state l' = lp_state l \<and> lp_version l' = lp_version l \<and> lp_finished l' = lp_finished l)"
proof (induction rule: rtranclp_induct)
  case (step y z)
  have "same_loop y z \<and> lp_version y \<le> lp_version z \<and> lp_round y \<le> lp_round z" using step.hyps(2) by (cases rule: loop_step.cases) auto
  moreover have "loop_over l \<Longrightarrow> loop_over y" using step.IH by (simp add: loop_over_def)
  ultimately show ?case using step.IH loop_step_over [OF step.hyps(2)] by (auto simp: same_loop_def)
qed simp

text \<open>C6. Loop sessions follow their state machine. Whatever the operations of the center are (operators, the supervisor, battery
  reports, messages, schedules) and whatever fails in between, a loop session stays in the database with its robot, task, route
  and duration; its row is reached by steps of the state machine, in which a state changes only along the listed transitions,
  a recovery is counted only below the maximum and a round only from the start or the rest; its version and its round never
  decrease; and a session that is over keeps its state, its version and its end for ever. The services that are not modelled
  are assumed to keep to the same steps.\<close>

theorem loops_follow_state_machine:
  assumes services: "\<And>env robot v s'. loop_history (cn_db s) (cn_db s') \<Longrightarrow> loop_history (cn_db s) (cn_db (snd (services env robot v s')))"
    and ids: "distinct (map lp_id (db_loops (cn_db s)))" and row: "find_loop pk (cn_db s) = Some l"
  shows "\<exists>l'. find_loop pk (cn_db (run_center services w ops s)) = Some l' \<and> loop_step\<^sup>*\<^sup>* l l' \<and> same_loop l l'
    \<and> lp_version l \<le> lp_version l' \<and> lp_round l \<le> lp_round l'
    \<and> (loop_over l \<longrightarrow> lp_state l' = lp_state l \<and> lp_version l' = lp_version l \<and> lp_finished l' = lp_finished l)"
proof -
  have "keeps (\<lambda>s'. loop_history (cn_db s) (cn_db s')) (services env robot)" for env robot by (rule keepsI) (rule services)
  then have "loop_history (cn_db s) (cn_db (run_center services w ops s))"
    by (rule loops.policy_run) (simp add: loop_history_def ids)
  with row obtain l' where "find_loop pk (cn_db (run_center services w ops s)) = Some l'" "loop_step\<^sup>*\<^sup>* l l'"
    by (auto simp: loop_history_def)
  with loop_history_facts show ?thesis by blast
qed

definition sample_loop :: "string \<Rightarrow> string \<Rightarrow> loop_row" where
  "sample_loop pk state = \<lparr>lp_id = pk, lp_robot = 1, lp_task = 7, lp_snapshot = [], lp_state = state, lp_version = 4,
      lp_duration = 3600, lp_rest = 5, lp_started = 0, lp_ends = 3600 * SECOND, lp_finished = Some 9, lp_round = 2,
      lp_execution = None, lp_next = 0, lp_observed = None, lp_episode = None, lp_code = [], lp_message = [], lp_attempt = 0,
      lp_max_attempts = 10, lp_paused = False, lp_error = [], lp_metadata = [], lp_created_by = None\<rparr>"

definition loop_center :: "loop_row list \<Rightarrow> center_state" where
  "loop_center ls = (sample_center [])\<lparr>cn_db := (cn_db (sample_center []))\<lparr>db_loops := ls\<rparr>\<rparr>"

theorem loops_follow_state_machine_witness:
  "\<forall>w raw. \<exists>l'. find_loop ''a'' (cn_db (run_center no_services w [ContinueLoop ''a'', SuperviseLoops ''w'' 5, Received ''robots/r1/up/x'' raw, StopLoop ''a'']
     (loop_center [sample_loop ''a'' ''cancelled'']))) = Some l' \<and> lp_state l' = ''cancelled'' \<and> lp_finished l' = Some 9"
proof (intro allI)
  fix w raw
  let ?s = "loop_center [sample_loop ''a'' ''cancelled'']" and ?l = "sample_loop ''a'' ''cancelled''"
  have row: "find_loop ''a'' (cn_db ?s) = Some ?l" "distinct (map lp_id (db_loops (cn_db ?s)))"
    by (simp_all add: find_loop_def loop_center_def sample_loop_def)
  have l: "loop_over ?l" "lp_state ?l = ''cancelled''" "lp_finished ?l = Some 9"
    by (simp_all add: loop_over_def sample_loop_def LOOP_TERMINAL_STATES_def)
  show "\<exists>l'. find_loop ''a'' (cn_db (run_center no_services w [ContinueLoop ''a'', SuperviseLoops ''w'' 5, Received ''robots/r1/up/x'' raw, StopLoop ''a''] ?s))
     = Some l' \<and> lp_state l' = ''cancelled'' \<and> lp_finished l' = Some 9"
    by (rule exE [OF loops_follow_state_machine [where services = no_services and w = w
      and ops = "[ContinueLoop ''a'', SuperviseLoops ''w'' 5, Received ''robots/r1/up/x'' raw, StopLoop ''a'']", OF _ row(2,1)]], simp only: no_services_db) (use l in \<open>auto simp del: run_center.simps\<close>)
qed

section \<open>Sound sessions\<close>

definition loop_sound :: "loop_row \<Rightarrow> bool" where
  "loop_sound l = (0 \<le> lp_attempt l \<and> lp_attempt l \<le> lp_max_attempts l \<and> 0 \<le> lp_round l \<and> 0 \<le> lp_version l \<and> (loop_over l \<longrightarrow> lp_finished l \<noteq> None))"

definition loops_ok :: "center_db \<Rightarrow> bool" where
  "loops_ok db = (distinct (map lp_id (db_loops db)) \<and> (\<forall>l \<in> set (db_loops db). loop_sound l)
     \<and> (\<forall>l \<in> set (db_loops db). \<forall>q \<in> set (db_loops db). loop_active l \<and> loop_active q \<and> lp_robot l = lp_robot q \<longrightarrow> lp_id l = lp_id q))"

lemma sound_step: "loop_step l l' \<Longrightarrow> loop_sound l \<Longrightarrow> loop_sound l'"
  by (induction rule: loop_step.induct) (auto simp: loop_sound_def same_loop_def loop_over_def)

lemma check_loop_ok:
  "check_loop l rows = Inr u \<Longrightarrow> loop_active l \<Longrightarrow> r \<in> set rows \<Longrightarrow> lp_id r \<noteq> lp_id l \<Longrightarrow> lp_robot r = lp_robot l \<Longrightarrow> \<not> loop_active r"
  by (auto simp: check_loop_def seqE_ok integrity_def raise_if_def split: if_splits)

lemma loops_ok_join:
  assumes ok: "loops_ok db" and c: "check_loop l (db_loops db) = Inr u" and s: "loop_sound l"
    and d: "distinct (map lp_id (db_loops db'))" and sub: "set (db_loops db') \<subseteq> insert l (set (db_loops db))"
  shows "loops_ok db'"
  unfolding loops_ok_def
proof (intro conjI ballI impI d)
  fix x
  assume x: "x \<in> set (db_loops db')"
  then show "loop_sound x" using ok s sub by (auto simp: loops_ok_def)
  fix y
  assume y: "y \<in> set (db_loops db')" and both: "loop_active x \<and> loop_active y \<and> lp_robot x = lp_robot y"
  have "x = l \<or> x \<in> set (db_loops db)" "y = l \<or> y \<in> set (db_loops db)" using x y sub by auto
  then show "lp_id x = lp_id y"
    using check_loop_ok [OF c] both ok unfolding loops_ok_def by metis
qed

interpretation sound_loops: loop_policy loops_ok
proof
  fix db db' pk r f
  assume ok: "loops_ok db" and r: "find_loop pk db = Some r" "loop_step r (f r)"
    and u: "\<And>x. lp_id x = pk \<Longrightarrow> lp_id (f x) = pk" "update_loop pk f db = Inr db'"
  have d: "distinct (map lp_id (db_loops db))" and row: "r \<in> set (db_loops db)"
    using ok r(1) by (auto simp: loops_ok_def find_loop_def dest: row_of_in)
  note rows = loops_updated [OF u(2) r(1) u(1) [OF find_loop_id [OF r(1)]] d]
  have "loop_sound (f r)" using sound_step [OF r(2)] ok row by (simp add: loops_ok_def)
  then show "loops_ok db'" by (rule loops_ok_join [OF ok rows(3) _ rows(1)]) (use rows(2) in blast)
next
  fix db db' l
  assume ok: "loops_ok db" and l: "fresh_loop l" and i: "insert_loop l db = Inr db'"
  have "loop_sound l" using l by (simp add: fresh_loop_def loop_sound_def loop_over_def LOOP_TERMINAL_STATES_def)
  then show "loops_ok db'"
    by (rule loops_ok_join [OF ok loops_inserted(3) [OF i]])
      (use ok loops_inserted [OF i] in \<open>auto simp: loops_ok_def find_loop_def row_of_None\<close>)
qed (auto simp: loops_ok_def)

text \<open>C8. Loop sessions stay sound. In every run of the center the sessions have distinct ids, a robot has at most one session
  that is not over, a session counts no more recovery attempts of a fault than its maximum, and one that is over has the
  time at which it ended.\<close>

theorem loop_sessions_sound:
  assumes "loops_ok (cn_db s)"
    and "\<And>env robot w s. loops_ok (cn_db s) \<Longrightarrow> loops_ok (cn_db (snd (services env robot w s)))"
  shows "loops_ok (cn_db (run_center services w ops s))"
  by (rule sound_loops.policy_run) (auto intro: keepsI assms)

theorem loop_sessions_sound_witness:
  "\<forall>w raw. loops_ok (cn_db (run_center no_services w [Received ''robots/r1/up/x'' raw, SuperviseLoops ''w'' 5, PauseLoop ''a'' None]
     (loop_center [sample_loop ''a'' ''running'', sample_loop ''b'' ''failed''])))"
proof -
  have "loops_ok (cn_db (loop_center [sample_loop ''a'' ''running'', sample_loop ''b'' ''failed'']))"
    by (simp add: loops_ok_def loop_sound_def loop_center_def sample_loop_def loop_active_def LOOP_ACTIVE_STATES_def)
  then show ?thesis by (intro allI) (rule loop_sessions_sound; simp only: no_services_db)
qed

end
