(* ===== verification/CenterStatus.thy ===== *)
theory CenterStatus
  imports CenterTrajectory CenterLoopRun
begin

text \<open>
  What a status of a robot does to the center, and the distance of a loop: a batch of points that arrives late or out of
  order changes the stored distance by exactly what its points change in the whole track.
\<close>

section \<open>The status of a robot\<close>

interpretation status_watch: watch_frame "\<lambda>db. db_statuses db = sts \<and> db_robots db = rbs" for sts rbs
  by unfold_locales simp_all

lemma status_columns_facts:
  "status_columns decimal robot payload version sampled now db = Inr l \<Longrightarrow>
     sl_robot l = rb_id robot \<and> sl_version l = version \<and> sampled = Some (sl_sampled l) \<and> sl_received l = now \<and> sl_raw l = payload"
  by (auto simp: status_columns_def split: option.split_asm prod.split_asm)

lemma stored_status:
  "put_status l db = Inr db' \<Longrightarrow> find_status (sl_robot l) db' = Some l \<and> db_robots db' = db_robots db"
  by (auto simp: put_status_def find_status_def row_of_append row_of_edit split: option.splits)

lemma stored_robot: "update_robot pk f db = Inr db' \<Longrightarrow> (\<And>x. rb_id (f x) = pk) \<Longrightarrow> (\<exists>r. find_robot pk db' = Some (f r)) \<and> db_statuses db' = db_statuses db"
  by (auto simp: update_robot_def find_robot_def row_of_edit split: if_splits)

lemma store_status_ok:
  assumes "store_status worker robot l w s = (Inr u, s')" "sl_robot l = rb_id robot"
  shows "find_status (rb_id robot) (cn_db s') = Some l \<and> (\<exists>seen heartbeat. find_robot (rb_id robot) (cn_db s') = Some (robot_of_status l seen heartbeat robot))"
proof -
  from assms(1) obtain s1 seen heartbeat s2 where put: "writeC (put_status l) w s = (Inr (), s1)"
    and row: "writeC (update_robot (rb_id robot) (\<lambda>_. robot_of_status l seen heartbeat robot)) w (s1\<lparr>cn_tick := Suc (Suc (cn_tick s1))\<rparr>) = (Inr (), s2)"
    and battery: "observe_battery worker l w s2 = (Inr (), s')"
    by (auto simp: store_status_def run_simps nowC_def read_tick_def)
  have "find_status (rb_id robot) (cn_db s1) = Some l" using stored_status [OF writeC_ok [OF put]] assms(2) by simp
  moreover have "(\<exists>r. find_robot (rb_id robot) (cn_db s2) = Some (robot_of_status l seen heartbeat robot)) \<and> db_statuses (cn_db s2) = db_statuses (cn_db s1)"
    using stored_robot [OF writeC_ok [OF row]] by (simp add: robot_of_status_def)
  moreover have "db_statuses (cn_db s') = db_statuses (cn_db s2) \<and> db_robots (cn_db s') = db_robots (cn_db s2)"
    using keepsD [OF status_watch.keeps_watch_battery(2) battery] by blast
  ultimately show ?thesis by (auto simp: find_status_def find_robot_def)
qed

text \<open>C17. The newest status is kept. A report that names a higher version than the stored status, or a later sampling time, or
  a save of a map that advanced, replaces the row as a whole: version, sampling time and payload are those of the report, and
  the robot is then online with the columns of the report. Any other report changes nothing at all and is answered with the
  stored row. In both cases the answer says that nothing was created.\<close>

theorem status_never_goes_back:
  assumes run: "apply_status worker robot payload w s = (Inr (l, created), s')"
    and old: "find_status (rb_id robot) (cn_db s) = Some before"
  shows "\<exists>version read advanced. bindE (dsub payload ''state_version'') py_int = Inr version
    \<and> bindE (dsub payload ''sampled_at'') (\<lambda>v. cw_parse_datetime w (py_str v)) = Inr read
    \<and> progress_advanced payload (Some before) = Inr advanced \<and> \<not> created
    \<and> (if sl_version before < version \<or> (\<exists>d. read = Some d \<and> sl_sampled before < local_instant d) \<or> advanced
       then find_status (rb_id robot) (cn_db s') = Some l \<and> sl_version l = version \<and> Some (sl_sampled l) = map_option local_instant read
         \<and> sl_raw l = payload
         \<and> (\<exists>r. find_robot (rb_id robot) (cn_db s') = Some r \<and> rb_connection r = ''online'' \<and> rb_state_version r = sl_version l
              \<and> rb_localization r = sl_localization l \<and> rb_nav_ready r = sl_nav l \<and> rb_control_mode r = sl_mode l)
       else l = before \<and> s' = s)"
proof -
  note runs = apply_status_def atomicC_def dbC_def worldC_def nowC_def read_tick_def run_simps Let_def
  obtain version where version: "bindE (dsub payload ''state_version'') py_int = Inr version"
    using run by (cases "bindE (dsub payload ''state_version'') py_int") (auto simp: apply_status_def atomicC_def liftC_def bindC_def)
  obtain read where read: "bindE (dsub payload ''sampled_at'') (\<lambda>v. cw_parse_datetime w (py_str v)) = Inr read"
    using run version by (cases "bindE (dsub payload ''sampled_at'') (\<lambda>v. cw_parse_datetime w (py_str v))")
      (auto simp: apply_status_def atomicC_def liftC_def bindC_def dbC_def worldC_def)
  obtain advanced where advanced: "progress_advanced payload (Some before) = Inr advanced"
    using run old version read by (cases "progress_advanced payload (Some before)")
      (auto simp: apply_status_def atomicC_def liftC_def bindC_def dbC_def worldC_def)
  have "if \<not> advanced \<and> stale_status before version (map_option local_instant read) then (l, created) = (before, False) \<and> s' = s
      else \<not> created \<and> status_columns (cw_decimal w) robot payload version (map_option local_instant read) (cw_now w (cn_tick s)) (cn_db s) = Inr l
        \<and> store_status worker robot l w (s\<lparr>cn_tick := Suc (cn_tick s)\<rparr>) = (Inr (), s')"
    using run old by (auto simp: runs version read advanced dest!: sym [of "Inr _"] simp del: bindE_ok
      split: option.split_asm if_split_asm prod.split_asm sum.split_asm)
  note outcome = this
  have created: "\<not> created" using outcome by (auto split: if_splits)
  from outcome consider "\<not> advanced \<and> stale_status before version (map_option local_instant read)" "l = before" "s' = s"
    | now s1 where "\<not> created" "\<not> (\<not> advanced \<and> stale_status before version (map_option local_instant read))"
      "status_columns (cw_decimal w) robot payload version (map_option local_instant read) now (cn_db s) = Inr l"
      "store_status worker robot l w s1 = (Inr (), s')" by (auto split: if_splits)
  then have "if sl_version before < version \<or> (\<exists>d. read = Some d \<and> sl_sampled before < local_instant d) \<or> advanced
       then find_status (rb_id robot) (cn_db s') = Some l \<and> sl_version l = version \<and> Some (sl_sampled l) = map_option local_instant read
         \<and> sl_raw l = payload
         \<and> (\<exists>r. find_robot (rb_id robot) (cn_db s') = Some r \<and> rb_connection r = ''online'' \<and> rb_state_version r = sl_version l
              \<and> rb_localization r = sl_localization l \<and> rb_nav_ready r = sl_nav l \<and> rb_control_mode r = sl_mode l)
       else l = before \<and> s' = s"
  proof cases
    case 1
    then show ?thesis by (auto simp: stale_status_def split: option.splits)
  next
    case 2
    have l: "sl_robot l = rb_id robot" "sl_version l = version" "map_option local_instant read = Some (sl_sampled l)" "sl_raw l = payload"
      using status_columns_facts [OF 2(3)] by simp_all
    have "sl_version before < version \<or> (\<exists>d. read = Some d \<and> sl_sampled before < local_instant d) \<or> advanced"
      using 2(2) l(3) by (auto simp: stale_status_def)
    with store_status_ok [OF 2(4) l(1)] l show ?thesis by (auto simp: robot_of_status_def)
  qed
  with version read advanced created show ?thesis by blast
qed

section \<open>The distance of a loop\<close>

lemma distance_join: "trajectory_distance (A @ p # B) = trajectory_distance (A @ [p]) + trajectory_distance (p # B)"
  by (induction A rule: trajectory_distance.induct) auto

text \<open>A slice that begins and ends with points of other batches, or with the track.\<close>

lemma delta_left:
  assumes "\<forall>p \<in> set A. nb p" "A = [] \<or> (\<exists>p S'. S = p # S' \<and> nb p)"
  shows "trajectory_distance (A @ S) - trajectory_distance (filter nb (A @ S)) = trajectory_distance S - trajectory_distance (filter nb S)"
proof (cases "A = []")
  case False
  then obtain p S' where S: "S = p # S'" "nb p" using assms(2) by blast
  have "filter nb A = A" using assms(1) by (simp add: filter_id_conv)
  then show ?thesis using S distance_join [of A p S'] distance_join [of A p "filter nb S'"] by simp
qed simp

lemma delta_right:
  assumes "\<forall>p \<in> set C. nb p" "C = [] \<or> (\<exists>q S'. S = S' @ [q] \<and> nb q)"
  shows "trajectory_distance (S @ C) - trajectory_distance (filter nb (S @ C)) = trajectory_distance S - trajectory_distance (filter nb S)"
proof (cases "C = []")
  case False
  then obtain q S' where S: "S = S' @ [q]" "nb q" using assms(2) by blast
  have "filter nb C = C" using assms(1) by (simp add: filter_id_conv)
  then show ?thesis using S distance_join [of S' q C] distance_join [of "filter nb S'" q C] by simp
qed simp

lemma sorted_split:
  fixes a b :: int
  assumes "sorted_wrt (<) (map seq ps)" "a \<le> b"
  shows "ps = filter (\<lambda>p. seq p < a) ps @ filter (\<lambda>p. a \<le> seq p \<and> seq p \<le> b) ps @ filter (\<lambda>p. b < seq p) ps"
  using assms(1)
proof (induction ps)
  case (Cons p ps)
  consider "seq p < a" | "a \<le> seq p" "seq p \<le> b" | "b < seq p" by linarith
  then show ?case
  proof cases
    case 1
    then show ?thesis using Cons assms(2) by auto
  next
    case 2
    moreover have "filter (\<lambda>p. seq p < a) ps = []" using Cons.prems 2 by (auto simp: filter_empty_conv)
    ultimately show ?thesis using Cons by auto
  next
    case 3
    moreover have "filter (\<lambda>p. seq p < a) ps = []" "filter (\<lambda>p. a \<le> seq p \<and> seq p \<le> b) ps = []"
      using Cons.prems 3 assms(2) by (auto simp: filter_empty_conv)
    ultimately show ?thesis using Cons assms(2) by auto
  qed
qed simp


lemma sorted_ends:
  fixes f :: "'a \<Rightarrow> int"
  assumes "sorted_wrt (\<lambda>p q. f p < f q) xs" "x \<in> set xs"
  shows "f (hd xs) \<le> f x \<and> f x \<le> f (List.last xs)"
proof
  show "f (hd xs) \<le> f x" using assms by (cases xs) (auto simp: less_imp_le)
  show "f x \<le> f (List.last xs)" using assms by (cases xs rule: rev_cases) (auto simp: sorted_wrt_append less_imp_le)
qed

text \<open>The slice that a batch touches.\<close>

lemma touched_slice:
  assumes sorted: "sorted_wrt (<) (map tp_seq points)" and batch: "filter (\<lambda>p. tp_batch p = batch) points \<noteq> []"
  shows "\<exists>A C. points = A @ touched batch points @ C \<and> (\<forall>p \<in> set A. tp_batch p \<noteq> batch) \<and> (\<forall>p \<in> set C. tp_batch p \<noteq> batch)
    \<and> (A = [] \<or> (\<exists>p S'. touched batch points = p # S' \<and> tp_batch p \<noteq> batch))
    \<and> (C = [] \<or> (\<exists>q S'. touched batch points = S' @ [q] \<and> tp_batch q \<noteq> batch))"
proof -
  let ?ins = "filter (\<lambda>p. tp_batch p = batch) points"
  let ?first = "tp_seq (hd ?ins)" and ?last = "tp_seq (List.last ?ins)"
  let ?before = "filter (\<lambda>p. tp_seq p < ?first) points" and ?behind = "filter (\<lambda>p. ?last < tp_seq p) points"
  obtain lower upper where bounds: "lower = (if ?before = [] then ?first else tp_seq (List.last ?before))"
    "upper = (if ?behind = [] then ?last else tp_seq (hd ?behind))" by blast
  let ?A = "filter (\<lambda>p. tp_seq p < lower) points" and ?C = "filter (\<lambda>p. upper < tp_seq p) points"
  have ins: "sorted_wrt (\<lambda>p q. tp_seq p < tp_seq q) ?ins" and all: "sorted_wrt (\<lambda>p q. tp_seq p < tp_seq q) points"
    using sorted by (simp_all add: sorted_wrt_map sorted_wrt_filter)
  have range: "?first \<le> tp_seq p \<and> tp_seq p \<le> ?last" if "p \<in> set ?ins" for p
    using sorted_ends [OF ins that] .
  have "hd ?ins \<in> set ?ins" by (rule hd_in_set [OF batch])
  then have mid: "?first \<le> ?last" using range by blast
  have before: "List.last ?before \<in> set ?before" if "?before \<noteq> []" using that by (rule last_in_set)
  have behind: "hd ?behind \<in> set ?behind" if "?behind \<noteq> []" using that by (rule hd_in_set)
  have lower: "lower \<le> ?first" using before by (auto simp: bounds less_imp_le)
  have upper: "?last \<le> upper" using behind by (auto simp: bounds less_imp_le)
  have S: "touched batch points = filter (\<lambda>p. lower \<le> tp_seq p \<and> tp_seq p \<le> upper) points" by (simp add: touched_def Let_def bounds)
  then have sorted_S: "sorted_wrt (\<lambda>p q. tp_seq p < tp_seq q) (touched batch points)" using all by (simp add: sorted_wrt_filter)
  have outside: "tp_batch p \<noteq> batch" if "p \<in> set points" "tp_seq p < ?first \<or> ?last < tp_seq p" for p
    using range [of p] that by auto
  have left: "?A = [] \<or> (\<exists>p S'. touched batch points = p # S' \<and> tp_batch p \<noteq> batch)"
  proof (cases "?before = []")
    case False
    let ?b = "List.last ?before"
    have b: "?b \<in> set points" "tp_seq ?b < ?first" "tp_seq ?b = lower" using before [OF False] False bounds(1) by auto
    then have "?b \<in> set (touched batch points)" unfolding S using lower mid upper by simp
    then obtain h S' where h: "touched batch points = h # S'" "?b = h \<or> ?b \<in> set S'" by (cases "touched batch points") auto
    have "h \<in> set (touched batch points)" using h(1) by simp
    then have "lower \<le> tp_seq h" unfolding S by simp
    with b(3) have "tp_seq ?b \<le> tp_seq h" by linarith
    then have "?b = h" using h sorted_S by auto
    then show ?thesis using h(1) outside [OF b(1)] b(2) by auto
  qed (simp add: bounds)
  have right: "?C = [] \<or> (\<exists>q S'. touched batch points = S' @ [q] \<and> tp_batch q \<noteq> batch)"
  proof (cases "?behind = []")
    case False
    let ?u = "hd ?behind"
    have u: "?u \<in> set points" "?last < tp_seq ?u" "tp_seq ?u = upper" using behind [OF False] False bounds(2) by auto
    then have "?u \<in> set (touched batch points)" unfolding S using lower mid upper by simp
    then obtain q S' where q: "touched batch points = S' @ [q]" "?u = q \<or> ?u \<in> set S'" by (cases "touched batch points" rule: rev_cases) auto
    have "q \<in> set (touched batch points)" using q(1) by simp
    then have "tp_seq q \<le> upper" unfolding S by simp
    with u(3) have "tp_seq q \<le> tp_seq ?u" by linarith
    then have "?u = q" using q sorted_S by (auto simp: sorted_wrt_append)
    then show ?thesis using q(1) outside [OF u(1)] u(2) by auto
  qed (simp add: bounds)
  have "points = ?A @ touched batch points @ ?C" unfolding S
    by (rule sorted_split [OF sorted order_trans [OF order_trans [OF lower mid] upper]])
  moreover have "\<forall>p \<in> set ?A. tp_batch p \<noteq> batch"
    by (intro ballI, rule outside) (simp_all add: order.strict_trans2 [OF _ lower])
  moreover have "\<forall>p \<in> set ?C. tp_batch p \<noteq> batch"
    by (intro ballI, rule outside) (simp_all add: order.strict_trans1 [OF upper])
  ultimately show ?thesis using left right by blast
qed

lemma distance_delta_exact:
  assumes "sorted_wrt (<) (map tp_seq points)"
  shows "distance_delta batch points = trajectory_distance points - trajectory_distance (filter (\<lambda>p. tp_batch p \<noteq> batch) points)"
proof (cases "filter (\<lambda>p. tp_batch p = batch) points = []")
  case True
  then have "\<forall>p \<in> set points. tp_batch p \<noteq> batch" by (auto simp: filter_empty_conv)
  moreover from this have "\<forall>p \<in> set (touched batch points). tp_batch p \<noteq> batch" by (auto simp: touched_def Let_def)
  ultimately show ?thesis by (simp add: distance_delta_def filter_id_conv)
next
  case False
  let ?nb = "\<lambda>p. tp_batch p \<noteq> batch" and ?S = "touched batch points"
  obtain A C where slice: "points = A @ ?S @ C" and A: "\<forall>p \<in> set A. ?nb p" "A = [] \<or> (\<exists>p S'. ?S = p # S' \<and> ?nb p)"
    and C: "\<forall>p \<in> set C. ?nb p" "C = [] \<or> (\<exists>q S'. ?S = S' @ [q] \<and> ?nb q)"
    using touched_slice [OF assms False] by blast
  have "A = [] \<or> (\<exists>p S'. ?S @ C = p # S' \<and> ?nb p)" using A(2) by auto
  from delta_left [OF A(1) this] delta_right [OF C] show ?thesis
    by (simp add: distance_delta_def Let_def slice [symmetric])
qed

text \<open>C18. The distance of a loop is kept incrementally and exactly. When a batch of points of an execution was stored, in order or
  late, at the end of the track, in a gap or interleaved with other points, the new total is the old one plus what the
  batch changes in the distance of the whole track (not below zero, rounded to six decimals), although the code only reads the
  slice between the neighbours of the batch. A batch of which nothing was stored changes nothing.\<close>

theorem loop_distance_incremental:
  assumes "distinct (map tp_seq (points_of pk db))" "stored_distance (lp_metadata l) = Some known"
  shows "updated_distance l pk batch db =
    (if \<exists>p \<in> set (points_of pk db). tp_batch p = batch
     then Some (quantize (max 0 (known + (trajectory_distance (points_of pk db)
       - trajectory_distance (filter (\<lambda>p. tp_batch p \<noteq> batch) (points_of pk db))))))
     else None)"
proof -
  have "sorted_wrt (<) (map tp_seq (points_of pk db))"
    using assms(1) unfolding points_of_def strict_sorted_iff by simp
  from distance_delta_exact [OF this] assms(2) show ?thesis
    by (auto simp: updated_distance_def Let_def filter_empty_conv)
qed

section \<open>Concrete reports and points\<close>

definition report :: "int \<Rightarrow> pydict" where
  "report version = [(''state_version'', PInt version), (''sampled_at'', PStr ''2026-01-01T00:00:00Z''),
     (''runtime'', PDict [(''nav_ready'', PBool True), (''control_mode'', PStr ''autonomous'')])]"

definition sample_status :: status_row where
  "sample_status = \<lparr>sl_robot = 1, sl_version = 5, sl_sampled = 0, sl_received = 0, sl_frame = ''map'', sl_map_id = [], sl_map_version = [],
     sl_x = None, sl_y = None, sl_z = None, sl_yaw = None, sl_speed = Some 0, sl_localization = ''normal'', sl_source_status = None,
     sl_quality = [], sl_power = True, sl_percent = Some 80, sl_charging = None, sl_network = [], sl_signal = None,
     sl_ros = True, sl_nav = True, sl_estop = False, sl_mode = ''autonomous'', sl_execution = None, sl_raw = []\<rparr>"

definition status_center :: center_state where
  "status_center = (let s = sample_center [] in s\<lparr>cn_db := (cn_db s)\<lparr>db_statuses := [sample_status]\<rparr>\<rparr>)"

lemma sample_reports:
  "\<exists>p s1. apply_status ''w'' sample_robot (report 6) (sample_world []) status_center = (Inr p, s1)
     \<and> \<not> snd p \<and> sl_version (fst p) = 6 \<and> sl_nav (fst p)"
  "\<exists>p s1. apply_status ''w'' sample_robot (report 5) (sample_world []) status_center = (Inr p, s1) \<and> sl_version (fst p) = 5 \<and> sl_raw (fst p) = []"
  by (rule run_cases, code_simp)+

theorem status_never_goes_back_witness:
  "\<exists>l s1 r. apply_status ''w'' sample_robot (report 6) (sample_world []) status_center = (Inr (l, False), s1)
     \<and> find_status 1 (cn_db s1) = Some l \<and> sl_version l = 6 \<and> find_robot 1 (cn_db s1) = Some r \<and> rb_connection r = ''online''"
proof -
  obtain p s1 where run: "apply_status ''w'' sample_robot (report 6) (sample_world []) status_center = (Inr (fst p, snd p), s1)"
    and p: "\<not> snd p" "sl_version (fst p) = 6" using sample_reports(1) by auto
  have old: "find_status (rb_id sample_robot) (cn_db status_center) = Some sample_status" "sl_version sample_status = 5" "rb_id sample_robot = 1"
    by code_simp+
  from status_never_goes_back [OF run old(1)] p old run show ?thesis by (auto split: if_split_asm)
qed

text \<open>Three points of two batches, of which the second one arrives in the middle.\<close>

definition track_point :: "int \<Rightarrow> real \<Rightarrow> string \<Rightarrow> point_row" where
  "track_point n y batch = \<lparr>tp_robot = 1, tp_execution = ''e1'', tp_seq = n, tp_sampled = n, tp_frame = ''map'', tp_map_id = [], tp_map_version = [],
     tp_x = Some 0, tp_y = Some y, tp_yaw = None, tp_speed = None, tp_localization = ''normal'', tp_keyframe = [], tp_batch = batch\<rparr>"

definition track_db :: center_db where
  "track_db = empty_db\<lparr>db_points := [track_point 1 0 ''a'', track_point 3 2 ''a'', track_point 2 3 ''b'']\<rparr>"

definition track_loop :: loop_row where
  "track_loop = (sample_loop ''a'' ''running'')\<lparr>lp_metadata := [(''total_distance_m'', PInt 2)]\<rparr>"

lemma track_stored: "stored_distance (lp_metadata track_loop) = Some (quantize 2)"
  by (simp add: track_loop_def stored_distance_def)

theorem loop_distance_incremental_witness:
  "updated_distance track_loop ''e1'' ''b'' track_db = Some (quantize (max 0 (quantize 2 + 2)))"
proof -
  have points: "points_of ''e1'' track_db = [track_point 1 0 ''a'', track_point 2 3 ''b'', track_point 3 2 ''a'']"
    by (simp add: points_of_def track_db_def track_point_def)
  have "distinct (map tp_seq (points_of ''e1'' track_db))" unfolding points by (simp add: track_point_def)
  from loop_distance_incremental [OF this track_stored, of "''b''"] show ?thesis
    unfolding points by (simp add: track_point_def segment_def)
qed

end
