(* ===== verification/CenterLoopRow.thy ===== *)
theory CenterLoopRow
  imports CenterLoopRun
begin

text \<open>
  The supervisor of patrol loops stores what it answers: after a step the row of the session agrees with the instance that the
  step returned. The rules follow the supervisor statement by statement, in the style of the frame rules.
\<close>

section \<open>The row of a session after a step\<close>

text \<open>What the supervisor answers about a session is what the database holds: its id, state, observation, pause, attempts, round.\<close>

definition agrees :: "loop_row \<Rightarrow> loop_row \<Rightarrow> bool" where
  "agrees r l = (lp_id r = lp_id l \<and> lp_state r = lp_state l \<and> lp_observed r = lp_observed l \<and> lp_paused r = lp_paused l
     \<and> lp_attempt r = lp_attempt l \<and> lp_round r = lp_round l)"

definition stored :: "string \<Rightarrow> loop_row \<Rightarrow> center_db \<Rightarrow> bool" where
  "stored pk l db = (\<exists>r. find_loop pk db = Some r \<and> agrees r l)"

definition records :: "string \<Rightarrow> loop_row \<Rightarrow> loop_row ctr \<Rightarrow> bool" where
  "records pk k m = (\<forall>w. triple w (\<lambda>s. stored pk k (cn_db s)) m (\<lambda>l s. stored pk l (cn_db s)) (\<lambda>_. True))"

named_theorems records_rules \<open>rules for statements that answer a session as it is stored\<close>

interpretation marked: task_frame "stored pk k" for pk k
  by unfold_locales (simp_all add: stored_def find_loop_def)

lemma stored_id: "stored pk l db \<Longrightarrow> lp_id l = pk"
  by (auto simp: stored_def agrees_def dest: find_loop_id)

lemma kept_stored: "keeps (\<lambda>s. stored pk k (cn_db s)) m \<Longrightarrow>
    triple w (\<lambda>s. stored pk k (cn_db s)) m (\<lambda>_ s. stored pk k (cn_db s)) (\<lambda>_. True)"
  by (rule triple_conseq [OF center_triple_keeps]) simp_all

lemma records_bind: "keeps (\<lambda>s. stored pk k (cn_db s)) m \<Longrightarrow> (\<And>a. records pk k (g a)) \<Longrightarrow> records pk k (bindC m g)"
  unfolding records_def by (intro allI triple_bind, erule kept_stored, blast)

lemma records_then: "keeps (\<lambda>s. stored pk k (cn_db s)) m \<Longrightarrow> records pk k n \<Longrightarrow> records pk k (thenC m n)"
  unfolding thenC_def by (rule records_bind)

lemma records_again:
  assumes "records pk k m" "\<And>l. lp_id l = pk \<Longrightarrow> records pk l (g l)"
  shows "records pk k (bindC m g)"
  unfolding records_def
proof (rule allI, rule triple_bind)
  fix w l
  show "triple w (\<lambda>s. stored pk k (cn_db s)) m (\<lambda>l s. stored pk l (cn_db s)) (\<lambda>_. True)"
    using assms(1) by (simp add: records_def)
  show "triple w (\<lambda>s. stored pk l (cn_db s)) (g l) (\<lambda>l s. stored pk l (cn_db s)) (\<lambda>_. True)"
  proof (rule triple_assume)
    show "stored pk l (cn_db s) \<and> lp_id l = pk" if "stored pk l (cn_db s)" for s using that stored_id by blast
  qed (use assms(2) in \<open>simp add: records_def\<close>)
qed

lemma records_ends [records_rules]: "agrees k l \<Longrightarrow> records pk k (returnC l)" "records pk k (raiseC x)"
  by (auto simp: records_def stored_def agrees_def intro: triple_return triple_raise)

lemma records_cases [records_rules]:
  "(b \<Longrightarrow> records pk k m) \<Longrightarrow> (\<not> b \<Longrightarrow> records pk k n) \<Longrightarrow> records pk k (if b then m else n)"
  "(v = None \<Longrightarrow> records pk k m) \<Longrightarrow> (\<And>a. v = Some a \<Longrightarrow> records pk k (f a)) \<Longrightarrow> records pk k (case v of None \<Rightarrow> m | Some a \<Rightarrow> f a)"
  "(\<And>a b. records pk k (h a b)) \<Longrightarrow> records pk k (case p of (a, b) \<Rightarrow> h a b)"
  by (auto split: option.split prod.split)

lemma records_lock [records_rules]: "records pk k (lock_loop pk)" "records pk k (thenC m (lock_loop pk))"
proof -
  have lock: "triple w I (lock_loop pk) (\<lambda>l s. stored pk l (cn_db s)) (\<lambda>_. True)" for w I
    by (auto simp: triple_def lock_loop_def getC_def dbC_def bindC_def returnC_def raiseC_def stored_def agrees_def split: option.split)
  show "records pk k (lock_loop pk)" unfolding records_def using lock by blast
  have "triple w I m (\<lambda>_ _. True) (\<lambda>_. True)" for w I by (simp add: triple_def split: prod.split sum.split)
  then show "records pk k (thenC m (lock_loop pk))" unfolding records_def by (intro allI triple_then [OF _ lock])
qed

text \<open>Writes.\<close>

lemma stored_update:
  assumes "update_loop pk f db = Inr db'" "stored pk k db" "\<And>x. lp_id (f x) = lp_id x" "\<And>x. agrees x k \<Longrightarrow> agrees (f x) k'"
  shows "stored pk k' db'"
proof -
  have "lp_id x = pk \<Longrightarrow> lp_id (f x) = pk" for x using assms(3) by simp
  from find_update_loop [OF assms(1) this] assms(2,4) show ?thesis by (auto simp: stored_def)
qed

lemma stored_columns:
  assumes "lp_id l = pk" "\<And>x. lp_id (f x) = lp_id x" "\<And>x. agrees x k \<Longrightarrow> agrees (f x) k'"
  shows "triple w (\<lambda>s. stored pk k (cn_db s)) (save_columns l f) (\<lambda>_ s. stored pk k' (cn_db s)) (\<lambda>_. True)"
  unfolding save_columns_def assms(1) by (rule triple_write) (auto intro: stored_update assms(2,3))

lemma stored_session:
  assumes "lp_id l = pk"
  shows "triple w (\<lambda>s. stored pk k (cn_db s)) (save_session l) (\<lambda>_ s. stored pk l (cn_db s)) (\<lambda>_. True)"
  unfolding save_session_def
proof (rule triple_write)
  fix db db'
  assume "save_loop l db = Inr db'" and "stored pk k db"
  then have "update_loop pk (\<lambda>_. l) db = Inr db'" "find_loop pk db \<noteq> None" using assms by (auto simp: save_loop_def stored_def)
  then show "stored pk l db'" using assms by (auto simp: stored_def agrees_def find_update_loop)
qed simp

lemma records_columns:
  assumes "lp_id l = pk" "\<And>x. lp_id (f x) = lp_id x" "\<And>x. agrees x k \<Longrightarrow> agrees (f x) k'" "records pk k' n"
  shows "records pk k (thenC (save_columns l f) n)"
  using assms(4) unfolding records_def by (auto intro: triple_then [OF stored_columns [where f = f, OF assms(1-3)]])

lemma records_session:
  assumes "lp_id l = pk" "records pk l n"
  shows "records pk k (thenC (save_session l) n)"
  using assms(2) unfolding records_def by (auto intro: triple_then [OF stored_session [OF assms(1)]])

lemma then_laws: "thenC (thenC m n) q = thenC m (thenC n q)" "thenC (returnC a) q = q"
  by (intro ext; simp add: thenC_def bindC_def returnC_def split: prod.split sum.split)+

lemmas then_rows = seq_valueC_def seqC.simps then_laws

lemma row_keeps_notes:
  assumes "lp_id l = pk" "\<And>x. lp_id (f x) = lp_id x" "\<And>x. agrees (f x) x"
  shows "keeps (\<lambda>s. stored pk k (cn_db s)) (save_columns l f)"
proof -
  have "agrees x k \<Longrightarrow> agrees (f x) k" for x using assms(3) [of x] by (simp add: agrees_def)
  then show ?thesis
    unfolding save_columns_def assms(1) by (intro keeps_write) (rule stored_update [OF _ _ assms(2)])
qed

lemma records_recording:
  assumes "lp_id l = pk"
  shows "records pk l (ensure_recording_stop l reason)"
  unfolding ensure_recording_stop_def Let_def then_rows
  by (intro records_rules records_bind records_then cmd_rules center_rules row_keeps_notes) (auto simp: assms agrees_def)

lemma records_set_state [records_rules]:
  assumes "lp_id l = pk"
  shows "records pk k (set_state l c)"
  unfolding set_state_def Let_def
  by (intro records_rules records_bind records_session records_then records_recording cmd_rules center_rules)
    (auto simp: assms agrees_def changed_def)

lemma records_wait [records_rules]:
  assumes "lp_id l = pk" "agrees k l"
  shows "records pk k (wait_second l now)"
  unfolding wait_second_def then_rows
  by (intro records_rules records_then row_keeps_notes) (use assms in \<open>auto simp: agrees_def\<close>)

lemma records_observed:
  assumes "lp_id l = pk" "agrees k l"
  shows "records pk k (observation_begun l now)" "records pk k (await_reconciliation l now)" "records pk k (in_progress_begun l result action now)"
proof -
  show "records pk k (observation_begun l now)"
    unfolding observation_begun_def then_rows Let_def
    by (intro records_rules records_then records_columns [where k' = "l\<lparr>lp_observed := Some now\<rparr>"] center_rules)
      (use assms in \<open>auto simp: agrees_def\<close>)
  have wait: "records pk k' (bindC (wait_second (l\<lparr>lp_observed := None\<rparr>) now) (\<lambda>l''. seq_valueC
      [loop_event l'' kind (key l'') (lp_code l'') (lp_message l'') []] l''))" if "agrees k' (l\<lparr>lp_observed := None\<rparr>)" for kind key k'
    unfolding then_rows by (intro records_again records_rules records_then center_rules that) (auto simp: assms agrees_def)
  have cleared: "records pk k (thenC (save_columns l (\<lambda>r. r\<lparr>lp_observed := None\<rparr>)) n)"
    if "records pk (l\<lparr>lp_observed := None\<rparr>) n" for n
    by (rule records_columns [where k' = "l\<lparr>lp_observed := None\<rparr>"]) (use assms that in \<open>auto simp: agrees_def\<close>)
  show "records pk k (await_reconciliation l now)"
  proof (cases "lp_observed l = None")
    case True
    then have "agrees k (l\<lparr>lp_observed := None\<rparr>)" using assms by (simp add: agrees_def)
    from wait [OF this] True show ?thesis by (simp add: await_reconciliation_def whenC_def then_laws)
  next
    case False
    have "agrees (l\<lparr>lp_observed := None\<rparr>) (l\<lparr>lp_observed := None\<rparr>)" by (simp add: agrees_def)
    from cleared [OF wait [OF this]] False show ?thesis by (simp add: await_reconciliation_def whenC_def)
  qed
  show "records pk k (in_progress_begun l result action now)"
    unfolding in_progress_begun_def then_rows Let_def
    by (intro records_rules records_bind records_then records_columns [where k' = l] cmd_rules center_rules)
      (use assms in \<open>auto simp: agrees_def\<close>)
qed

lemma records_blocked:
  assumes "lp_id l = pk" "agrees k l"
  shows "records pk k (observation_blocked l latest now code message)"
  unfolding observation_blocked_def Let_def then_rows
  by (intro records_rules records_bind records_session records_then cmd_rules center_rules) (use assms in \<open>auto simp: agrees_def\<close>)

section \<open>Steps\<close>

lemma records_requests:
  assumes "lp_id l = pk" "agrees k l"
  shows "records pk k (ensure_manual_pause l)" "records pk k (process_deadline l now)" "records pk k (begin_observation l code message)"
    "records pk k (process_stopping l now)" "records pk k (begin_recovery_stop l e code message)" "records pk k (dispatch_round l)"
    "records pk k (dispatch_recovery l r now)" "records pk k (replace_round l now)"
  unfolding ensure_manual_pause_def process_deadline_def begin_observation_def process_stopping_def round_stopped_def loop_stopped_def
    begin_recovery_stop_def hold_recovery_def stop_round_def dispatch_round_def round_execution_def dispatch_recovery_def replace_round_def Let_def
  by (intro records_rules records_bind records_then cmd_rules center_rules;
      use assms in \<open>auto simp: agrees_def clear_recovery_episode_def observing_def round_begun_def Let_def split: option.split\<close>)+

lemma records_states:
  assumes "lp_id l = pk" "agrees k l"
  shows "records pk k (process_waiting l now)" "records pk k (process_running l e now)" "records pk k (process_observing l e latest now)"
    "records pk k (process_recovering l e now)"
proof -
  have battery: "records pk k (bindC (getC g) (\<lambda>robot. thenC (m robot) (lock_loop pk)))" for g :: "center_db \<Rightarrow> robot_row option" and m :: "robot_row \<Rightarrow> bool ctr"
    by (intro records_rules records_bind cmd_rules center_rules)
  show "records pk k (process_waiting l now)" "records pk k (process_running l e now)"
    unfolding process_waiting_def process_running_def assms(1)
    by (intro records_rules battery records_bind records_requests cmd_rules center_rules assms; simp add: assms)+
  show "records pk k (process_observing l e latest now)"
    unfolding process_observing_def watch_window_def observation_done_def
    by (intro records_rules records_bind records_requests records_observed records_blocked cmd_rules center_rules assms;
        simp add: assms clear_recovery_episode_def)
  show "records pk k (process_recovering l e now)"
    unfolding process_recovering_def recovery_failed_def recovery_answered_def recovery_in_progress_def in_progress_timeout_def Let_def
    by (intro records_rules records_bind records_requests records_observed cmd_rules center_rules assms;
        simp add: assms clear_recovery_episode_def)
qed

lemma agrees_refl [simp]: "agrees l l"
  by (simp add: agrees_def)

lemma records_state: "lp_id l = pk \<Longrightarrow> records pk l (process_state l latest now)"
  unfolding process_state_def
  by (intro records_rules records_bind records_states cmd_rules center_rules; simp)

lemma records_atomic: "records pk k m \<Longrightarrow> records pk k (atomicC m)"
  unfolding records_def
  by (intro allI tripleI) (auto simp: atomicC_def split: prod.split_asm sum.split_asm dest: tripleD)

lemma records_process: "records pk k (process worker pk)"
proof -
  have battery: "records pk l (process_battery worker l latest)" if "lp_id l = pk" for l latest
    unfolding process_battery_def that by (intro records_rules) simp
  show ?thesis
    unfolding process_def
    by (rule records_atomic, rule records_again [OF records_lock(1)])
      (intro records_rules records_bind records_requests records_again [OF battery] records_state cmd_rules center_rules; simp)
qed

lemma process_stored:
  assumes "process worker pk w s = (Inr l', s')" "find_loop pk (cn_db s) = Some l"
  shows "\<exists>r. find_loop pk (cn_db s') = Some r \<and> agrees r l'"
proof -
  have "stored pk l (cn_db s)" using assms(2) by (simp add: stored_def)
  with records_process [of pk l worker] assms(1) have "stored pk l' (cn_db s')" unfolding records_def by (blast dest: tripleD)
  then show ?thesis by (simp add: stored_def)
qed

end
