(* ===== verification/CenterLoopSafe.thy ===== *)
theory CenterLoopSafe
  imports CenterStatus CenterLoopRow
begin

text \<open>
  When the supervisor of patrol loops moves a robot: a round or a recovery is sent only to a robot that is online, reports
  freshly, stands, and has nothing against motion. And what a low battery leaves of the loops of a robot.
\<close>

section \<open>What a statement can return\<close>

definition gives :: "'a ctr \<Rightarrow> ('a \<Rightarrow> bool) \<Rightarrow> bool" where
  "gives m Q = (\<forall>w s a s'. m w s = (Inr a, s') \<longrightarrow> Q a)"

named_theorems gives_rules \<open>rules for the values of statements\<close>

lemma givesD: "gives m Q \<Longrightarrow> m w s = (Inr a, s') \<Longrightarrow> Q a"
  unfolding gives_def by blast

lemma gives_more: "gives m P \<Longrightarrow> (\<And>a. P a \<Longrightarrow> Q a) \<Longrightarrow> gives m Q"
  unfolding gives_def by blast

lemma gives_bind [gives_rules]: "(\<And>a. gives (g a) Q) \<Longrightarrow> gives (bindC f g) Q"
  unfolding gives_def bindC_ok by blast

lemma gives_then [gives_rules]: "gives n Q \<Longrightarrow> gives (thenC k n) Q"
  unfolding thenC_def by (rule gives_bind)

lemma gives_ends [gives_rules]: "Q a \<Longrightarrow> gives (returnC a) Q" "gives (raiseC x) Q" "Q a \<Longrightarrow> gives (seq_valueC ms a) Q"
  unfolding seq_valueC_def gives_def thenC_ok returnC_run raiseC_run by blast+

lemma gives_cases [gives_rules]:
  "(b \<Longrightarrow> gives m Q) \<Longrightarrow> (\<not> b \<Longrightarrow> gives n Q) \<Longrightarrow> gives (if b then m else n) Q"
  "(v = None \<Longrightarrow> gives m Q) \<Longrightarrow> (\<And>a. v = Some a \<Longrightarrow> gives (f a) Q) \<Longrightarrow> gives (case v of None \<Rightarrow> m | Some a \<Rightarrow> f a) Q"
  "(\<And>a b. gives (h a b) Q) \<Longrightarrow> gives (case p of (a, b) \<Rightarrow> h a b) Q"
  by (auto split: option.split prod.split)

text \<open>A change of state returns the instance with the columns of the change, and notes of the recording.\<close>

definition same_but_notes :: "loop_row \<Rightarrow> loop_row \<Rightarrow> bool" where
  "same_but_notes l l' = (lp_state l' = lp_state l \<and> lp_version l' = lp_version l \<and> lp_round l' = lp_round l \<and> lp_attempt l' = lp_attempt l
     \<and> lp_max_attempts l' = lp_max_attempts l \<and> lp_observed l' = lp_observed l \<and> lp_robot l' = lp_robot l \<and> lp_id l' = lp_id l)"

lemma gives_set_state:
  assumes "\<And>l' fin. same_but_notes (changed c fin l) l' \<Longrightarrow> Q l'"
  shows "gives (set_state l c) Q"
  unfolding set_state_def ensure_recording_stop_def Let_def
  by (intro gives_rules) (auto intro!: assms simp: same_but_notes_def)

section \<open>The start of a round\<close>

text \<open>A round is started with a direction among its options, which the payload of the start command does not have.\<close>

lemma start_payload_has_no_direction: "start_payload e task record_rosbag n options = Inr p \<Longrightarrow> dget p ''loop_direction'' = PNone"
  by (auto simp: start_payload_def)

section \<open>The battery watch before a step\<close>

text \<open>It leaves a session as it is or ends it; \<open>i\<close> is a session of which only the end is possible.\<close>

definition left_or_over :: "loop_row \<Rightarrow> string option \<Rightarrow> center_db \<Rightarrow> bool" where
  "left_or_over l i db = (\<exists>r. find_loop (lp_id l) db = Some r \<and> (loop_over r \<or> i \<noteq> Some (lp_id l) \<and> r = l))"

lemma left_start: "find_loop (lp_id l) db = Some l \<Longrightarrow> left_or_over l None db"
  by (simp add: left_or_over_def)

lemma left_end: "left_or_over l None db \<Longrightarrow> find_loop (lp_id l) db = Some l' \<Longrightarrow> loop_over l' \<or> l' = l"
  by (auto simp: left_or_over_def)

interpretation left: task_frame "left_or_over l i" for l i
  by unfold_locales (simp_all add: left_or_over_def find_loop_def)

lemma left_save:
  assumes "loop_over x"
  shows "triple w (\<lambda>s. left_or_over l None (cn_db s)) (save_session x) (\<lambda>_ s. left_or_over l (Some (lp_id x)) (cn_db s))
    (\<lambda>s. left_or_over l None (cn_db s))"
  unfolding save_session_def
proof (rule triple_write)
  fix db db'
  assume k: "left_or_over l None db" and u: "save_loop x db = Inr db'"
  show "left_or_over l (Some (lp_id x)) db'"
  proof (cases "find_loop (lp_id x) db")
    case None
    with u have i: "insert_loop x db = Inr db'" by (simp add: save_loop_def)
    from None k show ?thesis
      by (auto simp: left_or_over_def find_loop_def loops_inserted(1) [OF i] row_of_append split: option.splits)
  next
    case (Some r)
    with u have i: "update_loop (lp_id x) (\<lambda>_. x) db = Inr db'" by (simp add: save_loop_def)
    from Some k assms show ?thesis by (auto simp: left_or_over_def find_update_loop [OF i])
  qed
qed

lemma left_note:
  assumes "\<And>x. loop_step x (f x)"
  shows "keeps (\<lambda>s. left_or_over l (Some (lp_id x)) (cn_db s)) (save_columns x f)"
  unfolding save_columns_def
proof (rule keeps_write)
  fix db db'
  assume u: "update_loop (lp_id x) f db = Inr db'" and k: "left_or_over l (Some (lp_id x)) db"
  have "lp_id y = lp_id x \<Longrightarrow> lp_id (f y) = lp_id x" for y using loop_step_id [OF assms] by simp
  note f = find_update_loop [OF u this]
  have "loop_over y \<Longrightarrow> loop_over (f y)" for y using loop_step_over [OF assms] by (simp add: loop_over_def)
  with k show "left_or_over l (Some (lp_id x)) db'" by (auto simp: left_or_over_def f)
qed

lemma left_set_state:
  assumes "lc_state c \<in> set LOOP_TERMINAL_STATES"
  shows "keeps (\<lambda>s. left_or_over l None (cn_db s)) (set_state x c)"
proof (rule keeps_triple)
  fix w
  have over: "loop_over (changed c fin x)" for fin using assms by (simp add: loop_over_def changed_def)
  have weaken: "left_or_over l i db \<Longrightarrow> left_or_over l None db" for i db by (auto simp: left_or_over_def)
  have rest: "keeps (\<lambda>s. left_or_over l (Some (lp_id y)) (cn_db s)) (thenC (loop_event y kind key code message payload)
      (if b then ensure_recording_stop y reason else returnC y))" for y kind key code message payload b reason
    unfolding ensure_recording_stop_def Let_def
    by (intro cmd_rules center_rules left.keeps_side_loop_parts left.keeps_side_create left_note) auto
  show "triple w (\<lambda>s. left_or_over l None (cn_db s)) (set_state x c) (\<lambda>_ s. left_or_over l None (cn_db s)) (\<lambda>s. left_or_over l None (cn_db s))"
    unfolding set_state_def Let_def
    by (rule triple_reading [where Q = "left_or_over l None"], intro cmd_rules center_rules, rule triple_then [OF left_save [OF over]],
        rule triple_conseq [OF center_triple_keeps [OF rest]]) (auto intro: weaken)
qed

lemma left_episodes:
  "keeps (\<lambda>s. left_or_over l None (cn_db s)) (writeC (insert_episode b))"
  "keeps (\<lambda>s. left_or_over l None (cn_db s)) (writeC (\<lambda>db. Inr (clear_episode key now db)))"
  by (rule keeps_write; auto simp: insert_episode_def clear_episode_def left_or_over_def find_loop_def split: if_splits)+

lemma left_terminate: "keeps (\<lambda>s. left_or_over l None (cn_db s)) (terminate_low_battery robot key percent source)"
proof -
  have ended: "lc_state ((change ''low_battery_stopped'' event)\<lparr>lc_code := code, lc_message := message, lc_terminal := True, lc_payload := p\<rparr>)
      \<in> set LOOP_TERMINAL_STATES" for event code message p by (simp add: change_def LOOP_TERMINAL_STATES_def)
  show ?thesis
    unfolding terminate_low_battery_def low_battery_session_def low_battery_execution_def ensure_episode_def Let_def prod.case_eq_if
    by (intro cmd_rules center_rules left.keeps_side_loop_parts left_episodes left_set_state ended)
qed

lemma left_kept: "keeps (\<lambda>s. left_or_over l None (cn_db s)) m \<Longrightarrow> m w s = (a, s') \<Longrightarrow> left_or_over l None (cn_db s) \<Longrightarrow> left_or_over l None (cn_db s')"
  unfolding keeps_def by (metis snd_conv)

lemma left_battery: "keeps (\<lambda>s. left_or_over l None (cn_db s)) (observe_battery worker latest)"
  unfolding observe_battery_def count_sample_def Let_def by (intro cmd_rules center_rules left_terminate left_episodes)

text \<open>Readings of the clock come later.\<close>

lemma tick_parts [gives_rules]:
  "keeps (\<lambda>s. n \<le> cn_tick s) (dbC f)" "keeps (\<lambda>s. n \<le> cn_tick s) (worldC g)" "keeps (\<lambda>s. n \<le> cn_tick s) nowC"
  "keeps (\<lambda>s. n \<le> cn_tick s) uuidC" "keeps (\<lambda>s. n \<le> cn_tick s) (settingC name k)" "keeps (\<lambda>s. n \<le> cn_tick s) (writeC h)"
  "keeps (\<lambda>s. n \<le> cn_tick s) (emitC ev)" "keeps (\<lambda>s. n \<le> cn_tick s) (cached_sample worker robot)"
  "keeps (\<lambda>s. n \<le> cn_tick s) (set_sample worker robot count version)" "keeps (\<lambda>s. n \<le> cn_tick s) (drop_sample worker robot)"
  by (rule keepsI, simp add: dbC_def worldC_def nowC_def uuidC_def read_tick_def settingC_def writeC_def emitC_def cached_sample_def
      set_sample_def drop_sample_def bindC_def Let_def split: sum.split)+

lemma tick_atomic [gives_rules]: "keeps (\<lambda>s. n \<le> cn_tick s) m \<Longrightarrow> keeps (\<lambda>s. n \<le> cn_tick s) (atomicC m)"
  unfolding keeps_def atomicC_def by (auto split: prod.splits sum.splits) (metis snd_conv)+

lemma tick_get [gives_rules]: "keeps (\<lambda>s. n \<le> cn_tick s) (getC f)"
  unfolding getC_def by (intro cmd_rules gives_rules)

lemma tick_reads: "keeps (\<lambda>s. n \<le> cn_tick s) (current_execution l)" "keeps (\<lambda>s. n \<le> cn_tick s) (is_docking_execution e)"
  unfolding current_execution_def is_docking_execution_def by (intro cmd_rules gives_rules)+

lemma tick_creates [gives_rules]:
  "keeps (\<lambda>s. n \<le> cn_tick s) (create e t operator options trace)"
  "keeps (\<lambda>s. n \<le> cn_tick s) (create_robot_command r t payload operator seconds trace)"
proof -
  have "keeps (\<lambda>s. n \<le> cn_tick s) (transition pk target q)" for pk target q
    unfolding transition_def apply_transition_def lock_execution_def or_now_def record_task_event_def record_command_event_def
      reconcile_task_start_for_execution_def reconcile_start_command_def Let_def
    by (intro cmd_rules gives_rules)
  then show "keeps (\<lambda>s. n \<le> cn_tick s) (create e t operator options trace)"
    unfolding create_def ensure_battery_allows_def command_body_def start_body_def insert_new_command_def trace_of_def
      record_command_event_def request_command_def force_exit_executions_def Let_def
    by (intro cmd_rules gives_rules keeps_for_rows)
  show "keeps (\<lambda>s. n \<le> cn_tick s) (create_robot_command r t payload operator seconds trace)"
    unfolding create_robot_command_def insert_new_command_def trace_of_def record_command_event_def Let_def
    by (intro cmd_rules gives_rules)
qed

lemma tick_battery: "keeps (\<lambda>s. n \<le> cn_tick s) (observe_battery worker latest)"
proof -
  have state: "keeps (\<lambda>s. n \<le> cn_tick s) (set_state l c)" for l c
    unfolding set_state_def ensure_recording_stop_def loop_event_def save_session_def save_columns_def Let_def
    by (intro cmd_rules gives_rules)
  show ?thesis
    unfolding observe_battery_def count_sample_def terminate_low_battery_def ensure_episode_def low_battery_session_def
      low_battery_execution_def force_exit_execution_def LOW_BATTERY_PERCENT_def Let_def prod.case_eq_if
    by (intro cmd_rules gives_rules keeps_for_rows tick_reads state)
qed

section \<open>What a safe observation says\<close>

text \<open>The speeds that the navigation measured are known and above the limits.\<close>

definition measured_moving :: "status_row \<Rightarrow> bool" where
  "measured_moving st = (let navigation = dict_or_empty (dget (sl_raw st) ''navigation'') in
     dget navigation ''actual_velocity_observed'' \<noteq> PBool False \<and>
     (\<exists>p t age. abs_finite (dget navigation ''actual_planar_speed_mps'') = Inr (Some p)
        \<and> abs_finite (dget navigation ''actual_turn_speed_rps'') = Inr (Some t)
        \<and> nonnegative_finite (dget navigation ''actual_velocity_sample_age_seconds'') = Inr (Some age)
        \<and> (3 / 100 < p \<or> 5 / 100 < t)))"

text \<open>Online, a fresh status, no interlock, a charge at the threshold or above, and nothing that moves. The clock is read at or
  after the tick \<open>n\<close>.\<close>

definition safe_to_move :: "center_world \<Rightarrow> nat \<Rightarrow> robot_row \<Rightarrow> status_row \<Rightarrow> bool" where
  "safe_to_move w n robot st = (rb_connection robot = ''online''
     \<and> (\<exists>t \<ge> n. \<exists>seen. rb_last_seen robot = Some seen \<and> cw_now w t - seen \<le> 180 * SECOND)
     \<and> (\<exists>t \<ge> n. cw_now w t \<le> sl_received st + 15 * SECOND)
     \<and> \<not> sl_estop st \<and> sl_mode st \<notin> {''emergency_stop'', ''manual_takeover''}
     \<and> (\<forall>p. sl_power st \<and> sl_percent st = Some p \<longrightarrow> (case cw_setting w ''LOW_BATTERY_STOP_PERCENT'' of None \<Rightarrow> 20 | Some k \<Rightarrow> k) \<le> p)
     \<and> motion_blocker st = Inr None \<and> \<not> measured_moving st)"

lemma stands: "motion_blocker st = Inr None \<Longrightarrow> \<not> measured_moving st"
  unfolding motion_blocker_def measured_moving_def Let_def
  by (auto simp: moving_observation_def NOT_STOPPED_def STOP_SPEED_MPS_def STOP_TURN_RPS_def split: if_splits)

lemma connection_online:
  assumes "effective_connection_status robot w s = (Inr ''online'', s')"
  shows "rb_connection robot = ''online'' \<and> (\<exists>seen. rb_last_seen robot = Some seen \<and> cw_now w (cn_tick s) - seen \<le> 180 * SECOND)
    \<and> cn_db s' = cn_db s \<and> cn_tick s \<le> cn_tick s'"
  using assms by (auto simp: effective_connection_status_def run_simps nowC_def read_tick_def split: if_splits option.splits)

lemma observation_safe:
  assumes "observation_safety robot w s = (Inr None, s')"
  shows "\<exists>st. find_status (rb_id robot) (cn_db s) = Some st \<and> safe_to_move w (cn_tick s) robot st \<and> cn_db s' = cn_db s \<and> cn_tick s \<le> cn_tick s'"
proof -
  let ?threshold = "case cw_setting w ''LOW_BATTERY_STOP_PERCENT'' of None \<Rightarrow> 20 | Some k \<Rightarrow> k"
  let ?decide = "\<lambda>status. case find_status (rb_id robot) (cn_db s) of None \<Rightarrow> returnC EDGE_OFFLINE
      | Some l \<Rightarrow> if status \<noteq> ''online'' then returnC EDGE_OFFLINE
          else bindC nowC (\<lambda>now. bindC LOW_BATTERY_PERCENT (\<lambda>threshold.
             case status_blocker now threshold l of Some b \<Rightarrow> returnC (Some b) | None \<Rightarrow> liftC (motion_blocker l)))"
  from assms obtain status s1 where status: "effective_connection_status robot w s = (Inr status, s1)"
    and decide: "?decide status w s1 = (Inr None, s')"
    unfolding observation_safety_def bindC_ok by (auto simp: dbC_def)
  obtain st where st: "find_status (rb_id robot) (cn_db s) = Some st"
    using decide by (cases "find_status (rb_id robot) (cn_db s)") (simp_all add: EDGE_OFFLINE_def returnC_def)
  have on: "status = ''online''" using decide st by (cases "status = ''online''") (simp_all add: EDGE_OFFLINE_def returnC_def)
  have blocker: "status_blocker (cw_now w (cn_tick s1)) ?threshold st = None"
    using decide st on by (cases "status_blocker (cw_now w (cn_tick s1)) ?threshold st")
      (auto simp: LOW_BATTERY_PERCENT_def settingC_def worldC_def nowC_def read_tick_def bindC_def returnC_def)
  have motion: "motion_blocker st = Inr None" and s': "s' = s1\<lparr>cn_tick := Suc (cn_tick s1)\<rparr>"
    using decide st on blocker by (auto simp: LOW_BATTERY_PERCENT_def settingC_def worldC_def nowC_def read_tick_def bindC_def liftC_def)
  note online = connection_online [OF status [unfolded on]]
  have "\<not> sl_received st < cw_now w (cn_tick s1) - 15 * SECOND" using blocker by (auto simp: status_blocker_def split: if_splits)
  moreover have "\<not> sl_estop st" "sl_mode st \<notin> {''emergency_stop'', ''manual_takeover''}"
    "\<forall>p. sl_power st \<and> sl_percent st = Some p \<longrightarrow> (case cw_setting w ''LOW_BATTERY_STOP_PERCENT'' of None \<Rightarrow> 20 | Some k \<Rightarrow> k) \<le> p"
    using blocker by (auto simp: status_blocker_def split: if_splits)
  ultimately have "safe_to_move w (cn_tick s) robot st"
    using online motion stands [OF motion] unfolding safe_to_move_def by force
  with st online s' show ?thesis by auto
qed

section \<open>The step of the supervisor\<close>

text \<open>A step that sends nothing into motion and vouches for nothing: no recovery begins and no round, and an observation has no
  start afterwards (a paused session is not looked at; its continuation resets the start).\<close>

definition calm :: "loop_row \<Rightarrow> loop_row \<Rightarrow> bool" where
  "calm l l' = ((lp_state l' = ''recovering'' \<longrightarrow> lp_state l = ''recovering'') \<and> (lp_state l' = ''running'' \<longrightarrow> lp_round l' = lp_round l)
     \<and> (lp_state l' = ''observing'' \<and> lp_observed l' \<noteq> None \<longrightarrow> lp_paused l))"

text \<open>A recovery, after five seconds of observation; a round, when its time has come.\<close>

definition recovery_move :: "int \<Rightarrow> loop_row \<Rightarrow> loop_row \<Rightarrow> bool" where
  "recovery_move now l l' = (lp_state l = ''observing'' \<and> lp_state l' = ''recovering''
     \<and> lp_attempt l' = lp_attempt l + 1 \<and> lp_attempt l' \<le> lp_max_attempts l
     \<and> (\<exists>start. lp_observed l = Some start \<and> start + 5 * SECOND \<le> now))"

definition round_move :: "int \<Rightarrow> status_row \<Rightarrow> loop_row \<Rightarrow> loop_row \<Rightarrow> bool" where
  "round_move now st l l' = (lp_state l \<in> {''starting'', ''resting''} \<and> lp_state l' = ''running''
     \<and> lp_round l' = lp_round l + 1 \<and> lp_next l \<le> now \<and> sl_localization st = ''normal'' \<and> sl_ros st \<and> sl_nav st)"

text \<open>A step of an undisturbed observation: it starts now, or keeps its start.\<close>

definition watched :: "int \<Rightarrow> loop_row \<Rightarrow> loop_row \<Rightarrow> bool" where
  "watched now l l' = (lp_state l = ''observing'' \<and> lp_state l' = ''observing''
     \<and> lp_observed l' = Some (case lp_observed l of None \<Rightarrow> now | Some start \<Rightarrow> start))"

lemmas calm_simps = calm_def same_but_notes_def changed_def change_def

lemma calm_waits [gives_rules]: "calm l l' \<Longrightarrow> gives (wait_second l' now) (calm l)"
  unfolding wait_second_def by (intro gives_rules) (simp add: calm_def)

lemma gives_after_wait: "gives (g (l\<lparr>lp_next := look_again now\<rparr>)) Q \<Longrightarrow> gives (bindC (wait_second l now) g) Q"
  unfolding gives_def wait_second_def seq_valueC_def bindC_ok thenC_ok returnC_run by blast

lemma calm_pause: "lp_paused l \<or> lp_state l = ''paused'' \<Longrightarrow> gives (ensure_manual_pause l) (calm l)"
  unfolding ensure_manual_pause_def by (intro gives_rules) (auto simp: calm_simps)

lemma calm_requests:
  "gives (process_deadline l now) (calm l)" "gives (begin_observation l code message) (calm l)"
  "lp_state l = ''stopping'' \<Longrightarrow> gives (process_stopping l now) (calm l)" "gives (begin_recovery_stop l e code message) (calm l)"
  unfolding process_deadline_def begin_observation_def process_stopping_def round_stopped_def loop_stopped_def
    begin_recovery_stop_def hold_recovery_def stop_round_def Let_def
  by (intro gives_rules gives_set_state calm_waits; simp add: calm_simps clear_recovery_episode_def observing_def Let_def split: option.splits)+

lemma calm_over: "loop_over l' \<Longrightarrow> calm l l'"
  by (auto simp: calm_def loop_over_def LOOP_TERMINAL_STATES_def)

lemma got: "getC f w s = (Inr a, s') \<longleftrightarrow> f (cn_db s) = Some a \<and> s' = s"
  by (auto simp: getC_def dbC_def bindC_def returnC_def raiseC_def split: option.split)

lemma running_calm:
  assumes run: "process_running l e now w s = (Inr l', s')" and row: "find_loop (lp_id l) (cn_db s) = Some l"
    and state: "lp_state l = ''running''"
  shows "calm l l'"
proof (cases "e = None \<or> ex_state (the e) \<notin> {''failed'', ''cancelled'', ''timed_out'', ''rejected''} \<or> ex_failure_code (the e) \<noteq> ''LOW_BATTERY''")
  case True
  then have "gives (process_running l e now) (calm l)"
    unfolding process_running_def
    by (intro gives_rules gives_set_state calm_requests calm_waits) (auto simp: calm_simps state)
  from givesD [OF this run] show ?thesis .
next
  case False
  then obtain r where "e = Some r" "ex_state r \<in> {''failed'', ''cancelled'', ''timed_out'', ''rejected''}" "ex_failure_code r = ''LOW_BATTERY''" by auto
  then have "process_running l e now = bindC (getC (find_robot (lp_robot l))) (\<lambda>robot.
      thenC (terminate_low_battery (lp_robot l) (''execution-'' @ ex_id r) (rb_battery robot) ''task_terminal'') (lock_loop (lp_id l)))"
    by (auto simp: process_running_def)
  from run [unfolded this bindC_ok got thenC_ok]
  obtain robot :: robot_row and b s1 where stop: "terminate_low_battery (lp_robot l) (''execution-'' @ ex_id r) (rb_battery robot) ''task_terminal'' w s = (Inr b, s1)"
    and again: "lock_loop (lp_id l) w s1 = (Inr l', s')" by blast
  note after = left_kept [OF left_terminate, OF stop]
  have "left_or_over l None (cn_db s1)" by (rule after, rule left_start [OF row])
  from left_end [OF this] again have "loop_over l' \<or> l' = l" by (simp add: lock_loop_def got)
  then show ?thesis using calm_over [of l' l] by (auto simp: calm_def state)
qed

lemma still_safe: "safe_to_move w n' robot st \<Longrightarrow> n \<le> n' \<Longrightarrow> safe_to_move w n robot st"
  unfolding safe_to_move_def by (meson order_trans)

lemma battery_leaves:
  assumes battery: "process_battery worker l latest w s = (Inr k, s')" and row: "find_loop (lp_id l) (cn_db s) = Some l"
  shows "(loop_over k \<or> k = l \<and> find_loop (lp_id l) (cn_db s') = Some l) \<and> cn_tick s \<le> cn_tick s'
    \<and> db_statuses (cn_db s') = db_statuses (cn_db s) \<and> db_robots (cn_db s') = db_robots (cn_db s)"
proof (cases latest)
  case None
  with battery row show ?thesis by (simp add: process_battery_def returnC_def)
next
  case (Some x)
  from battery [unfolded process_battery_def Some option.case thenC_ok]
  obtain b s1 where watch: "observe_battery worker x w s = (Inr b, s1)" and again: "lock_loop (lp_id l) w s1 = (Inr k, s')" by blast
  from again have k: "find_loop (lp_id l) (cn_db s1) = Some k" "s' = s1" by (simp_all add: lock_loop_def got)
  note after = left_kept [OF left_battery, OF watch]
  have left: "left_or_over l None (cn_db s1)" by (rule after, rule left_start [OF row])
  have tick: "cn_tick s \<le> cn_tick s1" using keepsD [OF tick_battery watch] by simp
  have "db_statuses (cn_db s1) = db_statuses (cn_db s) \<and> db_robots (cn_db s1) = db_robots (cn_db s)"
    using keepsD [OF status_watch.keeps_watch_battery(2) watch] by simp
  with left_end [OF left k(1)] k tick show ?thesis by auto
qed

lemma recovering_calm: "lp_state l = ''recovering'' \<Longrightarrow> gives (process_recovering l e now) (calm l)"
  unfolding process_recovering_def recovery_failed_def recovery_answered_def recovery_in_progress_def in_progress_begun_def
    in_progress_timeout_def Let_def
  by (intro gives_rules gives_set_state calm_requests calm_waits; simp add: calm_simps clear_recovery_episode_def)

lemma observing_moves:
  assumes run: "process_observing l e latest now w s = (Inr l', s')" and state: "lp_state l = ''observing''"
  shows "calm l l' \<or> (\<exists>robot st. find_robot (lp_robot l) (cn_db s) = Some robot \<and> find_status (rb_id robot) (cn_db s) = Some st
    \<and> safe_to_move w (cn_tick s) robot st \<and> (recovery_move now l l' \<or> watched now l l'))"
proof (cases "case e of None \<Rightarrow> False | Some e \<Rightarrow> ex_state e \<in> {''accepted'', ''running'', ''resuming''}")
  case True
  have "gives (process_observing l e latest now) (calm l)"
    unfolding process_observing_def if_P [OF True]
    by (intro gives_set_state) (simp add: calm_simps clear_recovery_episode_def)
  from givesD [OF this run] show ?thesis ..
next
  case False
  obtain robot b s1 where robot: "find_robot (lp_robot l) (cn_db s) = Some robot" and safety: "observation_safety robot w s = (Inr b, s1)"
    and rest: "(case b of Some (code, message) \<Rightarrow> observation_blocked l latest now code message
          | None \<Rightarrow> if lp_code l = ''COMMAND_TIMED_OUT'' \<and> opt_all (\<lambda>e. ex_state e = ''interrupted'') e then await_reconciliation l now
              else watch_window l e now) w s1 = (Inr l', s')"
    using run unfolding process_observing_def if_not_P [OF False] bindC_ok got by blast
  have blocked: "gives (observation_blocked l latest now code message) (calm l)" "gives (await_reconciliation l now) (calm l)" for code message
    unfolding observation_blocked_def await_reconciliation_def Let_def
    by (intro gives_after_wait gives_rules; simp add: calm_simps)
      (rule gives_then, rule gives_after_wait, rule gives_ends, simp add: calm_simps)
  have quiet: "lp_observed l = None \<or> now < the (lp_observed l) + 5 * SECOND \<or> lp_max_attempts l \<le> lp_attempt l \<or> e = None
      \<or> ex_state (the e) \<in> set TERMINAL_STATES \<Longrightarrow> gives (watch_window l e now) (\<lambda>l'. calm l l' \<or> watched now l l')"
    unfolding watch_window_def observation_begun_def observation_done_def replace_round_def OBSERVATION_SECONDS_def wait_second_def Let_def
    by (intro gives_rules gives_set_state gives_more [OF calm_requests(4)]) (auto simp: calm_simps watched_def state)
  have recovers: "gives (dispatch_recovery l r now) (\<lambda>l'. lp_attempt l' = lp_attempt l + 1 \<and> lp_state l' = ''recovering'')" for r
    unfolding dispatch_recovery_def Let_def by (intro gives_rules gives_set_state) (simp add: calm_simps)
  show ?thesis
  proof (cases b)
    case (Some p)
    with rest givesD [OF blocked(1)] show ?thesis by (cases p) auto
  next
    case None
    note safe = observation_safe [OF safety [unfolded None]]
    show ?thesis
    proof (cases "lp_code l = ''COMMAND_TIMED_OUT'' \<and> opt_all (\<lambda>e. ex_state e = ''interrupted'') e
        \<or> lp_observed l = None \<or> now < the (lp_observed l) + 5 * SECOND \<or> lp_max_attempts l \<le> lp_attempt l \<or> e = None
        \<or> ex_state (the e) \<in> set TERMINAL_STATES")
      case True
      have "calm l l' \<or> watched now l l'"
      proof (cases "lp_code l = ''COMMAND_TIMED_OUT'' \<and> opt_all (\<lambda>e. ex_state e = ''interrupted'') e")
        case True
        with rest None givesD [OF blocked(2)] show ?thesis by simp
      next
        case False
        with True rest None givesD [OF quiet] show ?thesis by simp
      qed
      then show ?thesis using robot safe by blast
    next
      case window: False
      then obtain start r where start: "lp_observed l = Some start" "e = Some r" by auto
      with window rest None have "dispatch_recovery l r now w s1 = (Inr l', s')"
        by (auto simp: watch_window_def observation_done_def OBSERVATION_SECONDS_def split: if_split_asm)
      from givesD [OF recovers this] start window state have "recovery_move now l l'" by (auto simp: recovery_move_def)
      with robot safe show ?thesis by blast
    qed
  qed
qed

lemma healthy: "status_health st = None \<Longrightarrow> sl_localization st = ''normal'' \<and> sl_ros st \<and> sl_nav st"
  by (auto simp: status_health_def split: if_split_asm)

lemma waiting_moves:
  assumes run: "process_waiting l now w s = (Inr l', s')" and state: "lp_state l \<in> {''starting'', ''resting''}"
  shows "calm l l' \<or> (\<exists>robot st. find_robot (lp_robot l) (cn_db s) = Some robot \<and> find_status (rb_id robot) (cn_db s) = Some st
    \<and> safe_to_move w (cn_tick s) robot st \<and> round_move now st l l')"
proof (cases "now < lp_next l")
  case True
  then show ?thesis using run state by (auto simp: process_waiting_def returnC_def calm_def)
next
  case False
  obtain robot b s1 where robot: "find_robot (lp_robot l) (cn_db s) = Some robot" and safety: "health robot w s = (Inr b, s1)"
    and rest: "(case b of Some (code, message) \<Rightarrow> begin_observation l code message | None \<Rightarrow> dispatch_round l) w s1 = (Inr l', s')"
    using run unfolding process_waiting_def if_not_P [OF False] bindC_ok got by blast
  show ?thesis
  proof (cases b)
    case (Some p)
    with rest givesD [OF calm_requests(2)] show ?thesis by (cases p) auto
  next
    case None
    have round: "gives (dispatch_round l) (\<lambda>l'. lp_round l' = lp_round l + 1 \<and> lp_state l' = ''running'')"
      unfolding dispatch_round_def Let_def by (intro gives_rules gives_set_state) (simp add: calm_simps round_begun_def)
    obtain a s2 where seen: "observation_safety robot w s = (Inr a, s2)"
      and health: "(case a of Some x \<Rightarrow> returnC (Some x) | None \<Rightarrow> bindC (dbC (find_status (rb_id robot))) (\<lambda>latest.
           case latest of None \<Rightarrow> raiseC AttributeError | Some l \<Rightarrow> returnC (status_health l))) w s2 = (Inr None, s1)"
      using safety None unfolding health_def bindC_ok by blast
    have a: "a = None" using health by (cases a) (simp_all add: returnC_def)
    note safe = seen [unfolded a]
    from observation_safe [OF safe] obtain st where st: "find_status (rb_id robot) (cn_db s) = Some st" "safe_to_move w (cn_tick s) robot st"
      "cn_db s2 = cn_db s" by blast
    with health a have "status_health st = None" by (simp add: returnC_def bindC_def dbC_def)
    moreover have "lp_round l' = lp_round l + 1 \<and> lp_state l' = ''running''" using rest None givesD [OF round] by simp
    ultimately have "round_move now st l l'" using state False by (auto simp: round_move_def dest: healthy)
    then show ?thesis using robot st by blast
  qed
qed

lemma state_moves:
  assumes run: "process_state l latest now w s = (Inr l', s')" and row: "find_loop (lp_id l) (cn_db s) = Some l"
  shows "calm l l' \<or> (\<exists>robot st. find_robot (lp_robot l) (cn_db s) = Some robot \<and> find_status (rb_id robot) (cn_db s) = Some st
        \<and> safe_to_move w (cn_tick s) robot st
        \<and> (recovery_move now l l' \<or> round_move now st l l' \<or> watched now l l'))"
proof -
  from run [unfolded process_state_def bindC_ok] obtain e s1 where e: "current_execution l w s = (Inr e, s1)"
    and step: "(if lp_state l \<in> {''starting'', ''resting''} then process_waiting l now
       else if lp_state l = ''running'' then process_running l e now
       else if lp_state l = ''observing'' then process_observing l e latest now
       else if lp_state l = ''recovering'' then process_recovering l e now
       else returnC l) w s1 = (Inr l', s')" by blast
  have db: "cn_db s1 = cn_db s" and tick: "cn_tick s \<le> cn_tick s1"
    using e keepsD [OF tick_reads(1) e] by (auto simp: current_execution_def got returnC_def bindC_ok split: option.split_asm)
  consider (w) "lp_state l \<in> {''starting'', ''resting''}" | (r) "lp_state l = ''running''" | (o) "lp_state l = ''observing''"
    | (v) "lp_state l = ''recovering''" | (n) "lp_state l \<notin> {''starting'', ''resting'', ''running'', ''observing'', ''recovering''}" by blast
  then show ?thesis
  proof cases
    case w
    with step have "process_waiting l now w s1 = (Inr l', s')" by auto
    from waiting_moves [OF this w] tick w show ?thesis unfolding db by (blast intro: still_safe)
  next
    case r
    with step have "process_running l e now w s1 = (Inr l', s')" by simp
    from running_calm [OF this _ r] row db show ?thesis by simp
  next
    case o
    with step have "process_observing l e latest now w s1 = (Inr l', s')" by simp
    from observing_moves [OF this o] tick o show ?thesis unfolding db by (blast intro: still_safe)
  next
    case v
    with step have "process_recovering l e now w s1 = (Inr l', s')" by simp
    from givesD [OF recovering_calm [OF v] this] show ?thesis ..
  next
    case n
    with step show ?thesis by (auto simp: returnC_def calm_def)
  qed
qed

text \<open>C7. A patrol loop moves its robot only when it is safe. When a step of the supervisor begins a recovery or a round, then the
  loop was neither paused nor over nor past its end, and the robot is online, its status was received at most 15 seconds ago
  and shows no emergency stop, no manual takeover, no low battery and no measured motion. A recovery moreover begins at least
  five seconds after the start of an observation and counts one attempt, not above the maximum; and an observation has a start
  after a step only if that step found the robot safe in the same sense, and it is the start that it had before, or now: a
  step that finds something in the way takes the start away, in the database too. So every step that the supervisor completed
  during the five seconds found the robot safe. A round begins when its time has come, with normal localization and ready
  navigation, and counts one round. Any other step is calm, and what a step answers is what the database holds.\<close>

theorem loop_moves_robot_only_when_safe:
  assumes run: "process worker pk w s = (Inr l', s')" and row: "find_loop pk (cn_db s) = Some l"
  shows "(\<exists>r. find_loop pk (cn_db s') = Some r \<and> agrees r l') \<and>
    (calm l l' \<or> (\<not> lp_paused l \<and> \<not> loop_over l \<and> cw_now w (cn_tick s) < lp_ends l
    \<and> (\<exists>robot st. find_robot (lp_robot l) (cn_db s) = Some robot \<and> find_status (rb_id robot) (cn_db s) = Some st
        \<and> safe_to_move w (cn_tick s) robot st
        \<and> (recovery_move (cw_now w (cn_tick s)) l l' \<or> round_move (cw_now w (cn_tick s)) st l l' \<or> watched (cw_now w (cn_tick s)) l l'))))"
proof (intro conjI process_stored [OF run row])
  let ?now = "cw_now w (cn_tick s)"
  let ?s = "s\<lparr>cn_tick := Suc (cn_tick s)\<rparr>"
  have id: "lp_id l = pk" using find_loop_id [OF row] .
  have body: "(if lp_state l \<in> set LOOP_TERMINAL_STATES then returnC l
        else if lp_state l = ''stopping'' then process_stopping l ?now
        else if lp_ends l \<le> ?now then process_deadline l ?now
        else if lp_paused l \<or> lp_state l = ''paused'' then ensure_manual_pause l
        else bindC (dbC (find_status (lp_robot l))) (\<lambda>latest.
          bindC (process_battery worker l latest) (\<lambda>l'.
            if lp_state l' \<in> set LOOP_TERMINAL_STATES then returnC l' else process_state l' latest ?now))) w ?s = (Inr l', s')"
    using run row by (auto simp: process_def atomicC_def lock_loop_def getC_def dbC_def bindC_def nowC_def read_tick_def returnC_def
      split: prod.split_asm sum.split_asm)
  have given: "m w ?s = (Inr l', s') \<Longrightarrow> gives m (calm l) \<Longrightarrow> calm l l'" for m by (drule givesD; simp)
  consider (over) "loop_over l" | (halt) "lp_state l = ''stopping'' \<or> lp_ends l \<le> ?now \<or> lp_paused l \<or> lp_state l = ''paused''" "\<not> loop_over l"
    | (works) "\<not> loop_over l" "lp_state l \<noteq> ''stopping''" "?now < lp_ends l" "\<not> lp_paused l" "lp_state l \<noteq> ''paused''"
    by force
  then show "calm l l' \<or> (\<not> lp_paused l \<and> \<not> loop_over l \<and> ?now < lp_ends l
    \<and> (\<exists>robot st. find_robot (lp_robot l) (cn_db s) = Some robot \<and> find_status (rb_id robot) (cn_db s) = Some st
        \<and> safe_to_move w (cn_tick s) robot st \<and> (recovery_move ?now l l' \<or> round_move ?now st l l' \<or> watched ?now l l')))"
  proof cases
    case over
    with body have "l' = l" by (simp add: loop_over_def returnC_def)
    with calm_over [OF over] show ?thesis by simp
  next
    case halt
    then have "calm l l'" using body given [OF _ calm_pause] given [OF _ calm_requests(1)] given [OF _ calm_requests(3)]
      by (auto simp: loop_over_def split: if_split_asm)
    then show ?thesis ..
  next
    case works
    then obtain k s1 where battery: "process_battery worker l (find_status (lp_robot l) (cn_db s)) w ?s = (Inr k, s1)"
      and rest: "(if lp_state k \<in> set LOOP_TERMINAL_STATES then returnC k
          else process_state k (find_status (lp_robot l) (cn_db s)) ?now) w s1 = (Inr l', s')"
      using body by (auto simp: loop_over_def dbC_def bindC_def split: prod.split_asm sum.split_asm)
    have "find_loop (lp_id l) (cn_db ?s) = Some l" using row id by simp
    note left = battery_leaves [OF battery this]
    show ?thesis
    proof (cases "loop_over k")
      case True
      then have "l' = k" using rest by (simp add: loop_over_def returnC_def)
      with calm_over [OF True] show ?thesis by simp
    next
      case False
      with left rest have k: "k = l" and row1: "find_loop (lp_id l) (cn_db s1) = Some l"
        and step: "process_state l (find_status (lp_robot l) (cn_db s)) ?now w s1 = (Inr l', s')"
        by (auto simp: loop_over_def)
      from left have same: "find_robot i (cn_db s1) = find_robot i (cn_db s)" "find_status i (cn_db s1) = find_status i (cn_db s)" for i
        by (simp_all add: find_robot_def find_status_def)
      from left have later: "cn_tick s \<le> cn_tick s1" by simp
      show ?thesis
      proof (cases "calm l l'")
        case active: False
        with state_moves [OF step row1] obtain robot :: robot_row and st
          where st: "find_robot (lp_robot l) (cn_db s) = Some robot" "find_status (rb_id robot) (cn_db s) = Some st"
          and safe: "safe_to_move w (cn_tick s1) robot st"
          and moves: "recovery_move ?now l l' \<or> round_move ?now st l l' \<or> watched ?now l l'"
          unfolding same by blast
        from still_safe [OF safe later] st moves works show ?thesis by blast
      qed simp
    qed
  qed
qed

text \<open>A session that watches a robot at rest for five seconds, and then has it recover.\<close>

definition resting_world :: center_world where
  "resting_world = (sample_world [])\<lparr>cw_now := (\<lambda>_. 10 * SECOND)\<rparr>"

definition resting_status :: status_row where
  "resting_status = sample_status\<lparr>sl_received := 9 * SECOND\<rparr>"

definition watched_loop :: loop_row where
  "watched_loop = (sample_loop ''a'' ''observing'')\<lparr>lp_execution := Some ''e1'', lp_observed := Some (4 * SECOND), lp_attempt := 3, lp_finished := None\<rparr>"

definition watched_center :: center_state where
  "watched_center = (let s = sample_center [sample_execution ''interrupted'' ''NAV_FAILED''] in
     s\<lparr>cn_db := (cn_db s)\<lparr>db_robots := [sample_robot\<lparr>rb_last_seen := Some (9 * SECOND)\<rparr>], db_statuses := [resting_status],
        db_loops := [watched_loop]\<rparr>\<rparr>)"

lemma watched_run:
  "\<exists>l' s'. process ''w'' ''a'' resting_world watched_center = (Inr l', s') \<and> lp_state l' = ''recovering''"
  by (rule run_cases, code_simp)

theorem loop_moves_robot_only_when_safe_witness:
  "\<exists>l' s'. process ''w'' ''a'' resting_world watched_center = (Inr l', s') \<and> lp_state l' = ''recovering'' \<and> lp_attempt l' = 4
     \<and> (\<exists>robot st. safe_to_move resting_world 0 robot st)
     \<and> (\<exists>r. find_loop ''a'' (cn_db s') = Some r \<and> lp_state r = ''recovering'' \<and> lp_attempt r = 4)"
proof -
  from watched_run obtain l' s' where run: "process ''w'' ''a'' resting_world watched_center = (Inr l', s')" "lp_state l' = ''recovering''" by blast
  have row: "find_loop ''a'' (cn_db watched_center) = Some watched_loop" "lp_state watched_loop = ''observing''" "lp_attempt watched_loop = 3"
      "cn_tick watched_center = 0" by code_simp+
  have "\<not> calm watched_loop l'" using run(2) row(2) by (simp add: calm_def)
  with loop_moves_robot_only_when_safe [OF run(1) row(1)] run row(2-4) show ?thesis
    by (auto simp: agrees_def recovery_move_def round_move_def watched_def)
qed

end
