(* ===== verification/Spec2Isabelle.thy ===== *)
theory Spec2Isabelle
  imports Protocol Arbiter Safety Store HealStore SelfHealing Trajectory Mqtt MotionSearch Boundary
    MapSet TeleopSkill PersonFollow NavProfiles CommandMotion RoutePlan MapConstraints CenterTrajectory CenterLoopRun CenterStatus CenterLoopSafe
begin

text \<open>
  A verification development of RoamerX, a system of patrol robots: the edge agent \<open>edge-agent/roamerx_edge\<close>, the Python
  program that runs on the robot dog, and the task and command core of the monitoring center
  \<open>platform/backend/monitoring\<close>, a Django application. The two exchange JSON messages over MQTT.

  \<^bold>\<open>The center.\<close> Operators and services of the center create executions of patrol tasks (\<open>services/task_service.py\<close>) and
  commands for them (\<open>services/command_service.py\<close>), alone, by schedules (\<open>services/schedule_service.py\<close>), as docking tasks
  (\<open>services/docking_service.py\<close>) or as the rounds of a patrol loop, whose supervisor observes the robot and starts its recovery
  (\<open>services/patrol_loop_service.py\<close>). All are rows of a relational database (\<open>models.py\<close>), whose constraints and
  transactions the correctness rests on. A device worker (\<open>mqtt_client.py\<close>, \<open>management/commands\<close>) publishes the commands,
  sweeps those that were not confirmed in time, and hands every message of a robot to \<open>message_handlers.py\<close>, which records
  it in an audit table and moves commands, executions and trajectories forward.

  \<^bold>\<open>The edge agent.\<close> A message arrives from MQTT (\<open>mqtt_client.py\<close>), is decoded and validated (\<open>protocol.py\<close>) and handled by
  the command processor (\<open>command_processor.py\<close>), which asks the safety policy (\<open>safety_policy.py\<close>) and the navigation
  boundary (\<open>navigation_boundary.py\<close>), records acknowledgements and results in the local store (\<open>local_store.py\<close>), and
  calls the task executor, the navigation stack, the localization and the teleoperation adapters. Faults during a task are
  diagnosed and repaired by the self-healing engine (\<open>self_healing.py\<close>) under leases of the recovery arbiter
  (\<open>recovery_arbiter.py\<close>). Outgoing messages pass through a durable outbox until the center acknowledges them.

  \<^bold>\<open>Theories and the code they model.\<close> In the order of the imports:
  \<^item> \<open>Py\<close>, \<open>PyText\<close>, \<open>PyStd\<close>: the prelude. Python values, truth, dictionaries, exceptions as values of a sum type, statement
    sequences, text functions, numbers with NaN and infinities, ISO timestamps and UUIDs.
  \<^item> \<open>Protocol\<close>: \<open>protocol.py\<close>. Decoding with every check of every command type, and the envelopes of the answers.
  \<^item> \<open>Arbiter\<close>: \<open>recovery_arbiter.py\<close>. Leases with generations, the budget of an episode; a locale for the lease interface.
  \<^item> \<open>Safety\<close>: \<open>safety_policy.py\<close> and \<open>localization_recovery.py\<close>. The interlocks, the wait for a stable localization, the
    choice of a relocalization seed.
  \<^item> \<open>Store\<close>, \<open>HealStore\<close>: \<open>local_store.py\<close>. Every table and method of the store; the outbox as a locale.
  \<^item> \<open>SelfHealing\<close>: \<open>self_healing.py\<close>. Episodes, the decision matrix, the authorization of actions, on top of \<open>HealStore\<close>.
  \<^item> \<open>Trajectory\<close>, \<open>Mqtt\<close>: \<open>trajectory_buffer.py\<close> and the publishing half of \<open>mqtt_client.py\<close>, on top of the outbox locale.
  \<^item> \<open>MotionSearch\<close>, \<open>Boundary\<close>, \<open>MapSet\<close>: the relocalization turn search, the polygon checks of the navigation boundary,
    and the switching between submaps (\<open>relocalization_motion_search.py\<close>, \<open>navigation_boundary.py\<close>, \<open>map_set_coordinator.py\<close>).
  \<^item> \<open>SkillCatalog\<close>, \<open>TeleopSkill\<close>, \<open>PersonFollow\<close>, \<open>NavProfiles\<close>: the teleoperation skills with their control loops
    (\<open>teleop_skill_executor.py\<close>), person following, speed tiers and planner selectors.
  \<^item> \<open>CommandMonad\<close>, \<open>CommandLocalize\<close>, \<open>CommandExec\<close>, \<open>CommandNav\<close>, \<open>CommandProcessor\<close>: \<open>command_processor.py\<close>. The first
    defines handlers as functions of a world (the answers of everything outside the handler) and a state (local store, safety
    state, locks, events), with rules for frames, event policies and triples. The others hold the handlers: shared
    localization; teleoperation, sensors, charging, audio and mapping; maps and navigation; task controls and \<open>handle_command\<close>.
  \<^item> \<open>CommandRecord\<close>, \<open>CommandOnce\<close>, \<open>CommandOrder\<close>, \<open>CommandMotion\<close>: the properties of the command processor.

  \<^item> \<open>Effect\<close>: statements of handlers as functions of a world and a state with exceptions, with frame rules (\<open>keeps\<close>)
    and triples; the command processor and the center are both written in it.
  \<^item> \<open>RoutePlan\<close>, \<open>MapConstraints\<close>: the route geometry and the start waypoint of \<open>task_executor.py\<close>, the map coordinate
    constraints of \<open>map_coordinate_constraints.py\<close>.
  \<^item> \<open>CenterProtocol\<close>: the center's \<open>protocol.py\<close>. \<open>CenterDb\<close>: the rows of \<open>models.py\<close> with the constraints of the database,
    the transactions, and what a run of the center sends. \<open>CenterTask\<close>: \<open>task_service.py\<close> without its state machine,
    which is \<open>CenterExecution\<close>. \<open>CenterCommand\<close>: \<open>command_service.py\<close>. \<open>CenterMessages\<close>, \<open>CenterEvents\<close>, \<open>CenterInbound\<close>:
    \<open>message_handlers.py\<close>, its command handlers, its task, trajectory and synchronization handlers, and the audit, transaction
    and retry around them; the device worker is at the end of \<open>CenterInbound\<close>.
  \<^item> \<open>CenterLoop\<close>, \<open>CenterSupervisor\<close>: \<open>patrol_loop_service.py\<close>, the sessions, the requests of operators and the low battery
    protection, then the supervisor. \<open>CenterTelemetry\<close>: \<open>telemetry_service.py\<close>, \<open>trajectory_distance_service.py\<close> and the low
    battery part of an alert. \<open>CenterSchedule\<close>: \<open>schedule_service.py\<close> and \<open>docking_service.py\<close>.
  \<^item> \<open>CenterRules\<close>, \<open>CenterSteps\<close>: the frame rules of the center; the locale of contracts on execution rows with the lemma that
    every operation keeps one. \<open>CenterHistory\<close>, \<open>CenterReliable\<close>, \<open>CenterAdmission\<close>, \<open>CenterTrajectory\<close>: the properties of the
    center, where the first interprets the locales on the state machine and on the uniqueness constraint.
  \<^item> \<open>CenterFrame\<close>, \<open>CenterLoopRun\<close>: what leaves the sessions of loops alone, as a locale, and the state machine of a loop
    under every run, with the locale of the predicates that its steps keep. \<open>CenterStatus\<close>: the newest status and the distance
    of a loop. \<open>CenterLoopRow\<close>: what a step of the supervisor answers is what the database holds. \<open>CenterLoopSafe\<close>: when the
    supervisor moves a robot, with rules for what a statement returns.

  \<^bold>\<open>What the lemmas show.\<close> Of the center: under every sequence of messages, sweeps and publications an execution keeps its
  identity, its version never decreases, its states follow the state machine and the reports, and an ended execution stays
  ended; a robot has at most one active execution and at most one patrol loop, whose session
  follows its own state machine and moves the robot only when it was observed to be safe; a message takes effect once, or rolls back whole; trajectory points are
  never changed and are acknowledged after they are stored; a start that times out holds its robot; a command is created whole
  or not at all, and never below the battery threshold. Of the protocol: what a decoded message is guaranteed to be, that every decoded command can be
  answered, and that built messages decode. Of the store and the outbox: well-formed tables under every call sequence,
  nothing lost before it is acknowledged, statistics unchanged by pruning, open records closed after a restart. Of the arbiter
  and the self-healing: stale leases have no power, the budget bounds the repairs, an authorized action belongs to the active
  episode. Of motion: boundaries and clearances of routes, velocities of skills and of person following, the zero command
  at their end. Of the command processor: at most one execution per command id, answers saved before they are published,
  nothing done before the acceptance, no activation of autonomous motion before the final localization gate, a started
  task launched or cleared, bounded manual velocities, and answers only under the command's own id.

  \<^bold>\<open>Conventions.\<close> An exception is a left value; every \<open>raise\<close> and early return is a branch. Clocks, identifiers, other
  threads, adapters and their failures are arguments or answers of a world, and theorems hold for all of them. A finite float is
  a real number (rounding is not modelled; NaN and the infinities are). Operator texts that are not ASCII are written in
  English between angle brackets. The exceptions that Python itself raises are modelled by their class.

  \<^bold>\<open>Bounds and fuel.\<close> Loops over data are structural. A loop \<open>while time.monotonic() < deadline\<close> runs for a number of rounds that
  the world gives, so that the theorems hold for every number; the loops whose end is a claim (the wait of the safety policy, the
  turn search, the skills) are proved to end from properties of the clock, as a partial function or with a measure.

  \<^bold>\<open>Not modelled.\<close> The task executor (\<open>task_executor.py\<close>), whose calls and context are answers in the command processor; the ROS
  adapter, mapping, map files, perception and process control, which are glue to code outside the repository; the receiving
  half of the MQTT client and the mask file of the boundary. Of the center: the views and serializers of the REST interface, the
  stores of alerts and system logs (arguments of the model where the message handlers call them), retention, maps, the calendar
  of the schedules, the speech queues, the user interface. The robot's own software.
  What the callees of the command processor write to other tables of the local store (outbox, task context, trusted pose) is not
  followed there, and the deletion of inactive executions by the views of the center is not modelled.
  Progress messages that an adapter sends through the callback it was given are part of the adapter's call, and changes
  other threads make to the safety state are seen at the points where the handler waits for an adapter.
\<close>

end
